(* ===== verification/Prelude.thy ===== *)
theory Prelude
  imports Main "HOL-Library.AList" "HOL-Library.Sublist"
begin

text \<open>
  Shared ground of the development: Rust's \<open>str\<close> and \<open>Vec<u8>\<close> as lists of bytes, the
  standard-library operations on them that the program uses (UTF-8 validation and lossy
  decoding, trimming, splitting, ASCII case folding, decimal numbers), and the generic facts
  about them that every component's proofs share.

  A Rust \<open>str\<close> is its UTF-8 bytes and \<open>len()\<close> counts bytes, so a \<open>string\<close> here is a list of
  bytes (a HOL \<open>char\<close> is an 8-bit value) and a \<open>str\<close> is a \<open>string\<close> with \<open>valid_utf8\<close>.
  Lower and upper case of characters beyond ASCII come from the Unicode tables, which are data
  and no code of the program: a function on the bytes of one such character.
\<close>

named_theorems bytes_simps "facts on bytes and strings the component proofs rewrite with"

type_synonym bytes = string

section \<open>Bytes\<close>

definition code :: "char \<Rightarrow> nat" where
  "code c = of_char c"

definition is_ascii_char :: "char \<Rightarrow> bool" where
  "is_ascii_char c \<longleftrightarrow> code c < 128"

definition is_ascii_lowercase :: "char \<Rightarrow> bool" where
  "is_ascii_lowercase c \<longleftrightarrow> 97 \<le> code c \<and> code c \<le> 122"

definition is_ascii_uppercase :: "char \<Rightarrow> bool" where
  "is_ascii_uppercase c \<longleftrightarrow> 65 \<le> code c \<and> code c \<le> 90"

definition is_ascii_digit :: "char \<Rightarrow> bool" where
  "is_ascii_digit c \<longleftrightarrow> 48 \<le> code c \<and> code c \<le> 57"

definition is_ascii_alphanumeric :: "char \<Rightarrow> bool" where
  "is_ascii_alphanumeric c \<longleftrightarrow> is_ascii_lowercase c \<or> is_ascii_uppercase c \<or> is_ascii_digit c"

definition to_ascii_lower :: "char \<Rightarrow> char" where
  "to_ascii_lower c = (if is_ascii_uppercase c then char_of (code c + 32) else c)"

definition to_ascii_upper :: "char \<Rightarrow> char" where
  "to_ascii_upper c = (if is_ascii_lowercase c then char_of (code c - 32) else c)"

definition to_ascii_lowercase :: "string \<Rightarrow> string" where
  "to_ascii_lowercase s = map to_ascii_lower s"

definition eq_ignore_ascii_case :: "string \<Rightarrow> string \<Rightarrow> bool" where
  "eq_ignore_ascii_case s t \<longleftrightarrow> to_ascii_lowercase s = to_ascii_lowercase t"

definition is_ascii :: "string \<Rightarrow> bool" where
  "is_ascii s \<longleftrightarrow> list_all is_ascii_char s"

definition LF :: char where "LF = CHR 0x0A"

definition CR :: char where "CR = CHR 0x0D"

lemmas byte_defs = code_def is_ascii_char_def is_ascii_lowercase_def is_ascii_uppercase_def
  is_ascii_digit_def is_ascii_alphanumeric_def LF_def CR_def

lemma code_less_256 [simp]: "code c < 256"
  by (simp add: code_def)

lemma code_char_of [simp]: "n < 256 \<Longrightarrow> code (char_of n) = n"
  by (simp add: code_def)

lemma code_inject [simp]: "code c = code d \<longleftrightarrow> c = d"
  by (simp add: code_def)

lemma char_eq_iff_code: "c = d \<longleftrightarrow> code c = code d"
  by simp

section \<open>UTF-8\<close>

text \<open>
  \<open>utf8_step\<close> reads one character of well-formed UTF-8 (RFC 3629, the table
  \<open>core::str\<close> validates against) off the front: the flag says whether it is one, the number is
  how many bytes it spans, or how many bytes of a broken sequence are replaced together.
\<close>

definition cont_byte :: "char \<Rightarrow> bool" where
  "cont_byte c \<longleftrightarrow> 128 \<le> code c \<and> code c \<le> 191"

definition lead_width :: "char \<Rightarrow> nat" where
  "lead_width c =
     (if code c < 128 then 1
      else if 194 \<le> code c \<and> code c \<le> 223 then 2
      else if 224 \<le> code c \<and> code c \<le> 239 then 3
      else if 240 \<le> code c \<and> code c \<le> 244 then 4
      else 0)"

definition second_ok :: "char \<Rightarrow> char \<Rightarrow> bool" where
  "second_ok b0 b1 \<longleftrightarrow> cont_byte b1 \<and>
     (code b0 = 224 \<longrightarrow> 160 \<le> code b1) \<and>
     (code b0 = 237 \<longrightarrow> code b1 \<le> 159) \<and>
     (code b0 = 240 \<longrightarrow> 144 \<le> code b1) \<and>
     (code b0 = 244 \<longrightarrow> code b1 \<le> 143)"

definition utf8_step :: "char \<Rightarrow> string \<Rightarrow> bool \<times> nat" where
  "utf8_step b0 r =
     (let w = lead_width b0 in
      if w = 1 then (True, 1)
      else if w = 0 then (False, 1)
      else (case r of
          [] \<Rightarrow> (False, 1)
        | b1 # r1 \<Rightarrow>
            if \<not> second_ok b0 b1 then (False, 1)
            else if w = 2 then (True, 2)
            else (case r1 of
                [] \<Rightarrow> (False, 2)
              | b2 # r2 \<Rightarrow>
                  if \<not> cont_byte b2 then (False, 2)
                  else if w = 3 then (True, 3)
                  else (case r2 of
                      [] \<Rightarrow> (False, 3)
                    | b3 # r3 \<Rightarrow> if cont_byte b3 then (True, 4) else (False, 3)))))"

lemma utf8_step_pos: "0 < snd (utf8_step b0 r)"
  by (simp add: utf8_step_def Let_def split: list.splits)

text \<open>The string cut into its characters and its broken sequences, each flagged.\<close>

function utf8_chunks :: "string \<Rightarrow> (bool \<times> string) list" where
  "utf8_chunks [] = []"
| "utf8_chunks (b0 # r) =
     (case utf8_step b0 r of (ok, n) \<Rightarrow>
        (ok, take n (b0 # r)) # utf8_chunks (drop n (b0 # r)))"
  by pat_completeness auto
termination
proof (relation "measure length", goal_cases)
  case (2 b0 r)
  then show ?case using utf8_step_pos [of b0 r] by (cases "utf8_step b0 r") auto
qed simp

definition valid_utf8 :: "string \<Rightarrow> bool" where
  "valid_utf8 s \<longleftrightarrow> list_all fst (utf8_chunks s)"

definition utf8_chars :: "string \<Rightarrow> string list" where
  "utf8_chars s = map snd (utf8_chunks s)"

text \<open>U+FFFD, which \<open>from_utf8_lossy\<close> puts in place of every broken sequence.\<close>

definition replacement_char :: string where
  "replacement_char = [CHR 0xEF, CHR 0xBF, CHR 0xBD]"

definition utf8_lossy :: "bytes \<Rightarrow> string" where
  "utf8_lossy s = concat (map (\<lambda>(ok, c). if ok then c else replacement_char) (utf8_chunks s))"

lemma utf8_chunks_ascii [simp]:
  "is_ascii_char c \<Longrightarrow> utf8_chunks (c # s) = (True, [c]) # utf8_chunks s"
  by (simp add: is_ascii_char_def utf8_step_def lead_width_def)

declare utf8_chunks.simps(2) [simp del]

lemma valid_utf8_Nil [simp]: "valid_utf8 []"
  by (simp add: valid_utf8_def)

lemma valid_utf8_ascii [simp]: "is_ascii_char c \<Longrightarrow> valid_utf8 (c # s) = valid_utf8 s"
  by (simp add: valid_utf8_def)

lemma valid_utf8_is_ascii_append: "is_ascii s \<Longrightarrow> valid_utf8 (s @ t) = valid_utf8 t"
  by (induction s) (auto simp: is_ascii_def)

lemma valid_utf8_is_ascii: "is_ascii s \<Longrightarrow> valid_utf8 s"
  using valid_utf8_is_ascii_append [of s "[]"] by simp

text \<open>A well-formed character is read off by its own bytes, whatever follows.\<close>

lemma valid_utf8_Cons:
  "valid_utf8 (b # r) \<longleftrightarrow>
     fst (utf8_step b r) \<and> valid_utf8 (drop (snd (utf8_step b r)) (b # r))"
  by (cases "utf8_step b r") (simp add: valid_utf8_def utf8_chunks.simps(2))

lemma utf8_step_True:
  assumes "utf8_step b r = (True, n)"
  shows "utf8_step b (take (n - 1) r @ t) = (True, n)" "length (take (n - 1) r) = n - 1"
    "list_all cont_byte (take (n - 1) r)"
  using assms
  by (auto simp: utf8_step_def Let_def second_ok_def split: list.splits if_splits)

lemma cont_byte_not_ascii: "cont_byte c \<Longrightarrow> \<not> is_ascii_char c"
  by (simp add: cont_byte_def is_ascii_char_def)

lemma valid_utf8_append:
  "valid_utf8 a \<Longrightarrow> valid_utf8 b \<Longrightarrow> valid_utf8 (a @ b)"
proof (induction a rule: utf8_chunks.induct)
  case (2 b0 r)
  then obtain n where n: "utf8_step b0 r = (True, n)" and v: "valid_utf8 (drop n (b0 # r))"
    by (cases "utf8_step b0 r") (auto simp: valid_utf8_Cons)
  have pos: "0 < n" using utf8_step_pos [of b0 r] n by simp
  note step = utf8_step_True [OF n]
  have r: "r @ b = take (n - 1) r @ (drop (n - 1) r @ b)" by simp
  have "utf8_step b0 (r @ b) = (True, n)" by (subst r) (rule step(1))
  moreover have "drop n (b0 # r @ b) = drop n (b0 # r) @ b" using step(2) pos by (cases n) auto
  moreover have "valid_utf8 (drop n (b0 # r) @ b)" using "2.IH" [OF n [symmetric] v] "2.prems"(2) .
  ultimately show ?case by (simp add: valid_utf8_Cons)
qed simp

lemma valid_utf8_filter:
  assumes "\<And>c. \<not> P c \<Longrightarrow> is_ascii_char c"
  shows "valid_utf8 s \<Longrightarrow> valid_utf8 (filter P s)"
proof (induction s rule: utf8_chunks.induct)
  case (2 b0 r)
  then obtain n where n: "utf8_step b0 r = (True, n)" and v: "valid_utf8 (drop n (b0 # r))"
    by (cases "utf8_step b0 r") (auto simp: valid_utf8_Cons)
  have pos: "0 < n" using utf8_step_pos [of b0 r] n by simp
  note step = utf8_step_True [OF n]
  have IH: "valid_utf8 (filter P (drop n (b0 # r)))" using "2.IH" [OF n [symmetric] v] .
  show ?case
  proof (cases "is_ascii_char b0")
    case True
    with n have "n = 1" by (simp add: utf8_step_def lead_width_def is_ascii_char_def)
    with IH True show ?thesis by simp
  next
    case False
    have "filter P (take (n - 1) r) = take (n - 1) r"
      using step(3) assms cont_byte_not_ascii by (intro filter_True) (auto simp: list_all_iff)
    then have f: "filter P r = take (n - 1) r @ filter P (drop (n - 1) r)"
      by (metis append_take_drop_id filter_append)
    have "P b0" using False assms by blast
    then have "filter P (b0 # r) = b0 # take (n - 1) r @ filter P (drop (n - 1) r)" using f by simp
    moreover have "drop n (b0 # take (n - 1) r @ filter P (drop (n - 1) r)) = filter P (drop n (b0 # r))"
      using pos step(2) by (cases n) auto
    ultimately show ?thesis
      using IH step(1) [of "filter P (drop (n - 1) r)"] by (simp add: valid_utf8_Cons)
  qed
qed simp

lemma concat_utf8_chunks: "concat (map snd (utf8_chunks s)) = s"
proof (induction s rule: utf8_chunks.induct)
  case (2 b0 r)
  obtain ok n where "utf8_step b0 r = (ok, n)" by fastforce
  with 2 show ?case
    by (simp add: utf8_chunks.simps(2))
qed simp

text \<open>Lossy decoding keeps well-formed text as it is.\<close>

lemma utf8_lossy_valid:
  assumes "valid_utf8 s"
  shows "utf8_lossy s = s"
proof -
  have "concat (map (\<lambda>(ok, c). if ok then c else replacement_char) cs) = concat (map snd cs)"
    if "list_all fst cs" for cs
    using that by (induction cs) auto
  with assms show ?thesis
    by (simp add: utf8_lossy_def valid_utf8_def concat_utf8_chunks)
qed

lemma concat_utf8_chars: "concat (utf8_chars s) = s"
  by (simp add: utf8_chars_def concat_utf8_chunks)

section \<open>Trimming\<close>

text \<open>
  \<open>strip_pats ps s\<close> drops, as long as it can, a prefix of \<open>s\<close> that is one of \<open>ps\<close>. With the
  UTF-8 encodings of the characters of Unicode's \<open>White_Space\<close> property it is
  \<open>str::trim_start\<close>; on the reversed string, with the encodings reversed, \<open>str::trim_end\<close>.
\<close>

definition strips :: "string \<Rightarrow> string \<Rightarrow> bool" where
  "strips s p \<longleftrightarrow> p \<noteq> [] \<and> take (length p) s = p"

function strip_pats :: "string list \<Rightarrow> string \<Rightarrow> string" where
  "strip_pats ps s =
     (case find (strips s) ps of None \<Rightarrow> s | Some p \<Rightarrow> strip_pats ps (drop (length p) s))"
  by pat_completeness auto
termination
proof (relation "measure (\<lambda>(ps, s). length s)", goal_cases)
  case (2 ps s p)
  then have "strips s p" by (auto simp: find_Some_iff)
  then have "p \<noteq> []" "s \<noteq> []" by (auto simp: strips_def)
  then show ?case by simp
qed simp

declare strip_pats.simps [simp del]

definition white_space :: "string list" where
  "white_space =
     [[CHR 0x09], [CHR 0x0A], [CHR 0x0B], [CHR 0x0C], [CHR 0x0D], [CHR 0x20],
      [CHR 0xC2, CHR 0x85], [CHR 0xC2, CHR 0xA0], [CHR 0xE1, CHR 0x9A, CHR 0x80],
      [CHR 0xE2, CHR 0x80, CHR 0x80], [CHR 0xE2, CHR 0x80, CHR 0x81],
      [CHR 0xE2, CHR 0x80, CHR 0x82], [CHR 0xE2, CHR 0x80, CHR 0x83],
      [CHR 0xE2, CHR 0x80, CHR 0x84], [CHR 0xE2, CHR 0x80, CHR 0x85],
      [CHR 0xE2, CHR 0x80, CHR 0x86], [CHR 0xE2, CHR 0x80, CHR 0x87],
      [CHR 0xE2, CHR 0x80, CHR 0x88], [CHR 0xE2, CHR 0x80, CHR 0x89],
      [CHR 0xE2, CHR 0x80, CHR 0x8A], [CHR 0xE2, CHR 0x80, CHR 0xA8],
      [CHR 0xE2, CHR 0x80, CHR 0xA9], [CHR 0xE2, CHR 0x80, CHR 0xAF],
      [CHR 0xE2, CHR 0x81, CHR 0x9F], [CHR 0xE3, CHR 0x80, CHR 0x80]]"

definition trim_start :: "string \<Rightarrow> string" where
  "trim_start s = strip_pats white_space s"

definition trim_end :: "string \<Rightarrow> string" where
  "trim_end s = rev (strip_pats (map rev white_space) (rev s))"

definition trim :: "string \<Rightarrow> string" where
  "trim s = trim_end (trim_start s)"

lemma find_strips_Cons:
  "find P (p # ps) = (if P p then Some p else find P ps)"
  by simp

text \<open>One step of each: a blank in front or at the end goes, an ordinary byte stays.\<close>

definition plain_byte :: "char \<Rightarrow> bool" where
  "plain_byte c \<longleftrightarrow> 33 \<le> code c \<and> code c \<le> 126"

lemma strips_Nil [simp]: "\<not> strips s []"
  by (simp add: strips_def)

lemma strips_empty [simp]: "\<not> strips [] p"
  by (cases p) (simp_all add: strips_def)

lemma strips_Cons [simp]: "strips (c # s) (d # p) \<longleftrightarrow> c = d \<and> take (length p) s = p"
  by (auto simp: strips_def)

lemma white_space_ends:
  "list_all (\<lambda>p. p \<noteq> [] \<and> \<not> plain_byte (hd p) \<and> \<not> plain_byte (last p)) white_space"
  by (simp add: white_space_def plain_byte_def code_def)

lemma strips_hd: "strips (c # s) p \<Longrightarrow> hd p = c"
  by (cases p) auto

lemma find_white_space_plain:
  "plain_byte c \<Longrightarrow> find (strips (c # s)) white_space = None"
  using white_space_ends by (auto simp: find_None_iff list_all_iff dest: strips_hd)

lemma find_white_space_rev_plain:
  assumes "plain_byte c"
  shows "find (strips (c # s)) (map rev white_space) = None"
proof -
  have "\<not> strips (c # s) (rev p)" if "p \<in> set white_space" for p
  proof
    assume "strips (c # s) (rev p)"
    then have "hd (rev p) = c" by (rule strips_hd)
    with that assms white_space_ends show False by (auto simp: hd_rev list_all_iff)
  qed
  then show ?thesis by (auto simp: find_None_iff)
qed

lemma find_white_space_blank:
  assumes "c \<in> {CHR 0x20, CHR 0x09, CR, LF}"
  shows "find (strips (c # s)) white_space = Some [c]"
proof -
  have "find (strips (CHR 0x20 # s)) white_space = Some [CHR 0x20]"
    "find (strips (CHR 0x09 # s)) white_space = Some [CHR 0x09]"
    "find (strips (CHR 0x0D # s)) white_space = Some [CHR 0x0D]"
    "find (strips (CHR 0x0A # s)) white_space = Some [CHR 0x0A]"
    by (simp_all add: white_space_def)
  with assms show ?thesis by (elim insertE) (simp_all only: CR_def LF_def empty_iff)
qed

lemma find_white_space_rev_blank:
  assumes "c \<in> {CHR 0x20, CHR 0x09, CR, LF}"
  shows "find (strips (c # s)) (map rev white_space) = Some [c]"
proof -
  have "find (strips (CHR 0x20 # s)) (map rev white_space) = Some [CHR 0x20]"
    "find (strips (CHR 0x09 # s)) (map rev white_space) = Some [CHR 0x09]"
    "find (strips (CHR 0x0D # s)) (map rev white_space) = Some [CHR 0x0D]"
    "find (strips (CHR 0x0A # s)) (map rev white_space) = Some [CHR 0x0A]"
    by (simp_all add: white_space_def)
  with assms show ?thesis by (elim insertE) (simp_all only: CR_def LF_def empty_iff)
qed

lemma find_strips_empty: "find (strips []) ps = None"
  by (simp add: find_None_iff)

lemma trim_start_Nil [simp]: "trim_start [] = []"
  by (simp add: trim_start_def strip_pats.simps find_strips_empty)

lemma trim_end_Nil [simp]: "trim_end [] = []"
  by (simp add: trim_end_def strip_pats.simps find_strips_empty)

lemma trim_Nil [simp]: "trim [] = []"
  by (simp add: trim_def)

lemma trim_start_plain [simp]: "plain_byte c \<Longrightarrow> trim_start (c # s) = c # s"
  by (simp add: trim_start_def strip_pats.simps find_white_space_plain)

lemma trim_start_blank:
  "c \<in> {CHR 0x20, CHR 0x09, CR, LF} \<Longrightarrow> trim_start (c # s) = trim_start s"
  by (simp add: trim_start_def strip_pats.simps [of _ "c # s"] find_white_space_blank)

lemma trim_end_plain [simp]: "plain_byte c \<Longrightarrow> trim_end (s @ [c]) = s @ [c]"
  by (simp add: trim_end_def strip_pats.simps find_white_space_rev_plain)

lemma trim_end_blank:
  "c \<in> {CHR 0x20, CHR 0x09, CR, LF} \<Longrightarrow> trim_end (s @ [c]) = trim_end s"
  by (simp add: trim_end_def strip_pats.simps [of _ "c # rev s"] find_white_space_rev_blank)

lemma trim_space [bytes_simps]: "trim (CHR '' '' # s) = trim s"
  by (simp add: trim_def trim_start_blank)

text \<open>A string whose first and last bytes are ordinary is its own trim.\<close>

lemma trim_plain_ends:
  assumes "s \<noteq> []" "plain_byte (hd s)" "plain_byte (last s)"
  shows "trim s = s"
proof -
  from assms obtain c t where "s = c # t" "plain_byte c" by (cases s) auto
  then have "trim_start s = s" by simp
  moreover from assms have "trim_end s = s"
    by (metis append_butlast_last_id trim_end_plain)
  ultimately show ?thesis by (simp add: trim_def)
qed

lemma trim_all_plain: "list_all plain_byte s \<Longrightarrow> trim s = s"
  by (cases "s = []") (auto simp: list_all_iff intro!: trim_plain_ends)

text \<open>Trimming only ever drops an end of the string, and stops at the first ordinary byte.\<close>

lemma strip_pats_suffix: "\<exists>p. s = p @ strip_pats ps s"
proof (induction ps s rule: strip_pats.induct)
  case (1 ps s)
  show ?case
  proof (cases "find (strips s) ps")
    case None
    then show ?thesis by (simp add: strip_pats.simps [of ps s])
  next
    case (Some p)
    then have "strip_pats ps s = strip_pats ps (drop (length p) s)"
      by (simp add: strip_pats.simps [of ps s])
    moreover obtain q where "drop (length p) s = q @ strip_pats ps (drop (length p) s)"
      using "1.IH" [OF Some] by blast
    ultimately have "s = (take (length p) s @ q) @ strip_pats ps s"
      by (metis append.assoc append_take_drop_id)
    then show ?thesis by blast
  qed
qed

lemma strip_pats_subset: "set (strip_pats ps s) \<subseteq> set s"
proof (induction ps s rule: strip_pats.induct)
  case (1 ps s)
  then show ?case by (subst strip_pats.simps) (auto split: option.splits dest: in_set_dropD)
qed

lemma trim_subset: "set (trim s) \<subseteq> set s"
  using strip_pats_subset [of white_space s] strip_pats_subset [of "map rev white_space" "rev (trim_start s)"]
  by (auto simp: trim_def trim_end_def trim_start_def)

lemma trim_end_prefix: "\<exists>t. s = trim_end s @ t"
proof -
  obtain p where "rev s = p @ strip_pats (map rev white_space) (rev s)" using strip_pats_suffix by blast
  then have "s = rev (strip_pats (map rev white_space) (rev s)) @ rev p"
    by (metis rev_append rev_rev_ident)
  then show ?thesis unfolding trim_end_def by blast
qed

lemma strip_pats_keeps:
  assumes "\<forall>p \<in> set ps. c \<notin> set p"
  shows "\<exists>x'. strip_pats ps (x @ c # y) = x' @ c # y"
proof (induction "length x" arbitrary: x rule: less_induct)
  case less
  show ?case
  proof (cases "find (strips (x @ c # y)) ps")
    case None
    then show ?thesis by (simp add: strip_pats.simps [of ps "x @ c # y"])
  next
    case (Some p)
    then have p: "strips (x @ c # y) p" "p \<in> set ps" by (auto simp: find_Some_iff)
    then have pre: "take (length p) (x @ c # y) = p" "p \<noteq> []" by (simp_all add: strips_def)
    have "length p \<le> length x"
    proof (rule ccontr)
      assume "\<not> length p \<le> length x"
      then have "c \<in> set (take (length p) (x @ c # y))" by (cases "length p - length x") auto
      with pre p(2) assms show False by simp
    qed
    then have "strip_pats ps (x @ c # y) = strip_pats ps (drop (length p) x @ c # y)"
      using Some by (simp add: strip_pats.simps [of ps "x @ c # y"])
    moreover have "length (drop (length p) x) < length x"
      using pre \<open>length p \<le> length x\<close> by (cases p) auto
    ultimately show ?thesis using less by metis
  qed
qed

lemma white_space_no_plain: "list_all (list_all (\<lambda>c. \<not> plain_byte c)) white_space"
  by (simp add: white_space_def plain_byte_def code_def)

lemma trim_end_keeps_plain:
  assumes "plain_byte c"
  shows "\<exists>u. trim_end (a @ c # b) = a @ c # u"
proof -
  have "\<forall>p \<in> set (map rev white_space). c \<notin> set p"
    using white_space_no_plain assms by (auto simp: list_all_iff)
  from strip_pats_keeps [OF this, of "rev b" "rev a"]
  obtain x where "strip_pats (map rev white_space) (rev b @ c # rev a) = x @ c # rev a" by blast
  then have "trim_end (a @ c # b) = a @ c # rev x" by (simp add: trim_end_def)
  then show ?thesis by blast
qed

lemma trim_plain_hd:
  assumes "plain_byte c"
  shows "trim (c # s) \<noteq> []"
  using trim_end_keeps_plain [OF assms, of "[]" s] assms by (auto simp: trim_def)

section \<open>Searching and splitting\<close>

definition starts_with :: "string \<Rightarrow> string \<Rightarrow> bool" where
  "starts_with s p \<longleftrightarrow> take (length p) s = p"

definition ends_with :: "string \<Rightarrow> string \<Rightarrow> bool" where
  "ends_with s p \<longleftrightarrow> take (length p) (rev s) = rev p"

definition strip_prefix :: "string \<Rightarrow> string \<Rightarrow> string option" where
  "strip_prefix s p = (if starts_with s p then Some (drop (length p) s) else None)"

definition strip_suffix :: "string \<Rightarrow> string \<Rightarrow> string option" where
  "strip_suffix s p = (if ends_with s p then Some (take (length s - length p) s) else None)"

fun contains :: "string \<Rightarrow> string \<Rightarrow> bool" where
  "contains [] p \<longleftrightarrow> p = []"
| "contains (c # s) p \<longleftrightarrow> starts_with (c # s) p \<or> contains s p"

definition find_char :: "char \<Rightarrow> string \<Rightarrow> nat option" where
  "find_char c s = (if c \<in> set s then Some (length (takeWhile (\<lambda>d. d \<noteq> c) s)) else None)"

definition rfind_char :: "char \<Rightarrow> string \<Rightarrow> nat option" where
  "rfind_char c s =
     (if c \<in> set s then Some (length s - 1 - length (takeWhile (\<lambda>d. d \<noteq> c) (rev s))) else None)"

definition split_once :: "char \<Rightarrow> string \<Rightarrow> (string \<times> string) option" where
  "split_once c s =
     (if c \<in> set s
      then Some (takeWhile (\<lambda>d. d \<noteq> c) s, tl (dropWhile (\<lambda>d. d \<noteq> c) s)) else None)"

definition rsplit_once :: "char \<Rightarrow> string \<Rightarrow> (string \<times> string) option" where
  "rsplit_once c s =
     (case split_once c (rev s) of None \<Rightarrow> None | Some (b, a) \<Rightarrow> Some (rev a, rev b))"

text \<open>\<open>s.trim_end_matches(c)\<close> and \<open>s.trim_matches(c)\<close> for a one-byte character.\<close>

definition trim_end_matches :: "char \<Rightarrow> string \<Rightarrow> string" where
  "trim_end_matches c s = rev (dropWhile (\<lambda>d. d = c) (rev s))"

definition trim_matches :: "char \<Rightarrow> string \<Rightarrow> string" where
  "trim_matches c s = trim_end_matches c (dropWhile (\<lambda>d. d = c) s)"

text \<open>\<open>&s[a..b]\<close>: \<open>None\<close> is the panic of a slice that is out of order or out of range.\<close>

definition slice :: "string \<Rightarrow> nat \<Rightarrow> nat \<Rightarrow> string option" where
  "slice s a b = (if a \<le> b \<and> b \<le> length s then Some (take (b - a) (drop a s)) else None)"

lemma starts_with_append [simp]: "starts_with (p @ s) p"
  by (simp add: starts_with_def)

lemma starts_with_Nil [simp]: "starts_with s []"
  by (simp add: starts_with_def)

lemma starts_with_Cons [simp]:
  "starts_with (c # s) (d # p) \<longleftrightarrow> c = d \<and> starts_with s p"
  "\<not> starts_with [] (d # p)"
  by (auto simp: starts_with_def)

lemma starts_withD: "starts_with s p \<Longrightarrow> \<exists>t. s = p @ t"
  unfolding starts_with_def by (metis append_take_drop_id)

lemma strip_prefix_append [simp]: "strip_prefix (p @ s) p = Some s"
  by (simp add: strip_prefix_def)

lemma split_once_append:
  "c \<notin> set a \<Longrightarrow> split_once c (a @ c # b) = Some (a, b)"
  by (induction a) (auto simp: split_once_def)

lemma append_sep_inj:
  fixes c :: char
  assumes "c \<notin> set a" "c \<notin> set b" "a @ c # x = b @ c # y"
  shows "a = b \<and> x = y"
proof -
  have "Some (a, x) = split_once c (a @ c # x)" by (simp only: split_once_append [OF assms(1)])
  also have "\<dots> = split_once c (b @ c # y)" by (simp only: assms(3))
  also have "\<dots> = Some (b, y)" by (simp only: split_once_append [OF assms(2)])
  finally show ?thesis by simp
qed

lemma dropWhile_until: "c \<in> set s \<Longrightarrow> \<exists>b. dropWhile (\<lambda>d. d \<noteq> c) s = c # b"
  by (induction s) auto

lemma split_once_Some:
  assumes "split_once c s = Some (a, b)"
  shows "s = a @ c # b \<and> c \<notin> set a"
proof -
  from assms have c: "c \<in> set s" and a: "a = takeWhile (\<lambda>d. d \<noteq> c) s"
    and b: "b = tl (dropWhile (\<lambda>d. d \<noteq> c) s)"
    by (auto simp: split_once_def split: if_splits)
  from dropWhile_until [OF c] b have "dropWhile (\<lambda>d. d \<noteq> c) s = c # b" by auto
  with a have "s = a @ c # b" by (metis takeWhile_dropWhile_id)
  moreover have "c \<notin> set a" unfolding a by (auto dest: set_takeWhileD)
  ultimately show ?thesis by simp
qed

lemma rsplit_once_append:
  "c \<notin> set b \<Longrightarrow> rsplit_once c (a @ c # b) = Some (a, b)"
  by (simp add: rsplit_once_def split_once_append)

lemma rsplit_once_Some:
  assumes "rsplit_once c s = Some (a, b)"
  shows "s = a @ c # b \<and> c \<notin> set b"
proof -
  from assms have "split_once c (rev s) = Some (rev b, rev a)"
    by (auto simp: rsplit_once_def split: option.splits)
  then have "rev s = rev b @ c # rev a" "c \<notin> set (rev b)"
    using split_once_Some by blast+
  then show ?thesis by (metis append.assoc append_Cons append_Nil rev.simps(2) rev_append rev_rev_ident set_rev)
qed

lemma trim_end_matches_id: "s = [] \<or> last s \<noteq> c \<Longrightarrow> trim_end_matches c s = s"
  by (cases s rule: rev_cases) (auto simp: trim_end_matches_def)

text \<open>
  \<open>str::lines\<close>: cut at every LF; a CR goes only together with the LF behind it, and a final LF
  opens no further line.
\<close>

function lines :: "string \<Rightarrow> string list" where
  "lines s =
     (case split_once LF s of
        None \<Rightarrow> if s = [] then [] else [s]
      | Some (l, r) \<Rightarrow> (case strip_suffix l [CR] of None \<Rightarrow> l | Some l' \<Rightarrow> l') # lines r)"
  by pat_completeness auto
termination
proof (relation "measure length", goal_cases)
  case (2 s x l r)
  then have "s = l @ LF # r" using split_once_Some [of LF s l r] by simp
  then show ?case by simp
qed simp

declare lines.simps [simp del]

section \<open>Decimal numbers\<close>

text \<open>\<open>format!("{n}")\<close> and \<open>str::parse::<usize>\<close> (64-bit \<open>usize\<close>; one leading \<open>+\<close> is taken).\<close>

definition usize_limit :: nat where
  "usize_limit = 2 ^ 64"

definition digit_char :: "nat \<Rightarrow> char" where
  "digit_char d = char_of (48 + d)"

fun show_nat :: "nat \<Rightarrow> string" where
  "show_nat n = (if n < 10 then [digit_char n] else show_nat (n div 10) @ [digit_char (n mod 10)])"

declare show_nat.simps [simp del]

definition digits_value :: "string \<Rightarrow> nat" where
  "digits_value s = foldl (\<lambda>a c. 10 * a + (code c - 48)) 0 s"

definition parse_usize :: "string \<Rightarrow> nat option" where
  "parse_usize s =
     (let d = (case s of [] \<Rightarrow> [] | c # r \<Rightarrow> if c = CHR ''+'' then r else s) in
      if d \<noteq> [] \<and> list_all is_ascii_digit d \<and> digits_value d < usize_limit
      then Some (digits_value d) else None)"

lemma digit_char_digit [simp]: "d < 10 \<Longrightarrow> is_ascii_digit (digit_char d)"
  by (simp add: digit_char_def is_ascii_digit_def)

lemma digit_char_code [simp]: "d < 10 \<Longrightarrow> code (digit_char d) = 48 + d"
  by (simp add: digit_char_def)

lemma show_nat_nonempty [simp]: "show_nat n \<noteq> []"
  by (subst show_nat.simps) simp

lemma show_nat_digits: "list_all is_ascii_digit (show_nat n)"
  by (induction n rule: show_nat.induct) (subst show_nat.simps, simp)

lemma digits_value_show_nat [simp]: "digits_value (show_nat n) = n"
proof (induction n rule: show_nat.induct)
  case (1 n)
  then show ?case
    by (subst show_nat.simps) (auto simp: digits_value_def)
qed

lemma digit_plain: "is_ascii_digit c \<Longrightarrow> plain_byte c"
  by (simp add: is_ascii_digit_def plain_byte_def)

lemma digit_ascii: "is_ascii_digit c \<Longrightarrow> is_ascii_char c"
  by (simp add: is_ascii_digit_def is_ascii_char_def)

lemma show_nat_plain: "list_all plain_byte (show_nat n)"
  using show_nat_digits [of n] by (auto simp: list_all_iff digit_plain)

lemma trim_show_nat [simp]: "trim (show_nat n) = show_nat n"
  by (rule trim_all_plain) (rule show_nat_plain)

lemma is_ascii_show_nat: "is_ascii (show_nat n)"
  using show_nat_digits [of n] by (auto simp: is_ascii_def list_all_iff digit_ascii)

lemma show_nat_no_line_end: "LF \<notin> set (show_nat n)" "CR \<notin> set (show_nat n)"
  using show_nat_digits [of n] by (auto simp: list_all_iff is_ascii_digit_def LF_def CR_def code_def)

lemma parse_usize_show_nat [simp]:
  assumes "n < usize_limit"
  shows "parse_usize (show_nat n) = Some n"
proof -
  obtain c r where cr: "show_nat n = c # r" by (cases "show_nat n") auto
  with show_nat_digits [of n] have "is_ascii_digit c" by simp
  then have "c \<noteq> CHR ''+''" by (auto simp: is_ascii_digit_def code_def)
  with cr have "(case show_nat n of [] \<Rightarrow> [] | c # r \<Rightarrow> if c = CHR ''+'' then r else show_nat n) = show_nat n"
    by simp
  then show ?thesis
    using assms show_nat_digits [of n] by (simp add: parse_usize_def)
qed

lemma parse_usize_bound: "parse_usize s = Some n \<Longrightarrow> n < usize_limit"
  by (auto simp: parse_usize_def Let_def split: if_splits)

lemma parse_usize_empty [simp]: "parse_usize [] = None"
  by (simp add: parse_usize_def)

end
