(* ===== verification/Frontmatter.thy ===== *)
theory Frontmatter
  imports Prelude
begin

text \<open>
  The metadata block in front of every stored mail (\<open>src/frontmatter.rs\<close>): its record types,
  the thread id computed from the threading headers, and the file layout
  \<open>+++ / toml / +++ / body\<close>. SHA-256 and the TOML serializer are crates: the parameters
  \<open>sha\<close> (bytes to the 32-byte digest) and \<open>to_toml\<close>.
\<close>

record attachment_meta =
  am_filename :: string
  am_content_type :: string
  am_size :: nat
  am_path :: string

record auth_results =
  ar_dkim :: string
  ar_spf :: string
  ar_dmarc :: string

definition default_auth_result :: string where
  "default_auth_result = ''none''"

definition default_auth_results :: auth_results where
  "default_auth_results = \<lparr>ar_dkim = ''none'', ar_spf = ''none'', ar_dmarc = ''none''\<rparr>"

record inbound_frontmatter =
  fm_id :: string
  fm_message_id :: string
  fm_thread_id :: string
  fm_from :: string
  fm_to :: string
  fm_cc :: "string option"
  fm_reply_to :: "string option"
  fm_delivered_to :: string
  fm_subject :: string
  fm_date :: string
  fm_received_at :: string
  fm_received_from_ip :: "string option"
  fm_size_bytes :: nat
  fm_attachments :: "attachment_meta list"
  fm_in_reply_to :: "string option"
  fm_references :: "string option"
  fm_list_id :: "string option"
  fm_auto_submitted :: "string option"
  fm_dkim :: string
  fm_spf :: string
  fm_dmarc :: string
  fm_trusted :: string
  fm_mailbox :: string
  fm_read :: bool
  fm_read_at :: "string option"
  fm_labels :: "string list"

datatype delivery_status = Delivered | Deferred | Failed | Pending

fun delivery_status_as_str :: "delivery_status \<Rightarrow> string" where
  "delivery_status_as_str Delivered = ''delivered''"
| "delivery_status_as_str Deferred = ''deferred''"
| "delivery_status_as_str Failed = ''failed''"
| "delivery_status_as_str Pending = ''pending''"

text \<open>\<open>Inl\<close> carries the unknown word of the deserializer's error.\<close>

definition delivery_status_deserialize :: "string \<Rightarrow> string + delivery_status" where
  "delivery_status_deserialize s =
     (if s = ''delivered'' then Inr Delivered
      else if s = ''deferred'' then Inr Deferred
      else if s = ''failed'' then Inr Failed
      else if s = ''pending'' then Inr Pending
      else Inl s)"

lemma delivery_status_roundtrip:
  "delivery_status_deserialize (delivery_status_as_str d) = Inr d"
  by (cases d) (simp_all add: delivery_status_deserialize_def)

section \<open>Thread ids\<close>

definition hex_digit :: "nat \<Rightarrow> char" where
  "hex_digit n = (if n < 10 then char_of (48 + n) else char_of (87 + n))"

definition hex_byte :: "char \<Rightarrow> string" where
  "hex_byte c = [hex_digit (code c div 16), hex_digit (code c mod 16)]"

definition hex_encode :: "bytes \<Rightarrow> string" where
  "hex_encode bs = concat (map hex_byte bs)"

definition extract_first_message_id :: "string \<Rightarrow> string" where
  "extract_first_message_id header_value =
     (let trimmed = trim header_value in
      if trimmed = [] then []
      else case find_char CHR ''<'' trimmed of
          None \<Rightarrow> trimmed
        | Some start \<Rightarrow>
            (case find_char CHR ''>'' (drop start trimmed) of
                None \<Rightarrow> trimmed
              | Some e \<Rightarrow> take (e + 1) (drop start trimmed)))"

definition resolve_thread_root :: "string \<Rightarrow> string option \<Rightarrow> string option \<Rightarrow> string" where
  "resolve_thread_root message_id in_reply_to references =
     (let irt = (case in_reply_to of None \<Rightarrow> [] | Some h \<Rightarrow> extract_first_message_id h) in
      if irt \<noteq> [] then irt
      else
       (let refs = (case references of None \<Rightarrow> [] | Some h \<Rightarrow> extract_first_message_id h) in
        if refs \<noteq> [] then refs
        else
         (let own = extract_first_message_id message_id in
          if own = [] then message_id else own)))"

definition strip_angle_brackets :: "string \<Rightarrow> string" where
  "strip_angle_brackets s =
     (case strip_prefix s ''<'' of
        None \<Rightarrow> s
      | Some t \<Rightarrow> (case strip_suffix t ''>'' of None \<Rightarrow> s | Some u \<Rightarrow> u))"

definition compute_thread_id ::
  "(bytes \<Rightarrow> bytes) \<Rightarrow> string \<Rightarrow> string option \<Rightarrow> string option \<Rightarrow> string" where
  "compute_thread_id sha message_id in_reply_to references =
     hex_encode (take 8 (sha (strip_angle_brackets
       (resolve_thread_root message_id in_reply_to references))))"

section \<open>The stored file\<close>

definition format_frontmatter ::
  "(inbound_frontmatter \<Rightarrow> string) \<Rightarrow> inbound_frontmatter \<Rightarrow> string \<Rightarrow> string" where
  "format_frontmatter to_toml meta body =
     ''+++'' @ [LF] @ to_toml meta @ ''+++'' @ [LF, LF] @ body @
     (if ends_with body [LF] then [] else [LF])"

section \<open>Facts\<close>

lemma length_hex_encode [simp]: "length (hex_encode bs) = 2 * length bs"
  by (induction bs) (auto simp: hex_encode_def hex_byte_def)

lemma hex_digit_lowercase_hex:
  "n < 16 \<Longrightarrow> is_ascii_digit (hex_digit n) \<or> is_ascii_lowercase (hex_digit n)"
  by (simp add: hex_digit_def is_ascii_digit_def is_ascii_lowercase_def)

lemma hex_encode_hex:
  "list_all (\<lambda>c. is_ascii_digit c \<or> is_ascii_lowercase c) (hex_encode bs)"
  by (induction bs)
    (simp_all add: hex_encode_def hex_byte_def hex_digit_lowercase_hex less_mult_imp_div_less)

lemma strip_angle_brackets_wrap [simp]: "strip_angle_brackets (CHR ''<'' # s @ ''>'') = s"
  by (simp add: strip_angle_brackets_def strip_prefix_def strip_suffix_def ends_with_def)

text \<open>A plain message id \<open>id@host\<close>: ordinary bytes, no angle brackets.\<close>

definition bare_message_id :: "string \<Rightarrow> bool" where
  "bare_message_id m \<longleftrightarrow>
     m \<noteq> [] \<and> list_all (\<lambda>c. plain_byte c \<and> c \<noteq> CHR ''<'' \<and> c \<noteq> CHR ''>'') m"

lemma bare_message_idD:
  assumes "bare_message_id m"
  shows "m \<noteq> []" "list_all plain_byte m" "CHR ''<'' \<notin> set m" "CHR ''>'' \<notin> set m"
  using assms by (auto simp: bare_message_id_def list_all_iff)

lemma extract_first_message_id_bare:
  "bare_message_id m \<Longrightarrow> extract_first_message_id m = m"
  by (simp add: extract_first_message_id_def trim_all_plain bare_message_idD find_char_def Let_def)

lemma takeWhile_upto: "c \<notin> set a \<Longrightarrow> takeWhile (\<lambda>d. d \<noteq> c) (a @ c # b) = a"
  by (induction a) auto

lemma extract_first_message_id_bracketed:
  assumes "bare_message_id m"
  shows "extract_first_message_id (CHR ''<'' # m @ ''>'') = CHR ''<'' # m @ ''>''"
proof -
  have "plain_byte CHR ''<''" "plain_byte CHR ''>''" by (simp_all add: plain_byte_def code_def)
  then have "trim (CHR ''<'' # m @ ''>'') = CHR ''<'' # m @ ''>''"
    by (intro trim_plain_ends) simp_all
  moreover have "find_char CHR ''<'' (CHR ''<'' # m @ ''>'') = Some 0"
    by (simp add: find_char_def)
  moreover have "find_char CHR ''>'' (CHR ''<'' # m @ ''>'') = Some (Suc (length m))"
    using bare_message_idD(4) [OF assms] by (simp add: find_char_def takeWhile_upto)
  ultimately show ?thesis
    by (simp add: extract_first_message_id_def Let_def)
qed

lemma thread_id_bracket_insensitive:
  assumes "bare_message_id m"
  shows "compute_thread_id sha (CHR ''<'' # m @ ''>'') None None = compute_thread_id sha m None None"
proof -
  have "strip_angle_brackets m = m"
    using bare_message_idD [OF assms]
    by (cases m) (auto simp: strip_angle_brackets_def strip_prefix_def)
  with assms show ?thesis
    by (simp add: compute_thread_id_def resolve_thread_root_def extract_first_message_id_bare
        extract_first_message_id_bracketed bare_message_idD Let_def)
qed

end
