(* ===== verification/Hook.thy ===== *)
theory Hook
  imports Frontmatter
begin

text \<open>
  Hooks (\<open>src/hook.rs\<close>): the configured subprocesses that run when a mail arrives or has been
  sent. This theory holds the hook's data, the checks on its name and argument vector, the
  derived name, and the trust gate. Firing needs the mailbox and is in \<open>HookFire\<close>.
  \<open>timeout_secs\<close> is a \<open>u32\<close> that is only compared: a \<open>nat\<close> here.
\<close>

definition HOOK_NAME_MAX_LEN :: nat where "HOOK_NAME_MAX_LEN = 128"

definition DERIVED_HOOK_NAME_LEN :: nat where "DERIVED_HOOK_NAME_LEN = 12"

definition DEFAULT_HOOK_TIMEOUT_SECS :: nat where "DEFAULT_HOOK_TIMEOUT_SECS = 60"

definition MAX_HOOK_TIMEOUT_SECS :: nat where "MAX_HOOK_TIMEOUT_SECS = 600"

datatype hook_event = OnReceive | AfterSend

fun hook_event_as_str :: "hook_event \<Rightarrow> string" where
  "hook_event_as_str OnReceive = ''on_receive''"
| "hook_event_as_str AfterSend = ''after_send''"

record hook =
  hk_name :: "string option"
  hk_event :: hook_event
  hk_type :: string
  hk_cmd :: "string list"
  hk_fire_on_untrusted :: bool
  hk_timeout_secs :: nat

datatype trusted_value = TrustedNone | TrustedTrue | TrustedFalse

fun trusted_as_str :: "trusted_value \<Rightarrow> string" where
  "trusted_as_str TrustedNone = ''none''"
| "trusted_as_str TrustedTrue = ''true''"
| "trusted_as_str TrustedFalse = ''false''"

definition trusted_deserialize :: "string \<Rightarrow> string + trusted_value" where
  "trusted_deserialize s =
     (if s = ''none'' then Inr TrustedNone
      else if s = ''true'' then Inr TrustedTrue
      else if s = ''false'' then Inr TrustedFalse
      else Inl s)"

text \<open>\<open>Path::is_absolute\<close> on Unix.\<close>

definition is_absolute :: "string \<Rightarrow> bool" where
  "is_absolute p \<longleftrightarrow> starts_with p ''/''"

datatype resolve_argv_error = EmptyCmd | NonAbsoluteProgram string

definition resolve_argv :: "hook \<Rightarrow> resolve_argv_error + string list" where
  "resolve_argv h =
     (case hk_cmd h of
        [] \<Rightarrow> Inl EmptyCmd
      | prog # args \<Rightarrow>
          if trim prog = [] then Inl EmptyCmd
          else if \<not> is_absolute prog then Inl (NonAbsoluteProgram prog)
          else Inr (prog # args))"

definition is_valid_hook_name :: "string \<Rightarrow> bool" where
  "is_valid_hook_name s \<longleftrightarrow>
     (case s of
        [] \<Rightarrow> False
      | b # bs \<Rightarrow>
          length s \<le> HOOK_NAME_MAX_LEN \<and>
          (is_ascii_alphanumeric b \<or> b = CHR ''_'') \<and>
          list_all (\<lambda>b. is_ascii_alphanumeric b \<or> b = CHR ''_'' \<or> b = CHR ''.'' \<or> b = CHR ''-'') bs)"

section \<open>Derived names\<close>

definition UNIT_SEP :: char where "UNIT_SEP = CHR 0x1F"

fun join_sep :: "char \<Rightarrow> string list \<Rightarrow> bytes" where
  "join_sep c [] = []"
| "join_sep c [a] = a"
| "join_sep c (a # b # as) = a @ c # join_sep c (b # as)"

text \<open>The bytes fed to SHA-256: event, argument vector and flag, joined by the unit separator.\<close>

definition hook_preimage :: "hook_event \<Rightarrow> string list \<Rightarrow> bool \<Rightarrow> bytes" where
  "hook_preimage event cmd fire_on_untrusted =
     hook_event_as_str event @ [UNIT_SEP] @ join_sep UNIT_SEP cmd @ [UNIT_SEP] @
     [if fire_on_untrusted then CHR 0x01 else CHR 0x00]"

definition derive_hook_name ::
  "(bytes \<Rightarrow> bytes) \<Rightarrow> hook_event \<Rightarrow> string list \<Rightarrow> bool \<Rightarrow> string" where
  "derive_hook_name sha event cmd fire_on_untrusted =
     hex_encode (take ((DERIVED_HOOK_NAME_LEN + 1) div 2)
       (sha (hook_preimage event cmd fire_on_untrusted)))"

definition effective_hook_name :: "(bytes \<Rightarrow> bytes) \<Rightarrow> hook \<Rightarrow> string" where
  "effective_hook_name sha h =
     (case hk_name h of
        Some n \<Rightarrow> n
      | None \<Rightarrow> derive_hook_name sha (hk_event h) (hk_cmd h) (hk_fire_on_untrusted h))"

section \<open>The trust gate\<close>

definition parse_trusted :: "string \<Rightarrow> trusted_value" where
  "parse_trusted s =
     (if s = ''true'' then TrustedTrue else if s = ''false'' then TrustedFalse else TrustedNone)"

definition should_fire_on_receive :: "hook \<Rightarrow> trusted_value \<Rightarrow> bool" where
  "should_fire_on_receive h email_trusted \<longleftrightarrow>
     (if hk_fire_on_untrusted h then True else email_trusted = TrustedTrue)"

section \<open>Facts\<close>

lemma trusted_roundtrip: "trusted_deserialize (trusted_as_str t) = Inr t"
  by (cases t) (simp_all add: trusted_deserialize_def)

lemma parse_trusted_as_str: "parse_trusted (trusted_as_str t) = t"
  by (cases t) (simp_all add: parse_trusted_def)

lemma resolve_argv_Inr:
  "resolve_argv h = Inr argv \<longleftrightarrow>
     argv = hk_cmd h \<and> hk_cmd h \<noteq> [] \<and> trim (hd (hk_cmd h)) \<noteq> [] \<and> is_absolute (hd (hk_cmd h))"
  by (auto simp: resolve_argv_def split: list.splits if_splits)

lemma derived_name_valid:
  assumes "length (sha (hook_preimage e cmd f)) = 32"
  shows "is_valid_hook_name (derive_hook_name sha e cmd f)"
proof -
  let ?n = "derive_hook_name sha e cmd f"
  from assms have len: "length ?n = 12"
    by (simp add: derive_hook_name_def DERIVED_HOOK_NAME_LEN_def)
  then obtain b bs where n: "?n = b # bs" by (cases ?n) auto
  have "list_all (\<lambda>c. is_ascii_digit c \<or> is_ascii_lowercase c) ?n"
    by (simp add: derive_hook_name_def hex_encode_hex)
  with n len show ?thesis
    by (auto simp: is_valid_hook_name_def HOOK_NAME_MAX_LEN_def is_ascii_alphanumeric_def list_all_iff)
qed

text \<open>
  Where no argument holds the separator, the joined bytes determine the argument vector: the
  separator splits them back.
\<close>

lemma join_sep_inj:
  assumes "join_sep c as = join_sep c bs" "as \<noteq> []" "bs \<noteq> []"
    "\<forall>a \<in> set as. c \<notin> set a" "\<forall>b \<in> set bs. c \<notin> set b"
  shows "as = bs"
  using assms
proof (induction c as arbitrary: bs rule: join_sep.induct)
  case (2 c a)
  then obtain b bs' where bs: "bs = b # bs'" by (cases bs) auto
  have "bs' = []"
  proof (rule ccontr)
    assume "bs' \<noteq> []"
    then obtain b' bs'' where "bs' = b' # bs''" by (cases bs') auto
    with 2 bs have "a = b @ c # join_sep c (b' # bs'')" by simp
    then have "c \<in> set a" by simp
    with 2 show False by simp
  qed
  with 2 bs show ?case by simp
next
  case (3 c a a' as)
  then obtain b bs' where bs: "bs = b # bs'" by (cases bs) auto
  have "bs' \<noteq> []"
  proof
    assume "bs' = []"
    with 3 bs have "b = a @ c # join_sep c (a' # as)" by simp
    then have "c \<in> set b" by simp
    with 3 bs show False by simp
  qed
  then obtain b' bs'' where bs': "bs' = b' # bs''" by (cases bs') auto
  from "3.prems" bs bs' have eq: "a @ c # join_sep c (a' # as) = b @ c # join_sep c (b' # bs'')"
    and "c \<notin> set a" "c \<notin> set b" by auto
  then have ab: "a = b" and js: "join_sep c (a' # as) = join_sep c (b' # bs'')"
    by (blast dest: append_sep_inj)+
  have "a' # as = b' # bs''"
    using js by (rule "3.IH") (use "3.prems"(4,5) bs bs' in simp_all)
  with ab bs bs' show ?case by simp
qed simp

lemma event_str_no_sep: "UNIT_SEP \<notin> set (hook_event_as_str e)"
  by (cases e) (simp_all add: UNIT_SEP_def)

lemma hook_event_as_str_inj: "hook_event_as_str e = hook_event_as_str e' \<longleftrightarrow> e = e'"
  by (cases e; cases e') simp_all

lemma hook_preimage_inj:
  assumes eq: "hook_preimage e cmd f = hook_preimage e' cmd' f'"
    and "cmd \<noteq> []" "cmd' \<noteq> []"
    and "\<forall>a \<in> set cmd. UNIT_SEP \<notin> set a" "\<forall>a \<in> set cmd'. UNIT_SEP \<notin> set a"
  shows "e = e' \<and> cmd = cmd' \<and> f = f'"
proof -
  have split: "split_once UNIT_SEP (hook_preimage x c g) =
      Some (hook_event_as_str x, join_sep UNIT_SEP c @ [UNIT_SEP, if g then CHR 0x01 else CHR 0x00])"
    for x c g
    using split_once_append [OF event_str_no_sep] by (simp add: hook_preimage_def)
  from eq have "hook_event_as_str e = hook_event_as_str e'"
    and "join_sep UNIT_SEP cmd @ [UNIT_SEP, if f then CHR 0x01 else CHR 0x00] =
         join_sep UNIT_SEP cmd' @ [UNIT_SEP, if f' then CHR 0x01 else CHR 0x00]"
    using split [of e cmd f] split [of e' cmd' f'] by simp_all
  then have "e = e'" "f = f'" "join_sep UNIT_SEP cmd = join_sep UNIT_SEP cmd'"
    by (simp_all add: hook_event_as_str_inj split: if_splits)
  with assms show ?thesis using join_sep_inj by blast
qed

end
