(* ===== verification/Config.thy ===== *)
theory Config
  imports Hook
begin

text \<open>
  The daemon's configuration (\<open>src/config.rs\<close>, \<open>src/user_resolver.rs\<close>): its data, the
  resolution of owners and trust defaults, the validation done on load, and the swappable
  in-memory handle.

  A \<open>HashMap\<close> is an association list with distinct keys: its order is some iteration order, and
  the theorems hold for every one. \<open>pw\<close> is \<open>getpwnam\<close>, \<open>sha\<close> is SHA-256, the TOML parser and
  the file system are arguments of \<open>load\<close>. Numeric ids are \<open>u32\<close>s that are only compared:
  \<open>nat\<close>s here. Error messages are the constructors of \<open>load_error\<close>, one for each message, with
  the values the message interpolates.
\<close>

section \<open>Users\<close>

record resolved_user =
  ru_name :: string
  ru_uid :: nat
  ru_gid :: nat

type_synonym user_db = "string \<Rightarrow> resolved_user option"

definition RESERVED_RUN_AS_ROOT :: string where
  "RESERVED_RUN_AS_ROOT = ''root''"

definition RESERVED_RUN_AS_CATCHALL :: string where
  "RESERVED_RUN_AS_CATCHALL = ''aimx-catchall''"

definition is_reserved_run_as :: "string \<Rightarrow> bool" where
  "is_reserved_run_as name \<longleftrightarrow> name = RESERVED_RUN_AS_ROOT \<or> name = RESERVED_RUN_AS_CATCHALL"

definition USERNAME_MAX_LEN :: nat where "USERNAME_MAX_LEN = 32"

definition is_valid_system_username :: "string \<Rightarrow> bool" where
  "is_valid_system_username s \<longleftrightarrow>
     (case s of
        [] \<Rightarrow> False
      | first # rest \<Rightarrow>
          if length s > USERNAME_MAX_LEN then False
          else if \<not> (is_ascii_lowercase first \<or> first = CHR ''_'') then False
          else
           (let body = (if rest \<noteq> [] \<and> last rest = CHR ''$'' then butlast rest else rest) in
            list_all (\<lambda>b. is_ascii_lowercase b \<or> is_ascii_digit b \<or> b = CHR ''_'' \<or> b = CHR ''-'')
              body))"

datatype run_as_kind = Reserved string | User resolved_user

datatype config_error = InvalidUsername string | OrphanUser string

definition validate_run_as :: "user_db \<Rightarrow> string \<Rightarrow> config_error + run_as_kind" where
  "validate_run_as pw name =
     (if name = RESERVED_RUN_AS_ROOT then Inr (Reserved RESERVED_RUN_AS_ROOT)
      else if name = RESERVED_RUN_AS_CATCHALL then Inr (Reserved RESERVED_RUN_AS_CATCHALL)
      else if \<not> is_valid_system_username name then Inl (InvalidUsername name)
      else (case pw name of
          Some u \<Rightarrow> Inr (User u)
        | None \<Rightarrow> Inl (OrphanUser name)))"

section \<open>Mailboxes and the configuration\<close>

record mailbox_config =
  mb_address :: string
  mb_owner :: string
  mb_hooks :: "hook list"
  mb_trust :: "string option"
  mb_trusted_senders :: "string list option"
  mb_allow_root_catchall :: bool

record config =
  cfg_domain :: string
  cfg_data_dir :: string
  cfg_dkim_selector :: string
  cfg_trust :: string
  cfg_trusted_senders :: "string list"
  cfg_mailboxes :: "(string \<times> mailbox_config) list"
  cfg_verify_host :: "string option"
  cfg_enable_ipv6 :: bool
  cfg_signature :: "string option"
  cfg_release_manifest_url :: "string option option"

definition DEFAULT_SIGNATURE :: string where
  "DEFAULT_SIGNATURE = ''Sent from AIMX.  '' @ [LF] @ ''https://aimx.email''"

definition effective_signature :: "config \<Rightarrow> string" where
  "effective_signature cfg = (case cfg_signature cfg of None \<Rightarrow> DEFAULT_SIGNATURE | Some s \<Rightarrow> s)"

definition is_catchall :: "config \<Rightarrow> mailbox_config \<Rightarrow> bool" where
  "is_catchall cfg mb \<longleftrightarrow> eq_ignore_ascii_case (mb_address mb) (''*@'' @ cfg_domain cfg)"

definition owner_id :: "(resolved_user \<Rightarrow> nat) \<Rightarrow> user_db \<Rightarrow> mailbox_config \<Rightarrow> config_error + nat" where
  "owner_id sel pw mb =
     (case validate_run_as pw (mb_owner mb) of
        Inl e \<Rightarrow> Inl e
      | Inr (Reserved r) \<Rightarrow>
          if r = RESERVED_RUN_AS_ROOT then Inr 0
          else (case pw (mb_owner mb) of
              Some u \<Rightarrow> Inr (sel u)
            | None \<Rightarrow> Inl (OrphanUser (mb_owner mb)))
      | Inr (User u) \<Rightarrow> Inr (sel u))"

definition owner_uid :: "user_db \<Rightarrow> mailbox_config \<Rightarrow> config_error + nat" where
  "owner_uid = owner_id ru_uid"

definition owner_gid :: "user_db \<Rightarrow> mailbox_config \<Rightarrow> config_error + nat" where
  "owner_gid = owner_id ru_gid"

definition on_receive_hooks :: "mailbox_config \<Rightarrow> hook list" where
  "on_receive_hooks mb = filter (\<lambda>h. hk_event h = OnReceive) (mb_hooks mb)"

definition after_send_hooks :: "mailbox_config \<Rightarrow> hook list" where
  "after_send_hooks mb = filter (\<lambda>h. hk_event h = AfterSend) (mb_hooks mb)"

definition effective_trust :: "config \<Rightarrow> mailbox_config \<Rightarrow> string" where
  "effective_trust cfg mb = (case mb_trust mb of Some t \<Rightarrow> t | None \<Rightarrow> cfg_trust cfg)"

definition effective_trusted_senders :: "config \<Rightarrow> mailbox_config \<Rightarrow> string list" where
  "effective_trusted_senders cfg mb =
     (case mb_trusted_senders mb of Some l \<Rightarrow> l | None \<Rightarrow> cfg_trusted_senders cfg)"

definition lookup_mailbox :: "config \<Rightarrow> string \<Rightarrow> mailbox_config option" where
  "lookup_mailbox cfg name = map_of (cfg_mailboxes cfg) name"

text \<open>\<open>PathBuf::join\<close> of a relative component.\<close>

definition join_path :: "string \<Rightarrow> string \<Rightarrow> string" where
  "join_path d n =
     (if starts_with n ''/'' then n
      else if d = [] \<or> last d = CHR ''/'' then d @ n else d @ ''/'' @ n)"

definition inbox_dir :: "config \<Rightarrow> string \<Rightarrow> string" where
  "inbox_dir cfg name = join_path (join_path (cfg_data_dir cfg) ''inbox'') name"

definition sent_dir :: "config \<Rightarrow> string \<Rightarrow> string" where
  "sent_dir cfg name = join_path (join_path (cfg_data_dir cfg) ''sent'') name"

section \<open>Load warnings\<close>

datatype load_warning =
    OrphanMailboxOwner string string
  | RootCatchallAccepted string

record config_resolved =
  inactive_mailboxes :: "string set"

definition is_mailbox_active :: "config_resolved \<Rightarrow> string \<Rightarrow> bool" where
  "is_mailbox_active r name \<longleftrightarrow> name \<notin> inactive_mailboxes r"

fun resolved_step :: "load_warning \<Rightarrow> config_resolved \<Rightarrow> config_resolved" where
  "resolved_step (OrphanMailboxOwner mailbox owner) r =
     r\<lparr>inactive_mailboxes := insert mailbox (inactive_mailboxes r)\<rparr>"
| "resolved_step (RootCatchallAccepted mailbox) r = r"

definition resolved_from_warnings :: "load_warning list \<Rightarrow> config_resolved" where
  "resolved_from_warnings ws = fold resolved_step ws \<lparr>inactive_mailboxes = {}\<rparr>"

end
