(* ===== verification/WireCodec.thy ===== *)
theory WireCodec
  imports Config
begin

text \<open>
  The \<open>AIMX/1\<close> protocol of the daemon's Unix socket (\<open>src/send_protocol.rs\<close>): request and
  response types, the request parser and the frame writers.

  A reader is the bytes still to come together with what ends them: \<open>None\<close> is the end of the
  stream, \<open>Some e\<close> the I/O error \<open>e\<close>. A parser maps the bytes to an error or to its result and
  the bytes it left. A writer is the bytes it writes. \<open>Malformed\<close> messages are the
  constructors of \<open>malformed\<close>, with the values they interpolate.
\<close>

section \<open>Types\<close>

definition DEFAULT_MAX_BODY_SIZE :: nat where "DEFAULT_MAX_BODY_SIZE = 25 * 1024 * 1024"

definition MAX_HEADER_LINE :: nat where "MAX_HEADER_LINE = 8 * 1024"

record send_request =
  sr_body :: bytes
  sr_text_only :: bool
  sr_html_body :: "bytes option"

record mark_request =
  mr_mailbox :: string
  mr_id :: string
  mr_read :: bool

record mailbox_request =
  mq_name :: string
  mq_create :: bool
  mq_owner :: "string option"
  mq_force :: bool

record hook_create_request =
  hc_mailbox :: string
  hc_event :: string
  hc_name :: "string option"
  hc_body :: bytes

record hook_delete_request =
  hd_name :: string

record version_response =
  vr_tag :: string
  vr_git_hash :: string
  vr_target :: string
  vr_build_date :: string

datatype request =
    Send send_request
  | Mark mark_request
  | MailboxLifecycle mailbox_request
  | MailboxList
  | HookCreate hook_create_request
  | HookDelete hook_delete_request
  | HookList
  | Version

datatype err_code =
    EMailbox | EDomain | ESign | EDelivery | ETemp | EMalformed | EProtocol | ENotFound | EIo
  | EValidation | ENonEmpty | EConflict | EEaccess | EEnoent | EBodyTooLarge

fun err_code_as_str :: "err_code \<Rightarrow> string" where
  "err_code_as_str EMailbox = ''MAILBOX''"
| "err_code_as_str EDomain = ''DOMAIN''"
| "err_code_as_str ESign = ''SIGN''"
| "err_code_as_str EDelivery = ''DELIVERY''"
| "err_code_as_str ETemp = ''TEMP''"
| "err_code_as_str EMalformed = ''MALFORMED''"
| "err_code_as_str EProtocol = ''PROTOCOL''"
| "err_code_as_str ENotFound = ''NOTFOUND''"
| "err_code_as_str EIo = ''IO''"
| "err_code_as_str EValidation = ''VALIDATION''"
| "err_code_as_str ENonEmpty = ''NONEMPTY''"
| "err_code_as_str EConflict = ''ECONFLICT''"
| "err_code_as_str EEaccess = ''EACCES''"
| "err_code_as_str EEnoent = ''ENOENT''"
| "err_code_as_str EBodyTooLarge = ''BODY_TOO_LARGE''"

definition err_code_from_str :: "string \<Rightarrow> err_code option" where
  "err_code_from_str s =
     (if s = ''MAILBOX'' then Some EMailbox
      else if s = ''DOMAIN'' then Some EDomain
      else if s = ''SIGN'' then Some ESign
      else if s = ''DELIVERY'' then Some EDelivery
      else if s = ''TEMP'' then Some ETemp
      else if s = ''MALFORMED'' then Some EMalformed
      else if s = ''PROTOCOL'' then Some EProtocol
      else if s = ''NOTFOUND'' then Some ENotFound
      else if s = ''IO'' then Some EIo
      else if s = ''VALIDATION'' then Some EValidation
      else if s = ''NONEMPTY'' then Some ENonEmpty
      else if s = ''ECONFLICT'' then Some EConflict
      else if s = ''EACCES'' then Some EEaccess
      else if s = ''ENOENT'' then Some EEnoent
      else if s = ''BODY_TOO_LARGE'' then Some EBodyTooLarge
      else None)"

datatype send_response = SendOk string | SendErr err_code string

datatype ack_response = AckOk | AckErr err_code string

datatype json_ack_response = JsonOk bytes | JsonErr err_code string

datatype malformed =
    ExpectedVerb string
  | UnexpectedEofInHeaders
  | InvalidHeaderLine string
  | NonAsciiHeaderName string
  | DuplicateHeader string
  | EmptyHeader string
  | MissingHeader string
  | NonIntegerLength string string
  | LengthExceedsCap string nat nat
  | LengthNotZero string nat
  | InvalidBool string string
  | InvalidOwnerValue string
  | FolderNotAllowed
  | ForceOnlyOnDelete
  | TextAndHtmlExclusive
  | TakesNoHeaders string string
  | BodyTruncated nat
  | HtmlBodyTruncated nat
  | EofMidLine
  | HeaderLineTooLong
  | InvalidUtf8Line
  | ResponseStatusEof
  | NotOkStatus string
  | MissingVersionLength
  | InvalidVersionJson string

datatype parse_error =
    ClosedBeforeRequest
  | Malformed malformed
  | UnknownVerb string
  | Io string

type_synonym 'a parser = "string option \<Rightarrow> bytes \<Rightarrow> parse_error + 'a \<times> bytes"

section \<open>Reading lines and headers\<close>

fun read_line_loop :: "bytes \<Rightarrow> string option parser" where
  "read_line_loop buf fail [] =
     (case fail of
        Some e \<Rightarrow> Inl (Io e)
      | None \<Rightarrow> if buf = [] then Inr (None, []) else Inl (Malformed EofMidLine))"
| "read_line_loop buf fail (b # bs) =
     (if b = LF then
        (if valid_utf8 buf then Inr (Some buf, bs) else Inl (Malformed InvalidUtf8Line))
      else if length (buf @ [b]) > MAX_HEADER_LINE then Inl (Malformed HeaderLineTooLong)
      else read_line_loop (buf @ [b]) fail bs)"

definition read_line :: "string option parser" where
  "read_line fail bs = read_line_loop [] fail bs"

lemma read_line_loop_consumes:
  "read_line_loop buf fail bs = Inr (Some l, r) \<Longrightarrow> length r < length bs"
  by (induction buf fail bs rule: read_line_loop.induct)
    (auto split: option.splits if_splits)

lemma read_line_consumes: "read_line fail bs = Inr (Some l, r) \<Longrightarrow> length r < length bs"
  by (simp add: read_line_def read_line_loop_consumes)

text \<open>A header line is \<open>None\<close> when it is the blank line that ends the headers.\<close>

definition split_header :: "string \<Rightarrow> parse_error + (string \<times> string) option" where
  "split_header line =
     (if line = [] then Inr None
      else case split_once CHR '':'' line of
          None \<Rightarrow> Inl (Malformed (InvalidHeaderLine line))
        | Some (name, val) \<Rightarrow>
            if \<not> is_ascii name then Inl (Malformed (NonAsciiHeaderName name))
            else Inr (Some (to_ascii_lowercase (trim name), trim val)))"

definition read_header :: "(string \<times> string) option parser" where
  "read_header fail bs =
     (case read_line fail bs of
        Inl e \<Rightarrow> Inl e
      | Inr (None, _) \<Rightarrow> Inl (Malformed UnexpectedEofInHeaders)
      | Inr (Some line, r) \<Rightarrow>
          (case split_header (trim_end_matches CR line) of
             Inl e \<Rightarrow> Inl e
           | Inr h \<Rightarrow> Inr (h, r)))"

lemma read_header_consumes: "read_header fail bs = Inr (h, r) \<Longrightarrow> length r < length bs"
  by (auto simp: read_header_def dest: read_line_consumes split: sum.splits option.splits prod.splits)

text \<open>The loop all verbs with headers share: each header updates the verb's own variables.\<close>

function header_loop ::
  "('s \<Rightarrow> string \<Rightarrow> string \<Rightarrow> malformed + 's) \<Rightarrow> 's \<Rightarrow> 's parser" where
  "header_loop step st fail bs =
     (case read_header fail bs of
        Inl e \<Rightarrow> Inl e
      | Inr (None, r) \<Rightarrow> Inr (st, r)
      | Inr (Some (name, val), r) \<Rightarrow>
          (case step st name val of
             Inl m \<Rightarrow> Inl (Malformed m)
           | Inr st' \<Rightarrow> header_loop step st' fail r))"
  by pat_completeness auto
termination
  by (relation "measure (\<lambda>(step, st, fail, bs). length bs)") (auto dest: read_header_consumes)

declare header_loop.simps [simp del]

definition read_exact :: "malformed \<Rightarrow> nat \<Rightarrow> bytes parser" where
  "read_exact truncated n fail bs =
     (if n \<le> length bs then Inr (take n bs, drop n bs)
      else case fail of None \<Rightarrow> Inl (Malformed truncated) | Some e \<Rightarrow> Inl (Io e))"

definition parse_length :: "string \<Rightarrow> nat \<Rightarrow> nat option \<Rightarrow> string \<Rightarrow> malformed + nat" where
  "parse_length header cap seen val =
     (if seen \<noteq> None then Inl (DuplicateHeader header)
      else case parse_usize val of
          None \<Rightarrow> Inl (NonIntegerLength header val)
        | Some n \<Rightarrow> if n > cap then Inl (LengthExceedsCap header n cap) else Inr n)"

definition parse_zero_length :: "string \<Rightarrow> nat option \<Rightarrow> string \<Rightarrow> malformed + nat" where
  "parse_zero_length verb seen val =
     (if seen \<noteq> None then Inl (DuplicateHeader ''Content-Length'')
      else case parse_usize val of
          None \<Rightarrow> Inl (NonIntegerLength ''Content-Length'' val)
        | Some n \<Rightarrow> if n \<noteq> 0 then Inl (LengthNotZero verb n) else Inr n)"

definition parse_word :: "string \<Rightarrow> string option \<Rightarrow> string \<Rightarrow> malformed + string" where
  "parse_word header seen val =
     (if seen \<noteq> None then Inl (DuplicateHeader header)
      else if val = [] then Inl (EmptyHeader header)
      else Inr val)"

definition parse_bool :: "string \<Rightarrow> string \<Rightarrow> malformed + bool" where
  "parse_bool header val =
     (let v_lower = to_ascii_lowercase val in
      if v_lower = ''true'' then Inr True
      else if v_lower = ''false'' then Inr False
      else Inl (InvalidBool header val))"

text \<open>The result of a header's check stored by \<open>upd\<close>.\<close>

definition set_header :: "malformed + 'a \<Rightarrow> ('a \<Rightarrow> 's) \<Rightarrow> malformed + 's" where
  "set_header r upd = (case r of Inl m \<Rightarrow> Inl m | Inr v \<Rightarrow> Inr (upd v))"

section \<open>SEND\<close>

record send_headers =
  sh_content_length :: "nat option"
  sh_html_body_length :: "nat option"
  sh_text_only :: bool
  sh_text_only_seen :: bool

definition send_header_step ::
  "nat \<Rightarrow> send_headers \<Rightarrow> string \<Rightarrow> string \<Rightarrow> malformed + send_headers" where
  "send_header_step max_body st name val =
     (if name = ''content-length'' then
        set_header (parse_length ''Content-Length'' max_body (sh_content_length st) val)
          (\<lambda>n. st\<lparr>sh_content_length := Some n\<rparr>)
      else if name = ''text-only'' then
        (if sh_text_only_seen st then Inl (DuplicateHeader ''Text-Only'')
         else set_header (parse_bool ''Text-Only'' val)
           (\<lambda>b. st\<lparr>sh_text_only := b, sh_text_only_seen := True\<rparr>))
      else if name = ''html-body-length'' then
        set_header (parse_length ''Html-Body-Length'' max_body (sh_html_body_length st) val)
          (\<lambda>n. st\<lparr>sh_html_body_length := Some n\<rparr>)
      else Inr st)"

definition send_init :: send_headers where
  "send_init = \<lparr>sh_content_length = None, sh_html_body_length = None,
     sh_text_only = False, sh_text_only_seen = False\<rparr>"

definition send_body :: "send_headers \<Rightarrow> send_request parser" where
  "send_body st fail bs =
     (case sh_content_length st of
        None \<Rightarrow> Inl (Malformed (MissingHeader ''Content-Length''))
      | Some content_length \<Rightarrow>
          if sh_text_only st \<and> sh_html_body_length st \<noteq> None
          then Inl (Malformed TextAndHtmlExclusive)
          else (case read_exact (BodyTruncated content_length) content_length fail bs of
              Inl e \<Rightarrow> Inl e
            | Inr (body, r) \<Rightarrow>
                (case sh_html_body_length st of
                   None \<Rightarrow>
                     Inr (\<lparr>sr_body = body, sr_text_only = sh_text_only st, sr_html_body = None\<rparr>, r)
                 | Some html_len \<Rightarrow>
                     (case read_exact (HtmlBodyTruncated html_len) html_len fail r of
                        Inl e \<Rightarrow> Inl e
                      | Inr (html, r') \<Rightarrow>
                          Inr (\<lparr>sr_body = body, sr_text_only = sh_text_only st,
                                sr_html_body = Some html\<rparr>, r')))))"

definition parse_send_headers_and_body :: "nat \<Rightarrow> send_request parser" where
  "parse_send_headers_and_body max_body fail bs =
     (case header_loop (send_header_step max_body) send_init fail bs of
        Inl e \<Rightarrow> Inl e
      | Inr (st, r) \<Rightarrow> send_body st fail r)"

section \<open>MARK-READ and MARK-UNREAD\<close>

record mark_headers =
  mh_mailbox :: "string option"
  mh_id :: "string option"
  mh_content_length :: "nat option"

definition mark_header_step ::
  "mark_headers \<Rightarrow> string \<Rightarrow> string \<Rightarrow> malformed + mark_headers" where
  "mark_header_step st name val =
     (if name = ''mailbox'' then
        set_header (parse_word ''Mailbox'' (mh_mailbox st) val) (\<lambda>v. st\<lparr>mh_mailbox := Some v\<rparr>)
      else if name = ''id'' then
        set_header (parse_word ''Id'' (mh_id st) val) (\<lambda>v. st\<lparr>mh_id := Some v\<rparr>)
      else if name = ''folder'' then Inl FolderNotAllowed
      else if name = ''content-length'' then
        set_header (parse_zero_length ''MARK'' (mh_content_length st) val)
          (\<lambda>n. st\<lparr>mh_content_length := Some n\<rparr>)
      else Inr st)"

definition mark_init :: mark_headers where
  "mark_init = \<lparr>mh_mailbox = None, mh_id = None, mh_content_length = None\<rparr>"

definition parse_mark_headers :: "bool \<Rightarrow> mark_request parser" where
  "parse_mark_headers rd fail bs =
     (case header_loop mark_header_step mark_init fail bs of
        Inl e \<Rightarrow> Inl e
      | Inr (st, r) \<Rightarrow>
          (case mh_mailbox st of
             None \<Rightarrow> Inl (Malformed (MissingHeader ''Mailbox''))
           | Some mailbox \<Rightarrow>
               (case mh_id st of
                  None \<Rightarrow> Inl (Malformed (MissingHeader ''Id''))
                | Some id' \<Rightarrow> Inr (\<lparr>mr_mailbox = mailbox, mr_id = id', mr_read = rd\<rparr>, r))))"

section \<open>MAILBOX-CREATE and MAILBOX-DELETE\<close>

record mailbox_headers =
  bh_name :: "string option"
  bh_owner :: "string option"
  bh_force :: bool
  bh_force_seen :: bool
  bh_content_length :: "nat option"

definition mailbox_header_step ::
  "bool \<Rightarrow> mailbox_headers \<Rightarrow> string \<Rightarrow> string \<Rightarrow> malformed + mailbox_headers" where
  "mailbox_header_step create st name val =
     (if name = ''name'' then
        set_header (parse_word ''Name'' (bh_name st) val) (\<lambda>v. st\<lparr>bh_name := Some v\<rparr>)
      else if name = ''owner'' then
        (case parse_word ''Owner'' (bh_owner st) val of
           Inl m \<Rightarrow> Inl m
         | Inr v \<Rightarrow>
             if \<not> is_valid_system_username v then Inl (InvalidOwnerValue v)
             else Inr (st\<lparr>bh_owner := Some v\<rparr>))
      else if name = ''force'' then
        (if create then Inl ForceOnlyOnDelete
         else if bh_force_seen st then Inl (DuplicateHeader ''Force'')
         else set_header (parse_bool ''Force'' val)
           (\<lambda>b. st\<lparr>bh_force := b, bh_force_seen := True\<rparr>))
      else if name = ''content-length'' then
        set_header (parse_zero_length ''MAILBOX'' (bh_content_length st) val)
          (\<lambda>n. st\<lparr>bh_content_length := Some n\<rparr>)
      else Inr st)"

definition mailbox_init :: mailbox_headers where
  "mailbox_init = \<lparr>bh_name = None, bh_owner = None, bh_force = False, bh_force_seen = False,
     bh_content_length = None\<rparr>"

definition parse_mailbox_crud_headers :: "bool \<Rightarrow> mailbox_request parser" where
  "parse_mailbox_crud_headers create fail bs =
     (case header_loop (mailbox_header_step create) mailbox_init fail bs of
        Inl e \<Rightarrow> Inl e
      | Inr (st, r) \<Rightarrow>
          (case bh_name st of
             None \<Rightarrow> Inl (Malformed (MissingHeader ''Name''))
           | Some name \<Rightarrow>
               Inr (\<lparr>mq_name = name, mq_create = create, mq_owner = bh_owner st,
                     mq_force = bh_force st\<rparr>, r)))"

section \<open>MAILBOX-LIST, HOOK-LIST and VERSION\<close>

definition parse_no_headers :: "string \<Rightarrow> unit parser" where
  "parse_no_headers verb fail bs =
     (case read_line fail bs of
        Inl e \<Rightarrow> Inl e
      | Inr (None, _) \<Rightarrow> Inl (Malformed UnexpectedEofInHeaders)
      | Inr (Some line, r) \<Rightarrow>
         (let line = trim_end_matches CR line in
          if line \<noteq> [] then Inl (Malformed (TakesNoHeaders verb line)) else Inr ((), r)))"

definition parse_mailbox_list_headers :: "unit parser" where
  "parse_mailbox_list_headers = parse_no_headers ''MAILBOX-LIST''"

definition parse_hook_list_headers :: "unit parser" where
  "parse_hook_list_headers = parse_no_headers ''HOOK-LIST''"

definition parse_version_headers :: "unit parser" where
  "parse_version_headers = parse_no_headers ''VERSION''"

section \<open>HOOK-CREATE and HOOK-DELETE\<close>

record hook_headers =
  kh_mailbox :: "string option"
  kh_event :: "string option"
  kh_name :: "string option"
  kh_content_length :: "nat option"

definition hook_create_header_step ::
  "nat \<Rightarrow> hook_headers \<Rightarrow> string \<Rightarrow> string \<Rightarrow> malformed + hook_headers" where
  "hook_create_header_step max_body st name val =
     (if name = ''mailbox'' then
        set_header (parse_word ''Mailbox'' (kh_mailbox st) val) (\<lambda>v. st\<lparr>kh_mailbox := Some v\<rparr>)
      else if name = ''event'' then
        set_header (parse_word ''Event'' (kh_event st) val) (\<lambda>v. st\<lparr>kh_event := Some v\<rparr>)
      else if name = ''name'' then
        set_header (parse_word ''Name'' (kh_name st) val) (\<lambda>v. st\<lparr>kh_name := Some v\<rparr>)
      else if name = ''content-length'' then
        set_header (parse_length ''Content-Length'' max_body (kh_content_length st) val)
          (\<lambda>n. st\<lparr>kh_content_length := Some n\<rparr>)
      else Inr st)"

definition hook_init :: hook_headers where
  "hook_init = \<lparr>kh_mailbox = None, kh_event = None, kh_name = None, kh_content_length = None\<rparr>"

definition hook_create_body :: "hook_headers \<Rightarrow> hook_create_request parser" where
  "hook_create_body st fail bs =
     (case kh_mailbox st of
        None \<Rightarrow> Inl (Malformed (MissingHeader ''Mailbox''))
      | Some mailbox \<Rightarrow>
     (case kh_event st of
        None \<Rightarrow> Inl (Malformed (MissingHeader ''Event''))
      | Some event \<Rightarrow>
     (case kh_content_length st of
        None \<Rightarrow> Inl (Malformed (MissingHeader ''Content-Length''))
      | Some content_length \<Rightarrow>
     (case read_exact (BodyTruncated content_length) content_length fail bs of
        Inl e \<Rightarrow> Inl e
      | Inr (body, r) \<Rightarrow>
          Inr (\<lparr>hc_mailbox = mailbox, hc_event = event, hc_name = kh_name st, hc_body = body\<rparr>, r)))))"

definition parse_hook_create_headers_and_body :: "nat \<Rightarrow> hook_create_request parser" where
  "parse_hook_create_headers_and_body max_body fail bs =
     (case header_loop (hook_create_header_step max_body) hook_init fail bs of
        Inl e \<Rightarrow> Inl e
      | Inr (st, r) \<Rightarrow> hook_create_body st fail r)"

record hook_delete_headers =
  dh_name :: "string option"
  dh_content_length :: "nat option"

definition hook_delete_header_step ::
  "hook_delete_headers \<Rightarrow> string \<Rightarrow> string \<Rightarrow> malformed + hook_delete_headers" where
  "hook_delete_header_step st name val =
     (if name = ''hook-name'' then
        set_header (parse_word ''Hook-Name'' (dh_name st) val) (\<lambda>v. st\<lparr>dh_name := Some v\<rparr>)
      else if name = ''content-length'' then
        set_header (parse_zero_length ''HOOK-DELETE'' (dh_content_length st) val)
          (\<lambda>n. st\<lparr>dh_content_length := Some n\<rparr>)
      else Inr st)"

definition parse_hook_delete_headers :: "hook_delete_request parser" where
  "parse_hook_delete_headers fail bs =
     (case header_loop hook_delete_header_step \<lparr>dh_name = None, dh_content_length = None\<rparr> fail bs of
        Inl e \<Rightarrow> Inl e
      | Inr (st, r) \<Rightarrow>
          (case dh_name st of
             None \<Rightarrow> Inl (Malformed (MissingHeader ''Hook-Name''))
           | Some name \<Rightarrow> Inr (\<lparr>hd_name = name\<rparr>, r)))"

section \<open>Dispatch\<close>

definition map_parsed :: "('a \<Rightarrow> 'b) \<Rightarrow> parse_error + 'a \<times> bytes \<Rightarrow> parse_error + 'b \<times> bytes" where
  "map_parsed f p = (case p of Inl e \<Rightarrow> Inl e | Inr (a, r) \<Rightarrow> Inr (f a, r))"

definition parse_verb :: "nat \<Rightarrow> string \<Rightarrow> request parser" where
  "parse_verb max_body verb fail r =
     (if verb = ''SEND'' then map_parsed Send (parse_send_headers_and_body max_body fail r)
      else if verb = ''MARK-READ'' then map_parsed Mark (parse_mark_headers True fail r)
      else if verb = ''MARK-UNREAD'' then map_parsed Mark (parse_mark_headers False fail r)
      else if verb = ''MAILBOX-CREATE'' then
        map_parsed MailboxLifecycle (parse_mailbox_crud_headers True fail r)
      else if verb = ''MAILBOX-DELETE'' then
        map_parsed MailboxLifecycle (parse_mailbox_crud_headers False fail r)
      else if verb = ''MAILBOX-LIST'' then
        map_parsed (\<lambda>_. MailboxList) (parse_mailbox_list_headers fail r)
      else if verb = ''HOOK-CREATE'' then
        map_parsed HookCreate (parse_hook_create_headers_and_body max_body fail r)
      else if verb = ''HOOK-DELETE'' then map_parsed HookDelete (parse_hook_delete_headers fail r)
      else if verb = ''HOOK-LIST'' then map_parsed (\<lambda>_. HookList) (parse_hook_list_headers fail r)
      else if verb = ''VERSION'' then map_parsed (\<lambda>_. Version) (parse_version_headers fail r)
      else Inl (UnknownVerb verb))"

definition parse_request_with_limit :: "nat \<Rightarrow> request parser" where
  "parse_request_with_limit max_body fail bs =
     (case read_line fail bs of
        Inl e \<Rightarrow> Inl e
      | Inr (None, _) \<Rightarrow> Inl ClosedBeforeRequest
      | Inr (Some request_line, r) \<Rightarrow>
         (let line = trim_end_matches CR request_line in
          case strip_prefix line ''AIMX/1 '' of
            None \<Rightarrow> Inl (Malformed (ExpectedVerb line))
          | Some verb \<Rightarrow> parse_verb max_body verb fail r))"

definition parse_request :: "request parser" where
  "parse_request = parse_request_with_limit DEFAULT_MAX_BODY_SIZE"

section \<open>Writers\<close>

definition sanitize_inline :: "string \<Rightarrow> string" where
  "sanitize_inline s = filter (\<lambda>c. c \<noteq> LF \<and> c \<noteq> CR) s"

definition header_line :: "string \<Rightarrow> string \<Rightarrow> bytes" where
  "header_line name val = name @ '': '' @ val @ [LF]"

definition err_frame :: "err_code \<Rightarrow> string \<Rightarrow> bytes" where
  "err_frame ec reason =
     ''AIMX/1 ERR '' @ err_code_as_str ec @ '' '' @ sanitize_inline reason @ [LF] @
     header_line ''Code'' (err_code_as_str ec) @ [LF]"

fun write_response :: "send_response \<Rightarrow> bytes" where
  "write_response (SendOk message_id) = ''AIMX/1 OK '' @ sanitize_inline message_id @ [LF]"
| "write_response (SendErr ec reason) = err_frame ec reason"

fun write_ack_response :: "ack_response \<Rightarrow> bytes" where
  "write_ack_response AckOk = ''AIMX/1 OK'' @ [LF]"
| "write_ack_response (AckErr ec reason) = err_frame ec reason"

fun write_json_ack_response :: "json_ack_response \<Rightarrow> bytes" where
  "write_json_ack_response (JsonOk body) =
     ''AIMX/1 OK'' @ [LF] @ header_line ''Content-Length'' (show_nat (length body)) @ [LF] @ body"
| "write_json_ack_response (JsonErr ec reason) = err_frame ec reason"

definition write_request :: "send_request \<Rightarrow> bytes" where
  "write_request req =
     ''AIMX/1 SEND'' @ [LF] @
     (if sr_text_only req then header_line ''Text-Only'' ''true'' else []) @
     header_line ''Content-Length'' (show_nat (length (sr_body req))) @
     (case sr_html_body req of
        None \<Rightarrow> []
      | Some html \<Rightarrow> header_line ''Html-Body-Length'' (show_nat (length html))) @
     [LF] @ sr_body req @
     (case sr_html_body req of None \<Rightarrow> [] | Some html \<Rightarrow> html)"

definition write_mark_request :: "mark_request \<Rightarrow> bytes" where
  "write_mark_request req =
     ''AIMX/1 '' @ (if mr_read req then ''MARK-READ'' else ''MARK-UNREAD'') @ [LF] @
     header_line ''Mailbox'' (sanitize_inline (mr_mailbox req)) @
     header_line ''Id'' (sanitize_inline (mr_id req)) @
     header_line ''Content-Length'' ''0'' @ [LF]"

definition write_mailbox_crud_request :: "mailbox_request \<Rightarrow> bytes" where
  "write_mailbox_crud_request req =
     ''AIMX/1 '' @ (if mq_create req then ''MAILBOX-CREATE'' else ''MAILBOX-DELETE'') @ [LF] @
     header_line ''Name'' (sanitize_inline (mq_name req)) @
     (case mq_owner req of
        None \<Rightarrow> []
      | Some owner \<Rightarrow> header_line ''Owner'' (sanitize_inline owner)) @
     (if \<not> mq_create req \<and> mq_force req then header_line ''Force'' ''true'' else []) @
     header_line ''Content-Length'' ''0'' @ [LF]"

definition write_mailbox_list_request :: bytes where
  "write_mailbox_list_request = ''AIMX/1 MAILBOX-LIST'' @ [LF, LF]"

definition write_hook_list_request :: bytes where
  "write_hook_list_request = ''AIMX/1 HOOK-LIST'' @ [LF, LF]"

definition write_version_request :: bytes where
  "write_version_request = ''AIMX/1 VERSION'' @ [LF, LF]"

definition write_hook_create_request :: "hook_create_request \<Rightarrow> bytes" where
  "write_hook_create_request req =
     ''AIMX/1 HOOK-CREATE'' @ [LF] @
     header_line ''Mailbox'' (sanitize_inline (hc_mailbox req)) @
     header_line ''Event'' (sanitize_inline (hc_event req)) @
     (case hc_name req of
        None \<Rightarrow> []
      | Some name \<Rightarrow> header_line ''Name'' (sanitize_inline name)) @
     header_line ''Content-Length'' (show_nat (length (hc_body req))) @ [LF] @ hc_body req"

definition write_hook_delete_request :: "hook_delete_request \<Rightarrow> bytes" where
  "write_hook_delete_request req =
     ''AIMX/1 HOOK-DELETE'' @ [LF] @
     header_line ''Hook-Name'' (sanitize_inline (hd_name req)) @
     header_line ''Content-Length'' ''0'' @ [LF]"

section \<open>The VERSION response\<close>

text \<open>JSON is \<open>serde_json\<close>: \<open>to_json\<close> and \<open>from_json\<close>. Header lines here need not be ASCII.\<close>

definition write_version_response :: "(version_response \<Rightarrow> bytes) \<Rightarrow> version_response \<Rightarrow> bytes" where
  "write_version_response to_json response = write_json_ack_response (JsonOk (to_json response))"

definition version_line :: "nat option \<Rightarrow> string \<Rightarrow> malformed + nat option" where
  "version_line content_length line =
     (case split_once CHR '':'' line of
        None \<Rightarrow> Inl (InvalidHeaderLine line)
      | Some (n, v) \<Rightarrow>
          if eq_ignore_ascii_case (trim n) ''content-length'' then
            (case parse_usize (trim v) of
               None \<Rightarrow> Inl (NonIntegerLength ''Content-Length'' (trim v))
             | Some val \<Rightarrow> Inr (Some val))
          else Inr content_length)"

function version_header_loop :: "nat option \<Rightarrow> nat option parser" where
  "version_header_loop content_length fail bs =
     (case read_line fail bs of
        Inl e \<Rightarrow> Inl e
      | Inr (None, _) \<Rightarrow> Inl (Malformed UnexpectedEofInHeaders)
      | Inr (Some line, r) \<Rightarrow>
          (if trim_end_matches CR line = [] then Inr (content_length, r)
           else case version_line content_length (trim_end_matches CR line) of
               Inl m \<Rightarrow> Inl (Malformed m)
             | Inr content_length' \<Rightarrow> version_header_loop content_length' fail r))"
  by pat_completeness auto
termination
  by (relation "measure (\<lambda>(content_length, fail, bs). length bs)") (auto dest: read_line_consumes)

declare version_header_loop.simps [simp del]

definition read_version_response ::
  "(bytes \<Rightarrow> string + version_response) \<Rightarrow> version_response parser" where
  "read_version_response from_json fail bs =
     (case read_line fail bs of
        Inl e \<Rightarrow> Inl e
      | Inr (None, _) \<Rightarrow> Inl (Malformed ResponseStatusEof)
      | Inr (Some status, r) \<Rightarrow>
          if \<not> starts_with (trim_end_matches CR status) ''AIMX/1 OK''
          then Inl (Malformed (NotOkStatus (trim_end_matches CR status)))
          else (case version_header_loop None fail r of
              Inl e \<Rightarrow> Inl e
            | Inr (None, _) \<Rightarrow> Inl (Malformed MissingVersionLength)
            | Inr (Some n, r') \<Rightarrow>
                (case read_exact (BodyTruncated n) n fail r' of
                   Inl e \<Rightarrow> Inl e
                 | Inr (body, r'') \<Rightarrow>
                     (case from_json body of
                        Inl e \<Rightarrow> Inl (Malformed (InvalidVersionJson e))
                      | Inr parsed \<Rightarrow> Inr (parsed, r'')))))"

end
