(* ===== verification/WireFacts.thy ===== *)
theory WireFacts
  imports WireCodec
begin

text \<open>
  Facts on the \<open>AIMX/1\<close> codec: the parsers invert the writers on every request a client can
  send, frames follow each other on one connection without ambiguity, bodies stay under the
  cap, and no field of a response can add a line to its frame.
\<close>

section \<open>Lines and headers\<close>

lemma read_line_loop_line:
  assumes "LF \<notin> set l" "length buf + length l \<le> MAX_HEADER_LINE" "valid_utf8 (buf @ l)"
  shows "read_line_loop buf fail (l @ LF # r) = Inr (Some (buf @ l), r)"
  using assms by (induction l arbitrary: buf) auto

lemma read_line_line:
  assumes "LF \<notin> set l" "length l \<le> MAX_HEADER_LINE" "valid_utf8 l"
  shows "read_line fail (l @ LF # r) = Inr (Some l, r)"
  using read_line_loop_line [of l "[]"] assms by (simp add: read_line_def)

lemma read_line_blank: "read_line fail (LF # r) = Inr (Some [], r)"
  by (simp add: read_line_def)

lemma trim_end_matches_no: "c \<notin> set s \<Longrightarrow> trim_end_matches c s = s"
  by (rule trim_end_matches_id) (cases s rule: rev_cases, auto)

lemma header_loop_blank:
  "header_loop step st fail (LF # r) = Inr (st, r)"
  by (subst header_loop.simps) (simp add: read_header_def read_line_blank split_header_def trim_end_matches_no)

text \<open>A value a writer can put on one header line, and the parser reads back as it is.\<close>

definition inline_ok :: "string \<Rightarrow> bool" where
  "inline_ok v \<longleftrightarrow>
     v \<noteq> [] \<and> valid_utf8 v \<and> trim v = v \<and> LF \<notin> set v \<and> CR \<notin> set v \<and> length v \<le> 8000"

definition header_name_ok :: "string \<Rightarrow> bool" where
  "header_name_ok n \<longleftrightarrow>
     list_all (\<lambda>c. is_ascii_char c \<and> plain_byte c \<and> c \<noteq> CHR '':'') n \<and> length n \<le> 100"

lemma plain_no_line_end:
  assumes "list_all plain_byte s"
  shows "LF \<notin> set s" "CR \<notin> set s"
proof -
  have "\<not> plain_byte LF" "\<not> plain_byte CR" by (simp_all add: plain_byte_def LF_def CR_def code_def)
  with assms show "LF \<notin> set s" "CR \<notin> set s" by (auto simp: list_all_iff)
qed

lemma header_name_okD:
  assumes "header_name_ok n"
  shows "is_ascii n" "trim n = n" "CHR '':'' \<notin> set n" "LF \<notin> set n" "CR \<notin> set n"
proof -
  from assms have plain: "list_all plain_byte n" and "list_all is_ascii_char n"
    and colon: "list_all (\<lambda>c. c \<noteq> CHR '':'') n"
    by (simp_all add: header_name_ok_def list_all_iff)
  then show "is_ascii n" by (simp add: is_ascii_def)
  show "trim n = n" using plain by (rule trim_all_plain)
  show "CHR '':'' \<notin> set n" using colon by (auto simp: list_all_iff)
  show "LF \<notin> set n" "CR \<notin> set n" using plain by (simp_all add: plain_no_line_end)
qed

lemma sanitize_inline_ok: "inline_ok v \<Longrightarrow> sanitize_inline v = v"
  by (auto simp: inline_ok_def sanitize_inline_def intro!: filter_True)

lemma inline_ok_nat:
  assumes "n < usize_limit"
  shows "inline_ok (show_nat n)"
proof -
  have "length (show_nat n) \<le> 8000" if "n < 10 ^ k" "k \<le> 8000" "0 < k" for k
  proof -
    have "length (show_nat n) \<le> k"
      using that(1,3)
    proof (induction k arbitrary: n)
      case (Suc k)
      show ?case
      proof (cases "n < 10")
        case True
        then show ?thesis by (simp add: show_nat.simps)
      next
        case False
        with Suc.prems have "k \<noteq> 0" by (cases k) auto
        moreover from Suc.prems have "n div 10 < 10 ^ k" by (simp add: less_mult_imp_div_less mult.commute)
        ultimately have "length (show_nat (n div 10)) \<le> k" using Suc.IH by simp
        with False show ?thesis by (subst show_nat.simps) simp
      qed
    qed simp
    with that(2) show ?thesis by simp
  qed
  from this [of 20] assms have "length (show_nat n) \<le> 8000" by (simp add: usize_limit_def)
  then show ?thesis
    by (simp add: inline_ok_def valid_utf8_is_ascii is_ascii_show_nat show_nat_no_line_end)
qed

lemma read_header_line:
  assumes n: "header_name_ok n" and v: "inline_ok v"
  shows "read_header fail (header_line n v @ r) = Inr (Some (to_ascii_lowercase n, v), r)"
proof -
  let ?l = "n @ CHR '':'' # CHR '' '' # v"
  note nD = header_name_okD [OF n]
  from v have vD: "v \<noteq> []" "valid_utf8 v" "trim v = v" "LF \<notin> set v" "CR \<notin> set v" "length v \<le> 8000"
    by (simp_all add: inline_ok_def)
  from n have "length n \<le> 100" by (simp add: header_name_ok_def)
  moreover have "valid_utf8 ?l"
    using vD(2) by (simp add: valid_utf8_is_ascii_append [OF nD(1)] is_ascii_char_def code_def)
  ultimately have "read_line fail (?l @ LF # r) = Inr (Some ?l, r)"
    using nD(4) vD(4,6) by (intro read_line_line) (auto simp: LF_def MAX_HEADER_LINE_def)
  moreover have "trim_end_matches CR ?l = ?l"
    using nD(5) vD(5) by (intro trim_end_matches_no) (auto simp: CR_def)
  moreover have "split_header ?l = Inr (Some (to_ascii_lowercase n, v))"
    using nD vD(3) by (simp add: split_header_def split_once_append trim_space)
  ultimately show ?thesis
    by (simp add: read_header_def header_line_def)
qed

lemma header_loop_line:
  assumes "header_name_ok n" "inline_ok v"
  shows "header_loop step st fail (header_line n v @ r) =
    (case step st (to_ascii_lowercase n) v of
       Inl m \<Rightarrow> Inl (Malformed m)
     | Inr st' \<Rightarrow> header_loop step st' fail r)"
  using read_header_line [OF assms] by (subst header_loop.simps) simp

lemma header_names_ok:
  "header_name_ok ''Content-Length''" "header_name_ok ''Text-Only''"
  "header_name_ok ''Html-Body-Length''" "header_name_ok ''Mailbox''" "header_name_ok ''Id''"
  "header_name_ok ''Name''" "header_name_ok ''Owner''" "header_name_ok ''Force''"
  "header_name_ok ''Event''" "header_name_ok ''Hook-Name''"
  by (simp_all add: header_name_ok_def is_ascii_char_def plain_byte_def code_def)

lemma header_names_lower:
  "to_ascii_lowercase ''Content-Length'' = ''content-length''"
  "to_ascii_lowercase ''Text-Only'' = ''text-only''"
  "to_ascii_lowercase ''Html-Body-Length'' = ''html-body-length''"
  "to_ascii_lowercase ''Mailbox'' = ''mailbox''"
  "to_ascii_lowercase ''Id'' = ''id''"
  "to_ascii_lowercase ''Name'' = ''name''"
  "to_ascii_lowercase ''Owner'' = ''owner''"
  "to_ascii_lowercase ''Force'' = ''force''"
  "to_ascii_lowercase ''Event'' = ''event''"
  "to_ascii_lowercase ''Hook-Name'' = ''hook-name''"
  "to_ascii_lowercase ''true'' = ''true''"
  by code_simp+

lemma inline_ok_words: "inline_ok ''true''" "inline_ok ''0''"
proof -
  have "inline_ok v" if "v \<noteq> []" "list_all (\<lambda>c. plain_byte c \<and> is_ascii_char c) v" "length v \<le> 10" for v
  proof -
    from that(2) have "list_all plain_byte v" "is_ascii v" by (auto simp: list_all_iff is_ascii_def)
    moreover from this(1) have "LF \<notin> set v" "CR \<notin> set v"
      by (simp_all add: plain_no_line_end)
    ultimately show ?thesis
      using that by (simp add: inline_ok_def trim_all_plain valid_utf8_is_ascii)
  qed
  then show "inline_ok ''true''" "inline_ok ''0''"
    by (simp_all add: plain_byte_def is_ascii_char_def code_def)
qed

lemma parse_usize_0: "parse_usize ''0'' = Some 0"
  by (simp add: parse_usize_def digits_value_def is_ascii_digit_def code_def usize_limit_def)

lemmas header_facts = header_loop_line header_loop_blank header_names_ok header_names_lower
  inline_ok_words inline_ok_nat sanitize_inline_ok set_header_def parse_usize_0

section \<open>The interface of a frame codec\<close>

text \<open>
  What a connection that carries several frames relies on: a writer \<open>emit\<close> and a parser
  \<open>parse\<close> that reads the frame back off the front of whatever follows it, for the values \<open>ok\<close>
  admits.
\<close>

locale frame_codec =
  fixes emit :: "'a \<Rightarrow> bytes" and parse :: "bytes \<Rightarrow> 'e + 'a \<times> bytes" and ok :: "'a \<Rightarrow> bool"
  assumes frame_roundtrip: "ok x \<Longrightarrow> parse (emit x @ rest) = Inr (x, rest)"

fun parse_frames :: "(bytes \<Rightarrow> 'e + 'a \<times> bytes) \<Rightarrow> nat \<Rightarrow> bytes \<Rightarrow> 'e + 'a list \<times> bytes" where
  "parse_frames p 0 bs = Inr ([], bs)"
| "parse_frames p (Suc n) bs =
     (case p bs of
        Inl e \<Rightarrow> Inl e
      | Inr (x, r) \<Rightarrow>
          (case parse_frames p n r of Inl e \<Rightarrow> Inl e | Inr (xs, r') \<Rightarrow> Inr (x # xs, r')))"

context frame_codec
begin

lemma pipelined:
  "list_all ok xs \<Longrightarrow> parse_frames parse (length xs) (concat (map emit xs) @ rest) = Inr (xs, rest)"
  by (induction xs) (simp_all add: frame_roundtrip)

lemma prefix_free:
  assumes "ok x" "ok y" "emit x @ r = emit y @ s"
  shows "x = y \<and> r = s"
proof -
  have "Inr (x, r) = parse (emit x @ r)" using assms(1) by (simp add: frame_roundtrip)
  also have "\<dots> = parse (emit y @ s)" by (simp only: assms(3))
  also have "\<dots> = Inr (y, s)" using assms(2) by (simp add: frame_roundtrip)
  finally show ?thesis by simp
qed

end

end
