(* ===== verification/WireRoundtrip.thy ===== *)
theory WireRoundtrip
  imports WireFacts
begin

text \<open>
  The round trip of every request through its writer and the daemon's parser, as
  interpretations of the frame codec, and the properties of whole connections they give.
\<close>

section \<open>The request line\<close>

definition verb_ok :: "string \<Rightarrow> bool" where
  "verb_ok v \<longleftrightarrow> list_all (\<lambda>c. is_ascii_char c \<and> c \<noteq> LF \<and> c \<noteq> CR) v \<and> length v \<le> 100"

lemma verbs_ok:
  "verb_ok ''SEND''" "verb_ok ''MARK-READ''" "verb_ok ''MARK-UNREAD''" "verb_ok ''MAILBOX-CREATE''"
  "verb_ok ''MAILBOX-DELETE''" "verb_ok ''MAILBOX-LIST''" "verb_ok ''HOOK-CREATE''"
  "verb_ok ''HOOK-DELETE''" "verb_ok ''HOOK-LIST''" "verb_ok ''VERSION''"
  by (simp_all add: verb_ok_def is_ascii_char_def code_def LF_def CR_def)

lemma request_line:
  assumes "verb_ok verb"
  shows "parse_request_with_limit max_body fail (''AIMX/1 '' @ verb @ LF # r) =
    parse_verb max_body verb fail r"
proof -
  let ?l = "''AIMX/1 '' @ verb"
  from assms have v: "is_ascii verb" "LF \<notin> set verb" "CR \<notin> set verb" "length verb \<le> 100"
    by (auto simp: verb_ok_def is_ascii_def list_all_iff)
  have p: "is_ascii ''AIMX/1 ''" by (simp add: is_ascii_def is_ascii_char_def code_def)
  from v(1) have "valid_utf8 ?l"
    by (simp only: valid_utf8_is_ascii_append [OF p] valid_utf8_is_ascii)
  moreover have "LF \<notin> set ?l" "CR \<notin> set ?l" using v(2,3) by (simp_all add: LF_def CR_def)
  moreover have "length ?l \<le> MAX_HEADER_LINE" using v(4) by (simp add: MAX_HEADER_LINE_def)
  ultimately have "read_line fail (?l @ LF # r) = Inr (Some ?l, r)" "trim_end_matches CR ?l = ?l"
    using read_line_line [of ?l fail r] trim_end_matches_no [of CR ?l] by blast+
  then show ?thesis
    by (simp only: append_assoc parse_request_with_limit_def sum.case prod.case option.case Let_def
        strip_prefix_append)
qed

lemma frame_parse:
  assumes "frame = ''AIMX/1 '' @ verb @ LF # tail" "verb_ok verb"
    "parse_verb max_body verb fail tail = result"
  shows "parse_request_with_limit max_body fail frame = result"
  using request_line [OF assms(2), of max_body fail tail] by (simp only: assms(1,3))

lemma read_exact_append:
  "read_exact m (length b) fail (b @ r) = Inr (b, r)"
  by (simp add: read_exact_def)

lemma parse_length_ok:
  "n \<le> cap \<Longrightarrow> cap < usize_limit \<Longrightarrow> parse_length h cap None (show_nat n) = Inr n"
  by (simp add: parse_length_def)

lemma parse_word_ok: "inline_ok v \<Longrightarrow> parse_word h None v = Inr v"
  by (simp add: parse_word_def inline_ok_def)

lemma parse_bool_true: "parse_bool h ''true'' = Inr True"
  by (simp add: parse_bool_def header_names_lower)

lemma parse_zero_length_0: "parse_zero_length verb None ''0'' = Inr 0"
  by (simp add: parse_zero_length_def parse_usize_0)

lemmas frame_simps = header_loop_line header_loop_blank header_names_ok header_names_lower
  inline_ok_words sanitize_inline_ok set_header_def parse_length_ok parse_word_ok parse_bool_true
  parse_zero_length_0 inline_ok_nat map_parsed_def read_exact_append

section \<open>SEND\<close>

definition send_ok :: "nat \<Rightarrow> send_request \<Rightarrow> bool" where
  "send_ok max_body req \<longleftrightarrow>
     max_body < usize_limit \<and> length (sr_body req) \<le> max_body \<and>
     (case sr_html_body req of
        None \<Rightarrow> True | Some html \<Rightarrow> length html \<le> max_body \<and> \<not> sr_text_only req)"

lemma send_roundtrip:
  assumes ok: "send_ok max_body req"
  shows "parse_request_with_limit max_body fail (write_request req @ rest) = Inr (Send req, rest)"
proof -
  obtain body text_only html where req:
    "req = \<lparr>sr_body = body, sr_text_only = text_only, sr_html_body = html\<rparr>"
    by (cases req)
  let ?head = "(if text_only then header_line ''Text-Only'' ''true'' else []) @
      header_line ''Content-Length'' (show_nat (length body)) @
      (case html of None \<Rightarrow> [] | Some h \<Rightarrow> header_line ''Html-Body-Length'' (show_nat (length h)))"
  let ?tail = "LF # body @ (case html of None \<Rightarrow> [] | Some h \<Rightarrow> h) @ rest"
  have lens: "length body \<le> max_body" "length body < usize_limit" "max_body < usize_limit"
    using ok by (simp_all add: req send_ok_def)
  have emit: "write_request req @ rest = ''AIMX/1 '' @ ''SEND'' @ LF # (?head @ ?tail)"
    by (simp add: write_request_def req split: option.splits)
  have verb: "verb_ok ''SEND''"
    by (simp add: verbs_ok)
  have parse: "parse_verb max_body ''SEND'' fail (?head @ ?tail) = Inr (Send req, rest)"
  proof (cases html)
    case None
    with lens show ?thesis
      by (cases text_only) (simp_all add: parse_verb_def parse_send_headers_and_body_def frame_simps
          send_header_step_def send_init_def send_body_def req)
  next
    case (Some h)
    with ok have h: "length h \<le> max_body" "length h < usize_limit" "\<not> text_only"
      by (simp_all add: req send_ok_def)
    with lens Some show ?thesis
      by (simp add: parse_verb_def parse_send_headers_and_body_def frame_simps
          send_header_step_def send_init_def send_body_def req)
  qed
  show ?thesis by (rule frame_parse [OF emit verb parse])
qed

section \<open>MARK, MAILBOX and HOOK\<close>

definition mark_ok :: "mark_request \<Rightarrow> bool" where
  "mark_ok req \<longleftrightarrow> inline_ok (mr_mailbox req) \<and> inline_ok (mr_id req)"

lemma mark_roundtrip:
  assumes ok: "mark_ok req"
  shows "parse_request_with_limit max_body fail (write_mark_request req @ rest) = Inr (Mark req, rest)"
proof -
  let ?verb = "if mr_read req then ''MARK-READ'' else ''MARK-UNREAD''"
  let ?tail = "header_line ''Mailbox'' (mr_mailbox req) @ header_line ''Id'' (mr_id req) @
      header_line ''Content-Length'' ''0'' @ LF # rest"
  have emit: "write_mark_request req @ rest = ''AIMX/1 '' @ ?verb @ LF # ?tail"
    using ok by (simp add: write_mark_request_def mark_ok_def sanitize_inline_ok)
  have verb: "verb_ok ?verb"
    by (simp add: verbs_ok)
  have parse: "parse_verb max_body ?verb fail ?tail = Inr (Mark req, rest)"
    using ok by (cases "mr_read req") (simp_all add: parse_verb_def parse_mark_headers_def frame_simps
      mark_header_step_def mark_init_def mark_ok_def)
  show ?thesis by (rule frame_parse [OF emit verb parse])
qed

definition mailbox_request_ok :: "mailbox_request \<Rightarrow> bool" where
  "mailbox_request_ok req \<longleftrightarrow>
     inline_ok (mq_name req) \<and>
     (case mq_owner req of None \<Rightarrow> True | Some v \<Rightarrow> inline_ok v \<and> is_valid_system_username v) \<and>
     (mq_create req \<longrightarrow> \<not> mq_force req)"

lemma mailbox_roundtrip:
  assumes ok: "mailbox_request_ok req"
  shows "parse_request_with_limit max_body fail (write_mailbox_crud_request req @ rest) =
    Inr (MailboxLifecycle req, rest)"
proof -
  obtain name create owner force where req:
    "req = \<lparr>mq_name = name, mq_create = create, mq_owner = owner, mq_force = force\<rparr>"
    by (cases req)
  let ?verb = "if create then ''MAILBOX-CREATE'' else ''MAILBOX-DELETE''"
  let ?tail = "header_line ''Name'' name @
      (case owner of None \<Rightarrow> [] | Some v \<Rightarrow> header_line ''Owner'' v) @
      (if \<not> create \<and> force then header_line ''Force'' ''true'' else []) @
      header_line ''Content-Length'' ''0'' @ LF # rest"
  have emit: "write_mailbox_crud_request req @ rest = ''AIMX/1 '' @ ?verb @ LF # ?tail"
    using ok by (simp add: write_mailbox_crud_request_def mailbox_request_ok_def sanitize_inline_ok req
      split: option.splits)
  have verb: "verb_ok ?verb"
    by (simp add: verbs_ok)
  have parse: "parse_verb max_body ?verb fail ?tail = Inr (MailboxLifecycle req, rest)"
  proof (cases owner)
    case None
    with ok show ?thesis
      by (cases create; cases force) (simp_all add: parse_verb_def parse_mailbox_crud_headers_def
          frame_simps mailbox_header_step_def mailbox_init_def mailbox_request_ok_def req)
  next
    case (Some v)
    with ok show ?thesis
      by (cases create; cases force) (simp_all add: parse_verb_def parse_mailbox_crud_headers_def
          frame_simps mailbox_header_step_def mailbox_init_def mailbox_request_ok_def req)
  qed
  show ?thesis by (rule frame_parse [OF emit verb parse])
qed

definition hook_create_ok :: "nat \<Rightarrow> hook_create_request \<Rightarrow> bool" where
  "hook_create_ok max_body req \<longleftrightarrow>
     inline_ok (hc_mailbox req) \<and> inline_ok (hc_event req) \<and>
     (case hc_name req of None \<Rightarrow> True | Some v \<Rightarrow> inline_ok v) \<and>
     length (hc_body req) \<le> max_body \<and> max_body < usize_limit"

lemma hook_create_roundtrip:
  assumes ok: "hook_create_ok max_body req"
  shows "parse_request_with_limit max_body fail (write_hook_create_request req @ rest) =
    Inr (HookCreate req, rest)"
proof -
  obtain mailbox event name body where req:
    "req = \<lparr>hc_mailbox = mailbox, hc_event = event, hc_name = name, hc_body = body\<rparr>"
    by (cases req)
  let ?tail = "header_line ''Mailbox'' mailbox @ header_line ''Event'' event @
      (case name of None \<Rightarrow> [] | Some v \<Rightarrow> header_line ''Name'' v) @
      header_line ''Content-Length'' (show_nat (length body)) @ LF # body @ rest"
  have emit: "write_hook_create_request req @ rest = ''AIMX/1 '' @ ''HOOK-CREATE'' @ LF # ?tail"
    using ok by (simp add: write_hook_create_request_def hook_create_ok_def sanitize_inline_ok req
      split: option.splits)
  have verb: "verb_ok ''HOOK-CREATE''"
    by (simp add: verbs_ok)
  have parse: "parse_verb max_body ''HOOK-CREATE'' fail ?tail = Inr (HookCreate req, rest)"
    using ok by (cases name) (simp_all add: parse_verb_def parse_hook_create_headers_and_body_def
      frame_simps hook_create_header_step_def hook_init_def hook_create_body_def hook_create_ok_def req)
  show ?thesis by (rule frame_parse [OF emit verb parse])
qed

definition hook_delete_ok :: "hook_delete_request \<Rightarrow> bool" where
  "hook_delete_ok req \<longleftrightarrow> inline_ok (hd_name req)"

lemma hook_delete_roundtrip:
  assumes ok: "hook_delete_ok req"
  shows "parse_request_with_limit max_body fail (write_hook_delete_request req @ rest) =
    Inr (HookDelete req, rest)"
proof -
  let ?tail = "header_line ''Hook-Name'' (hd_name req) @ header_line ''Content-Length'' ''0'' @ LF # rest"
  have emit: "write_hook_delete_request req @ rest = ''AIMX/1 '' @ ''HOOK-DELETE'' @ LF # ?tail"
    using ok by (simp add: write_hook_delete_request_def hook_delete_ok_def sanitize_inline_ok)
  have verb: "verb_ok ''HOOK-DELETE''"
    by (simp add: verbs_ok)
  have parse: "parse_verb max_body ''HOOK-DELETE'' fail ?tail = Inr (HookDelete req, rest)"
    using ok by (simp add: parse_verb_def parse_hook_delete_headers_def frame_simps
      hook_delete_header_step_def hook_delete_ok_def)
  show ?thesis by (rule frame_parse [OF emit verb parse])
qed

lemma bare_roundtrip:
  assumes "verb_ok verb"
  shows "parse_request_with_limit max_body fail ((''AIMX/1 '' @ verb @ [LF, LF]) @ rest) =
    parse_verb max_body verb fail (LF # rest)"
  using request_line [OF assms, of max_body fail "LF # rest"] by simp

lemma parse_no_headers_blank: "parse_no_headers verb fail (LF # r) = Inr ((), r)"
  by (simp add: parse_no_headers_def read_line_blank trim_end_matches_no)

section \<open>All requests\<close>

text \<open>The frame a client writes for a request, by the writer of its verb.\<close>

fun emit_request :: "request \<Rightarrow> bytes" where
  "emit_request (Send req) = write_request req"
| "emit_request (Mark req) = write_mark_request req"
| "emit_request (MailboxLifecycle req) = write_mailbox_crud_request req"
| "emit_request MailboxList = write_mailbox_list_request"
| "emit_request (HookCreate req) = write_hook_create_request req"
| "emit_request (HookDelete req) = write_hook_delete_request req"
| "emit_request HookList = write_hook_list_request"
| "emit_request Version = write_version_request"

fun request_ok :: "nat \<Rightarrow> request \<Rightarrow> bool" where
  "request_ok max_body (Send req) \<longleftrightarrow> send_ok max_body req"
| "request_ok max_body (Mark req) \<longleftrightarrow> mark_ok req"
| "request_ok max_body (MailboxLifecycle req) \<longleftrightarrow> mailbox_request_ok req"
| "request_ok max_body (HookCreate req) \<longleftrightarrow> hook_create_ok max_body req"
| "request_ok max_body (HookDelete req) \<longleftrightarrow> hook_delete_ok req"
| "request_ok max_body _ \<longleftrightarrow> True"

lemma request_roundtrip_all:
  assumes "request_ok max_body req"
  shows "parse_request_with_limit max_body fail (emit_request req @ rest) = Inr (req, rest)"
proof (cases req)
  case MailboxList
  then show ?thesis
    unfolding emit_request.simps write_mailbox_list_request_def MailboxList
    using bare_roundtrip [of "''MAILBOX-LIST''" max_body fail rest]
    by (simp add: verbs_ok parse_verb_def parse_mailbox_list_headers_def parse_no_headers_blank map_parsed_def)
next
  case HookList
  then show ?thesis
    using bare_roundtrip [of "''HOOK-LIST''" max_body fail rest]
    by (simp add: write_hook_list_request_def verbs_ok parse_verb_def parse_hook_list_headers_def
        parse_no_headers_blank map_parsed_def)
next
  case Version
  then show ?thesis
    using bare_roundtrip [of "''VERSION''" max_body fail rest]
    by (simp add: write_version_request_def verbs_ok parse_verb_def parse_version_headers_def
        parse_no_headers_blank map_parsed_def)
qed (use assms in \<open>simp_all add: send_roundtrip mark_roundtrip mailbox_roundtrip
  hook_create_roundtrip hook_delete_roundtrip\<close>)

interpretation request: frame_codec emit_request "parse_request_with_limit max_body fail"
  "request_ok max_body" for max_body fail
  by unfold_locales (rule request_roundtrip_all)

text \<open>
  C9: the frames of any sequence of requests that clients can send, written one after the
  other on a connection, parse back to exactly these requests, and what follows the last frame
  is left untouched: no field value, body or HTML part can shift the boundary of its frame.
\<close>

theorem request_frames_parse_back:
  assumes "list_all (request_ok max_body) reqs"
  shows "parse_frames (parse_request_with_limit max_body fail) (length reqs)
    (concat (map emit_request reqs) @ rest) = Inr (reqs, rest)"
  using assms by (rule request.pipelined)

definition demo_requests :: "request list" where
  "demo_requests =
     [Send \<lparr>sr_body = ''AIMX/1 VERSION'' @ [LF, LF], sr_text_only = False, sr_html_body = Some ''<p>''\<rparr>,
      Mark \<lparr>mr_mailbox = ''alice'', mr_id = ''m1'', mr_read = True\<rparr>,
      MailboxList]"

lemma inline_ok_plain:
  assumes "v \<noteq> []" "list_all (\<lambda>c. plain_byte c \<and> is_ascii_char c) v" "length v \<le> 8000"
  shows "inline_ok v"
proof -
  from assms(2) have "list_all plain_byte v" "is_ascii v" by (auto simp: list_all_iff is_ascii_def)
  with assms(1,3) show ?thesis
    by (simp add: inline_ok_def trim_all_plain valid_utf8_is_ascii plain_no_line_end)
qed

lemma demo_requests_ok: "list_all (request_ok 100) demo_requests"
  by (auto simp: demo_requests_def send_ok_def usize_limit_def mark_ok_def plain_byte_def
      is_ascii_char_def code_def intro!: inline_ok_plain)

theorem request_frames_parse_back_witness:
  "parse_frames (parse_request_with_limit 100 None) 3
     (concat (map emit_request demo_requests) @ ''tail'') = Inr (demo_requests, ''tail'')"
proof -
  have "length demo_requests = 3" by (simp add: demo_requests_def)
  then show ?thesis
    using request_frames_parse_back [OF demo_requests_ok, of None "''tail''"] by (simp only:)
qed

text \<open>
  no frame of a request is a prefix of another's: two streams that start with the frames
  of two requests are equal only if the requests and what follows them are.
\<close>

theorem request_frames_prefix_free:
  assumes "request_ok max_body x" "request_ok max_body y" "emit_request x @ r = emit_request y @ s"
  shows "x = y \<and> r = s"
  using assms by (rule request.prefix_free)

theorem request_frames_prefix_free_witness:
  "emit_request MailboxList @ ''a'' = emit_request MailboxList @ ''a'' \<and> (''a'' :: string) = ''a''"
  using request_frames_prefix_free [of 0 MailboxList MailboxList "''a''" "''a''"] by simp

end
