(* ===== verification/WireSafety.thy ===== *)
theory WireSafety
  imports WireRoundtrip
begin

text \<open>
  What holds of every request the daemon accepts, whatever bytes a peer sends, and of every
  response it writes, whatever text goes into it.
\<close>

section \<open>The header loop keeps an invariant and only consumes a prefix\<close>

lemma read_line_loop_suffix:
  "read_line_loop buf fail bs = Inr (l, r) \<Longrightarrow> \<exists>pre. bs = pre @ r"
  by (induction buf fail bs rule: read_line_loop.induct)
    (auto split: option.splits if_splits intro: exI [where x = "_ # _"])

lemma read_header_suffix: "read_header fail bs = Inr (h, r) \<Longrightarrow> \<exists>pre. bs = pre @ r"
  by (auto simp: read_header_def read_line_def dest: read_line_loop_suffix
      split: sum.splits option.splits prod.splits)

lemma header_loop_invariant:
  assumes "header_loop step st fail bs = Inr (st', r)" "I st"
    and step: "\<And>s name val s'. I s \<Longrightarrow> step s name val = Inr s' \<Longrightarrow> I s'"
  shows "I st' \<and> (\<exists>pre. bs = pre @ r)"
  using assms(1,2)
proof (induction "length bs" arbitrary: bs st rule: less_induct)
  case less
  show ?case
  proof (cases "read_header fail bs")
    case (Inl e)
    with less.prems show ?thesis by (subst (asm) header_loop.simps) simp
  next
    case (Inr hr)
    obtain h r1 where hr: "hr = (h, r1)" by fastforce
    from Inr hr have len: "length r1 < length bs" by (auto dest: read_header_consumes)
    from Inr hr obtain pre where pre: "bs = pre @ r1" by (auto dest: read_header_suffix)
    show ?thesis
    proof (cases h)
      case None
      with Inr hr less.prems pre show ?thesis by (subst (asm) header_loop.simps) auto
    next
      case (Some nv)
      obtain n v where nv: "nv = (n, v)" by fastforce
      from less.prems(1) Inr hr Some nv obtain s1 where s1: "step st n v = Inr s1"
        and rec: "header_loop step s1 fail r1 = Inr (st', r)"
        by (subst (asm) header_loop.simps) (auto split: sum.splits)
      from less.hyps [OF len rec step [OF less.prems(2) s1]] pre show ?thesis by auto
    qed
  qed
qed

lemma read_exact_Inr:
  "read_exact m n fail bs = Inr (b, r) \<longleftrightarrow> length b = n \<and> bs = b @ r"
  by (auto simp: read_exact_def split: option.splits)

lemma map_parsed_Inr:
  "map_parsed f p = Inr (x, r) \<longleftrightarrow> (\<exists>a. p = Inr (a, r) \<and> x = f a)"
  by (auto simp: map_parsed_def split: sum.splits prod.splits)

text \<open>The verb of an accepted request is the one of its request line.\<close>

lemma accepted_verb:
  assumes "parse_request_with_limit max_body fail bs = Inr (req, rest)"
  obtains pre verb r where "bs = pre @ r" "parse_verb max_body verb fail r = Inr (req, rest)"
  using assms
  by (auto simp: parse_request_with_limit_def read_line_def Let_def
      split: sum.splits option.splits prod.splits dest!: read_line_loop_suffix)

section \<open>SEND\<close>

definition send_headers_ok :: "nat \<Rightarrow> send_headers \<Rightarrow> bool" where
  "send_headers_ok max_body st \<longleftrightarrow>
     (case sh_content_length st of None \<Rightarrow> True | Some n \<Rightarrow> n \<le> max_body) \<and>
     (case sh_html_body_length st of None \<Rightarrow> True | Some n \<Rightarrow> n \<le> max_body)"

lemma parse_length_Inr: "parse_length h cap seen val = Inr n \<Longrightarrow> n \<le> cap \<and> seen = None"
  by (auto simp: parse_length_def split: if_splits option.splits)

lemma set_header_Inr: "set_header r upd = Inr s \<longleftrightarrow> (\<exists>v. r = Inr v \<and> s = upd v)"
  by (auto simp: set_header_def split: sum.splits)

lemma send_step_ok:
  "send_headers_ok max_body st \<Longrightarrow> send_header_step max_body st name val = Inr st' \<Longrightarrow>
   send_headers_ok max_body st'"
  by (auto simp: send_header_step_def send_headers_ok_def set_header_Inr dest!: parse_length_Inr
      split: if_splits)

text \<open>
  whatever a peer sends, an accepted SEND carries a body and an HTML part of at most
  the cap each, never an HTML part together with the text-only flag, and both are the bytes on
  the wire right in front of what the parser left unread.
\<close>

theorem accepted_send:
  assumes "parse_request_with_limit max_body fail bs = Inr (Send req, rest)"
  shows "length (sr_body req) \<le> max_body \<and>
    (case sr_html_body req of None \<Rightarrow> True | Some html \<Rightarrow> length html \<le> max_body \<and> \<not> sr_text_only req) \<and>
    (\<exists>pre. bs = pre @ sr_body req @ (case sr_html_body req of None \<Rightarrow> [] | Some html \<Rightarrow> html) @ rest)"
proof -
  obtain pre verb r where bs: "bs = pre @ r" and verb: "parse_verb max_body verb fail r = Inr (Send req, rest)"
    using assms by (rule accepted_verb)
  from verb have "parse_send_headers_and_body max_body fail r = Inr (req, rest)"
    by (auto simp: parse_verb_def map_parsed_Inr split: if_splits)
  then obtain st r1 where loop: "header_loop (send_header_step max_body) send_init fail r = Inr (st, r1)"
    and body: "send_body st fail r1 = Inr (req, rest)"
    by (auto simp: parse_send_headers_and_body_def split: sum.splits)
  have "send_headers_ok max_body send_init" by (simp add: send_headers_ok_def send_init_def)
  then have "send_headers_ok max_body st \<and> (\<exists>pre. r = pre @ r1)"
    by (rule header_loop_invariant [OF loop]) (rule send_step_ok)
  then obtain pre1 where st: "send_headers_ok max_body st" and r: "r = pre1 @ r1" by blast
  show ?thesis
    using body st
    by (auto simp: send_body_def send_headers_ok_def read_exact_Inr bs r
        split: option.splits if_splits sum.splits prod.splits)
qed

theorem accepted_send_witness:
  "\<exists>req rest. parse_request_with_limit 100 None (emit_request (hd demo_requests)) = Inr (Send req, rest) \<and>
     length (sr_body req) \<le> 100"
proof -
  obtain req where req: "hd demo_requests = Send req" by (simp add: demo_requests_def)
  have "request_ok 100 (hd demo_requests)" using demo_requests_ok by (simp add: demo_requests_def)
  from request_roundtrip_all [OF this, of None "[]"] req
  have "parse_request_with_limit 100 None (emit_request (hd demo_requests)) = Inr (Send req, [])" by simp
  from accepted_send [OF this] this show ?thesis by blast
qed

section \<open>MARK, MAILBOX and the bare verbs\<close>

definition mailbox_headers_ok :: "bool \<Rightarrow> mailbox_headers \<Rightarrow> bool" where
  "mailbox_headers_ok create st \<longleftrightarrow>
     (case bh_name st of None \<Rightarrow> True | Some v \<Rightarrow> v \<noteq> []) \<and>
     (case bh_owner st of None \<Rightarrow> True | Some v \<Rightarrow> is_valid_system_username v) \<and>
     (create \<longrightarrow> \<not> bh_force st)"

lemma parse_word_Inr: "parse_word h seen val = Inr v \<Longrightarrow> v \<noteq> [] \<and> seen = None"
  by (auto simp: parse_word_def split: if_splits)

lemma mailbox_step_ok:
  "mailbox_headers_ok create st \<Longrightarrow> mailbox_header_step create st name val = Inr st' \<Longrightarrow>
   mailbox_headers_ok create st'"
  by (auto simp: mailbox_header_step_def mailbox_headers_ok_def set_header_Inr dest!: parse_word_Inr
      split: if_splits sum.splits)

text \<open>
  whatever a peer sends, an accepted MAILBOX request names a mailbox, its owner (if it
  carries one) is a well-formed system user name, and only a delete can carry the force flag
  that wipes mail.
\<close>

theorem accepted_mailbox_request:
  assumes "parse_request_with_limit max_body fail bs = Inr (MailboxLifecycle req, rest)"
  shows "mq_name req \<noteq> [] \<and>
    (case mq_owner req of None \<Rightarrow> True | Some owner \<Rightarrow> is_valid_system_username owner) \<and>
    (mq_force req \<longrightarrow> \<not> mq_create req)"
proof -
  obtain pre verb r where "parse_verb max_body verb fail r = Inr (MailboxLifecycle req, rest)"
    using assms by (rule accepted_verb)
  then obtain create where "parse_mailbox_crud_headers create fail r = Inr (req, rest)"
    by (auto simp: parse_verb_def map_parsed_Inr split: if_splits)
  then obtain st where loop: "header_loop (mailbox_header_step create) mailbox_init fail r = Inr (st, rest)"
    and req: "bh_name st = Some (mq_name req)" "mq_owner req = bh_owner st" "mq_force req = bh_force st"
      "mq_create req = create"
    by (auto simp: parse_mailbox_crud_headers_def split: sum.splits option.splits)
  have "mailbox_headers_ok create mailbox_init" by (simp add: mailbox_headers_ok_def mailbox_init_def)
  then have "mailbox_headers_ok create st \<and> (\<exists>pre. r = pre @ rest)"
    by (rule header_loop_invariant [OF loop]) (rule mailbox_step_ok)
  with req show ?thesis by (auto simp: mailbox_headers_ok_def)
qed

theorem accepted_mailbox_request_witness:
  "\<exists>req. parse_request_with_limit 0 None (emit_request (MailboxLifecycle
      \<lparr>mq_name = ''a'', mq_create = False, mq_owner = None, mq_force = True\<rparr>)) =
        Inr (MailboxLifecycle req, []) \<and> mq_name req \<noteq> []"
proof -
  let ?req = "\<lparr>mq_name = ''a'', mq_create = False, mq_owner = None, mq_force = True\<rparr>"
  have "request_ok 0 (MailboxLifecycle ?req)"
    by (auto simp: mailbox_request_ok_def plain_byte_def is_ascii_char_def code_def intro!: inline_ok_plain)
  from request_roundtrip_all [OF this, of None "[]"]
  have "parse_request_with_limit 0 None (emit_request (MailboxLifecycle ?req)) =
      Inr (MailboxLifecycle ?req, [])" by simp
  from accepted_mailbox_request [OF this] this show ?thesis by blast
qed

text \<open>
  the daemon takes a list or version request only when the line after the request line
  is blank: a header (a forged owner, say) never reaches a handler that answers from the
  caller's identity.
\<close>

theorem bare_verbs_take_no_header:
  assumes "verb \<in> {''MAILBOX-LIST'', ''HOOK-LIST'', ''VERSION''}"
    and "LF \<notin> set line" "length line \<le> MAX_HEADER_LINE" "valid_utf8 line"
    and "trim_end_matches CR line \<noteq> []"
  shows "parse_request_with_limit max_body fail (''AIMX/1 '' @ verb @ LF # line @ LF # r) =
    Inl (Malformed (TakesNoHeaders verb (trim_end_matches CR line)))"
proof -
  from assms(1) have ok: "verb_ok verb" by (auto simp: verbs_ok)
  have none: "parse_no_headers verb fail (line @ LF # r) =
      Inl (Malformed (TakesNoHeaders verb (trim_end_matches CR line)))"
    using assms(2-5) by (simp add: parse_no_headers_def read_line_line)
  obtain f :: "unit \<Rightarrow> request" where f: "parse_verb max_body verb fail (line @ LF # r) =
      map_parsed f (parse_no_headers verb fail (line @ LF # r))"
    using assms(1) by (auto simp: parse_verb_def parse_mailbox_list_headers_def
        parse_hook_list_headers_def parse_version_headers_def)
  show ?thesis
    unfolding request_line [OF ok] f none by (simp add: map_parsed_def)
qed

theorem bare_verbs_take_no_header_witness:
  "parse_request_with_limit 0 None (''AIMX/1 '' @ ''HOOK-LIST'' @ LF # ''Owner: root'' @ LF # []) =
     Inl (Malformed (TakesNoHeaders ''HOOK-LIST'' ''Owner: root''))"
proof -
  have "trim_end_matches CR ''Owner: root'' = ''Owner: root''"
    by (rule trim_end_matches_no) (simp add: CR_def)
  moreover have "valid_utf8 ''Owner: root''" by (simp add: is_ascii_char_def code_def)
  ultimately show ?thesis
    using bare_verbs_take_no_header [of "''HOOK-LIST''" "''Owner: root''" 0 None "[]"]
    by (simp add: LF_def MAX_HEADER_LINE_def)
qed

section \<open>Responses\<close>

text \<open>every error code survives its wire spelling, and no two codes share one.\<close>

theorem err_code_roundtrip: "err_code_from_str (err_code_as_str ec) = Some ec"
  by (cases ec) (simp_all add: err_code_from_str_def)

lemma sanitize_inline_clean: "LF \<notin> set (sanitize_inline s)" "CR \<notin> set (sanitize_inline s)"
  by (auto simp: sanitize_inline_def)

lemma valid_utf8_sanitize: "valid_utf8 s \<Longrightarrow> valid_utf8 (sanitize_inline s)"
  unfolding sanitize_inline_def
  by (rule valid_utf8_filter) (auto simp: LF_def CR_def is_ascii_char_def code_def)

lemma err_code_str_ok: "inline_ok (err_code_as_str ec)"
  by (rule inline_ok_plain; cases ec) (simp_all add: plain_byte_def is_ascii_char_def code_def)

lemma read_header_blank: "read_header fail (LF # r) = Inr (None, r)"
  by (simp add: read_header_def read_line_blank split_header_def trim_end_matches_no)

lemma header_name_Code: "header_name_ok ''Code''" "to_ascii_lowercase ''Code'' = ''code''"
  by (simp add: header_name_ok_def is_ascii_char_def plain_byte_def code_def, code_simp)

text \<open>
  an error frame is three lines whatever the reason holds (line ends included): a status
  line with the code's spelling, one \<open>Code\<close> header with the same spelling, and the blank line;
  so a reason can neither forge a header nor leave bytes for the next frame.
\<close>

theorem err_frame_three_lines:
  assumes "valid_utf8 reason" "length reason \<le> 8000"
  shows "\<exists>status r1 r2.
    read_line fail (err_frame ec reason @ rest) = Inr (Some status, r1) \<and>
    status = ''AIMX/1 ERR '' @ err_code_as_str ec @ '' '' @ sanitize_inline reason \<and>
    read_header fail r1 = Inr (Some (''code'', err_code_as_str ec), r2) \<and>
    read_header fail r2 = Inr (None, rest)"
proof -
  let ?status = "''AIMX/1 ERR '' @ err_code_as_str ec @ '' '' @ sanitize_inline reason"
  let ?tail = "header_line ''Code'' (err_code_as_str ec) @ LF # rest"
  have ec: "valid_utf8 (err_code_as_str ec)" "LF \<notin> set (err_code_as_str ec)" "length (err_code_as_str ec) \<le> 20"
    using err_code_str_ok [of ec] by (simp_all add: inline_ok_def) (cases ec; simp)
  have "valid_utf8 '' ''" "valid_utf8 ''AIMX/1 ERR ''" by (simp_all add: is_ascii_char_def code_def)
  then have "valid_utf8 ?status"
    by (intro valid_utf8_append ec valid_utf8_sanitize assms)
  moreover have "LF \<notin> set ?status" using ec sanitize_inline_clean by (simp add: LF_def)
  moreover have "length (sanitize_inline reason) \<le> length reason" by (simp add: sanitize_inline_def)
  then have "length ?status \<le> MAX_HEADER_LINE"
    using ec(3) assms(2) by (simp add: MAX_HEADER_LINE_def)
  ultimately have "read_line fail (?status @ LF # ?tail) = Inr (Some ?status, ?tail)"
    by (intro read_line_line)
  moreover have "err_frame ec reason @ rest = ?status @ LF # ?tail" by (simp add: err_frame_def)
  moreover have "read_header fail ?tail = Inr (Some (''code'', err_code_as_str ec), LF # rest)"
    using read_header_line [OF header_name_Code(1) err_code_str_ok] header_name_Code(2) by simp
  ultimately show ?thesis using read_header_blank by metis
qed

theorem err_frame_three_lines_witness:
  "\<exists>r1 r2.
    read_line None (err_frame EIo (''x'' @ [LF] @ ''Code: OK'') @ ''rest'') =
      Inr (Some ''AIMX/1 ERR IO xCode: OK'', r1) \<and>
    read_header None r1 = Inr (Some (''code'', ''IO''), r2) \<and> read_header None r2 = Inr (None, ''rest'')"
proof -
  have "valid_utf8 (''x'' @ [LF] @ ''Code: OK'')" by (simp add: is_ascii_char_def code_def LF_def)
  from err_frame_three_lines [OF this, of None EIo "''rest''"]
  show ?thesis by (simp add: sanitize_inline_def LF_def CR_def)
qed

section \<open>The VERSION response\<close>

text \<open>The reader of the response takes what the daemon writes; JSON is \<open>serde_json\<close>'s round trip.\<close>

lemma version_response_roundtrip:
  assumes json: "from_json (to_json v) = Inr v" and len: "length (to_json v) < usize_limit"
  shows "read_version_response from_json fail (write_version_response to_json v @ rest) = Inr (v, rest)"
proof -
  let ?n = "length (to_json v)"
  let ?h = "header_line ''Content-Length'' (show_nat ?n)"
  have n: "inline_ok (show_nat ?n)" using len by (rule inline_ok_nat)
  have "header_name_ok ''Content-Length''" by (rule header_names_ok)
  let ?l = "''Content-Length: '' @ show_nat ?n"
  have nn: "valid_utf8 (show_nat ?n)" "LF \<notin> set (show_nat ?n)" "CR \<notin> set (show_nat ?n)"
    "length (show_nat ?n) \<le> 8000"
    using n by (simp_all add: inline_ok_def)
  have "valid_utf8 ''Content-Length: ''" by (simp add: is_ascii_char_def code_def)
  then have l1: "read_line fail (?l @ LF # r) = Inr (Some ?l, r)" for r
    using nn by (intro read_line_line valid_utf8_append) (simp_all add: LF_def MAX_HEADER_LINE_def)
  have l2: "trim_end_matches CR ?l = ?l"
    using nn by (intro trim_end_matches_no) (simp add: CR_def)
  have l3: "split_once CHR '':'' ?l = Some (''Content-Length'', CHR '' '' # show_nat ?n)"
    using split_once_append [of "CHR '':''" "''Content-Length''" "CHR '' '' # show_nat ?n"] by simp
  have l4: "trim ''Content-Length'' = ''Content-Length''"
    by (rule trim_all_plain) (simp add: plain_byte_def code_def)
  have l5: "eq_ignore_ascii_case ''Content-Length'' ''content-length''"
    by (simp add: eq_ignore_ascii_case_def) code_simp
  have step: "version_line None ?l = Inr (Some ?n)"
    using l3 l4 l5 len by (simp add: version_line_def trim_space)
  have blank: "version_header_loop c fail (LF # r) = Inr (c, r)" for c r
    by (subst version_header_loop.simps) (simp add: read_line_blank trim_end_matches_no)
  have loop: "version_header_loop None fail (?l @ LF # LF # r) = Inr (Some ?n, r)" for r
    using l2 step by (subst version_header_loop.simps) (simp only: l1 sum.case prod.case option.case, simp add: blank)
  have ok: "''AIMX/1 OK'' @ LF # r = ''AIMX/1 OK'' @ LF # r" for r :: bytes ..
  have status: "read_line fail (''AIMX/1 OK'' @ LF # r) = Inr (Some ''AIMX/1 OK'', r)" for r
    by (rule read_line_line) (simp_all add: LF_def MAX_HEADER_LINE_def is_ascii_char_def code_def)
  have trimmed: "trim_end_matches CR ''AIMX/1 OK'' = ''AIMX/1 OK''"
    by (rule trim_end_matches_no) (simp add: CR_def)
  have "write_version_response to_json v @ rest = ''AIMX/1 OK'' @ LF # (?l @ LF # LF # (to_json v @ rest))"
    by (simp add: write_version_response_def header_line_def)
  then show ?thesis
    by (simp only: read_version_response_def status trimmed loop sum.case prod.case option.case)
      (simp add: read_exact_append json)
qed

interpretation version_frame: frame_codec "write_version_response to_json"
  "read_version_response from_json fail"
  "\<lambda>v. from_json (to_json v) = Inr v \<and> length (to_json v) < usize_limit" for to_json from_json fail
  by unfold_locales (simp add: version_response_roundtrip)

end
