(* ===== verification/ConfigLoad.thy ===== *)
theory ConfigLoad
  imports Config
begin

text \<open>
  \<open>Config::load\<close> (\<open>src/config.rs\<close>): the line scan for the legacy schema, the check on the parsed
  TOML value, the checks on the typed configuration, and their composition. The TOML crate's
  \<open>Value\<close> is the datatype \<open>toml\<close>; the parser from text to it and from it to \<open>config\<close> (\<open>serde\<close>) and
  the reading of the file are arguments of \<open>load\<close>.
\<close>

datatype toml =
    TString string
  | TInteger int
  | TFloat string
  | TBoolean bool
  | TDatetime string
  | TArray "toml list"
  | TTable "(string \<times> toml) list"

fun as_table :: "toml \<Rightarrow> (string \<times> toml) list option" where
  "as_table (TTable t) = Some t"
| "as_table _ = None"

fun as_array :: "toml \<Rightarrow> toml list option" where
  "as_array (TArray a) = Some a"
| "as_array _ = None"

fun as_str :: "toml \<Rightarrow> string option" where
  "as_str (TString s) = Some s"
| "as_str _ = None"

fun as_bool :: "toml \<Rightarrow> bool option" where
  "as_bool (TBoolean b) = Some b"
| "as_bool _ = None"

datatype read_error = NotFound | ReadFailed string

datatype load_error =
    ConfigFileNotFound string
  | ConfigReadError string
  | HookTemplateBlock
  | LegacyOnReceive string
  | LegacyOnReceiveMatch string
  | HookSetsRunAs
  | HookSetsOrigin
  | HookSetsDangerously
  | HookSetsTemplate string
  | RemovedStdinField string
  | TomlError string
  | MissingOwner string
  | InvalidTopTrust string
  | InvalidMailboxTrust string string
  | CatchallHasHooks string
  | FireOnUntrustedLegacy string string hook_event
  | InvalidOwner string string
  | RootCatchallFlagOnNonCatchall string
  | RootOwnedMailbox string
  | RootCatchallNotAllowed string
  | InvalidHookName string string
  | HookEmptyCmd string string
  | HookBlankProgram string string
  | HookNonAbsoluteProgram string string string
  | HookUnsupportedType string string string
  | FireOnUntrustedNotOnReceive string string hook_event
  | HookTimeoutZero string string
  | HookTimeoutTooBig string string nat
  | DuplicateHookName string string string
  | DuplicateAnonymousHooks string string string
  | ExplicitAnonymousClash string string string

section \<open>The legacy schema\<close>

text \<open>
  One line of \<open>reject_legacy_schema\<close>'s loop: the new value of \<open>in_hook_aoa\<close>, or the rejection.
\<close>

definition header_aoa_step :: "string \<Rightarrow> load_error + bool" where
  "header_aoa_step inner =
     (if inner = ''hook_template'' \<or> starts_with inner ''hook_template.'' then Inl HookTemplateBlock
      else case strip_prefix inner ''mailboxes.'' of
          None \<Rightarrow> Inr False
        | Some rest \<Rightarrow>
            (case strip_suffix rest ''.on_receive'' of
                Some name \<Rightarrow> Inl (LegacyOnReceive name)
              | None \<Rightarrow> Inr (ends_with rest ''.hooks'')))"

definition header_table_step :: "string \<Rightarrow> load_error + bool" where
  "header_table_step inner =
     (case Option.bind (strip_prefix inner ''mailboxes.'')
             (\<lambda>rest. Option.bind (strip_suffix rest ''.match'')
               (\<lambda>name_with_dot. strip_suffix name_with_dot ''.on_receive'')) of
        Some name \<Rightarrow> Inl (LegacyOnReceiveMatch name)
      | None \<Rightarrow> Inr False)"

definition hook_key_step :: "string \<Rightarrow> load_error option" where
  "hook_key_step key =
     (if key = ''run_as'' then Some HookSetsRunAs
      else if key = ''origin'' then Some HookSetsOrigin
      else if key = ''dangerously_support_untrusted'' then Some HookSetsDangerously
      else if key = ''template'' \<or> key = ''params'' then Some (HookSetsTemplate key)
      else None)"

definition legacy_line_step :: "bool \<Rightarrow> string \<Rightarrow> load_error + bool" where
  "legacy_line_step in_hook_aoa line =
     (let trimmed = trim line in
      case Option.bind (strip_prefix trimmed ''[['') (\<lambda>rest. strip_suffix rest '']]'') of
        Some inner \<Rightarrow> header_aoa_step inner
      | None \<Rightarrow>
          (case Option.bind (strip_prefix trimmed ''['') (\<lambda>rest. strip_suffix rest '']'') of
             Some inner \<Rightarrow> header_table_step inner
           | None \<Rightarrow>
               if \<not> in_hook_aoa then Inr in_hook_aoa
               else case split_once CHR ''='' trimmed of
                   None \<Rightarrow> Inr in_hook_aoa
                 | Some (key, _) \<Rightarrow>
                     (case hook_key_step (trim key) of
                        Some e \<Rightarrow> Inl e
                      | None \<Rightarrow> Inr in_hook_aoa)))"

fun legacy_loop :: "bool \<Rightarrow> string list \<Rightarrow> load_error + unit" where
  "legacy_loop in_hook_aoa [] = Inr ()"
| "legacy_loop in_hook_aoa (line # rest) =
     (case legacy_line_step in_hook_aoa line of
        Inl e \<Rightarrow> Inl e
      | Inr in_hook_aoa' \<Rightarrow> legacy_loop in_hook_aoa' rest)"

definition reject_legacy_schema :: "string \<Rightarrow> load_error + unit" where
  "reject_legacy_schema toml_text = legacy_loop False (lines toml_text)"

section \<open>The removed \<open>stdin\<close> field\<close>

definition derive_hook_name_from_toml ::
  "(bytes \<Rightarrow> bytes) \<Rightarrow> (string \<times> toml) list \<Rightarrow> string" where
  "derive_hook_name_from_toml sha tbl =
     (let event = (if Option.bind (map_of tbl ''event'') as_str = Some ''after_send''
                   then AfterSend else OnReceive);
          cmd = (case Option.bind (map_of tbl ''cmd'') as_array of
                   None \<Rightarrow> [] | Some arr \<Rightarrow> List.map_filter as_str arr);
          fire = (case Option.bind (map_of tbl ''fire_on_untrusted'') as_bool of
                   None \<Rightarrow> False | Some b \<Rightarrow> b)
      in derive_hook_name sha event cmd fire)"

definition stdin_hook_check :: "(bytes \<Rightarrow> bytes) \<Rightarrow> toml \<Rightarrow> load_error option" where
  "stdin_hook_check sha hook =
     (case as_table hook of
        None \<Rightarrow> None
      | Some tbl \<Rightarrow>
          (case map_of tbl ''stdin'' of
             None \<Rightarrow> None
           | Some _ \<Rightarrow>
               Some (RemovedStdinField
                 (case Option.bind (map_of tbl ''name'') as_str of
                    Some n \<Rightarrow> n
                  | None \<Rightarrow> derive_hook_name_from_toml sha tbl))))"

text \<open>The first check that rejects, over the hooks of all mailboxes in order.\<close>

definition first_some :: "('a \<Rightarrow> 'e option) \<Rightarrow> 'a list \<Rightarrow> 'e option" where
  "first_some f xs = (case List.map_filter f xs of [] \<Rightarrow> None | e # _ \<Rightarrow> Some e)"

definition toml_hooks :: "toml \<Rightarrow> toml list" where
  "toml_hooks mb =
     (case Option.bind (as_table mb) (\<lambda>t. Option.bind (map_of t ''hooks'') as_array) of
        None \<Rightarrow> [] | Some hooks \<Rightarrow> hooks)"

definition reject_removed_stdin_field :: "(bytes \<Rightarrow> bytes) \<Rightarrow> toml \<Rightarrow> load_error + unit" where
  "reject_removed_stdin_field sha parsed =
     (case Option.bind (as_table parsed) (\<lambda>t. Option.bind (map_of t ''mailboxes'') as_table) of
        None \<Rightarrow> Inr ()
      | Some mailboxes \<Rightarrow>
          (case first_some (stdin_hook_check sha) (concat (map (toml_hooks \<circ> snd) mailboxes)) of
             None \<Rightarrow> Inr ()
           | Some e \<Rightarrow> Inl e))"

section \<open>Checks on the typed configuration\<close>

text \<open>Every hook with its mailbox, in the order the nested loops visit them.\<close>

definition all_hooks :: "config \<Rightarrow> (string \<times> hook) list" where
  "all_hooks cfg = concat (map (\<lambda>(name, mb). map (Pair name) (mb_hooks mb)) (cfg_mailboxes cfg))"

definition hook_label :: "hook \<Rightarrow> string" where
  "hook_label h = (case hk_name h of Some n \<Rightarrow> n | None \<Rightarrow> ''<anonymous>'')"

definition mailbox_legacy_check :: "config \<Rightarrow> string \<times> mailbox_config \<Rightarrow> load_error option" where
  "mailbox_legacy_check cfg nm =
     (case nm of (name, mb) \<Rightarrow>
        if is_catchall cfg mb \<and> mb_hooks mb \<noteq> [] then Some (CatchallHasHooks name)
        else first_some
          (\<lambda>h. if hk_fire_on_untrusted h \<and> hk_event h \<noteq> OnReceive
               then Some (FireOnUntrustedLegacy (hook_label h) name (hk_event h)) else None)
          (mb_hooks mb))"

definition reject_post_parse_legacy :: "config \<Rightarrow> load_error + unit" where
  "reject_post_parse_legacy cfg =
     (case first_some (mailbox_legacy_check cfg) (cfg_mailboxes cfg) of
        None \<Rightarrow> Inr () | Some e \<Rightarrow> Inl e)"

definition hook_check :: "string \<Rightarrow> hook \<Rightarrow> load_error option" where
  "hook_check mailbox h =
     (let label = hook_label h in
      if (\<exists>name \<in> set_option (hk_name h). \<not> is_valid_hook_name name)
        then Some (InvalidHookName (the (hk_name h)) mailbox)
      else case hk_cmd h of
            [] \<Rightarrow> Some (HookEmptyCmd label mailbox)
          | prog # _ \<Rightarrow>
              if trim prog = [] then Some (HookBlankProgram label mailbox)
              else if \<not> is_absolute prog then Some (HookNonAbsoluteProgram label mailbox prog)
              else if hk_type h \<noteq> ''cmd'' then Some (HookUnsupportedType label mailbox (hk_type h))
              else if hk_fire_on_untrusted h \<and> hk_event h \<noteq> OnReceive
                then Some (FireOnUntrustedNotOnReceive label mailbox (hk_event h))
              else if hk_timeout_secs h = 0 then Some (HookTimeoutZero label mailbox)
              else if hk_timeout_secs h > MAX_HOOK_TIMEOUT_SECS
                then Some (HookTimeoutTooBig label mailbox (hk_timeout_secs h))
              else None)"

text \<open>
  \<open>seen\<close> is the map of effective names: the mailbox that used the name and whether explicitly.
\<close>

definition duplicate_error :: "string \<Rightarrow> string \<Rightarrow> bool \<Rightarrow> string \<Rightarrow> bool \<Rightarrow> load_error" where
  "duplicate_error effective prior_mb prior_explicit mailbox is_explicit =
     (if prior_explicit \<and> is_explicit then DuplicateHookName effective prior_mb mailbox
      else if \<not> prior_explicit \<and> \<not> is_explicit then DuplicateAnonymousHooks effective prior_mb mailbox
      else ExplicitAnonymousClash effective prior_mb mailbox)"

fun validate_hooks_loop ::
  "(bytes \<Rightarrow> bytes) \<Rightarrow> (string \<rightharpoonup> string \<times> bool) \<Rightarrow> (string \<times> hook) list \<Rightarrow> load_error + unit" where
  "validate_hooks_loop sha seen [] = Inr ()"
| "validate_hooks_loop sha seen ((mailbox, h) # rest) =
     (case hook_check mailbox h of
        Some e \<Rightarrow> Inl e
      | None \<Rightarrow>
         (let effective = effective_hook_name sha h;
              is_explicit = (hk_name h \<noteq> None)
          in case seen effective of
               Some (prior_mb, prior_explicit) \<Rightarrow>
                 Inl (duplicate_error effective prior_mb prior_explicit mailbox is_explicit)
             | None \<Rightarrow>
                 validate_hooks_loop sha (seen(effective \<mapsto> (mailbox, is_explicit))) rest))"

definition validate_hooks :: "(bytes \<Rightarrow> bytes) \<Rightarrow> config \<Rightarrow> load_error + unit" where
  "validate_hooks sha cfg = validate_hooks_loop sha Map.empty (all_hooks cfg)"

text \<open>The same checks on one submitted hook, whose messages name no mailbox.\<close>

definition validate_single_hook :: "hook \<Rightarrow> load_error + unit" where
  "validate_single_hook h =
     (case hook_check [] h of None \<Rightarrow> Inr () | Some e \<Rightarrow> Inl e)"

definition mailbox_owner_check ::
  "user_db \<Rightarrow> config \<Rightarrow> string \<times> mailbox_config \<Rightarrow> load_error + load_warning list" where
  "mailbox_owner_check pw cfg nm =
     (case nm of (name, mb) \<Rightarrow>
       (case (case validate_run_as pw (mb_owner mb) of
                Inr _ \<Rightarrow> Inr []
              | Inl (InvalidUsername _) \<Rightarrow> Inl (InvalidOwner name (mb_owner mb))
              | Inl (OrphanUser _) \<Rightarrow> Inr [OrphanMailboxOwner name (mb_owner mb)]) of
          Inl e \<Rightarrow> Inl e
        | Inr warnings \<Rightarrow>
           (let catchall = is_catchall cfg mb;
                owner_is_root = (mb_owner mb = RESERVED_RUN_AS_ROOT)
            in if mb_allow_root_catchall mb \<and> \<not> catchall then Inl (RootCatchallFlagOnNonCatchall name)
               else if owner_is_root \<and> \<not> catchall then Inl (RootOwnedMailbox name)
               else if catchall \<and> owner_is_root then
                 (if \<not> mb_allow_root_catchall mb then Inl (RootCatchallNotAllowed name)
                  else Inr (warnings @ [RootCatchallAccepted name]))
               else Inr warnings)))"

fun owners_loop ::
  "user_db \<Rightarrow> config \<Rightarrow> (string \<times> mailbox_config) list \<Rightarrow> load_error + load_warning list" where
  "owners_loop pw cfg [] = Inr []"
| "owners_loop pw cfg (nm # rest) =
     (case mailbox_owner_check pw cfg nm of
        Inl e \<Rightarrow> Inl e
      | Inr ws \<Rightarrow> (case owners_loop pw cfg rest of Inl e \<Rightarrow> Inl e | Inr ws' \<Rightarrow> Inr (ws @ ws')))"

definition validate_mailbox_owners :: "user_db \<Rightarrow> config \<Rightarrow> load_error + load_warning list" where
  "validate_mailbox_owners pw cfg = owners_loop pw cfg (cfg_mailboxes cfg)"

definition VALID_TRUST_VALUES :: "string list" where
  "VALID_TRUST_VALUES = [''none'', ''verified'']"

definition mailbox_trust_check :: "string \<times> mailbox_config \<Rightarrow> load_error option" where
  "mailbox_trust_check nm =
     (case nm of (name, mb) \<Rightarrow>
       (case mb_trust mb of
          None \<Rightarrow> None
        | Some t \<Rightarrow> if t \<notin> set VALID_TRUST_VALUES then Some (InvalidMailboxTrust t name) else None))"

definition validate_trust_values :: "config \<Rightarrow> load_error + unit" where
  "validate_trust_values cfg =
     (if cfg_trust cfg \<notin> set VALID_TRUST_VALUES then Inl (InvalidTopTrust (cfg_trust cfg))
      else case first_some mailbox_trust_check (cfg_mailboxes cfg) of
        None \<Rightarrow> Inr () | Some e \<Rightarrow> Inl e)"

section \<open>\<open>Config::load\<close>\<close>

definition missing_owner_check :: "string \<times> mailbox_config \<Rightarrow> load_error option" where
  "missing_owner_check nm =
     (case nm of (name, mb) \<Rightarrow> if trim (mb_owner mb) = [] then Some (MissingOwner name) else None)"

definition validate_config ::
  "(bytes \<Rightarrow> bytes) \<Rightarrow> user_db \<Rightarrow> config \<Rightarrow> load_error + config \<times> load_warning list" where
  "validate_config sha pw cfg =
     (case first_some missing_owner_check (cfg_mailboxes cfg) of
        Some e \<Rightarrow> Inl e
      | None \<Rightarrow>
     (case validate_trust_values cfg of Inl e \<Rightarrow> Inl e | Inr _ \<Rightarrow>
     (case reject_post_parse_legacy cfg of Inl e \<Rightarrow> Inl e | Inr _ \<Rightarrow>
     (case validate_mailbox_owners pw cfg of Inl e \<Rightarrow> Inl e | Inr warnings \<Rightarrow>
     (case validate_hooks sha cfg of Inl e \<Rightarrow> Inl e | Inr _ \<Rightarrow> Inr (cfg, warnings))))))"

definition load ::
  "(string \<Rightarrow> read_error + string) \<Rightarrow> (string \<Rightarrow> string + toml) \<Rightarrow> (toml \<Rightarrow> string + config) \<Rightarrow>
   (bytes \<Rightarrow> bytes) \<Rightarrow> user_db \<Rightarrow> string \<Rightarrow> load_error + config \<times> load_warning list" where
  "load read_to_string toml_from_str try_into sha pw path =
     (case read_to_string path of
        Inl NotFound \<Rightarrow> Inl (ConfigFileNotFound path)
      | Inl (ReadFailed e) \<Rightarrow> Inl (ConfigReadError e)
      | Inr content \<Rightarrow>
     (case reject_legacy_schema content of Inl e \<Rightarrow> Inl e | Inr _ \<Rightarrow>
     (case toml_from_str content of Inl e \<Rightarrow> Inl (TomlError e) | Inr raw_value \<Rightarrow>
     (case reject_removed_stdin_field sha raw_value of Inl e \<Rightarrow> Inl e | Inr _ \<Rightarrow>
     (case try_into raw_value of Inl e \<Rightarrow> Inl (TomlError e) | Inr cfg \<Rightarrow>
        validate_config sha pw cfg)))))"

end
