(* ===== verification/ConfigFacts.thy ===== *)
theory ConfigFacts
  imports ConfigLoad
begin

text \<open>
  What the checks of \<open>Config::load\<close> establish: the user name grammar, the resolution of owners,
  the order-independent meaning of the hook checks, and the invariant of a loaded configuration.
\<close>

section \<open>User names\<close>

text \<open>The documented grammar \<open>[a-z_][a-z0-9_-]*[$]?\<close>, at most 32 bytes long.\<close>

definition username_body_char :: "char \<Rightarrow> bool" where
  "username_body_char b \<longleftrightarrow>
     is_ascii_lowercase b \<or> is_ascii_digit b \<or> b = CHR ''_'' \<or> b = CHR ''-''"

definition username_grammar :: "string \<Rightarrow> bool" where
  "username_grammar s \<longleftrightarrow>
     (\<exists>first body tail. s = first # body @ tail \<and>
        (is_ascii_lowercase first \<or> first = CHR ''_'') \<and>
        list_all username_body_char body \<and> tail \<in> {[], ''$''})"

lemma dollar_no_body_char: "\<not> username_body_char CHR ''$''"
  by (simp add: username_body_char_def byte_defs)

text \<open>
  \<open>is_valid_system_username\<close> accepts exactly the strings of the documented grammar
  \<open>[a-z_][a-z0-9_-]*[$]?\<close> of at most 32 bytes.
\<close>

theorem valid_username_iff_grammar:
  "is_valid_system_username s \<longleftrightarrow> username_grammar s \<and> length s \<le> USERNAME_MAX_LEN"
proof (cases s)
  case Nil
  then show ?thesis by (simp add: is_valid_system_username_def username_grammar_def)
next
  case (Cons first rest)
  let ?body = "if rest \<noteq> [] \<and> last rest = CHR ''$'' then butlast rest else rest"
  have "list_all username_body_char ?body \<longleftrightarrow>
      (\<exists>body tail. rest = body @ tail \<and> list_all username_body_char body \<and> tail \<in> {[], ''$''})"
  proof
    assume body: "list_all username_body_char ?body"
    show "\<exists>body tail. rest = body @ tail \<and> list_all username_body_char body \<and> tail \<in> {[], ''$''}"
    proof (cases "rest \<noteq> [] \<and> last rest = CHR ''$''")
      case True
      then have "rest = butlast rest @ ''$''" using append_butlast_last_id [of rest] by simp
      with True body show ?thesis by (intro exI [of _ "butlast rest"] exI [of _ "''$''"]) simp
    next
      case False
      with body have "list_all username_body_char rest" by (simp only: if_False)
      then show ?thesis by (intro exI [of _ rest] exI [of _ "[]"]) simp
    qed
  next
    assume "\<exists>body tail. rest = body @ tail \<and> list_all username_body_char body \<and> tail \<in> {[], ''$''}"
    then obtain body tail where "rest = body @ tail" "list_all username_body_char body"
      and tail: "tail \<in> {[], ''$''}" by blast
    moreover from this have "body = [] \<or> last body \<noteq> CHR ''$''"
      using dollar_no_body_char last_in_set [of body] by (metis list_all_iff)
    ultimately show "list_all username_body_char ?body" by auto
  qed
  with Cons show ?thesis
    by (auto simp: is_valid_system_username_def username_grammar_def username_body_char_def [abs_def])
qed

section \<open>Owners\<close>

lemma validate_run_as_User:
  "validate_run_as pw n = Inr (User u) \<Longrightarrow> pw n = Some u \<and> n \<noteq> RESERVED_RUN_AS_ROOT"
  by (auto simp: validate_run_as_def split: if_splits option.splits)

lemma owner_id_root [simp]: "mb_owner mb = RESERVED_RUN_AS_ROOT \<Longrightarrow> owner_id sel pw mb = Inr 0"
  by (simp add: owner_id_def validate_run_as_def)

lemma owner_id_user:
  "mb_owner mb \<noteq> RESERVED_RUN_AS_ROOT \<Longrightarrow>
   owner_id sel pw mb = Inr n \<longleftrightarrow>
     (is_reserved_run_as (mb_owner mb) \<or> is_valid_system_username (mb_owner mb)) \<and>
     (\<exists>u. pw (mb_owner mb) = Some u \<and> n = sel u)"
  by (auto simp: owner_id_def validate_run_as_def is_reserved_run_as_def RESERVED_RUN_AS_ROOT_def
      RESERVED_RUN_AS_CATCHALL_def split: option.splits)

section \<open>The hook checks\<close>

lemma first_some_None: "first_some f xs = None \<longleftrightarrow> (\<forall>x \<in> set xs. f x = None)"
  by (induction xs) (auto simp: first_some_def map_filter_simps split: option.splits)

definition hook_ok :: "hook \<Rightarrow> bool" where
  "hook_ok h \<longleftrightarrow>
     (\<forall>n. hk_name h = Some n \<longrightarrow> is_valid_hook_name n) \<and>
     hk_cmd h \<noteq> [] \<and> trim (hd (hk_cmd h)) \<noteq> [] \<and> is_absolute (hd (hk_cmd h)) \<and>
     hk_type h = ''cmd'' \<and>
     (hk_fire_on_untrusted h \<longrightarrow> hk_event h = OnReceive) \<and>
     0 < hk_timeout_secs h \<and> hk_timeout_secs h \<le> MAX_HOOK_TIMEOUT_SECS"

lemma hook_check_None: "hook_check mailbox h = None \<longleftrightarrow> hook_ok h"
  by (auto simp: hook_check_def hook_ok_def Let_def split: list.splits if_splits option.splits)

lemma upd_eq_None: "(m(k \<mapsto> v)) x = None \<longleftrightarrow> x \<noteq> k \<and> m x = None"
  by simp

lemma validate_hooks_loop_Inr:
  "validate_hooks_loop sha seen hs = Inr () \<longleftrightarrow>
     list_all (\<lambda>mh. hook_ok (snd mh)) hs \<and>
     distinct (map (\<lambda>mh. effective_hook_name sha (snd mh)) hs) \<and>
     list_all (\<lambda>mh. seen (effective_hook_name sha (snd mh)) = None) hs"
proof (induction sha seen hs rule: validate_hooks_loop.induct)
  case (2 sha seen mailbox h rest)
  show ?case
  proof (cases "hook_check mailbox h = None \<and> seen (effective_hook_name sha h) = None")
    case True
    then have c: "hook_check mailbox h = None" and s: "seen (effective_hook_name sha h) = None"
      by simp_all
    from c have ok: "hook_ok h" by (simp add: hook_check_None)
    have step: "validate_hooks_loop sha seen ((mailbox, h) # rest) =
        validate_hooks_loop sha (seen(effective_hook_name sha h \<mapsto> (mailbox, hk_name h \<noteq> None))) rest"
      by (simp add: Let_def c s)
    show ?thesis
      unfolding step "2.IH" [OF c refl refl s] upd_eq_None using ok s by (auto simp: list_all_iff image_iff)
  next
    case False
    show ?thesis
    proof (cases "hook_check mailbox h")
      case None
      with False obtain p q where "seen (effective_hook_name sha h) = Some (p, q)" by auto
      with None show ?thesis by (simp add: Let_def)
    next
      case (Some e)
      then have "\<not> hook_ok h" using hook_check_None [of mailbox h] by simp
      with Some show ?thesis by simp
    qed
  qed
qed simp

text \<open>
  the hook checks on load are independent of the order in which the mailboxes are
  visited: they pass exactly when every hook is well-formed by itself and no two hooks of the
  whole configuration share an effective name.
\<close>

theorem validate_hooks_iff:
  "validate_hooks sha cfg = Inr () \<longleftrightarrow>
     list_all (\<lambda>mh. hook_ok (snd mh)) (all_hooks cfg) \<and>
     distinct (map (\<lambda>mh. effective_hook_name sha (snd mh)) (all_hooks cfg))"
  by (simp add: validate_hooks_def validate_hooks_loop_Inr list_all_iff)

text \<open>The theorem at a configuration with one good hook, and its refusal of a clash.\<close>

definition demo_hook :: hook where
  "demo_hook = \<lparr>hk_name = Some ''h'', hk_event = OnReceive, hk_type = ''cmd'',
     hk_cmd = [''/bin/true''], hk_fire_on_untrusted = False, hk_timeout_secs = 60\<rparr>"

definition demo_mailbox :: "hook list \<Rightarrow> mailbox_config" where
  "demo_mailbox hs = \<lparr>mb_address = ''alice@d.io'', mb_owner = ''alice'', mb_hooks = hs,
     mb_trust = None, mb_trusted_senders = None, mb_allow_root_catchall = False\<rparr>"

definition demo_config :: "hook list \<Rightarrow> config" where
  "demo_config hs = \<lparr>cfg_domain = ''d.io'', cfg_data_dir = ''/var/lib/aimx'',
     cfg_dkim_selector = ''aimx'', cfg_trust = ''none'', cfg_trusted_senders = [],
     cfg_mailboxes = [(''alice'', demo_mailbox hs)], cfg_verify_host = None,
     cfg_enable_ipv6 = False, cfg_signature = None, cfg_release_manifest_url = None\<rparr>"

definition demo_users :: user_db where
  "demo_users n = (if n = ''alice'' then Some \<lparr>ru_name = n, ru_uid = 1000, ru_gid = 1000\<rparr>
     else if n = ''bob'' then Some \<lparr>ru_name = n, ru_uid = 1001, ru_gid = 1001\<rparr> else None)"

lemma demo_hook_ok: "hook_ok demo_hook"
proof -
  have "trim ''/bin/true'' = ''/bin/true''"
    by (rule trim_all_plain) (simp add: plain_byte_def code_def)
  then show ?thesis
    by (simp add: hook_ok_def demo_hook_def is_absolute_def MAX_HOOK_TIMEOUT_SECS_def
        is_valid_hook_name_def HOOK_NAME_MAX_LEN_def byte_defs)
qed

lemma all_hooks_demo [simp]: "all_hooks (demo_config hs) = map (Pair ''alice'') hs"
  by (simp add: all_hooks_def demo_config_def demo_mailbox_def)

theorem validate_hooks_iff_witness:
  "validate_hooks id (demo_config [demo_hook]) = Inr () \<and>
   validate_hooks id (demo_config [demo_hook, demo_hook]) \<noteq> Inr ()"
  using validate_hooks_iff [of id "demo_config [demo_hook]"]
    validate_hooks_iff [of id "demo_config [demo_hook, demo_hook]"]
  by (simp add: demo_hook_ok)

section \<open>The invariant of a loaded configuration\<close>

definition mailbox_ok :: "config \<Rightarrow> mailbox_config \<Rightarrow> bool" where
  "mailbox_ok cfg mb \<longleftrightarrow>
     trim (mb_owner mb) \<noteq> [] \<and>
     (is_reserved_run_as (mb_owner mb) \<or> is_valid_system_username (mb_owner mb)) \<and>
     (mb_owner mb = RESERVED_RUN_AS_ROOT \<longrightarrow> is_catchall cfg mb \<and> mb_allow_root_catchall mb) \<and>
     (mb_allow_root_catchall mb \<longrightarrow> is_catchall cfg mb) \<and>
     (is_catchall cfg mb \<longrightarrow> mb_hooks mb = []) \<and>
     (case mb_trust mb of None \<Rightarrow> True | Some t \<Rightarrow> t \<in> set VALID_TRUST_VALUES)"

definition config_ok :: "(bytes \<Rightarrow> bytes) \<Rightarrow> config \<Rightarrow> bool" where
  "config_ok sha cfg \<longleftrightarrow>
     cfg_trust cfg \<in> set VALID_TRUST_VALUES \<and>
     list_all (\<lambda>nm. mailbox_ok cfg (snd nm)) (cfg_mailboxes cfg) \<and>
     list_all (\<lambda>mh. hook_ok (snd mh)) (all_hooks cfg) \<and>
     distinct (map (\<lambda>mh. effective_hook_name sha (snd mh)) (all_hooks cfg))"

definition owner_orphan :: "user_db \<Rightarrow> mailbox_config \<Rightarrow> bool" where
  "owner_orphan pw mb \<longleftrightarrow> \<not> is_reserved_run_as (mb_owner mb) \<and> pw (mb_owner mb) = None"

text \<open>The warnings a configuration deserves: its orphans and its root-owned catchalls.\<close>

definition mailbox_warnings :: "user_db \<Rightarrow> string \<times> mailbox_config \<Rightarrow> load_warning list" where
  "mailbox_warnings pw nm =
     (if owner_orphan pw (snd nm) then [OrphanMailboxOwner (fst nm) (mb_owner (snd nm))] else []) @
     (if mb_owner (snd nm) = RESERVED_RUN_AS_ROOT then [RootCatchallAccepted (fst nm)] else [])"

definition owner_ok :: "config \<Rightarrow> mailbox_config \<Rightarrow> bool" where
  "owner_ok cfg mb \<longleftrightarrow>
     (is_reserved_run_as (mb_owner mb) \<or> is_valid_system_username (mb_owner mb)) \<and>
     (mb_owner mb = RESERVED_RUN_AS_ROOT \<longrightarrow> is_catchall cfg mb \<and> mb_allow_root_catchall mb) \<and>
     (mb_allow_root_catchall mb \<longrightarrow> is_catchall cfg mb)"

lemma reserved_names_distinct [simp]:
  "RESERVED_RUN_AS_ROOT \<noteq> RESERVED_RUN_AS_CATCHALL" "RESERVED_RUN_AS_CATCHALL \<noteq> RESERVED_RUN_AS_ROOT"
  by (simp_all add: RESERVED_RUN_AS_ROOT_def RESERVED_RUN_AS_CATCHALL_def)

lemma mailbox_owner_check_Inr:
  "mailbox_owner_check pw cfg nm = Inr ws \<longleftrightarrow> owner_ok cfg (snd nm) \<and> ws = mailbox_warnings pw nm"
proof (cases nm)
  case (Pair name mb)
  show ?thesis
  proof (cases "mb_owner mb = RESERVED_RUN_AS_ROOT")
    case True
    then show ?thesis
      by (auto simp: Pair mailbox_owner_check_def validate_run_as_def owner_ok_def
          is_reserved_run_as_def mailbox_warnings_def owner_orphan_def Let_def)
  next
    case False
    then show ?thesis
      by (auto simp: Pair mailbox_owner_check_def validate_run_as_def owner_ok_def
          is_reserved_run_as_def mailbox_warnings_def owner_orphan_def Let_def split: option.splits)
  qed
qed

lemma owners_loop_Inr:
  "owners_loop pw cfg ms = Inr ws \<longleftrightarrow>
     list_all (\<lambda>nm. owner_ok cfg (snd nm)) ms \<and> ws = concat (map (mailbox_warnings pw) ms)"
proof (induction ms arbitrary: ws)
  case (Cons nm ms)
  show ?case
  proof (cases "owner_ok cfg (snd nm)")
    case True
    then have check: "mailbox_owner_check pw cfg nm = Inr (mailbox_warnings pw nm)"
      by (simp add: mailbox_owner_check_Inr)
    show ?thesis
    proof (cases "owners_loop pw cfg ms")
      case (Inl e)
      with Cons.IH have "\<not> list_all (\<lambda>nm. owner_ok cfg (snd nm)) ms" by auto
      with check Inl show ?thesis by simp
    next
      case (Inr ws')
      with Cons.IH check True show ?thesis by auto
    qed
  next
    case False
    then obtain e where "mailbox_owner_check pw cfg nm = Inl e"
      by (cases "mailbox_owner_check pw cfg nm") (auto simp: mailbox_owner_check_Inr)
    with False show ?thesis by simp
  qed
qed auto

lemma first_some_Inr:
  "(case first_some f xs of None \<Rightarrow> Inr u | Some e \<Rightarrow> Inl e) = Inr v \<longleftrightarrow>
     list_all (\<lambda>x. f x = None) xs \<and> v = u"
  by (cases "first_some f xs") (auto simp: list_all_iff first_some_None [symmetric])

lemma validate_trust_values_Inr:
  "validate_trust_values cfg = Inr () \<longleftrightarrow>
     cfg_trust cfg \<in> set VALID_TRUST_VALUES \<and>
     list_all (\<lambda>nm. case mb_trust (snd nm) of None \<Rightarrow> True | Some t \<Rightarrow> t \<in> set VALID_TRUST_VALUES)
       (cfg_mailboxes cfg)"
proof -
  have "mailbox_trust_check nm = None \<longleftrightarrow>
      (case mb_trust (snd nm) of None \<Rightarrow> True | Some t \<Rightarrow> t \<in> set VALID_TRUST_VALUES)" for nm
    by (cases nm) (simp add: mailbox_trust_check_def split: option.splits)
  then show ?thesis
    by (simp add: validate_trust_values_def first_some_Inr)
qed

lemma reject_post_parse_legacy_Inr:
  "reject_post_parse_legacy cfg = Inr () \<longleftrightarrow>
     list_all (\<lambda>nm. (is_catchall cfg (snd nm) \<longrightarrow> mb_hooks (snd nm) = []) \<and>
        list_all (\<lambda>h. hk_fire_on_untrusted h \<longrightarrow> hk_event h = OnReceive) (mb_hooks (snd nm)))
       (cfg_mailboxes cfg)"
proof -
  have "mailbox_legacy_check cfg nm = None \<longleftrightarrow>
      (is_catchall cfg (snd nm) \<longrightarrow> mb_hooks (snd nm) = []) \<and>
      list_all (\<lambda>h. hk_fire_on_untrusted h \<longrightarrow> hk_event h = OnReceive) (mb_hooks (snd nm))" for nm
    by (cases nm) (auto simp: mailbox_legacy_check_def first_some_None list_all_iff)
  then show ?thesis
    by (simp add: reject_post_parse_legacy_def first_some_Inr)
qed

lemma all_hooks_iff:
  "list_all (\<lambda>mh. P (snd mh)) (all_hooks cfg) \<longleftrightarrow>
     list_all (\<lambda>nm. list_all P (mb_hooks (snd nm))) (cfg_mailboxes cfg)"
proof -
  have "list_all Q (concat (map f ms)) \<longleftrightarrow> list_all (\<lambda>nm. list_all Q (f nm)) ms"
    for Q :: "string \<times> hook \<Rightarrow> bool" and f and ms :: "(string \<times> mailbox_config) list"
    by (induction ms) auto
  then show ?thesis
    by (simp add: all_hooks_def split_beta list.pred_map comp_def)
qed

lemma hook_ok_event: "hook_ok h \<Longrightarrow> hk_fire_on_untrusted h \<longrightarrow> hk_event h = OnReceive"
  by (simp add: hook_ok_def)

lemma validate_config_Inr:
  "validate_config sha pw cfg = Inr (cfg', ws) \<longleftrightarrow>
     cfg' = cfg \<and> config_ok sha cfg \<and> ws = concat (map (mailbox_warnings pw) (cfg_mailboxes cfg))"
proof -
  have "(\<exists>u. validate_hooks sha cfg = Inr u) \<longleftrightarrow> validate_hooks sha cfg = Inr ()"
    "(\<exists>u. validate_trust_values cfg = Inr u) \<longleftrightarrow> validate_trust_values cfg = Inr ()"
    "(\<exists>u. reject_post_parse_legacy cfg = Inr u) \<longleftrightarrow> reject_post_parse_legacy cfg = Inr ()"
    by auto
  moreover have "first_some missing_owner_check (cfg_mailboxes cfg) = None \<longleftrightarrow>
      list_all (\<lambda>nm. trim (mb_owner (snd nm)) \<noteq> []) (cfg_mailboxes cfg)"
    by (auto simp: first_some_None missing_owner_check_def list_all_iff)
  ultimately have "validate_config sha pw cfg = Inr (cfg', ws) \<longleftrightarrow>
      list_all (\<lambda>nm. trim (mb_owner (snd nm)) \<noteq> []) (cfg_mailboxes cfg) \<and>
      validate_trust_values cfg = Inr () \<and> reject_post_parse_legacy cfg = Inr () \<and>
      validate_mailbox_owners pw cfg = Inr ws \<and> validate_hooks sha cfg = Inr () \<and> cfg' = cfg"
    by (auto simp: validate_config_def split: option.splits sum.splits)
  then show ?thesis
    unfolding validate_trust_values_Inr reject_post_parse_legacy_Inr validate_mailbox_owners_def
      owners_loop_Inr validate_hooks_iff config_ok_def mailbox_ok_def owner_ok_def all_hooks_iff
    using hook_ok_event by (auto simp: list_all_iff)
qed

text \<open>
  C10: the validation \<open>Config::load\<close> runs accepts exactly the configurations of the invariant
  \<open>config_ok\<close> (known trust words, owners that are reserved or well-formed, root owning only a
  catchall that opted in, no hooks on a catchall, well-formed hooks with unique effective
  names), passes the configuration on unchanged, and warns of exactly the orphaned owners and
  the root-owned catchalls.
\<close>

theorem validate_config_iff:
  "validate_config sha pw cfg = Inr (cfg', ws) \<longleftrightarrow>
     cfg' = cfg \<and> config_ok sha cfg \<and> ws = concat (map (mailbox_warnings pw) (cfg_mailboxes cfg))"
  by (rule validate_config_Inr)

end
