(* ===== verification/SmtpRead.thy ===== *)
theory SmtpRead
  imports ConfigFacts
begin

text \<open>
  Reading and parsing for the SMTP session (\<open>src/smtp/session.rs\<close>): the bounded line reader
  over the socket's buffer, the command parser, address extraction, and the collection of a
  DATA section.

  A reader is the rest of \<open>BufReader\<close>'s buffer and the events still to come: a chunk that
  fills the buffer, a read error, or one of the two timers running out while a read waits. No
  event left is the end of the stream, as is an empty chunk. \<open>upper\<close> is \<open>str::to_uppercase\<close>
  (Unicode).
\<close>

section \<open>The reader\<close>

datatype rd_event = Chunk bytes | RdError string | IdleTimeout | TotalTimeout

datatype rd = Rd (rd_buf: bytes) (rd_events: "rd_event list")

datatype fill = FillEof | FillData bytes | FillErr string | FillIdle | FillTotal

fun fill_buf :: "rd \<Rightarrow> fill \<times> rd" where
  "fill_buf (Rd (b # buf) evs) = (FillData (b # buf), Rd (b # buf) evs)"
| "fill_buf (Rd [] []) = (FillEof, Rd [] [])"
| "fill_buf (Rd [] (Chunk [] # evs)) = (FillEof, Rd [] evs)"
| "fill_buf (Rd [] (Chunk (b # bs) # evs)) = (FillData (b # bs), Rd (b # bs) evs)"
| "fill_buf (Rd [] (RdError e # evs)) = (FillErr e, Rd [] evs)"
| "fill_buf (Rd [] (IdleTimeout # evs)) = (FillIdle, Rd [] evs)"
| "fill_buf (Rd [] (TotalTimeout # evs)) = (FillTotal, Rd [] evs)"

definition consume :: "nat \<Rightarrow> rd \<Rightarrow> rd" where
  "consume n r = Rd (drop n (rd_buf r)) (rd_events r)"

fun ev_size :: "rd_event \<Rightarrow> nat" where
  "ev_size (Chunk bs) = Suc (length bs)"
| "ev_size _ = 1"

definition rd_size :: "rd \<Rightarrow> nat" where
  "rd_size r = length (rd_buf r) + sum_list (map ev_size (rd_events r))"

datatype line_result = LineOk string | TooLong | Eof | LineErr string | LineIdle | LineTotal

lemma fill_buf_size: "fill_buf r = (f, r') \<Longrightarrow> rd_size r' \<le> rd_size r"
  by (cases r rule: fill_buf.cases) (auto simp: rd_size_def)

lemma fill_buf_data:
  "fill_buf r = (FillData b, r') \<Longrightarrow> b \<noteq> []"
  by (cases r rule: fill_buf.cases) auto

lemma fill_data_consume:
  assumes "fill_buf r = (FillData b, r')" "0 < n"
  shows "rd_size (consume n r') < rd_size r"
proof (cases r rule: fill_buf.cases)
  case (1 c buf evs)
  with assms show ?thesis by (auto simp: rd_size_def consume_def)
next
  case (4 c buf evs)
  with assms show ?thesis by (auto simp: rd_size_def consume_def)
qed (use assms in auto)

lemma fill_data_consume_all:
  "(FillData b, r') = fill_buf r \<Longrightarrow> rd_size (consume (length b) r') < rd_size r"
  using fill_data_consume [of r b r' "length b"] fill_buf_data [of r b r'] by auto

lemma fill_timer_size:
  "fill_buf r = (f, r') \<Longrightarrow>
    (case f of FillEof \<Rightarrow> True | FillData b \<Rightarrow> True | _ \<Rightarrow> rd_size r' < rd_size r)"
  by (cases r rule: fill_buf.cases) (auto simp: rd_size_def)

text \<open>The drain after a line that is too long: up to its line end.\<close>

function drain_line :: "rd \<Rightarrow> line_result \<times> rd" where
  "drain_line r =
     (case fill_buf r of
        (FillEof, r') \<Rightarrow> (TooLong, r')
      | (FillErr _, r') \<Rightarrow> (TooLong, r')
      | (FillIdle, r') \<Rightarrow> (LineIdle, r')
      | (FillTotal, r') \<Rightarrow> (LineTotal, r')
      | (FillData rest, r') \<Rightarrow>
          (case find_char LF rest of
             Some p \<Rightarrow> (TooLong, consume (p + 1) r')
           | None \<Rightarrow> drain_line (consume (length rest) r')))"
  by pat_completeness auto
termination
  by (relation "measure rd_size") (auto intro: fill_data_consume_all)

declare drain_line.simps [simp del]

function bounded_read_line :: "nat \<Rightarrow> string \<Rightarrow> rd \<Rightarrow> line_result \<times> rd" where
  "bounded_read_line max_len buf r =
     (case fill_buf r of
        (FillEof, r') \<Rightarrow> (Eof, r')
      | (FillErr e, r') \<Rightarrow> (LineErr e, r')
      | (FillIdle, r') \<Rightarrow> (LineIdle, r')
      | (FillTotal, r') \<Rightarrow> (LineTotal, r')
      | (FillData available, r') \<Rightarrow>
          (case find_char LF available of
             Some newline_pos \<Rightarrow>
               (if length buf + newline_pos + 1 > max_len
                then (TooLong, consume (newline_pos + 1) r')
                else (LineOk (buf @ utf8_lossy (take (newline_pos + 1) available)),
                      consume (newline_pos + 1) r'))
           | None \<Rightarrow>
               (if length buf + length available > max_len
                then drain_line (consume (length available) r')
                else bounded_read_line max_len (buf @ utf8_lossy available)
                       (consume (length available) r'))))"
  by pat_completeness auto
termination
  by (relation "measure (\<lambda>(max_len, buf, r). rd_size r)")
    (auto intro: fill_data_consume_all)

declare bounded_read_line.simps [simp del]

text \<open>Every read but one at the end of the stream consumes.\<close>

lemma drain_line_size: "drain_line r = (l, r') \<Longrightarrow> rd_size r' \<le> rd_size r"
proof (induction r rule: drain_line.induct)
  case (1 r)
  show ?case
  proof (cases "fill_buf r")
    case (Pair f r1)
    show ?thesis
    proof (cases f)
      case (FillData rest)
      with Pair have less: "rd_size (consume n r1) < rd_size r" if "0 < n" for n
        using fill_data_consume that by simp
      show ?thesis
      proof (cases "find_char LF rest")
        case None
        have "rest \<noteq> []" using Pair FillData fill_buf_data by simp
        with "1.prems" Pair FillData None have "rd_size r' \<le> rd_size (consume (length rest) r1)"
          by (intro "1.IH" [OF Pair [symmetric] FillData None]) (subst (asm) drain_line.simps, simp)
        with less [of "length rest"] \<open>rest \<noteq> []\<close> show ?thesis by simp
      next
        case (Some p)
        with "1.prems" Pair FillData less [of "p + 1"] show ?thesis
          by (subst (asm) drain_line.simps) auto
      qed
    qed (use "1.prems" Pair in \<open>subst (asm) drain_line.simps, auto dest: fill_buf_size\<close>)+
  qed
qed

lemma bounded_read_line_size:
  "bounded_read_line max_len buf r = (l, r') \<Longrightarrow> l \<noteq> Eof \<Longrightarrow> rd_size r' < rd_size r"
proof (induction max_len buf r rule: bounded_read_line.induct)
  case (1 max_len buf r)
  show ?case
  proof (cases "fill_buf r")
    case (Pair f r1)
    show ?thesis
    proof (cases f)
      case (FillData av)
      with Pair have less: "rd_size (consume n r1) < rd_size r" if "0 < n" for n
        using fill_data_consume that by simp
      have av: "av \<noteq> []" using Pair FillData fill_buf_data by simp
      show ?thesis
      proof (cases "find_char LF av")
        case None
        show ?thesis
        proof (cases "length buf + length av > max_len")
          case True
          with "1.prems"(1) Pair FillData None have "drain_line (consume (length av) r1) = (l, r')"
            by (subst (asm) bounded_read_line.simps) simp
          then have "rd_size r' \<le> rd_size (consume (length av) r1)" by (rule drain_line_size)
          with less [of "length av"] av show ?thesis by simp
        next
          case False
          with "1.prems"(1) Pair FillData None
          have rec: "bounded_read_line max_len (buf @ utf8_lossy av) (consume (length av) r1) = (l, r')"
            by (subst (asm) bounded_read_line.simps) simp
          have "rd_size r' < rd_size (consume (length av) r1)"
            using "1.IH" [OF Pair [symmetric] FillData None False rec "1.prems"(2)] .
          with less [of "length av"] av show ?thesis by simp
        qed
      next
        case (Some p)
        with "1.prems" Pair FillData less [of "p + 1"] show ?thesis
          by (subst (asm) bounded_read_line.simps) (auto split: if_splits)
      qed
    qed (use "1.prems" Pair in \<open>subst (asm) bounded_read_line.simps, auto dest: fill_timer_size\<close>)+
  qed
qed

lemma bounded_read_line_eof_size:
  "bounded_read_line max_len buf r = (Eof, r') \<Longrightarrow> rd_size r' \<le> rd_size r"
proof (induction max_len buf r rule: bounded_read_line.induct)
  case (1 max_len buf r)
  obtain f r1 where f: "fill_buf r = (f, r1)" by (cases "fill_buf r")
  show ?case
  proof (cases f)
    case (FillData av)
    with f have less: "rd_size (consume (length av) r1) < rd_size r"
      using fill_data_consume_all by simp
    show ?thesis
    proof (cases "find_char LF av")
      case None
      show ?thesis
      proof (cases "length buf + length av > max_len")
        case True
        with "1.prems" f FillData None have "drain_line (consume (length av) r1) = (Eof, r')"
          by (subst (asm) bounded_read_line.simps) simp
        then have "rd_size r' \<le> rd_size (consume (length av) r1)" by (rule drain_line_size)
        with less show ?thesis by simp
      next
        case False
        with "1.prems" f FillData None
        have rec: "bounded_read_line max_len (buf @ utf8_lossy av) (consume (length av) r1) = (Eof, r')"
          by (subst (asm) bounded_read_line.simps) simp
        have "rd_size r' \<le> rd_size (consume (length av) r1)"
          using "1.IH" [OF f [symmetric] FillData None False rec] .
        with less show ?thesis by simp
      qed
    next
      case (Some p)
      with "1.prems" f FillData show ?thesis
        by (subst (asm) bounded_read_line.simps) (auto split: if_splits)
    qed
  qed (use "1.prems" f in \<open>subst (asm) bounded_read_line.simps, auto dest: fill_buf_size\<close>)+
qed

section \<open>Commands and addresses\<close>

definition parse_command :: "(string \<Rightarrow> string) \<Rightarrow> string \<Rightarrow> string \<times> string" where
  "parse_command upper line =
     (let line = trim line in
      case find_char CHR '' '' line of
        Some pos \<Rightarrow> (upper (take pos line), trim (drop (pos + 1) line))
      | None \<Rightarrow> (upper line, []))"

text \<open>\<open>None\<close> is the panic of the slice when the first \<open>>\<close> stands before the first \<open><\<close>.\<close>

definition extract_angle_addr :: "string \<Rightarrow> string option" where
  "extract_angle_addr s =
     (let s = trim s in
      case find_char CHR ''<'' s of
        None \<Rightarrow> Some s
      | Some start \<Rightarrow>
          (case find_char CHR ''>'' s of
             None \<Rightarrow> Some s
           | Some e \<Rightarrow> map_option trim (slice s (start + 1) e)))"

text \<open>\<open>&args[n..]\<close>, which also panics inside a character.\<close>

definition str_from :: "nat \<Rightarrow> string \<Rightarrow> string option" where
  "str_from n s =
     (if n < length s \<and> cont_byte (s ! n) then None else slice s n (length s))"

definition recipient_domain_matches :: "string \<Rightarrow> string \<Rightarrow> bool" where
  "recipient_domain_matches addr configured_domain =
     (case rsplit_once CHR ''@'' addr of
        None \<Rightarrow> False
      | Some (_, domain) \<Rightarrow> domain \<noteq> [] \<and> eq_ignore_ascii_case domain configured_domain)"

text \<open>\<open>ingest::extract_local_part\<close> and \<open>ingest::resolve_recipient_mailbox\<close>.\<close>

definition extract_local_part :: "string \<Rightarrow> string" where
  "extract_local_part rcpt = takeWhile (\<lambda>c. c \<noteq> CHR ''@'') rcpt"

definition resolve_recipient_mailbox :: "config \<Rightarrow> string \<Rightarrow> string option" where
  "resolve_recipient_mailbox cfg rcpt =
     (let local_part = extract_local_part rcpt in
      if lookup_mailbox cfg local_part \<noteq> None then Some local_part
      else if lookup_mailbox cfg ''catchall'' \<noteq> None then Some ''catchall''
      else None)"

section \<open>The DATA section\<close>

datatype data_outcome =
    DataComplete bytes
  | DataReply string
  | DataErr string
  | DataCancelled

definition crlf :: "string \<Rightarrow> string" where
  "crlf s = s @ [CR, LF]"

text \<open>
  The drain after an oversized message, up to its final dot; the flag says that the session's
  total deadline passed meanwhile, which cancels the session as a whole.
\<close>

function drain_data :: "nat \<Rightarrow> rd \<Rightarrow> bool \<times> rd" where
  "drain_data limit r =
     (case bounded_read_line limit [] r of
        (Eof, r') \<Rightarrow> (False, r')
      | (LineIdle, r') \<Rightarrow> (False, r')
      | (LineTotal, r') \<Rightarrow> (True, r')
      | (LineOk line, r') \<Rightarrow>
          if trim_end line = ''.'' then (False, r') else drain_data limit r'
      | (TooLong, r') \<Rightarrow> drain_data limit r'
      | (LineErr _, r') \<Rightarrow> drain_data limit r')"
  by pat_completeness auto
termination
  by (relation "measure (\<lambda>(limit, r). rd_size r)")
    (auto dest!: sym [of "(_, _)" "bounded_read_line _ _ _"] bounded_read_line_size)

declare drain_data.simps [simp del]

definition over_size :: "nat \<Rightarrow> rd \<Rightarrow> data_outcome \<times> rd" where
  "over_size limit r =
     (case drain_data limit r of
        (False, r') \<Rightarrow> (DataReply (crlf ''552 Message exceeds maximum size''), r')
      | (True, r') \<Rightarrow> (DataCancelled, r'))"

definition unstuff :: "string \<Rightarrow> bytes" where
  "unstuff line = (if starts_with line ''..'' then drop 1 line else line)"

definition bare_lf :: "string \<Rightarrow> bool" where
  "bare_lf line \<longleftrightarrow> ends_with line [LF] \<and> \<not> ends_with line [CR, LF]"

function data_loop :: "nat \<Rightarrow> bytes \<Rightarrow> rd \<Rightarrow> data_outcome \<times> rd" where
  "data_loop max_size acc r =
     (case bounded_read_line (max_size + 1024) [] r of
        (LineIdle, r') \<Rightarrow> (DataReply (crlf ''421 Timeout during DATA''), r')
      | (LineTotal, r') \<Rightarrow> (DataReply (crlf ''421 Timeout during DATA''), r')
      | (TooLong, r') \<Rightarrow> over_size (max_size + 1024) r'
      | (Eof, r') \<Rightarrow> (DataReply (crlf ''451 Client disconnected during DATA''), r')
      | (LineErr e, r') \<Rightarrow> (DataErr (''Read error during DATA: '' @ e), r')
      | (LineOk line, r') \<Rightarrow>
          (if bare_lf line then (DataReply (crlf ''500 Bare LF not allowed (RFC 5321)''), r')
           else if trim_end line = ''.'' then (DataComplete acc, r')
           else if length (acc @ unstuff line) > max_size then over_size (max_size + 1024) r'
           else data_loop max_size (acc @ unstuff line) r'))"
  by pat_completeness auto
termination
  by (relation "measure (\<lambda>(max_size, acc, r). rd_size r)")
    (auto dest!: sym [of "(_, _)" "bounded_read_line _ _ _"] bounded_read_line_size)

declare data_loop.simps [simp del]

end
