(* ===== verification/SmtpSession.thy ===== *)
theory SmtpSession
  imports SmtpRead
begin

text \<open>
  The SMTP session (\<open>src/smtp/session.rs\<close>): its state, its command handlers, the delivery of a
  received message and the command loop, before and after STARTTLS.

  A connection is the session's state with its reader, what it has written (\<open>cn_budget\<close> is how
  many writes still succeed, \<open>None\<close> all of them), the number of configuration snapshots taken
  and the world \<open>'w\<close> that \<open>ingest_email\<close> changes. \<open>pa_config n\<close> is the snapshot the \<open>n\<close>-th load
  of the configuration handle gives (other tasks may swap it in between), \<open>pa_ingest\<close> is
  \<open>ingest::ingest_email\<close> (\<open>False\<close>: it failed or panicked) and \<open>pa_tls_accept\<close> the TLS
  handshake over the rest of the socket. Counters are \<open>usize\<close>s that never get near their
  bound: \<open>nat\<close>s. Log lines are not modelled.
\<close>

section \<open>State\<close>

definition MAX_COMMAND_LINE_LENGTH :: nat where "MAX_COMMAND_LINE_LENGTH = 1024"

definition DEFAULT_MAX_MESSAGE_SIZE :: nat where "DEFAULT_MAX_MESSAGE_SIZE = 25 * 1024 * 1024"

definition DEFAULT_MAX_COMMANDS_BEFORE_DATA :: nat where "DEFAULT_MAX_COMMANDS_BEFORE_DATA = 50"

datatype smtp_state = Connected | Greeted | MailFrom | RcptTo | Data

datatype loop_exit = Done | StarttlsUpgrade | ExitErr string | Cancelled | Panicked

record 'w session_params =
  pa_config :: "nat \<Rightarrow> config"
  pa_tls :: bool
  pa_hostname :: string
  pa_max_message_size :: nat
  pa_max_commands :: nat
  pa_upper :: "string \<Rightarrow> string"
  pa_ingest :: "config \<Rightarrow> string \<Rightarrow> bytes \<Rightarrow> string option \<Rightarrow> 'w \<Rightarrow> bool \<times> 'w"
  pa_tls_accept :: "rd_event list \<Rightarrow> string + rd_event list"

record session_state =
  ss_state :: smtp_state
  ss_reverse_path :: string
  ss_forward_paths :: "string list"
  ss_tls_active :: bool
  ss_ehlo_hostname :: string
  ss_command_count :: nat
  ss_total_bytes :: nat
  ss_message_count :: nat

definition new_session_state :: session_state where
  "new_session_state =
     \<lparr>ss_state = Connected, ss_reverse_path = [], ss_forward_paths = [], ss_tls_active = False,
      ss_ehlo_hostname = [], ss_command_count = 0, ss_total_bytes = 0, ss_message_count = 0\<rparr>"

definition reset_transaction :: "session_state \<Rightarrow> session_state" where
  "reset_transaction ss =
     ss\<lparr>ss_reverse_path := [], ss_forward_paths := [],
        ss_state := (if ss_state ss \<noteq> Connected then Greeted else Connected)\<rparr>"

record 'w conn =
  cn_ss :: session_state
  cn_rd :: rd
  cn_out :: "string list"
  cn_budget :: "nat option"
  cn_loads :: nat
  cn_world :: 'w

definition write_all :: "string \<Rightarrow> 'w conn \<Rightarrow> bool \<times> 'w conn" where
  "write_all s c =
     (case cn_budget c of
        None \<Rightarrow> (True, c\<lparr>cn_out := cn_out c @ [s]\<rparr>)
      | Some 0 \<Rightarrow> (False, c)
      | Some (Suc n) \<Rightarrow> (True, c\<lparr>cn_out := cn_out c @ [s], cn_budget := Some n\<rparr>))"

section \<open>Handlers\<close>

definition handle_ehlo :: "'w session_params \<Rightarrow> string \<Rightarrow> session_state \<Rightarrow> string \<times> session_state" where
  "handle_ehlo pa args ss =
     (if args = [] then (crlf ''501 EHLO requires domain argument'', ss)
      else
       (let ss' = reset_transaction (ss\<lparr>ss_ehlo_hostname := args, ss_state := Greeted\<rparr>) in
        (crlf (''250-'' @ pa_hostname pa @ '' Hello '' @ args) @
         crlf (''250-SIZE '' @ show_nat (pa_max_message_size pa)) @
         crlf ''250-8BITMIME'' @
         crlf ''250-PIPELINING'' @
         (if pa_tls pa \<and> \<not> ss_tls_active ss' then crlf ''250-STARTTLS'' else []) @
         crlf ''250 SMTPUTF8'', ss')))"

definition handle_helo :: "'w session_params \<Rightarrow> string \<Rightarrow> session_state \<Rightarrow> string \<times> session_state" where
  "handle_helo pa args ss =
     (if args = [] then (crlf ''501 HELO requires domain argument'', ss)
      else
       (crlf (''250 '' @ pa_hostname pa @ '' Hello '' @ args),
        reset_transaction (ss\<lparr>ss_ehlo_hostname := args, ss_state := Greeted\<rparr>)))"

text \<open>\<open>None\<close> is a panic of the handler, which ends the session's task.\<close>

definition handle_mail_from ::
  "(string \<Rightarrow> string) \<Rightarrow> string \<Rightarrow> session_state \<Rightarrow> (string \<times> session_state) option" where
  "handle_mail_from upper args ss =
     (if ss_state ss = Connected then Some (crlf ''503 Send EHLO/HELO first'', ss)
      else if ss_state ss = MailFrom \<or> ss_state ss = RcptTo
      then Some (crlf ''503 MAIL FROM already given'', ss)
      else if \<not> starts_with (upper args) ''FROM:''
      then Some (crlf ''501 Syntax: MAIL FROM:<address>'', ss)
      else case Option.bind (str_from 5 args) extract_angle_addr of
          None \<Rightarrow> None
        | Some addr \<Rightarrow> Some (crlf ''250 OK'', ss\<lparr>ss_reverse_path := addr, ss_state := MailFrom\<rparr>))"

definition handle_rcpt_to ::
  "(string \<Rightarrow> string) \<Rightarrow> config \<Rightarrow> string \<Rightarrow> session_state \<Rightarrow> (string \<times> session_state) option" where
  "handle_rcpt_to upper cfg args ss =
     (if ss_state ss = Connected \<or> ss_state ss = Greeted
      then Some (crlf ''503 Send MAIL FROM first'', ss)
      else if \<not> starts_with (upper args) ''TO:''
      then Some (crlf ''501 Syntax: RCPT TO:<address>'', ss)
      else case Option.bind (str_from 3 args) extract_angle_addr of
          None \<Rightarrow> None
        | Some addr \<Rightarrow>
            if addr = [] then Some (crlf ''501 Syntax: RCPT TO:<address>'', ss)
            else if \<not> recipient_domain_matches addr (cfg_domain cfg)
            then Some (crlf ''550 5.7.1 relay not permitted'', ss)
            else if resolve_recipient_mailbox cfg addr = None
            then Some (crlf (''550 5.1.1 <'' @ addr @ ''>: Recipient address rejected: User unknown''), ss)
            else Some (crlf ''250 OK'',
              ss\<lparr>ss_forward_paths := ss_forward_paths ss @ [addr], ss_state := RcptTo\<rparr>))"

definition handle_data_precheck :: "session_state \<Rightarrow> string option" where
  "handle_data_precheck ss =
     (if ss_state ss \<noteq> RcptTo then Some (crlf ''503 Send RCPT TO first'') else None)"

definition handle_rset :: "session_state \<Rightarrow> string \<times> session_state" where
  "handle_rset ss = (crlf ''250 OK'', reset_transaction ss)"

section \<open>Delivery\<close>

fun ingest_all ::
  "(string \<Rightarrow> 'w \<Rightarrow> bool \<times> 'w) \<Rightarrow> string list \<Rightarrow> nat \<Rightarrow> nat \<Rightarrow> 'w \<Rightarrow> nat \<times> nat \<times> 'w" where
  "ingest_all ingest [] succeeded failed w = (succeeded, failed, w)"
| "ingest_all ingest (rcpt # rcpts) succeeded failed w =
     (case ingest rcpt w of
        (True, w') \<Rightarrow> ingest_all ingest rcpts (succeeded + 1) failed w'
      | (False, w') \<Rightarrow> ingest_all ingest rcpts succeeded (failed + 1) w')"

definition deliver_message :: "'w session_params \<Rightarrow> bytes \<Rightarrow> 'w conn \<Rightarrow> string \<times> 'w conn" where
  "deliver_message pa body c =
     (let ss = cn_ss c;
          cfg = pa_config pa (cn_loads c);
          envelope = (if ss_reverse_path ss = [] then None else Some (ss_reverse_path ss))
      in case ingest_all (\<lambda>rcpt. pa_ingest pa cfg rcpt body envelope)
                (ss_forward_paths ss) 0 0 (cn_world c) of
           (succeeded, failed, w) \<Rightarrow>
            (let c' = c\<lparr>cn_loads := cn_loads c + 1, cn_world := w\<rparr>;
                 counted = c'\<lparr>cn_ss := ss\<lparr>ss_message_count := ss_message_count ss + 1,
                                         ss_total_bytes := ss_total_bytes ss + length body\<rparr>\<rparr>
             in if failed = 0 \<and> succeeded > 0 then (crlf ''250 OK message accepted'', counted)
                else if succeeded > 0
                then (crlf ''451 4.3.0 Temporary failure on partial accept; please retry'', counted)
                else (crlf ''451 Temporary failure, please retry'', c')))"

datatype receive_result = Reply string | ReceiveErr string | ReceiveCancelled

definition receive_data :: "'w session_params \<Rightarrow> 'w conn \<Rightarrow> receive_result \<times> 'w conn" where
  "receive_data pa c =
     (case data_loop (pa_max_message_size pa) [] (cn_rd c) of
        (DataComplete body, r) \<Rightarrow>
          (case deliver_message pa body (c\<lparr>cn_rd := r\<rparr>) of (resp, c') \<Rightarrow> (Reply resp, c'))
      | (DataReply resp, r) \<Rightarrow> (Reply resp, c\<lparr>cn_rd := r\<rparr>)
      | (DataErr e, r) \<Rightarrow> (ReceiveErr e, c\<lparr>cn_rd := r\<rparr>)
      | (DataCancelled, r) \<Rightarrow> (ReceiveCancelled, c\<lparr>cn_rd := r\<rparr>))"

section \<open>The command loop\<close>

text \<open>A response written: the loop goes on unless the write failed.\<close>

definition respond :: "string \<times> 'w conn \<Rightarrow> loop_exit option \<times> 'w conn" where
  "respond rc =
     (case rc of (resp, c) \<Rightarrow>
       (case write_all resp c of (ok, c') \<Rightarrow> (if ok then None else Some Done, c')))"

text \<open>A last response, whose failure is ignored.\<close>

definition respond_exit :: "string \<Rightarrow> loop_exit \<Rightarrow> 'w conn \<Rightarrow> loop_exit option \<times> 'w conn" where
  "respond_exit resp e c = (Some e, snd (write_all resp c))"

definition respond_ss ::
  "(string \<times> session_state) option \<Rightarrow> 'w conn \<Rightarrow> loop_exit option \<times> 'w conn" where
  "respond_ss r c =
     (case r of
        None \<Rightarrow> (Some Panicked, c)
      | Some (resp, ss) \<Rightarrow> respond (resp, c\<lparr>cn_ss := ss\<rparr>))"

definition run_data :: "'w session_params \<Rightarrow> 'w conn \<Rightarrow> loop_exit option \<times> 'w conn" where
  "run_data pa c =
     (case handle_data_precheck (cn_ss c) of
        Some resp \<Rightarrow> respond (resp, c)
      | None \<Rightarrow>
          (case write_all (crlf ''354 Start mail input; end with <CRLF>.<CRLF>'') c of
             (False, c1) \<Rightarrow> (Some Done, c1)
           | (True, c1) \<Rightarrow>
               (case receive_data pa (c1\<lparr>cn_ss := (cn_ss c1)\<lparr>ss_state := Data\<rparr>\<rparr>) of
                  (Reply resp, c2) \<Rightarrow> respond (resp, c2\<lparr>cn_ss := reset_transaction (cn_ss c2)\<rparr>)
                | (ReceiveErr e, c2) \<Rightarrow> (Some (ExitErr e), c2)
                | (ReceiveCancelled, c2) \<Rightarrow> (Some Cancelled, c2))))"

definition run_command ::
  "'w session_params \<Rightarrow> string \<Rightarrow> string \<Rightarrow> 'w conn \<Rightarrow> loop_exit option \<times> 'w conn" where
  "run_command pa cmd args c =
     (if cmd = ''EHLO'' then respond_ss (Some (handle_ehlo pa args (cn_ss c))) c
      else if cmd = ''HELO'' then respond_ss (Some (handle_helo pa args (cn_ss c))) c
      else if cmd = ''MAIL'' then respond_ss (handle_mail_from (pa_upper pa) args (cn_ss c)) c
      else if cmd = ''RCPT'' then
        respond_ss (handle_rcpt_to (pa_upper pa) (pa_config pa (cn_loads c)) args (cn_ss c))
          (c\<lparr>cn_loads := cn_loads c + 1\<rparr>)
      else if cmd = ''DATA'' then run_data pa c
      else if cmd = ''RSET'' then respond_ss (Some (handle_rset (cn_ss c))) c
      else if cmd = ''NOOP'' then respond (crlf ''250 OK'', c)
      else if cmd = ''QUIT'' then respond_exit (crlf ''221 Bye'') Done c
      else if cmd = ''STARTTLS'' then
        (if \<not> pa_tls pa then respond (crlf ''502 STARTTLS not available'', c)
         else if ss_tls_active (cn_ss c) then respond (crlf ''503 TLS already active'', c)
         else respond_exit (crlf ''220 Ready to start TLS'') StarttlsUpgrade c)
      else respond (crlf ''500 Unrecognized command'', c))"

definition handle_line :: "'w session_params \<Rightarrow> string \<Rightarrow> 'w conn \<Rightarrow> loop_exit option \<times> 'w conn" where
  "handle_line pa raw c =
     (let line = trim_end raw in
      if line = [] then (None, c)
      else
       (let c1 = c\<lparr>cn_ss := (cn_ss c)\<lparr>ss_command_count := ss_command_count (cn_ss c) + 1\<rparr>\<rparr> in
        if ss_state (cn_ss c1) \<noteq> Data \<and> ss_command_count (cn_ss c1) > pa_max_commands pa
        then respond_exit (crlf ''421 Too many commands'') Done c1
        else (case parse_command (pa_upper pa) line of (cmd, args) \<Rightarrow> run_command pa cmd args c1)))"

definition command_step :: "'w session_params \<Rightarrow> 'w conn \<Rightarrow> loop_exit option \<times> 'w conn" where
  "command_step pa c =
     (case bounded_read_line MAX_COMMAND_LINE_LENGTH [] (cn_rd c) of
        (LineTotal, r) \<Rightarrow> respond_exit (crlf ''421 Connection timed out'') Done (c\<lparr>cn_rd := r\<rparr>)
      | (LineIdle, r) \<Rightarrow> respond_exit (crlf ''421 Idle timeout exceeded'') Done (c\<lparr>cn_rd := r\<rparr>)
      | (TooLong, r) \<Rightarrow> respond (crlf ''500 Line too long'', c\<lparr>cn_rd := r\<rparr>)
      | (Eof, r) \<Rightarrow> (Some Done, c\<lparr>cn_rd := r\<rparr>)
      | (LineErr e, r) \<Rightarrow> (Some (ExitErr (''Read error: '' @ e)), c\<lparr>cn_rd := r\<rparr>)
      | (LineOk raw, r) \<Rightarrow> handle_line pa raw (c\<lparr>cn_rd := r\<rparr>))"

end
