(* ===== verification/SmtpLoop.thy ===== *)
theory SmtpLoop
  imports SmtpSession
begin

text \<open>
  The SMTP command loop as a total function: every turn of it that goes on has consumed input,
  so it ends on every stream of events; and the session around it with its upgrade to TLS.
\<close>

section \<open>Every turn consumes input\<close>

lemma drain_data_size: "drain_data limit r = (b, r') \<Longrightarrow> rd_size r' \<le> rd_size r"
proof (induction limit r arbitrary: b rule: drain_data.induct)
  case (1 limit r)
  obtain l r1 where l: "bounded_read_line limit [] r = (l, r1)" by (cases "bounded_read_line limit [] r")
  have less: "rd_size r1 < rd_size r" if "l \<noteq> Eof" using bounded_read_line_size [OF l that] .
  have eof: "rd_size r1 \<le> rd_size r" if "l = Eof"
    using bounded_read_line_eof_size [of limit "[]" r r1] l that by simp
  show ?case
  proof (cases l)
    case (LineOk line)
    show ?thesis
    proof (cases "trim_end line = ''.''")
      case True
      with "1.prems" l LineOk less show ?thesis by (subst (asm) drain_data.simps) simp
    next
      case False
      with "1.prems" l LineOk have rec: "drain_data limit r1 = (b, r')" by (subst (asm) drain_data.simps) simp
      have "rd_size r' \<le> rd_size r1" using "1.IH"(1) [OF l [symmetric] LineOk False rec] .
      with less LineOk show ?thesis by simp
    qed
  next
    case TooLong
    with "1.prems" l have rec: "drain_data limit r1 = (b, r')" by (subst (asm) drain_data.simps) simp
    have "rd_size r' \<le> rd_size r1" using "1.IH"(2) [OF l [symmetric] TooLong rec] .
    with less TooLong show ?thesis by simp
  next
    case (LineErr e)
    with "1.prems" l have rec: "drain_data limit r1 = (b, r')" by (subst (asm) drain_data.simps) simp
    have "rd_size r' \<le> rd_size r1" using "1.IH"(3) [OF l [symmetric] LineErr rec] .
    with less LineErr show ?thesis by simp
  qed (use "1.prems" l less eof in \<open>subst (asm) drain_data.simps, simp\<close>)+
qed

lemma over_size_size: "over_size limit r = (d, r') \<Longrightarrow> rd_size r' \<le> rd_size r"
  by (auto simp: over_size_def dest: drain_data_size split: prod.splits bool.splits)

lemma data_loop_size: "data_loop max_size acc r = (d, r') \<Longrightarrow> rd_size r' \<le> rd_size r"
proof (induction max_size acc r rule: data_loop.induct)
  case (1 max_size acc r)
  obtain l r1 where l: "bounded_read_line (max_size + 1024) [] r = (l, r1)"
    by (cases "bounded_read_line (max_size + 1024) [] r")
  have le: "rd_size r1 \<le> rd_size r"
    using bounded_read_line_size [OF l] bounded_read_line_eof_size [of _ "[]" r r1] l by (cases "l = Eof") auto
  show ?case
  proof (cases l)
    case (LineOk line)
    show ?thesis
    proof (cases "bare_lf line \<or> trim_end line = ''.'' \<or> length (acc @ unstuff line) > max_size")
      case True
      with "1.prems" l LineOk le show ?thesis
        by (subst (asm) data_loop.simps) (auto dest: over_size_size split: if_splits)
    next
      case False
      then have no: "\<not> bare_lf line" "trim_end line \<noteq> ''.''" "\<not> length (acc @ unstuff line) > max_size"
        by simp_all
      with "1.prems" l LineOk have rec: "data_loop max_size (acc @ unstuff line) r1 = (d, r')"
        by (subst (asm) data_loop.simps) simp
      have "rd_size r' \<le> rd_size r1" using "1.IH" [OF l [symmetric] LineOk no rec] .
      with le show ?thesis by simp
    qed
  next
    case TooLong
    with "1.prems" l have "over_size (max_size + 1024) r1 = (d, r')" by (subst (asm) data_loop.simps) simp
    with le show ?thesis by (auto dest: over_size_size)
  qed (use "1.prems" l le in \<open>subst (asm) data_loop.simps, simp\<close>)+
qed

lemma write_all_rd [simp]: "write_all s c = (ok, c') \<Longrightarrow> cn_rd c' = cn_rd c"
  by (auto simp: write_all_def split: option.splits nat.splits)

lemma respond_rd: "respond (s, c) = (e, c') \<Longrightarrow> cn_rd c' = cn_rd c"
  by (auto simp: respond_def split: prod.splits if_splits)

lemma respond_ss_rd: "respond_ss x c = (e, c') \<Longrightarrow> cn_rd c' = cn_rd c"
  by (auto simp: respond_ss_def split: option.splits prod.splits dest: respond_rd)

lemma respond_exit_rd: "respond_exit s x c = (e, c') \<Longrightarrow> cn_rd c' = cn_rd c \<and> e = Some x"
  by (cases "write_all s c") (auto simp: respond_exit_def)

lemma deliver_rd: "deliver_message pa body c = (s, c') \<Longrightarrow> cn_rd c' = cn_rd c"
  by (auto simp: deliver_message_def Let_def split: prod.splits if_splits)

lemma receive_data_size: "receive_data pa c = (x, c') \<Longrightarrow> rd_size (cn_rd c') \<le> rd_size (cn_rd c)"
  by (auto simp: receive_data_def split: prod.splits data_outcome.splits
      dest!: data_loop_size deliver_rd)

lemma run_data_size: "run_data pa c = (e, c') \<Longrightarrow> rd_size (cn_rd c') \<le> rd_size (cn_rd c)"
  by (auto simp: run_data_def split: option.splits prod.splits bool.splits receive_result.splits
      dest!: respond_rd receive_data_size)

lemma run_command_size:
  "run_command pa cmd args c = (e, c') \<Longrightarrow> rd_size (cn_rd c') \<le> rd_size (cn_rd c)"
  by (auto simp: run_command_def split: if_splits
      dest!: respond_ss_rd respond_rd respond_exit_rd run_data_size)

lemma handle_line_size:
  "handle_line pa raw c = (e, c') \<Longrightarrow> rd_size (cn_rd c') \<le> rd_size (cn_rd c)"
  by (auto simp: handle_line_def Let_def split: if_splits prod.splits
      dest!: respond_exit_rd run_command_size)

lemma command_step_consumes:
  assumes "command_step pa c = (None, c')"
  shows "rd_size (cn_rd c') < rd_size (cn_rd c)"
proof -
  obtain l r where l: "bounded_read_line MAX_COMMAND_LINE_LENGTH [] (cn_rd c) = (l, r)"
    by (cases "bounded_read_line MAX_COMMAND_LINE_LENGTH [] (cn_rd c)")
  with assms have "l \<noteq> Eof" by (auto simp: command_step_def)
  then have "rd_size r < rd_size (cn_rd c)" by (rule bounded_read_line_size [OF l])
  with assms l show ?thesis
    by (auto simp: command_step_def split: line_result.splits
        dest!: respond_exit_rd respond_rd handle_line_size)
qed

section \<open>The loop and the session\<close>

function command_loop :: "'w session_params \<Rightarrow> 'w conn \<Rightarrow> loop_exit \<times> 'w conn" where
  "command_loop pa c =
     (case command_step pa c of
        (Some e, c') \<Rightarrow> (e, c')
      | (None, c') \<Rightarrow> command_loop pa c')"
  by pat_completeness auto
termination
  by (relation "measure (\<lambda>(pa, c). rd_size (cn_rd c))")
    (auto dest!: sym [of "(_, _)" "command_step _ _"] command_step_consumes)

declare command_loop.simps [simp del]

definition tls_reset :: "session_state \<Rightarrow> session_state" where
  "tls_reset ss = reset_transaction (ss\<lparr>ss_tls_active := True, ss_state := Connected\<rparr>)"

text \<open>
  \<open>reader.into_inner()\<close> drops what is left of the plaintext buffer; the handshake runs over the
  rest of the socket. A second upgrade request ends the session.
\<close>

definition handle_tls_upgrade :: "'w session_params \<Rightarrow> 'w conn \<Rightarrow> loop_exit \<times> 'w conn" where
  "handle_tls_upgrade pa c =
     (if \<not> pa_tls pa then (Panicked, c)
      else case pa_tls_accept pa (rd_events (cn_rd c)) of
          Inl e \<Rightarrow> (ExitErr (''TLS handshake failed: '' @ e), c)
        | Inr evs \<Rightarrow>
            (case command_loop pa (c\<lparr>cn_ss := tls_reset (cn_ss c), cn_rd := Rd [] evs\<rparr>) of
               (StarttlsUpgrade, c') \<Rightarrow> (Done, c')
             | (e, c') \<Rightarrow> (e, c')))"

definition banner :: "'w session_params \<Rightarrow> string" where
  "banner pa = crlf (''220 '' @ pa_hostname pa @ '' ESMTP aimx'')"

definition run_session :: "'w session_params \<Rightarrow> 'w conn \<Rightarrow> loop_exit \<times> 'w conn" where
  "run_session pa c =
     (case write_all (banner pa) c of
        (False, c1) \<Rightarrow> (ExitErr ''write'', c1)
      | (True, c1) \<Rightarrow>
          (case command_loop pa c1 of
             (StarttlsUpgrade, c2) \<Rightarrow> handle_tls_upgrade pa c2
           | (e, c2) \<Rightarrow> (e, c2)))"

definition new_conn :: "rd_event list \<Rightarrow> nat option \<Rightarrow> 'w \<Rightarrow> 'w conn" where
  "new_conn evs budget w =
     \<lparr>cn_ss = new_session_state, cn_rd = Rd [] evs, cn_out = [], cn_budget = budget,
      cn_loads = 0, cn_world = w\<rparr>"

end
