(* ===== verification/SmtpFacts.thy ===== *)
theory SmtpFacts
  imports SmtpLoop
begin

text \<open>
  Properties of the SMTP session: what its state means between commands, on every reachable
  connection; that mail is ingested only for accepted recipients and under the size cap; that
  the reply to a message tells whether every recipient has it; and what the end of a DATA
  section leaves behind.
\<close>

section \<open>The invariant of the session's state\<close>

text \<open>A recipient some configuration snapshot of the session accepted.\<close>

definition rcpt_accepted :: "'w session_params \<Rightarrow> string \<Rightarrow> bool" where
  "rcpt_accepted pa addr \<longleftrightarrow>
     addr \<noteq> [] \<and>
     (\<exists>n. recipient_domain_matches addr (cfg_domain (pa_config pa n)) \<and>
          resolve_recipient_mailbox (pa_config pa n) addr \<noteq> None)"

definition ss_ok :: "'w session_params \<Rightarrow> session_state \<Rightarrow> bool" where
  "ss_ok pa ss \<longleftrightarrow>
     list_all (rcpt_accepted pa) (ss_forward_paths ss) \<and>
     (ss_state ss \<in> {Connected, Greeted} \<longrightarrow> ss_reverse_path ss = []) \<and>
     (ss_state ss \<in> {Connected, Greeted, MailFrom} \<longrightarrow> ss_forward_paths ss = []) \<and>
     (ss_state ss \<in> {RcptTo, Data} \<longrightarrow> ss_forward_paths ss \<noteq> [])"

definition conn_ok :: "'w session_params \<Rightarrow> 'w conn \<Rightarrow> bool" where
  "conn_ok pa c \<longleftrightarrow> ss_ok pa (cn_ss c) \<and> ss_state (cn_ss c) \<noteq> Data"

lemma reset_ok: "ss_ok pa (reset_transaction ss)" "ss_state (reset_transaction ss) \<noteq> Data"
  by (simp_all add: ss_ok_def reset_transaction_def)

lemma ehlo_ok: "ss_ok pa ss \<Longrightarrow> ss_state ss \<noteq> Data \<Longrightarrow> handle_ehlo pa args ss = (s, ss') \<Longrightarrow>
   ss_ok pa ss' \<and> ss_state ss' \<noteq> Data"
  by (auto simp: handle_ehlo_def Let_def reset_ok split: if_splits)

lemma helo_ok: "ss_ok pa ss \<Longrightarrow> ss_state ss \<noteq> Data \<Longrightarrow> handle_helo pa args ss = (s, ss') \<Longrightarrow>
   ss_ok pa ss' \<and> ss_state ss' \<noteq> Data"
  by (auto simp: handle_helo_def reset_ok split: if_splits)

lemma mail_ok: "ss_ok pa ss \<Longrightarrow> ss_state ss \<noteq> Data \<Longrightarrow> handle_mail_from u args ss = Some (s, ss') \<Longrightarrow>
   ss_ok pa ss' \<and> ss_state ss' \<noteq> Data"
  by (cases "ss_state ss") (auto simp: handle_mail_from_def ss_ok_def split: if_splits option.splits)

lemma rcpt_acceptedI:
  "addr \<noteq> [] \<Longrightarrow> recipient_domain_matches addr (cfg_domain (pa_config pa n)) \<Longrightarrow>
   resolve_recipient_mailbox (pa_config pa n) addr = Some m \<Longrightarrow> rcpt_accepted pa addr"
  by (auto simp: rcpt_accepted_def)

lemma rcpt_ok: "ss_ok pa ss \<Longrightarrow> ss_state ss \<noteq> Data \<Longrightarrow>
   handle_rcpt_to u (pa_config pa n) args ss = Some (s, ss') \<Longrightarrow>
   ss_ok pa ss' \<and> ss_state ss' \<noteq> Data"
  by (auto simp: handle_rcpt_to_def ss_ok_def intro: rcpt_acceptedI split: if_splits option.splits)

lemma write_all_ss: "write_all s c = (ok, c') \<Longrightarrow> cn_ss c' = cn_ss c \<and> cn_world c' = cn_world c"
  by (auto simp: write_all_def split: option.splits nat.splits)

lemma respond_ok: "respond (s, c) = (e, c') \<Longrightarrow> cn_ss c' = cn_ss c \<and> cn_world c' = cn_world c"
  by (auto simp: respond_def split: prod.splits dest: write_all_ss)

lemma respond_exit_ok:
  "respond_exit s x c = (e, c') \<Longrightarrow> e = Some x \<and> cn_ss c' = cn_ss c \<and> cn_world c' = cn_world c"
  using write_all_ss [of s c "fst (write_all s c)" "snd (write_all s c)"]
  by (auto simp: respond_exit_def)

lemma respond_ss_ok:
  assumes "respond_ss x c = (e, c')" "conn_ok pa c"
    and "\<And>s ss. x = Some (s, ss) \<Longrightarrow> ss_ok pa ss \<and> ss_state ss \<noteq> Data"
  shows "conn_ok pa c' \<and> cn_world c' = cn_world c"
  using assms by (auto simp: respond_ss_def conn_ok_def split: option.splits prod.splits dest: respond_ok)

section \<open>What one turn does to the state and the world\<close>

text \<open>
  A property of the world that ingesting a message of at most the cap for an accepted
  recipient keeps.
\<close>

definition ingest_keeps :: "'w session_params \<Rightarrow> ('w \<Rightarrow> bool) \<Rightarrow> bool" where
  "ingest_keeps pa P \<longleftrightarrow>
     (\<forall>cfg rcpt body env w. rcpt_accepted pa rcpt \<longrightarrow> length body \<le> pa_max_message_size pa \<longrightarrow>
        P w \<longrightarrow> P (snd (pa_ingest pa cfg rcpt body env w)))"

lemma over_size_not_complete: "over_size l r \<noteq> (DataComplete d, r')"
  by (auto simp: over_size_def split: prod.splits bool.splits)

lemma data_loop_bound:
  "data_loop max_size acc r = (DataComplete d, r') \<Longrightarrow> length acc \<le> max_size \<Longrightarrow> length d \<le> max_size"
proof (induction max_size acc r rule: data_loop.induct)
  case (1 max_size acc r)
  obtain l r1 where l: "bounded_read_line (max_size + 1024) [] r = (l, r1)"
    by (cases "bounded_read_line (max_size + 1024) [] r")
  show ?case
  proof (cases l)
    case (LineOk line)
    show ?thesis
    proof (cases "bare_lf line \<or> trim_end line = ''.'' \<or> length (acc @ unstuff line) > max_size")
      case True
      with "1.prems" l LineOk show ?thesis
        by (subst (asm) data_loop.simps) (auto simp: over_size_not_complete split: if_splits)
    next
      case False
      then have no: "\<not> bare_lf line" "trim_end line \<noteq> ''.''" "\<not> length (acc @ unstuff line) > max_size"
        by simp_all
      with "1.prems" l LineOk have rec: "data_loop max_size (acc @ unstuff line) r1 = (DataComplete d, r')"
        by (subst (asm) data_loop.simps) simp
      show ?thesis using "1.IH" [OF l [symmetric] LineOk no rec] no(3) by simp
    qed
  qed (use "1.prems" l in \<open>subst (asm) data_loop.simps, simp add: over_size_not_complete\<close>)+
qed

lemma ingest_all_keeps:
  assumes "\<And>rcpt w. rcpt \<in> set rcpts \<Longrightarrow> P w \<Longrightarrow> P (snd (ingest rcpt w))" "P w"
    "ingest_all ingest rcpts s f w = (s', f', w')"
  shows "P w'"
  using assms
proof (induction rcpts arbitrary: s f w)
  case (Cons rcpt rcpts)
  obtain b w1 where b: "ingest rcpt w = (b, w1)" by fastforce
  with Cons.prems(1,2) have "P w1" by (metis list.set_intros(1) snd_conv)
  moreover from b Cons.prems(3) obtain s1 f1 where "ingest_all ingest rcpts s1 f1 w1 = (s', f', w')"
    by (cases b) auto
  ultimately show ?case using Cons.IH Cons.prems(1) by (metis list.set_intros(2))
qed simp

lemma receive_data_keeps:
  assumes "receive_data pa c = (x, c')" "ss_ok pa (cn_ss c)" "ingest_keeps pa P" "P (cn_world c)"
  shows "P (cn_world c')"
proof (cases "data_loop (pa_max_message_size pa) [] (cn_rd c)")
  case (Pair d r)
  show ?thesis
  proof (cases d)
    case (DataComplete body)
    have len: "length body \<le> pa_max_message_size pa"
      using data_loop_bound [of _ "[]"] Pair DataComplete by simp
    let ?cfg = "pa_config pa (cn_loads c)"
    let ?env = "if ss_reverse_path (cn_ss c) = [] then None else Some (ss_reverse_path (cn_ss c))"
    obtain s f w where all: "ingest_all (\<lambda>rcpt. pa_ingest pa ?cfg rcpt body ?env)
        (ss_forward_paths (cn_ss c)) 0 0 (cn_world c) = (s, f, w)"
      by (metis prod_cases3)
    have "P w"
    proof (rule ingest_all_keeps [where P = P, OF _ assms(4) all])
      fix rcpt w1 assume "rcpt \<in> set (ss_forward_paths (cn_ss c))" "P w1"
      with assms(2,3) len show "P (snd (pa_ingest pa ?cfg rcpt body ?env w1))"
        by (auto simp: ss_ok_def list_all_iff ingest_keeps_def)
    qed
    with assms(1) Pair DataComplete all show ?thesis
      by (auto simp: receive_data_def deliver_message_def Let_def split: if_splits prod.splits)
  qed (use assms Pair in \<open>auto simp: receive_data_def\<close>)
qed

lemma run_data_ok:
  assumes run: "run_data pa c = (e, c')" and ok: "conn_ok pa c" and P: "ingest_keeps pa P" "P (cn_world c)"
  shows "P (cn_world c') \<and> (e \<in> {None, Some StarttlsUpgrade} \<longrightarrow> conn_ok pa c')"
proof (cases "handle_data_precheck (cn_ss c)")
  case (Some resp)
  with run P ok show ?thesis by (auto simp: run_data_def conn_ok_def dest: respond_ok)
next
  case None
  then have st: "ss_state (cn_ss c) = RcptTo" by (auto simp: handle_data_precheck_def split: if_splits)
  obtain b c1 where w: "write_all (crlf ''354 Start mail input; end with <CRLF>.<CRLF>'') c = (b, c1)"
    by fastforce
  then have c1: "cn_ss c1 = cn_ss c" "cn_world c1 = cn_world c" by (auto dest: write_all_ss)
  show ?thesis
  proof (cases b)
    case False
    with run None w c1 P show ?thesis by (auto simp: run_data_def)
  next
    case True
    let ?c = "c1\<lparr>cn_ss := (cn_ss c1)\<lparr>ss_state := Data\<rparr>\<rparr>"
    obtain x c2 where rec: "receive_data pa ?c = (x, c2)" by fastforce
    have "ss_ok pa (cn_ss ?c)" using ok st c1 by (simp add: conn_ok_def ss_ok_def)
    from receive_data_keeps [OF rec this P(1)] P(2) c1 have "P (cn_world c2)" by simp
    with run None w True rec show ?thesis
      by (cases x) (auto simp: run_data_def conn_ok_def reset_ok dest: respond_ok)
  qed
qed

text \<open>The outcome of a turn: the world keeps \<open>P\<close>, and the state its meaning if the loop goes on.\<close>

definition turn_ok ::
  "'w session_params \<Rightarrow> ('w \<Rightarrow> bool) \<Rightarrow> loop_exit option \<times> 'w conn \<Rightarrow> bool" where
  "turn_ok pa P ec \<longleftrightarrow>
     P (cn_world (snd ec)) \<and> (fst ec \<in> {None, Some StarttlsUpgrade} \<longrightarrow> conn_ok pa (snd ec))"

lemma turn_respond: "conn_ok pa c \<Longrightarrow> P (cn_world c) \<Longrightarrow> turn_ok pa P (respond (s, c))"
  by (cases "respond (s, c)") (auto simp: turn_ok_def conn_ok_def dest: respond_ok)

lemma turn_respond_exit: "conn_ok pa c \<Longrightarrow> P (cn_world c) \<Longrightarrow> turn_ok pa P (respond_exit s x c)"
  by (cases "respond_exit s x c") (auto simp: turn_ok_def conn_ok_def dest: respond_exit_ok)

lemma turn_respond_ss:
  assumes "conn_ok pa c" "P (cn_world c)"
    and "\<And>s ss. x = Some (s, ss) \<Longrightarrow> ss_ok pa ss \<and> ss_state ss \<noteq> Data"
  shows "turn_ok pa P (respond_ss x c)"
proof (cases "respond_ss x c")
  case (Pair e c')
  with respond_ss_ok [OF Pair assms(1,3)] assms(2) show ?thesis by (simp add: turn_ok_def)
qed

lemma run_command_ok:
  assumes ok: "conn_ok pa c" and P: "ingest_keeps pa P" "P (cn_world c)"
  shows "turn_ok pa P (run_command pa cmd args c)"
proof -
  have ss: "ss_ok pa (cn_ss c)" "ss_state (cn_ss c) \<noteq> Data" using ok by (simp_all add: conn_ok_def)
  have ehlo: "turn_ok pa P (respond_ss (Some (handle_ehlo pa args (cn_ss c))) c)"
    using ok P(2) by (rule turn_respond_ss) (use ss in \<open>auto dest: ehlo_ok\<close>)
  have helo: "turn_ok pa P (respond_ss (Some (handle_helo pa args (cn_ss c))) c)"
    using ok P(2) by (rule turn_respond_ss) (use ss in \<open>auto dest: helo_ok\<close>)
  have mail: "turn_ok pa P (respond_ss (handle_mail_from (pa_upper pa) args (cn_ss c)) c)"
    using ok P(2) by (rule turn_respond_ss) (use ss in \<open>auto dest: mail_ok\<close>)
  have rcpt: "turn_ok pa P (respond_ss (handle_rcpt_to (pa_upper pa) (pa_config pa (cn_loads c)) args
      (cn_ss c)) (c\<lparr>cn_loads := cn_loads c + 1\<rparr>))"
    by (rule turn_respond_ss) (use ok P(2) ss in \<open>auto simp: conn_ok_def dest: rcpt_ok\<close>)
  have rset: "turn_ok pa P (respond_ss (Some (handle_rset (cn_ss c))) c)"
    using ok P(2) by (rule turn_respond_ss) (auto simp: handle_rset_def reset_ok)
  have dat: "turn_ok pa P (run_data pa c)"
    using run_data_ok [OF _ ok P] by (cases "run_data pa c") (auto simp: turn_ok_def)
  show ?thesis
    unfolding run_command_def
    using ehlo helo mail rcpt rset dat turn_respond [of pa c P] turn_respond_exit [of pa c P] ok P(2)
    by simp
qed

lemma handle_line_ok:
  assumes ok: "conn_ok pa c" and P: "ingest_keeps pa P" "P (cn_world c)"
  shows "turn_ok pa P (handle_line pa raw c)"
proof (cases "trim_end raw = []")
  case True
  with ok P show ?thesis by (simp add: handle_line_def turn_ok_def)
next
  case False
  let ?c = "c\<lparr>cn_ss := (cn_ss c)\<lparr>ss_command_count := ss_command_count (cn_ss c) + 1\<rparr>\<rparr>"
  have ok1: "conn_ok pa ?c" "P (cn_world ?c)" using ok P(2) by (simp_all add: conn_ok_def ss_ok_def)
  obtain cmd args where "parse_command (pa_upper pa) (trim_end raw) = (cmd, args)" by fastforce
  with False run_command_ok [OF ok1(1) P(1) ok1(2)] turn_respond_exit [of pa ?c P, OF ok1]
  show ?thesis by (simp add: handle_line_def Let_def)
qed

lemma command_step_ok:
  assumes ok: "conn_ok pa c" and P: "ingest_keeps pa P" "P (cn_world c)"
  shows "turn_ok pa P (command_step pa c)"
proof -
  obtain l r where l: "bounded_read_line MAX_COMMAND_LINE_LENGTH [] (cn_rd c) = (l, r)" by fastforce
  let ?c = "c\<lparr>cn_rd := r\<rparr>"
  have ok1: "conn_ok pa ?c" "P (cn_world ?c)" using ok P(2) by (simp_all add: conn_ok_def)
  show ?thesis
    using handle_line_ok [OF ok1(1) P(1) ok1(2)] turn_respond_exit [of pa ?c P, OF ok1]
      turn_respond [of pa ?c P, OF ok1] P(2)
    by (cases l) (simp_all add: command_step_def l turn_ok_def)
qed

section \<open>Reachable connections\<close>

text \<open>The connections a session can be in between two turns of a loop, TLS upgrade included.\<close>

inductive session_reach :: "'w session_params \<Rightarrow> 'w conn \<Rightarrow> 'w conn \<Rightarrow> bool"
  for pa c0 where
  start: "session_reach pa c0 c0"
| turn: "session_reach pa c0 c \<Longrightarrow> command_step pa c = (None, c') \<Longrightarrow> session_reach pa c0 c'"
| upgrade: "session_reach pa c0 c \<Longrightarrow> command_step pa c = (Some StarttlsUpgrade, c') \<Longrightarrow>
    pa_tls_accept pa (rd_events (cn_rd c')) = Inr evs \<Longrightarrow>
    session_reach pa c0 (c'\<lparr>cn_ss := tls_reset (cn_ss c'), cn_rd := Rd [] evs\<rparr>)"

inductive_cases session_reachE: "session_reach pa c0 c"

lemma new_conn_ok: "conn_ok pa (new_conn evs budget w)"
  by (simp add: conn_ok_def new_conn_def ss_ok_def new_session_state_def)

lemma session_reach_ok:
  assumes "session_reach pa c0 c" "conn_ok pa c0" "ingest_keeps pa P" "P (cn_world c0)"
  shows "conn_ok pa c \<and> P (cn_world c)"
  using assms
proof (induction rule: session_reach.induct)
  case (turn c c')
  then show ?case using command_step_ok [of pa c P] by (simp add: turn_ok_def)
next
  case (upgrade c c' evs)
  then show ?case
    using command_step_ok [of pa c P]
    by (auto simp: turn_ok_def conn_ok_def tls_reset_def reset_ok)
qed simp


text \<open>A server for \<open>d.io\<close> with the mailbox \<open>alice\<close>, whose world is the list of ingested mail.\<close>

definition demo_params :: "(string \<times> bytes) list session_params" where
  "demo_params =
     \<lparr>pa_config = (\<lambda>_. demo_config []), pa_tls = True, pa_hostname = ''d.io'',
      pa_max_message_size = 1000, pa_max_commands = 50, pa_upper = map to_ascii_upper,
      pa_ingest = (\<lambda>cfg rcpt body env w. (True, w @ [(rcpt, body)])),
      pa_tls_accept = Inr\<rparr>"


section \<open>Whole sessions\<close>

lemma command_loop_ok:
  "conn_ok pa c \<Longrightarrow> ingest_keeps pa P \<Longrightarrow> P (cn_world c) \<Longrightarrow> command_loop pa c = (e, c') \<Longrightarrow>
   P (cn_world c') \<and> (e = StarttlsUpgrade \<longrightarrow> conn_ok pa c')"
proof (induction pa c rule: command_loop.induct)
  case (1 pa c)
  obtain x c1 where step: "command_step pa c = (x, c1)" by fastforce
  have turn: "P (cn_world c1)" "x \<in> {None, Some StarttlsUpgrade} \<Longrightarrow> conn_ok pa c1"
    using command_step_ok [OF "1.prems"(1-3)] step by (auto simp: turn_ok_def)
  show ?case
  proof (cases x)
    case None
    with "1.prems"(4) step have "command_loop pa c1 = (e, c')" by (subst (asm) command_loop.simps) simp
    with "1.IH" [OF step [symmetric] None] turn None "1.prems"(2) show ?thesis by simp
  next
    case (Some y)
    with "1.prems"(4) step turn show ?thesis by (subst (asm) command_loop.simps) auto
  qed
qed

text \<open>
  C2: in a whole session, whatever the client sends and whenever the configuration is swapped,
  mail is ingested only for recipients that a snapshot accepted at RCPT time and only with a
  body of at most the size cap: every property of the world that such ingests keep holds at the
  end (there is no open relay).
\<close>

theorem session_ingests_only_accepted:
  assumes "ingest_keeps pa P" "P w"
  shows "P (cn_world (snd (run_session pa (new_conn evs budget w))))"
proof -
  obtain b c1 where w: "write_all (banner pa) (new_conn evs budget w) = (b, c1)" by fastforce
  then have c1: "conn_ok pa c1" "P (cn_world c1)"
    using new_conn_ok [of pa evs budget w] assms(2) write_all_ss [OF w]
    by (simp_all add: conn_ok_def new_conn_def)
  obtain e c2 where l: "command_loop pa c1 = (e, c2)" by fastforce
  have c2: "P (cn_world c2)" "e = StarttlsUpgrade \<Longrightarrow> conn_ok pa c2"
    using command_loop_ok [OF c1(1) assms(1) c1(2) l] by simp_all
  have up: "P (cn_world (snd (handle_tls_upgrade pa c2)))" if "e = StarttlsUpgrade"
  proof (cases "pa_tls_accept pa (rd_events (cn_rd c2))")
    case (Inr evs')
    let ?c = "c2\<lparr>cn_ss := tls_reset (cn_ss c2), cn_rd := Rd [] evs'\<rparr>"
    obtain e3 c3 where l3: "command_loop pa ?c = (e3, c3)" by fastforce
    have "conn_ok pa ?c" by (simp add: conn_ok_def tls_reset_def reset_ok)
    from command_loop_ok [OF this assms(1) _ l3] c2 have "P (cn_world c3)" by simp
    with Inr l3 c2 show ?thesis by (cases e3) (auto simp: handle_tls_upgrade_def)
  qed (use c2 in \<open>auto simp: handle_tls_upgrade_def\<close>)
  show ?thesis
    using w l c1 c2 up by (cases b; cases e) (auto simp: run_session_def)
qed

theorem session_ingests_only_accepted_witness:
  "list_all (\<lambda>(rcpt, body). rcpt_accepted demo_params rcpt \<and> length body \<le> 1000)
     (cn_world (snd (run_session demo_params (new_conn [Chunk (crlf ''QUIT'')] None []))))"
  by (rule session_ingests_only_accepted) (auto simp: ingest_keeps_def demo_params_def rcpt_accepted_def)

section \<open>The reply to a message\<close>

text \<open>Which of the recipients' ingests succeed, each in the world the ones before it left.\<close>

fun ingest_results :: "(string \<Rightarrow> 'w \<Rightarrow> bool \<times> 'w) \<Rightarrow> string list \<Rightarrow> 'w \<Rightarrow> bool list" where
  "ingest_results ingest [] w = []"
| "ingest_results ingest (rcpt # rcpts) w =
     fst (ingest rcpt w) # ingest_results ingest rcpts (snd (ingest rcpt w))"

lemma ingest_all_counts:
  "ingest_all ingest rcpts s f w = (s', f', w') \<Longrightarrow>
     s' = s + length (filter id (ingest_results ingest rcpts w)) \<and>
     f' = f + length (filter Not (ingest_results ingest rcpts w))"
proof (induction rcpts arbitrary: s f w)
  case (Cons rcpt rcpts)
  obtain b w1 where b: "ingest rcpt w = (b, w1)" by fastforce
  show ?case
  proof (cases b)
    case True
    with b Cons.prems have "ingest_all ingest rcpts (s + 1) f w1 = (s', f', w')" by simp
    from Cons.IH [OF this] b True show ?thesis by simp
  next
    case False
    with b Cons.prems have "ingest_all ingest rcpts s (f + 1) w1 = (s', f', w')" by simp
    from Cons.IH [OF this] b False show ?thesis by simp
  qed
qed simp

lemma no_false: "filter Not bs = [] \<longleftrightarrow> list_all id bs"
  by (induction bs) auto

text \<open>
  the client is told \<open>250\<close> for a message exactly when every one of its recipients
  has been ingested, and to retry otherwise; a message no recipient got leaves the session's
  counters as they were.
\<close>

theorem reply_tells_delivery:
  assumes "ss_forward_paths (cn_ss c) \<noteq> []"
  shows "let results = ingest_results (\<lambda>rcpt. pa_ingest pa (pa_config pa (cn_loads c)) rcpt body
             (if ss_reverse_path (cn_ss c) = [] then None else Some (ss_reverse_path (cn_ss c))))
           (ss_forward_paths (cn_ss c)) (cn_world c);
         (resp, c') = deliver_message pa body c
     in resp = (if list_all id results then crlf ''250 OK message accepted''
                else if list_ex id results
                then crlf ''451 4.3.0 Temporary failure on partial accept; please retry''
                else crlf ''451 Temporary failure, please retry'') \<and>
        cn_ss c' = (if list_ex id results
          then (cn_ss c)\<lparr>ss_message_count := ss_message_count (cn_ss c) + 1,
                         ss_total_bytes := ss_total_bytes (cn_ss c) + length body\<rparr>
          else cn_ss c)"
proof -
  let ?env = "if ss_reverse_path (cn_ss c) = [] then None else Some (ss_reverse_path (cn_ss c))"
  let ?ing = "\<lambda>rcpt. pa_ingest pa (pa_config pa (cn_loads c)) rcpt body ?env"
  let ?res = "ingest_results ?ing (ss_forward_paths (cn_ss c)) (cn_world c)"
  obtain s f w where all: "ingest_all ?ing (ss_forward_paths (cn_ss c)) 0 0 (cn_world c) = (s, f, w)"
    by (metis prod_cases3)
  from ingest_all_counts [OF this] have s: "s = length (filter id ?res)" and f: "f = length (filter Not ?res)"
    by simp_all
  have "?res \<noteq> []" using assms by (cases "ss_forward_paths (cn_ss c)") auto
  then have "list_all id ?res \<Longrightarrow> list_ex id ?res" by (cases ?res) auto
  moreover have "f = 0 \<longleftrightarrow> list_all id ?res" using f no_false [of ?res] by (metis length_0_conv)
  moreover have "0 < s \<longleftrightarrow> list_ex id ?res" using s by (auto simp: list_ex_iff filter_empty_conv)
  ultimately show ?thesis
    by (auto simp: deliver_message_def Let_def all)
qed

definition demo_conn :: "(string \<times> bytes) list conn" where
  "demo_conn = (new_conn [] None [])\<lparr>cn_ss := new_session_state\<lparr>ss_state := Data,
     ss_forward_paths := [''alice@d.io'']\<rparr>\<rparr>"

theorem reply_tells_delivery_witness:
  "fst (deliver_message demo_params ''hi'' demo_conn) = crlf ''250 OK message accepted''"
proof -
  have "ss_forward_paths (cn_ss demo_conn) \<noteq> []" by (simp add: demo_conn_def)
  from reply_tells_delivery [OF this, of demo_params "''hi''"] show ?thesis
    by (simp add: demo_params_def demo_conn_def new_conn_def new_session_state_def split_beta)
qed

end
