(* ===== verification/SmtpData.thy ===== *)
theory SmtpData
  imports SmtpFacts
begin

text \<open>
  The DATA section end to end: dot-stuffed lines come back as they were, however the network
  cuts the stream into chunks; and what a rejected message leaves for the command loop.
\<close>

section \<open>Reading a line across chunks\<close>

definition all_chunks :: "rd_event list \<Rightarrow> bool" where
  "all_chunks evs \<longleftrightarrow> list_all (\<lambda>ev. case ev of Chunk bs \<Rightarrow> bs \<noteq> [] | _ \<Rightarrow> False) evs"

fun chunk_bytes :: "rd_event \<Rightarrow> bytes" where
  "chunk_bytes (Chunk bs) = bs"
| "chunk_bytes _ = []"

definition rd_bytes :: "rd \<Rightarrow> bytes" where
  "rd_bytes r = rd_buf r @ concat (map chunk_bytes (rd_events r))"

lemma fill_buf_chunks:
  assumes "all_chunks (rd_events r)" "rd_bytes r \<noteq> []"
  shows "\<exists>b r'. fill_buf r = (FillData b, r') \<and> rd_buf r' = b \<and> rd_bytes r' = rd_bytes r \<and>
    all_chunks (rd_events r')"
  using assms
  by (cases r rule: fill_buf.cases) (auto simp: all_chunks_def rd_bytes_def)

lemma rd_bytes_consume:
  "n \<le> length (rd_buf r) \<Longrightarrow> rd_bytes (consume n r) = drop n (rd_bytes r) \<and>
    rd_events (consume n r) = rd_events r"
  by (simp add: rd_bytes_def consume_def)

lemma is_ascii_lossy: "is_ascii s \<Longrightarrow> utf8_lossy s = s"
  by (simp add: utf8_lossy_valid valid_utf8_is_ascii)

lemma is_ascii_append [simp]: "is_ascii (a @ b) \<longleftrightarrow> is_ascii a \<and> is_ascii b"
  by (simp add: is_ascii_def)

lemma is_ascii_LF: "is_ascii [LF]" "is_ascii_char LF" "is_ascii_char CR"
  by (simp_all add: is_ascii_def is_ascii_char_def LF_def CR_def code_def)

lemma bounded_read_line_ascii:
  assumes "all_chunks (rd_events r)" "rd_bytes r = l @ LF # rest" "LF \<notin> set l" "is_ascii l"
    "length buf + length l < max_len"
  shows "\<exists>r'. bounded_read_line max_len buf r = (LineOk (buf @ l @ [LF]), r') \<and>
    all_chunks (rd_events r') \<and> rd_bytes r' = rest"
  using assms
proof (induction max_len buf r arbitrary: l rule: bounded_read_line.induct)
  case (1 max_len buf r)
  have "rd_bytes r \<noteq> []" using "1.prems"(2) by simp
  from fill_buf_chunks [OF "1.prems"(1) this] obtain b r1 where fill: "fill_buf r = (FillData b, r1)"
    and b: "rd_buf r1 = b" and same: "rd_bytes r1 = l @ LF # rest" and ch: "all_chunks (rd_events r1)"
    using "1.prems"(2) by auto
  have split: "b @ concat (map chunk_bytes (rd_events r1)) = l @ LF # rest"
    using b same by (simp add: rd_bytes_def)
  show ?case
  proof (cases "LF \<in> set b")
    case True
    then obtain b1 b2 where bb: "b = b1 @ LF # b2" "LF \<notin> set b1" by (meson split_list_first)
    with split have "b1 @ LF # (b2 @ concat (map chunk_bytes (rd_events r1))) = l @ LF # rest" by simp
    from append_sep_inj [OF bb(2) "1.prems"(3) this] have l: "b1 = l" by simp
    have pos: "find_char LF b = Some (length l)" using bb l by (simp add: find_char_def takeWhile_upto)
    have "rd_bytes (consume (length l + 1) r1) = rest"
      using rd_bytes_consume [of "length l + 1" r1] b bb l same by simp
    moreover have "utf8_lossy (take (length l + 1) b) = l @ [LF]"
      using bb l "1.prems"(4) is_ascii_LF by (simp add: is_ascii_lossy)
    ultimately show ?thesis
      using fill pos "1.prems"(5) ch b
      by (subst bounded_read_line.simps) (simp add: consume_def)
  next
    case False
    then obtain l2 where l2: "l = b @ l2"
    proof -
      have "length b \<le> length l"
      proof (rule ccontr)
        assume "\<not> length b \<le> length l"
        then have "(b @ concat (map chunk_bytes (rd_events r1))) ! length l = b ! length l"
          "length l < length b" by (simp_all add: nth_append)
        with split have "b ! length l = LF" by simp
        with \<open>length l < length b\<close> False show False by (metis nth_mem)
      qed
      with split have "l = b @ drop (length b) l"
        by (metis append_eq_append_conv_if append_take_drop_id)
      then show ?thesis using that by blast
    qed
    have none: "find_char LF b = None" using False by (simp add: find_char_def)
    have lossy: "utf8_lossy b = b" using "1.prems"(4) l2 by (simp add: is_ascii_lossy)
    have fits: "\<not> length buf + length b > max_len" using "1.prems"(5) l2 by simp
    let ?r = "consume (length b) r1"
    have bytes: "rd_bytes ?r = l2 @ LF # rest" "all_chunks (rd_events ?r)"
      using rd_bytes_consume [of "length b" r1] b same l2 ch by simp_all
    have "\<exists>r'. bounded_read_line max_len (buf @ utf8_lossy b) ?r = (LineOk ((buf @ utf8_lossy b) @ l2 @ [LF]), r') \<and>
        all_chunks (rd_events r') \<and> rd_bytes r' = rest"
      using "1.prems"(3-5) l2 lossy
      by (intro "1.IH" [OF fill [symmetric] refl none fits bytes(2) bytes(1)]) simp_all
    moreover have "bounded_read_line max_len buf r = bounded_read_line max_len (buf @ utf8_lossy b) ?r"
      using fill none fits by (subst bounded_read_line.simps) simp
    ultimately show ?thesis using lossy l2 by simp
  qed
qed

section \<open>Dot stuffing\<close>

text \<open>What a client sends for a message: each line stuffed, then the final dot.\<close>

definition stuff :: "string \<Rightarrow> bytes" where
  "stuff l = (if starts_with l ''.'' then ''.'' @ l else l)"

definition stuffed_message :: "string list \<Rightarrow> bytes" where
  "stuffed_message ls = concat (map (\<lambda>l. crlf (stuff l)) ls) @ crlf ''.''"

lemma trim_end_dot_crlf: "trim_end (crlf ''.'') = ''.''"
proof -
  have "plain_byte CHR ''.''" by (simp add: plain_byte_def code_def)
  then have "trim_end ([] @ ''.'') = [] @ ''.''" by (rule trim_end_plain)
  then show ?thesis
    using trim_end_blank [of LF "''.'' @ [CR]"] trim_end_blank [of CR "''.''"] by (simp add: crlf_def)
qed

lemma plain_dot: "plain_byte CHR ''.''"
  by (simp add: plain_byte_def code_def)

lemma stuff_not_dot: "trim_end (crlf (stuff l)) \<noteq> ''.''"
proof
  assume dot: "trim_end (crlf (stuff l)) = ''.''"
  obtain t where t: "crlf (stuff l) = ''.'' @ t" using trim_end_prefix [of "crlf (stuff l)"] dot by auto
  show False
  proof (cases "starts_with l ''.''")
    case True
    then obtain m where l: "l = CHR ''.'' # m" by (cases l) auto
    from trim_end_keeps_plain [OF plain_dot, of "''.''" "m @ [CR, LF]"] dot True l show False
      by (auto simp: stuff_def crlf_def)
  next
    case False
    with t show False by (cases l) (auto simp: stuff_def crlf_def CR_def)
  qed
qed

lemma unstuff_stuff: "unstuff (crlf (stuff l)) = crlf l"
proof (cases "starts_with l ''.''")
  case True
  then obtain m where "l = CHR ''.'' # m" by (cases l) auto
  then show ?thesis by (simp add: unstuff_def stuff_def crlf_def)
next
  case False
  then have "\<not> starts_with (crlf l) ''..''" by (cases l) (auto simp: crlf_def CR_def)
  with False show ?thesis by (simp add: unstuff_def stuff_def)
qed

lemma crlf_not_bare: "\<not> bare_lf (crlf s)"
  by (simp add: bare_lf_def ends_with_def crlf_def)

definition message_line_ok :: "string \<Rightarrow> bool" where
  "message_line_ok l \<longleftrightarrow> is_ascii l \<and> LF \<notin> set l"

definition message_bytes :: "string list \<Rightarrow> bytes" where
  "message_bytes ls = concat (map crlf ls)"

lemma read_crlf_line:
  assumes "all_chunks (rd_events r)" "rd_bytes r = crlf s @ rest" "LF \<notin> set s" "is_ascii s"
    "length s + 1 < max_len"
  shows "\<exists>r'. bounded_read_line max_len [] r = (LineOk (crlf s), r') \<and>
    all_chunks (rd_events r') \<and> rd_bytes r' = rest"
proof -
  have "rd_bytes r = (s @ [CR]) @ LF # rest" using assms(2) by (simp add: crlf_def)
  moreover have "LF \<notin> set (s @ [CR])" "is_ascii (s @ [CR])"
    using assms(3,4) is_ascii_LF by (auto simp: is_ascii_def LF_def CR_def)
  moreover have "length ([] :: string) + length (s @ [CR]) < max_len" using assms(5) by simp
  ultimately show ?thesis
    using bounded_read_line_ascii [OF assms(1), of "s @ [CR]" rest "[]" max_len]
    by (simp add: crlf_def)
qed

lemma stuff_ok: "message_line_ok l \<Longrightarrow> LF \<notin> set (stuff l) \<and> is_ascii (stuff l) \<and> length (stuff l) \<le> length l + 1"
  by (auto simp: message_line_ok_def stuff_def is_ascii_def is_ascii_char_def code_def LF_def)

lemma data_loop_stuffed:
  assumes "all_chunks (rd_events r)" "rd_bytes r = stuffed_message ls @ rest"
    "list_all message_line_ok ls" "length acc + length (message_bytes ls) \<le> max_size"
  shows "\<exists>r'. data_loop max_size acc r = (DataComplete (acc @ message_bytes ls), r') \<and>
    all_chunks (rd_events r') \<and> rd_bytes r' = rest"
  using assms
proof (induction ls arbitrary: acc r)
  case Nil
  have "LF \<notin> set ''.''" "is_ascii ''.''" by (simp_all add: LF_def is_ascii_def is_ascii_char_def code_def)
  from read_crlf_line [OF Nil.prems(1) _ this, of rest "max_size + 1024"] Nil.prems(2)
  obtain r' where "bounded_read_line (max_size + 1024) [] r = (LineOk (crlf ''.''), r')"
    "all_chunks (rd_events r')" "rd_bytes r' = rest"
    by (auto simp: stuffed_message_def)
  then show ?case
    by (subst data_loop.simps) (simp add: crlf_not_bare trim_end_dot_crlf message_bytes_def)
next
  case (Cons l ls)
  let ?rest = "stuffed_message ls @ rest"
  have ok: "message_line_ok l" using Cons.prems(3) by simp
  have len: "length (crlf l) \<le> max_size" using Cons.prems(4) by (simp add: message_bytes_def)
  have bytes: "rd_bytes r = crlf (stuff l) @ ?rest" using Cons.prems(2) by (simp add: stuffed_message_def)
  have "length (stuff l) + 1 < max_size + 1024" using stuff_ok [OF ok] len by (simp add: crlf_def)
  with read_crlf_line [OF Cons.prems(1) bytes] stuff_ok [OF ok]
  obtain r1 where r1: "bounded_read_line (max_size + 1024) [] r = (LineOk (crlf (stuff l)), r1)"
    "all_chunks (rd_events r1)" "rd_bytes r1 = ?rest" by blast
  have fits: "length (acc @ crlf l) + length (message_bytes ls) \<le> max_size"
    using Cons.prems(4) by (simp add: message_bytes_def)
  have "list_all message_line_ok ls" using Cons.prems(3) by simp
  from Cons.IH [OF r1(2,3) this fits] obtain r' where
    "data_loop max_size (acc @ crlf l) r1 = (DataComplete ((acc @ crlf l) @ message_bytes ls), r')"
    "all_chunks (rd_events r')" "rd_bytes r' = rest" by blast
  moreover have "data_loop max_size acc r = data_loop max_size (acc @ crlf l) r1"
    using r1(1) fits by (subst data_loop.simps) (simp add: crlf_not_bare stuff_not_dot unstuff_stuff)
  ultimately show ?case by (simp add: message_bytes_def)
qed



section \<open>What a rejected message leaves behind\<close>

text \<open>
  a line that ends in a bare LF has the whole message refused with \<open>500\<close>, and the reader
  stands right behind that line: the rest of the message, its final dot included, is what the
  command loop reads next, as commands. (A peer that relays a message with a bare LF in it lets
  the message's author issue commands of this session.)
\<close>

theorem bare_lf_resumes_as_commands:
  assumes "all_chunks (rd_events r)" "rd_bytes r = l @ LF # rest" "is_ascii l" "LF \<notin> set l"
    "l = [] \<or> last l \<noteq> CR" "length l < max_size"
  shows "\<exists>r'. data_loop max_size acc r = (DataReply (crlf ''500 Bare LF not allowed (RFC 5321)''), r') \<and>
    rd_bytes r' = rest"
proof -
  have "length ([] :: string) + length l < max_size + 1024" using assms(6) by simp
  from bounded_read_line_ascii [OF assms(1,2,4,3) this] obtain r' where
    r': "bounded_read_line (max_size + 1024) [] r = (LineOk (l @ [LF]), r')" "rd_bytes r' = rest" by auto
  have "bare_lf (l @ [LF])"
    using assms(5) by (cases l rule: rev_cases) (auto simp: bare_lf_def ends_with_def)
  with r' show ?thesis by (subst data_loop.simps) simp
qed

theorem bare_lf_resumes_as_commands_witness:
  "\<exists>r'. data_loop 100 [] (Rd ([CHR ''x'', LF] @ crlf ''MAIL FROM:<boss@d.io>'') []) =
     (DataReply (crlf ''500 Bare LF not allowed (RFC 5321)''), r') \<and>
     rd_bytes r' = crlf ''MAIL FROM:<boss@d.io>''"
  using bare_lf_resumes_as_commands [of "Rd ([CHR ''x'', LF] @ crlf ''MAIL FROM:<boss@d.io>'') []" "''x''"
      "crlf ''MAIL FROM:<boss@d.io>''" 100 "[]"]
  by (simp add: all_chunks_def rd_bytes_def is_ascii_def is_ascii_char_def code_def LF_def CR_def)

section \<open>Malformed addresses\<close>

lemma find_char_SomeD:
  assumes "find_char c s = Some k"
  shows "k < length s \<and> s ! k = c"
proof -
  from assms have "c \<in> set s" by (simp add: find_char_def split: if_splits)
  then obtain a b where s: "s = a @ c # b" "c \<notin> set a" by (meson split_list_first)
  with assms have "k = length a" by (simp add: find_char_def takeWhile_upto)
  with s show ?thesis by simp
qed

text \<open>
  the address parser panics exactly when the first \<open>>\<close> of the trimmed argument stands
  before its first \<open><\<close>; everything else gives an address without a panic.
\<close>

theorem extract_angle_addr_panics_iff:
  "extract_angle_addr s = None \<longleftrightarrow>
     (\<exists>i j. find_char CHR ''<'' (trim s) = Some i \<and> find_char CHR ''>'' (trim s) = Some j \<and> j < i)"
proof (cases "find_char CHR ''<'' (trim s)")
  case None
  then show ?thesis by (simp add: extract_angle_addr_def Let_def)
next
  case (Some i)
  show ?thesis
  proof (cases "find_char CHR ''>'' (trim s)")
    case None
    with Some show ?thesis by (simp add: extract_angle_addr_def Let_def)
  next
    case j: (Some j)
    from find_char_SomeD [OF Some] find_char_SomeD [OF j] have "j \<noteq> i" "j \<le> length (trim s)" by auto
    with Some j show ?thesis by (auto simp: extract_angle_addr_def slice_def Let_def)
  qed
qed

section \<open>What a message can hold\<close>

lemma utf8_lossy_Cons:
  "utf8_step b r = (ok, n) \<Longrightarrow>
     utf8_lossy (b # r) = (if ok then take n (b # r) else replacement_char) @ utf8_lossy (drop n (b # r))"
  by (simp add: utf8_lossy_def utf8_chunks.simps(2))

lemma valid_replacement: "valid_utf8 replacement_char"
  by (simp add: replacement_char_def valid_utf8_Cons utf8_step_def lead_width_def second_ok_def cont_byte_def code_def)

lemma utf8_lossy_is_valid: "valid_utf8 (utf8_lossy s)"
proof (induction s rule: utf8_chunks.induct)
  case (2 b0 r)
  obtain ok n where n: "utf8_step b0 r = (ok, n)" by fastforce
  have pos: "0 < n" using utf8_step_pos [of b0 r] n by simp
  have "valid_utf8 (take n (b0 # r))" if "ok"
    using utf8_step_True(1) [of b0 r n "[]"] utf8_step_True(2) [of b0 r n] n that pos
    by (cases n) (auto simp: valid_utf8_Cons)
  with n 2 [OF n [symmetric]] show ?case
    by (auto simp: utf8_lossy_Cons intro: valid_utf8_append valid_replacement)
qed (simp add: utf8_lossy_def)

lemma drain_line_not_ok: "drain_line r = (l, r') \<Longrightarrow> l \<noteq> LineOk s"
proof (induction r rule: drain_line.induct)
  case (1 r)
  then show ?case
    by (subst (asm) (2) drain_line.simps) (auto split: prod.splits fill.splits option.splits)
qed

lemma bounded_read_line_valid:
  "bounded_read_line max_len buf r = (LineOk l, r') \<Longrightarrow> valid_utf8 buf \<Longrightarrow> valid_utf8 l"
proof (induction max_len buf r rule: bounded_read_line.induct)
  case (1 max_len buf r)
  show ?case
  proof (cases "fill_buf r")
    case (Pair f r1)
    show ?thesis
    proof (cases f)
      case (FillData b)
      show ?thesis
      proof (cases "find_char LF b")
        case None
        then show ?thesis
          using "1.IH" [OF Pair [symmetric] FillData None] "1.prems" Pair FillData
          by (subst (asm) bounded_read_line.simps)
            (auto simp: valid_utf8_append [OF "1.prems"(2) utf8_lossy_is_valid] dest: drain_line_not_ok split: if_splits)
      next
        case (Some p)
        with "1.prems" Pair FillData show ?thesis
          by (subst (asm) bounded_read_line.simps)
            (auto simp: utf8_lossy_is_valid intro: valid_utf8_append split: if_splits)
      qed
    qed (use "1.prems" Pair in \<open>subst (asm) bounded_read_line.simps, auto\<close>)+
  qed
qed

lemma unstuff_valid: "valid_utf8 l \<Longrightarrow> valid_utf8 (unstuff l)"
  by (cases l) (auto simp: unstuff_def starts_with_def is_ascii_char_def code_def split: if_splits)

lemma data_loop_valid:
  "data_loop max_size acc r = (DataComplete d, r') \<Longrightarrow> valid_utf8 acc \<Longrightarrow> valid_utf8 d"
proof (induction max_size acc r rule: data_loop.induct)
  case (1 max_size acc r)
  obtain l r1 where l: "bounded_read_line (max_size + 1024) [] r = (l, r1)" by fastforce
  show ?case
  proof (cases l)
    case (LineOk line)
    with l have "valid_utf8 line" using bounded_read_line_valid by fastforce
    with "1.prems"(2) have "valid_utf8 (acc @ unstuff line)" by (intro valid_utf8_append unstuff_valid)
    with "1.IH" [OF l [symmetric] LineOk] "1.prems" l LineOk show ?thesis
      by (subst (asm) (2) data_loop.simps) (auto simp: over_size_not_complete split: if_splits)
  qed (use "1.prems"(1) l in \<open>simp_all add: data_loop.simps [of max_size acc r] over_size_not_complete\<close>)
qed

text \<open>
  what DATA hands to ingest is well-formed UTF-8 whatever bytes came: the lines are decoded
  lossily. So a message in another 8-bit encoding is never received as it was sent, although the
  greeting offers \<open>8BITMIME\<close>.
\<close>

theorem received_data_is_utf8:
  assumes "data_loop max_size [] r = (DataComplete d, r')"
  shows "valid_utf8 d"
  using data_loop_valid [OF assms] by simp

text \<open>A character the network cuts in two is lost, though the same bytes in one piece are kept.\<close>

definition e_acute :: bytes where "e_acute = [CHR 0xC3, CHR 0xA9]"

theorem data_depends_on_chunks:
  "rd_bytes (Rd [] [Chunk [CHR 0xC3], Chunk ([CHR 0xA9] @ crlf [] @ crlf ''.'')]) =
     rd_bytes (Rd [] [Chunk (e_acute @ crlf [] @ crlf ''.'')])"
  "data_loop 100 [] (Rd [] [Chunk (e_acute @ crlf [] @ crlf ''.'')]) = (DataComplete (e_acute @ crlf []), Rd [] [])"
  "data_loop 100 [] (Rd [] [Chunk [CHR 0xC3], Chunk ([CHR 0xA9] @ crlf [] @ crlf ''.'')]) =
     (DataComplete (replacement_char @ replacement_char @ crlf []), Rd [] [])"
  by code_simp+

theorem received_data_is_utf8_witness:
  "\<exists>d r'. data_loop 100 [] (Rd [] [Chunk ([CHR 0xE9] @ crlf [] @ crlf ''.'')]) = (DataComplete d, r') \<and>
    valid_utf8 d \<and> d \<noteq> [CHR 0xE9] @ crlf []"
proof -
  have "data_loop 100 [] (Rd [] [Chunk ([CHR 0xE9] @ crlf [] @ crlf ''.'')]) = (DataComplete (replacement_char @ crlf []), Rd [] [])"
    by code_simp
  moreover from received_data_is_utf8 [OF this] have "valid_utf8 (replacement_char @ crlf [])" .
  ultimately show ?thesis by (auto simp: replacement_char_def)
qed

end
