(* ===== verification/Trust.thy ===== *)
theory Trust
  imports ConfigFacts
begin

text \<open>
  Trust evaluation (\<open>src/trust.rs\<close>): the \<open>trusted\<close> value of an inbound mail, from the
  mailbox's policy, the sender's address and the DKIM result. \<open>str::to_lowercase\<close> (Unicode) and
  \<open>glob_match\<close> (a crate) are the parameters \<open>lower\<close> and \<open>glob\<close>; the log line is not modelled.
\<close>

definition mailbox_key_for_log :: "config \<Rightarrow> mailbox_config \<Rightarrow> string" where
  "mailbox_key_for_log cfg mb =
     (case find (\<lambda>nm. mb_address (snd nm) = mb_address mb) (cfg_mailboxes cfg) of
        Some nm \<Rightarrow> fst nm
      | None \<Rightarrow> mb_address mb)"

definition extract_email_for_match :: "(string \<Rightarrow> string) \<Rightarrow> string \<Rightarrow> string" where
  "extract_email_for_match lower from =
     (case rfind_char CHR ''<'' from of
        None \<Rightarrow> lower from
      | Some start \<Rightarrow>
         (let tail = drop (start + 1) from in
          case find_char CHR ''>'' tail of
            None \<Rightarrow> lower from
          | Some e \<Rightarrow> lower (take e tail)))"

definition is_sender_in_trusted_senders ::
  "(string \<Rightarrow> string \<Rightarrow> bool) \<Rightarrow> (string \<Rightarrow> string) \<Rightarrow> string list \<Rightarrow> string \<Rightarrow> bool" where
  "is_sender_in_trusted_senders glob lower senders from =
     list_ex (\<lambda>pattern. glob pattern (extract_email_for_match lower from)) senders"

definition evaluate_trust ::
  "(string \<Rightarrow> string \<Rightarrow> bool) \<Rightarrow> (string \<Rightarrow> string) \<Rightarrow>
   config \<Rightarrow> mailbox_config \<Rightarrow> auth_results \<Rightarrow> string \<Rightarrow> trusted_value" where
  "evaluate_trust glob lower cfg mb auth from =
     (let trust = effective_trust cfg mb in
      if trust = ''none'' then TrustedNone
      else if trust = ''verified'' then
       (let sender_allowlisted =
              is_sender_in_trusted_senders glob lower (effective_trusted_senders cfg mb) from;
            dkim_passed = (ar_dkim auth = ''pass'')
        in if sender_allowlisted \<and> dkim_passed then TrustedTrue else TrustedFalse)
      else TrustedFalse)"

section \<open>Facts\<close>

lemma find_char_append:
  "c \<notin> set a \<Longrightarrow> find_char c (a @ c # b) = Some (length a)"
  by (simp add: find_char_def takeWhile_upto)

lemma rfind_char_append:
  "c \<notin> set b \<Longrightarrow> rfind_char c (a @ c # b) = Some (length a)"
  by (simp add: rfind_char_def takeWhile_upto)

text \<open>
  the address trust is decided on is the one in the last pair of angle brackets, whatever
  the display name in front of it holds (further brackets included) and whatever follows it; a
  stray \<open>>\<close> before it never makes the slice panic.
\<close>

theorem trust_address_last_brackets:
  assumes "CHR ''<'' \<notin> set addr" "CHR ''>'' \<notin> set addr" "CHR ''<'' \<notin> set rest"
  shows "extract_email_for_match lower (display @ CHR ''<'' # addr @ CHR ''>'' # rest) = lower addr"
proof -
  have "rfind_char CHR ''<'' (display @ CHR ''<'' # addr @ CHR ''>'' # rest) = Some (length display)"
    using assms by (intro rfind_char_append) simp
  with assms show ?thesis
    by (simp add: extract_email_for_match_def find_char_append Let_def)
qed

theorem trust_address_last_brackets_witness:
  "extract_email_for_match id ''\"foo>bar<\" <eve@x.io>'' = ''eve@x.io''"
  using trust_address_last_brackets [of "''eve@x.io''" "[]" id "''\"foo>bar<\" ''"] by simp

text \<open>
  a mail is \<open>trusted = true\<close> exactly when the mailbox's effective policy is
  \<open>verified\<close>, DKIM passed, and one of the effective sender patterns matches the sender's
  lowercased address; and it stays unevaluated exactly when the effective policy is \<open>none\<close>,
  so an unknown policy word never trusts anyone.
\<close>

theorem evaluate_trust_cases:
  "evaluate_trust glob lower cfg mb auth from =
     (if effective_trust cfg mb = ''none'' then TrustedNone
      else if effective_trust cfg mb = ''verified'' \<and> ar_dkim auth = ''pass'' \<and>
        list_ex (\<lambda>p. glob p (extract_email_for_match lower from)) (effective_trusted_senders cfg mb)
      then TrustedTrue else TrustedFalse)"
  by (simp add: evaluate_trust_def is_sender_in_trusted_senders_def Let_def)

end
