(* ===== verification/Paths.thy ===== *)
theory Paths
  imports Config
begin

text \<open>
  The operations of \<open>std::path::Path\<close> the program uses on Unix paths: components, file name,
  stem and extension. A path is its bytes.
\<close>

function path_components :: "string \<Rightarrow> string list" where
  "path_components p =
     (case split_once CHR ''/'' p of
        None \<Rightarrow> [p]
      | Some (c, r) \<Rightarrow> c # path_components r)"
  by pat_completeness auto
termination
proof (relation "measure length", goal_cases)
  case (2 p x c r)
  then have "p = c @ CHR ''/'' # r" using split_once_Some [of _ p c r] by simp
  then show ?case by simp
qed simp

declare path_components.simps [simp del]

definition file_name :: "string \<Rightarrow> string option" where
  "file_name p =
     (let cs = filter (\<lambda>c. c \<noteq> [] \<and> c \<noteq> ''.'') (path_components p) in
      if cs = [] \<or> last cs = ''..'' then None else Some (last cs))"

definition extension_split :: "string \<Rightarrow> string \<times> string option" where
  "extension_split f =
     (case rsplit_once CHR ''.'' f of
        None \<Rightarrow> (f, None)
      | Some (before, after) \<Rightarrow> if before = [] then (f, None) else (before, Some after))"

text \<open>
  \<open>Path::file_stem\<close>, empty where there is none: the last component of the path, without the
  last dot and what follows it unless that dot opens the name.
\<close>

definition file_stem :: "string \<Rightarrow> string" where
  "file_stem p = (case file_name p of None \<Rightarrow> [] | Some f \<Rightarrow> fst (extension_split f))"

definition path_extension :: "string \<Rightarrow> string option" where
  "path_extension p = (case file_name p of None \<Rightarrow> None | Some f \<Rightarrow> snd (extension_split f))"

section \<open>Facts\<close>

lemma split_once_None: "c \<notin> set s \<Longrightarrow> split_once c s = None"
  by (auto simp: split_once_def)

lemma path_components_plain: "CHR ''/'' \<notin> set p \<Longrightarrow> path_components p = [p]"
  by (subst path_components.simps) (simp add: split_once_None)

text \<open>A name that is one component of a path, and no step up or in place.\<close>

definition plain_name :: "string \<Rightarrow> bool" where
  "plain_name n \<longleftrightarrow> n \<noteq> [] \<and> CHR ''/'' \<notin> set n \<and> n \<noteq> ''.'' \<and> n \<noteq> ''..''"

lemma file_name_plain: "plain_name n \<Longrightarrow> file_name n = Some n"
  by (simp add: plain_name_def file_name_def path_components_plain)

lemma plain_name_relative: "plain_name n \<Longrightarrow> \<not> starts_with n ''/''"
  by (cases n) (auto simp: plain_name_def starts_with_def)

lemma join_path_inj:
  assumes "join_path d m = join_path d n" "\<not> starts_with m ''/''" "\<not> starts_with n ''/''"
  shows "m = n"
  using assms by (auto simp: join_path_def split: if_splits)

end
