(* ===== verification/IngestAuth.thy ===== *)
theory IngestAuth
  imports Trust Paths
begin

text \<open>
  What ingest reads from the raw message for its authentication checks (\<open>src/ingest.rs\<close>, from
  \<open>verify_auth\<close> to \<open>extract_mail_from\<close>): the peer address and sender given to SPF, and the
  summary of the verifiers' results.

  The verifiers (the crate \<open>mail_auth\<close>, with its DNS resolver) are parameters. Addresses are
  strings; \<open>parse_ip\<close>, \<open>is_loopback\<close> and \<open>is_unspecified\<close> are those of the standard library's
  \<open>IpAddr\<close>, \<open>lower\<close> is \<open>str::to_lowercase\<close>. Where a slice of the source panics the result is
  \<open>None\<close>.
\<close>

section \<open>Results of the verifiers\<close>

text \<open>One DKIM signature: whether it verified, and the domain that signed.\<close>

record dkim_output =
  do_pass :: bool
  do_domain :: string

datatype spf_result = SpfPass | SpfFail | SpfSoftFail | SpfNeutral | SpfNone | SpfOther

datatype dmarc_result = DmarcPass | DmarcNone | DmarcOther

definition dkim_output_to_string :: "dkim_output list \<Rightarrow> bool \<Rightarrow> string" where
  "dkim_output_to_string results parsed =
     (if \<not> parsed then ''none''
      else if results = [] then ''none''
      else if list_ex do_pass results then ''pass''
      else ''fail'')"

fun spf_output_to_string :: "spf_result \<Rightarrow> string" where
  "spf_output_to_string SpfPass = ''pass''"
| "spf_output_to_string SpfFail = ''fail''"
| "spf_output_to_string SpfSoftFail = ''softfail''"
| "spf_output_to_string SpfNeutral = ''neutral''"
| "spf_output_to_string SpfNone = ''none''"
| "spf_output_to_string SpfOther = ''none''"

text \<open>The DKIM and the SPF half of the DMARC result.\<close>

definition dmarc_to_string :: "dmarc_result \<Rightarrow> dmarc_result \<Rightarrow> string" where
  "dmarc_to_string dkim_result spf_result =
     (if dkim_result = DmarcPass then ''pass''
      else if spf_result = DmarcPass then ''pass''
      else if dkim_result = DmarcNone \<and> spf_result = DmarcNone then ''none''
      else ''fail'')"

section \<open>Headers\<close>

text \<open>\<open>mail_from.split('@').nth(1)\<close>, where it is not empty.\<close>

definition spf_domain :: "string \<Rightarrow> string option" where
  "spf_domain mail_from =
     (case split_once CHR ''@'' mail_from of
        None \<Rightarrow> None
      | Some (_, r) \<Rightarrow>
          (let domain = takeWhile (\<lambda>c. c \<noteq> CHR ''@'') r in if domain = [] then None else Some domain))"

fun unfold_step :: "string list \<Rightarrow> string \<Rightarrow> string" where
  "unfold_step [] result = result"
| "unfold_step (line # ls) result =
     unfold_step ls
       (if starts_with line '' '' \<or> starts_with line [CHR 0x09] then result @ '' '' @ trim line
        else (if result = [] then [] else result @ [LF]) @ line)"

definition unfold_headers :: "string \<Rightarrow> string" where
  "unfold_headers raw = unfold_step (lines raw) []"

text \<open>The lines up to the first empty one.\<close>

definition header_lines :: "string \<Rightarrow> string list" where
  "header_lines s = takeWhile (\<lambda>l. l \<noteq> []) (lines s)"

function parse_ip_from_received ::
  "(string \<Rightarrow> string option) \<Rightarrow> (string \<Rightarrow> bool) \<Rightarrow> string \<Rightarrow> string option" where
  "parse_ip_from_received parse_ip is_loopback line =
     (case split_once CHR ''['' line of
        None \<Rightarrow> None
      | Some (_, r) \<Rightarrow>
          (let candidate = takeWhile (\<lambda>c. c \<noteq> CHR '']'') r;
               rest = drop (length candidate + 1) r
           in case parse_ip candidate of
                Some ip \<Rightarrow>
                  if \<not> is_loopback ip then Some ip else parse_ip_from_received parse_ip is_loopback rest
              | None \<Rightarrow> parse_ip_from_received parse_ip is_loopback rest))"
  by pat_completeness auto
termination
  by (relation "measure (\<lambda>(_, _, line). length line)") (auto dest!: split_once_Some)

declare parse_ip_from_received.simps [simp del]

fun first_some_map :: "('a \<Rightarrow> 'b option) \<Rightarrow> 'a list \<Rightarrow> 'b option" where
  "first_some_map f [] = None"
| "first_some_map f (x # xs) = (case f x of Some y \<Rightarrow> Some y | None \<Rightarrow> first_some_map f xs)"

definition extract_received_ip ::
  "(string \<Rightarrow> string option) \<Rightarrow> (string \<Rightarrow> bool) \<Rightarrow> bytes \<Rightarrow> string option" where
  "extract_received_ip parse_ip is_loopback raw =
     (if \<not> valid_utf8 raw then None
      else first_some_map
        (\<lambda>line. if starts_with line ''Received:'' \<or> starts_with line ''received:''
                then parse_ip_from_received parse_ip is_loopback line else None)
        (header_lines (unfold_headers raw)))"

text \<open>The value of a \<open>From\<close> line: \<open>None\<close> where the slice between the brackets panics.\<close>

definition from_value :: "string \<Rightarrow> string option" where
  "from_value addr =
     (case (find_char CHR ''<'' addr, find_char CHR ''>'' addr) of
        (Some start, Some e) \<Rightarrow> slice addr (start + 1) e
      | _ \<Rightarrow> Some addr)"

text \<open>The outer option is the panic.\<close>

definition extract_mail_from :: "(string \<Rightarrow> string) \<Rightarrow> bytes \<Rightarrow> string option option" where
  "extract_mail_from lower raw =
     (if \<not> valid_utf8 raw then Some None
      else case find (\<lambda>line. starts_with (lower line) ''from:'') (header_lines raw) of
          None \<Rightarrow> Some None
        | Some line \<Rightarrow>
            (case slice line 5 (length line) of
               None \<Rightarrow> None
             | Some v \<Rightarrow> map_option Some (from_value (trim v))))"

definition select_spf_inputs ::
  "(string \<Rightarrow> string option) \<Rightarrow> (string \<Rightarrow> bool) \<Rightarrow> (string \<Rightarrow> bool) \<Rightarrow> (string \<Rightarrow> string) \<Rightarrow>
   bytes \<Rightarrow> string \<Rightarrow> string option \<Rightarrow> (string option \<times> string option) option" where
  "select_spf_inputs parse_ip is_loopback is_unspecified lower raw peer_ip envelope_mail_from =
     (let ip = (if is_unspecified peer_ip then extract_received_ip parse_ip is_loopback raw
                else Some peer_ip)
      in case envelope_mail_from of
           Some s \<Rightarrow>
             if s \<noteq> [] then Some (ip, Some s)
             else map_option (Pair ip) (extract_mail_from lower raw)
         | None \<Rightarrow> map_option (Pair ip) (extract_mail_from lower raw))"

record verifiers =
  ve_resolver :: bool
  ve_parse_ip :: "string \<Rightarrow> string option"
  ve_is_loopback :: "string \<Rightarrow> bool"
  ve_is_unspecified :: "string \<Rightarrow> bool"
  ve_lower :: "string \<Rightarrow> string"
  ve_dkim :: "bytes \<Rightarrow> dkim_output list option"
  ve_spf :: "string \<Rightarrow> string \<Rightarrow> string \<Rightarrow> spf_result"
  ve_dmarc :: "bytes \<Rightarrow> dkim_output list \<Rightarrow> string \<Rightarrow> spf_result \<Rightarrow> dmarc_result \<times> dmarc_result"

definition build_spf_output :: "verifiers \<Rightarrow> string option \<Rightarrow> string option \<Rightarrow> spf_result" where
  "build_spf_output ve ip mail_from =
     (case ip of
        None \<Rightarrow> SpfNone
      | Some ip \<Rightarrow>
          (let mail_from = (case mail_from of None \<Rightarrow> [] | Some s \<Rightarrow> s) in
           case spf_domain mail_from of
             None \<Rightarrow> SpfNone
           | Some helo_domain \<Rightarrow> ve_spf ve ip helo_domain mail_from))"

definition verify_dmarc ::
  "verifiers \<Rightarrow> bytes \<Rightarrow> dkim_output list \<Rightarrow> spf_result \<Rightarrow> string option \<Rightarrow> string" where
  "verify_dmarc ve raw dkim_output spf_output mail_from =
     (let mail_from = (case mail_from of None \<Rightarrow> [] | Some s \<Rightarrow> s);
          domain = (case spf_domain mail_from of None \<Rightarrow> [] | Some d \<Rightarrow> d);
          (d, s) = ve_dmarc ve raw dkim_output domain spf_output
      in dmarc_to_string d s)"

text \<open>
  \<open>ve_resolver\<close>: a runtime and a resolver could be set up. \<open>ve_dkim\<close> is \<open>None\<close> where the
  authenticator cannot parse the message.
\<close>

definition verify_auth :: "verifiers \<Rightarrow> bytes \<Rightarrow> string \<Rightarrow> string option \<Rightarrow> auth_results option" where
  "verify_auth ve raw peer_ip envelope_mail_from =
     (if \<not> ve_resolver ve then Some default_auth_results
      else
       (let parsed = ve_dkim ve raw;
            dkim_output = (case parsed of None \<Rightarrow> [] | Some os \<Rightarrow> os)
        in case select_spf_inputs (ve_parse_ip ve) (ve_is_loopback ve) (ve_is_unspecified ve) (ve_lower ve)
                  raw peer_ip envelope_mail_from of
             None \<Rightarrow> None
           | Some (spf_ip, spf_mail_from) \<Rightarrow>
               (let spf_output = build_spf_output ve spf_ip spf_mail_from in
                Some \<lparr>ar_dkim = dkim_output_to_string dkim_output (parsed \<noteq> None),
                      ar_spf = spf_output_to_string spf_output,
                      ar_dmarc = (if parsed = None then ''none''
                        else verify_dmarc ve raw dkim_output spf_output spf_mail_from)\<rparr>)))"

section \<open>Facts\<close>

lemma dkim_pass_iff: "dkim_output_to_string rs parsed = ''pass'' \<longleftrightarrow> parsed \<and> (\<exists>r\<in>set rs. do_pass r)"
  by (auto simp: dkim_output_to_string_def list_ex_iff)

lemma verify_auth_dkim:
  assumes "verify_auth ve raw ip env = Some auth"
  shows "ar_dkim auth = ''pass'' \<longleftrightarrow>
    ve_resolver ve \<and> (\<exists>rs. ve_dkim ve raw = Some rs \<and> (\<exists>r\<in>set rs. do_pass r))"
  using assms
  by (auto simp: verify_auth_def default_auth_results_def dkim_pass_iff Let_def split: if_splits option.splits)

lemma verify_auth_envelope:
  "env \<noteq> Some [] \<Longrightarrow> env \<noteq> None \<Longrightarrow> verify_auth ve raw ip env \<noteq> None"
  by (auto simp: verify_auth_def select_spf_inputs_def Let_def split: option.splits)

end
