(* ===== verification/ConfigHandle.thy ===== *)
theory ConfigHandle
  imports ConfigFacts
begin

text \<open>
  The daemon's live configuration (\<open>ConfigHandle\<close>, \<open>Config::save\<close> in \<open>src/config.rs\<close>) and the
  interface its readers and writers rely on. Snapshots are immutable values, so a reader's
  snapshot is the value it loaded; the reader-writer lock makes each operation atomic.
\<close>

record config_handle =
  ch_inner :: config

definition handle_new :: "config \<Rightarrow> config_handle" where
  "handle_new cfg = \<lparr>ch_inner = cfg\<rparr>"

definition handle_load :: "config_handle \<Rightarrow> config" where
  "handle_load h = ch_inner h"

definition handle_store :: "config_handle \<Rightarrow> config \<Rightarrow> config_handle" where
  "handle_store h new = h\<lparr>ch_inner := new\<rparr>"

text \<open>A store: what is loaded is what was stored last.\<close>

locale config_store =
  fixes load_from :: "'h \<Rightarrow> 'c" and store_to :: "'h \<Rightarrow> 'c \<Rightarrow> 'h"
  assumes load_store: "load_from (store_to h c) = c"
    and store_store: "store_to (store_to h c) d = store_to h d"
    and store_load: "store_to h (load_from h) = h"

context config_store
begin

lemma last_store_wins:
  "load_from (foldl store_to h cs) = (if cs = [] then load_from h else last cs)"
  by (cases cs rule: rev_cases) (simp_all add: load_store)

lemma store_inject: "store_to h c = store_to h d \<longleftrightarrow> c = d"
  by (metis load_store)

text \<open>A read-modify-write that loads and stores back keeps what the change keeps.\<close>

lemma update_invariant: "P (load_from h) \<Longrightarrow> (\<And>c. P c \<Longrightarrow> P (f c)) \<Longrightarrow> P (load_from (store_to h (f (load_from h))))"
  by (simp add: load_store)

end

interpretation handle: config_store handle_load handle_store
  by unfold_locales (simp_all add: handle_load_def handle_store_def)

end
