(* ===== verification/HookFire.thy ===== *)
theory HookFire
  imports Trust Paths
begin

text \<open>
  Firing hooks (\<open>src/hook.rs\<close>, \<open>execute_on_receive\<close>, \<open>execute_after_send\<close> and
  \<open>run_and_log\<close>). The world \<open>'w\<close> is what the subprocesses and the file system share:
  \<open>read_file\<close> reads a file in it and \<open>spawn\<close> (\<open>platform::spawn_sandboxed\<close>, which forks, drops to
  the owner and execs) changes it. Each run returns the requests handed to \<open>spawn\<close>, in order.
  The environment is the list of variables set. Log lines are not modelled.
\<close>

datatype send_status = SendDelivered | SendFailed | SendDeferred

fun send_status_as_str :: "send_status \<Rightarrow> string" where
  "send_status_as_str SendDelivered = ''delivered''"
| "send_status_as_str SendFailed = ''failed''"
| "send_status_as_str SendDeferred = ''deferred''"

record on_receive_context =
  orc_filepath :: string
  orc_metadata :: inbound_frontmatter

record after_send_context =
  asc_mailbox :: string
  asc_from :: string
  asc_to :: string
  asc_subject :: string
  asc_filepath :: string
  asc_message_id :: string
  asc_send_status :: send_status

record spawn_request =
  sp_argv :: "string list"
  sp_stdin :: bytes
  sp_owner :: string
  sp_timeout :: nat
  sp_env :: "(string \<times> string) list"

text \<open>\<open>read_stdin_source\<close>: a missing or unreadable file is piped as nothing.\<close>

definition read_stdin_source :: "('w \<Rightarrow> string \<Rightarrow> bytes option) \<Rightarrow> 'w \<Rightarrow> string option \<Rightarrow> bytes" where
  "read_stdin_source read_file w source =
     (case source of
        None \<Rightarrow> []
      | Some p \<Rightarrow> (case read_file w p of None \<Rightarrow> [] | Some bs \<Rightarrow> bs))"

definition run_and_log ::
  "('w \<Rightarrow> string \<Rightarrow> bytes option) \<Rightarrow> (spawn_request \<Rightarrow> 'w \<Rightarrow> 'w) \<Rightarrow> mailbox_config \<Rightarrow> hook \<Rightarrow>
   (string \<times> string) list \<Rightarrow> string option \<Rightarrow> 'w \<Rightarrow> spawn_request list \<times> 'w" where
  "run_and_log read_file spawn mb h env stdin_source w =
     (case resolve_argv h of
        Inl _ \<Rightarrow> ([], w)
      | Inr argv \<Rightarrow>
         (let req = \<lparr>sp_argv = argv, sp_stdin = read_stdin_source read_file w stdin_source,
                     sp_owner = mb_owner mb, sp_timeout = hk_timeout_secs h, sp_env = env\<rparr>
          in ([req], spawn req w)))"

text \<open>The loop over the hooks: each sees the world the ones before it left.\<close>

fun run_hooks :: "('h \<Rightarrow> 'w \<Rightarrow> 'r list \<times> 'w) \<Rightarrow> 'h list \<Rightarrow> 'w \<Rightarrow> 'r list \<times> 'w" where
  "run_hooks run [] w = ([], w)"
| "run_hooks run (h # hs) w =
     (case run h w of (rs, w1) \<Rightarrow>
        (case run_hooks run hs w1 of (rs', w2) \<Rightarrow> (rs @ rs', w2)))"

definition on_receive_env ::
  "(bytes \<Rightarrow> bytes) \<Rightarrow> on_receive_context \<Rightarrow> hook \<Rightarrow> (string \<times> string) list" where
  "on_receive_env sha ctx h =
     (let m = orc_metadata ctx in
      [(''AIMX_HOOK_NAME'', effective_hook_name sha h),
       (''AIMX_FROM'', fm_from m),
       (''AIMX_SUBJECT'', fm_subject m),
       (''AIMX_TO'', fm_to m),
       (''AIMX_MAILBOX'', fm_mailbox m),
       (''AIMX_FILEPATH'', orc_filepath ctx),
       (''AIMX_MESSAGE_ID'', fm_message_id m),
       (''AIMX_EVENT'', hook_event_as_str OnReceive),
       (''AIMX_ID'', fm_id m),
       (''AIMX_DATE'', fm_date m)])"

definition execute_on_receive ::
  "('w \<Rightarrow> string \<Rightarrow> bytes option) \<Rightarrow> (spawn_request \<Rightarrow> 'w \<Rightarrow> 'w) \<Rightarrow> (bytes \<Rightarrow> bytes) \<Rightarrow>
   config \<Rightarrow> mailbox_config \<Rightarrow> on_receive_context \<Rightarrow> 'w \<Rightarrow> spawn_request list \<times> 'w" where
  "execute_on_receive read_file spawn sha cfg mb ctx w =
     (let email_trusted = parse_trusted (fm_trusted (orc_metadata ctx)) in
      if is_catchall cfg mb \<and> mb_hooks mb \<noteq> [] then ([], w)
      else run_hooks
        (\<lambda>h w. if \<not> should_fire_on_receive h email_trusted then ([], w)
               else run_and_log read_file spawn mb h (on_receive_env sha ctx h)
                      (Some (orc_filepath ctx)) w)
        (on_receive_hooks mb) w)"

text \<open>\<open>now\<close> is the clock read for each hook (\<open>chrono::Utc::now\<close>), in RFC 3339.\<close>

definition after_send_env ::
  "(bytes \<Rightarrow> bytes) \<Rightarrow> string \<Rightarrow> after_send_context \<Rightarrow> hook \<Rightarrow> (string \<times> string) list" where
  "after_send_env sha now ctx h =
     [(''AIMX_HOOK_NAME'', effective_hook_name sha h),
      (''AIMX_FROM'', asc_from ctx),
      (''AIMX_TO'', asc_to ctx),
      (''AIMX_SUBJECT'', asc_subject ctx),
      (''AIMX_MAILBOX'', asc_mailbox ctx),
      (''AIMX_FILEPATH'', asc_filepath ctx),
      (''AIMX_SEND_STATUS'', send_status_as_str (asc_send_status ctx)),
      (''AIMX_MESSAGE_ID'', asc_message_id ctx),
      (''AIMX_EVENT'', hook_event_as_str AfterSend),
      (''AIMX_ID'', file_stem (asc_filepath ctx)),
      (''AIMX_DATE'', now)]"

definition execute_after_send ::
  "('w \<Rightarrow> string \<Rightarrow> bytes option) \<Rightarrow> (spawn_request \<Rightarrow> 'w \<Rightarrow> 'w) \<Rightarrow> ('w \<Rightarrow> string) \<Rightarrow>
   (bytes \<Rightarrow> bytes) \<Rightarrow> config \<Rightarrow> mailbox_config \<Rightarrow> after_send_context \<Rightarrow> 'w \<Rightarrow>
   spawn_request list \<times> 'w" where
  "execute_after_send read_file spawn clock sha cfg mb ctx w =
     (if is_catchall cfg mb \<and> mb_hooks mb \<noteq> [] then ([], w)
      else run_hooks
        (\<lambda>h w. run_and_log read_file spawn mb h (after_send_env sha (clock w) ctx h)
                 (if asc_filepath ctx = [] then None else Some (asc_filepath ctx)) w)
        (after_send_hooks mb) w)"

section \<open>The log-safe tail of standard error\<close>

text \<open>The next character boundary at or after a byte index (\<open>is_char_boundary\<close> in the loop).\<close>

definition LOG_INLINE_LIMIT :: nat where "LOG_INLINE_LIMIT = 1024"

definition format_stderr_tail :: "(string \<Rightarrow> string) \<Rightarrow> bytes \<Rightarrow> string option" where
  "format_stderr_tail to_json bs =
     (if bs = [] then Some ''\"\"''
      else
       (let escaped = to_json (utf8_lossy bs) in
        if length escaped > LOG_INLINE_LIMIT then
         (let head_n = LOG_INLINE_LIMIT div 2;
              tail_n = LOG_INLINE_LIMIT div 2 - 8
          in case slice escaped 1 (length escaped - 1) of
               None \<Rightarrow> None
             | Some inner \<Rightarrow>
                 if length inner > head_n + tail_n + 8 then
                   Some (''\"'' @ concat (take head_n (utf8_chars inner)) @ ''...'' @
                     dropWhile cont_byte (drop (length inner - tail_n) inner) @ ''\"'')
                 else Some escaped)
        else Some escaped))"

section \<open>Facts\<close>

text \<open>What is fixed about a request before any hook has run.\<close>

definition request_key :: "spawn_request \<Rightarrow> string list \<times> string \<times> nat" where
  "request_key r = (sp_argv r, sp_owner r, sp_timeout r)"

lemma run_hooks_requests:
  assumes run: "\<And>h w. map f (fst (run h w)) = g h"
  shows "map f (fst (run_hooks run hs w)) = concat (map g hs)"
proof (induction hs arbitrary: w)
  case (Cons h hs)
  then show ?case using run [of h w] by (simp add: split_beta)
qed simp

definition hook_runnable :: "hook \<Rightarrow> bool" where
  "hook_runnable h \<longleftrightarrow> (case resolve_argv h of Inl _ \<Rightarrow> False | Inr _ \<Rightarrow> True)"

definition hook_key :: "mailbox_config \<Rightarrow> hook \<Rightarrow> string list \<times> string \<times> nat" where
  "hook_key mb h = (hk_cmd h, mb_owner mb, hk_timeout_secs h)"

lemma hook_ok_runnable: "hook_ok h \<Longrightarrow> hook_runnable h"
  by (auto simp: hook_ok_def hook_runnable_def resolve_argv_def split: list.splits)

lemma run_and_log_key:
  "map request_key (fst (run_and_log read_file spawn mb h env src w)) =
     (if hook_runnable h then [hook_key mb h] else [])"
proof (cases "resolve_argv h")
  case (Inr argv)
  then have "argv = hk_cmd h" by (simp add: resolve_argv_Inr)
  with Inr show ?thesis
    by (simp add: run_and_log_def request_key_def hook_runnable_def hook_key_def Let_def)
qed (simp add: run_and_log_def hook_runnable_def)

lemma concat_map_if: "concat (map (\<lambda>x. if P x then [f x] else []) xs) = map f (filter P xs)"
  by (induction xs) auto

lemma run_hooks_keys:
  assumes "\<And>h w. map request_key (fst (run h w)) = (if P h then [hook_key mb h] else [])"
  shows "map request_key (fst (run_hooks run hs w)) = map (hook_key mb) (filter P hs)"
  using run_hooks_requests [of request_key run, OF assms] by (simp add: concat_map_if)

lemma catchall_without_hooks:
  "\<not> (is_catchall cfg mb \<and> mb_hooks mb \<noteq> []) \<Longrightarrow> is_catchall cfg mb \<Longrightarrow> mb_hooks mb = []"
  by simp

text \<open>
  an arriving mail starts, for its mailbox, exactly the \<open>on_receive\<close> hooks whose gate is
  open (the mail is \<open>trusted = true\<close> or the hook opted in) and whose program resolves, in the
  configured order, each with the configured argument vector, as the mailbox's owner and under
  the configured timeout, whatever earlier hooks did to the world; a catchall starts none.
\<close>

theorem on_receive_requests:
  "map request_key (fst (execute_on_receive read_file spawn sha cfg mb ctx w)) =
     (if is_catchall cfg mb then []
      else map (hook_key mb) (filter (\<lambda>h. hk_event h = OnReceive \<and> hook_runnable h \<and>
        (fm_trusted (orc_metadata ctx) = ''true'' \<or> hk_fire_on_untrusted h)) (mb_hooks mb)))"
proof -
  let ?t = "parse_trusted (fm_trusted (orc_metadata ctx))"
  have gate: "should_fire_on_receive h ?t \<longleftrightarrow>
      fm_trusted (orc_metadata ctx) = ''true'' \<or> hk_fire_on_untrusted h" for h
    by (simp add: should_fire_on_receive_def parse_trusted_def)
  let ?run = "\<lambda>h w. if \<not> should_fire_on_receive h ?t then ([], w)
      else run_and_log read_file spawn mb h (on_receive_env sha ctx h) (Some (orc_filepath ctx)) w"
  have "map request_key (fst (?run h w)) =
      (if should_fire_on_receive h ?t \<and> hook_runnable h then [hook_key mb h] else [])" for h w
    by (cases "should_fire_on_receive h ?t") (simp_all add: run_and_log_key)
  from run_hooks_keys [of ?run, OF this] show ?thesis
    by (auto simp: execute_on_receive_def Let_def gate on_receive_hooks_def
        intro!: arg_cong [where f = "map (hook_key mb)"] filter_cong)
qed

text \<open>
  a finished send starts exactly the mailbox's \<open>after_send\<close> hooks whose program resolves,
  in the configured order and as the mailbox's owner, whatever the outcome of the send.
\<close>

theorem after_send_requests:
  "map request_key (fst (execute_after_send read_file spawn clock sha cfg mb ctx w)) =
     (if is_catchall cfg mb then []
      else map (hook_key mb) (filter (\<lambda>h. hk_event h = AfterSend \<and> hook_runnable h) (mb_hooks mb)))"
  using run_hooks_keys [of "\<lambda>h w. run_and_log read_file spawn mb h (after_send_env sha (clock w) ctx h)
      (if asc_filepath ctx = [] then None else Some (asc_filepath ctx)) w" hook_runnable, OF run_and_log_key]
  by (auto simp: execute_after_send_def after_send_hooks_def
      intro!: arg_cong [where f = "map (hook_key mb)"] filter_cong)

end
