(* ===== verification/Auth.thy ===== *)
theory Auth
  imports HookFire
begin

text \<open>
  The authorization predicate of the command line, of MCP and of mailbox CRUD (\<open>src/auth.rs\<close>),
  with the renderer of its errors, and the interface an ownership gate offers: root passes, and
  every other uid passes only for its own mailboxes. Uids are \<open>u32\<close>s that are only compared:
  \<open>nat\<close>s.
\<close>

datatype action =
    MailboxCreate nat
  | MailboxDelete string
  | MailboxRead string
  | MailboxSendAs string
  | MarkReadWrite string
  | HookCrud string
  | SystemCommand

datatype auth_error = NotRoot | NotOwner string | OwnerMismatch nat | NoSuchMailbox

record auth_error_context =
  aec_surface :: "string option"
  aec_verb :: "string option"
  aec_resource :: "string option"
  aec_mailbox_name :: "string option"

definition unwrap_or :: "'a \<Rightarrow> 'a option \<Rightarrow> 'a" where
  "unwrap_or d x = (case x of None \<Rightarrow> d | Some v \<Rightarrow> v)"

fun auth_error_display :: "auth_error \<Rightarrow> string" where
  "auth_error_display NotRoot = ''not authorized: action requires root''"
| "auth_error_display (NotOwner mailbox) =
     ''not authorized: caller does not own mailbox '' @ [CHR 0x27] @ mailbox @ [CHR 0x27]"
| "auth_error_display (OwnerMismatch _) =
     ''not authorized: cannot create a mailbox owned by another user''"
| "auth_error_display NoSuchMailbox = ''not authorized: no such mailbox''"

fun format_auth_error :: "auth_error \<Rightarrow> auth_error_context \<Rightarrow> string" where
  "format_auth_error NotRoot ctx =
     (case (aec_surface ctx, aec_verb ctx) of
        (Some surface, Some verb) \<Rightarrow>
          ''not authorized: '' @ surface @ '' '' @ verb @ '' requires root (run with sudo)''
      | _ \<Rightarrow> ''not authorized: requires root'')"
| "format_auth_error (NotOwner mailbox) ctx =
     ''not authorized: caller does not own mailbox '' @ [CHR 0x27] @ mailbox @ [CHR 0x27]"
| "format_auth_error (OwnerMismatch _) ctx =
     ''not authorized: cannot '' @ unwrap_or ''perform'' (aec_verb ctx) @ '' a '' @
     unwrap_or ''mailbox'' (aec_resource ctx) @ '' owned by another user''"
| "format_auth_error NoSuchMailbox ctx =
     (case aec_mailbox_name ctx of
        Some name \<Rightarrow> ''not authorized: mailbox '' @ [CHR 0x27] @ name @ [CHR 0x27] @ '' not found''
      | None \<Rightarrow> ''not authorized: no such mailbox'')"

definition authorize_mailbox ::
  "user_db \<Rightarrow> nat \<Rightarrow> string \<Rightarrow> mailbox_config option \<Rightarrow> auth_error + unit" where
  "authorize_mailbox pw caller_uid name mailbox =
     (case mailbox of
        None \<Rightarrow> Inl NoSuchMailbox
      | Some mb \<Rightarrow>
          (case owner_uid pw mb of
             Inr uid \<Rightarrow> if uid = caller_uid then Inr () else Inl (NotOwner name)
           | Inl _ \<Rightarrow> Inl NoSuchMailbox))"

definition authorize ::
  "user_db \<Rightarrow> nat \<Rightarrow> action \<Rightarrow> mailbox_config option \<Rightarrow> auth_error + unit" where
  "authorize pw caller_uid action mailbox =
     (if caller_uid = 0 then Inr ()
      else case action of
          SystemCommand \<Rightarrow> Inl NotRoot
        | MailboxCreate owner \<Rightarrow>
            if caller_uid = owner then Inr () else Inl (OwnerMismatch owner)
        | MailboxDelete name \<Rightarrow> authorize_mailbox pw caller_uid name mailbox
        | MailboxRead name \<Rightarrow> authorize_mailbox pw caller_uid name mailbox
        | MailboxSendAs name \<Rightarrow> authorize_mailbox pw caller_uid name mailbox
        | MarkReadWrite name \<Rightarrow> authorize_mailbox pw caller_uid name mailbox
        | HookCrud name \<Rightarrow> authorize_mailbox pw caller_uid name mailbox)"

section \<open>The interface of an ownership gate\<close>

locale owner_gate =
  fixes passes :: "nat \<Rightarrow> 'm \<Rightarrow> bool" and owns :: "nat \<Rightarrow> 'm \<Rightarrow> bool"
  assumes root_passes: "passes 0 m"
    and owner_passes: "uid \<noteq> 0 \<Longrightarrow> passes uid m \<longleftrightarrow> owns uid m"

text \<open>A gate under which a mailbox has at most one owner keeps the other users out.\<close>

locale exclusive_gate = owner_gate passes owns
  for passes :: "nat \<Rightarrow> 'm \<Rightarrow> bool" and owns :: "nat \<Rightarrow> 'm \<Rightarrow> bool" +
  assumes one_owner: "owns uid m \<Longrightarrow> owns uid' m \<Longrightarrow> uid = uid'"

context exclusive_gate
begin

lemma isolation: "owns uid m \<Longrightarrow> passes uid' m \<Longrightarrow> uid' = 0 \<or> uid' = uid"
  using owner_passes one_owner by (cases "uid' = 0") auto

lemma only_own:
  assumes "uid \<noteq> 0" "list_all (passes uid) ms"
  shows "list_all (owns uid) ms"
  using assms owner_passes by (auto simp: list_all_iff)

end

section \<open>The predicate is such a gate\<close>

fun action_mailbox :: "action \<Rightarrow> string option" where
  "action_mailbox (MailboxDelete n) = Some n"
| "action_mailbox (MailboxRead n) = Some n"
| "action_mailbox (MailboxSendAs n) = Some n"
| "action_mailbox (MarkReadWrite n) = Some n"
| "action_mailbox (HookCrud n) = Some n"
| "action_mailbox _ = None"

lemma authorize_mailbox_action:
  assumes "action_mailbox act = Some name" "uid \<noteq> 0"
  shows "authorize pw uid act mb = authorize_mailbox pw uid name mb"
  using assms by (cases act) (simp_all add: authorize_def)

lemma authorize_mailbox_Inr:
  "authorize_mailbox pw uid name mailbox = Inr () \<longleftrightarrow>
     (\<exists>mb. mailbox = Some mb \<and> owner_uid pw mb = Inr uid)"
  by (auto simp: authorize_mailbox_def split: option.splits sum.splits)

interpretation cli: exclusive_gate
  "\<lambda>uid mb. authorize pw uid (MailboxRead name) (Some mb) = Inr ()"
  "\<lambda>uid mb. owner_uid pw mb = Inr uid" for pw name
  by unfold_locales (auto simp: authorize_def authorize_mailbox_Inr)

text \<open>
  the whole policy: a caller passes exactly when it is root, or creates a mailbox for
  itself, or the action names a mailbox that exists and whose owner resolves to the caller; no
  one but root runs a system command.
\<close>

theorem authorize_iff:
  "authorize pw uid act mailbox = Inr () \<longleftrightarrow>
     uid = 0 \<or> act = MailboxCreate uid \<or>
     (action_mailbox act \<noteq> None \<and> (\<exists>mb. mailbox = Some mb \<and> owner_uid pw mb = Inr uid))"
  by (cases act) (auto simp: authorize_def authorize_mailbox_Inr)

text \<open>
  a caller that owns no mailbox of a given name learns nothing from the error about who
  does: the refusal for a missing mailbox and for one with an unresolvable owner are the same
  value, and the message of a refused create does not depend on the owner asked for.
\<close>

theorem authorize_hides_owner:
  "uid \<noteq> 0 \<Longrightarrow> action_mailbox act = Some name \<Longrightarrow> owner_uid pw mb = Inl e \<Longrightarrow>
   authorize pw uid act (Some mb) = authorize pw uid act None \<and>
   format_auth_error (OwnerMismatch o1) ctx = format_auth_error (OwnerMismatch o2) ctx"
  by (simp add: authorize_mailbox_action authorize_mailbox_def)

theorem authorize_hides_owner_witness:
  "authorize (\<lambda>_. None) 1000 (MailboxRead ''a'') (Some (demo_mailbox [])) =
   authorize (\<lambda>_. None) 1000 (MailboxRead ''a'') None"
proof -
  have "owner_uid (\<lambda>_. None) (demo_mailbox []) = Inl (OrphanUser ''alice'')"
    by (simp add: owner_uid_def owner_id_def validate_run_as_def demo_mailbox_def
        RESERVED_RUN_AS_ROOT_def RESERVED_RUN_AS_CATCHALL_def is_valid_system_username_def
        USERNAME_MAX_LEN_def byte_defs)
  from authorize_hides_owner [OF _ _ this, of 1000 "MailboxRead ''a''" "''a''"]
  show ?thesis by simp
qed

text \<open>
  two users never share a mailbox: if its owner resolves to one uid, every action on it
  by any other uid but root is refused.
\<close>

theorem authorize_isolates_users:
  assumes "owner_uid pw mb = Inr uid" "authorize pw uid' (MailboxRead name) (Some mb) = Inr ()"
  shows "uid' = 0 \<or> uid' = uid"
  using assms by (rule cli.isolation)

theorem authorize_isolates_users_witness:
  "\<exists>uid'. authorize demo_users uid' (MailboxRead ''alice'') (Some (demo_mailbox [])) = Inr () \<and>
     (uid' = 0 \<or> uid' = 1000)"
proof -
  have o: "owner_uid demo_users (demo_mailbox []) = Inr 1000"
    by (simp add: owner_uid_def owner_id_def validate_run_as_def demo_mailbox_def demo_users_def
        RESERVED_RUN_AS_ROOT_def RESERVED_RUN_AS_CATCHALL_def is_valid_system_username_def
        USERNAME_MAX_LEN_def byte_defs)
  have "authorize demo_users 1000 (MailboxRead ''alice'') (Some (demo_mailbox [])) = Inr ()"
    by (simp add: authorize_def authorize_mailbox_Inr o)
  with authorize_isolates_users [OF o this] show ?thesis by blast
qed

end
