(* ===== verification/UdsAuthz.thy ===== *)
theory UdsAuthz
  imports Auth WireCodec
begin

text \<open>
  Authorization on the Unix socket (\<open>src/uds_authz.rs\<close>): the caller's identity from the peer
  credentials, the ownership check by user name, and the opaque reason put on the wire.
  \<open>getpwuid\<close> is the C library's lookup: the parameter \<open>getpwuid\<close>. A decision is returned with the
  log line it writes (\<open>log_decision\<close>).
\<close>

definition lookup_username :: "(nat \<Rightarrow> string option) \<Rightarrow> nat \<Rightarrow> string option" where
  "lookup_username getpwuid uid = (if uid = 0 then Some ''root'' else getpwuid uid)"

definition peer_username :: "(nat \<Rightarrow> string option) \<Rightarrow> nat \<Rightarrow> string + string" where
  "peer_username getpwuid uid =
     (case lookup_username getpwuid uid of
        Some n \<Rightarrow> Inr n
      | None \<Rightarrow> Inl (''uid '' @ show_nat uid @ '' has no passwd entry''))"

datatype authz_decision = Accept | RootBypass

record authz_reject =
  ar_code :: err_code
  ar_reason :: string

definition no_username_reason :: "nat \<Rightarrow> string \<Rightarrow> string" where
  "no_username_reason uid mailbox_name =
     ''caller uid '' @ show_nat uid @
     '' has no resolvable username; cannot authorize against mailbox '' @
     [CHR 0x27] @ mailbox_name @ [CHR 0x27]"

definition not_owner_reason :: "string \<Rightarrow> string \<Rightarrow> string \<Rightarrow> string" where
  "not_owner_reason caller_name mailbox_name owner =
     ''caller '' @ [CHR 0x27] @ caller_name @ [CHR 0x27] @ '' is not the owner of mailbox '' @
     [CHR 0x27] @ mailbox_name @ [CHR 0x27] @ '' (owner: '' @ [CHR 0x27] @ owner @ [CHR 0x27] @ '')''"

definition require_mailbox_owner_or_root ::
  "(nat \<Rightarrow> string option) \<Rightarrow> nat \<Rightarrow> string \<Rightarrow> mailbox_config \<Rightarrow> authz_reject + authz_decision" where
  "require_mailbox_owner_or_root getpwuid uid mailbox_name mb =
     (if uid = 0 then Inr RootBypass
      else case lookup_username getpwuid uid of
          None \<Rightarrow> Inl \<lparr>ar_code = EEaccess, ar_reason = no_username_reason uid mailbox_name\<rparr>
        | Some caller_name \<Rightarrow>
            if caller_name = mb_owner mb then Inr Accept
            else Inl \<lparr>ar_code = EEaccess,
                      ar_reason = not_owner_reason caller_name mailbox_name (mb_owner mb)\<rparr>)"

datatype log_decision = LogAccept | LogRootBypass | LogReject

fun log_decision_as_str :: "log_decision \<Rightarrow> string" where
  "log_decision_as_str LogAccept = ''accept''"
| "log_decision_as_str LogRootBypass = ''root_bypass''"
| "log_decision_as_str LogReject = ''reject''"

record decision_log =
  dl_verb :: string
  dl_caller_uid :: nat
  dl_caller_username :: string
  dl_mailbox :: string
  dl_decision :: string
  dl_reason :: "string option"

text \<open>Only a rejection logs a reason.\<close>

definition log_decision ::
  "(nat \<Rightarrow> string option) \<Rightarrow> string \<Rightarrow> nat \<Rightarrow> string option \<Rightarrow> log_decision \<Rightarrow> string option \<Rightarrow> decision_log" where
  "log_decision getpwuid verb uid mailbox decision reason =
     \<lparr>dl_verb = verb, dl_caller_uid = uid,
      dl_caller_username = unwrap_or ''?'' (lookup_username getpwuid uid),
      dl_mailbox = unwrap_or [] mailbox, dl_decision = log_decision_as_str decision,
      dl_reason = (if decision = LogReject then Some (unwrap_or [] reason) else None)\<rparr>"

definition WIRE_REASON_NOT_AUTHORIZED :: string where
  "WIRE_REASON_NOT_AUTHORIZED = ''not authorized''"

definition enforce_mailbox_owner_or_root ::
  "(nat \<Rightarrow> string option) \<Rightarrow> string \<Rightarrow> nat \<Rightarrow> string \<Rightarrow> mailbox_config \<Rightarrow>
   (authz_reject + unit) \<times> decision_log" where
  "enforce_mailbox_owner_or_root getpwuid verb uid mailbox_name mb =
     (case require_mailbox_owner_or_root getpwuid uid mailbox_name mb of
        Inr Accept \<Rightarrow> (Inr (), log_decision getpwuid verb uid (Some mailbox_name) LogAccept None)
      | Inr RootBypass \<Rightarrow>
          (Inr (), log_decision getpwuid verb uid (Some mailbox_name) LogRootBypass None)
      | Inl reject \<Rightarrow>
          (Inl \<lparr>ar_code = ar_code reject, ar_reason = WIRE_REASON_NOT_AUTHORIZED\<rparr>,
           log_decision getpwuid verb uid (Some mailbox_name) LogReject (Some (ar_reason reject))))"

section \<open>Facts\<close>

definition uds_authorized :: "(nat \<Rightarrow> string option) \<Rightarrow> nat \<Rightarrow> mailbox_config \<Rightarrow> bool" where
  "uds_authorized getpwuid uid mb \<longleftrightarrow> uid = 0 \<or> getpwuid uid = Some (mb_owner mb)"

lemma enforce_Inr:
  "fst (enforce_mailbox_owner_or_root getpwuid verb uid name mb) = Inr () \<longleftrightarrow>
     uds_authorized getpwuid uid mb"
  by (auto simp: enforce_mailbox_owner_or_root_def require_mailbox_owner_or_root_def
      lookup_username_def uds_authorized_def split: option.splits)

lemma enforce_Inl:
  "fst (enforce_mailbox_owner_or_root getpwuid verb uid name mb) =
     (if uds_authorized getpwuid uid mb then Inr ()
      else Inl \<lparr>ar_code = EEaccess, ar_reason = WIRE_REASON_NOT_AUTHORIZED\<rparr>)"
  by (auto simp: enforce_mailbox_owner_or_root_def require_mailbox_owner_or_root_def
      lookup_username_def uds_authorized_def split: option.splits)

interpretation uds: owner_gate
  "\<lambda>uid mb. fst (enforce_mailbox_owner_or_root getpwuid verb uid name mb) = Inr ()"
  "\<lambda>uid mb. getpwuid uid = Some (mb_owner mb)" for getpwuid verb name
  by unfold_locales (auto simp: enforce_Inr uds_authorized_def)

text \<open>
  A password database in which \<open>getpwuid\<close> and \<open>getpwnam\<close> agree: an entry found by uid is the one
  found by name, and the other way round (no two names share a uid), and \<open>root\<close> is uid 0.
\<close>

definition passwd_consistent :: "user_db \<Rightarrow> (nat \<Rightarrow> string option) \<Rightarrow> bool" where
  "passwd_consistent pw getpwuid \<longleftrightarrow>
     (\<forall>uid n. getpwuid uid = Some n \<longleftrightarrow> (\<exists>u. pw n = Some u \<and> ru_uid u = uid)) \<and>
     (\<forall>u. pw RESERVED_RUN_AS_ROOT = Some u \<longrightarrow> ru_uid u = 0)"

text \<open>
  over a consistent password database and for a mailbox of a validated configuration, the
  socket's check by user name and the command line's check by uid let the same callers through,
  so neither surface is a way around the other.
\<close>

theorem socket_and_cli_agree:
  assumes "passwd_consistent pw getpwuid" "mailbox_ok cfg mb"
  shows "fst (enforce_mailbox_owner_or_root getpwuid verb uid name mb) = Inr () \<longleftrightarrow>
    authorize pw uid (HookCrud name) (Some mb) = Inr ()"
proof (cases "uid = 0")
  case True
  then show ?thesis by (simp add: enforce_Inr uds_authorized_def authorize_def)
next
  case False
  have "owner_uid pw mb = Inr uid \<longleftrightarrow> getpwuid uid = Some (mb_owner mb)"
  proof (cases "mb_owner mb = RESERVED_RUN_AS_ROOT")
    case True
    with assms(1) \<open>uid \<noteq> 0\<close> show ?thesis
      by (auto simp: owner_uid_def passwd_consistent_def)
  next
    case owner: False
    with assms show ?thesis
      by (auto simp: owner_uid_def owner_id_user passwd_consistent_def mailbox_ok_def)
  qed
  with False show ?thesis
    by (simp add: enforce_Inr uds_authorized_def authorize_def authorize_mailbox_Inr)
qed

definition demo_getpwuid :: "nat \<Rightarrow> string option" where
  "demo_getpwuid uid = (if uid = 1000 then Some ''alice'' else if uid = 1001 then Some ''bob'' else None)"

lemma demo_passwd: "passwd_consistent demo_users demo_getpwuid"
  by (auto simp: passwd_consistent_def demo_users_def demo_getpwuid_def RESERVED_RUN_AS_ROOT_def)

lemma demo_mailbox_ok: "mailbox_ok (demo_config hs) (demo_mailbox hs)"
proof -
  have "trim ''alice'' = ''alice''" by (rule trim_all_plain) (simp add: plain_byte_def code_def)
  moreover have "\<not> is_catchall (demo_config hs) (demo_mailbox hs)"
    by (simp add: is_catchall_def demo_config_def demo_mailbox_def eq_ignore_ascii_case_def)
      code_simp
  ultimately show ?thesis
    by (simp add: mailbox_ok_def demo_mailbox_def is_reserved_run_as_def RESERVED_RUN_AS_ROOT_def
        is_valid_system_username_def USERNAME_MAX_LEN_def byte_defs)
qed

theorem socket_and_cli_agree_witness:
  "fst (enforce_mailbox_owner_or_root demo_getpwuid ''SEND'' 1001 ''alice'' (demo_mailbox [])) \<noteq> Inr () \<and>
   authorize demo_users 1001 (HookCrud ''alice'') (Some (demo_mailbox [])) \<noteq> Inr ()"
  using socket_and_cli_agree [OF demo_passwd demo_mailbox_ok, of "''SEND''" 1001 "''alice''" "[]"]
  by (simp add: enforce_Inr uds_authorized_def demo_getpwuid_def demo_mailbox_def)

text \<open>
  the answer to a refused caller is one constant, whatever the mailbox, its owner and the
  caller's name; the reason that names them goes to the log alone.
\<close>

theorem refusal_is_opaque:
  "fst (enforce_mailbox_owner_or_root getpwuid verb uid name mb) \<in>
     {Inr (), Inl \<lparr>ar_code = EEaccess, ar_reason = ''not authorized''\<rparr>}"
  by (simp add: enforce_Inl WIRE_REASON_NOT_AUTHORIZED_def)

end
