(* ===== verification/MailboxCrud.thy ===== *)
theory MailboxCrud
  imports ConfigHandle UdsAuthz
begin

text \<open>
  MAILBOX-CREATE and MAILBOX-DELETE in the daemon (\<open>src/mailbox_handler.rs\<close>, with
  \<open>validate_mailbox_name\<close> and \<open>wipe_mailbox_contents\<close> of \<open>src/mailbox.rs\<close>, \<open>chown_as_owner\<close> of
  \<open>src/ownership.rs\<close> and \<open>write_atomic\<close> of \<open>src/config.rs\<close>).

  The file system holds for each path a node: its owner, mode and, for a directory, its entries
  (each with whether it is a directory). There are no symbolic links. \<open>faults op p\<close> is the
  error the operating system gives for an operation on a path, if it fails. The critical
  section runs under the mailbox's lock and the process-wide config lock and is one atomic step
  here. Log lines are not modelled; \<open>dbg\<close> is Rust's \<open>{:?}\<close> of a character.
\<close>

section \<open>File system\<close>

record fnode =
  fn_is_dir :: bool
  fn_uid :: nat
  fn_gid :: nat
  fn_mode :: nat
  fn_entries :: "(string \<times> bool) list"

type_synonym fsys = "string \<rightharpoonup> fnode"

datatype fs_op =
    StatOp | MkdirOp | ChownOp | ChmodOp | ReadDirOp | RemoveOp | WriteConfigOp
  | ReadOp | WriteOp | RenameOp | CreateOp

type_synonym faults = "fs_op \<Rightarrow> string \<Rightarrow> string option"

text \<open>\<open>create_dir_all\<close> by the daemon, which runs as root with umask 0o077 (\<open>serve.rs\<close>).\<close>

definition create_dir_all :: "faults \<Rightarrow> string \<Rightarrow> fsys \<Rightarrow> (string + unit) \<times> fsys" where
  "create_dir_all faults p fs =
     (case faults MkdirOp p of
        Some e \<Rightarrow> (Inl e, fs)
      | None \<Rightarrow>
          (case fs p of
             Some nd \<Rightarrow> if fn_is_dir nd then (Inr (), fs) else (Inl ''File exists'', fs)
           | None \<Rightarrow>
               (Inr (), fs(p \<mapsto> \<lparr>fn_is_dir = True, fn_uid = 0, fn_gid = 0, fn_mode = 0x1C0,
                                  fn_entries = []\<rparr>))))"

text \<open>\<open>remove_dir\<close>, which takes only an empty directory; every caller ignores its failure.\<close>

definition remove_dir :: "faults \<Rightarrow> string \<Rightarrow> fsys \<Rightarrow> fsys" where
  "remove_dir faults p fs =
     (case fs p of
        None \<Rightarrow> fs
      | Some nd \<Rightarrow>
          if faults RemoveOp p = None \<and> fn_is_dir nd \<and> fn_entries nd = [] then fs(p := None) else fs)"

definition chown_as_owner ::
  "user_db \<Rightarrow> faults \<Rightarrow> string \<Rightarrow> mailbox_config \<Rightarrow> nat \<Rightarrow> fsys \<Rightarrow> (string + unit) \<times> fsys" where
  "chown_as_owner pw faults p mb mode fs =
     (case owner_uid pw mb of
        Inl _ \<Rightarrow> (Inl (''resolve owner uid for '' @ mb_owner mb), fs)
      | Inr uid \<Rightarrow>
     (case owner_gid pw mb of
        Inl _ \<Rightarrow> (Inl (''resolve owner gid for '' @ mb_owner mb), fs)
      | Inr gid \<Rightarrow>
     (case faults ChownOp p of
        Some e \<Rightarrow> (Inl e, fs)
      | None \<Rightarrow>
     (case fs p of
        None \<Rightarrow> (Inl ''No such file or directory'', fs)
      | Some nd \<Rightarrow>
         (let fs1 = fs(p \<mapsto> nd\<lparr>fn_uid := uid, fn_gid := gid\<rparr>) in
          case faults ChmodOp p of
            Some e \<Rightarrow> (Inl e, fs1)
          | None \<Rightarrow> (Inr (), fs1(p \<mapsto> nd\<lparr>fn_uid := uid, fn_gid := gid, fn_mode := mode\<rparr>)))))))"

text \<open>The loop of \<open>wipe_mailbox_contents\<close>: what is left of the entries, and the first error.\<close>

fun wipe_entries ::
  "faults \<Rightarrow> string \<Rightarrow> (string \<times> bool) list \<Rightarrow> (string + unit) \<times> (string \<times> bool) list" where
  "wipe_entries faults dir [] = (Inr (), [])"
| "wipe_entries faults dir ((name, is_dir) # es) =
     (case faults RemoveOp (join_path dir name) of
        Some e \<Rightarrow> (Inl e, (name, is_dir) # es)
      | None \<Rightarrow> wipe_entries faults dir es)"

definition wipe_mailbox_contents :: "faults \<Rightarrow> string \<Rightarrow> fsys \<Rightarrow> (string + unit) \<times> fsys" where
  "wipe_mailbox_contents faults dir fs =
     (case fs dir of
        None \<Rightarrow> (Inr (), fs)
      | Some nd \<Rightarrow>
          (case faults ReadDirOp dir of
             Some e \<Rightarrow> (Inl e, fs)
           | None \<Rightarrow>
               if \<not> fn_is_dir nd then (Inl ''Not a directory'', fs)
               else (case wipe_entries faults dir (fn_entries nd) of
                   (r, left) \<Rightarrow> (r, fs(dir \<mapsto> nd\<lparr>fn_entries := left\<rparr>)))))"

definition wipe_mailbox_dirs :: "faults \<Rightarrow> string \<Rightarrow> string \<Rightarrow> fsys \<Rightarrow> (string + unit) \<times> fsys" where
  "wipe_mailbox_dirs faults inbox sent fs =
     (case wipe_mailbox_contents faults inbox fs of
        (Inl e, fs1) \<Rightarrow> (Inl e, fs1)
      | (Inr _, fs1) \<Rightarrow> wipe_mailbox_contents faults sent fs1)"

definition count_files_if_exists :: "faults \<Rightarrow> string \<Rightarrow> fsys \<Rightarrow> nat" where
  "count_files_if_exists faults dir fs =
     (case fs dir of
        None \<Rightarrow> 0
      | Some nd \<Rightarrow>
          if faults ReadDirOp dir = None \<and> fn_is_dir nd then length (fn_entries nd) else 0)"

section \<open>Names\<close>

datatype mailbox_name_error =
    NameEmpty | NameDotDot | NameEdgeDot | NameReserved string | NameInvalidChar string

definition mailbox_name_char :: "string \<Rightarrow> bool" where
  "mailbox_name_char c \<longleftrightarrow>
     (case c of
        [b] \<Rightarrow> is_ascii_lowercase b \<or> is_ascii_digit b \<or> b = CHR ''.'' \<or> b = CHR ''_'' \<or> b = CHR ''-''
      | _ \<Rightarrow> False)"

definition validate_mailbox_name :: "string \<Rightarrow> mailbox_name_error + unit" where
  "validate_mailbox_name name =
     (if name = [] then Inl NameEmpty
      else if contains name ''..'' then Inl NameDotDot
      else if starts_with name ''.'' \<or> ends_with name ''.'' then Inl NameEdgeDot
      else if name = ''catchall'' \<or> name = ''aimx-catchall'' then Inl (NameReserved name)
      else case find (\<lambda>c. \<not> mailbox_name_char c) (utf8_chars name) of
          Some c \<Rightarrow> Inl (NameInvalidChar c)
        | None \<Rightarrow> Inr ())"

definition quote :: "string \<Rightarrow> string" where
  "quote s = [CHR 0x27] @ s @ [CHR 0x27]"

fun name_error_message :: "(string \<Rightarrow> string) \<Rightarrow> mailbox_name_error \<Rightarrow> string" where
  "name_error_message dbg NameEmpty = ''Mailbox name cannot be empty''"
| "name_error_message dbg NameDotDot = ''Mailbox name cannot contain '' @ quote ''..''"
| "name_error_message dbg NameEdgeDot = ''Mailbox name cannot start or end with '' @ quote ''.''"
| "name_error_message dbg (NameReserved name) =
     ''Mailbox name '' @ quote name @ '' is reserved for the wildcard catchall slot''"
| "name_error_message dbg (NameInvalidChar c) =
     ''Mailbox name contains invalid character '' @ dbg c @ ''; allowed: [a-z0-9._-]''"

section \<open>The handler's world\<close>

text \<open>The file system, the live configuration and the one on disk.\<close>

record mailbox_world =
  mw_fs :: fsys
  mw_handle :: config_handle
  mw_disk :: config

definition write_config_atomic ::
  "faults \<Rightarrow> string \<Rightarrow> config \<Rightarrow> mailbox_world \<Rightarrow> (string + unit) \<times> mailbox_world" where
  "write_config_atomic faults path cfg w =
     (case faults WriteConfigOp path of
        Some e \<Rightarrow> (Inl e, w)
      | None \<Rightarrow> (Inr (), w\<lparr>mw_disk := cfg\<rparr>))"

definition no_such_mailbox_reason :: "string \<Rightarrow> string" where
  "no_such_mailbox_reason name = ''mailbox '' @ quote name @ '' does not exist''"

definition not_authorized_wire_reason :: string where
  "not_authorized_wire_reason = ''not authorized''"

definition new_mailbox :: "config \<Rightarrow> string \<Rightarrow> string \<Rightarrow> mailbox_config" where
  "new_mailbox cfg name owner =
     \<lparr>mb_address = name @ ''@'' @ cfg_domain cfg, mb_owner = owner, mb_hooks = [], mb_trust = None,
      mb_trusted_senders = None, mb_allow_root_catchall = False\<rparr>"

definition resolve_owner_ids :: "user_db \<Rightarrow> string \<Rightarrow> string + nat \<times> nat" where
  "resolve_owner_ids pw owner =
     (let mb = \<lparr>mb_address = [], mb_owner = owner, mb_hooks = [], mb_trust = None,
                mb_trusted_senders = None, mb_allow_root_catchall = False\<rparr>
      in case owner_uid pw mb of
           Inl _ \<Rightarrow> Inl (''unknown owner '' @ quote owner)
         | Inr uid \<Rightarrow>
             (case owner_gid pw mb of
                Inl _ \<Rightarrow> Inl (''unknown owner '' @ quote owner)
              | Inr gid \<Rightarrow> Inr (uid, gid)))"

definition ids :: "nat \<Rightarrow> nat \<Rightarrow> string" where
  "ids uid gid = show_nat uid @ '':'' @ show_nat gid"

definition preexisting_dir_check ::
  "faults \<Rightarrow> nat \<Rightarrow> nat \<Rightarrow> fsys \<Rightarrow> string \<Rightarrow> ack_response option" where
  "preexisting_dir_check faults uid gid fs dir =
     (case faults StatOp dir of
        Some e \<Rightarrow> Some (AckErr EIo (''stat '' @ dir @ '' failed: '' @ e))
      | None \<Rightarrow>
          (case fs dir of
             None \<Rightarrow> None
           | Some nd \<Rightarrow>
               if \<not> fn_is_dir nd then
                 Some (AckErr EConflict
                   (dir @ '' exists but is not a directory; remove it before creating the mailbox''))
               else if fn_uid nd \<noteq> uid \<or> fn_gid nd \<noteq> gid then
                 Some (AckErr EConflict
                   (dir @ '' already exists with owner '' @ ids (fn_uid nd) (fn_gid nd) @
                    '', expected '' @ ids uid gid @ ''; run '' @ [CHR 0x60] @ ''chown -R '' @ ids uid gid @ '' '' @ dir @
                    [CHR 0x60] @ '' (and the matching sibling) and retry''))
               else None))"

definition check_preexisting_dirs ::
  "faults \<Rightarrow> string \<Rightarrow> string \<Rightarrow> nat \<Rightarrow> nat \<Rightarrow> fsys \<Rightarrow> ack_response option" where
  "check_preexisting_dirs faults inbox sent uid gid fs =
     (case preexisting_dir_check faults uid gid fs inbox of
        Some r \<Rightarrow> Some r
      | None \<Rightarrow> preexisting_dir_check faults uid gid fs sent)"

definition rollback_self_created_dirs ::
  "faults \<Rightarrow> string \<Rightarrow> bool \<Rightarrow> string \<Rightarrow> bool \<Rightarrow> fsys \<Rightarrow> fsys" where
  "rollback_self_created_dirs faults inbox inbox_existed sent sent_existed fs =
     (let fs1 = (if \<not> inbox_existed then remove_dir faults inbox fs else fs) in
      if \<not> sent_existed then remove_dir faults sent fs1 else fs1)"

end
