(* ===== verification/MailTree.thy ===== *)
theory MailTree
  imports MailboxCrud Paths
begin

text \<open>
  The tree of mail files as the daemon's writers see it: for each path what \<open>lstat\<close> finds there,
  links included, and the system calls the writers make (\<open>fs::write\<close>, \<open>create_dir_all\<close>,
  \<open>chown_as_owner\<close> of \<open>src/ownership.rs\<close>). \<open>faults\<close> is as in \<open>MailboxCrud\<close>. Owner and mode of a
  directory are not in this tree.
\<close>

record mail_file =
  mf_data :: bytes
  mf_uid :: nat
  mf_gid :: nat
  mf_mode :: nat

text \<open>A link carries the path it names.\<close>

datatype inode = Regular mail_file | Directory | Symlink string | Special

type_synonym mail_tree = "string \<rightharpoonup> inode"

datatype lstat_result = LstatOk inode | LstatNotFound | LstatErr string

definition lstat :: "faults \<Rightarrow> mail_tree \<Rightarrow> string \<Rightarrow> lstat_result" where
  "lstat faults t p =
     (case faults StatOp p of
        Some e \<Rightarrow> LstatErr e
      | None \<Rightarrow> (case t p of None \<Rightarrow> LstatNotFound | Some i \<Rightarrow> LstatOk i))"

text \<open>\<open>Path::starts_with\<close>: by components.\<close>

definition path_starts_with :: "string \<Rightarrow> string \<Rightarrow> bool" where
  "path_starts_with p q \<longleftrightarrow>
     (let cs = (\<lambda>s. filter (\<lambda>c. c \<noteq> [] \<and> c \<noteq> ''.'') (path_components s)) in
      is_absolute p = is_absolute q \<and> take (length (cs q)) (cs p) = cs q)"

text \<open>
  \<open>open\<close>, \<open>chown\<close> and \<open>chmod\<close> follow a link in the last component of the path, up to the
  kernel's limit; \<open>rename\<close> and \<open>unlink\<close> do not.
\<close>

definition MAX_LINKS :: nat where "MAX_LINKS = 40"

fun follow :: "nat \<Rightarrow> mail_tree \<Rightarrow> string \<Rightarrow> string option" where
  "follow n t p =
     (case t p of
        Some (Symlink q) \<Rightarrow> (case n of 0 \<Rightarrow> None | Suc m \<Rightarrow> follow m t q)
      | _ \<Rightarrow> Some p)"

declare follow.simps [simp del]

text \<open>
  \<open>fs::write\<close>: it truncates a file that is there and keeps its owner and mode; one it creates is
  root's, under the daemon's umask. What goes to a device is not in the tree.
\<close>

definition fs_write :: "faults \<Rightarrow> string \<Rightarrow> bytes \<Rightarrow> mail_tree \<Rightarrow> string + mail_tree" where
  "fs_write faults p bs t =
     (case faults WriteOp p of
        Some e \<Rightarrow> Inl e
      | None \<Rightarrow>
          (case follow MAX_LINKS t p of
             None \<Rightarrow> Inl ''Too many levels of symbolic links''
           | Some q \<Rightarrow>
               (case t q of
                  None \<Rightarrow> Inr (t(q \<mapsto> Regular \<lparr>mf_data = bs, mf_uid = 0, mf_gid = 0, mf_mode = 0x180\<rparr>))
                | Some (Regular f) \<Rightarrow> Inr (t(q \<mapsto> Regular (f\<lparr>mf_data := bs\<rparr>)))
                | Some Special \<Rightarrow> Inr t
                | Some _ \<Rightarrow> Inl ''Is a directory'')))"

definition set_meta :: "mail_tree \<Rightarrow> string \<Rightarrow> (mail_file \<Rightarrow> mail_file) \<Rightarrow> mail_tree" where
  "set_meta t p g =
     (case follow MAX_LINKS t p of
        None \<Rightarrow> t
      | Some q \<Rightarrow> (case t q of Some (Regular f) \<Rightarrow> t(q \<mapsto> Regular (g f)) | _ \<Rightarrow> t))"

text \<open>
  \<open>chown_as_owner\<close> on a path of the tree; every caller here only logs a failure. \<open>chown(2)\<close> and
  \<open>chmod(2)\<close> follow links.
\<close>

definition chown_owned ::
  "user_db \<Rightarrow> faults \<Rightarrow> string \<Rightarrow> mailbox_config \<Rightarrow> nat \<Rightarrow> mail_tree \<Rightarrow> mail_tree" where
  "chown_owned pw faults p mb mode t =
     (case (owner_uid pw mb, owner_gid pw mb) of
        (Inr uid, Inr gid) \<Rightarrow>
          if faults ChownOp p \<noteq> None then t
          else if faults ChmodOp p \<noteq> None
          then set_meta t p (\<lambda>f. f\<lparr>mf_uid := uid, mf_gid := gid\<rparr>)
          else set_meta t p (\<lambda>f. f\<lparr>mf_uid := uid, mf_gid := gid, mf_mode := mode\<rparr>)
      | _ \<Rightarrow> t)"

text \<open>\<open>Path::exists\<close> and \<open>Path::is_dir\<close>, which follow links.\<close>

definition path_exists :: "mail_tree \<Rightarrow> string \<Rightarrow> bool" where
  "path_exists t p \<longleftrightarrow> (case follow MAX_LINKS t p of None \<Rightarrow> False | Some q \<Rightarrow> t q \<noteq> None)"

definition path_is_dir :: "mail_tree \<Rightarrow> string \<Rightarrow> bool" where
  "path_is_dir t p \<longleftrightarrow>
     (case follow MAX_LINKS t p of None \<Rightarrow> False | Some q \<Rightarrow> t q = Some Directory)"

text \<open>\<open>create_dir_all\<close> where the parent is there: a link that leads nowhere is in the way.\<close>

definition tree_mkdir :: "faults \<Rightarrow> string \<Rightarrow> mail_tree \<Rightarrow> string + mail_tree" where
  "tree_mkdir faults p t =
     (case faults MkdirOp p of
        Some e \<Rightarrow> Inl e
      | None \<Rightarrow>
          if path_is_dir t p then Inr t
          else if t p = None then Inr (t(p \<mapsto> Directory)) else Inl ''File exists'')"

section \<open>Facts\<close>

text \<open>Writing a file keeps every link and every path but the written one.\<close>

lemma follow_result: "follow n t p = Some q \<Longrightarrow> t q \<noteq> Some (Symlink r)"
  by (induction n arbitrary: p; subst (asm) follow.simps)
    (auto split: option.splits inode.splits)

lemma follow_update:
  "\<forall>r. t q \<noteq> Some (Symlink r) \<Longrightarrow> follow n (t(q \<mapsto> Regular f)) p = follow n t p"
  by (induction n arbitrary: p)
    (subst (1 2) follow.simps, auto split: option.splits inode.splits)+

lemma fs_write_Inr:
  assumes "fs_write faults p bs t = Inr t'"
  shows "\<exists>q. follow MAX_LINKS t p = Some q \<and>
    (t' = t \<or> (\<exists>f. t' = t(q \<mapsto> Regular f) \<and> (\<forall>r. t q \<noteq> Some (Symlink r))))"
  using assms by (auto simp: fs_write_def split: option.splits inode.splits)

lemma set_meta_cases:
  "set_meta t p g = t \<or> (\<exists>q f. follow MAX_LINKS t p = Some q \<and> set_meta t p g = t(q \<mapsto> Regular f))"
  by (auto simp: set_meta_def split: option.splits inode.splits)

lemma chown_owned_cases:
  "chown_owned pw faults p mb mode t = t \<or>
     (\<exists>q f. follow MAX_LINKS t p = Some q \<and> chown_owned pw faults p mb mode t = t(q \<mapsto> Regular f))"
  using set_meta_cases [of t p] by (auto simp: chown_owned_def split: sum.splits)

lemma written_owned:
  assumes "fs_write faults p bs t = Inr t1"
  shows "\<exists>q. follow MAX_LINKS t p = Some q \<and> (\<forall>x. x \<noteq> q \<longrightarrow> chown_owned pw fl p mb mode t1 x = t x)"
proof -
  from fs_write_Inr [OF assms] obtain q where q: "follow MAX_LINKS t p = Some q"
    and t1: "t1 = t \<or> (\<exists>f. t1 = t(q \<mapsto> Regular f) \<and> (\<forall>r. t q \<noteq> Some (Symlink r)))" by blast
  then have "follow MAX_LINKS t1 p = Some q" by (auto simp: follow_update)
  with q t1 chown_owned_cases [of pw fl p mb mode t1] show ?thesis by (intro exI [of _ q]) auto
qed

lemma follow_one:
  assumes "t p = Some (Symlink q)" "\<forall>r. t q \<noteq> Some (Symlink r)"
  shows "follow MAX_LINKS t p = Some q"
proof -
  have "follow (Suc n) t p = Some q" for n
    using assms by (subst follow.simps, simp, subst follow.simps) (auto split: option.splits inode.splits)
  then show ?thesis by (simp add: MAX_LINKS_def eval_nat_numeral)
qed

end
