(* ===== verification/IngestDedup.thy ===== *)
theory IngestDedup
  imports MailTree
begin

text \<open>
  The Message-Id cache of a mailbox (\<open>src/ingest.rs\<close>, \<open>build_dedup_cache_from_disk\<close> and its
  helpers; \<open>MailboxState::seen_message_ids\<close> of \<open>src/mailbox_locks.rs\<close>).

  The store itself is the crate \<open>sparkv\<close>: the record \<open>kv_ops\<close> of its operations over a type
  \<open>'kv\<close>, which read the clock (whole seconds here). \<open>chrono\<close>'s date parsing and formatting and the order in
  which a directory is listed are parameters too.
\<close>

record 'kv kv_ops =
  kv_new :: 'kv
  kv_contains :: "nat \<Rightarrow> 'kv \<Rightarrow> string \<Rightarrow> bool"
  kv_set :: "nat \<Rightarrow> 'kv \<Rightarrow> string \<Rightarrow> string \<Rightarrow> nat \<Rightarrow> 'kv option"

definition DEDUP_TTL :: nat where "DEDUP_TTL = 24 * 60 * 60"

definition DEDUP_MAX_VALUE_SIZE :: nat where "DEDUP_MAX_VALUE_SIZE = 256"

definition HEAD_BYTES :: nat where "HEAD_BYTES = 16 * 1024"

section \<open>The two keys of a stored mail\<close>

definition parse_toml_string_value :: "string \<Rightarrow> string option" where
  "parse_toml_string_value after_key =
     (case strip_prefix (trim_start after_key) ''='' of
        None \<Rightarrow> None
      | Some r \<Rightarrow>
          (case strip_prefix (trim_start r) [CHR 0x22] of
             None \<Rightarrow> None
           | Some v \<Rightarrow> (if CHR 0x22 \<in> set v then Some (takeWhile (\<lambda>c. c \<noteq> CHR 0x22) v) else None)))"

definition key_value :: "string \<Rightarrow> string \<Rightarrow> string option" where
  "key_value key line =
     (case strip_prefix line key of None \<Rightarrow> None | Some r \<Rightarrow> parse_toml_string_value r)"

text \<open>The loop over the lines of the block, ended once both keys are found.\<close>

fun id_pair_loop ::
  "string list \<Rightarrow> string option \<Rightarrow> string option \<Rightarrow> string option \<times> string option" where
  "id_pair_loop [] message_id received_at = (message_id, received_at)"
| "id_pair_loop (raw_line # ls) message_id received_at =
     (let line = trim_start raw_line;
          (m, r) =
            (if message_id = None \<and> key_value ''message_id'' line \<noteq> None
             then (key_value ''message_id'' line, received_at)
             else if received_at = None \<and> key_value ''received_at'' line \<noteq> None
             then (message_id, key_value ''received_at'' line)
             else (message_id, received_at))
      in if m \<noteq> None \<and> r \<noteq> None then (m, r) else id_pair_loop ls m r)"

text \<open>\<open>str::find\<close> of a string, as what stands before it.\<close>

fun before_str :: "string \<Rightarrow> string \<Rightarrow> string option" where
  "before_str p [] = (if p = [] then Some [] else None)"
| "before_str p (c # s) =
     (if starts_with (c # s) p then Some [] else map_option ((#) c) (before_str p s))"

definition toml_block :: "string \<Rightarrow> string option" where
  "toml_block head =
     (case (case strip_prefix head (''+++'' @ [LF]) of
              Some b \<Rightarrow> Some b
            | None \<Rightarrow> strip_prefix head (''+++'' @ [CR, LF])) of
        None \<Rightarrow> None
      | Some b \<Rightarrow>
          (case before_str (LF # ''+++'') b of
             Some blk \<Rightarrow> Some blk
           | None \<Rightarrow> before_str (CR # LF # ''+++'') b))"

text \<open>On the file's bytes: one \<open>read\<close> fills the buffer as far as the file goes.\<close>

definition read_frontmatter_id_pair ::
  "(string \<Rightarrow> int option) \<Rightarrow> bytes \<Rightarrow> (string \<times> int) option" where
  "read_frontmatter_id_pair parse_rfc3339 bs =
     (let head = take HEAD_BYTES bs in
      if \<not> valid_utf8 head then None
      else case toml_block head of
          None \<Rightarrow> None
        | Some blk \<Rightarrow>
            (case id_pair_loop (lines blk) None None of
               (Some msg_id, Some received_at) \<Rightarrow>
                 if msg_id = [] then None
                 else map_option (Pair msg_id) (parse_rfc3339 received_at)
             | _ \<Rightarrow> None))"

section \<open>Rebuilding the cache\<close>

text \<open>\<open>str\<close>'s order is that of the bytes.\<close>

fun bytes_less :: "string \<Rightarrow> string \<Rightarrow> bool" where
  "bytes_less _ [] = False"
| "bytes_less [] (_ # _) = True"
| "bytes_less (a # as) (b # bs) \<longleftrightarrow> code a < code b \<or> (a = b \<and> bytes_less as bs)"

definition char_boundary :: "string \<Rightarrow> nat \<Rightarrow> bool" where
  "char_boundary s n \<longleftrightarrow> n = length s \<or> (n < length s \<and> \<not> cont_byte (s ! n))"

record disk =
  dk_list :: "string \<Rightarrow> string list option"
  dk_is_dir :: "string \<Rightarrow> bool"
  dk_read :: "string \<Rightarrow> bytes option"

datatype entry_verdict = EntryPanics | EntrySkipped | EntryLive string nat

text \<open>
  One directory entry: the message id and its remaining seconds, where it still counts. The
  comparison of the first ten bytes slices the name, which panics inside a character.
\<close>

definition entry_verdict ::
  "(string \<Rightarrow> int option) \<Rightarrow> disk \<Rightarrow> nat \<Rightarrow> string \<Rightarrow> string \<Rightarrow> string \<Rightarrow> entry_verdict" where
  "entry_verdict parse_rfc3339 d now cutoff dir name =
     (if \<not> valid_utf8 name then EntrySkipped
      else if length name \<ge> 10 \<and> \<not> char_boundary name 10 then EntryPanics
      else if length name \<ge> 10 \<and> bytes_less (take 10 name) cutoff then EntrySkipped
      else
       (let path = join_path dir name;
            md_path = (if dk_is_dir d path then Some (join_path path (name @ ''.md''))
                       else if ends_with name ''.md'' then Some path else None)
        in case md_path of
             None \<Rightarrow> EntrySkipped
           | Some p \<Rightarrow>
               (case dk_read d p of
                  None \<Rightarrow> EntrySkipped
                | Some bs \<Rightarrow>
                    (case read_frontmatter_id_pair parse_rfc3339 bs of
                       None \<Rightarrow> EntrySkipped
                     | Some (msg_id, received_at) \<Rightarrow>
                         (let elapsed = int now - received_at in
                          if elapsed \<ge> int DEDUP_TTL then EntrySkipped
                          else EntryLive msg_id (max 1 (nat (int DEDUP_TTL - elapsed))))))))"

text \<open>\<open>cutoff\<close> is the day \<open>DEDUP_TTL\<close> ago. \<open>None\<close>: the scan panicked.\<close>

fun dedup_loop ::
  "'kv kv_ops \<Rightarrow> (string \<Rightarrow> entry_verdict) \<Rightarrow> nat \<Rightarrow> string list \<Rightarrow> 'kv \<Rightarrow> 'kv option" where
  "dedup_loop ops verdict now [] kv = Some kv"
| "dedup_loop ops verdict now (name # ns) kv =
     (case verdict name of
        EntryPanics \<Rightarrow> None
      | EntrySkipped \<Rightarrow> dedup_loop ops verdict now ns kv
      | EntryLive msg_id ttl \<Rightarrow>
          dedup_loop ops verdict now ns
            (case kv_set ops now kv msg_id ''loaded'' ttl of None \<Rightarrow> kv | Some kv' \<Rightarrow> kv'))"

definition build_dedup_cache_from_disk ::
  "'kv kv_ops \<Rightarrow> (string \<Rightarrow> int option) \<Rightarrow> (nat \<Rightarrow> string) \<Rightarrow> disk \<Rightarrow> nat \<Rightarrow> string \<Rightarrow> 'kv option" where
  "build_dedup_cache_from_disk ops parse_rfc3339 day d now dir =
     (case dk_list d dir of
        None \<Rightarrow> Some (kv_new ops)
      | Some names \<Rightarrow>
          dedup_loop ops
            (entry_verdict parse_rfc3339 d now (day (now - DEDUP_TTL)) dir)
            now names (kv_new ops))"

end
