(* ===== verification/Names.thy ===== *)
theory Names
  imports HookFire
begin

text \<open>
  The names mail is stored under (\<open>src/slug.rs\<close>; \<open>sanitize_attachment_filename\<close> and
  \<open>deduplicate_filename\<close> of \<open>src/ingest.rs\<close>): the slug of a subject, the search for a free
  stem, and the file names of attachments, which the sender chooses.

  NFC normalization is a crate; lower case and \<open>is_alphanumeric\<close> come from the Unicode tables:
  the parameters \<open>nfc\<close>, \<open>lower\<close> and \<open>alnum\<close>. A string built character by character is a list of
  characters here, each its UTF-8 bytes. \<open>taken p\<close> is \<open>Path::exists\<close>.
\<close>

section \<open>Slugs\<close>

definition SLUG_MAX_LEN :: nat where "SLUG_MAX_LEN = 20"

definition SLUG_EMPTY_FALLBACK :: string where "SLUG_EMPTY_FALLBACK = ''no-subject''"

text \<open>Both loops replace runs of bad characters by one separator; \<open>was\<close> is the last-was flag.\<close>

fun collapse :: "string \<Rightarrow> (string \<Rightarrow> bool) \<Rightarrow> bool \<Rightarrow> string list \<Rightarrow> string list" where
  "collapse sep bad was [] = []"
| "collapse sep bad was (ch # cs) =
     (if bad ch then if was then collapse sep bad True cs else sep # collapse sep bad True cs
      else ch # collapse sep bad False cs)"

definition trim_chars_end :: "(string \<Rightarrow> bool) \<Rightarrow> string list \<Rightarrow> string list" where
  "trim_chars_end P cs = rev (dropWhile P (rev cs))"

definition trim_chars :: "(string \<Rightarrow> bool) \<Rightarrow> string list \<Rightarrow> string list" where
  "trim_chars P cs = trim_chars_end P (dropWhile P cs)"

definition slug_chars ::
  "(string \<Rightarrow> string) \<Rightarrow> (string \<Rightarrow> string) \<Rightarrow> (string \<Rightarrow> bool) \<Rightarrow> string \<Rightarrow> string list" where
  "slug_chars nfc lower alnum subject =
     (let out = collapse ''-'' (\<lambda>ch. \<not> alnum ch) False (utf8_chars (lower (nfc subject)));
          trimmed = trim_chars (\<lambda>ch. ch = ''-'') out
      in trim_chars_end (\<lambda>ch. ch = ''-'') (take SLUG_MAX_LEN trimmed))"

definition slugify ::
  "(string \<Rightarrow> string) \<Rightarrow> (string \<Rightarrow> string) \<Rightarrow> (string \<Rightarrow> bool) \<Rightarrow> string \<Rightarrow> string" where
  "slugify nfc lower alnum subject =
     (let truncated = concat (slug_chars nfc lower alnum subject) in
      if truncated = [] then SLUG_EMPTY_FALLBACK else truncated)"

section \<open>The search for a free name\<close>

text \<open>The loop over the suffixes, which ends only if a name is free.\<close>

partial_function (option) first_free :: "(nat \<Rightarrow> bool) \<Rightarrow> nat \<Rightarrow> nat option" where
  "first_free used n = (if used n then first_free used (Suc n) else Some n)"

declare first_free.simps [code]

definition stem_candidate :: "string \<Rightarrow> nat \<Rightarrow> string" where
  "stem_candidate base_stem n =
     (if n = 1 then base_stem else base_stem @ ''-'' @ show_nat n)"

text \<open>
  \<open>timestamp\<close> is \<open>format_timestamp\<close>'s result. The path is returned as its directory and its file
  name.
\<close>

definition allocate_filename ::
  "(string \<Rightarrow> bool) \<Rightarrow> string \<Rightarrow> string \<Rightarrow> string \<Rightarrow> bool \<Rightarrow> (string \<times> string) option" where
  "allocate_filename taken dir timestamp slug has_attachments =
     (let base_stem = timestamp @ ''-'' @ slug; stem = stem_candidate base_stem in
      if has_attachments
      then map_option (\<lambda>n. (join_path dir (stem n), stem n @ ''.md''))
             (first_free (\<lambda>n. taken (join_path dir (stem n))) 1)
      else map_option (\<lambda>n. (dir, stem n @ ''.md''))
             (first_free (\<lambda>n. taken (join_path dir (stem n @ ''.md'')) \<or> taken (join_path dir (stem n))) 1))"

section \<open>Attachment names\<close>

definition ATTACHMENT_FILENAME_MAX_BYTES :: nat where "ATTACHMENT_FILENAME_MAX_BYTES = 200"

text \<open>\<open>char::is_control\<close>: C0, DEL and C1.\<close>

definition is_control :: "string \<Rightarrow> bool" where
  "is_control ch \<longleftrightarrow>
     (case ch of
        [c] \<Rightarrow> code c < 32 \<or> code c = 127
      | [b, c] \<Rightarrow> code b = 0xC2 \<and> 0x80 \<le> code c \<and> code c \<le> 0x9F
      | _ \<Rightarrow> False)"

text \<open>U+200B to U+200F, U+202A to U+202E, U+2066 to U+2069 and U+FEFF.\<close>

definition is_invisible :: "string \<Rightarrow> bool" where
  "is_invisible ch \<longleftrightarrow>
     (case map code ch of
        [a, b, c] \<Rightarrow>
          (a = 0xE2 \<and> b = 0x80 \<and> (0x8B \<le> c \<and> c \<le> 0x8F \<or> 0xAA \<le> c \<and> c \<le> 0xAE)) \<or>
          (a = 0xE2 \<and> b = 0x81 \<and> 0xA6 \<le> c \<and> c \<le> 0xA9) \<or>
          (a = 0xEF \<and> b = 0xBB \<and> c = 0xBF)
      | _ \<Rightarrow> False)"

definition is_filename_unsafe :: "string \<Rightarrow> bool" where
  "is_filename_unsafe ch \<longleftrightarrow>
     ch = ''/'' \<or> ch = [CHR 0x5C] \<or> ch = [CHR 0x00] \<or> is_control ch \<or> is_invisible ch"

definition filename_trim :: "string \<Rightarrow> bool" where
  "filename_trim ch \<longleftrightarrow> ch \<in> set white_space \<or> ch = ''.'' \<or> ch = ''-'' \<or> ch = ''_''"

text \<open>The longest prefix of at most so many bytes: the search for a character boundary.\<close>

fun take_bytes :: "nat \<Rightarrow> string list \<Rightarrow> string list" where
  "take_bytes n [] = []"
| "take_bytes n (ch # cs) = (if length ch \<le> n then ch # take_bytes (n - length ch) cs else [])"

definition sanitized_chars :: "(string \<Rightarrow> string) \<Rightarrow> string \<Rightarrow> string list" where
  "sanitized_chars nfc raw =
     (let base = (case file_name raw of None \<Rightarrow> [] | Some f \<Rightarrow> f);
          out = collapse ''_'' is_filename_unsafe False (utf8_chars (nfc base));
          trimmed = trim_chars filename_trim out
      in if length (concat trimmed) > ATTACHMENT_FILENAME_MAX_BYTES
         then trim_chars_end filename_trim (take_bytes ATTACHMENT_FILENAME_MAX_BYTES trimmed)
         else trimmed)"

definition sanitize_attachment_filename :: "(string \<Rightarrow> string) \<Rightarrow> string \<Rightarrow> nat \<Rightarrow> string" where
  "sanitize_attachment_filename nfc raw index =
     (let trimmed = concat (sanitized_chars nfc raw) in
      if trimmed = [] then ''attachment-'' @ show_nat index else trimmed)"

definition dedup_candidate :: "string \<Rightarrow> nat \<Rightarrow> string" where
  "dedup_candidate filename i =
     (let stem = (if file_name filename = None then filename else file_stem filename) in
      stem @ ''-'' @ show_nat i @
        (case path_extension filename of None \<Rightarrow> [] | Some e \<Rightarrow> ''.'' @ e))"

definition deduplicate_filename :: "(string \<Rightarrow> bool) \<Rightarrow> string \<Rightarrow> string \<Rightarrow> string option" where
  "deduplicate_filename taken dir filename =
     (if \<not> taken (join_path dir filename) then Some filename
      else map_option (dedup_candidate filename)
             (first_free (\<lambda>i. taken (join_path dir (dedup_candidate filename i))) 1))"

end
