(* ===== verification/Ingest.thy ===== *)
theory Ingest
  imports IngestAuth IngestDedup Names SmtpRead
begin

text \<open>
  Storing an inbound mail (\<open>src/ingest.rs\<close>, \<open>ingest_email\<close>): routing, metadata, trust, the
  Message-Id cache, the file name, attachments, the mail file and the hooks.

  Parameters of the record \<open>ingest_env\<close>: the MIME parser (the crate \<open>mail_parser\<close>, whose result
  is the record \<open>parsed_mail\<close>), the verifiers, \<open>html2text\<close>, NFC, the TOML serializer, SHA-256,
  glob matching, Unicode's tables, the formats of the clock, and the order of a directory
  listing. The clock is read several times by the source and once per mail here (\<open>now\<close>, in
  seconds). The section under the mailbox's lock is one atomic step. Log lines are not modelled.
\<close>

section \<open>The parsed message\<close>

type_synonym mail_addr = "string option \<times> string option"

record mail_attachment =
  ma_name :: "string option"
  ma_ctype :: "(string \<times> string option) option"
  ma_contents :: bytes

record parsed_mail =
  pm_from :: "mail_addr list"
  pm_to :: "mail_addr list"
  pm_cc :: "mail_addr list"
  pm_reply_to :: "mail_addr list"
  pm_subject :: "string option"
  pm_date :: "string option"
  pm_message_id :: "string option"
  pm_in_reply_to :: "string option"
  pm_references :: "string option"
  pm_list_id :: "string option"
  pm_auto_submitted :: "string option"
  pm_text :: "string option"
  pm_html :: "string option"
  pm_attachments :: "mail_attachment list"

record 'kv ingest_env =
  ie_pw :: user_db
  ie_faults :: faults
  ie_fail_for :: "string option"
  ie_parse :: "bytes \<Rightarrow> parsed_mail option"
  ie_verifiers :: verifiers
  ie_glob :: "string \<Rightarrow> string \<Rightarrow> bool"
  ie_html2text :: "bytes \<Rightarrow> string option"
  ie_nfc :: "string \<Rightarrow> string"
  ie_alnum :: "string \<Rightarrow> bool"
  ie_sha :: "bytes \<Rightarrow> bytes"
  ie_to_toml :: "inbound_frontmatter \<Rightarrow> string"
  ie_rfc3339 :: "nat \<Rightarrow> string"
  ie_timestamp :: "nat \<Rightarrow> string"
  ie_day :: "nat \<Rightarrow> string"
  ie_parse_rfc3339 :: "string \<Rightarrow> int option"
  ie_read_dir :: "mail_tree \<Rightarrow> string \<Rightarrow> string list option"
  ie_kv :: "'kv kv_ops"

record 'kv ingest_state =
  is_tree :: mail_tree
  is_caches :: "string \<Rightarrow> 'kv option"

text \<open>\<open>Stored\<close> and \<open>Duplicate\<close> are the source's \<open>Ok(())\<close>; a stored mail has its hooks to fire.\<close>

datatype ingest_outcome =
    Stored string inbound_frontmatter
  | Duplicate
  | IngestErr string
  | IngestPanics
  | IngestHangs

definition ingest_ok :: "ingest_outcome \<Rightarrow> bool" where
  "ingest_ok out \<longleftrightarrow> (case out of Stored _ _ \<Rightarrow> True | Duplicate \<Rightarrow> True | _ \<Rightarrow> False)"

section \<open>Fields\<close>

definition show_addr :: "mail_addr \<Rightarrow> string option" where
  "show_addr a =
     (case snd a of
        None \<Rightarrow> None
      | Some addr \<Rightarrow>
          Some (case fst a of Some name \<Rightarrow> name @ '' <'' @ addr @ ''>'' | None \<Rightarrow> addr))"

definition unwrap_or_default :: "string option \<Rightarrow> string" where
  "unwrap_or_default v = (case v of None \<Rightarrow> [] | Some s \<Rightarrow> s)"

definition first_addr :: "mail_addr list \<Rightarrow> string" where
  "first_addr as = (case as of [] \<Rightarrow> [] | a # _ \<Rightarrow> unwrap_or_default (show_addr a))"

fun join_with :: "string \<Rightarrow> string list \<Rightarrow> string" where
  "join_with sep [] = []"
| "join_with sep [s] = s"
| "join_with sep (s # ss) = s @ sep @ join_with sep ss"

definition addr_list :: "mail_addr list \<Rightarrow> string option" where
  "addr_list as =
     (let parts = List.map_filter show_addr as in
      if parts = [] then None else Some (join_with '', '' parts))"

definition none_if_empty :: "string \<Rightarrow> string option" where
  "none_if_empty s = (if s = [] then None else Some s)"

definition extract_header_value :: "string option \<Rightarrow> string option" where
  "extract_header_value raw = (case raw of None \<Rightarrow> None | Some v \<Rightarrow> none_if_empty (trim v))"

definition HTML_CONVERSION_CAP :: nat where "HTML_CONVERSION_CAP = 2 * 1024 * 1024"

definition HTML_TRUNCATION_MARKER :: string where
  "HTML_TRUNCATION_MARKER = LF # LF # ''[...HTML body truncated at 2 MB for rendering...]''"

definition render_html_body :: "(bytes \<Rightarrow> string option) \<Rightarrow> bytes \<Rightarrow> string" where
  "render_html_body html2text html =
     (if html = [] then []
      else
       (let truncated = length html > HTML_CONVERSION_CAP;
            input = (if truncated then take HTML_CONVERSION_CAP html else html);
            rendered = (case html2text input of Some s \<Rightarrow> s | None \<Rightarrow> utf8_lossy input)
        in if truncated then rendered @ HTML_TRUNCATION_MARKER else rendered))"

definition extract_body :: "(bytes \<Rightarrow> string option) \<Rightarrow> parsed_mail \<Rightarrow> string" where
  "extract_body html2text m =
     (case pm_text m of
        Some s \<Rightarrow> s
      | None \<Rightarrow> (case pm_html m of Some html \<Rightarrow> render_html_body html2text html | None \<Rightarrow> []))"

section \<open>Attachments\<close>

record prepared_attachment =
  at_filename :: string
  at_content_type :: string
  at_body :: bytes

definition prepare_attachment :: "(string \<Rightarrow> string) \<Rightarrow> nat \<Rightarrow> mail_attachment \<Rightarrow> prepared_attachment" where
  "prepare_attachment nfc index a =
     \<lparr>at_filename = sanitize_attachment_filename nfc (unwrap_or_default (ma_name a)) index,
      at_content_type =
        (case ma_ctype a of
           None \<Rightarrow> ''application/octet-stream''
         | Some (main, sub) \<Rightarrow> (case sub of Some s \<Rightarrow> main @ ''/'' @ s | None \<Rightarrow> main)),
      at_body = ma_contents a\<rparr>"

definition prepare_attachments :: "(string \<Rightarrow> string) \<Rightarrow> parsed_mail \<Rightarrow> prepared_attachment list" where
  "prepare_attachments nfc m =
     map (\<lambda>(i, a). prepare_attachment nfc i a) (enumerate 0 (pm_attachments m))"

text \<open>The outer \<open>None\<close>: the search for a free name never ends.\<close>

fun write_attachments ::
  "user_db \<Rightarrow> faults \<Rightarrow> mailbox_config \<Rightarrow> string \<Rightarrow> prepared_attachment list \<Rightarrow> mail_tree \<Rightarrow>
   (string + attachment_meta list) option \<times> mail_tree" where
  "write_attachments pw faults mb dir [] t = (Some (Inr []), t)"
| "write_attachments pw faults mb dir (a # as) t =
     (case deduplicate_filename (path_exists t) dir (at_filename a) of
        None \<Rightarrow> (None, t)
      | Some name \<Rightarrow>
          (let dest = join_path dir name in
           case fs_write faults dest (at_body a) t of
             Inl e \<Rightarrow> (Some (Inl e), t)
           | Inr t1 \<Rightarrow>
               (case write_attachments pw faults mb dir as (chown_owned pw faults dest mb 0x180 t1) of
                  (Some (Inr ms), t2) \<Rightarrow>
                    (Some (Inr (\<lparr>am_filename = name, am_content_type = at_content_type a,
                       am_size = length (at_body a), am_path = name\<rparr> # ms)), t2)
                | r \<Rightarrow> r)))"

section \<open>The mail file\<close>

text \<open>\<open>create_new\<close> takes no path that is there, not even a link; then the contents are written.\<close>

definition write_markdown :: "faults \<Rightarrow> string \<Rightarrow> bytes \<Rightarrow> mail_tree \<Rightarrow> (string + unit) \<times> mail_tree" where
  "write_markdown faults p content t =
     (case faults CreateOp p of
        Some e \<Rightarrow> (Inl e, t)
      | None \<Rightarrow>
          if t p \<noteq> None then (Inl ''File exists'', t)
          else
           (let new = (\<lambda>bs. Regular \<lparr>mf_data = bs, mf_uid = 0, mf_gid = 0, mf_mode = 0x180\<rparr>) in
            case faults WriteOp p of
              Some e \<Rightarrow> (Inl e, t(p \<mapsto> new []))
            | None \<Rightarrow> (Inr (), t(p \<mapsto> new content))))"

text \<open>\<open>remove_dir_all\<close>, whose failure is ignored.\<close>

definition remove_tree :: "faults \<Rightarrow> string \<Rightarrow> mail_tree \<Rightarrow> mail_tree" where
  "remove_tree faults dir t =
     (if faults RemoveOp dir \<noteq> None then t else (\<lambda>q. if path_starts_with q dir then None else t q))"

definition disk_of :: "'kv ingest_env \<Rightarrow> mail_tree \<Rightarrow> disk" where
  "disk_of env t =
     \<lparr>dk_list = ie_read_dir env t,
      dk_is_dir = path_is_dir t,
      dk_read = (\<lambda>p. case follow MAX_LINKS t p of
          None \<Rightarrow> None
        | Some q \<Rightarrow>
            if ie_faults env ReadOp p \<noteq> None then None
            else (case t q of Some (Regular f) \<Rightarrow> Some (mf_data f) | _ \<Rightarrow> None))\<rparr>"

section \<open>One mail\<close>

text \<open>The metadata of a mail, but for its id and attachments, which the writer fills in.\<close>

definition ingest_metadata ::
  "'kv ingest_env \<Rightarrow> config \<Rightarrow> string \<Rightarrow> mailbox_config \<Rightarrow> string \<Rightarrow> bytes \<Rightarrow> string \<Rightarrow> parsed_mail \<Rightarrow>
   auth_results \<Rightarrow> nat \<Rightarrow> inbound_frontmatter" where
  "ingest_metadata env cfg mailbox mb rcpt raw peer_ip m auth now =
     (let from = first_addr (pm_from m);
          message_id = unwrap_or_default (pm_message_id m);
          in_reply_to = none_if_empty (unwrap_or_default (pm_in_reply_to m));
          references = none_if_empty (unwrap_or_default (pm_references m))
      in \<lparr>fm_id = [], fm_message_id = message_id,
          fm_thread_id = compute_thread_id (ie_sha env) message_id in_reply_to references,
          fm_from = from, fm_to = first_addr (pm_to m), fm_cc = addr_list (pm_cc m),
          fm_reply_to = addr_list (pm_reply_to m), fm_delivered_to = rcpt,
          fm_subject = (case pm_subject m of Some s \<Rightarrow> s | None \<Rightarrow> ''(no subject)''),
          fm_date = (case pm_date m of Some d \<Rightarrow> d | None \<Rightarrow> ie_rfc3339 env now),
          fm_received_at = ie_rfc3339 env now,
          fm_received_from_ip = (if ve_is_unspecified (ie_verifiers env) peer_ip then None else Some peer_ip),
          fm_size_bytes = length raw, fm_attachments = [],
          fm_in_reply_to = in_reply_to, fm_references = references,
          fm_list_id = extract_header_value (pm_list_id m),
          fm_auto_submitted = extract_header_value (pm_auto_submitted m),
          fm_dkim = ar_dkim auth, fm_spf = ar_spf auth, fm_dmarc = ar_dmarc auth,
          fm_trusted = trusted_as_str
            (evaluate_trust (ie_glob env) (ve_lower (ie_verifiers env)) cfg mb auth from),
          fm_mailbox = mailbox, fm_read = False, fm_read_at = None, fm_labels = []\<rparr>)"

text \<open>The first use of a mailbox's cache builds it; \<open>None\<close> where the scan panics.\<close>

definition mailbox_cache ::
  "'kv ingest_env \<Rightarrow> nat \<Rightarrow> string \<Rightarrow> string \<Rightarrow> 'kv ingest_state \<Rightarrow> 'kv option" where
  "mailbox_cache env now dir mailbox s =
     (case is_caches s mailbox of
        Some kv \<Rightarrow> Some kv
      | None \<Rightarrow> build_dedup_cache_from_disk (ie_kv env) (ie_parse_rfc3339 env) (ie_day env)
                  (disk_of env (is_tree s)) now dir)"

definition record_seen ::
  "'kv ingest_env \<Rightarrow> nat \<Rightarrow> string \<Rightarrow> inbound_frontmatter \<Rightarrow> 'kv ingest_state \<Rightarrow> 'kv ingest_state" where
  "record_seen env now mailbox meta s =
     (if fm_message_id meta = [] then s
      else case is_caches s mailbox of
          None \<Rightarrow> s
        | Some kv \<Rightarrow>
            (let v = (if length (fm_id meta) \<le> DEDUP_MAX_VALUE_SIZE then fm_id meta else []) in
             case kv_set (ie_kv env) now kv (fm_message_id meta) v DEDUP_TTL of
               None \<Rightarrow> s
             | Some kv' \<Rightarrow> s\<lparr>is_caches := (is_caches s)(mailbox \<mapsto> kv')\<rparr>))"

text \<open>From the allocated path on: the bundle directory, the attachments and the mail file.\<close>

definition store_mail ::
  "'kv ingest_env \<Rightarrow> mailbox_config \<Rightarrow> string \<Rightarrow> prepared_attachment list \<Rightarrow> inbound_frontmatter \<Rightarrow> string \<Rightarrow>
   string \<Rightarrow> string \<Rightarrow> mail_tree \<Rightarrow> ingest_outcome \<times> mail_tree" where
  "store_mail env mb dir atts meta0 body parent_dir name t =
     (case tree_mkdir (ie_faults env) parent_dir t of
        Inl e \<Rightarrow> (IngestErr e, t)
      | Inr t1 \<Rightarrow>
          (let md_path = join_path parent_dir name;
               cleanup = (\<lambda>t. if atts \<noteq> [] \<and> parent_dir \<noteq> dir then remove_tree (ie_faults env) parent_dir t else t)
           in case write_attachments (ie_pw env) (ie_faults env) mb parent_dir atts t1 of
                (None, t2) \<Rightarrow> (IngestHangs, t2)
              | (Some (Inl e), t2) \<Rightarrow> (IngestErr e, cleanup t2)
              | (Some (Inr attachments), t2) \<Rightarrow>
                  (let meta = meta0\<lparr>fm_id := file_stem md_path, fm_attachments := attachments\<rparr> in
                   case write_markdown (ie_faults env) md_path (format_frontmatter (ie_to_toml env) meta body) t2 of
                     (Inl e, t3) \<Rightarrow> (IngestErr e, cleanup t3)
                   | (Inr _, t3) \<Rightarrow>
                       (Stored md_path meta, chown_owned (ie_pw env) (ie_faults env) md_path mb 0x180 t3))))"

text \<open>A mail that is no duplicate.\<close>

definition ingest_new ::
  "'kv ingest_env \<Rightarrow> string \<Rightarrow> mailbox_config \<Rightarrow> string \<Rightarrow> prepared_attachment list \<Rightarrow> inbound_frontmatter \<Rightarrow>
   string \<Rightarrow> nat \<Rightarrow> 'kv ingest_state \<Rightarrow> ingest_outcome \<times> 'kv ingest_state" where
  "ingest_new env mailbox mb dir atts meta0 body now s =
     (let slug = slugify (ie_nfc env) (ve_lower (ie_verifiers env)) (ie_alnum env) (fm_subject meta0) in
      case allocate_filename (path_exists (is_tree s)) dir (ie_timestamp env now) slug (atts \<noteq> []) of
        None \<Rightarrow> (IngestHangs, s)
      | Some (parent_dir, name) \<Rightarrow>
          (case store_mail env mb dir atts meta0 body parent_dir name (is_tree s) of
             (Stored p meta, t) \<Rightarrow> (Stored p meta, record_seen env now mailbox meta (s\<lparr>is_tree := t\<rparr>))
           | (out, t) \<Rightarrow> (out, s\<lparr>is_tree := t\<rparr>)))"

definition ingest_locked ::
  "'kv ingest_env \<Rightarrow> string \<Rightarrow> mailbox_config \<Rightarrow> string \<Rightarrow> prepared_attachment list \<Rightarrow> inbound_frontmatter \<Rightarrow>
   string \<Rightarrow> nat \<Rightarrow> 'kv ingest_state \<Rightarrow> ingest_outcome \<times> 'kv ingest_state" where
  "ingest_locked env mailbox mb dir atts meta0 body now s =
     (if fm_message_id meta0 = [] then ingest_new env mailbox mb dir atts meta0 body now s
      else case mailbox_cache env now dir mailbox s of
          None \<Rightarrow> (IngestPanics, s)
        | Some kv \<Rightarrow>
            (let s1 = s\<lparr>is_caches := (is_caches s)(mailbox \<mapsto> kv)\<rparr> in
             if kv_contains (ie_kv env) now kv (fm_message_id meta0) then (Duplicate, s1)
             else ingest_new env mailbox mb dir atts meta0 body now s1))"

text \<open>The mailbox a recipient routes to is a key of the table, so the second lookup finds it.\<close>

definition ingest_email ::
  "'kv ingest_env \<Rightarrow> config \<Rightarrow> string \<Rightarrow> bytes \<Rightarrow> string \<Rightarrow> string option \<Rightarrow> nat \<Rightarrow> 'kv ingest_state \<Rightarrow>
   ingest_outcome \<times> 'kv ingest_state" where
  "ingest_email env cfg rcpt raw peer_ip envelope_mail_from now s =
     (if (case ie_fail_for env of None \<Rightarrow> False | Some tg \<Rightarrow> tg \<noteq> [] \<and> eq_ignore_ascii_case tg rcpt)
      then (IngestErr (''AIMX_TEST_INGEST_FAIL_FOR forced failure for rcpt='' @ rcpt), s)
      else case resolve_recipient_mailbox cfg rcpt of
          None \<Rightarrow> (IngestErr (''no mailbox routes recipient '' @ rcpt), s)
        | Some mailbox \<Rightarrow>
            (case lookup_mailbox cfg mailbox of
               None \<Rightarrow> (IngestErr [], s)
             | Some mb \<Rightarrow>
                (let dir = inbox_dir cfg mailbox in
                 case tree_mkdir (ie_faults env) dir (is_tree s) of
                   Inl e \<Rightarrow> (IngestErr e, s)
                 | Inr t \<Rightarrow>
                    (case ie_parse env raw of
                       None \<Rightarrow> (IngestErr ''Failed to parse email'', s\<lparr>is_tree := t\<rparr>)
                     | Some m \<Rightarrow>
                        (case verify_auth (ie_verifiers env) raw peer_ip envelope_mail_from of
                           None \<Rightarrow> (IngestPanics, s\<lparr>is_tree := t\<rparr>)
                         | Some auth \<Rightarrow>
                             ingest_locked env mailbox mb dir (prepare_attachments (ie_nfc env) m)
                               (ingest_metadata env cfg mailbox mb rcpt raw peer_ip m auth now)
                               (extract_body (ie_html2text env) m) now (s\<lparr>is_tree := t\<rparr>))))))"

section \<open>Hooks\<close>

text \<open>
  A stored mail fires its hooks in this thread, or on a thread of its own where one could be
  started; a duplicate and a failed mail fire none.
\<close>

datatype hook_mode = HookSync | HookAsync bool

definition fire_ingested ::
  "('w \<Rightarrow> string \<Rightarrow> bytes option) \<Rightarrow> (spawn_request \<Rightarrow> 'w \<Rightarrow> 'w) \<Rightarrow> (bytes \<Rightarrow> bytes) \<Rightarrow> config \<Rightarrow>
   hook_mode \<Rightarrow> ingest_outcome \<Rightarrow> 'w \<Rightarrow> spawn_request list \<times> 'w" where
  "fire_ingested read_file spawn sha cfg mode out w =
     (case out of
        Stored md_path meta \<Rightarrow>
          (case lookup_mailbox cfg (fm_mailbox meta) of
             None \<Rightarrow> ([], w)
           | Some mb \<Rightarrow>
               if mode = HookAsync False then ([], w)
               else execute_on_receive read_file spawn sha cfg mb
                      \<lparr>orc_filepath = md_path, orc_metadata = meta\<rparr> w)
      | _ \<Rightarrow> ([], w))"

end
