(* ===== verification/NamesFacts.thy ===== *)
theory NamesFacts
  imports Names
begin

text \<open>
  Properties of the stored names: the search for a free name ends and finds the first one, and
  what a sender puts into a subject or an attachment name stays one plain path component.
\<close>

section \<open>The search ends\<close>

lemma first_free_Some:
  assumes "\<not> used (n + d)"
  shows "\<exists>m. first_free used n = Some m \<and> n \<le> m \<and> \<not> used m \<and> (\<forall>k. n \<le> k \<longrightarrow> k < m \<longrightarrow> used k)"
  using assms
proof (induction d arbitrary: n)
  case 0
  then show ?case by (intro exI [of _ n]) (simp add: first_free.simps)
next
  case (Suc d)
  show ?case
  proof (cases "used n")
    case False
    then show ?thesis by (intro exI [of _ n]) (simp add: first_free.simps)
  next
    case True
    from Suc.IH [of "Suc n"] Suc.prems obtain m where m: "first_free used (Suc n) = Some m" "Suc n \<le> m"
      "\<not> used m" "\<forall>k. Suc n \<le> k \<longrightarrow> k < m \<longrightarrow> used k" by auto
    have "first_free used n = Some m" using True m(1) by (subst first_free.simps) simp
    moreover have "used k" if "n \<le> k" "k < m" for k
      using that True m(4) by (cases "k = n") auto
    ultimately show ?thesis using m(2,3) by (intro exI [of _ m]) auto
  qed
qed

lemma first_free_sound: "first_free used n = Some m \<Longrightarrow> \<not> used m"
  by (rule first_free.raw_induct [where P = "\<lambda>used n m. \<not> used m"]) (auto split: if_splits)

text \<open>
  The contract of a search: the candidates for suffixes from 1 on are distinct names, so a
  directory that holds finitely many of them leaves one free.
\<close>

locale name_search =
  fixes candidate :: "nat \<Rightarrow> 'n"
  assumes distinct: "inj_on candidate {1..}"
begin

lemma returns:
  assumes "finite {p. P p}" "\<And>n. used n \<Longrightarrow> P (candidate n)"
  shows "\<exists>m. first_free used 1 = Some m \<and> 1 \<le> m \<and> \<not> used m \<and> (\<forall>k. 1 \<le> k \<longrightarrow> k < m \<longrightarrow> used k)"
proof -
  have "\<exists>d. \<not> used (1 + d)"
  proof (rule ccontr)
    assume "\<not> ?thesis"
    then have "used n" if "1 \<le> n" for n using that by (metis le_iff_add)
    then have "candidate ` {1..} \<subseteq> {p. P p}" using assms(2) by auto
    with assms(1) have "finite (candidate ` {1..})" by (rule finite_subset [rotated])
    with distinct have "finite {1 :: nat..}" by (rule finite_imageD [rotated])
    then show False by (simp add: infinite_Ici)
  qed
  then show ?thesis using first_free_Some by blast
qed

end

lemma show_nat_inj: "show_nat m = show_nat n \<longleftrightarrow> m = n"
  using digits_value_show_nat by metis

interpretation stems: name_search "stem_candidate base" for base
  by unfold_locales (auto simp: inj_on_def stem_candidate_def show_nat_inj split: if_splits)

interpretation dedups: name_search "dedup_candidate filename" for filename
  by unfold_locales (auto simp: inj_on_def dedup_candidate_def show_nat_inj Let_def split: if_splits)

text \<open>A directory is finite when it holds finitely many names.\<close>

lemma finite_with_md:
  assumes "finite {m. taken (join_path dir m)}"
  shows "finite {m. taken (join_path dir (m @ ''.md'')) \<or> taken (join_path dir m)}"
proof -
  have "finite {m. taken (join_path dir (m @ ''.md''))}"
    using finite_vimageI [OF assms, of "\<lambda>m. m @ ''.md''"] by (simp add: inj_on_def vimage_def)
  with assms show ?thesis by (simp add: Collect_disj_eq)
qed


text \<open>
  the name an attachment is written under is free in its bundle, so it overwrites no other
  attachment, and a name is always found.
\<close>

theorem deduplicate_filename_free:
  assumes "finite {m. taken (join_path dir m)}"
  shows "\<exists>name. deduplicate_filename taken dir filename = Some name \<and> \<not> taken (join_path dir name)"
  using dedups.returns [OF assms, of "\<lambda>i. taken (join_path dir (dedup_candidate filename i))" filename]
  by (auto simp: deduplicate_filename_def)

section \<open>Characters\<close>

text \<open>Each character of well-formed text is one ASCII byte or holds none.\<close>

definition char_ok :: "string \<Rightarrow> bool" where
  "char_ok ch \<longleftrightarrow> ch \<noteq> [] \<and> ((\<exists>c. ch = [c] \<and> is_ascii_char c) \<or> list_all (\<lambda>c. \<not> is_ascii_char c) ch)"

lemma utf8_chars_ok:
  assumes "valid_utf8 s"
  shows "list_all char_ok (utf8_chars s)"
  using assms
proof (induction s rule: utf8_chunks.induct)
  case (2 b0 r)
  then obtain n where n: "utf8_step b0 r = (True, n)" and v: "valid_utf8 (drop n (b0 # r))"
    by (cases "utf8_step b0 r") (auto simp: valid_utf8_Cons)
  have "char_ok (take n (b0 # r))"
  proof (cases "is_ascii_char b0")
    case True
    with n have "n = 1" by (simp add: utf8_step_def lead_width_def is_ascii_char_def)
    with True show ?thesis by (simp add: char_ok_def)
  next
    case False
    moreover have "list_all (\<lambda>c. \<not> is_ascii_char c) (take (n - 1) r)"
      using utf8_step_True(3) [OF n] cont_byte_not_ascii by (auto simp: list_all_iff)
    moreover have "0 < n" using utf8_step_pos [of b0 r] n by simp
    ultimately show ?thesis by (cases n) (auto simp: char_ok_def)
  qed
  with "2.IH" [OF n [symmetric] v] n show ?case by (simp add: utf8_chars_def utf8_chunks.simps(2))
qed (simp add: utf8_chars_def)

lemma char_ok_byte: "char_ok ch \<Longrightarrow> c \<in> set ch \<Longrightarrow> is_ascii_char c \<Longrightarrow> ch = [c]"
  by (auto simp: char_ok_def list_all_iff)

section \<open>Collapsing and trimming\<close>

lemma set_collapse: "set (collapse sep bad was cs) \<subseteq> insert sep {ch \<in> set cs. \<not> bad ch}"
  by (induction cs arbitrary: was) auto

text \<open>No separator stands first after one, and none next to another, if separators are bad.\<close>

lemma collapse_no_double:
  assumes "bad sep"
  shows "(\<forall>xs ys. collapse sep bad was cs \<noteq> xs @ sep # sep # ys) \<and>
    (was \<longrightarrow> (\<forall>ys. collapse sep bad was cs \<noteq> sep # ys))"
proof (induction cs arbitrary: was)
  case (Cons ch cs)
  then show ?case using assms by (auto simp: Cons_eq_append_conv)
qed simp

lemma trim_chars_end_prefix: "\<exists>ds. cs = trim_chars_end P cs @ ds \<and> (\<forall>d\<in>set ds. P d)"
proof (intro exI conjI)
  show "cs = trim_chars_end P cs @ rev (takeWhile P (rev cs))"
    unfolding trim_chars_end_def rev_append [symmetric] by simp
qed (auto dest: set_takeWhileD)

lemma trim_chars_end_last: "trim_chars_end P cs \<noteq> [] \<Longrightarrow> \<not> P (last (trim_chars_end P cs))"
  by (simp add: trim_chars_end_def last_rev hd_dropWhile)

lemma trim_chars_end_hd: "trim_chars_end P cs \<noteq> [] \<Longrightarrow> hd (trim_chars_end P cs) = hd cs"
  using trim_chars_end_prefix [of cs P] by (metis hd_append2)

lemma trim_chars_end_length: "length (trim_chars_end P cs) \<le> length cs"
  using length_dropWhile_le [of P "rev cs"] by (simp add: trim_chars_end_def)

lemma set_trim_chars_end: "set (trim_chars_end P cs) \<subseteq> set cs"
  by (auto simp: trim_chars_end_def dest: set_dropWhileD)

lemma trim_chars_hd: "trim_chars P cs \<noteq> [] \<Longrightarrow> \<not> P (hd (trim_chars P cs))"
  unfolding trim_chars_def
  by (metis hd_dropWhile list.size(3) trim_chars_end_def trim_chars_end_hd dropWhile.simps(1) rev.simps(1))

lemma trim_chars_infix: "\<exists>a b. cs = a @ trim_chars P cs @ b"
  using trim_chars_end_prefix [of "dropWhile P cs" P] takeWhile_dropWhile_id [of P cs]
  unfolding trim_chars_def by metis

section \<open>Slugs\<close>

lemma slug_chars_infix:
  "\<exists>a b. collapse ''-'' (\<lambda>ch. \<not> alnum ch) False (utf8_chars (lower (nfc subject))) =
     a @ slug_chars nfc lower alnum subject @ b"
proof -
  let ?out = "collapse ''-'' (\<lambda>ch. \<not> alnum ch) False (utf8_chars (lower (nfc subject)))"
  let ?t = "trim_chars (\<lambda>ch. ch = ''-'') ?out"
  obtain a b where "?out = a @ ?t @ b" using trim_chars_infix by blast
  moreover have "?t = take SLUG_MAX_LEN ?t @ drop SLUG_MAX_LEN ?t" by simp
  moreover obtain d where "take SLUG_MAX_LEN ?t = slug_chars nfc lower alnum subject @ d"
    using trim_chars_end_prefix unfolding slug_chars_def Let_def by blast
  ultimately show ?thesis by (metis append.assoc)
qed

text \<open>
  a slug is \<open>no-subject\<close>, or at most twenty characters, each alphanumeric or a dash, with no
  dash at either end and no two in a row, whatever the subject was.
\<close>

theorem slugify_shape:
  assumes "\<not> alnum ''-''"
  shows "slugify nfc lower alnum subject = SLUG_EMPTY_FALLBACK \<or>
    (\<exists>cs. slugify nfc lower alnum subject = concat cs \<and> cs \<noteq> [] \<and> length cs \<le> 20 \<and>
      (\<forall>ch\<in>set cs. alnum ch \<or> ch = ''-'') \<and> hd cs \<noteq> ''-'' \<and> last cs \<noteq> ''-'' \<and>
      (\<forall>xs ys. cs \<noteq> xs @ ''-'' # ''-'' # ys))"
proof (cases "concat (slug_chars nfc lower alnum subject) = []")
  case True
  then show ?thesis by (simp add: slugify_def)
next
  case False
  let ?cs = "slug_chars nfc lower alnum subject"
  let ?out = "collapse ''-'' (\<lambda>ch. \<not> alnum ch) False (utf8_chars (lower (nfc subject)))"
  let ?t = "take SLUG_MAX_LEN (trim_chars (\<lambda>ch. ch = ''-'') ?out)"
  have cs: "?cs = trim_chars_end (\<lambda>ch. ch = ''-'') ?t" by (simp add: slug_chars_def Let_def)
  have ne: "?cs \<noteq> []" using False by auto
  then have t: "?t \<noteq> []" unfolding cs by (metis dropWhile.simps(1) rev.simps(1) trim_chars_end_def)
  have "hd ?cs = hd ?t" using ne trim_chars_end_hd [of "\<lambda>ch. ch = ''-''" ?t] unfolding cs by blast
  also have "hd ?t = hd (trim_chars (\<lambda>ch. ch = ''-'') ?out)" using t by (simp add: hd_take SLUG_MAX_LEN_def)
  finally have "hd ?cs \<noteq> ''-''" using trim_chars_hd [of "\<lambda>ch. ch = ''-''" ?out] t by (auto simp: SLUG_MAX_LEN_def)
  moreover have "last ?cs \<noteq> ''-''" using ne trim_chars_end_last [of "\<lambda>ch. ch = ''-''" ?t] unfolding cs by blast
  moreover have "length ?cs \<le> 20"
    using trim_chars_end_length [of "\<lambda>ch. ch = ''-''" ?t] unfolding cs by (simp add: SLUG_MAX_LEN_def)
  moreover obtain a b where ab: "?out = a @ ?cs @ b" using slug_chars_infix by blast
  have "alnum ch \<or> ch = ''-''" if "ch \<in> set ?cs" for ch
  proof -
    from that ab have "ch \<in> set ?out" by simp
    then show ?thesis
      using set_collapse [of "''-''" "\<lambda>ch. \<not> alnum ch" False "utf8_chars (lower (nfc subject))"] by auto
  qed
  moreover have "?cs \<noteq> xs @ ''-'' # ''-'' # ys" for xs ys
  proof
    assume "?cs = xs @ ''-'' # ''-'' # ys"
    with ab have "?out = (a @ xs) @ ''-'' # ''-'' # (ys @ b)" by simp
    moreover have "?out \<noteq> (a @ xs) @ ''-'' # ''-'' # (ys @ b)"
      using collapse_no_double [of "\<lambda>ch. \<not> alnum ch" "''-''" False] assms by blast
    ultimately show False by blast
  qed
  ultimately show ?thesis using False ne by (intro disjI2 exI [of _ ?cs]) (auto simp: slugify_def)
qed

section \<open>Attachment names\<close>

lemma set_take_bytes: "set (take_bytes n cs) \<subseteq> set cs"
  by (induction n cs rule: take_bytes.induct) auto

lemma take_bytes_hd: "take_bytes n cs \<noteq> [] \<Longrightarrow> hd (take_bytes n cs) = hd cs"
  by (cases cs) (auto split: if_splits)

lemma take_bytes_length: "length (concat (take_bytes n cs)) \<le> n"
  by (induction n cs rule: take_bytes.induct) auto

lemma concat_trim_chars_end_length: "length (concat (trim_chars_end P cs)) \<le> length (concat cs)"
  using trim_chars_end_prefix [of cs P] by (metis concat_append le_add1 length_append)

lemma sanitized_chars_props:
  assumes "\<And>s. valid_utf8 (nfc s)"
  shows "\<forall>ch\<in>set (sanitized_chars nfc raw). char_ok ch \<and> \<not> is_filename_unsafe ch"
    "sanitized_chars nfc raw \<noteq> [] \<Longrightarrow> \<not> filename_trim (hd (sanitized_chars nfc raw))"
    "length (concat (sanitized_chars nfc raw)) \<le> ATTACHMENT_FILENAME_MAX_BYTES"
proof -
  let ?base = "case file_name raw of None \<Rightarrow> [] | Some f \<Rightarrow> f"
  let ?out = "collapse ''_'' is_filename_unsafe False (utf8_chars (nfc ?base))"
  let ?t = "trim_chars filename_trim ?out"
  let ?k = "take_bytes ATTACHMENT_FILENAME_MAX_BYTES ?t"
  have sep: "char_ok ''_'' \<and> \<not> is_filename_unsafe ''_''"
    by (simp add: char_ok_def is_ascii_char_def is_filename_unsafe_def is_control_def is_invisible_def code_def)
  have out: "char_ok ch \<and> \<not> is_filename_unsafe ch" if "ch \<in> set ?out" for ch
    using that utf8_chars_ok [OF assms, of ?base] sep set_collapse [of "''_''" is_filename_unsafe False]
    by (fastforce simp: list_all_iff)
  have sub: "set (sanitized_chars nfc raw) \<subseteq> set ?t"
    using set_trim_chars_end [of filename_trim ?k] set_take_bytes [of ATTACHMENT_FILENAME_MAX_BYTES ?t]
    by (auto simp: sanitized_chars_def Let_def)
  moreover have "set ?t \<subseteq> set ?out"
    by (auto simp: trim_chars_def trim_chars_end_def dest!: set_dropWhileD)
  ultimately show "\<forall>ch\<in>set (sanitized_chars nfc raw). char_ok ch \<and> \<not> is_filename_unsafe ch"
    using out by blast
  show "\<not> filename_trim (hd (sanitized_chars nfc raw))" if "sanitized_chars nfc raw \<noteq> []"
  proof -
    have "hd (sanitized_chars nfc raw) = hd ?t \<and> ?t \<noteq> []"
    proof (cases "length (concat ?t) > ATTACHMENT_FILENAME_MAX_BYTES")
      case True
      with that have k: "sanitized_chars nfc raw = trim_chars_end filename_trim ?k" "?k \<noteq> []"
        by (auto simp: sanitized_chars_def Let_def trim_chars_end_def)
      with that show ?thesis
        using trim_chars_end_hd [of filename_trim ?k] take_bytes_hd [of ATTACHMENT_FILENAME_MAX_BYTES ?t] by auto
    next
      case False
      with that show ?thesis by (simp add: sanitized_chars_def Let_def)
    qed
    then show ?thesis using trim_chars_hd [of filename_trim ?out] by simp
  qed
  have "length (concat (trim_chars_end filename_trim ?k)) \<le> ATTACHMENT_FILENAME_MAX_BYTES"
    using concat_trim_chars_end_length take_bytes_length by (rule order_trans)
  then show "length (concat (sanitized_chars nfc raw)) \<le> ATTACHMENT_FILENAME_MAX_BYTES"
    by (simp add: sanitized_chars_def Let_def)
qed

text \<open>A byte no file name of the daemon holds: a separator or an ASCII control.\<close>

definition name_byte_ok :: "char \<Rightarrow> bool" where
  "name_byte_ok c \<longleftrightarrow> c \<noteq> CHR ''/'' \<and> c \<noteq> CHR 0x5C \<and> 32 \<le> code c \<and> code c \<noteq> 127"

lemma safe_char_bytes:
  assumes "char_ok ch" "\<not> is_filename_unsafe ch" "c \<in> set ch"
  shows "name_byte_ok c"
proof (cases "is_ascii_char c")
  case True
  with assms(1,3) have "ch = [c]" using char_ok_byte by blast
  with assms(2) show ?thesis
    by (auto simp: is_filename_unsafe_def is_control_def name_byte_ok_def)
next
  case False
  then show ?thesis by (auto simp: name_byte_ok_def is_ascii_char_def code_def)
qed

lemma digits_name_byte: "list_all name_byte_ok (show_nat n)"
  using show_nat_digits [of n]
  by (auto simp: list_all_iff name_byte_ok_def is_ascii_digit_def code_def)

text \<open>
  whatever name a sender gives an attachment, the file gets a plain name: one path
  component, no separator of either kind, no ASCII control byte, not hidden and not read as an
  option (no leading dot or dash), and of at most 200 bytes or the fallback.
\<close>

theorem sanitized_name_is_plain:
  assumes "\<And>s. valid_utf8 (nfc s)"
  shows "let r = sanitize_attachment_filename nfc raw index in
    plain_name r \<and> list_all name_byte_ok r \<and> hd r \<noteq> CHR ''.'' \<and> hd r \<noteq> CHR ''-'' \<and>
    (length r \<le> 200 \<or> r = ''attachment-'' @ show_nat index)"
proof (cases "concat (sanitized_chars nfc raw) = []")
  case True
  have "CHR ''/'' \<notin> set (show_nat index)"
    using digits_name_byte [of index] by (auto simp: list_all_iff name_byte_ok_def)
  with True digits_name_byte [of index] show ?thesis
    by (auto simp: sanitize_attachment_filename_def Let_def plain_name_def name_byte_ok_def code_def)
next
  case False
  let ?cs = "sanitized_chars nfc raw"
  note props = sanitized_chars_props [where nfc = nfc and raw = raw, OF assms]
  have bytes: "list_all name_byte_ok (concat ?cs)"
    using props(1) safe_char_bytes by (fastforce simp: list_all_iff)
  obtain ch cs where cs: "?cs = ch # cs" using False by (cases ?cs) auto
  with props(1) have ch: "char_ok ch" by simp
  then obtain c ch' where c: "ch = c # ch'" by (cases ch) (auto simp: char_ok_def)
  have "c \<noteq> CHR ''.'' \<and> c \<noteq> CHR ''-''"
    using props(2) cs char_ok_byte [OF ch, of c] c
    by (auto simp: filename_trim_def is_ascii_char_def code_def)
  with False bytes cs c props(3) show ?thesis
    by (auto simp: sanitize_attachment_filename_def Let_def plain_name_def list_all_iff name_byte_ok_def
        ATTACHMENT_FILENAME_MAX_BYTES_def)
qed

section \<open>The theorems at concrete names\<close>

definition ascii_nfc :: "string \<Rightarrow> string" where
  "ascii_nfc s = (if valid_utf8 s then s else [])"

definition ascii_alnum :: "string \<Rightarrow> bool" where
  "ascii_alnum ch \<longleftrightarrow> (case ch of [c] \<Rightarrow> is_ascii_alphanumeric c | _ \<Rightarrow> False)"

theorem slugify_shape_witness:
  "slugify ascii_nfc to_ascii_lowercase ascii_alnum ''Re: Hello, World!'' = ''re-hello-world'' \<and>
   (\<exists>cs. ''re-hello-world'' = concat cs \<and> length cs \<le> 20 \<and> hd cs \<noteq> ''-'')"
proof -
  have s: "slugify ascii_nfc to_ascii_lowercase ascii_alnum ''Re: Hello, World!'' = ''re-hello-world''"
    by code_simp
  have "\<not> ascii_alnum ''-''" by (simp add: ascii_alnum_def byte_defs)
  from slugify_shape [where alnum = ascii_alnum and nfc = ascii_nfc and lower = to_ascii_lowercase and
      subject = "''Re: Hello, World!''", OF this] show ?thesis
    unfolding s by (auto simp: SLUG_EMPTY_FALLBACK_def)
qed

definition windows_name :: string where
  "windows_name = ''a/..'' @ [CHR 0x5C] @ ''evil'' @ [CHR 0x5C] @ ''name''"

theorem sanitized_name_is_plain_witness:
  "sanitize_attachment_filename ascii_nfc ''../..'' 3 = ''attachment-3'' \<and>
   sanitize_attachment_filename ascii_nfc windows_name 0 = ''evil_name'' \<and>
   plain_name (sanitize_attachment_filename ascii_nfc windows_name 0)"
proof -
  have "valid_utf8 (ascii_nfc s)" for s by (simp add: ascii_nfc_def)
  from sanitized_name_is_plain [where nfc = ascii_nfc and raw = "windows_name" and index = 0, OF this]
  have "plain_name (sanitize_attachment_filename ascii_nfc windows_name 0)" by (simp add: Let_def)
  moreover have "sanitize_attachment_filename ascii_nfc ''../..'' 3 = ''attachment-3''" by code_simp
  moreover have "sanitize_attachment_filename ascii_nfc windows_name 0 = ''evil_name''" by code_simp
  ultimately show ?thesis by simp
qed

text \<open>A directory that holds the first name already.\<close>

definition demo_taken :: "string \<Rightarrow> bool" where
  "demo_taken p \<longleftrightarrow> p = ''/d/t-s.md''"

lemma demo_taken_finite: "finite {m. demo_taken (join_path ''/d'' m)}"
proof -
  have "{m. demo_taken (join_path ''/d'' m)} \<subseteq> {''t-s.md'', ''/d/t-s.md''}"
    by (auto simp: demo_taken_def join_path_def split: if_splits)
  then show ?thesis by (rule finite_subset) simp
qed


theorem deduplicate_filename_free_witness:
  "\<exists>name. deduplicate_filename demo_taken ''/d'' ''t-s.md'' = Some name \<and> name \<noteq> ''t-s.md''"
proof -
  have "demo_taken (join_path ''/d'' ''t-s.md'')" by (simp add: demo_taken_def join_path_def)
  with deduplicate_filename_free [OF demo_taken_finite, of "''t-s.md''"] show ?thesis by metis
qed

end
