(* ===== verification/MarkHandler.thy ===== *)
theory MarkHandler
  imports MailTree HookFire
begin

text \<open>
  MARK-READ and MARK-UNREAD in the daemon (\<open>src/state_handler.rs\<close>), with the strict path
  resolver of \<open>src/mcp.rs\<close>.

  \<open>canonicalize\<close>, the TOML crate's
  parser and serializer, and the clock are parameters; \<open>faults\<close> is as in \<open>MailboxCrud\<close>. The
  whole read-rewrite section runs under the mailbox's lock and is one atomic step here.
\<close>

definition validate_id :: "string \<Rightarrow> bool" where
  "validate_id id' \<longleftrightarrow>
     \<not> (id' = [] \<or> contains id' ''..'' \<or> CHR ''/'' \<in> set id' \<or> CHR 0x5C \<in> set id' \<or> CHR 0x00 \<in> set id')"

text \<open>The resolved file as its parent directory and its name.\<close>

definition is_regular :: "lstat_result \<Rightarrow> bool" where
  "is_regular r \<longleftrightarrow> (case r of LstatOk (Regular _) \<Rightarrow> True | _ \<Rightarrow> False)"

definition contained :: "(string \<Rightarrow> string option) \<Rightarrow> string \<Rightarrow> string \<Rightarrow> bool" where
  "contained canonicalize mailbox_canon p \<longleftrightarrow>
     (case canonicalize p of None \<Rightarrow> False | Some candidate \<Rightarrow> path_starts_with candidate mailbox_canon)"

definition resolve_bundle ::
  "faults \<Rightarrow> (string \<Rightarrow> string option) \<Rightarrow> mail_tree \<Rightarrow> string \<Rightarrow> string \<Rightarrow> string \<Rightarrow>
   (string \<times> string) option" where
  "resolve_bundle faults canonicalize t mailbox_canon mailbox_dir id' =
     (let bundle_dir = join_path mailbox_dir id'; name = id' @ ''.md'';
          bundle_md = join_path bundle_dir name
      in if lstat faults t bundle_dir \<noteq> LstatOk Directory then None
         else if \<not> is_regular (lstat faults t bundle_md) then None
         else if \<not> contained canonicalize mailbox_canon bundle_md then None
         else Some (bundle_dir, name))"

definition resolve_email_path_strict ::
  "faults \<Rightarrow> (string \<Rightarrow> string option) \<Rightarrow> mail_tree \<Rightarrow> string \<Rightarrow> string \<Rightarrow> (string \<times> string) option" where
  "resolve_email_path_strict faults canonicalize t mailbox_dir id' =
     (case canonicalize mailbox_dir of
        None \<Rightarrow> None
      | Some mailbox_canon \<Rightarrow>
         (let name = id' @ ''.md''; flat = join_path mailbox_dir name in
          case lstat faults t flat of
            LstatOk i \<Rightarrow>
              if \<not> is_regular (LstatOk i) then None
              else if \<not> contained canonicalize mailbox_canon flat then None
              else Some (mailbox_dir, name)
          | LstatNotFound \<Rightarrow> resolve_bundle faults canonicalize t mailbox_canon mailbox_dir id'
          | LstatErr _ \<Rightarrow> None))"

section \<open>The stored file\<close>

text \<open>The first occurrence of a string, cut out: \<open>str::split_once\<close> for a \<open>&str\<close>.\<close>

fun split_at_str :: "string \<Rightarrow> string \<Rightarrow> (string \<times> string) option" where
  "split_at_str p [] = (if p = [] then Some ([], []) else None)"
| "split_at_str p (c # s) =
     (if starts_with (c # s) p then Some ([], drop (length p) (c # s))
      else case split_at_str p s of None \<Rightarrow> None | Some (a, b) \<Rightarrow> Some (c # a, b))"

text \<open>\<open>content.splitn(3, "+++")\<close>, where it has three parts: the last two.\<close>

definition frontmatter_parts :: "string \<Rightarrow> (string \<times> string) option" where
  "frontmatter_parts content =
     (case split_at_str ''+++'' content of
        None \<Rightarrow> None
      | Some (_, r) \<Rightarrow> split_at_str ''+++'' r)"

record mark_env =
  ke_pw :: user_db
  ke_getpwuid :: "nat \<Rightarrow> string option"
  ke_faults :: faults
  ke_canonicalize :: "string \<Rightarrow> string option"
  ke_from_toml :: "string \<Rightarrow> string + inbound_frontmatter"
  ke_to_toml :: "inbound_frontmatter \<Rightarrow> string + string"
  ke_now :: string
  ke_pid :: nat
  ke_data_dir :: string

definition set_read :: "bool \<Rightarrow> string \<Rightarrow> inbound_frontmatter \<Rightarrow> inbound_frontmatter" where
  "set_read rd now meta = meta\<lparr>fm_read := rd, fm_read_at := (if rd then Some now else None)\<rparr>"

text \<open>The new content, or the reason of the \<open>IO\<close> error.\<close>

definition rewrite_content :: "mark_env \<Rightarrow> bool \<Rightarrow> string \<Rightarrow> string \<Rightarrow> string + string" where
  "rewrite_content env rd filepath content =
     (case frontmatter_parts content of
        None \<Rightarrow> Inl (''malformed frontmatter in '' @ filepath)
      | Some (toml_part, body) \<Rightarrow>
          (case ke_from_toml env (trim toml_part) of
             Inl e \<Rightarrow> Inl (''failed to parse frontmatter in '' @ filepath @ '': '' @ e)
           | Inr meta \<Rightarrow>
               (case ke_to_toml env (set_read rd (ke_now env) meta) of
                  Inl e \<Rightarrow> Inl (''failed to serialize frontmatter: '' @ e)
                | Inr new_toml \<Rightarrow> Inr (''+++'' @ [LF] @ new_toml @ ''+++'' @ body))))"

definition tmp_name :: "mark_env \<Rightarrow> string \<Rightarrow> string" where
  "tmp_name env name = ''.'' @ name @ ''.tmp.'' @ show_nat (ke_pid env)"

definition publish ::
  "mark_env \<Rightarrow> string \<Rightarrow> string \<Rightarrow> mailbox_config \<Rightarrow> bytes \<Rightarrow> mail_tree \<Rightarrow> ack_response \<times> mail_tree" where
  "publish env parent name mb out t =
     (let filepath = join_path parent name; tmp_path = join_path parent (tmp_name env name)
      in case fs_write (ke_faults env) tmp_path out t of
           Inl e \<Rightarrow> (AckErr EIo (''failed to write '' @ tmp_path @ '': '' @ e), t)
         | Inr t1 \<Rightarrow>
            (let t2 = chown_owned (ke_pw env) (ke_faults env) tmp_path mb 0x180 t1
             in case ke_faults env RenameOp tmp_path of
                  Some e \<Rightarrow>
                    (AckErr EIo (''failed to rename '' @ tmp_path @ '' -> '' @ filepath @ '': '' @ e),
                     if ke_faults env RemoveOp tmp_path = None then t2(tmp_path := None) else t2)
                | None \<Rightarrow> (AckOk, t2(tmp_path := None, filepath := t2 tmp_path))))"

definition mark_file ::
  "mark_env \<Rightarrow> mark_request \<Rightarrow> mailbox_config \<Rightarrow> string \<Rightarrow> string \<Rightarrow> mail_tree \<Rightarrow>
   ack_response \<times> mail_tree" where
  "mark_file env req mb parent name t =
     (let filepath = join_path parent name in
      case (case ke_faults env ReadOp filepath of
              Some e \<Rightarrow> Inl e
            | None \<Rightarrow>
                (case t filepath of
                   Some (Regular f) \<Rightarrow>
                     if valid_utf8 (mf_data f) then Inr (mf_data f)
                     else Inl ''stream did not contain valid UTF-8''
                 | _ \<Rightarrow> Inl ''not a file'')) of
        Inl e \<Rightarrow> (AckErr EIo (''failed to read '' @ filepath @ '': '' @ e), t)
      | Inr content \<Rightarrow>
          (case rewrite_content env (mr_read req) filepath content of
             Inl reason \<Rightarrow> (AckErr EIo reason, t)
           | Inr out \<Rightarrow> publish env parent name mb out t))"

definition handle_mark ::
  "mark_env \<Rightarrow> config \<Rightarrow> mark_request \<Rightarrow> nat \<Rightarrow> mail_tree \<Rightarrow> ack_response \<times> mail_tree" where
  "handle_mark env cfg req uid t =
     (if \<not> validate_id (mr_id req)
      then (AckErr ENotFound (''email id '' @ quote (mr_id req) @ '' contains invalid characters''), t)
      else case lookup_mailbox cfg (mr_mailbox req) of
          None \<Rightarrow> (AckErr EEnoent (''mailbox '' @ quote (mr_mailbox req) @ '' does not exist''), t)
        | Some mb \<Rightarrow>
            (case fst (enforce_mailbox_owner_or_root (ke_getpwuid env)
                    (if mr_read req then ''MARK-READ'' else ''MARK-UNREAD'') uid (mr_mailbox req) mb) of
               Inl reject \<Rightarrow> (AckErr (ar_code reject) (ar_reason reject), t)
             | Inr _ \<Rightarrow>
                (let mailbox_dir = join_path (join_path (ke_data_dir env) ''inbox'') (mr_mailbox req) in
                 case resolve_email_path_strict (ke_faults env) (ke_canonicalize env) t mailbox_dir (mr_id req) of
                   None \<Rightarrow>
                     (AckErr ENotFound (''email '' @ quote (mr_id req) @ '' not found in inbox/'' @ mr_mailbox req), t)
                 | Some (parent, name) \<Rightarrow> mark_file env req mb parent name t)))"

end
