(* ===== verification/MailboxHandler.thy ===== *)
theory MailboxHandler
  imports MailboxCrud
begin

text \<open>
  The handlers of MAILBOX-CREATE and MAILBOX-DELETE (\<open>src/mailbox_handler.rs\<close>,
  \<open>handle_mailbox_crud\<close>, \<open>handle_create\<close>, \<open>handle_delete\<close>), each with its checks, its effects in
  order and its roll-back.
\<close>

record mailbox_env =
  me_pw :: user_db
  me_getpwuid :: "nat \<Rightarrow> string option"
  me_faults :: faults
  me_data_dir :: string
  me_config_path :: string
  me_dbg :: "string \<Rightarrow> string"

definition inbox_path :: "mailbox_env \<Rightarrow> string \<Rightarrow> string" where
  "inbox_path env name = join_path (join_path (me_data_dir env) ''inbox'') name"

definition sent_path :: "mailbox_env \<Rightarrow> string \<Rightarrow> string" where
  "sent_path env name = join_path (join_path (me_data_dir env) ''sent'') name"

text \<open>From the two \<open>chown\<close>s on: they, the write and the swap, each undone by the roll-back.\<close>

definition create_commit ::
  "mailbox_env \<Rightarrow> string \<Rightarrow> bool \<Rightarrow> bool \<Rightarrow> mailbox_config \<Rightarrow> config \<Rightarrow> mailbox_world \<Rightarrow>
   ack_response \<times> mailbox_world" where
  "create_commit env name inbox_existed sent_existed mb_cfg new_config w =
     (let inbox = inbox_path env name;
          sent = sent_path env name;
          roll = rollback_self_created_dirs (me_faults env) inbox inbox_existed sent sent_existed
      in case chown_as_owner (me_pw env) (me_faults env) inbox mb_cfg 0x1C0 (mw_fs w) of
           (Inl e, fs) \<Rightarrow>
             (AckErr EIo (''failed to chown '' @ inbox @ '': '' @ e), w\<lparr>mw_fs := roll fs\<rparr>)
         | (Inr _, fs1) \<Rightarrow>
        (case chown_as_owner (me_pw env) (me_faults env) sent mb_cfg 0x1C0 fs1 of
           (Inl e, fs) \<Rightarrow>
             (AckErr EIo (''failed to chown '' @ sent @ '': '' @ e), w\<lparr>mw_fs := roll fs\<rparr>)
         | (Inr _, fs2) \<Rightarrow>
        (case write_config_atomic (me_faults env) (me_config_path env) new_config (w\<lparr>mw_fs := fs2\<rparr>) of
           (Inl e, w') \<Rightarrow>
             (AckErr EIo (''failed to write '' @ me_config_path env @ '': '' @ e),
              w'\<lparr>mw_fs := roll (mw_fs w')\<rparr>)
         | (Inr _, w') \<Rightarrow> (AckOk, w'\<lparr>mw_handle := handle_store (mw_handle w') new_config\<rparr>))))"

definition insert_mailbox :: "config \<Rightarrow> string \<Rightarrow> mailbox_config \<Rightarrow> config" where
  "insert_mailbox cfg name mb = cfg\<lparr>cfg_mailboxes := AList.update name mb (cfg_mailboxes cfg)\<rparr>"

definition remove_mailbox :: "config \<Rightarrow> string \<Rightarrow> config" where
  "remove_mailbox cfg name = cfg\<lparr>cfg_mailboxes := AList.delete name (cfg_mailboxes cfg)\<rparr>"

definition handle_create ::
  "mailbox_env \<Rightarrow> string \<Rightarrow> string \<Rightarrow> mailbox_world \<Rightarrow> ack_response \<times> mailbox_world" where
  "handle_create env name owner w =
     (let current = handle_load (mw_handle w);
          faults = me_faults env;
          inbox = inbox_path env name;
          sent = sent_path env name
      in if lookup_mailbox current name \<noteq> None
         then (AckErr EMailbox (''mailbox '' @ quote name @ '' already exists''), w)
         else case resolve_owner_ids (me_pw env) owner of
             Inl reason \<Rightarrow> (AckErr EValidation reason, w)
           | Inr (uid, gid) \<Rightarrow>
              (let inbox_existed = (mw_fs w inbox \<noteq> None);
                   sent_existed = (mw_fs w sent \<noteq> None)
               in case check_preexisting_dirs faults inbox sent uid gid (mw_fs w) of
                    Some err \<Rightarrow> (err, w)
                  | None \<Rightarrow>
                 (case create_dir_all faults inbox (mw_fs w) of
                    (Inl e, _) \<Rightarrow> (AckErr EIo (''failed to create '' @ inbox @ '': '' @ e), w)
                  | (Inr _, fs1) \<Rightarrow>
                 (case create_dir_all faults sent fs1 of
                    (Inl e, fs2) \<Rightarrow>
                      (AckErr EIo (''failed to create '' @ sent @ '': '' @ e),
                       w\<lparr>mw_fs := (if \<not> inbox_existed then remove_dir faults inbox fs2 else fs2)\<rparr>)
                  | (Inr _, fs2) \<Rightarrow>
                     (let mb_cfg = new_mailbox current name owner;
                          new_config = insert_mailbox current name mb_cfg
                      in create_commit env name inbox_existed sent_existed mb_cfg new_config
                           (w\<lparr>mw_fs := fs2\<rparr>))))))"

definition delete_commit ::
  "mailbox_env \<Rightarrow> string \<Rightarrow> mailbox_world \<Rightarrow> ack_response \<times> mailbox_world" where
  "delete_commit env name w =
     (let inbox_files = count_files_if_exists (me_faults env) (inbox_path env name) (mw_fs w);
          sent_files = count_files_if_exists (me_faults env) (sent_path env name) (mw_fs w)
      in if inbox_files + sent_files > 0
         then (AckErr ENonEmpty
                (''mailbox '' @ quote name @ '' has '' @ show_nat (inbox_files + sent_files) @ '' files ('' @
                 show_nat inbox_files @ '' in inbox, '' @ show_nat sent_files @
                 '' in sent); archive or remove them first''), w)
         else
          (let new_config = remove_mailbox (handle_load (mw_handle w)) name in
           case write_config_atomic (me_faults env) (me_config_path env) new_config w of
             (Inl e, w') \<Rightarrow>
               (AckErr EIo (''failed to write '' @ me_config_path env @ '': '' @ e), w')
           | (Inr _, w') \<Rightarrow> (AckOk, w'\<lparr>mw_handle := handle_store (mw_handle w') new_config\<rparr>)))"

definition handle_delete ::
  "mailbox_env \<Rightarrow> string \<Rightarrow> bool \<Rightarrow> mailbox_world \<Rightarrow> ack_response \<times> mailbox_world" where
  "handle_delete env name force w =
     (if name = ''catchall'' then (AckErr EMailbox ''cannot delete the catchall mailbox'', w)
      else if lookup_mailbox (handle_load (mw_handle w)) name = None
      then (AckErr EMailbox (no_such_mailbox_reason name), w)
      else if force then
        (case wipe_mailbox_dirs (me_faults env) (inbox_path env name) (sent_path env name) (mw_fs w) of
           (Inl e, fs) \<Rightarrow>
             (AckErr EIo (''failed to wipe mailbox '' @ quote name @ '': '' @ e), w\<lparr>mw_fs := fs\<rparr>)
         | (Inr _, fs) \<Rightarrow> delete_commit env name (w\<lparr>mw_fs := fs\<rparr>))
      else delete_commit env name w)"

definition create_owner :: "mailbox_env \<Rightarrow> nat \<Rightarrow> string option \<Rightarrow> string + string" where
  "create_owner env uid wire_owner =
     (if uid = 0 then
        (case wire_owner of
           Some owner \<Rightarrow> Inr owner
         | None \<Rightarrow> Inl ''MAILBOX-CREATE requires an Owner: header'')
      else peer_username (me_getpwuid env) uid)"

definition handle_mailbox_crud ::
  "mailbox_env \<Rightarrow> mailbox_request \<Rightarrow> nat \<Rightarrow> mailbox_world \<Rightarrow> ack_response \<times> mailbox_world" where
  "handle_mailbox_crud env req uid w =
     (case validate_mailbox_name (mq_name req) of
        Inl e \<Rightarrow> (AckErr EValidation (name_error_message (me_dbg env) e), w)
      | Inr _ \<Rightarrow>
          if mq_create req then
            (case create_owner env uid (mq_owner req) of
               Inl reason \<Rightarrow> (AckErr EValidation reason, w)
             | Inr owner \<Rightarrow>
                 (case authorize (me_pw env) uid (MailboxCreate uid) None of
                    Inl _ \<Rightarrow> (AckErr EEaccess not_authorized_wire_reason, w)
                  | Inr _ \<Rightarrow> handle_create env (mq_name req) owner w))
          else
            (case authorize (me_pw env) uid (MailboxDelete (mq_name req))
                    (lookup_mailbox (handle_load (mw_handle w)) (mq_name req)) of
               Inl (NotOwner _) \<Rightarrow> (AckErr EMailbox (no_such_mailbox_reason (mq_name req)), w)
             | Inl NoSuchMailbox \<Rightarrow> (AckErr EMailbox (no_such_mailbox_reason (mq_name req)), w)
             | Inl _ \<Rightarrow> (AckErr EMailbox not_authorized_wire_reason, w)
             | Inr _ \<Rightarrow> handle_delete env (mq_name req) (mq_force req) w))"

end
