(* ===== verification/MailboxFacts.thy ===== *)
theory MailboxFacts
  imports MailboxHandler
begin

text \<open>
  Properties of mailbox CRUD: memory and disk agree, a refusal changes no configuration, other
  mailboxes are out of reach, owners cannot be forged, mail is not lost without the force flag,
  and which requests keep the configuration loadable.
\<close>

section \<open>Names\<close>

lemma utf8_chars_ascii: "is_ascii s \<Longrightarrow> utf8_chars s = map (\<lambda>c. [c]) s"
  by (induction s) (auto simp: utf8_chars_def is_ascii_def)

definition mailbox_name_byte :: "char \<Rightarrow> bool" where
  "mailbox_name_byte b \<longleftrightarrow> mailbox_name_char [b]"

lemma name_byte_ascii: "mailbox_name_byte b \<Longrightarrow> is_ascii_char b"
  by (auto simp: mailbox_name_byte_def mailbox_name_char_def byte_defs)

lemma mailbox_name_char_byte: "mailbox_name_char c \<Longrightarrow> \<exists>b. c = [b] \<and> mailbox_name_byte b"
  by (auto simp: mailbox_name_char_def mailbox_name_byte_def split: list.splits)

lemma name_chars_iff:
  "list_all mailbox_name_char (utf8_chars s) \<longleftrightarrow> list_all mailbox_name_byte s"
proof
  assume l: "list_all mailbox_name_char (utf8_chars s)"
  have "list_all mailbox_name_byte (concat cs)" if "list_all mailbox_name_char cs" for cs
    using that by (induction cs) (auto dest!: mailbox_name_char_byte)
  from this [OF l] show "list_all mailbox_name_byte s" by (simp add: concat_utf8_chars)
next
  assume b: "list_all mailbox_name_byte s"
  then have "is_ascii s" by (auto simp: is_ascii_def list_all_iff name_byte_ascii)
  with b show "list_all mailbox_name_char (utf8_chars s)"
    by (simp add: utf8_chars_ascii list.pred_map comp_def mailbox_name_byte_def [abs_def])
qed

text \<open>
  an accepted mailbox name is made of \<open>[a-z0-9._-]\<close> alone, has no \<open>..\<close> and no dot at either
  end, and is not one of the two reserved names, so it is one component of a path that stays in
  its directory and a local part that needs no quoting; and every such name is accepted.
\<close>

theorem validate_mailbox_name_iff:
  "validate_mailbox_name name = Inr () \<longleftrightarrow>
     name \<noteq> [] \<and> list_all mailbox_name_byte name \<and> \<not> contains name ''..'' \<and>
     \<not> starts_with name ''.'' \<and> \<not> ends_with name ''.'' \<and> name \<notin> {''catchall'', ''aimx-catchall''}"
proof -
  have "find (\<lambda>c. \<not> mailbox_name_char c) (utf8_chars name) = None \<longleftrightarrow> list_all mailbox_name_byte name"
    unfolding name_chars_iff [symmetric] by (auto simp: find_None_iff list_all_iff)
  then show ?thesis
    by (auto simp: validate_mailbox_name_def split: option.splits)
qed

lemma name_byte_no_sep: "list_all mailbox_name_byte name \<Longrightarrow> CHR ''/'' \<notin> set name \<and> CHR ''@'' \<notin> set name \<and> CHR ''*'' \<notin> set name"
  by (auto simp: list_all_iff mailbox_name_byte_def mailbox_name_char_def byte_defs)

section \<open>Effects on the configuration\<close>

text \<open>Memory and disk hold the same configuration.\<close>

definition coherent :: "mailbox_world \<Rightarrow> bool" where
  "coherent w \<longleftrightarrow> mw_disk w = handle_load (mw_handle w)"

text \<open>A request has changed neither configuration, or set both to the new one.\<close>

definition config_effect :: "config \<Rightarrow> mailbox_world \<Rightarrow> ack_response \<times> mailbox_world \<Rightarrow> bool" where
  "config_effect new w res \<longleftrightarrow>
     (if fst res = AckOk then mw_disk (snd res) = new \<and> handle_load (mw_handle (snd res)) = new
      else mw_disk (snd res) = mw_disk w \<and> mw_handle (snd res) = mw_handle w)"

lemma create_commit_effect:
  "config_effect new w (create_commit env name ie se mb new w)"
  by (simp add: create_commit_def config_effect_def Let_def write_config_atomic_def handle.load_store
      split: prod.splits sum.splits option.splits)

lemma config_effect_fs [simp]: "config_effect new (w\<lparr>mw_fs := fs\<rparr>) res = config_effect new w res"
  by (simp add: config_effect_def)

lemma config_effect_err [simp]: "config_effect new w (AckErr c r, w\<lparr>mw_fs := fs\<rparr>)" "config_effect new w (AckErr c r, w)"
  by (simp_all add: config_effect_def)

lemma preexisting_err: "preexisting_dir_check f uid gid fs p = Some r \<Longrightarrow> \<exists>c s. r = AckErr c s"
  by (auto simp: preexisting_dir_check_def split: option.splits if_splits)

lemma check_preexisting_err: "check_preexisting_dirs f i s uid gid fs = Some r \<Longrightarrow> \<exists>c s. r = AckErr c s"
  by (auto simp: check_preexisting_dirs_def dest: preexisting_err split: option.splits)

definition created_config :: "mailbox_world \<Rightarrow> string \<Rightarrow> string \<Rightarrow> config" where
  "created_config w name owner =
     insert_mailbox (handle_load (mw_handle w)) name (new_mailbox (handle_load (mw_handle w)) name owner)"

lemma handle_create_effect:
  "config_effect (created_config w name owner) w (handle_create env name owner w)"
  using create_commit_effect [of "created_config w name owner" "w\<lparr>mw_fs := fs\<rparr>" for fs]
  by (auto simp: handle_create_def Let_def created_config_def dest!: check_preexisting_err
      split: sum.splits prod.splits option.splits)

lemma delete_commit_effect:
  "config_effect (remove_mailbox (handle_load (mw_handle w)) name) w (delete_commit env name w)"
  by (simp add: delete_commit_def Let_def config_effect_def write_config_atomic_def handle.load_store
      split: option.splits)

lemma handle_delete_effect:
  "config_effect (remove_mailbox (handle_load (mw_handle w)) name) w (handle_delete env name force w)"
  using delete_commit_effect [of "w\<lparr>mw_fs := fs\<rparr>" name env for fs] delete_commit_effect [of w name env]
  by (auto simp: handle_delete_def split: prod.splits sum.splits)

definition requested_config :: "mailbox_env \<Rightarrow> mailbox_request \<Rightarrow> nat \<Rightarrow> mailbox_world \<Rightarrow> config" where
  "requested_config env req uid w =
     (if mq_create req
      then (case create_owner env uid (mq_owner req) of
          Inr owner \<Rightarrow> created_config w (mq_name req) owner
        | Inl _ \<Rightarrow> handle_load (mw_handle w))
      else remove_mailbox (handle_load (mw_handle w)) (mq_name req))"

lemma handle_mailbox_crud_effect:
  "config_effect (requested_config env req uid w) w (handle_mailbox_crud env req uid w)"
  using handle_create_effect [of w "mq_name req" _ env] handle_delete_effect [of w "mq_name req" env]
  by (auto simp: handle_mailbox_crud_def requested_config_def
      split: sum.splits auth_error.splits)

text \<open>
  every MAILBOX request leaves memory and disk agreeing, if they did before; a refused
  one, and one that failed half-way, has changed neither.
\<close>

theorem crud_keeps_memory_and_disk_coherent:
  assumes "coherent w"
  shows "case handle_mailbox_crud env req uid w of (resp, w') \<Rightarrow>
    coherent w' \<and> (resp \<noteq> AckOk \<longrightarrow> handle_load (mw_handle w') = handle_load (mw_handle w))"
  using handle_mailbox_crud_effect [of env req uid w] assms
  by (auto simp: config_effect_def coherent_def split: prod.splits if_splits)

lemma lookup_insert: "lookup_mailbox (insert_mailbox cfg name mb) n = (if n = name then Some mb else lookup_mailbox cfg n)"
  by (simp add: lookup_mailbox_def insert_mailbox_def update_conv')

lemma lookup_remove: "lookup_mailbox (remove_mailbox cfg name) n = (if n = name then None else lookup_mailbox cfg n)"
  by (simp add: lookup_mailbox_def remove_mailbox_def delete_conv')

lemma other_settings:
  "(insert_mailbox cfg name mb)\<lparr>cfg_mailboxes := []\<rparr> = cfg\<lparr>cfg_mailboxes := []\<rparr>"
  "(remove_mailbox cfg name)\<lparr>cfg_mailboxes := []\<rparr> = cfg\<lparr>cfg_mailboxes := []\<rparr>"
  by (simp_all add: insert_mailbox_def remove_mailbox_def)

text \<open>
  a MAILBOX request reaches no mailbox but the one it names, whoever sends it and
  however it ends: every other mailbox keeps its configuration, and the domain, data directory
  and the other settings stay as they are.
\<close>

theorem crud_touches_one_mailbox:
  "case handle_mailbox_crud env req uid w of (resp, w') \<Rightarrow>
     (n \<noteq> mq_name req \<longrightarrow> lookup_mailbox (handle_load (mw_handle w')) n =
                           lookup_mailbox (handle_load (mw_handle w)) n) \<and>
     (handle_load (mw_handle w'))\<lparr>cfg_mailboxes := []\<rparr> = (handle_load (mw_handle w))\<lparr>cfg_mailboxes := []\<rparr>"
  using handle_mailbox_crud_effect [of env req uid w]
  by (auto simp: config_effect_def requested_config_def created_config_def lookup_insert lookup_remove
      other_settings split: prod.splits if_splits sum.splits)

section \<open>Who may do what\<close>

lemma handle_create_ok:
  assumes "handle_create env name owner w = (AckOk, w')"
  shows "lookup_mailbox (handle_load (mw_handle w)) name = None \<and>
    handle_load (mw_handle w') = created_config w name owner \<and>
    (\<exists>uid gid. resolve_owner_ids (me_pw env) owner = Inr (uid, gid))"
proof -
  have "handle_load (mw_handle w') = created_config w name owner"
    using handle_create_effect [of w name owner env] assms by (simp add: config_effect_def)
  then show ?thesis
    using assms by (auto simp: handle_create_def Let_def split: if_splits sum.splits)
qed

lemma handle_delete_ok:
  assumes "handle_delete env name force w = (AckOk, w')"
  shows "lookup_mailbox (handle_load (mw_handle w)) name \<noteq> None \<and>
    handle_load (mw_handle w') = remove_mailbox (handle_load (mw_handle w)) name"
  using handle_delete_effect [of w name env force] assms
  by (auto simp: config_effect_def handle_delete_def split: if_splits)

lemma crud_creates:
  assumes "uid \<noteq> 0" "handle_mailbox_crud env req uid w = (AckOk, w')" "mq_create req"
  shows "lookup_mailbox (handle_load (mw_handle w)) (mq_name req) = None \<and>
    (\<exists>owner. me_getpwuid env uid = Some owner \<and> handle_load (mw_handle w') = created_config w (mq_name req) owner)"
proof -
  from assms obtain owner where owner: "peer_username (me_getpwuid env) uid = Inr owner"
    and ok: "handle_create env (mq_name req) owner w = (AckOk, w')"
    by (auto simp: handle_mailbox_crud_def create_owner_def split: sum.splits)
  from owner assms(1) have "me_getpwuid env uid = Some owner"
    by (auto simp: peer_username_def lookup_username_def split: option.splits)
  with handle_create_ok [OF ok] show ?thesis by blast
qed

lemma crud_authorized:
  assumes "uid \<noteq> 0" "handle_mailbox_crud env req uid w = (AckOk, w')"
  shows "if mq_create req
    then lookup_mailbox (handle_load (mw_handle w)) (mq_name req) = None \<and>
         (\<exists>mb. lookup_mailbox (handle_load (mw_handle w')) (mq_name req) = Some mb \<and>
               me_getpwuid env uid = Some (mb_owner mb))
    else (\<exists>mb. lookup_mailbox (handle_load (mw_handle w)) (mq_name req) = Some mb \<and>
               owner_uid (me_pw env) mb = Inr uid) \<and>
         lookup_mailbox (handle_load (mw_handle w')) (mq_name req) = None"
proof (cases "mq_create req")
  case True
  with crud_creates [OF assms True] show ?thesis
    by (auto simp: created_config_def lookup_insert new_mailbox_def)
next
  case False
  with assms have auth: "authorize (me_pw env) uid (MailboxDelete (mq_name req))
      (lookup_mailbox (handle_load (mw_handle w)) (mq_name req)) = Inr ()"
    and ok: "handle_delete env (mq_name req) (mq_force req) w = (AckOk, w')"
    by (auto simp: handle_mailbox_crud_def split: sum.splits auth_error.splits)
  from auth assms(1) have "\<exists>mb. lookup_mailbox (handle_load (mw_handle w)) (mq_name req) = Some mb \<and>
      owner_uid (me_pw env) mb = Inr uid"
    by (simp add: authorize_mailbox_action authorize_mailbox_Inr)
  with handle_delete_ok [OF ok] False show ?thesis by (simp add: lookup_remove)
qed

text \<open>
  C8: a user other than root cannot plant or remove anyone else's mailbox: what it creates is
  owned by its own user name, whatever owner the request names, and what it deletes existed and
  was owned by its uid.
\<close>

theorem crud_by_owner_only:
  assumes "uid \<noteq> 0" "handle_mailbox_crud env req uid w = (AckOk, w')"
  shows "if mq_create req
    then lookup_mailbox (handle_load (mw_handle w)) (mq_name req) = None \<and>
         (\<exists>mb. lookup_mailbox (handle_load (mw_handle w')) (mq_name req) = Some mb \<and>
               me_getpwuid env uid = Some (mb_owner mb))
    else (\<exists>mb. lookup_mailbox (handle_load (mw_handle w)) (mq_name req) = Some mb \<and>
               owner_uid (me_pw env) mb = Inr uid) \<and>
         lookup_mailbox (handle_load (mw_handle w')) (mq_name req) = None"
  using assms by (rule crud_authorized)

text \<open>
  to a user other than root, deleting a mailbox that does not exist and deleting one it
  does not own give the same answer, byte for byte, and neither changes anything.
\<close>

theorem delete_hides_existence:
  assumes "uid \<noteq> 0" "validate_mailbox_name (mq_name req) = Inr ()" "\<not> mq_create req"
    and "\<And>mb. lookup_mailbox (handle_load (mw_handle w)) (mq_name req) = Some mb \<Longrightarrow>
      owner_uid (me_pw env) mb \<noteq> Inr uid"
  shows "handle_mailbox_crud env req uid w = (AckErr EMailbox (no_such_mailbox_reason (mq_name req)), w)"
proof (cases "lookup_mailbox (handle_load (mw_handle w)) (mq_name req)")
  case None
  with assms show ?thesis
    by (simp add: handle_mailbox_crud_def authorize_mailbox_action authorize_mailbox_def)
next
  case (Some mb)
  with assms(4) have "owner_uid (me_pw env) mb \<noteq> Inr uid" by blast
  with Some assms(1-3) show ?thesis
    by (cases "owner_uid (me_pw env) mb")
      (simp_all add: handle_mailbox_crud_def authorize_mailbox_action authorize_mailbox_def)
qed

section \<open>Mail on disk\<close>

lemma delete_commit_fs: "mw_fs (snd (delete_commit env name w)) = mw_fs w"
  by (simp add: delete_commit_def Let_def write_config_atomic_def split: option.splits)

text \<open>
  without the force flag a delete removes no file: the file system is as it was, whatever
  the outcome; and it succeeds only on directories in which it saw no entry.
\<close>

theorem plain_delete_loses_no_mail:
  "case handle_delete env name False w of (resp, w') \<Rightarrow>
     mw_fs w' = mw_fs w \<and>
     (resp = AckOk \<longrightarrow> count_files_if_exists (me_faults env) (inbox_path env name) (mw_fs w) = 0 \<and>
                      count_files_if_exists (me_faults env) (sent_path env name) (mw_fs w) = 0)"
  using delete_commit_fs [of env name w]
  by (auto simp: handle_delete_def delete_commit_def Let_def split: prod.splits if_splits)

section \<open>Which requests keep the configuration loadable\<close>

lemma update_new: "k \<notin> fst ` set al \<Longrightarrow> AList.update k v al = al @ [(k, v)]"
  by (induction al) auto

lemma lookup_None_keys: "lookup_mailbox cfg name = None \<longleftrightarrow> name \<notin> fst ` set (cfg_mailboxes cfg)"
  by (simp add: lookup_mailbox_def map_of_eq_None_iff)

lemma is_catchall_domain: "cfg_domain cfg = cfg_domain cfg' \<Longrightarrow> is_catchall cfg mb = is_catchall cfg' mb"
  by (simp add: is_catchall_def)

lemma mailbox_ok_domain: "cfg_domain cfg = cfg_domain cfg' \<Longrightarrow> mailbox_ok cfg mb = mailbox_ok cfg' mb"
  by (simp add: mailbox_ok_def is_catchall_domain [of cfg cfg'])

lemma resolved_owner_ok:
  assumes "resolve_owner_ids pw owner = Inr ug"
  shows "(is_reserved_run_as owner \<or> is_valid_system_username owner) \<and> trim owner \<noteq> []"
proof -
  have named: "is_reserved_run_as owner \<or> is_valid_system_username owner"
    using assms
    by (auto simp: resolve_owner_ids_def owner_uid_def owner_id_def validate_run_as_def
        is_reserved_run_as_def Let_def split: if_splits sum.splits option.splits)
  have "trim owner \<noteq> []"
  proof -
    from named obtain c s where "owner = c # s" "is_ascii_lowercase c \<or> c = CHR ''_''"
      by (cases owner) (auto simp: is_reserved_run_as_def RESERVED_RUN_AS_ROOT_def
          RESERVED_RUN_AS_CATCHALL_def is_valid_system_username_def byte_defs split: if_splits)
    moreover from this(2) have "plain_byte c"
      by (auto simp: plain_byte_def is_ascii_lowercase_def code_def)
    ultimately show ?thesis using trim_plain_hd by blast
  qed
  with named show ?thesis by simp
qed

lemma new_mailbox_not_catchall:
  assumes "list_all mailbox_name_byte name" "name \<noteq> []"
  shows "\<not> is_catchall cfg (new_mailbox cfg name owner)"
proof
  assume c: "is_catchall cfg (new_mailbox cfg name owner)"
  obtain b bs where name: "name = b # bs" using assms(2) by (cases name) auto
  with assms(1) have b: "mailbox_name_byte b" by simp
  from c name have "to_ascii_lower b = to_ascii_lower CHR ''*''"
    by (simp add: is_catchall_def new_mailbox_def eq_ignore_ascii_case_def to_ascii_lowercase_def)
  moreover have "to_ascii_lower CHR ''*'' = CHR ''*''" by code_simp
  moreover have "to_ascii_lower b = b"
    using b by (auto simp: to_ascii_lower_def mailbox_name_byte_def mailbox_name_char_def byte_defs)
  ultimately have "b = CHR ''*''" by simp
  with b show False by (simp add: mailbox_name_byte_def mailbox_name_char_def byte_defs)
qed

text \<open>
  a successful create turns a valid configuration into a valid one exactly when the
  mailbox is not given to root: with \<open>Owner: root\<close> (which only root can send) the daemon writes a
  configuration that \<open>Config::load\<close> refuses, so it does not come up again after a restart.
\<close>

theorem create_keeps_config_loadable:
  assumes ok: "config_ok sha (handle_load (mw_handle w))"
    and name: "validate_mailbox_name name = Inr ()"
    and created: "handle_create env name owner w = (AckOk, w')"
  shows "config_ok sha (handle_load (mw_handle w')) \<longleftrightarrow> owner \<noteq> RESERVED_RUN_AS_ROOT"
proof -
  let ?cfg = "handle_load (mw_handle w)"
  let ?mb = "new_mailbox ?cfg name owner"
  from handle_create_ok [OF created] obtain ug where none: "lookup_mailbox ?cfg name = None"
    and new: "handle_load (mw_handle w') = insert_mailbox ?cfg name ?mb"
    and owner: "resolve_owner_ids (me_pw env) owner = Inr ug"
    by (auto simp: created_config_def)
  have boxes: "cfg_mailboxes (insert_mailbox ?cfg name ?mb) = cfg_mailboxes ?cfg @ [(name, ?mb)]"
    using none by (simp add: insert_mailbox_def update_new lookup_None_keys)
  have hooks: "all_hooks (insert_mailbox ?cfg name ?mb) = all_hooks ?cfg"
    unfolding all_hooks_def boxes by (simp add: new_mailbox_def)
  have dom: "cfg_domain (insert_mailbox ?cfg name ?mb) = cfg_domain ?cfg"
    "cfg_trust (insert_mailbox ?cfg name ?mb) = cfg_trust ?cfg"
    by (simp_all add: insert_mailbox_def)
  have "\<not> is_catchall ?cfg ?mb"
    using name by (intro new_mailbox_not_catchall) (simp_all add: validate_mailbox_name_iff)
  then have "mailbox_ok ?cfg ?mb \<longleftrightarrow> owner \<noteq> RESERVED_RUN_AS_ROOT"
    using resolved_owner_ok [OF owner] by (auto simp: mailbox_ok_def new_mailbox_def)
  then show ?thesis
    using ok mailbox_ok_domain [OF dom(1)] by (auto simp: new config_ok_def boxes hooks dom)
qed

lemma concat_filter_distinct:
  "distinct (map g (concat (map f xs))) \<Longrightarrow> distinct (map g (concat (map f (filter P xs))))"
proof (induction xs)
  case (Cons x xs)
  then show ?case by (auto simp: image_iff)
qed simp

text \<open>a delete keeps a valid configuration valid.\<close>

theorem delete_keeps_config_loadable:
  assumes "config_ok sha (handle_load (mw_handle w))" "handle_delete env name force w = (AckOk, w')"
  shows "config_ok sha (handle_load (mw_handle w'))"
proof -
  let ?cfg = "handle_load (mw_handle w)"
  have new: "handle_load (mw_handle w') = remove_mailbox ?cfg name"
    using handle_delete_ok [OF assms(2)] by simp
  have boxes: "cfg_mailboxes (remove_mailbox ?cfg name) = filter (\<lambda>nm. fst nm \<noteq> name) (cfg_mailboxes ?cfg)"
    by (auto simp: remove_mailbox_def AList.delete_eq intro!: filter_cong)
  have dom: "cfg_domain (remove_mailbox ?cfg name) = cfg_domain ?cfg"
    "cfg_trust (remove_mailbox ?cfg name) = cfg_trust ?cfg"
    by (simp_all add: remove_mailbox_def)
  have "list_all (\<lambda>mh. hook_ok (snd mh)) (all_hooks (remove_mailbox ?cfg name))"
    using assms(1) unfolding config_ok_def all_hooks_iff boxes by (auto simp: list_all_iff)
  moreover have "distinct (map (\<lambda>mh. effective_hook_name sha (snd mh)) (all_hooks (remove_mailbox ?cfg name)))"
    using assms(1) unfolding config_ok_def all_hooks_def boxes by (blast intro: concat_filter_distinct)
  ultimately show ?thesis
    using assms(1) mailbox_ok_domain [OF dom(1)] by (auto simp: new config_ok_def boxes dom list_all_iff)
qed

section \<open>The theorems at concrete requests\<close>

definition demo_env :: mailbox_env where
  "demo_env = \<lparr>me_pw = demo_users, me_getpwuid = demo_getpwuid, me_faults = (\<lambda>_ _. None),
     me_data_dir = ''/d'', me_config_path = ''/c'', me_dbg = id\<rparr>"

definition demo_world :: mailbox_world where
  "demo_world = \<lparr>mw_fs = Map.empty, mw_handle = handle_new (demo_config []), mw_disk = demo_config []\<rparr>"

definition demo_request :: "bool \<Rightarrow> string \<Rightarrow> mailbox_request" where
  "demo_request create name = \<lparr>mq_name = name, mq_create = create, mq_owner = None, mq_force = False\<rparr>"

lemma demo_world_simps [simp]:
  "handle_load (mw_handle demo_world) = demo_config []" "mw_disk demo_world = demo_config []"
  "mw_fs demo_world = Map.empty"
  by (simp_all add: demo_world_def handle_new_def handle_load_def)

lemma demo_lookup: "lookup_mailbox (demo_config []) n = (if n = ''alice'' then Some (demo_mailbox []) else None)"
  by (simp add: lookup_mailbox_def demo_config_def)

lemma demo_owner: "owner_uid demo_users (demo_mailbox []) = Inr 1000"
  by (simp add: owner_uid_def owner_id_def validate_run_as_def demo_mailbox_def demo_users_def
      RESERVED_RUN_AS_ROOT_def RESERVED_RUN_AS_CATCHALL_def is_valid_system_username_def
      USERNAME_MAX_LEN_def byte_defs)

lemma demo_names: "validate_mailbox_name ''alice'' = Inr ()" "validate_mailbox_name ''bob'' = Inr ()"
  by (simp_all add: validate_mailbox_name_iff mailbox_name_byte_def mailbox_name_char_def byte_defs
      ends_with_def)

lemma demo_delete:
  "fst (handle_mailbox_crud demo_env (demo_request False ''alice'') 1000 demo_world) = AckOk"
  "fst (handle_delete demo_env ''alice'' False demo_world) = AckOk"
  by (simp_all add: handle_mailbox_crud_def demo_request_def demo_names demo_lookup
      authorize_mailbox_action authorize_mailbox_def demo_env_def demo_owner handle_delete_def
      delete_commit_def count_files_if_exists_def write_config_atomic_def Let_def)

theorem crud_keeps_memory_and_disk_coherent_witness:
  "coherent (snd (handle_mailbox_crud demo_env (demo_request False ''alice'') 1000 demo_world))"
  using crud_keeps_memory_and_disk_coherent [of demo_world demo_env "demo_request False ''alice''" 1000]
  by (simp add: coherent_def split: prod.splits)

theorem crud_by_owner_only_witness:
  "\<exists>w'. handle_mailbox_crud demo_env (demo_request False ''alice'') 1000 demo_world = (AckOk, w') \<and>
     lookup_mailbox (handle_load (mw_handle w')) ''alice'' = None"
proof -
  obtain w' where w': "handle_mailbox_crud demo_env (demo_request False ''alice'') 1000 demo_world = (AckOk, w')"
    using demo_delete(1) by (cases "handle_mailbox_crud demo_env (demo_request False ''alice'') 1000 demo_world") auto
  from crud_by_owner_only [OF _ this] w' show ?thesis by (simp add: demo_request_def)
qed

theorem delete_hides_existence_witness:
  "handle_mailbox_crud demo_env (demo_request False ''alice'') 1001 demo_world =
     (AckErr EMailbox (no_such_mailbox_reason ''alice''), demo_world)"
proof -
  have "owner_uid (me_pw demo_env) mb \<noteq> Inr 1001"
    if "lookup_mailbox (handle_load (mw_handle demo_world)) ''alice'' = Some mb" for mb
    using that demo_owner by (simp add: demo_lookup demo_env_def)
  with delete_hides_existence [of 1001 "demo_request False ''alice''" demo_world demo_env] demo_names
  show ?thesis by (simp add: demo_request_def)
qed

lemma demo_config_ok: "config_ok id (demo_config [])"
  using demo_mailbox_ok [of "[]"]
  by (simp add: config_ok_def all_hooks_demo) (simp add: demo_config_def VALID_TRUST_VALUES_def)

lemma demo_create:
  assumes "owner \<in> {''bob'', RESERVED_RUN_AS_ROOT}"
  shows "fst (handle_create demo_env ''bob'' owner demo_world) = AckOk"
proof -
  have bob: "owner_id sel demo_users mb = Inr (sel \<lparr>ru_name = ''bob'', ru_uid = 1001, ru_gid = 1001\<rparr>)"
    if "mb_owner mb = ''bob''" for sel mb
    using that by (simp add: owner_id_def validate_run_as_def demo_users_def RESERVED_RUN_AS_ROOT_def
        RESERVED_RUN_AS_CATCHALL_def is_valid_system_username_def USERNAME_MAX_LEN_def byte_defs)
  have ids: "\<exists>ug. resolve_owner_ids demo_users owner = Inr ug"
    using assms by (auto simp: resolve_owner_ids_def owner_uid_def owner_gid_def bob)
  have ow: "\<exists>u. owner_uid demo_users (new_mailbox c n owner) = Inr u"
    "\<exists>u. owner_gid demo_users (new_mailbox c n owner) = Inr u" for c n
    using assms by (auto simp: owner_uid_def owner_gid_def bob new_mailbox_def)
  have paths: "inbox_path demo_env ''bob'' = ''/d/inbox/bob''" "sent_path demo_env ''bob'' = ''/d/sent/bob''"
    by (simp_all add: inbox_path_def sent_path_def join_path_def demo_env_def)
  obtain u g where "resolve_owner_ids demo_users owner = Inr (u, g)" using ids by auto
  moreover obtain x y where "owner_uid demo_users (new_mailbox (demo_config []) ''bob'' owner) = Inr x"
    "owner_gid demo_users (new_mailbox (demo_config []) ''bob'' owner) = Inr y" using ow by blast
  ultimately show ?thesis
    unfolding handle_create_def create_commit_def paths Let_def
    by (simp add: demo_lookup demo_env_def check_preexisting_dirs_def preexisting_dir_check_def
        create_dir_all_def chown_as_owner_def write_config_atomic_def)
qed

theorem create_keeps_config_loadable_witness:
  "config_ok id (handle_load (mw_handle (snd (handle_create demo_env ''bob'' ''bob'' demo_world)))) \<and>
   \<not> config_ok id (handle_load (mw_handle (snd (handle_create demo_env ''bob'' ''root'' demo_world))))"
proof -
  have ok: "config_ok id (handle_load (mw_handle (snd (handle_create demo_env ''bob'' owner demo_world)))) \<longleftrightarrow>
      owner \<noteq> RESERVED_RUN_AS_ROOT" if "owner \<in> {''bob'', RESERVED_RUN_AS_ROOT}" for owner
    using create_keeps_config_loadable [of id demo_world "''bob''" demo_env owner
        "snd (handle_create demo_env ''bob'' owner demo_world)"] demo_create [OF that]
      demo_config_ok demo_names
    by (cases "handle_create demo_env ''bob'' owner demo_world") simp
  show ?thesis
    using ok [of "''bob''"] ok [of "''root''"] by (simp add: RESERVED_RUN_AS_ROOT_def)
qed

theorem delete_keeps_config_loadable_witness:
  "config_ok id (handle_load (mw_handle (snd (handle_delete demo_env ''alice'' False demo_world))))"
  using delete_keeps_config_loadable [of id demo_world demo_env "''alice''" False
      "snd (handle_delete demo_env ''alice'' False demo_world)"] demo_delete(2) demo_config_ok
  by (cases "handle_delete demo_env ''alice'' False demo_world") simp

theorem crud_touches_one_mailbox_witness:
  "lookup_mailbox (handle_load (mw_handle
       (snd (handle_mailbox_crud demo_env (demo_request True ''bob'') 1001 demo_world)))) ''alice'' =
     Some (demo_mailbox [])"
  using crud_touches_one_mailbox [where env = demo_env and req = "demo_request True ''bob''" and uid = 1001 and
      w = demo_world and n = "''alice''"]
  by (simp add: demo_request_def demo_lookup split: prod.splits)

theorem plain_delete_loses_no_mail_witness:
  "mw_fs (snd (handle_delete demo_env ''alice'' False demo_world)) = Map.empty \<and>
   count_files_if_exists (me_faults demo_env) (inbox_path demo_env ''alice'') Map.empty = 0"
  using plain_delete_loses_no_mail [where env = demo_env and name = "''alice''" and w = demo_world] demo_delete(2)
  by (simp split: prod.splits)

end
