(* ===== verification/MarkFacts.thy ===== *)
theory MarkFacts
  imports MarkHandler MailboxFacts
begin

text \<open>
  Properties of the MARK verbs: who can mark, what a mark touches, that it keeps everything but
  the read state, and the frontmatter it cannot read.
\<close>

section \<open>What a mark touches\<close>

text \<open>The temporary file's path, and the path its contents are written to.\<close>

definition tmp_path :: "mark_env \<Rightarrow> string \<Rightarrow> string \<Rightarrow> string" where
  "tmp_path env parent name = join_path parent (tmp_name env name)"

definition tmp_target :: "mark_env \<Rightarrow> string \<Rightarrow> string \<Rightarrow> mail_tree \<Rightarrow> string" where
  "tmp_target env parent name t =
     (case follow MAX_LINKS t (tmp_path env parent name) of
        None \<Rightarrow> tmp_path env parent name | Some q \<Rightarrow> q)"

text \<open>All paths but these keep their node; an error keeps the mail itself too.\<close>

definition mark_effect :: "mark_env \<Rightarrow> string \<Rightarrow> string \<Rightarrow> mail_tree \<Rightarrow> ack_response \<times> mail_tree \<Rightarrow> bool" where
  "mark_effect env parent name t res \<longleftrightarrow>
     (\<forall>p. p \<noteq> tmp_path env parent name \<and> p \<noteq> tmp_target env parent name t \<longrightarrow>
        p \<noteq> join_path parent name \<or> fst res \<noteq> AckOk \<longrightarrow> snd res p = t p)"

lemma publish_effect: "mark_effect env parent name t (publish env parent name mb out t)"
proof (cases "fs_write (ke_faults env) (tmp_path env parent name) out t")
  case (Inl e)
  then show ?thesis by (simp add: mark_effect_def publish_def tmp_path_def Let_def)
next
  case (Inr t1)
  from written_owned [where pw = "ke_pw env" and fl = "ke_faults env" and mb = mb and mode = "0x180", OF Inr] obtain q where
    "follow MAX_LINKS t (tmp_path env parent name) = Some q"
    "\<forall>x. x \<noteq> q \<longrightarrow> chown_owned (ke_pw env) (ke_faults env) (tmp_path env parent name) mb 0x180 t1 x = t x" by blast
  with Inr show ?thesis
    by (auto simp: mark_effect_def publish_def tmp_target_def tmp_path_def Let_def split: option.splits)
qed

lemma mark_file_effect: "mark_effect env parent name t (mark_file env req mb parent name t)"
  using publish_effect [of env parent name t mb]
  by (auto simp: mark_file_def Let_def mark_effect_def split: sum.splits)

lemma resolve_contained:
  "resolve_email_path_strict f canon t dir id' = Some (parent, name) \<Longrightarrow>
     \<exists>dir_canon. canon dir = Some dir_canon \<and> contained canon dir_canon (join_path parent name) \<and>
       is_regular (lstat f t (join_path parent name))"
  by (auto simp: resolve_email_path_strict_def resolve_bundle_def Let_def is_regular_def
      split: option.splits lstat_result.splits if_splits inode.splits)

definition mark_dir :: "mark_env \<Rightarrow> mark_request \<Rightarrow> string" where
  "mark_dir env req = join_path (join_path (ke_data_dir env) ''inbox'') (mr_mailbox req)"


text \<open>
  the daemon, as root, writes and chowns the temporary file by its name, which the mailbox
  owner can predict, in a directory the owner can write. With a link planted there the owner's
  own MARK overwrites the file the link names, wherever it is and whoever it belongs to, with
  the rewritten mail, and hands it to the mailbox owner.
\<close>

theorem mark_follows_planted_link:
  assumes "validate_id (mr_id req)" "lookup_mailbox cfg (mr_mailbox req) = Some mb"
    and auth: "uds_authorized (ke_getpwuid env) uid mb"
    and res: "resolve_email_path_strict (ke_faults env) (ke_canonicalize env) t (mark_dir env req) (mr_id req) =
      Some (parent, name)"
    and mail: "t (join_path parent name) = Some (Regular f)" "valid_utf8 (mf_data f)"
      "rewrite_content env (mr_read req) (join_path parent name) (mf_data f) = Inr out"
    and "ke_faults env = (\<lambda>_ _. None)" "owner_uid (ke_pw env) mb = Inr u" "owner_gid (ke_pw env) mb = Inr g"
    and planted: "t (tmp_path env parent name) = Some (Symlink victim)" "t victim = Some (Regular v)"
      "victim \<noteq> join_path parent name"
  shows "\<exists>t'. handle_mark env cfg req uid t = (AckOk, t') \<and>
    t' victim = Some (Regular \<lparr>mf_data = out, mf_uid = u, mf_gid = g, mf_mode = 0x180\<rparr>)"
proof -
  let ?tmp = "tmp_path env parent name"
  have tv: "follow MAX_LINKS t ?tmp = Some victim" "?tmp \<noteq> victim"
    using planted follow_one [of t ?tmp victim] by auto
  let ?t1 = "t(victim \<mapsto> Regular (v\<lparr>mf_data := out\<rparr>))"
  have "fs_write (ke_faults env) ?tmp out t = Inr ?t1"
    using assms(8) tv planted(2) by (simp add: fs_write_def)
  moreover have "follow MAX_LINKS ?t1 ?tmp = Some victim"
    using tv(1) planted(2) by (simp add: follow_update)
  ultimately obtain t' where "publish env parent name mb out t = (AckOk, t')"
    "t' victim = Some (Regular \<lparr>mf_data = out, mf_uid = u, mf_gid = g, mf_mode = 0x180\<rparr>)"
    using assms(8-10) planted(3) tv(2)
    by (simp add: publish_def chown_owned_def set_meta_def Let_def flip: tmp_path_def)
  moreover have "handle_mark env cfg req uid t = publish env parent name mb out t"
    using assms(1,2,8) auth res mail
    by (simp add: handle_mark_def mark_file_def Let_def mark_dir_def enforce_Inl)
  ultimately show ?thesis by simp
qed

section \<open>What a mark keeps\<close>

lemma split_at_str_first:
  assumes "p \<noteq> []" "\<not> contains (a @ butlast p) p"
  shows "split_at_str p (a @ p @ b) = Some (a, b)"
  using assms
proof (induction a)
  case Nil
  then obtain c p' where p: "p = c # p'" by (cases p) auto
  have "starts_with (p @ b) p" by simp
  then show ?case by (simp add: p)
next
  case (Cons c a)
  from Cons.prems have no: "\<not> starts_with (c # a @ butlast p) p" and rest: "\<not> contains (a @ butlast p) p"
    by simp_all
  have "\<not> starts_with (c # a @ p @ b) p"
  proof
    assume "starts_with (c # a @ p @ b) p"
    then have "take (length p) (c # a @ p @ b) = p" by (simp add: starts_with_def)
    moreover have "length p \<le> length (c # a @ butlast p)" using Cons.prems(1) by (cases p) auto
    moreover have "take (length p) (c # a @ p @ b) = take (length p) (c # a @ butlast p)"
    proof -
      have "p = butlast p @ [last p]" using Cons.prems(1) by simp
      then have "c # a @ p @ b = (c # a @ butlast p) @ [last p] @ b" by (metis append.assoc append_Cons)
      with calculation(2) show ?thesis by (metis (no_types, lifting) append_Nil2 diff_is_0_eq take_append take_eq_Nil)
    qed
    ultimately show False using no by (simp add: starts_with_def)
  qed
  with Cons.IH [OF Cons.prems(1) rest] show ?case by simp
qed

text \<open>A serialized block the split leaves whole: it holds no \<open>+++\<close>, nor one with what follows.\<close>

definition toml_block_ok :: "string \<Rightarrow> bool" where
  "toml_block_ok toml \<longleftrightarrow> \<not> contains (toml @ ''++'') ''+++''"

lemma frontmatter_parts_stored:
  assumes "toml_block_ok toml"
  shows "frontmatter_parts (''+++'' @ [LF] @ toml @ ''+++'' @ body) = Some (LF # toml, body)"
proof -
  have "split_at_str ''+++'' ([] @ ''+++'' @ LF # toml @ ''+++'' @ body) = Some ([], LF # toml @ ''+++'' @ body)"
    by (rule split_at_str_first) simp_all
  moreover have "split_at_str ''+++'' ((LF # toml) @ ''+++'' @ body) = Some (LF # toml, body)"
    using assms by (intro split_at_str_first) (simp_all add: toml_block_ok_def LF_def)
  ultimately show ?thesis by (simp add: frontmatter_parts_def)
qed

lemma trim_LF: "trim (LF # s) = trim s"
  by (simp add: trim_def trim_start_blank)

text \<open>
  marking a stored mail rewrites it to the same mail with the new read state: the
  frontmatter is the old one with \<open>read\<close> and \<open>read_at\<close> set, the body is untouched, and the file
  has the layout it was stored in, so it can be marked again.
\<close>

theorem mark_keeps_the_mail:
  assumes "toml_block_ok (to_toml meta)"
    and "ke_from_toml env (trim (to_toml meta)) = Inr meta"
    and "ke_to_toml env (set_read rd (ke_now env) meta) = Inr (to_toml (set_read rd (ke_now env) meta))"
  shows "rewrite_content env rd filepath (format_frontmatter to_toml meta body) =
    Inr (format_frontmatter to_toml (set_read rd (ke_now env) meta) body)"
proof -
  let ?tail = "[LF, LF] @ body @ (if ends_with body [LF] then [] else [LF])"
  have "frontmatter_parts (format_frontmatter to_toml meta body) = Some (LF # to_toml meta, ?tail)"
    using frontmatter_parts_stored [OF assms(1), of ?tail] by (simp add: format_frontmatter_def)
  with assms(2,3) show ?thesis
    by (simp add: rewrite_content_def trim_LF format_frontmatter_def)
qed

text \<open>
  a stored mail whose serialized frontmatter itself holds \<open>+++\<close> (a subject such as
  \<open>C+++\<close>) is cut there: the TOML parser is given only what stands before it, and when that is no
  valid frontmatter the mail cannot be marked at all.
\<close>

theorem mark_cuts_at_plusses:
  assumes "to_toml meta = a @ ''+++'' @ b" "toml_block_ok a" "ke_from_toml env (trim a) = Inl e"
  shows "rewrite_content env rd filepath (format_frontmatter to_toml meta body) =
    Inl (''failed to parse frontmatter in '' @ filepath @ '': '' @ e)"
proof -
  let ?tail = "b @ ''+++'' @ [LF, LF] @ body @ (if ends_with body [LF] then [] else [LF])"
  have "frontmatter_parts (format_frontmatter to_toml meta body) = Some (LF # a, ?tail)"
    using frontmatter_parts_stored [OF assms(2), of ?tail] assms(1) by (simp add: format_frontmatter_def)
  with assms(3) show ?thesis by (simp add: rewrite_content_def trim_LF)
qed

section \<open>The theorems at a concrete mail\<close>

definition demo_meta :: "string \<Rightarrow> inbound_frontmatter" where
  "demo_meta subject = \<lparr>fm_id = ''m'', fm_message_id = ''m@x'', fm_thread_id = ''t'', fm_from = ''a@x'',
     fm_to = ''alice@d.io'', fm_cc = None, fm_reply_to = None, fm_delivered_to = ''alice@d.io'',
     fm_subject = subject, fm_date = ''d'', fm_received_at = ''d'', fm_received_from_ip = None,
     fm_size_bytes = 1, fm_attachments = [], fm_in_reply_to = None, fm_references = None,
     fm_list_id = None, fm_auto_submitted = None, fm_dkim = ''none'', fm_spf = ''none'',
     fm_dmarc = ''none'', fm_trusted = ''none'', fm_mailbox = ''alice'', fm_read = False,
     fm_read_at = None, fm_labels = []\<rparr>"

text \<open>A serializer of two fields and its inverse on mails of one subject.\<close>

definition demo_toml :: "inbound_frontmatter \<Rightarrow> string" where
  "demo_toml m = ''subject='' @ fm_subject m @ (if fm_read m then ''!'' else ''.'')"

definition demo_mark_env :: "string \<Rightarrow> mark_env" where
  "demo_mark_env subject = \<lparr>ke_pw = demo_users, ke_getpwuid = demo_getpwuid, ke_faults = (\<lambda>_ _. None),
     ke_canonicalize = Some,
     ke_from_toml = (\<lambda>s. if s = demo_toml (demo_meta subject) then Inr (demo_meta subject) else Inl ''bad''),
     ke_to_toml = (\<lambda>m. Inr (demo_toml m)), ke_now = ''now'', ke_pid = 7, ke_data_dir = ''/d''\<rparr>"

lemma demo_toml_trim: "trim (demo_toml (demo_meta ''hi'')) = demo_toml (demo_meta ''hi'')"
  by (rule trim_all_plain) (simp add: demo_toml_def demo_meta_def plain_byte_def code_def)

theorem mark_keeps_the_mail_witness:
  "rewrite_content (demo_mark_env ''hi'') True ''f'' (format_frontmatter demo_toml (demo_meta ''hi'') ''body'') =
     Inr (format_frontmatter demo_toml (set_read True ''now'' (demo_meta ''hi'')) ''body'')"
proof -
  have "toml_block_ok (demo_toml (demo_meta ''hi''))"
    by (simp add: toml_block_ok_def demo_toml_def demo_meta_def)
  from mark_keeps_the_mail [where to_toml = demo_toml and meta = "demo_meta ''hi''" and
      env = "demo_mark_env ''hi''" and rd = True and filepath = "''f''" and body = "''body''", OF this]
    demo_toml_trim
  show ?thesis by (simp add: demo_mark_env_def)
qed

theorem mark_cuts_at_plusses_witness:
  "rewrite_content (demo_mark_env ''C+++'') True ''f'' (format_frontmatter demo_toml (demo_meta ''C+++'') ''body'') =
     Inl ''failed to parse frontmatter in f: bad''"
proof -
  have t: "trim ''subject=C'' = ''subject=C''"
    by (rule trim_all_plain) (simp add: plain_byte_def code_def)
  have "toml_block_ok ''subject=C''" by (simp add: toml_block_ok_def)
  from mark_cuts_at_plusses [where to_toml = demo_toml and meta = "demo_meta ''C+++''" and a = "''subject=C''" and
      b = "''.''" and env = "demo_mark_env ''C+++''" and e = "''bad''" and rd = True and filepath = "''f''" and
      body = "''body''", OF _ this] t
  show ?thesis by (simp add: demo_toml_def demo_meta_def demo_mark_env_def)
qed

text \<open>Two stored mails of the demo user, one of them named by a link to another mailbox.\<close>

definition demo_tree :: mail_tree where
  "demo_tree =
     [''/d/inbox/alice/m.md'' \<mapsto> Regular \<lparr>mf_data = format_frontmatter demo_toml (demo_meta ''hi'') ''body'',
        mf_uid = 1000, mf_gid = 1000, mf_mode = 0x180\<rparr>,
      ''/d/inbox/alice/l.md'' \<mapsto> Symlink ''/d/inbox/bob/m.md'']"

definition demo_mark :: "string \<Rightarrow> mark_request" where
  "demo_mark i = \<lparr>mr_mailbox = ''alice'', mr_id = i, mr_read = True\<rparr>"

lemma demo_mark_ok:
  "fst (handle_mark (demo_mark_env ''hi'') (demo_config []) (demo_mark ''m'') 1000 demo_tree) = AckOk"
  by code_simp

lemma demo_mark_changes:
  "snd (handle_mark (demo_mark_env ''hi'') (demo_config []) (demo_mark ''m'') 1000 demo_tree)
     ''/d/inbox/alice/m.md'' \<noteq> demo_tree ''/d/inbox/alice/m.md''"
  by code_simp


text \<open>The demo user plants a link to a file of root's and marks its own mail.\<close>

definition planted_tree :: mail_tree where
  "planted_tree = demo_tree(
     ''/d/inbox/alice/.m.md.tmp.7'' \<mapsto> Symlink ''/etc/shadow'',
     ''/etc/shadow'' \<mapsto> Regular \<lparr>mf_data = ''secret'', mf_uid = 0, mf_gid = 42, mf_mode = 0x1A0\<rparr>)"

theorem mark_follows_planted_link_witness:
  "\<exists>f. snd (handle_mark (demo_mark_env ''hi'') (demo_config []) (demo_mark ''m'') 1000 planted_tree) ''/etc/shadow'' =
     Some (Regular f) \<and> mf_uid f = 1000"
proof -
  let ?env = "demo_mark_env ''hi''"
  have "validate_id (mr_id (demo_mark ''m''))"
    "lookup_mailbox (demo_config []) (mr_mailbox (demo_mark ''m'')) = Some (demo_mailbox [])"
    "uds_authorized (ke_getpwuid ?env) 1000 (demo_mailbox [])"
    "resolve_email_path_strict (ke_faults ?env) (ke_canonicalize ?env) planted_tree
       (mark_dir ?env (demo_mark ''m'')) (mr_id (demo_mark ''m'')) = Some (''/d/inbox/alice'', ''m.md'')"
    "owner_uid (ke_pw ?env) (demo_mailbox []) = Inr 1000" "owner_gid (ke_pw ?env) (demo_mailbox []) = Inr 1000"
    "planted_tree (tmp_path ?env ''/d/inbox/alice'' ''m.md'') = Some (Symlink ''/etc/shadow'')"
    "''/etc/shadow'' \<noteq> join_path ''/d/inbox/alice'' ''m.md''"
    by code_simp+
  moreover obtain f where f: "planted_tree (join_path ''/d/inbox/alice'' ''m.md'') = Some (Regular f)"
    "mf_data f = format_frontmatter demo_toml (demo_meta ''hi'') ''body''"
    by (simp add: planted_tree_def demo_tree_def join_path_def)
  moreover have "valid_utf8 (format_frontmatter demo_toml (demo_meta ''hi'') ''body'')" by code_simp
  moreover have "rewrite_content ?env (mr_read (demo_mark ''m'')) (join_path ''/d/inbox/alice'' ''m.md'') (mf_data f) =
      Inr (format_frontmatter demo_toml (set_read True ''now'' (demo_meta ''hi'')) ''body'')"
    unfolding f by code_simp
  moreover have "ke_faults ?env = (\<lambda>_ _. None)" by (simp add: demo_mark_env_def)
  moreover have "planted_tree ''/etc/shadow'' =
      Some (Regular \<lparr>mf_data = ''secret'', mf_uid = 0, mf_gid = 42, mf_mode = 0x1A0\<rparr>)"
    by (simp add: planted_tree_def)
  ultimately show ?thesis
    using mark_follows_planted_link [of "demo_mark ''m''" "demo_config []" "demo_mailbox []" ?env 1000 planted_tree
        "''/d/inbox/alice''" "''m.md''" f _ 1000 1000 "''/etc/shadow''", OF _ _ _ _ _ _ _ _ _ _ _ _ _]
    by fastforce
qed

end
