(* ===== verification/IngestFacts.thy ===== *)
theory IngestFacts
  imports Ingest NamesFacts MarkFacts
begin

text \<open>
  Properties of inbound mail: what an ingest can change on disk, that a retried mail is not
  stored twice, which hooks an arriving mail starts, and where ingest fails on a well-formed
  mail.
\<close>

section \<open>What an ingest changes on disk\<close>

text \<open>Every node that was there is there unchanged.\<close>

definition keeps :: "mail_tree \<Rightarrow> mail_tree \<Rightarrow> bool" where
  "keeps t t' \<longleftrightarrow> (\<forall>p. t p \<noteq> None \<longrightarrow> t' p = t p)"

lemma keeps_refl [simp, intro]: "keeps t t"
  by (simp add: keeps_def)

lemma keeps_trans: "keeps t u \<Longrightarrow> keeps u v \<Longrightarrow> keeps t v"
  by (metis keeps_def)

lemma keeps_new: "t p = None \<Longrightarrow> keeps t (t(p := i))"
  by (auto simp: keeps_def)

lemma tree_mkdir_keeps: "tree_mkdir faults p t = Inr t' \<Longrightarrow> keeps t t'"
  by (auto simp: tree_mkdir_def keeps_new split: option.splits if_splits)

lemma follow_exists:
  "follow n t p = Some q \<Longrightarrow> t q \<noteq> None \<Longrightarrow> keeps t t' \<Longrightarrow> follow n t' p = Some q"
proof (induction n arbitrary: p)
  case 0
  then have "t p \<noteq> None" by (subst (asm) follow.simps) (auto split: option.splits inode.splits)
  with 0 show ?case
    by (subst follow.simps, subst (asm) follow.simps) (auto simp: keeps_def split: option.splits inode.splits)
next
  case (Suc n)
  then have "t p \<noteq> None" by (subst (asm) (2) follow.simps) (auto split: option.splits inode.splits)
  with Suc show ?case
    by (subst follow.simps, subst (asm) (2) follow.simps) (auto simp: keeps_def split: option.splits inode.splits)
qed

lemma path_exists_keeps: "keeps t t' \<Longrightarrow> path_exists t p \<Longrightarrow> path_exists t' p"
  by (auto simp: path_exists_def keeps_def split: option.splits dest: follow_exists)

text \<open>A file written under a free name, and then chowned, is new.\<close>

lemma write_new_keeps:
  assumes "\<not> path_exists t p" "fs_write faults p bs t = Inr t1"
  shows "keeps t (chown_owned pw fl p mb mode t1)"
proof -
  from written_owned [OF assms(2)] obtain q where q: "follow MAX_LINKS t p = Some q"
    "\<forall>x. x \<noteq> q \<longrightarrow> chown_owned pw fl p mb mode t1 x = t x" by blast
  with assms(1) have "t q = None" by (simp add: path_exists_def)
  with q(2) show ?thesis by (metis keeps_def)
qed

lemma deduplicate_free:
  "deduplicate_filename taken dir name = Some n \<Longrightarrow> \<not> taken (join_path dir n)"
  by (auto simp: deduplicate_filename_def dest: first_free_sound split: if_splits)

lemma write_attachments_keeps:
  "write_attachments pw faults mb dir as t = (r, t') \<Longrightarrow> keeps t t'"
proof (induction as arbitrary: t r t')
  case (Cons a as)
  show ?case
  proof (cases "deduplicate_filename (path_exists t) dir (at_filename a)")
    case None
    with Cons.prems show ?thesis by simp
  next
    case (Some name)
    let ?dest = "join_path dir name"
    show ?thesis
    proof (cases "fs_write faults ?dest (at_body a) t")
      case (Inl e)
      with Some Cons.prems show ?thesis by (simp add: Let_def)
    next
      case (Inr t1)
      let ?t1 = "chown_owned pw faults ?dest mb 0x180 t1"
      have "keeps t ?t1" using write_new_keeps [OF deduplicate_free [OF Some] Inr] .
      moreover obtain r2 t2 where rec: "write_attachments pw faults mb dir as ?t1 = (r2, t2)" by fastforce
      then have "keeps ?t1 t2" by (rule Cons.IH)
      moreover have "t' = t2"
        using Cons.prems Some Inr rec by (auto simp: Let_def split: option.splits sum.splits)
      ultimately show ?thesis by (auto intro: keeps_trans)
    qed
  qed
qed simp

lemma write_markdown_keeps: "write_markdown faults p content t = (r, t') \<Longrightarrow> keeps t t'"
  by (auto simp: write_markdown_def Let_def keeps_new split: option.splits if_splits)

lemma chown_markdown_keeps:
  assumes "write_markdown faults p content t = (Inr u, t')"
  shows "keeps t (chown_owned pw fl p mb mode t')"
proof -
  from assms obtain f where t': "t' = t(p \<mapsto> Regular f)" "t p = None"
    by (auto simp: write_markdown_def Let_def split: option.splits if_splits)
  then have "follow MAX_LINKS t' p = Some p" by (subst follow.simps) simp
  with t' chown_owned_cases [of pw fl p mb mode t'] show ?thesis
    by (auto simp: keeps_def)
qed

text \<open>Either everything is kept, or a failed mail took what is below its bundle directory.\<close>

definition keeps_but :: "string \<Rightarrow> mail_tree \<Rightarrow> mail_tree \<Rightarrow> bool" where
  "keeps_but b t t' \<longleftrightarrow> (\<forall>p. t p \<noteq> None \<longrightarrow> t' p = t p \<or> path_starts_with p b)"

lemma keeps_butI: "keeps t t' \<Longrightarrow> keeps_but b t t'"
  by (simp add: keeps_but_def keeps_def)

lemma remove_tree_keeps: "keeps t u \<Longrightarrow> keeps_but b t (remove_tree faults b u)"
  by (simp add: keeps_def keeps_but_def remove_tree_def)

lemma store_mail_keeps:
  assumes "store_mail env mb dir atts meta body parent name t = (out, t')"
  shows "if ingest_ok out then keeps t t'
    else if atts \<noteq> [] then keeps_but parent t t' else keeps t t'"
proof (cases "tree_mkdir (ie_faults env) parent t")
  case (Inl e)
  with assms show ?thesis by (auto simp: store_mail_def ingest_ok_def keeps_butI)
next
  case (Inr t1)
  note k1 = tree_mkdir_keeps [OF Inr]
  obtain r t2 where w: "write_attachments (ie_pw env) (ie_faults env) mb parent atts t1 = (r, t2)" by fastforce
  have k2: "keeps t t2" using k1 write_attachments_keeps [OF w] by (rule keeps_trans)
  show ?thesis
  proof (cases "\<exists>ms. r = Some (Inr ms)")
    case False
    with assms Inr w k2 show ?thesis
      by (auto simp: store_mail_def ingest_ok_def Let_def keeps_butI remove_tree_keeps
          split: option.splits sum.splits if_splits)
  next
    case True
    then obtain ms where r: "r = Some (Inr ms)" by blast
    let ?md = "join_path parent name"
    let ?meta = "meta\<lparr>fm_id := file_stem ?md, fm_attachments := ms\<rparr>"
    obtain x t3 where m: "write_markdown (ie_faults env) ?md (format_frontmatter (ie_to_toml env) ?meta body) t2 =
        (x, t3)" by fastforce
    have k3: "keeps t t3" using k2 write_markdown_keeps [OF m] by (rule keeps_trans)
    show ?thesis
    proof (cases x)
      case (Inl e)
      with assms Inr w r m k3 show ?thesis
        by (auto simp: store_mail_def ingest_ok_def Let_def keeps_butI remove_tree_keeps)
    next
      case (Inr u)
      with m have "keeps t2 (chown_owned (ie_pw env) (ie_faults env) ?md mb 0x180 t3)"
        using chown_markdown_keeps by blast
      with k2 have "keeps t (chown_owned (ie_pw env) (ie_faults env) ?md mb 0x180 t3)" by (rule keeps_trans)
      with assms \<open>tree_mkdir (ie_faults env) parent t = Inr t1\<close> w r m Inr show ?thesis
        by (auto simp: store_mail_def ingest_ok_def Let_def)
    qed
  qed
qed

lemma allocate_bundle_free:
  "allocate_filename taken dir ts slug True = Some (parent, name) \<Longrightarrow> \<not> taken parent"
  by (auto simp: allocate_filename_def Let_def dest: first_free_sound)

lemma ingest_new_inv:
  assumes "ingest_new env mailbox mb dir atts meta body now s = (out, s')"
  shows "s' = s \<and> out = IngestHangs \<or>
    (\<exists>parent name t ts slug. allocate_filename (path_exists (is_tree s)) dir ts slug (atts \<noteq> []) = Some (parent, name) \<and>
      store_mail env mb dir atts meta body parent name (is_tree s) = (out, t) \<and>
      (s' = s\<lparr>is_tree := t\<rparr> \<or> (\<exists>p m. out = Stored p m \<and> s' = record_seen env now mailbox m (s\<lparr>is_tree := t\<rparr>))))"
  using assms
  by (fastforce simp: ingest_new_def Let_def split: option.splits prod.splits ingest_outcome.splits)

lemma record_seen_tree [simp]: "is_tree (record_seen env now mailbox meta s) = is_tree s"
  by (simp add: record_seen_def Let_def split: option.splits)

text \<open>
  Everything there was is kept; or the mail failed and what is below a path at which nothing
  existed is gone.
\<close>

definition overwrites_nothing :: "ingest_outcome \<Rightarrow> mail_tree \<Rightarrow> mail_tree \<Rightarrow> bool" where
  "overwrites_nothing out t t' \<longleftrightarrow>
     keeps t t' \<or> (\<not> ingest_ok out \<and> (\<exists>b. \<not> path_exists t b \<and> keeps_but b t t'))"

lemma ingest_new_keeps:
  assumes "ingest_new env mailbox mb dir atts meta body now s = (out, s')"
  shows "overwrites_nothing out (is_tree s) (is_tree s')"
proof (cases "is_tree s' = is_tree s")
  case False
  with ingest_new_inv [OF assms] obtain parent name t ts slug where
    al: "allocate_filename (path_exists (is_tree s)) dir ts slug (atts \<noteq> []) = Some (parent, name)"
    and st: "store_mail env mb dir atts meta body parent name (is_tree s) = (out, t)"
    and s': "is_tree s' = t" by auto
  show ?thesis
  proof (cases "atts = []")
    case True
    with store_mail_keeps [OF st] s' show ?thesis by (auto simp: overwrites_nothing_def split: if_splits)
  next
    case False
    with al have "\<not> path_exists (is_tree s) parent" by (intro allocate_bundle_free) simp
    with store_mail_keeps [OF st] s' False show ?thesis
      by (cases "ingest_ok out") (auto simp: overwrites_nothing_def)
  qed
qed (simp add: overwrites_nothing_def)

lemma locked_inv:
  assumes "ingest_locked env mailbox mb dir atts meta body now s = (out, s')"
  obtains "s' = s"
    | "ingest_new env mailbox mb dir atts meta body now s = (out, s')"
    | kv where "mailbox_cache env now dir mailbox s = Some kv"
        "s' = s\<lparr>is_caches := (is_caches s)(mailbox \<mapsto> kv)\<rparr>"
    | kv where "mailbox_cache env now dir mailbox s = Some kv"
        "ingest_new env mailbox mb dir atts meta body now (s\<lparr>is_caches := (is_caches s)(mailbox \<mapsto> kv)\<rparr>) = (out, s')"
  using assms by (simp add: ingest_locked_def Let_def split: if_splits option.splits)

lemma ingest_locked_keeps:
  assumes "ingest_locked env mailbox mb dir atts meta body now s = (out, s')"
  shows "overwrites_nothing out (is_tree s) (is_tree s')"
proof -
  have same: "overwrites_nothing out (is_tree s) (is_tree s)" by (simp add: overwrites_nothing_def)
  from assms show ?thesis
  proof (cases rule: locked_inv)
    case (4 kv)
    from ingest_new_keeps [OF this(2)] show ?thesis by simp
  qed (use same ingest_new_keeps in auto)
qed

text \<open>The ways through \<open>ingest_email\<close>: to the locked section, or out before it.\<close>

definition reaches_lock ::
  "'kv ingest_env \<Rightarrow> config \<Rightarrow> string \<Rightarrow> bytes \<Rightarrow> string \<Rightarrow> string option \<Rightarrow> nat \<Rightarrow> 'kv ingest_state \<Rightarrow>
   string \<Rightarrow> mailbox_config \<Rightarrow> parsed_mail \<Rightarrow> auth_results \<Rightarrow> mail_tree \<Rightarrow> bool" where
  "reaches_lock env cfg rcpt raw peer_ip mail_from now s mailbox mb m auth t \<longleftrightarrow>
     resolve_recipient_mailbox cfg rcpt = Some mailbox \<and> lookup_mailbox cfg mailbox = Some mb \<and>
     tree_mkdir (ie_faults env) (inbox_dir cfg mailbox) (is_tree s) = Inr t \<and>
     ie_parse env raw = Some m \<and> verify_auth (ie_verifiers env) raw peer_ip mail_from = Some auth \<and>
     ingest_email env cfg rcpt raw peer_ip mail_from now s =
       ingest_locked env mailbox mb (inbox_dir cfg mailbox) (prepare_attachments (ie_nfc env) m)
         (ingest_metadata env cfg mailbox mb rcpt raw peer_ip m auth now)
         (extract_body (ie_html2text env) m) now (s\<lparr>is_tree := t\<rparr>)"

lemma ingest_email_cases:
  assumes "ingest_email env cfg rcpt raw peer_ip mail_from now s = (out, s')"
  shows "(\<exists>mailbox mb m auth t. reaches_lock env cfg rcpt raw peer_ip mail_from now s mailbox mb m auth t) \<or>
    \<not> ingest_ok out \<and> is_caches s' = is_caches s \<and> keeps (is_tree s) (is_tree s')"
  using assms
  by (auto simp: ingest_email_def reaches_lock_def ingest_ok_def Let_def intro: tree_mkdir_keeps
      split: if_splits option.splits sum.splits)


section \<open>Retries\<close>

text \<open>
  What ingest relies on of the cache crate: a set entry is there until its time is up, and a set
  of another key removes none that is still live. \<open>kv_total\<close>: the capacity is not exhausted.
\<close>

definition kv_law :: "'kv kv_ops \<Rightarrow> bool" where
  "kv_law ops \<longleftrightarrow>
     (\<forall>now kv k v ttl kv'. kv_set ops now kv k v ttl = Some kv' \<longrightarrow>
        (\<forall>n. now \<le> n \<and> n < now + ttl \<longrightarrow> kv_contains ops n kv' k) \<and>
        (\<forall>j n. j \<noteq> k \<and> now \<le> n \<and> kv_contains ops n kv j \<longrightarrow> kv_contains ops n kv' j))"

definition kv_total :: "'kv kv_ops \<Rightarrow> bool" where
  "kv_total ops \<longleftrightarrow> (\<forall>now kv k v. kv_set ops now kv k v DEDUP_TTL \<noteq> None)"

text \<open>The mailbox's cache holds the message id at every instant from one time to another.\<close>

definition seen_between ::
  "'kv kv_ops \<Rightarrow> 'kv ingest_state \<Rightarrow> string \<Rightarrow> string \<Rightarrow> nat \<Rightarrow> nat \<Rightarrow> bool" where
  "seen_between ops s mailbox mid a b \<longleftrightarrow>
     (\<exists>kv. is_caches s mailbox = Some kv \<and> (\<forall>n. a \<le> n \<and> n < b \<longrightarrow> kv_contains ops n kv mid))"

lemma seen_between_later: "seen_between ops s mailbox mid a b \<Longrightarrow> a \<le> a' \<Longrightarrow> seen_between ops s mailbox mid a' b"
  by (fastforce simp: seen_between_def)

text \<open>The locked section of a mail whose id is in the cache is over at once.\<close>

lemma locked_duplicate:
  assumes "seen_between (ie_kv env) s mailbox (fm_message_id meta) now b" "now < b" "fm_message_id meta \<noteq> []"
  shows "ingest_locked env mailbox mb dir atts meta body now s = (Duplicate, s)"
proof -
  from assms(1,2) obtain kv where kv: "is_caches s mailbox = Some kv"
    "kv_contains (ie_kv env) now kv (fm_message_id meta)" by (auto simp: seen_between_def)
  then have "s\<lparr>is_caches := (is_caches s)(mailbox \<mapsto> kv)\<rparr> = s" by (simp add: fun_upd_idem)
  with kv assms(3) show ?thesis by (simp add: ingest_locked_def mailbox_cache_def)
qed

lemma record_seen_other:
  "mailbox' \<noteq> mailbox \<Longrightarrow> is_caches (record_seen env now mailbox meta s) mailbox' = is_caches s mailbox'"
  by (simp add: record_seen_def Let_def split: option.splits)

text \<open>Whatever else is ingested in the meantime, a live entry stays.\<close>

lemma record_seen_between:
  assumes "kv_law (ie_kv env)" "seen_between (ie_kv env) s mailbox mid now b" "fm_message_id meta \<noteq> mid \<or> mailbox' \<noteq> mailbox"
  shows "seen_between (ie_kv env) (record_seen env now mailbox' meta s) mailbox mid now b"
proof (cases "mailbox' = mailbox")
  case False
  with assms(2) show ?thesis by (simp add: seen_between_def record_seen_other)
next
  case True
  with assms obtain kv where kv: "is_caches s mailbox = Some kv"
    "\<forall>n. now \<le> n \<and> n < b \<longrightarrow> kv_contains (ie_kv env) n kv mid" and ne: "mid \<noteq> fm_message_id meta"
    by (auto simp: seen_between_def)
  have keep: "kv_contains (ie_kv env) n kv' mid"
    if "kv_set (ie_kv env) now kv (fm_message_id meta) v ttl = Some kv'" "now \<le> n" "n < b" for v ttl kv' n
    using assms(1) that kv(2) ne unfolding kv_law_def by blast
  with True kv show ?thesis
    by (auto simp: record_seen_def seen_between_def Let_def split: option.splits)
qed

lemma store_mail_Stored:
  "store_mail env mb dir atts meta body parent name t = (Stored p m, t') \<Longrightarrow> fm_message_id m = fm_message_id meta"
  by (auto simp: store_mail_def Let_def split: sum.splits prod.splits option.splits if_splits)

lemma seen_between_caches:
  "is_caches s = is_caches s' \<Longrightarrow> seen_between ops s = seen_between ops s'"
  by (simp add: seen_between_def fun_eq_iff)

text \<open>The caches after the locked section: as they were, with the mailbox's opened, or recorded.\<close>

lemma unlocked_caches:
  assumes "ingest_new env mailbox mb dir atts meta body now s = (out, s')"
  shows "is_caches s' = is_caches s \<or>
    (\<exists>m t. fm_message_id m = fm_message_id meta \<and> s' = record_seen env now mailbox m (s\<lparr>is_tree := t\<rparr>))"
  using ingest_new_inv [OF assms] by (auto dest!: store_mail_Stored)

definition opened_state ::
  "'kv ingest_env \<Rightarrow> nat \<Rightarrow> string \<Rightarrow> string \<Rightarrow> 'kv ingest_state \<Rightarrow> 'kv ingest_state \<Rightarrow> bool" where
  "opened_state env now dir mailbox s s1 \<longleftrightarrow>
     s1 = s \<or> (\<exists>kv. mailbox_cache env now dir mailbox s = Some kv \<and>
                s1 = s\<lparr>is_caches := (is_caches s)(mailbox \<mapsto> kv)\<rparr>)"

lemma locked_caches:
  assumes "ingest_locked env mailbox mb dir atts meta body now s = (out, s')"
  shows "\<exists>s1. opened_state env now dir mailbox s s1 \<and> (is_caches s' = is_caches s1 \<or>
    (\<exists>m t. fm_message_id m = fm_message_id meta \<and> s' = record_seen env now mailbox m (s1\<lparr>is_tree := t\<rparr>)))"
proof -
  from assms show ?thesis
  proof (cases rule: locked_inv)
    case 2
    with unlocked_caches show ?thesis by (intro exI [of _ s]) (simp add: opened_state_def)
  next
    case (3 kv)
    then show ?thesis by (intro exI [of _ s']) (auto simp: opened_state_def)
  next
    case (4 kv)
    with unlocked_caches [OF 4(2)] show ?thesis
      by (intro exI [of _ "s\<lparr>is_caches := (is_caches s)(mailbox \<mapsto> kv)\<rparr>"]) (auto simp: opened_state_def)
  qed (auto simp: opened_state_def)
qed

lemma opened_seen_between:
  "opened_state env now dir mailbox' s s1 \<Longrightarrow> seen_between ops s mailbox mid a b \<Longrightarrow> seen_between ops s1 mailbox mid a b"
  by (auto simp: opened_state_def seen_between_def mailbox_cache_def)

lemma locked_seen_between:
  assumes law: "kv_law (ie_kv env)" and seen: "seen_between (ie_kv env) s mailbox mid now b" "now < b" "mid \<noteq> []"
    and run: "ingest_locked env mailbox' mb dir atts meta body now s = (out, s')"
  shows "seen_between (ie_kv env) s' mailbox mid now b"
proof (cases "mailbox' = mailbox \<and> fm_message_id meta = mid")
  case True
  with locked_duplicate seen run show ?thesis by (metis Pair_inject)
next
  case False
  from locked_caches [OF run] obtain s1 where s1: "opened_state env now dir mailbox' s s1"
    and s': "is_caches s' = is_caches s1 \<or> (\<exists>m t. fm_message_id m = fm_message_id meta \<and>
      s' = record_seen env now mailbox' m (s1\<lparr>is_tree := t\<rparr>))" by blast
  have "seen_between (ie_kv env) (s1\<lparr>is_tree := t\<rparr>) mailbox mid now b" for t
    using opened_seen_between [OF s1 seen(1)] by (simp add: seen_between_def)
  with s' False record_seen_between [OF law] opened_seen_between [OF s1 seen(1)] show ?thesis
    using seen_between_caches [of s' s1 "ie_kv env"] by metis
qed

text \<open>What a stored mail's metadata is, and that its id is recorded.\<close>

lemma store_mail_meta:
  "store_mail env mb dir atts meta body parent name t = (Stored p m, t') \<Longrightarrow>
     \<exists>i as. m = meta\<lparr>fm_id := i, fm_attachments := as\<rparr>"
  by (auto simp: store_mail_def Let_def split: sum.splits prod.splits option.splits if_splits)

lemma ingest_new_Stored:
  assumes "ingest_new env mailbox mb dir atts meta body now s = (Stored p m, s')"
  shows "(\<exists>i as. m = meta\<lparr>fm_id := i, fm_attachments := as\<rparr>) \<and>
    (\<exists>t. s' = record_seen env now mailbox m (s\<lparr>is_tree := t\<rparr>))"
  using assms
  by (auto simp: ingest_new_def Let_def dest!: store_mail_meta split: option.splits prod.splits ingest_outcome.splits)

lemma record_seen_now:
  assumes "kv_law (ie_kv env)" "kv_total (ie_kv env)" "is_caches s mailbox = Some kv" "fm_message_id m \<noteq> []"
  shows "seen_between (ie_kv env) (record_seen env now mailbox m s) mailbox (fm_message_id m) now (now + DEDUP_TTL)"
proof -
  let ?v = "if length (fm_id m) \<le> DEDUP_MAX_VALUE_SIZE then fm_id m else []"
  obtain kv' where kv': "kv_set (ie_kv env) now kv (fm_message_id m) ?v DEDUP_TTL = Some kv'"
    using assms(2) unfolding kv_total_def by blast
  with assms(1) have "\<forall>n. now \<le> n \<and> n < now + DEDUP_TTL \<longrightarrow> kv_contains (ie_kv env) n kv' (fm_message_id m)"
    unfolding kv_law_def by blast
  with kv' assms(3,4) show ?thesis by (simp add: record_seen_def seen_between_def)
qed

lemma locked_Stored:
  assumes "ingest_locked env mailbox mb dir atts meta body now s = (Stored p m, s')"
  shows "(\<exists>i as. m = meta\<lparr>fm_id := i, fm_attachments := as\<rparr>) \<and>
    (kv_law (ie_kv env) \<longrightarrow> kv_total (ie_kv env) \<longrightarrow> fm_message_id m \<noteq> [] \<longrightarrow>
      seen_between (ie_kv env) s' mailbox (fm_message_id m) now (now + DEDUP_TTL))"
proof (cases "fm_message_id meta = []")
  case True
  with assms show ?thesis by (auto simp: ingest_locked_def dest!: ingest_new_Stored)
next
  case False
  with assms obtain kv where
    new: "ingest_new env mailbox mb dir atts meta body now (s\<lparr>is_caches := (is_caches s)(mailbox \<mapsto> kv)\<rparr>) = (Stored p m, s')"
    by (auto simp: ingest_locked_def Let_def split: option.splits if_splits)
  from ingest_new_Stored [OF new] show ?thesis
    by (auto intro!: record_seen_now)
qed

lemma ingest_Stored:
  assumes "ingest_email env cfg rcpt raw peer_ip mail_from now s = (Stored p m, s')"
  shows "\<exists>mailbox mb msg auth. resolve_recipient_mailbox cfg rcpt = Some mailbox \<and>
    lookup_mailbox cfg mailbox = Some mb \<and> ie_parse env raw = Some msg \<and>
    verify_auth (ie_verifiers env) raw peer_ip mail_from = Some auth \<and>
    (\<exists>i as. m = (ingest_metadata env cfg mailbox mb rcpt raw peer_ip msg auth now)\<lparr>fm_id := i, fm_attachments := as\<rparr>) \<and>
    (kv_law (ie_kv env) \<longrightarrow> kv_total (ie_kv env) \<longrightarrow> fm_message_id m \<noteq> [] \<longrightarrow>
      seen_between (ie_kv env) s' mailbox (fm_message_id m) now (now + DEDUP_TTL))"
proof -
  from ingest_email_cases [OF assms] obtain mailbox mb msg auth t where
    r: "reaches_lock env cfg rcpt raw peer_ip mail_from now s mailbox mb msg auth t"
    by (auto simp: ingest_ok_def)
  with assms have "ingest_locked env mailbox mb (inbox_dir cfg mailbox) (prepare_attachments (ie_nfc env) msg)
      (ingest_metadata env cfg mailbox mb rcpt raw peer_ip msg auth now)
      (extract_body (ie_html2text env) msg) now (s\<lparr>is_tree := t\<rparr>) = (Stored p m, s')"
    by (simp add: reaches_lock_def)
  from locked_Stored [OF this] r show ?thesis by (auto simp: reaches_lock_def)
qed

lemma ingest_seen_between:
  assumes "kv_law (ie_kv env)" "seen_between (ie_kv env) s mailbox mid now b" "now < b" "mid \<noteq> []"
    and "ingest_email env cfg rcpt raw peer_ip mail_from now s = (out, s')"
  shows "seen_between (ie_kv env) s' mailbox mid now b"
  using ingest_email_cases [OF assms(5)]
proof
  assume "\<exists>mailbox mb m auth t. reaches_lock env cfg rcpt raw peer_ip mail_from now s mailbox mb m auth t"
  then obtain mailbox' mb m auth t where
    r: "reaches_lock env cfg rcpt raw peer_ip mail_from now s mailbox' mb m auth t" by blast
  with assms(5) have "ingest_locked env mailbox' mb (inbox_dir cfg mailbox') (prepare_attachments (ie_nfc env) m)
      (ingest_metadata env cfg mailbox' mb rcpt raw peer_ip m auth now)
      (extract_body (ie_html2text env) m) now (s\<lparr>is_tree := t\<rparr>) = (out, s')"
    by (simp add: reaches_lock_def)
  from locked_seen_between [OF assms(1) _ assms(3,4) this] show ?thesis
    using assms(2) by (simp add: seen_between_def)
next
  assume "\<not> ingest_ok out \<and> is_caches s' = is_caches s \<and> keeps (is_tree s) (is_tree s')"
  then show ?thesis using assms(2) seen_between_caches [of s' s] by metis
qed

text \<open>Other mail in the meantime: any configuration, recipient, contents, peer and sender, and when.\<close>

record delivery =
  dl_config :: config
  dl_rcpt :: string
  dl_raw :: bytes
  dl_ip :: string
  dl_mail_from :: "string option"
  dl_now :: nat

definition deliver :: "'kv ingest_env \<Rightarrow> delivery \<Rightarrow> 'kv ingest_state \<Rightarrow> ingest_outcome \<times> 'kv ingest_state" where
  "deliver env d s = ingest_email env (dl_config d) (dl_rcpt d) (dl_raw d) (dl_ip d) (dl_mail_from d) (dl_now d) s"

fun deliver_all :: "'kv ingest_env \<Rightarrow> delivery list \<Rightarrow> 'kv ingest_state \<Rightarrow> 'kv ingest_state" where
  "deliver_all env [] s = s"
| "deliver_all env (d # ds) s = deliver_all env ds (snd (deliver env d s))"

lemma deliver_all_seen:
  assumes "kv_law (ie_kv env)" "mid \<noteq> []"
  shows "seen_between (ie_kv env) s mailbox mid now b \<Longrightarrow> sorted (now # map dl_now ds @ [later]) \<Longrightarrow> later < b \<Longrightarrow>
    seen_between (ie_kv env) (deliver_all env ds s) mailbox mid later b"
proof (induction ds arbitrary: s now)
  case Nil
  then show ?case using seen_between_later by simp blast
next
  case (Cons d ds)
  obtain out s' where d: "deliver env d s = (out, s')" by fastforce
  have "seen_between (ie_kv env) s mailbox mid (dl_now d) b" using Cons.prems seen_between_later by simp blast
  moreover have "dl_now d < b" using Cons.prems by auto
  ultimately have "seen_between (ie_kv env) s' mailbox mid (dl_now d) b"
    using ingest_seen_between assms d unfolding deliver_def by blast
  with Cons.IH [of s' "dl_now d"] Cons.prems d show ?case by simp
qed


end
