(* ===== verification/IngestHooks.thy ===== *)
theory IngestHooks
  imports IngestFacts
begin

text \<open>
  From the wire to the hooks: which processes a mail starts once it is ingested, what the trust
  gate does not look at, mail that makes ingest panic, and mail stored under an id that is taken.
\<close>

section \<open>The trust gate, end to end\<close>

text \<open>The mail passes the gate: policy, some signature that verifies, and an allowed sender.\<close>

definition mail_trusted ::
  "'kv ingest_env \<Rightarrow> config \<Rightarrow> mailbox_config \<Rightarrow> bytes \<Rightarrow> parsed_mail \<Rightarrow> bool" where
  "mail_trusted env cfg mb raw msg \<longleftrightarrow>
     effective_trust cfg mb = ''verified'' \<and> ve_resolver (ie_verifiers env) \<and>
     (\<exists>rs. ve_dkim (ie_verifiers env) raw = Some rs \<and> (\<exists>r\<in>set rs. do_pass r)) \<and>
     (\<exists>pattern\<in>set (effective_trusted_senders cfg mb).
        ie_glob env pattern (extract_email_for_match (ve_lower (ie_verifiers env)) (first_addr (pm_from msg))))"

definition arriving_hooks ::
  "'kv ingest_env \<Rightarrow> config \<Rightarrow> mailbox_config \<Rightarrow> bytes \<Rightarrow> parsed_mail \<Rightarrow> hook list" where
  "arriving_hooks env cfg mb raw msg =
     filter (\<lambda>h. hk_event h = OnReceive \<and> hook_runnable h \<and>
       (hk_fire_on_untrusted h \<or> mail_trusted env cfg mb raw msg)) (mb_hooks mb)"

lemma evaluate_trust_true:
  assumes "verify_auth (ie_verifiers env) raw ip mf = Some auth"
  shows "trusted_as_str (evaluate_trust (ie_glob env) (ve_lower (ie_verifiers env)) cfg mb auth
      (first_addr (pm_from msg))) = ''true'' \<longleftrightarrow> mail_trusted env cfg mb raw msg"
  using verify_auth_dkim [OF assms]
  by (auto simp: evaluate_trust_def is_sender_in_trusted_senders_def Let_def mail_trusted_def list_ex_iff)

text \<open>
  C30: an ingested mail starts, as its mailbox's owner and with the configured arguments and
  timeout, exactly the runnable \<open>on_receive\<close> hooks that opted in or whose mail passes the gate:
  the effective policy is \<open>verified\<close>, a DKIM signature verified, and an allowed sender's pattern
  matches the \<open>From\<close> address. A catchall starts none.
\<close>

theorem ingested_mail_starts:
  assumes "ingest_email env cfg rcpt raw peer_ip mail_from now s = (Stored p m, s')"
  shows "\<exists>mb msg. lookup_mailbox cfg (fm_mailbox m) = Some mb \<and> ie_parse env raw = Some msg \<and>
    map request_key (fst (fire_ingested read_file spawn sha cfg mode (Stored p m) w)) =
      (if mode = HookAsync False \<or> is_catchall cfg mb then []
       else map (hook_key mb) (arriving_hooks env cfg mb raw msg))"
proof -
  from ingest_Stored [OF assms] obtain mailbox mb msg auth i as where
    mb: "lookup_mailbox cfg mailbox = Some mb" and msg: "ie_parse env raw = Some msg"
    and auth: "verify_auth (ie_verifiers env) raw peer_ip mail_from = Some auth"
    and m: "m = (ingest_metadata env cfg mailbox mb rcpt raw peer_ip msg auth now)\<lparr>fm_id := i, fm_attachments := as\<rparr>"
    by blast
  have fm: "fm_mailbox m = mailbox" "fm_trusted m = trusted_as_str (evaluate_trust (ie_glob env)
      (ve_lower (ie_verifiers env)) cfg mb auth (first_addr (pm_from msg)))"
    by (simp_all add: m ingest_metadata_def Let_def)
  have "fm_trusted m = ''true'' \<longleftrightarrow> mail_trusted env cfg mb raw msg"
    unfolding fm(2) by (rule evaluate_trust_true [OF auth])
  then have "arriving_hooks env cfg mb raw msg = filter (\<lambda>h. hk_event h = OnReceive \<and> hook_runnable h \<and>
      (fm_trusted m = ''true'' \<or> hk_fire_on_untrusted h)) (mb_hooks mb)"
    unfolding arriving_hooks_def by (intro filter_cong) auto
  then show ?thesis
    using mb msg fm(1) on_receive_requests [of read_file spawn sha cfg mb "\<lparr>orc_filepath = p, orc_metadata = m\<rparr>" w]
    by (intro exI [of _ mb] exI [of _ msg], cases "is_catchall cfg mb") (simp_all add: fire_ingested_def)
qed

text \<open>
  the gate does not look at who signed: a mail whose \<open>From\<close> names an allowed sender and that
  carries one valid signature, of whatever domain, starts hooks that only trusted mail may start.
\<close>

theorem foreign_signature_passes_gate:
  assumes "ingest_email env cfg rcpt raw peer_ip mail_from now s = (Stored p m, s')"
    and "lookup_mailbox cfg (fm_mailbox m) = Some mb" "ie_parse env raw = Some msg"
    and "ve_resolver (ie_verifiers env)" "ve_dkim (ie_verifiers env) raw = Some [\<lparr>do_pass = True, do_domain = signer\<rparr>]"
    and "effective_trust cfg mb = ''verified''" "\<not> is_catchall cfg mb"
    and "pattern \<in> set (effective_trusted_senders cfg mb)"
      "ie_glob env pattern (extract_email_for_match (ve_lower (ie_verifiers env)) (first_addr (pm_from msg)))"
    and "h \<in> set (mb_hooks mb)" "hk_event h = OnReceive" "hook_runnable h" "\<not> hk_fire_on_untrusted h"
  shows "hook_key mb h \<in> set (map request_key (fst (fire_ingested read_file spawn sha cfg HookSync (Stored p m) w)))"
proof -
  from ingest_Stored [OF assms(1)] obtain mailbox auth i as where
    "lookup_mailbox cfg mailbox = Some mb"
    and auth: "verify_auth (ie_verifiers env) raw peer_ip mail_from = Some auth"
    and m: "m = (ingest_metadata env cfg mailbox mb rcpt raw peer_ip msg auth now)\<lparr>fm_id := i, fm_attachments := as\<rparr>"
    using assms(2,3) by (auto simp: ingest_metadata_def Let_def)
  have "mail_trusted env cfg mb raw msg" using assms by (auto simp: mail_trusted_def)
  with evaluate_trust_true [OF auth] have "fm_trusted m = ''true''"
    by (simp add: m ingest_metadata_def Let_def)
  then show ?thesis
    using assms on_receive_requests [of read_file spawn sha cfg mb "\<lparr>orc_filepath = p, orc_metadata = m\<rparr>" w]
    by (auto simp: fire_ingested_def)
qed

section \<open>Mail that makes ingest panic\<close>

lemma from_value_panics:
  "CHR ''<'' \<notin> set a \<Longrightarrow> CHR ''<'' \<notin> set b \<Longrightarrow> CHR ''>'' \<notin> set a \<Longrightarrow>
     from_value (a @ CHR ''>'' # b @ CHR ''<'' # c) = None"
  using find_char_append [of "CHR ''>''" a "b @ CHR ''<'' # c"]
    find_char_append [of "CHR ''<''" "a @ CHR ''>'' # b" c]
  by (simp add: from_value_def slice_def)

lemma first_header_line:
  assumes "LF \<notin> set l" "CR \<notin> set l" "l \<noteq> []"
  shows "\<exists>ls. header_lines (l @ [CR, LF] @ r) = l # ls"
proof -
  have "split_once LF (l @ [CR, LF] @ r) = Some (l @ [CR], r)"
    using split_once_append [of LF "l @ [CR]" r] assms(1) by (simp add: LF_def CR_def)
  then have "lines (l @ [CR, LF] @ r) = l # lines r"
    by (subst lines.simps) (simp add: strip_suffix_def ends_with_def)
  with assms(3) show ?thesis by (simp add: header_lines_def)
qed

text \<open>
  a mail from the null sender (a bounce) whose first header is a \<open>From\<close> with a \<open>>\<close> before its
  first \<open><\<close> makes ingest panic, whatever its recipient, so it is never stored.
\<close>

theorem null_sender_mail_panics:
  assumes "raw = ''From: '' @ v @ [CR, LF] @ rest" "v = a @ CHR ''>'' # b @ CHR ''<'' # c"
    and "CHR ''<'' \<notin> set a" "CHR ''<'' \<notin> set b" "CHR ''>'' \<notin> set a"
    and "LF \<notin> set v" "CR \<notin> set v" "trim v = v" "valid_utf8 raw"
    and "starts_with (ve_lower (ie_verifiers env) (''From: '' @ v)) ''from:''"
    and "resolve_recipient_mailbox cfg rcpt = Some mailbox" "lookup_mailbox cfg mailbox = Some mb"
    and "tree_mkdir (ie_faults env) (inbox_dir cfg mailbox) (is_tree s) = Inr t"
    and "ie_parse env raw = Some msg" "ve_resolver (ie_verifiers env)" "ie_fail_for env = None"
  shows "ingest_email env cfg rcpt raw peer_ip None now s = (IngestPanics, s\<lparr>is_tree := t\<rparr>)"
proof -
  have "LF \<notin> set (''From: '' @ v)" "CR \<notin> set (''From: '' @ v)" using assms(6,7) by (simp_all add: LF_def CR_def)
  from first_header_line [OF this, of rest] obtain ls where
    "header_lines raw = (''From: '' @ v) # ls" using assms(1) by auto
  then have "extract_mail_from (ve_lower (ie_verifiers env)) raw =
      map_option Some (from_value (trim (CHR '' '' # v)))"
    using assms(9,10) by (simp add: extract_mail_from_def slice_def)
  also have "\<dots> = None"
    using assms(2-5,8) from_value_panics [of a b c] by (simp add: trim_space)
  finally have "verify_auth (ie_verifiers env) raw peer_ip None = None"
    using assms(15) by (simp add: verify_auth_def select_spf_inputs_def Let_def)
  with assms(11-16) show ?thesis by (simp add: ingest_email_def Let_def)
qed

section \<open>An id that is taken\<close>

text \<open>
  a mail with attachments gets the id of a mail without any that is already stored, if it
  has the same second and subject: only the bundle directory is looked for. From then on the id
  leads to the older mail alone.
\<close>

theorem bundle_takes_a_used_id:
  assumes "t (join_path dir (stem @ ''.md'')) = Some (Regular f)" "stem = timestamp @ ''-'' @ slug"
    and "\<not> path_exists t (join_path dir stem)"
    and "canonicalize dir = Some dir_canon" "contained canonicalize dir_canon (join_path dir (stem @ ''.md''))"
  shows "allocate_filename (path_exists t) dir timestamp slug True = Some (join_path dir stem, stem @ ''.md'') \<and>
    (\<forall>t'. keeps t t' \<longrightarrow>
      resolve_email_path_strict (\<lambda>_ _. None) canonicalize t' dir stem = Some (dir, stem @ ''.md''))"
proof
  have "first_free (\<lambda>n. path_exists t (join_path dir (stem_candidate stem n))) 1 = Some 1"
    using assms(3) by (subst first_free.simps) (simp add: stem_candidate_def)
  then show "allocate_filename (path_exists t) dir timestamp slug True = Some (join_path dir stem, stem @ ''.md'')"
    using assms(2) by (simp add: allocate_filename_def stem_candidate_def Let_def)
  show "\<forall>t'. keeps t t' \<longrightarrow>
      resolve_email_path_strict (\<lambda>_ _. None) canonicalize t' dir stem = Some (dir, stem @ ''.md'')"
    using assms(1,4,5) by (auto simp: keeps_def resolve_email_path_strict_def lstat_def is_regular_def Let_def)
qed

section \<open>The theorems at concrete mail\<close>

text \<open>A store of keys with their expiry.\<close>

definition demo_kv :: "(string \<times> nat) list kv_ops" where
  "demo_kv = \<lparr>kv_new = [], kv_contains = (\<lambda>now kv k. list_ex (\<lambda>e. fst e = k \<and> now < snd e) kv),
     kv_set = (\<lambda>now kv k v ttl. Some ((k, now + ttl) # kv))\<rparr>"

lemma demo_kv_law: "kv_law demo_kv" "kv_total demo_kv"
  by (auto simp: kv_law_def kv_total_def demo_kv_def)

definition demo_mail :: parsed_mail where
  "demo_mail = \<lparr>pm_from = [(Some ''The Boss'', Some ''boss@x.io'')], pm_to = [], pm_cc = [], pm_reply_to = [],
     pm_subject = Some ''Hello'', pm_date = None, pm_message_id = Some ''m1@x.io'', pm_in_reply_to = None,
     pm_references = None, pm_list_id = None, pm_auto_submitted = None, pm_text = Some ''body'',
     pm_html = None, pm_attachments = []\<rparr>"

text \<open>One signature, which verifies, by a domain that is not the sender's.\<close>

definition demo_verifiers :: verifiers where
  "demo_verifiers = \<lparr>ve_resolver = True, ve_parse_ip = (\<lambda>_. None), ve_is_loopback = (\<lambda>_. False),
     ve_is_unspecified = (\<lambda>ip. ip = ''0.0.0.0''), ve_lower = to_ascii_lowercase,
     ve_dkim = (\<lambda>_. Some [\<lparr>do_pass = True, do_domain = ''evil.io''\<rparr>]),
     ve_spf = (\<lambda>_ _ _. SpfNone), ve_dmarc = (\<lambda>_ _ _ _. (DmarcOther, DmarcOther))\<rparr>"

definition demo_ingest :: "(string \<times> nat) list ingest_env" where
  "demo_ingest = \<lparr>ie_pw = demo_users, ie_faults = (\<lambda>_ _. None), ie_fail_for = None, ie_parse = (\<lambda>_. Some demo_mail),
     ie_verifiers = demo_verifiers, ie_glob = (=), ie_html2text = Some, ie_nfc = ascii_nfc, ie_alnum = ascii_alnum,
     ie_sha = id, ie_to_toml = demo_toml, ie_rfc3339 = show_nat, ie_timestamp = show_nat, ie_day = show_nat,
     ie_parse_rfc3339 = (\<lambda>_. None), ie_read_dir = (\<lambda>_ _. None), ie_kv = demo_kv\<rparr>"

definition demo_trusting :: config where
  "demo_trusting = (demo_config [demo_hook])\<lparr>cfg_trust := ''verified'', cfg_trusted_senders := [''boss@x.io'']\<rparr>"

definition demo_store :: "(string \<times> nat) list ingest_state" where
  "demo_store = \<lparr>is_tree = demo_tree, is_caches = (\<lambda>_. None)\<rparr>"

definition demo_delivery :: "nat \<Rightarrow> delivery" where
  "demo_delivery now = \<lparr>dl_config = demo_trusting, dl_rcpt = ''alice@d.io'', dl_raw = ''m'', dl_ip = ''1.2.3.4'',
     dl_mail_from = Some ''boss@x.io'', dl_now = now\<rparr>"

definition is_stored :: "ingest_outcome \<Rightarrow> bool" where
  "is_stored out \<longleftrightarrow> (case out of Stored p m \<Rightarrow> fm_mailbox m = ''alice'' \<and> fm_message_id m = ''m1@x.io'' | _ \<Rightarrow> False)"


definition demo_tree_in :: mail_tree where
  "demo_tree_in = demo_tree(''/var/lib/aimx/inbox/alice'' \<mapsto> Directory)"

definition demo_auth :: auth_results where
  "demo_auth = \<lparr>ar_dkim = ''pass'', ar_spf = ''none'', ar_dmarc = ''fail''\<rparr>"

lemma demo_reach:
  "deliver demo_ingest (demo_delivery now) s = ingest_email demo_ingest demo_trusting ''alice@d.io'' ''m'' ''1.2.3.4'' (Some ''boss@x.io'') now s"
  "resolve_recipient_mailbox demo_trusting ''alice@d.io'' = Some ''alice''"
  "lookup_mailbox demo_trusting ''alice'' = Some (demo_mailbox [demo_hook])"
  "inbox_dir demo_trusting ''alice'' = ''/var/lib/aimx/inbox/alice''"
  "verify_auth demo_verifiers ''m'' ''1.2.3.4'' (Some ''boss@x.io'') = Some demo_auth"
  by (simp add: deliver_def demo_delivery_def) code_simp+

lemma demo_mkdir: "tree_mkdir (\<lambda>_ _. None) ''/var/lib/aimx/inbox/alice'' demo_tree = Inr demo_tree_in"
  by (simp add: tree_mkdir_def path_is_dir_def demo_tree_in_def follow.simps demo_tree_def)


definition demo_opened :: "(string \<times> nat) list ingest_state" where
  "demo_opened = \<lparr>is_tree = demo_tree_in, is_caches = [''alice'' \<mapsto> []]\<rparr>"

definition demo_meta0 :: inbound_frontmatter where
  "demo_meta0 = ingest_metadata demo_ingest demo_trusting ''alice'' (demo_mailbox [demo_hook]) ''alice@d.io''
     ''m'' ''1.2.3.4'' demo_mail demo_auth 100"

lemma demo_ingest_simps [simp]:
  "ie_fail_for demo_ingest = None" "ie_faults demo_ingest = (\<lambda>_ _. None)" "ie_parse demo_ingest raw = Some demo_mail"
  "ie_verifiers demo_ingest = demo_verifiers" "ie_kv demo_ingest = demo_kv" "ie_glob demo_ingest = (=)"
  "is_tree demo_store = demo_tree"
  by (simp_all add: demo_ingest_def demo_store_def)

lemma demo_store_mail: "is_stored (fst (store_mail demo_ingest (demo_mailbox [demo_hook]) ''/var/lib/aimx/inbox/alice''
    [] demo_meta0 ''body'' ''/var/lib/aimx/inbox/alice'' ''100-hello.md'' demo_tree_in))"
  by code_simp

lemma demo_alloc:
  "allocate_filename (path_exists demo_tree_in) ''/var/lib/aimx/inbox/alice'' (ie_timestamp demo_ingest 100)
     (slugify (ie_nfc demo_ingest) (ve_lower (ie_verifiers demo_ingest)) (ie_alnum demo_ingest) (fm_subject demo_meta0)) False =
     Some (''/var/lib/aimx/inbox/alice'', ''100-hello.md'')"
  by code_simp

lemma ingest_new_fst:
  assumes "allocate_filename (path_exists (is_tree s)) dir (ie_timestamp env now)
      (slugify (ie_nfc env) (ve_lower (ie_verifiers env)) (ie_alnum env) (fm_subject meta)) (atts \<noteq> []) = Some (parent, name)"
  shows "fst (ingest_new env mailbox mb dir atts meta body now s) =
    fst (store_mail env mb dir atts meta body parent name (is_tree s))"
  using assms
  by (cases "store_mail env mb dir atts meta body parent name (is_tree s)"; cases "fst (store_mail env mb dir atts meta body parent name (is_tree s))")
    (simp_all add: ingest_new_def Let_def)

lemma demo_new: "is_stored (fst (ingest_new demo_ingest ''alice'' (demo_mailbox [demo_hook])
    ''/var/lib/aimx/inbox/alice'' [] demo_meta0 ''body'' 100 demo_opened))"
  using demo_store_mail demo_alloc
  by (subst ingest_new_fst [where parent = "''/var/lib/aimx/inbox/alice''" and name = "''100-hello.md''"])
    (simp_all add: demo_opened_def)

lemma demo_cache:
  "mailbox_cache demo_ingest 100 ''/var/lib/aimx/inbox/alice'' ''alice'' (demo_store\<lparr>is_tree := demo_tree_in\<rparr>) = Some []"
  "fm_message_id demo_meta0 = ''m1@x.io''" "kv_contains demo_kv 100 [] k = False"
  "prepare_attachments (ie_nfc demo_ingest) demo_mail = []" "extract_body (ie_html2text demo_ingest) demo_mail = ''body''"
  by code_simp+

lemma demo_open: "demo_store\<lparr>is_tree := demo_tree_in, is_caches := (\<lambda>_. None)(''alice'' \<mapsto> [])\<rparr> = demo_opened"
  by (simp add: demo_store_def demo_opened_def)

lemma demo_stored: "is_stored (fst (deliver demo_ingest (demo_delivery 100) demo_store))"
proof -
  have "deliver demo_ingest (demo_delivery 100) demo_store = ingest_locked demo_ingest ''alice'' (demo_mailbox [demo_hook])
    ''/var/lib/aimx/inbox/alice'' [] demo_meta0 ''body'' 100 (demo_store\<lparr>is_tree := demo_tree_in\<rparr>)"
    unfolding demo_reach(1) ingest_email_def demo_reach(2)
    by (simp add: demo_reach demo_mkdir demo_cache demo_meta0_def Let_def)
  also have "\<dots> = ingest_new demo_ingest ''alice'' (demo_mailbox [demo_hook])
    ''/var/lib/aimx/inbox/alice'' [] demo_meta0 ''body'' 100 demo_opened"
    unfolding ingest_locked_def demo_cache by (simp add: demo_cache Let_def) (simp add: demo_store_def demo_opened_def)
  finally show ?thesis using demo_new by simp
qed

lemma demo_stored_mail:
  obtains p m s' where "ingest_email demo_ingest demo_trusting ''alice@d.io'' ''m'' ''1.2.3.4'' (Some ''boss@x.io'') 100 demo_store =
      (Stored p m, s')" "fm_mailbox m = ''alice''" "fm_message_id m = ''m1@x.io''"
proof -
  from demo_stored obtain p m where "fst (deliver demo_ingest (demo_delivery 100) demo_store) = Stored p m"
    "fm_mailbox m = ''alice''" "fm_message_id m = ''m1@x.io''"
    by (auto simp: is_stored_def split: ingest_outcome.splits)
  with that show ?thesis by (metis prod.collapse demo_reach(1))
qed

lemma demo_hook_runs:
  "hook_runnable demo_hook" "\<not> is_catchall demo_trusting (demo_mailbox hs)" "mb_hooks (demo_mailbox hs) = hs"
  using hook_ok_runnable [OF demo_hook_ok] demo_mailbox_ok [of hs]
  by (simp_all add: mailbox_ok_def demo_mailbox_def is_catchall_def demo_trusting_def) (code_simp)

lemma demo_trusted: "arriving_hooks demo_ingest demo_trusting (demo_mailbox [demo_hook]) ''m'' demo_mail = [demo_hook]"
proof -
  have "effective_trust demo_trusting (demo_mailbox [demo_hook]) = ''verified''"
    "effective_trusted_senders demo_trusting (demo_mailbox [demo_hook]) = [''boss@x.io'']"
    "extract_email_for_match (ve_lower demo_verifiers) (first_addr (pm_from demo_mail)) = ''boss@x.io''"
    "ve_resolver demo_verifiers" "ve_dkim demo_verifiers ''m'' = Some [\<lparr>do_pass = True, do_domain = ''evil.io''\<rparr>]"
    "hk_event demo_hook = OnReceive"
    by code_simp+
  then show ?thesis
    using demo_hook_runs by (auto simp: arriving_hooks_def mail_trusted_def)
qed

theorem ingested_mail_starts_witness:
  "\<exists>p m s'. ingest_email demo_ingest demo_trusting ''alice@d.io'' ''m'' ''1.2.3.4'' (Some ''boss@x.io'') 100 demo_store =
      (Stored p m, s') \<and>
    map request_key (fst (fire_ingested (\<lambda>_ _. None) (\<lambda>_ w. w) id demo_trusting HookSync (Stored p m) ())) =
      [hook_key (demo_mailbox [demo_hook]) demo_hook]"
proof -
  obtain p m s' where run: "ingest_email demo_ingest demo_trusting ''alice@d.io'' ''m'' ''1.2.3.4'' (Some ''boss@x.io'') 100 demo_store =
      (Stored p m, s')" and m: "fm_mailbox m = ''alice''" by (rule demo_stored_mail)
  from ingested_mail_starts [OF run, of "\<lambda>_ _. None" "\<lambda>_ w. w" id HookSync "()"] run m
  show ?thesis by (auto simp: demo_reach demo_hook_runs demo_trusted)
qed

theorem foreign_signature_passes_gate_witness:
  "\<exists>p m s'. ingest_email demo_ingest demo_trusting ''alice@d.io'' ''m'' ''1.2.3.4'' (Some ''boss@x.io'') 100 demo_store =
      (Stored p m, s') \<and> ve_dkim demo_verifiers ''m'' = Some [\<lparr>do_pass = True, do_domain = ''evil.io''\<rparr>] \<and>
    hook_key (demo_mailbox [demo_hook]) demo_hook \<in>
      set (map request_key (fst (fire_ingested (\<lambda>_ _. None) (\<lambda>_ w. w) id demo_trusting HookSync (Stored p m) ())))"
proof -
  obtain p m s' where run: "ingest_email demo_ingest demo_trusting ''alice@d.io'' ''m'' ''1.2.3.4'' (Some ''boss@x.io'') 100 demo_store =
      (Stored p m, s')" and m: "fm_mailbox m = ''alice''" by (rule demo_stored_mail)
  have "effective_trust demo_trusting (demo_mailbox [demo_hook]) = ''verified''"
    "''boss@x.io'' \<in> set (effective_trusted_senders demo_trusting (demo_mailbox [demo_hook]))"
    "extract_email_for_match (ve_lower demo_verifiers) (first_addr (pm_from demo_mail)) = ''boss@x.io''"
    "ve_resolver demo_verifiers" "hk_event demo_hook = OnReceive" "\<not> hk_fire_on_untrusted demo_hook"
    by code_simp+
  moreover have "ve_dkim demo_verifiers ''m'' = Some [\<lparr>do_pass = True, do_domain = ''evil.io''\<rparr>]"
    by (simp add: demo_verifiers_def)
  ultimately show ?thesis
    using foreign_signature_passes_gate [OF run, of "demo_mailbox [demo_hook]" demo_mail "''evil.io''" "''boss@x.io''"
        demo_hook "\<lambda>_ _. None" "\<lambda>_ w. w" id "()"] run m demo_hook_runs
    by (auto simp: demo_reach)
qed


theorem null_sender_mail_panics_witness:
  "fst (ingest_email demo_ingest demo_trusting ''alice@d.io'' (''From: '' @ ''>x<y'' @ [CR, LF] @ ''hi'') ''1.2.3.4'' None 100 demo_store) =
     IngestPanics"
proof -
  have t: "trim ''>x<y'' = ''>x<y''" by (rule trim_all_plain) (simp add: plain_byte_def code_def)
  have v: "valid_utf8 (''From: '' @ ''>x<y'' @ [CR, LF] @ ''hi'')" by code_simp
  have f: "starts_with (ve_lower (ie_verifiers demo_ingest) (''From: '' @ ''>x<y'')) ''from:''" by code_simp
  have r: "ve_resolver (ie_verifiers demo_ingest)" by code_simp
  have "ingest_email demo_ingest demo_trusting ''alice@d.io'' (''From: '' @ ''>x<y'' @ [CR, LF] @ ''hi'') ''1.2.3.4'' None 100 demo_store =
      (IngestPanics, demo_store\<lparr>is_tree := demo_tree_in\<rparr>)"
  proof (rule null_sender_mail_panics [where v = "''>x<y''" and a = "[]" and b = "''x''" and c = "''y''" and rest = "''hi''"
        and mailbox = "''alice''" and mb = "demo_mailbox [demo_hook]" and msg = demo_mail])
    show "tree_mkdir (ie_faults demo_ingest) (inbox_dir demo_trusting ''alice'') (is_tree demo_store) = Inr demo_tree_in"
      by (simp add: demo_reach demo_mkdir)
  qed (rule refl t v f r demo_reach demo_ingest_simps | simp add: LF_def CR_def)+
  then show ?thesis by simp
qed

definition demo_flat :: mail_file where
  "demo_flat = \<lparr>mf_data = ''first'', mf_uid = 1000, mf_gid = 1000, mf_mode = 0x180\<rparr>"

definition demo_flat_tree :: mail_tree where
  "demo_flat_tree = [''/d/t-s.md'' \<mapsto> Regular demo_flat]"

theorem bundle_takes_a_used_id_witness:
  "allocate_filename (path_exists demo_flat_tree) ''/d'' ''t'' ''s'' True = Some (''/d/t-s'', ''t-s.md'') \<and>
   resolve_email_path_strict (\<lambda>_ _. None) Some demo_flat_tree ''/d'' ''t-s'' = Some (''/d'', ''t-s.md'')"
proof -
  have j: "join_path ''/d'' ''t-s'' = ''/d/t-s''" "join_path ''/d'' (''t-s'' @ ''.md'') = ''/d/t-s.md''"
    by code_simp+
  have "demo_flat_tree (join_path ''/d'' (''t-s'' @ ''.md'')) = Some (Regular demo_flat)"
    unfolding j by (simp add: demo_flat_tree_def)
  moreover have "''t-s'' = ''t'' @ ''-'' @ ''s''" by simp
  moreover have "\<not> path_exists demo_flat_tree (join_path ''/d'' ''t-s'')"
    unfolding j path_exists_def by (subst follow.simps) (simp add: demo_flat_tree_def)
  moreover have "Some ''/d'' = Some ''/d''" by (rule refl)
  moreover have "contained Some ''/d'' (join_path ''/d'' (''t-s'' @ ''.md''))" by code_simp
  ultimately have "allocate_filename (path_exists demo_flat_tree) ''/d'' ''t'' ''s'' True =
      Some (join_path ''/d'' ''t-s'', ''t-s'' @ ''.md'') \<and>
    (\<forall>t'. keeps demo_flat_tree t' \<longrightarrow>
      resolve_email_path_strict (\<lambda>_ _. None) Some t' ''/d'' ''t-s'' = Some (''/d'', ''t-s'' @ ''.md''))"
    by (rule bundle_takes_a_used_id)
  then show ?thesis unfolding j by simp
qed

end
