(* ===== verification/MimeText.thy ===== *)
theory MimeText
  imports Prelude
begin

text \<open>
  The text layer of the outgoing message assembly (\<open>src/wire_assembly.rs\<close>): searching and
  replacing, headers and their parameters, transfer encodings, file names. The base64 alphabet
  is the crate \<open>base64\<close>: the parameters \<open>enc\<close> and \<open>dec\<close>. The special characters of the parsers
  are ASCII, so the parsers read bytes where the source reads characters, unless the Unicode
  property of a character matters.
\<close>

section \<open>Searching and replacing\<close>

fun find_subslice :: "bytes \<Rightarrow> bytes \<Rightarrow> nat option" where
  "find_subslice [] n = (if n = [] then Some 0 else None)"
| "find_subslice (b # h) n = (if starts_with (b # h) n then Some 0 else map_option Suc (find_subslice h n))"

text \<open>\<open>str::replace\<close> of a non-empty pattern.\<close>

function replace_all :: "string \<Rightarrow> string \<Rightarrow> string \<Rightarrow> string" where
  "replace_all p r [] = []"
| "replace_all p r (c # s) =
     (if p \<noteq> [] \<and> starts_with (c # s) p then r @ replace_all p r (drop (length p) (c # s))
      else c # replace_all p r s)"
  by pat_completeness auto
termination by (relation "measure (\<lambda>(p, r, s). length s)") (auto simp: Suc_le_eq)

declare replace_all.simps(2) [simp del]

definition normalize_text_to_crlf :: "string \<Rightarrow> string" where
  "normalize_text_to_crlf text =
     replace_all [LF] [CR, LF] (replace_all [CR] [LF] (replace_all [CR, LF] [LF] text))"

section \<open>Headers\<close>

definition is_continuation :: "string \<Rightarrow> bool" where
  "is_continuation line \<longleftrightarrow> starts_with line '' '' \<or> starts_with line [CHR 0x09]"

definition header_match :: "string \<Rightarrow> string \<Rightarrow> string option" where
  "header_match target cur =
     (case split_once CHR '':'' cur of
        None \<Rightarrow> None
      | Some (n, v) \<Rightarrow> if eq_ignore_ascii_case (trim n) target then Some (trim v) else None)"

text \<open>A header complete: the first match stays.\<close>

definition header_found :: "string \<Rightarrow> string option \<Rightarrow> string option \<Rightarrow> string option" where
  "header_found target current found =
     (case found of Some v \<Rightarrow> Some v | None \<Rightarrow> Option.bind current (header_match target))"

fun header_lines_loop :: "string \<Rightarrow> string option \<Rightarrow> string option \<Rightarrow> string list \<Rightarrow> string option" where
  "header_lines_loop target current found [] = header_found target current found"
| "header_lines_loop target current found (line # ls) =
     (if is_continuation line
      then header_lines_loop target (map_option (\<lambda>cur. cur @ '' '' @ trim_start line) current) found ls
      else header_lines_loop target (Some line) (header_found target current found) ls)"

definition header_value :: "string \<Rightarrow> string \<Rightarrow> string option" where
  "header_value headers name = header_lines_loop (to_ascii_lowercase name) None None (lines headers)"

definition outgoing_content_header :: "string \<Rightarrow> bool" where
  "outgoing_content_header line \<longleftrightarrow>
     (case split_once CHR '':'' line of
        None \<Rightarrow> False
      | Some (n, _) \<Rightarrow> to_ascii_lowercase (trim n) \<in>
          {''content-type'', ''content-transfer-encoding'', ''mime-version''})"

fun strip_loop :: "bool \<Rightarrow> string list \<Rightarrow> string" where
  "strip_loop keep [] = []"
| "strip_loop keep (line # ls) =
     (let k = (if is_continuation line then keep else \<not> outgoing_content_header line) in
      (if k then line @ [CR, LF] else []) @ strip_loop k ls)"

definition strip_outgoing_content_headers :: "string \<Rightarrow> string" where
  "strip_outgoing_content_headers headers = strip_loop True (lines headers)"

section \<open>Parameters\<close>

definition BACKSLASH :: char where "BACKSLASH = CHR 0x5C"

definition QUOTE :: char where "QUOTE = CHR 0x22"

fun split_params :: "bool \<Rightarrow> bool \<Rightarrow> string \<Rightarrow> string \<Rightarrow> string list" where
  "split_params in_quote escape_next cur [] = [cur]"
| "split_params in_quote escape_next cur (c # s) =
     (if escape_next then split_params in_quote False (cur @ [c]) s
      else if in_quote then
        (if c = BACKSLASH then split_params True True (cur @ [c]) s
         else if c = QUOTE then split_params False False (cur @ [c]) s
         else split_params True False (cur @ [c]) s)
      else if c = QUOTE then split_params True False (cur @ [c]) s
      else if c = CHR '';'' then cur # split_params False False [] s
      else split_params False False (cur @ [c]) s)"

definition split_params_quote_aware :: "string \<Rightarrow> string list" where
  "split_params_quote_aware s = split_params False False [] s"

fun decode_quoted_value :: "string \<Rightarrow> string option" where
  "decode_quoted_value [] = None"
| "decode_quoted_value (c # s) =
     (if c = BACKSLASH then
        (case s of [] \<Rightarrow> None | d # s' \<Rightarrow> map_option ((#) d) (decode_quoted_value s'))
      else if c = QUOTE then Some []
      else map_option ((#) c) (decode_quoted_value s))"

text \<open>The value of one parameter whose name matched.\<close>

definition param_value :: "string \<Rightarrow> string option" where
  "param_value raw_value =
     (let val = trim_start raw_value in
      case strip_prefix val [QUOTE] of
        Some stripped \<Rightarrow> decode_quoted_value stripped
      | None \<Rightarrow>
         (let v = concat (takeWhile (\<lambda>ch. ch \<noteq> '';'' \<and> ch \<notin> set white_space) (utf8_chars val)) in
          if v = [] then None else Some v))"

fun find_param :: "string \<Rightarrow> string list \<Rightarrow> string option" where
  "find_param name [] = None"
| "find_param name (segment # rest) =
     (case split_once CHR ''='' (trim segment) of
        None \<Rightarrow> find_param name rest
      | Some (raw_name, raw_value) \<Rightarrow>
          if eq_ignore_ascii_case (trim raw_name) name then param_value raw_value
          else find_param name rest)"

definition extract_quoted_param :: "string \<Rightarrow> string \<Rightarrow> string option" where
  "extract_quoted_param s name =
     find_param (to_ascii_lowercase name) (tl (split_params_quote_aware s))"

definition extract_filename :: "string \<Rightarrow> string option" where
  "extract_filename disposition = extract_quoted_param disposition ''filename''"

definition extract_name_param :: "string \<Rightarrow> string option" where
  "extract_name_param content_type = extract_quoted_param content_type ''name''"

definition split_param :: "string \<Rightarrow> string \<times> string" where
  "split_param val =
     (case split_once CHR '';'' (trim val) of
        Some (a, b) \<Rightarrow> (trim a, trim b)
      | None \<Rightarrow> (trim val, []))"

definition escape_filename :: "string \<Rightarrow> string" where
  "escape_filename name =
     replace_all [LF] '' '' (replace_all [CR] [] (replace_all [QUOTE] [BACKSLASH, QUOTE]
       (replace_all [BACKSLASH] [BACKSLASH, BACKSLASH] name)))"

section \<open>Transfer encodings\<close>

datatype text_transfer_encoding = SevenBit | QuotedPrintable

fun encoding_label :: "text_transfer_encoding \<Rightarrow> string" where
  "encoding_label SevenBit = ''7bit''"
| "encoding_label QuotedPrintable = ''quoted-printable''"

fun has_long_line :: "nat \<Rightarrow> bytes \<Rightarrow> bool" where
  "has_long_line col [] = False"
| "has_long_line col (b # bs) =
     (if b = LF then has_long_line 0 bs
      else if b \<noteq> CR then col + 1 > 998 \<or> has_long_line (col + 1) bs
      else has_long_line col bs)"

definition pick_transfer_encoding :: "bytes \<Rightarrow> text_transfer_encoding" where
  "pick_transfer_encoding bs =
     (if list_all is_ascii_char bs \<and> \<not> has_long_line 0 bs then SevenBit else QuotedPrintable)"

definition hex_upper :: "nat \<Rightarrow> char" where
  "hex_upper n = (if n < 10 then char_of (48 + n) else char_of (55 + n))"

definition qp_escape :: "char \<Rightarrow> string" where
  "qp_escape b = [CHR ''='', hex_upper (code b div 16), hex_upper (code b mod 16)]"

definition needs_encoding :: "char \<Rightarrow> bool" where
  "needs_encoding b \<longleftrightarrow> b = CHR ''='' \<or> b = CHR 0x09 \<or> \<not> (0x20 \<le> code b \<and> code b \<le> 0x7E)"

definition soft_break :: string where
  "soft_break = [CHR ''='', CR, LF]"

fun qp_loop :: "nat \<Rightarrow> bytes \<Rightarrow> string" where
  "qp_loop col [] = []"
| "qp_loop col (b # bs) =
     (if b = LF then LF # qp_loop 0 bs
      else if b = CR then CR # qp_loop col bs
      else if needs_encoding b then
        (if col + 3 > 75 then soft_break @ qp_escape b @ qp_loop 3 bs
         else qp_escape b @ qp_loop (col + 3) bs)
      else
        (if col + 1 > 75 then soft_break @ b # qp_loop 1 bs
         else b # qp_loop (col + 1) bs))"

definition quoted_printable_encode :: "string \<Rightarrow> string" where
  "quoted_printable_encode text = qp_loop 0 text"

definition encode_text_body :: "string \<Rightarrow> text_transfer_encoding \<Rightarrow> string" where
  "encode_text_body text enc =
     (case enc of SevenBit \<Rightarrow> text | QuotedPrintable \<Rightarrow> quoted_printable_encode text)"

text \<open>\<open>char::to_digit(16)\<close>.\<close>

definition hex_value :: "char \<Rightarrow> nat option" where
  "hex_value c =
     (if is_ascii_digit c then Some (code c - 48)
      else if 97 \<le> code c \<and> code c \<le> 102 then Some (code c - 87)
      else if 65 \<le> code c \<and> code c \<le> 70 then Some (code c - 55)
      else None)"

fun decode_quoted_printable :: "bytes \<Rightarrow> bytes" where
  "decode_quoted_printable (b # b1 # b2 # r) =
     (if b = CHR ''='' then
        (if b1 = CR \<and> b2 = LF then decode_quoted_printable r
         else if b1 = LF then decode_quoted_printable (b2 # r)
         else (case (hex_value b1, hex_value b2) of
             (Some h1, Some h2) \<Rightarrow> char_of (h1 * 16 + h2) # decode_quoted_printable r
           | _ \<Rightarrow> b # decode_quoted_printable (b1 # b2 # r)))
      else b # decode_quoted_printable (b1 # b2 # r))"
| "decode_quoted_printable [] = []"
| "decode_quoted_printable [b] = [b]"
| "decode_quoted_printable [b, b1] = [b, b1]"

definition decode_base64 :: "(string \<Rightarrow> bytes option) \<Rightarrow> bytes \<Rightarrow> bytes option" where
  "decode_base64 dec bs =
     (if valid_utf8 bs then dec (concat (filter (\<lambda>ch. ch \<notin> set white_space) (utf8_chars bs))) else None)"

text \<open>The raw text, broken before each character whose index is a positive multiple of the width.\<close>

definition base64_encode_wrapped :: "(bytes \<Rightarrow> string) \<Rightarrow> bytes \<Rightarrow> nat \<Rightarrow> string" where
  "base64_encode_wrapped enc data width =
     concat (map (\<lambda>(i, ch). (if 0 < i \<and> i mod width = 0 then [CR, LF] else []) @ [ch])
       (enumerate 0 (enc data)))"

section \<open>The signature\<close>

definition trim_line_ends :: "string \<Rightarrow> string" where
  "trim_line_ends s = rev (dropWhile (\<lambda>c. c = CR \<or> c = LF) (rev s))"

definition append_signature_to_body :: "string \<Rightarrow> string \<Rightarrow> string" where
  "append_signature_to_body body signature =
     (if signature = [] then body
      else trim_line_ends body @ [LF, LF] @ replace_all [CR] [LF] (replace_all [CR, LF] [LF] signature))"

end
