(* ===== verification/WireAssembly.thy ===== *)
theory WireAssembly
  imports MimeText
begin

text \<open>
  The MIME message the daemon builds from a submitted one (\<open>src/wire_assembly.rs\<close>, with the size
  cap of \<open>src/markdown_render.rs\<close>). Parameters of the record \<open>wire_env\<close>: the Markdown renderer (the
  crates \<open>comrak\<close> and \<open>lol_html\<close>), base64, and the two boundaries, which the source draws at random.
\<close>

section \<open>The parts of a submission\<close>

definition MAX_HEADER_BLOCK_BYTES :: nat where "MAX_HEADER_BLOCK_BYTES = 64 * 1024"

definition MAX_MARKDOWN_BODY_BYTES :: nat where "MAX_MARKDOWN_BODY_BYTES = 5 * 1024 * 1024"

record attachment_part =
  ap_content_type :: string
  ap_filename :: string
  ap_data :: bytes

datatype assemble_error = MissingHeaderSeparator | HeaderBlockTooLarge | RenderBodyTooLarge

fun assemble_error_message :: "assemble_error \<Rightarrow> string" where
  "assemble_error_message MissingHeaderSeparator =
     ''outbound request body has no header/body separator (expected blank line)''"
| "assemble_error_message HeaderBlockTooLarge = ''outbound request header block is too large''"
| "assemble_error_message RenderBodyTooLarge =
     ''markdown body exceeds 5 MiB; use --html-body for pre-rendered large documents or '' @
     ''--attachment for sending the document as a file''"

record wire_env =
  we_html :: "string \<Rightarrow> string"
  we_enc :: "bytes \<Rightarrow> string"
  we_dec :: "string \<Rightarrow> bytes option"
  we_outer :: string
  we_inner :: string

definition render_markdown_to_email_html :: "(string \<Rightarrow> string) \<Rightarrow> string \<Rightarrow> assemble_error + string" where
  "render_markdown_to_email_html html markdown =
     (if length markdown > MAX_MARKDOWN_BODY_BYTES then Inl RenderBodyTooLarge else Inr (html markdown))"

definition find_header_separator :: "bytes \<Rightarrow> (nat \<times> nat) option" where
  "find_header_separator input =
     (case find_subslice input [CR, LF, CR, LF] of
        Some idx \<Rightarrow> Some (idx, 4)
      | None \<Rightarrow> map_option (\<lambda>idx. (idx, 2)) (find_subslice input [LF, LF]))"

definition split_headers_body :: "bytes \<Rightarrow> assemble_error + string \<times> bytes" where
  "split_headers_body input =
     (case find_header_separator input of
        None \<Rightarrow> Inl MissingHeaderSeparator
      | Some (sep_idx, sep_len) \<Rightarrow>
          if sep_idx > MAX_HEADER_BLOCK_BYTES then Inl HeaderBlockTooLarge
          else if \<not> valid_utf8 (take sep_idx input) then Inl MissingHeaderSeparator
          else Inr (take sep_idx input, drop (sep_idx + sep_len) input))"

record raw_part =
  rp_headers :: string
  rp_body :: bytes

definition parse_raw_part :: "bytes \<Rightarrow> raw_part option" where
  "parse_raw_part bs =
     (case find_header_separator bs of
        None \<Rightarrow> None
      | Some (sep, sep_len) \<Rightarrow>
          if valid_utf8 (take sep bs)
          then Some \<lparr>rp_headers = take sep bs, rp_body = drop (sep + sep_len) bs\<rparr> else None)"

function find_line_starts :: "bytes \<Rightarrow> bytes \<Rightarrow> nat \<Rightarrow> nat list" where
  "find_line_starts bs needle start =
     (if length bs \<le> start \<or> needle = [] then []
      else case find_subslice (drop start bs) needle of
          None \<Rightarrow> []
        | Some rel \<Rightarrow>
            (if start + rel = 0 \<or> bs ! (start + rel - 1) = LF then [start + rel] else []) @
            find_line_starts bs needle (start + rel + length needle))"
  by pat_completeness auto
termination
proof (relation "measure (\<lambda>(bs, needle, start). length bs - start)", goal_cases)
  case (2 bs needle start rel)
  then have "start < length bs" "0 < length needle" by auto
  then show ?case by (simp only: in_measure prod.case)
qed simp

declare find_line_starts.simps [simp del]

definition trim_trailing_crlf :: "bytes \<Rightarrow> bytes" where
  "trim_trailing_crlf bs = trim_line_ends bs"

text \<open>The part between two boundary lines, at the indexes the windows of the source give.\<close>

fun parts_loop :: "bytes \<Rightarrow> bytes \<Rightarrow> nat list \<Rightarrow> raw_part list" where
  "parts_loop bs close (start # end' # rest) =
     (case find_subslice (drop start (take end' bs)) [LF] of
        None \<Rightarrow> parts_loop bs close (end' # rest)
      | Some nl \<Rightarrow>
          if start + nl + 1 \<ge> end' then parts_loop bs close (end' # rest)
          else
           (let p = parse_raw_part (trim_trailing_crlf (drop (start + nl + 1) (take end' bs)));
                ps = (case p of None \<Rightarrow> [] | Some part \<Rightarrow> [part])
            in if starts_with (drop end' bs) close then ps else ps @ parts_loop bs close (end' # rest)))"
| "parts_loop bs close _ = []"

definition split_multipart_body :: "bytes \<Rightarrow> string \<Rightarrow> raw_part list" where
  "split_multipart_body body boundary =
     (let occurrences = find_line_starts body (''--'' @ boundary) 0;
          parts = parts_loop body (''--'' @ boundary @ ''--'') occurrences
      in case occurrences of
           [start] \<Rightarrow>
             (case find_subslice (drop start body) [LF] of
                None \<Rightarrow> parts
              | Some nl_rel \<Rightarrow>
                  (case parse_raw_part (trim_trailing_crlf (drop (start + nl_rel + 1) body)) of
                     None \<Rightarrow> parts
                   | Some p \<Rightarrow> parts @ [p]))
         | _ \<Rightarrow> parts)"

definition part_encoding :: "raw_part \<Rightarrow> string" where
  "part_encoding p =
     (case header_value (rp_headers p) ''Content-Transfer-Encoding'' of
        None \<Rightarrow> [] | Some s \<Rightarrow> to_ascii_lowercase (trim s))"

definition part_data :: "(string \<Rightarrow> bytes option) \<Rightarrow> raw_part \<Rightarrow> bytes" where
  "part_data dec p =
     (if part_encoding p = ''base64'' then
        (case decode_base64 dec (rp_body p) of None \<Rightarrow> rp_body p | Some d \<Rightarrow> d)
      else if part_encoding p = ''quoted-printable'' then decode_quoted_printable (rp_body p)
      else rp_body p)"

definition decode_text_part :: "(string \<Rightarrow> bytes option) \<Rightarrow> raw_part \<Rightarrow> string" where
  "decode_text_part dec p = replace_all [CR, LF] [LF] (utf8_lossy (part_data dec p))"

definition parse_attachment_part :: "(string \<Rightarrow> bytes option) \<Rightarrow> raw_part \<Rightarrow> attachment_part" where
  "parse_attachment_part dec p =
     (let ct = header_value (rp_headers p) ''Content-Type'';
          disposition = (case header_value (rp_headers p) ''Content-Disposition'' of None \<Rightarrow> [] | Some d \<Rightarrow> d)
      in \<lparr>ap_content_type = (case ct of None \<Rightarrow> ''application/octet-stream'' | Some v \<Rightarrow> fst (split_param v)),
          ap_filename =
            (case extract_filename disposition of
               Some f \<Rightarrow> f
             | None \<Rightarrow>
                 (case Option.bind ct extract_name_param of Some f \<Rightarrow> f | None \<Rightarrow> ''attachment'')),
          ap_data = part_data dec p\<rparr>)"

definition extract_multipart_boundary :: "string \<Rightarrow> string option" where
  "extract_multipart_boundary headers =
     (case header_value headers ''Content-Type'' of
        None \<Rightarrow> None
      | Some v \<Rightarrow>
          if contains (to_ascii_lowercase v) ''multipart/'' then extract_quoted_param v ''boundary'' else None)"

definition extract_markdown_and_attachments ::
  "(string \<Rightarrow> bytes option) \<Rightarrow> string \<Rightarrow> bytes \<Rightarrow> string \<times> attachment_part list" where
  "extract_markdown_and_attachments dec headers body =
     (case extract_multipart_boundary headers of
        None \<Rightarrow> (utf8_lossy body, [])
      | Some boundary \<Rightarrow>
          (case split_multipart_body body boundary of
             [] \<Rightarrow> (utf8_lossy body, [])
           | first # rest \<Rightarrow> (decode_text_part dec first, map (parse_attachment_part dec) rest)))"

section \<open>The message built\<close>

definition crlf_line :: "string \<Rightarrow> string" where
  "crlf_line s = s @ [CR, LF]"

definition quoted :: "string \<Rightarrow> string" where
  "quoted s = [QUOTE] @ s @ [QUOTE]"

definition build_outgoing_content_headers_for ::
  "bool \<Rightarrow> attachment_part list \<Rightarrow> string \<Rightarrow> text_transfer_encoding option \<Rightarrow> string" where
  "build_outgoing_content_headers_for text_only atts outer top_cte =
     crlf_line ''MIME-Version: 1.0'' @
     (if text_only \<and> atts = [] then
        crlf_line ''Content-Type: text/plain; charset=utf-8'' @
        (case top_cte of
           None \<Rightarrow> []
         | Some e \<Rightarrow> crlf_line (''Content-Transfer-Encoding: '' @ encoding_label e))
      else if atts = [] then crlf_line (''Content-Type: multipart/alternative; boundary='' @ quoted outer)
      else crlf_line (''Content-Type: multipart/mixed; boundary='' @ quoted outer))"

definition pick_text_only_top_level_encoding :: "string \<Rightarrow> text_transfer_encoding" where
  "pick_text_only_top_level_encoding body_text = pick_transfer_encoding (normalize_text_to_crlf body_text)"

definition text_part :: "string \<Rightarrow> string \<Rightarrow> string \<Rightarrow> bytes" where
  "text_part boundary subtype text =
     (let normalized = normalize_text_to_crlf text; e = pick_transfer_encoding normalized
      in crlf_line (''--'' @ boundary) @
         crlf_line (''Content-Type: text/'' @ subtype @ ''; charset=utf-8'') @
         crlf_line (''Content-Transfer-Encoding: '' @ encoding_label e) @ crlf_line [] @
         crlf_line (encode_text_body normalized e))"

definition attachment_headers :: "attachment_part \<Rightarrow> string" where
  "attachment_headers att =
     (let safe_name = escape_filename (ap_filename att)
      in crlf_line (''Content-Type: '' @ ap_content_type att @ ''; name='' @ quoted safe_name) @
         crlf_line (''Content-Disposition: attachment; filename='' @ quoted safe_name) @
         crlf_line ''Content-Transfer-Encoding: base64'')"

definition attachment_bytes :: "(bytes \<Rightarrow> string) \<Rightarrow> string \<Rightarrow> attachment_part \<Rightarrow> bytes" where
  "attachment_bytes enc outer att =
     crlf_line (''--'' @ outer) @ attachment_headers att @ crlf_line [] @
     crlf_line (base64_encode_wrapped enc (ap_data att) 76)"

definition close_line :: "string \<Rightarrow> bytes" where
  "close_line boundary = crlf_line (''--'' @ boundary @ ''--'')"

definition build_text_only_body ::
  "(bytes \<Rightarrow> string) \<Rightarrow> string \<Rightarrow> attachment_part list \<Rightarrow> string \<Rightarrow> bytes" where
  "build_text_only_body enc body_text atts outer =
     (if atts = [] then
       (let normalized = normalize_text_to_crlf body_text;
            encoded = encode_text_body normalized (pick_transfer_encoding normalized)
        in encoded @ (if ends_with encoded [LF] then [] else [CR, LF]))
      else
        text_part outer ''plain'' body_text @ concat (map (attachment_bytes enc outer) atts) @ close_line outer)"

definition build_alternative_body :: "string \<Rightarrow> string \<Rightarrow> string \<Rightarrow> bytes" where
  "build_alternative_body boundary markdown_source html =
     text_part boundary ''plain'' markdown_source @ text_part boundary ''html'' html @ close_line boundary"

definition build_multipart_body ::
  "(bytes \<Rightarrow> string) \<Rightarrow> string \<Rightarrow> string \<Rightarrow> attachment_part list \<Rightarrow> string \<Rightarrow> string \<Rightarrow> bytes" where
  "build_multipart_body enc markdown_source html atts outer inner =
     (if atts = [] then build_alternative_body outer markdown_source html
      else
        crlf_line (''--'' @ outer) @
        crlf_line (''Content-Type: multipart/alternative; boundary='' @ quoted inner) @ crlf_line [] @
        crlf_line (build_alternative_body inner markdown_source html) @
        concat (map (attachment_bytes enc outer) atts) @ close_line outer)"

definition assemble_wire_message ::
  "wire_env \<Rightarrow> bytes \<Rightarrow> string \<Rightarrow> bool \<Rightarrow> bytes option \<Rightarrow> assemble_error + bytes" where
  "assemble_wire_message env request_body signature text_only html_body =
     (case split_headers_body request_body of
        Inl e \<Rightarrow> Inl e
      | Inr (original_headers, body_section) \<Rightarrow>
         (case extract_markdown_and_attachments (we_dec env) original_headers body_section of
            (text, atts) \<Rightarrow>
             (let body_text = append_signature_to_body text signature;
                  outer = we_outer env;
                  top_cte = (if text_only \<and> atts = []
                             then Some (pick_text_only_top_level_encoding body_text) else None)
              in case (if text_only then Inr (build_text_only_body (we_enc env) body_text atts outer)
                       else case html_body of
                           Some html \<Rightarrow>
                             Inr (build_multipart_body (we_enc env) body_text (utf8_lossy html) atts outer (we_inner env))
                         | None \<Rightarrow>
                             (case render_markdown_to_email_html (we_html env) body_text of
                                Inl e \<Rightarrow> Inl e
                              | Inr html \<Rightarrow>
                                  Inr (build_multipart_body (we_enc env) body_text html atts outer (we_inner env)))) of
                   Inl e \<Rightarrow> Inl e
                 | Inr body_bytes \<Rightarrow>
                     Inr (strip_outgoing_content_headers original_headers @
                       build_outgoing_content_headers_for text_only atts outer top_cte @ [CR, LF] @ body_bytes))))"

end
