(* ===== verification/SendHandler.thy ===== *)
theory SendHandler
  imports WireAssembly HookFire MailTree UdsAuthz Names
begin

text \<open>
  SEND in the daemon (\<open>src/send_handler.rs\<close>, with the outbound frontmatter of
  \<open>src/frontmatter.rs\<close> and the error type of \<open>src/transport.rs\<close>): who may send, the message built,
  signed and handed to the transport, the copy kept, and the hooks started.

  Parameters of the record \<open>send_env\<close>: the signer, the transport, the UUID, the clock's formats,
  the TOML serializer and those of the wire assembly and the file names. The clock is read several
  times by the source and once here. \<open>config\<close> is the snapshot taken at the start; the order of
  its mailboxes is the order the source's map iterates in. Log lines are not modelled.
\<close>

section \<open>Outbound metadata\<close>

record outbound_frontmatter =
  om_id :: string
  om_message_id :: string
  om_thread_id :: string
  om_from :: string
  om_to :: string
  om_cc :: "string option"
  om_reply_to :: "string option"
  om_delivered_to :: string
  om_subject :: string
  om_date :: string
  om_received_at :: string
  om_received_from_ip :: "string option"
  om_size_bytes :: nat
  om_attachments :: "attachment_meta list"
  om_in_reply_to :: "string option"
  om_references :: "string option"
  om_list_id :: "string option"
  om_auto_submitted :: "string option"
  om_dkim :: string
  om_spf :: string
  om_dmarc :: string
  om_trusted :: string
  om_mailbox :: string
  om_read :: bool
  om_labels :: "string list"
  om_outbound :: bool
  om_outbound_format :: string
  om_delivery_status :: delivery_status
  om_bcc :: "string list option"
  om_delivered_at :: "string option"
  om_delivery_details :: "string option"

definition format_outbound_frontmatter ::
  "(outbound_frontmatter \<Rightarrow> string) \<Rightarrow> outbound_frontmatter \<Rightarrow> string \<Rightarrow> string" where
  "format_outbound_frontmatter to_toml meta body =
     ''+++'' @ [LF] @ to_toml meta @ ''+++'' @ [LF, LF] @ body @
     (if ends_with body [LF] then [] else [LF])"

datatype transport_error = TempError string | PermanentError string

fun transport_error_message :: "transport_error \<Rightarrow> string" where
  "transport_error_message (TempError s) = s"
| "transport_error_message (PermanentError s) = s"

record send_env =
  se_pw :: user_db
  se_getpwuid :: "nat \<Rightarrow> string option"
  se_faults :: faults
  se_data_dir :: string
  se_wire :: wire_env
  se_uuid :: string
  se_selector :: string
  se_sign :: "bytes \<Rightarrow> string \<Rightarrow> string \<Rightarrow> string + bytes"
  se_transport :: "string \<Rightarrow> string \<Rightarrow> bytes \<Rightarrow> transport_error + string"
  se_rfc3339 :: string
  se_timestamp :: string
  se_nfc :: "string \<Rightarrow> string"
  se_lower :: "string \<Rightarrow> string"
  se_alnum :: "string \<Rightarrow> bool"
  se_sha :: "bytes \<Rightarrow> bytes"
  se_to_toml :: "outbound_frontmatter \<Rightarrow> string"

section \<open>The headers of the submission\<close>

definition scan_commit ::
  "(string \<times> string) list \<Rightarrow> string option \<Rightarrow> (string \<rightharpoonup> string) \<Rightarrow> (string \<rightharpoonup> string)" where
  "scan_commit lowercased current out =
     (case current of
        None \<Rightarrow> out
      | Some line \<Rightarrow>
          (case split_once CHR '':'' line of
             None \<Rightarrow> out
           | Some (n, v) \<Rightarrow>
               fold (\<lambda>(target_lower, original) out.
                   if to_ascii_lowercase (trim n) = target_lower \<and> out original = None
                   then out(original \<mapsto> trim v) else out)
                 lowercased out))"

fun scan_loop ::
  "(string \<times> string) list \<Rightarrow> string option \<Rightarrow> (string \<rightharpoonup> string) \<Rightarrow> string list \<Rightarrow> (string \<rightharpoonup> string)" where
  "scan_loop lowercased current out [] = scan_commit lowercased current out"
| "scan_loop lowercased current out (line # ls) =
     (if line = [] then scan_commit lowercased current out
      else if is_continuation line
      then scan_loop lowercased (map_option (\<lambda>cur. cur @ '' '' @ trim_start line) current) out ls
      else scan_loop lowercased (Some line) (scan_commit lowercased current out) ls)"

definition scan_headers :: "bytes \<Rightarrow> string list \<Rightarrow> (string \<rightharpoonup> string)" where
  "scan_headers body names =
     (if valid_utf8 body
      then scan_loop (map (\<lambda>n. (to_ascii_lowercase n, n)) names) None Map.empty (lines body)
      else Map.empty)"

definition SEND_HEADERS :: "string list" where
  "SEND_HEADERS =
     [''From'', ''To'', ''Message-ID'', ''Subject'', ''In-Reply-To'', ''References'', ''Date'']"

definition extract_bare_address :: "string \<Rightarrow> string option" where
  "extract_bare_address val =
     (let first = trim (takeWhile (\<lambda>c. c \<noteq> CHR '','') val) in
      if first = [] then None
      else
       (let addr = (case rfind_char CHR ''<'' first of
                      Some start \<Rightarrow> takeWhile (\<lambda>c. c \<noteq> CHR ''>'') (drop (start + 1) first)
                    | None \<Rightarrow> first);
            addr = trim addr
        in if addr = [] \<or> CHR ''@'' \<notin> set addr then None else Some addr))"

definition resolve_concrete_mailbox :: "config \<Rightarrow> string \<Rightarrow> string option" where
  "resolve_concrete_mailbox cfg bare_from =
     (case find (\<lambda>(name, mb). \<not> starts_with (mb_address mb) ''*'' \<and>
                   eq_ignore_ascii_case (mb_address mb) bare_from) (cfg_mailboxes cfg) of
        Some (name, _) \<Rightarrow> Some name
      | None \<Rightarrow>
         (let local_part = (case rsplit_once CHR ''@'' bare_from of None \<Rightarrow> bare_from | Some (l, _) \<Rightarrow> l) in
          case lookup_mailbox cfg local_part of
            Some mb \<Rightarrow> if \<not> starts_with (mb_address mb) ''*'' then Some local_part else None
          | None \<Rightarrow> None))"

text \<open>Whether one of the first so many pairs of neighbouring bytes is CRLF.\<close>

fun crlf_within :: "nat \<Rightarrow> bytes \<Rightarrow> bool" where
  "crlf_within n (a # b # r) = (0 < n \<and> (a = CR \<and> b = LF \<or> crlf_within (n - 1) (b # r)))"
| "crlf_within n _ = False"

definition inject_message_id_header :: "bytes \<Rightarrow> string \<Rightarrow> bytes" where
  "inject_message_id_header body message_id =
     ''Message-ID: '' @ message_id @ (if crlf_within 1024 body then [CR, LF] else [LF]) @ body"

section \<open>Up to the signature\<close>

text \<open>What the checks establish: the sender's mailbox, the recipient, and the signed message.\<close>

record prepared_send =
  ps_mailbox :: string
  ps_config :: mailbox_config
  ps_from :: string
  ps_to :: string
  ps_recipient :: string
  ps_message_id :: string
  ps_signed :: bytes
  ps_headers :: "string \<rightharpoonup> string"

text \<open>The sender: its header, mailbox and configuration, if the caller may use it.\<close>

definition resolve_sender ::
  "send_env \<Rightarrow> config \<Rightarrow> nat \<Rightarrow> (string \<rightharpoonup> string) \<Rightarrow> send_response + string \<times> string \<times> mailbox_config" where
  "resolve_sender env cfg uid headers =
     (case headers ''From'' of
        None \<Rightarrow> Inl (SendErr EMalformed ''missing required header: From'')
      | Some from_header \<Rightarrow>
     (case extract_bare_address from_header of
        None \<Rightarrow> Inl (SendErr EMalformed (''could not extract sender address from From: '' @ from_header))
      | Some bare_from \<Rightarrow>
     (case rsplit_once CHR ''@'' bare_from of
        None \<Rightarrow> Inl (SendErr EMalformed (''could not extract domain from From: '' @ from_header))
      | Some (_, sender_domain) \<Rightarrow>
          if \<not> eq_ignore_ascii_case sender_domain (cfg_domain cfg)
          then Inl (SendErr EDomain (''sender domain '' @ quote sender_domain @
            '' does not match aimx domain '' @ quote (cfg_domain cfg)))
          else
         (case resolve_concrete_mailbox cfg bare_from of
            None \<Rightarrow> Inl (SendErr EMailbox (''no mailbox matches From: '' @ bare_from @ '' (run '' @ [CHR 0x60] @
              ''aimx mailboxes create <name>'' @ [CHR 0x60] @ '' to register one; catchall is inbound-only)''))
          | Some from_mailbox \<Rightarrow>
         (case lookup_mailbox cfg from_mailbox of
            None \<Rightarrow> Inl (SendErr EMailbox (''mailbox '' @ quote from_mailbox @
              '' resolved but not found in config (race with concurrent MAILBOX-DELETE)''))
          | Some mb \<Rightarrow>
         (case fst (enforce_mailbox_owner_or_root (se_getpwuid env) ''SEND'' uid from_mailbox mb) of
            Inl reject \<Rightarrow> Inl (SendErr (ar_code reject) (ar_reason reject))
          | Inr _ \<Rightarrow> Inr (from_header, from_mailbox, mb)))))))"

text \<open>The message: identified, assembled and signed.\<close>

definition build_signed ::
  "send_env \<Rightarrow> config \<Rightarrow> send_request \<Rightarrow> (string \<rightharpoonup> string) \<Rightarrow> send_response + string \<times> bytes" where
  "build_signed env cfg req headers =
     (let (message_id, body_with_id) =
        (case headers ''Message-ID'' of
           Some v \<Rightarrow> (v, sr_body req)
         | None \<Rightarrow>
            (let synthetic = ''<'' @ se_uuid env @ ''@'' @ cfg_domain cfg @ ''>''
             in (synthetic, inject_message_id_header (sr_body req) synthetic)))
      in case assemble_wire_message (se_wire env) body_with_id (effective_signature cfg)
                (sr_text_only req) (sr_html_body req) of
           Inl e \<Rightarrow>
             Inl (SendErr (if e = RenderBodyTooLarge then EBodyTooLarge else EMalformed) (assemble_error_message e))
         | Inr body_bytes \<Rightarrow>
             (case se_sign env body_bytes (cfg_domain cfg) (se_selector env) of
                Inl e \<Rightarrow> Inl (SendErr ESign e)
              | Inr signed \<Rightarrow> Inr (message_id, signed)))"

definition prepare_send ::
  "send_env \<Rightarrow> config \<Rightarrow> send_request \<Rightarrow> nat \<Rightarrow> send_response + prepared_send" where
  "prepare_send env cfg req uid =
     (let headers = scan_headers (sr_body req) SEND_HEADERS in
      case resolve_sender env cfg uid headers of
        Inl r \<Rightarrow> Inl r
      | Inr (from_header, from_mailbox, mb) \<Rightarrow>
     (case headers ''To'' of
        None \<Rightarrow> Inl (SendErr EMalformed ''missing required header: To'')
      | Some to_header \<Rightarrow>
     (case extract_bare_address to_header of
        None \<Rightarrow> Inl (SendErr EMalformed (''could not extract recipient address from To: '' @ to_header))
      | Some recipient \<Rightarrow>
     (case build_signed env cfg req headers of
        Inl r \<Rightarrow> Inl r
      | Inr (message_id, signed) \<Rightarrow>
          Inr \<lparr>ps_mailbox = from_mailbox, ps_config = mb, ps_from = from_header, ps_to = to_header,
               ps_recipient = recipient, ps_message_id = message_id, ps_signed = signed,
               ps_headers = headers\<rparr>))))"

section \<open>The copy kept\<close>

definition outbound_metadata ::
  "send_env \<Rightarrow> prepared_send \<Rightarrow> string \<Rightarrow> delivery_status \<Rightarrow> string option \<Rightarrow> string option \<Rightarrow> string \<Rightarrow>
   outbound_frontmatter" where
  "outbound_metadata env p id' status delivered_at details fmt =
     \<lparr>om_id = id', om_message_id = ps_message_id p,
      om_thread_id = compute_thread_id (se_sha env) (ps_message_id p)
        (ps_headers p ''In-Reply-To'') (ps_headers p ''References''),
      om_from = ps_from p, om_to = ps_to p, om_cc = None, om_reply_to = None, om_delivered_to = ps_to p,
      om_subject = unwrap_or [] (ps_headers p ''Subject''),
      om_date = unwrap_or (se_rfc3339 env) (ps_headers p ''Date''),
      om_received_at = [], om_received_from_ip = None, om_size_bytes = length (ps_signed p), om_attachments = [],
      om_in_reply_to = ps_headers p ''In-Reply-To'', om_references = ps_headers p ''References'',
      om_list_id = None, om_auto_submitted = None, om_dkim = ''pass'', om_spf = ''none'', om_dmarc = ''none'',
      om_trusted = ''none'', om_mailbox = ps_mailbox p, om_read = False, om_labels = [], om_outbound = True,
      om_outbound_format = fmt, om_delivery_status = status, om_bcc = None, om_delivered_at = delivered_at,
      om_delivery_details = details\<rparr>"

text \<open>\<open>File::create_new\<close>: an empty file where nothing was, not even a link.\<close>

definition create_new :: "faults \<Rightarrow> string \<Rightarrow> mail_tree \<Rightarrow> string + mail_tree" where
  "create_new faults p t =
     (case faults CreateOp p of
        Some e \<Rightarrow> Inl e
      | None \<Rightarrow>
          if t p \<noteq> None then Inl ''File exists''
          else Inr (t(p \<mapsto> Regular \<lparr>mf_data = [], mf_uid = 0, mf_gid = 0, mf_mode = 0x180\<rparr>)))"

text \<open>
  The outer \<open>None\<close>: the search for a free name never ends. The inner one: no file was kept, which
  the source logs. The bytes signed go into the file as text.
\<close>

definition create_copy ::
  "send_env \<Rightarrow> prepared_send \<Rightarrow> delivery_status \<Rightarrow> string option \<Rightarrow> string option \<Rightarrow> string \<Rightarrow>
   string \<Rightarrow> string \<Rightarrow> mail_tree \<Rightarrow> string option option \<times> mail_tree" where
  "create_copy env p status delivered_at details fmt parent_dir name t =
     (let faults = se_faults env in
      case tree_mkdir faults parent_dir t of
        Inl _ \<Rightarrow> (Some None, t)
      | Inr t1 \<Rightarrow>
         (let md_path = join_path parent_dir name in
          case create_new faults md_path t1 of
            Inl _ \<Rightarrow> (Some None, t1)
          | Inr t2 \<Rightarrow>
             (let meta = outbound_metadata env p (file_stem md_path) status delivered_at details fmt;
                  content = format_outbound_frontmatter (se_to_toml env) meta (utf8_lossy (ps_signed p))
              in case fs_write faults md_path content t2 of
                   Inl _ \<Rightarrow> (Some None, t2)
                 | Inr t3 \<Rightarrow>
                     (Some (Some md_path),
                      chown_owned (se_pw env) faults md_path (ps_config p) 0x180 t3))))"

definition persist_sent_file ::
  "send_env \<Rightarrow> prepared_send \<Rightarrow> delivery_status \<Rightarrow> string option \<Rightarrow> string option \<Rightarrow> string \<Rightarrow> mail_tree \<Rightarrow>
   string option option \<times> mail_tree" where
  "persist_sent_file env p status delivered_at details fmt t =
     (let dir = join_path (join_path (se_data_dir env) ''sent'') (ps_mailbox p) in
      case tree_mkdir (se_faults env) dir t of
        Inl _ \<Rightarrow> (Some None, t)
      | Inr t1 \<Rightarrow>
         (let t2 = chown_owned (se_pw env) (se_faults env) dir (ps_config p) 0x1C0 t1;
              slug = slugify (se_nfc env) (se_lower env) (se_alnum env) (unwrap_or [] (ps_headers p ''Subject''))
          in case allocate_filename (path_exists t2) dir (se_timestamp env) slug False of
               None \<Rightarrow> (None, t2)
             | Some (parent_dir, name) \<Rightarrow> create_copy env p status delivered_at details fmt parent_dir name t2))"

section \<open>One send\<close>

text \<open>
  A refused submission has no effect; one handed to the transport has an answer and the context of
  its hooks; the call made to the transport is kept with it.
\<close>

datatype send_outcome =
    SendRefused send_response
  | SendTried send_response "string \<times> string \<times> bytes" after_send_context
  | SendHangs

definition outbound_format :: "send_request \<Rightarrow> string" where
  "outbound_format req =
     (if sr_text_only req then ''text'' else if sr_html_body req \<noteq> None then ''html'' else ''markdown'')"

text \<open>What follows from the transport's answer: the response, the hooks' status, and the copy.\<close>

definition transport_verdict ::
  "send_env \<Rightarrow> prepared_send \<Rightarrow> string \<Rightarrow> mail_tree \<Rightarrow>
   send_response \<times> send_status \<times> (string option option \<times> mail_tree)" where
  "transport_verdict env p fmt t =
     (case se_transport env (ps_from p) (ps_recipient p) (ps_signed p) of
        Inr _ \<Rightarrow>
          (SendOk (ps_message_id p), SendDelivered,
           persist_sent_file env p Delivered (Some (se_rfc3339 env)) None fmt t)
      | Inl (TempError msg) \<Rightarrow> (SendErr ETemp msg, SendDeferred, (Some None, t))
      | Inl (PermanentError msg) \<Rightarrow>
          (SendErr EDelivery msg, SendFailed, persist_sent_file env p Failed None (Some msg) fmt t))"

definition handle_send ::
  "send_env \<Rightarrow> config \<Rightarrow> send_request \<Rightarrow> nat \<Rightarrow> mail_tree \<Rightarrow> send_outcome \<times> mail_tree" where
  "handle_send env cfg req uid t =
     (case prepare_send env cfg req uid of
        Inl r \<Rightarrow> (SendRefused r, t)
      | Inr p \<Rightarrow>
          (case transport_verdict env p (outbound_format req) t of
             (response, status, (None, t')) \<Rightarrow> (SendHangs, t')
           | (response, status, (Some path, t')) \<Rightarrow>
               (SendTried response (ps_from p, ps_recipient p, ps_signed p)
                  \<lparr>asc_mailbox = ps_mailbox p, asc_from = ps_from p, asc_to = ps_to p,
                   asc_subject = unwrap_or [] (ps_headers p ''Subject''), asc_filepath = unwrap_or [] path,
                   asc_message_id = ps_message_id p, asc_send_status = status\<rparr>, t')))"

definition fire_after_send_hooks ::
  "('w \<Rightarrow> string \<Rightarrow> bytes option) \<Rightarrow> (spawn_request \<Rightarrow> 'w \<Rightarrow> 'w) \<Rightarrow> ('w \<Rightarrow> string) \<Rightarrow> (bytes \<Rightarrow> bytes) \<Rightarrow>
   config \<Rightarrow> send_outcome \<Rightarrow> 'w \<Rightarrow> spawn_request list \<times> 'w" where
  "fire_after_send_hooks read_file spawn clock sha cfg out w =
     (case out of
        SendTried _ _ ctx \<Rightarrow>
          (case lookup_mailbox cfg (asc_mailbox ctx) of
             None \<Rightarrow> ([], w)
           | Some mb \<Rightarrow>
               if after_send_hooks mb = [] then ([], w)
               else execute_after_send read_file spawn clock sha cfg mb ctx w)
      | _ \<Rightarrow> ([], w))"

end
