(* ===== verification/Transport.thy ===== *)
theory Transport
  imports SendHandler Ingest
begin

text \<open>
  Delivery to the recipient's mail servers (\<open>LettreTransport\<close> of \<open>src/transport.rs\<close>).

  The world \<open>'w\<close> is the network. Parameters of \<open>transport_env\<close>: DNS (the functions of
  \<open>src/mx.rs\<close>, which only call the resolver crate), the address parser, the TLS set-up and the SMTP
  client of the crate \<open>lettre\<close>; an IPv4 address is its text. An envelope of one recipient is always
  made, so \<open>Envelope::new\<close> has no error here.
\<close>

text \<open>One call of the SMTP client: where it connects, what it says and what it sends.\<close>

record smtp_call =
  sc_target :: string
  sc_helo :: string
  sc_tls_name :: string
  sc_from :: string
  sc_to :: string
  sc_message :: bytes

record smtp_error =
  sx_text :: string
  sx_permanent :: bool
  sx_timeout :: bool

record 'w transport_env =
  te_enable_ipv6 :: bool
  te_helo_name :: string
  te_resolve_mx :: "'w \<Rightarrow> string \<Rightarrow> string + string list"
  te_resolve_a :: "'w \<Rightarrow> string \<Rightarrow> string + string list"
  te_address :: "string \<Rightarrow> string + string"
  te_tls :: "string \<Rightarrow> string option"
  te_smtp :: "smtp_call \<Rightarrow> 'w \<Rightarrow> (smtp_error + unit) \<times> 'w"

datatype connect_target = Target string | SkipNoIpv4

definition select_connect_target :: "string \<Rightarrow> bool \<Rightarrow> string list \<Rightarrow> connect_target" where
  "select_connect_target host enable_ipv6 ipv4_addrs =
     (if enable_ipv6 then Target host
      else (case ipv4_addrs of a # _ \<Rightarrow> Target a | [] \<Rightarrow> SkipNoIpv4))"

text \<open>\<open>rsplit('<').next()\<close> without the closing brackets.\<close>

definition last_bracketed :: "string \<Rightarrow> string" where
  "last_bracketed s =
     trim_end_matches CHR ''>'' (case rsplit_once CHR ''<'' s of None \<Rightarrow> s | Some (_, r) \<Rightarrow> r)"

definition extract_domain :: "string \<Rightarrow> string + string" where
  "extract_domain recipient =
     (case split_once CHR ''@'' (last_bracketed recipient) of
        None \<Rightarrow> Inl (''Invalid recipient address: '' @ recipient)
      | Some (_, d) \<Rightarrow> Inr (takeWhile (\<lambda>c. c \<noteq> CHR ''@'') d))"

definition classify_lettre_error :: "string \<Rightarrow> smtp_error \<Rightarrow> transport_error" where
  "classify_lettre_error host e =
     (if sx_permanent e then PermanentError (''Rejected by '' @ host @ '': '' @ sx_text e)
      else if sx_timeout e then TempError (''Connection timed out to '' @ host)
      else TempError (host @ '': '' @ sx_text e))"

definition try_deliver ::
  "'w transport_env \<Rightarrow> string \<Rightarrow> string \<Rightarrow> bytes \<Rightarrow> string \<Rightarrow> 'w \<Rightarrow> (transport_error + string) \<times> 'w" where
  "try_deliver env from_addr to_addr message host w =
     (case te_tls env host of
        Some e \<Rightarrow> (Inl (TempError (''TLS configuration error: '' @ e)), w)
      | None \<Rightarrow>
     (case (if te_enable_ipv6 env then Inr [] else te_resolve_a env w host) of
        Inl e \<Rightarrow> (Inl (TempError (host @ '': DNS lookup failed: '' @ e)), w)
      | Inr ipv4_addrs \<Rightarrow>
     (case select_connect_target host (te_enable_ipv6 env) ipv4_addrs of
        SkipNoIpv4 \<Rightarrow> (Inl (TempError (host @ '': no A record (enable_ipv6 = false); skipping'')), w)
      | Target target \<Rightarrow>
         (case te_smtp env \<lparr>sc_target = target, sc_helo = te_helo_name env, sc_tls_name = host,
                  sc_from = from_addr, sc_to = to_addr, sc_message = message\<rparr> w of
            (Inl e, w') \<Rightarrow> (Inl (classify_lettre_error host e), w')
          | (Inr _, w') \<Rightarrow> (Inr host, w')))))"

fun deliver_loop ::
  "string \<Rightarrow> (string \<Rightarrow> 'w \<Rightarrow> (transport_error + string) \<times> 'w) \<Rightarrow> string list \<Rightarrow> bool \<Rightarrow> string list \<Rightarrow> 'w \<Rightarrow>
   (transport_error + string) \<times> 'w" where
  "deliver_loop domain deliver errors saw_permanent [] w =
     (let msg = ''All MX servers for '' @ domain @ '' unreachable: '' @ join_with ''; '' errors
      in (Inl (if saw_permanent then PermanentError msg else TempError msg), w))"
| "deliver_loop domain deliver errors saw_permanent (host # hosts) w =
     (case deliver host w of
        (Inr server, w') \<Rightarrow> (Inr server, w')
      | (Inl (PermanentError e), w') \<Rightarrow>
          deliver_loop domain deliver (errors @ [host @ '': '' @ e]) True hosts w'
      | (Inl (TempError e), w') \<Rightarrow>
          deliver_loop domain deliver (errors @ [host @ '': '' @ e]) saw_permanent hosts w')"

definition deliver_across_mx ::
  "string \<Rightarrow> string list \<Rightarrow> (string \<Rightarrow> 'w \<Rightarrow> (transport_error + string) \<times> 'w) \<Rightarrow> 'w \<Rightarrow>
   (transport_error + string) \<times> 'w" where
  "deliver_across_mx domain mx_hosts deliver w = deliver_loop domain deliver [] False mx_hosts w"

text \<open>The sender as the transport reads it from the whole \<open>From\<close> header.\<close>

definition sender_address :: "'w transport_env \<Rightarrow> string \<Rightarrow> string + string" where
  "sender_address env sender =
     (case extract_domain sender of
        Inl e \<Rightarrow> Inl e
      | Inr _ \<Rightarrow>
          (case te_address env (last_bracketed sender) of
             Inl e \<Rightarrow> Inl (''Invalid sender address '' @ quote sender @ '': '' @ e)
           | Inr a \<Rightarrow> Inr a))"

definition lettre_send ::
  "'w transport_env \<Rightarrow> string \<Rightarrow> string \<Rightarrow> bytes \<Rightarrow> 'w \<Rightarrow> (transport_error + string) \<times> 'w" where
  "lettre_send env sender recipient message w =
     (case extract_domain recipient of
        Inl e \<Rightarrow> (Inl (PermanentError e), w)
      | Inr domain \<Rightarrow>
     (case te_resolve_mx env w domain of
        Inl e \<Rightarrow> (Inl (TempError (''DNS failure for '' @ domain @ '': '' @ e)), w)
      | Inr mx_hosts \<Rightarrow>
     (case sender_address env sender of
        Inl e \<Rightarrow> (Inl (PermanentError e), w)
      | Inr from_addr \<Rightarrow>
     (case te_address env recipient of
        Inl e \<Rightarrow> (Inl (PermanentError (''Invalid recipient address '' @ quote recipient @ '': '' @ e)), w)
      | Inr to_addr \<Rightarrow> deliver_across_mx domain mx_hosts (try_deliver env from_addr to_addr message) w))))"

section \<open>Which servers are asked\<close>

text \<open>
  The reference: the servers asked in order, each with its verdict, up to the first that takes the
  mail.
\<close>

fun asked :: "(string \<Rightarrow> 'w \<Rightarrow> (transport_error + string) \<times> 'w) \<Rightarrow> string list \<Rightarrow> 'w \<Rightarrow>
    (string \<times> (transport_error + string)) list \<times> 'w" where
  "asked deliver [] w = ([], w)"
| "asked deliver (host # hosts) w =
     (case deliver host w of
        (Inr server, w') \<Rightarrow> ([(host, Inr server)], w')
      | (Inl e, w') \<Rightarrow> (case asked deliver hosts w' of (vs, w'') \<Rightarrow> ((host, Inl e) # vs, w'')))"

definition refused :: "string \<times> (transport_error + string) \<Rightarrow> bool" where
  "refused v \<longleftrightarrow> (case snd v of Inl _ \<Rightarrow> True | Inr _ \<Rightarrow> False)"

definition rejected :: "string \<times> (transport_error + string) \<Rightarrow> bool" where
  "rejected v \<longleftrightarrow> (case snd v of Inl (PermanentError _) \<Rightarrow> True | _ \<Rightarrow> False)"

lemma verdict_simps [simp]:
  "refused (h, Inl e)" "\<not> refused (h, Inr s)" "rejected (h, Inl (PermanentError m))" "\<not> rejected (h, Inl (TempError m))"
  by (simp_all add: refused_def rejected_def)

lemma asked_shape:
  "asked deliver hosts w = (vs, w') \<Longrightarrow> map fst vs = take (length vs) hosts \<and> list_all refused (butlast vs)"
proof (induction hosts arbitrary: w w' vs)
  case (Cons h hosts)
  obtain v w1 vs1 w2 where v: "deliver h w = (v, w1)" "asked deliver hosts w1 = (vs1, w2)" by fastforce
  with Cons.IH [OF v(2)] Cons.prems show ?case
    by (cases v; cases "vs1 = []") auto
qed simp

definition explains :: "bool \<Rightarrow> string list \<Rightarrow> (string \<times> (transport_error + string)) list \<Rightarrow> transport_error + string \<Rightarrow> bool" where
  "explains sp hosts vs answer \<longleftrightarrow>
     (case answer of
        Inr server \<Rightarrow> vs \<noteq> [] \<and> snd (last vs) = Inr server
      | Inl e \<Rightarrow> map fst vs = hosts \<and> list_all refused vs \<and>
          (case e of PermanentError _ \<Rightarrow> sp \<or> list_ex rejected vs | TempError _ \<Rightarrow> \<not> sp \<and> \<not> list_ex rejected vs))"

lemma explains_Cons:
  "explains (sp \<or> rejected (h, Inl e)) hosts vs answer \<Longrightarrow> explains sp (h # hosts) ((h, Inl e) # vs) answer"
  by (auto simp: explains_def split: sum.splits transport_error.splits)

lemma deliver_loop_asked:
  "asked deliver hosts w = (vs, w1) \<Longrightarrow> deliver_loop domain deliver errors sp hosts w = (answer, w2) \<Longrightarrow>
    w2 = w1 \<and> explains sp hosts vs answer"
proof (induction hosts arbitrary: errors sp w vs)
  case (Cons h hosts)
  obtain v w' vs' w'' where v: "deliver h w = (v, w')" "asked deliver hosts w' = (vs', w'')" by fastforce
  show ?case
  proof (cases v)
    case (Inl e)
    with Cons.prems v have vs: "vs = (h, Inl e) # vs'" "w'' = w1" by auto
    have "w2 = w1 \<and> explains (sp \<or> rejected (h, Inl e)) hosts vs' answer"
      using Cons.IH v(2) Cons.prems(2) v(1) Inl vs(2) by (cases e) (fastforce simp: rejected_def)+
    with vs explains_Cons show ?thesis by blast
  qed (use Cons.prems v in \<open>auto simp: explains_def\<close>)
qed (auto simp: Let_def explains_def)


section \<open>What is dialed and said\<close>

text \<open>A world that keeps the calls made.\<close>

definition records_calls :: "'w transport_env \<Rightarrow> ('w \<Rightarrow> smtp_call list) \<Rightarrow> bool" where
  "records_calls env calls \<longleftrightarrow> (\<forall>c w. calls (snd (te_smtp env c w)) = calls w @ [c])"

definition call_ok :: "'w transport_env \<Rightarrow> bytes \<Rightarrow> smtp_call \<Rightarrow> bool" where
  "call_ok env message c \<longleftrightarrow> sc_helo c = te_helo_name env \<and> sc_message c = message \<and>
     (if te_enable_ipv6 env then sc_target c = sc_tls_name c
      else \<exists>w addrs. te_resolve_a env w (sc_tls_name c) = Inr (sc_target c # addrs))"

lemma try_deliver_calls:
  assumes "records_calls env calls"
  shows "\<exists>cs. calls (snd (try_deliver env a b message host w)) = calls w @ cs \<and> list_all (call_ok env message) cs \<and>
    list_all (\<lambda>c. sc_tls_name c = host \<and> sc_from c = a \<and> sc_to c = b) cs"
proof -
  have call: "calls (snd (case te_smtp env c w of (Inl e, w') \<Rightarrow> (Inl (f e), w') | (Inr u, w') \<Rightarrow> (Inr v, w'))) = calls w @ [c]" for c f v
    using assms by (auto simp: records_calls_def split: prod.splits sum.splits dest: arg_cong [where f = "\<lambda>x. calls (snd x)"])
  show ?thesis
    by (auto simp: try_deliver_def select_connect_target_def call call_ok_def split: option.splits sum.splits list.splits)
qed

lemma deliver_loop_calls:
  assumes "\<And>host w. \<exists>cs. calls (snd (deliver host w)) = calls w @ cs \<and> list_all P cs"
  shows "\<exists>cs. calls (snd (deliver_loop domain deliver errors sp hosts w)) = calls w @ cs \<and> list_all P cs"
proof (induction hosts arbitrary: errors sp w)
  case (Cons h hosts)
  obtain v w1 where v: "deliver h w = (v, w1)" by fastforce
  from assms [of h w] v obtain cs where cs: "calls w1 = calls w @ cs" "list_all P cs" by auto
  show ?case
  proof (cases v)
    case (Inl e)
    have "\<exists>cs'. calls (snd (deliver_loop domain deliver errors sp (h # hosts) w)) = calls w1 @ cs' \<and> list_all P cs'"
      using v Inl Cons.IH by (cases e) simp_all
    with cs show ?thesis by (metis append_assoc list_all_append)
  qed (use v cs in auto)
qed (simp add: Let_def)

text \<open>
  every call a delivery makes introduces itself by the configured name, carries the signed
  message unchanged from the address of the sender to the one of the recipient, and, unless IPv6 is
  enabled, dials the first IPv4 address of the server it is for.
\<close>

theorem calls_follow_the_settings:
  assumes "records_calls env calls"
  shows "\<exists>cs. calls (snd (lettre_send env sender recipient message w)) = calls w @ cs \<and>
    list_all (\<lambda>c. call_ok env message c \<and> sender_address env sender = Inr (sc_from c) \<and>
      te_address env recipient = Inr (sc_to c)) cs"
proof (cases "extract_domain recipient")
  case dom: (Inr domain)
  show ?thesis
  proof (cases "te_resolve_mx env w domain")
    case mx: (Inr hosts)
    show ?thesis
    proof (cases "sender_address env sender")
      case a: (Inr a)
      show ?thesis
      proof (cases "te_address env recipient")
        case b: (Inr b)
        have "\<exists>cs. calls (snd (try_deliver env a b message host w)) = calls w @ cs \<and>
            list_all (\<lambda>c. call_ok env message c \<and> Inr a = (Inr (sc_from c) :: string + string) \<and> Inr b = (Inr (sc_to c) :: string + string)) cs"
          for host w using try_deliver_calls [OF assms, of a b message host w] by (fastforce simp: list_all_iff)
        from deliver_loop_calls [of calls "try_deliver env a b message", OF this] show ?thesis
          by (simp add: lettre_send_def deliver_across_mx_def dom mx a b)
      qed (simp add: lettre_send_def dom mx a)
    qed (simp add: lettre_send_def dom mx)
  qed (simp add: lettre_send_def dom)
qed (simp add: lettre_send_def)

text \<open>
  the sender's header is read twice and differently: with anything but closing brackets after
  the bracketed address, as in \<open>Jane <jane@d> (work)\<close>, the daemon's check finds the address, but
  the transport takes the rest for a part of it, and no server is asked.
\<close>

theorem comment_after_sender_undeliverable:
  assumes "CHR ''<'' \<notin> set (addr @ rest)" "rest \<noteq> []" "last rest \<noteq> CHR ''>''" "CHR ''>'' \<notin> set addr"
    and "CHR '','' \<notin> set (name @ addr @ rest)" "CHR ''@'' \<in> set (trim addr)"
    and sender: "sender = name @ CHR ''<'' # addr @ CHR ''>'' # rest"
    and plain: "plain_byte (hd sender)" "plain_byte (last sender)"
    and parser: "\<And>s. CHR ''>'' \<in> set s \<Longrightarrow> \<exists>e. te_address env s = Inl e"
    and reach: "extract_domain recipient = Inr domain" "te_resolve_mx env w domain = Inr hosts"
  shows "extract_bare_address sender = Some (trim addr) \<and>
    (\<exists>e. lettre_send env sender recipient message w = (Inl (PermanentError e), w))"
proof
  have last: "rsplit_once CHR ''<'' sender = Some (name, addr @ CHR ''>'' # rest)"
    using rsplit_once_append [of "CHR ''<''" "addr @ CHR ''>'' # rest" name] assms(1) by (simp add: sender)
  have tw: "takeWhile (\<lambda>c. c \<noteq> CHR '','') sender = sender"
    using assms(5) by (auto simp: sender takeWhile_eq_all_conv)
  have "trim sender = sender"
    using plain by (intro trim_plain_ends) (auto simp: sender)
  moreover have "rfind_char CHR ''<'' sender = Some (length name)"
    using assms(1) by (simp add: sender rfind_char_append)
  moreover have "takeWhile (\<lambda>c. c \<noteq> CHR ''>'') (drop (Suc (length name)) sender) = addr"
    using assms(4) by (simp add: sender takeWhile_tail) metis
  moreover have "sender \<noteq> []" "trim addr \<noteq> []" using assms(6) by (auto simp: sender)
  ultimately show "extract_bare_address sender = Some (trim addr)"
    unfolding extract_bare_address_def tw using assms(6) by (simp add: Let_def)
  have "last_bracketed sender = addr @ CHR ''>'' # rest"
    using assms(2,3) by (simp add: last_bracketed_def last trim_end_matches_id)
  then have "\<exists>e. sender_address env sender = Inl e"
    using parser [of "addr @ CHR ''>'' # rest"] by (auto simp: sender_address_def split: sum.splits)
  with reach show "\<exists>e. lettre_send env sender recipient message w = (Inl (PermanentError e), w)"
    by (auto simp: lettre_send_def)
qed

section \<open>Witnesses\<close>

definition demo_transport :: "smtp_call list transport_env" where
  "demo_transport = \<lparr>te_enable_ipv6 = False, te_helo_name = ''d.io'', te_resolve_mx = (\<lambda>_ d. Inr [''m1.'' @ d, ''m2.'' @ d]),
     te_resolve_a = (\<lambda>_ host. Inr (if take 2 host = ''m1'' then [] else [''10.0.0.2''])),
     te_address = (\<lambda>s. if CHR ''>'' \<in> set s then Inl ''invalid'' else Inr s), te_tls = (\<lambda>_. None),
     te_smtp = (\<lambda>c w. (Inr (), w @ [c]))\<rparr>"

theorem calls_follow_the_settings_witness:
  "\<exists>cs. snd (lettre_send demo_transport ''a@d.io'' ''b@x.io'' ''m'' []) = cs \<and>
    list_all (\<lambda>c. sc_helo c = ''d.io'' \<and> sc_message c = ''m'') cs \<and> map sc_target cs = [''10.0.0.2'']"
proof -
  have "records_calls demo_transport id" by (simp add: records_calls_def demo_transport_def)
  from calls_follow_the_settings [OF this, of "''a@d.io''" "''b@x.io''" "''m''" "[]"]
  have "list_all (\<lambda>c. sc_helo c = ''d.io'' \<and> sc_message c = ''m'') (snd (lettre_send demo_transport ''a@d.io'' ''b@x.io'' ''m'' []))"
    by (auto simp: call_ok_def list_all_iff) (simp add: demo_transport_def)
  moreover have "map sc_target (snd (lettre_send demo_transport ''a@d.io'' ''b@x.io'' ''m'' [])) = [''10.0.0.2'']"
    by code_simp
  ultimately show ?thesis by simp
qed

theorem comment_after_sender_undeliverable_witness:
  "\<exists>e. extract_bare_address ''Al <a@d.io> (work)'' = Some ''a@d.io'' \<and>
    lettre_send demo_transport ''Al <a@d.io> (work)'' ''b@x.io'' ''m'' [] = (Inl (PermanentError e), [])"
proof -
  have t: "trim ''a@d.io'' = ''a@d.io''" by code_simp
  have d: "extract_domain ''b@x.io'' = Inr ''x.io''" by code_simp
  show ?thesis
    using comment_after_sender_undeliverable [of "''a@d.io''" "'' (work)''" "''Al ''" "''Al <a@d.io> (work)''" demo_transport
        "''b@x.io''" "''x.io''" "[]" "[''m1.x.io'', ''m2.x.io'']" "''m''"] d
    by (simp add: t plain_byte_def code_def demo_transport_def)
qed

end
