(* ===== verification/Compose.thy ===== *)
theory Compose
  imports WireAssembly WireCodec Paths
begin

text \<open>
  What \<open>aimx send\<close> and the MCP tools submit (\<open>src/send.rs\<close>: \<open>compose_request\<close>, \<open>build_request\<close> and
  their helpers). \<open>compose_env\<close> holds the file system as far as it is read, the MIME guess and
  base64 crates, the two UUIDs and the date of one call. Attachments are read when their part is
  written; the environment is the same throughout the call. \<open>escape_filename\<close> and
  \<open>normalize_crlf\<close> are word for word those of \<open>src/wire_assembly.rs\<close>.
\<close>

record send_args =
  sa_from :: string
  sa_to :: string
  sa_subject :: string
  sa_body :: string
  sa_reply_to :: "string option"
  sa_references :: "string option"
  sa_attachments :: "string list"
  sa_text_only :: bool
  sa_html_body :: "string option"

record compose_env =
  co_exists :: "string \<Rightarrow> bool"
  co_is_file :: "string \<Rightarrow> bool"
  co_read :: "string \<Rightarrow> string + bytes"
  co_mime :: "string \<Rightarrow> string"
  co_enc :: "bytes \<Rightarrow> string"
  co_uuid :: string
  co_boundary_uuid :: string
  co_date :: string

section \<open>Header values\<close>

definition sanitize_header_value :: "string \<Rightarrow> string" where
  "sanitize_header_value v = filter (\<lambda>c. c \<noteq> CR \<and> c \<noteq> LF) v"

definition validate_header_value :: "string \<Rightarrow> string \<Rightarrow> string + unit" where
  "validate_header_value name v =
     (if CR \<in> set v \<or> LF \<in> set v
      then Inl (''Header '' @ [CHR 0x27] @ name @ [CHR 0x27] @
        '' contains CRLF characters. Possible header injection'')
      else Inr ())"

definition normalize_crlf :: "string \<Rightarrow> string" where
  "normalize_crlf text = replace_all [LF] [CR, LF] (replace_all [CR] [LF] (replace_all [CR, LF] [LF] text))"

definition normalize_message_id :: "string \<Rightarrow> string" where
  "normalize_message_id id' =
     (let trimmed = trim id' in
      if starts_with trimmed ''<'' \<and> ends_with trimmed ''>'' then trimmed else ''<'' @ trimmed @ ''>'')"

definition build_references :: "string option \<Rightarrow> string \<Rightarrow> string" where
  "build_references original_references original_message_id =
     (let mid = normalize_message_id original_message_id in
      case original_references of
        Some refs \<Rightarrow> if trim refs \<noteq> [] then trim refs @ '' '' @ mid else mid
      | None \<Rightarrow> mid)"

text \<open>The lines of the reply, each without its line end.\<close>

definition reply_headers :: "send_args \<Rightarrow> string list" where
  "reply_headers args =
     (case sa_reply_to args of
        None \<Rightarrow> []
      | Some reply_to \<Rightarrow>
          (let reply_id = normalize_message_id (sanitize_header_value reply_to);
               refs = (case sa_references args of
                         Some r \<Rightarrow> if trim r \<noteq> [] then sanitize_header_value r else reply_id
                       | None \<Rightarrow> reply_id)
           in [''In-Reply-To: '' @ reply_id, ''References: '' @ refs]))"

definition common_headers :: "send_args \<Rightarrow> string \<Rightarrow> string \<Rightarrow> string list" where
  "common_headers args date message_id =
     [''From: '' @ sanitize_header_value (sa_from args), ''To: '' @ sanitize_header_value (sa_to args),
      ''Subject: '' @ sanitize_header_value (sa_subject args), ''Date: '' @ date, ''Message-ID: '' @ message_id] @
     reply_headers args @ [''MIME-Version: 1.0'']"

definition write_common_headers :: "send_args \<Rightarrow> string \<Rightarrow> string \<Rightarrow> string + string" where
  "write_common_headers args date message_id =
     (case validate_header_value ''From'' (sa_from args) of Inl e \<Rightarrow> Inl e | Inr _ \<Rightarrow>
     (case validate_header_value ''To'' (sa_to args) of Inl e \<Rightarrow> Inl e | Inr _ \<Rightarrow>
     (case validate_header_value ''Subject'' (sa_subject args) of Inl e \<Rightarrow> Inl e | Inr _ \<Rightarrow>
        Inr (concat (map crlf_line (common_headers args date message_id))))))"

text \<open>\<open>from.split('@').nth(1).unwrap_or("localhost")\<close>\<close>

definition message_id_domain :: "string \<Rightarrow> string" where
  "message_id_domain from' =
     (case split_once CHR ''@'' from' of
        None \<Rightarrow> ''localhost''
      | Some (_, r) \<Rightarrow> (case split_once CHR ''@'' r of None \<Rightarrow> r | Some (d, _) \<Rightarrow> d))"

definition message_id_of :: "compose_env \<Rightarrow> send_args \<Rightarrow> string" where
  "message_id_of env args = ''<'' @ co_uuid env @ ''@'' @ message_id_domain (sanitize_header_value (sa_from args)) @ ''>''"

section \<open>Attachments\<close>

fun validate_attachments :: "compose_env \<Rightarrow> string list \<Rightarrow> string + unit" where
  "validate_attachments env [] = Inr ()"
| "validate_attachments env (p # ps) =
     (if \<not> co_exists env p then Inl (''Attachment file not found: '' @ p)
      else if \<not> co_is_file env p then Inl (''Attachment path is not a file: '' @ p)
      else validate_attachments env ps)"

fun encoded_lines :: "nat \<Rightarrow> string \<Rightarrow> string list" where
  "encoded_lines n s = (if s = [] \<or> n = 0 then [] else take n s # encoded_lines n (drop n s))"

declare encoded_lines.simps [simp del]

text \<open>A chunk that is not UTF-8 would be left empty.\<close>

definition encoded_block :: "string \<Rightarrow> string" where
  "encoded_block encoded = concat (map (\<lambda>l. crlf_line (if valid_utf8 l then l else [])) (encoded_lines 76 encoded))"

definition attachment_name :: "string \<Rightarrow> string" where
  "attachment_name path =
     escape_filename (case file_name path of Some n \<Rightarrow> if valid_utf8 n then n else ''attachment'' | None \<Rightarrow> ''attachment'')"

definition part_headers :: "string \<Rightarrow> string \<Rightarrow> string list" where
  "part_headers content_type safe_name =
     [''Content-Type: '' @ content_type @ ''; name='' @ quoted safe_name,
      ''Content-Disposition: attachment; filename='' @ quoted safe_name, ''Content-Transfer-Encoding: base64'']"

definition write_attachment :: "compose_env \<Rightarrow> string \<Rightarrow> string \<Rightarrow> bytes \<Rightarrow> string" where
  "write_attachment env boundary path file_data =
     crlf_line (''--'' @ boundary) @ concat (map crlf_line (part_headers (co_mime env path) (attachment_name path))) @
     crlf_line [] @ encoded_block (co_enc env file_data)"

fun write_attachments_loop :: "compose_env \<Rightarrow> string \<Rightarrow> string list \<Rightarrow> string + string" where
  "write_attachments_loop env boundary [] = Inr []"
| "write_attachments_loop env boundary (path # paths) =
     (case co_read env path of
        Inl e \<Rightarrow> Inl e
      | Inr file_data \<Rightarrow>
          (case write_attachments_loop env boundary paths of
             Inl e \<Rightarrow> Inl e
           | Inr rest \<Rightarrow> Inr (write_attachment env boundary path file_data @ rest)))"

section \<open>The submission\<close>

definition text_plain_part :: "string \<Rightarrow> string \<Rightarrow> string" where
  "text_plain_part boundary normalized_body =
     crlf_line (''--'' @ boundary) @ crlf_line ''Content-Type: text/plain; charset=utf-8'' @ crlf_line [] @
     crlf_line normalized_body"

definition compose_request :: "compose_env \<Rightarrow> send_args \<Rightarrow> string + bytes" where
  "compose_request env args =
     (case validate_attachments env (sa_attachments args) of
        Inl e \<Rightarrow> Inl e
      | Inr _ \<Rightarrow>
     (case write_common_headers args (co_date env) (message_id_of env args) of
        Inl e \<Rightarrow> Inl e
      | Inr common \<Rightarrow>
          if sa_attachments args = []
          then Inr (common @ crlf_line [] @ crlf_line (normalize_crlf (sa_body args)))
          else
           (let boundary = ''aimx-'' @ co_boundary_uuid env in
            case write_attachments_loop env boundary (sa_attachments args) of
              Inl e \<Rightarrow> Inl e
            | Inr parts \<Rightarrow>
                Inr (common @ crlf_line (''Content-Type: multipart/mixed; boundary='' @ quoted boundary) @ crlf_line [] @
                  text_plain_part boundary (normalize_crlf (sa_body args)) @ parts @
                  crlf_line (''--'' @ boundary @ ''--'')))))"

definition build_request :: "compose_env \<Rightarrow> send_args \<Rightarrow> string + send_request" where
  "build_request env args =
     (case compose_request env args of
        Inl e \<Rightarrow> Inl e
      | Inr message \<Rightarrow>
          Inr \<lparr>sr_body = message, sr_text_only = sa_text_only args,
               sr_html_body = map_option normalize_crlf (sa_html_body args)\<rparr>)"

end
