(* ===== verification/Client.thy ===== *)
theory Client
  imports WireRoundtrip Compose
begin

text \<open>
  The clients' side of the socket (\<open>src/send.rs\<close>, \<open>src/mcp.rs\<close>): reading the daemon's frames, the
  submissions of each verb, and what \<open>aimx send\<close> prints and exits with. \<open>dbg\<close> is Rust's
  \<open>{:?}\<close> of a string. A client connects, writes one frame, shuts its half down and reads to the
  end: \<open>exchange\<close> is that, as a function of the frame and of the state of everything else.
\<close>

section \<open>Reading a frame\<close>

datatype submit_outcome = SubmitOk string | SubmitErr err_code string | SubmitMalformed string

datatype mark_outcome = MarkOk | MarkErr err_code string | MarkMalformed string

definition first_line :: "string \<Rightarrow> string" where
  "first_line text = (case lines text of [] \<Rightarrow> [] | l # _ \<Rightarrow> trim_end_matches CR l)"

text \<open>Both readers open alike: the text, its first line and what follows the version on it.\<close>

definition response_rest :: "(string \<Rightarrow> string) \<Rightarrow> bytes \<Rightarrow> string + string" where
  "response_rest dbg buf =
     (if \<not> valid_utf8 buf then Inl ''response is not UTF-8''
      else if first_line buf = [] then Inl ''empty response from daemon''
      else case strip_prefix (first_line buf) ''AIMX/1 '' of
          None \<Rightarrow> Inl (''unexpected response: '' @ dbg (first_line buf))
        | Some rest \<Rightarrow> Inr rest)"

text \<open>\<open>header_code\<close> of \<open>src/send.rs\<close> and \<open>parse_ack_code_header\<close> of \<open>src/mcp.rs\<close>.\<close>

fun header_code :: "string list \<Rightarrow> err_code option" where
  "header_code [] = None"
| "header_code (l # ls) =
     (let line = trim_end_matches CR l in
      if line = [] then None
      else case strip_prefix line ''Code: '' of
          Some v \<Rightarrow> err_code_from_str (trim v)
        | None \<Rightarrow>
            (case strip_prefix line ''Code:'' of
               Some v \<Rightarrow> err_code_from_str (trim v)
             | None \<Rightarrow> header_code ls))"

text \<open>The body of an \<open>ERR\<close> line: the header's code counts, and the line's without one.\<close>

definition err_words :: "string \<Rightarrow> string \<times> string" where
  "err_words err_body = (case split_once CHR '' '' err_body of None \<Rightarrow> (err_body, []) | Some p \<Rightarrow> p)"

definition parse_err :: "(string \<Rightarrow> string) \<Rightarrow> string \<Rightarrow> string \<Rightarrow> string + err_code \<times> string" where
  "parse_err dbg text err_body =
     (let (code_str, reason) = err_words err_body in
      case (header_code (tl (lines text)), err_code_from_str code_str) of
        (Some h, _) \<Rightarrow> Inr (h, trim reason)
      | (None, Some inline) \<Rightarrow> Inr (inline, trim reason)
      | (None, None) \<Rightarrow> Inl (''unknown ERR code '' @ dbg code_str @ '' in response''))"

definition parse_response_line :: "(string \<Rightarrow> string) \<Rightarrow> bytes \<Rightarrow> submit_outcome" where
  "parse_response_line dbg buf =
     (case response_rest dbg buf of
        Inl e \<Rightarrow> SubmitMalformed e
      | Inr rest \<Rightarrow>
          (case strip_prefix rest ''OK '' of
             Some message_id \<Rightarrow> SubmitOk (trim message_id)
           | None \<Rightarrow>
               (case strip_prefix rest ''ERR '' of
                  Some err_body \<Rightarrow>
                    (case parse_err dbg buf err_body of
                       Inl e \<Rightarrow> SubmitMalformed e
                     | Inr (ec, reason) \<Rightarrow> SubmitErr ec reason)
                | None \<Rightarrow> SubmitMalformed (''unexpected response: '' @ dbg (first_line buf)))))"

definition parse_ack_response :: "(string \<Rightarrow> string) \<Rightarrow> bytes \<Rightarrow> mark_outcome" where
  "parse_ack_response dbg buf =
     (case response_rest dbg buf of
        Inl e \<Rightarrow> MarkMalformed e
      | Inr rest \<Rightarrow>
          if rest = ''OK'' then MarkOk
          else if starts_with rest ''OK '' then MarkMalformed (''unexpected payload after OK: '' @ dbg (first_line buf))
          else case strip_prefix rest ''ERR '' of
               Some err_body \<Rightarrow>
                 (case parse_err dbg buf err_body of
                    Inl e \<Rightarrow> MarkMalformed e
                  | Inr (ec, reason) \<Rightarrow> MarkErr ec reason)
             | None \<Rightarrow> MarkMalformed (''unexpected response: '' @ dbg (first_line buf)))"

text \<open>The last \<open>Content-Length\<close> counts.\<close>

fun content_length :: "(string \<Rightarrow> string) \<Rightarrow> nat option \<Rightarrow> string list \<Rightarrow> string + nat option" where
  "content_length dbg len [] = Inr len"
| "content_length dbg len (l # ls) =
     (let line = trim_end_matches CR l in
      case strip_prefix line ''Content-Length:'' of
        None \<Rightarrow> content_length dbg len ls
      | Some v \<Rightarrow>
          (case parse_usize (trim v) of
             None \<Rightarrow> Inl (''invalid Content-Length: '' @ dbg line)
           | Some n \<Rightarrow> content_length dbg (Some n) ls))"

text \<open>The answer to MAILBOX-LIST and HOOK-LIST: the JSON text or the error to show.\<close>

definition decode_ok_body :: "(string \<Rightarrow> string) \<Rightarrow> string list \<Rightarrow> bytes \<Rightarrow> string + string" where
  "decode_ok_body dbg headers body_bytes =
     (case content_length dbg None headers of
        Inl e \<Rightarrow> Inl e
      | Inr None \<Rightarrow> Inl ''missing Content-Length on OK response''
      | Inr (Some n) \<Rightarrow>
          if length body_bytes < n
          then Inl (''truncated body: expected '' @ show_nat n @ '' bytes, got '' @ show_nat (length body_bytes))
          else if valid_utf8 (take n body_bytes) then Inr (take n body_bytes) else Inl ''JSON body is not UTF-8'')"

definition list_error :: "string \<Rightarrow> string" where
  "list_error err_body =
     (let (code_str, reason) = err_words err_body in
      ''['' @ (case err_code_from_str code_str of Some c \<Rightarrow> err_code_as_str c | None \<Rightarrow> code_str) @ ''] '' @ trim reason)"

definition header_end :: "string \<Rightarrow> nat option" where
  "header_end text =
     (case find_subslice text [LF, LF] of Some n \<Rightarrow> Some n | None \<Rightarrow> find_subslice text [CR, LF, CR, LF])"

definition decode_mailbox_list_response :: "(string \<Rightarrow> string) \<Rightarrow> bytes \<Rightarrow> string + string" where
  "decode_mailbox_list_response dbg buf =
     (if \<not> valid_utf8 buf then Inl ''response is not UTF-8''
      else case header_end buf of
          None \<Rightarrow> Inl (''malformed response (no header terminator): '' @ dbg buf)
        | Some n \<Rightarrow>
            (let body_start = (if starts_with (drop n buf) [CR, LF, CR, LF] then n + 4 else n + 2) in
             case lines (take n buf) of
               [] \<Rightarrow> Inl ''empty response from daemon''
             | l # headers \<Rightarrow>
                 (let status_line = trim_end_matches CR l in
                  case strip_prefix status_line ''AIMX/1 '' of
                    None \<Rightarrow> Inl (''unexpected response: '' @ dbg status_line)
                  | Some rest \<Rightarrow>
                      if rest = ''OK'' then decode_ok_body dbg headers (drop body_start buf)
                      else case strip_prefix rest ''ERR '' of
                          Some err_body \<Rightarrow> Inl (list_error err_body)
                        | None \<Rightarrow> Inl (''unexpected response: '' @ dbg status_line))))"

section \<open>Submitting\<close>

datatype io_kind = NotFoundKind | ConnectionRefusedKind | PermissionDeniedKind | OtherKind

type_synonym io_error = "io_kind \<times> string"

type_synonym 's exchange = "bytes \<Rightarrow> 's \<Rightarrow> (io_error + bytes) \<times> 's"

record client_env =
  cl_dbg :: "string \<Rightarrow> string"
  cl_socket :: string

definition is_socket_missing :: "io_error \<Rightarrow> bool" where
  "is_socket_missing e \<longleftrightarrow> fst e \<in> {NotFoundKind, ConnectionRefusedKind, PermissionDeniedKind}"

definition connect_failed :: "client_env \<Rightarrow> io_error \<Rightarrow> string" where
  "connect_failed env e = ''Failed to connect to aimx daemon at '' @ cl_socket env @ '': '' @ snd e"

definition daemon_not_running :: string where
  "daemon_not_running =
     ''aimx daemon not running. Start with '' @ [CHR 0x27] @ ''sudo systemctl start aimx'' @ [CHR 0x27]"

datatype fallback = SocketMissing | DaemonSaid string

definition bracketed :: "err_code \<Rightarrow> string \<Rightarrow> string" where
  "bracketed ec reason = ''['' @ err_code_as_str ec @ ''] '' @ reason"

text \<open>
  \<open>submit_mark_request\<close> and the like, then \<open>map_hook_io_result\<close> (which
  \<open>submit_mailbox_crud_via_daemon\<close> repeats): the frame sent, the answer read.
\<close>

definition submit_ack :: "client_env \<Rightarrow> 's exchange \<Rightarrow> bytes \<Rightarrow> 's \<Rightarrow> (io_error + mark_outcome) \<times> 's" where
  "submit_ack env exchange frame s =
     (case exchange frame s of
        (Inl e, s') \<Rightarrow> (Inl e, s')
      | (Inr buf, s') \<Rightarrow> (Inr (parse_ack_response (cl_dbg env) buf), s'))"

fun map_hook_io_result :: "client_env \<Rightarrow> io_error + mark_outcome \<Rightarrow> fallback + unit" where
  "map_hook_io_result env (Inr MarkOk) = Inr ()"
| "map_hook_io_result env (Inr (MarkErr ec reason)) = Inl (DaemonSaid (bracketed ec reason))"
| "map_hook_io_result env (Inr (MarkMalformed reason)) =
     Inl (DaemonSaid (''Malformed response from aimx daemon: '' @ reason))"
| "map_hook_io_result env (Inl e) =
     (if is_socket_missing e then Inl SocketMissing else Inl (DaemonSaid (connect_failed env e)))"

definition submit_mailbox_crud_via_daemon ::
  "client_env \<Rightarrow> 's exchange \<Rightarrow> string \<Rightarrow> bool \<Rightarrow> string option \<Rightarrow> bool \<Rightarrow> 's \<Rightarrow> (fallback + unit) \<times> 's" where
  "submit_mailbox_crud_via_daemon env exchange name create owner force s =
     apfst (map_hook_io_result env) (submit_ack env exchange
       (write_mailbox_crud_request \<lparr>mq_name = name, mq_create = create, mq_owner = owner, mq_force = force\<rparr>) s)"

definition submit_hook_create_via_daemon ::
  "client_env \<Rightarrow> 's exchange \<Rightarrow> string \<Rightarrow> string \<Rightarrow> string option \<Rightarrow> bytes \<Rightarrow> 's \<Rightarrow> (fallback + unit) \<times> 's" where
  "submit_hook_create_via_daemon env exchange mailbox event name body s =
     apfst (map_hook_io_result env) (submit_ack env exchange
       (write_hook_create_request \<lparr>hc_mailbox = mailbox, hc_event = event, hc_name = name, hc_body = body\<rparr>) s)"

definition submit_hook_delete_via_daemon ::
  "client_env \<Rightarrow> 's exchange \<Rightarrow> string \<Rightarrow> 's \<Rightarrow> (fallback + unit) \<times> 's" where
  "submit_hook_delete_via_daemon env exchange name s =
     apfst (map_hook_io_result env) (submit_ack env exchange (write_hook_delete_request \<lparr>hd_name = name\<rparr>) s)"

definition shown :: "fallback + 'a \<Rightarrow> string + 'a" where
  "shown r = (case r of Inl SocketMissing \<Rightarrow> Inl daemon_not_running | Inl (DaemonSaid msg) \<Rightarrow> Inl msg | Inr x \<Rightarrow> Inr x)"

definition submit_mark_via_daemon ::
  "client_env \<Rightarrow> 's exchange \<Rightarrow> string \<Rightarrow> string \<Rightarrow> bool \<Rightarrow> 's \<Rightarrow> (string + unit) \<times> 's" where
  "submit_mark_via_daemon env exchange mailbox id' read s =
     apfst (shown \<circ> map_hook_io_result env) (submit_ack env exchange
       (write_mark_request \<lparr>mr_mailbox = mailbox, mr_id = id', mr_read = read\<rparr>) s)"

text \<open>\<open>submit_mailbox_list_raw\<close> and \<open>submit_hook_list_raw\<close>, for the frame of the one or the other.\<close>

definition submit_list_raw :: "client_env \<Rightarrow> 's exchange \<Rightarrow> bytes \<Rightarrow> 's \<Rightarrow> (fallback + string) \<times> 's" where
  "submit_list_raw env exchange frame s =
     (case exchange frame s of
        (Inl e, s') \<Rightarrow>
          (Inl (if is_socket_missing e then SocketMissing else DaemonSaid (connect_failed env e)), s')
      | (Inr raw, s') \<Rightarrow>
          ((case decode_mailbox_list_response (cl_dbg env) raw of Inl e \<Rightarrow> Inl (DaemonSaid e) | Inr json \<Rightarrow> Inr json), s'))"

definition submit_mailbox_list_via_daemon :: "client_env \<Rightarrow> 's exchange \<Rightarrow> 's \<Rightarrow> (string + string) \<times> 's" where
  "submit_mailbox_list_via_daemon env exchange s = apfst shown (submit_list_raw env exchange write_mailbox_list_request s)"

definition submit_hook_list_via_daemon :: "client_env \<Rightarrow> 's exchange \<Rightarrow> 's \<Rightarrow> (string + string) \<times> 's" where
  "submit_hook_list_via_daemon env exchange s = apfst shown (submit_list_raw env exchange write_hook_list_request s)"

definition submit_request :: "client_env \<Rightarrow> 's exchange \<Rightarrow> send_request \<Rightarrow> 's \<Rightarrow> (io_error + submit_outcome) \<times> 's" where
  "submit_request env exchange req s =
     (case exchange (write_request req) s of
        (Inl e, s') \<Rightarrow> (Inl e, s')
      | (Inr buf, s') \<Rightarrow> (Inr (parse_response_line (cl_dbg env) buf), s'))"

section \<open>The send command\<close>

text \<open>Exit status, standard output and standard error; \<open>error\<close> and \<open>success\<close> color a text.\<close>

definition EXIT_OK :: nat where "EXIT_OK = 0"
definition EXIT_DAEMON_ERR :: nat where "EXIT_DAEMON_ERR = 1"
definition EXIT_CONNECT :: nat where "EXIT_CONNECT = 2"
definition EXIT_MALFORMED :: nat where "EXIT_MALFORMED = 3"

type_synonym console = "nat \<times> string \<times> string"

record terminal =
  tm_error :: "string \<Rightarrow> string"
  tm_success :: "string \<Rightarrow> string"

definition render_root_refusal :: "terminal \<Rightarrow> console" where
  "render_root_refusal tm = (EXIT_CONNECT, [], tm_error tm ''Error:'' @ '' send is a per-user operation, run without sudo'' @ [LF])"

fun render_outcome :: "terminal \<Rightarrow> submit_outcome \<Rightarrow> string \<Rightarrow> console" where
  "render_outcome tm (SubmitOk message_id) from_address =
     (EXIT_OK, message_id @ [LF], tm_success tm (''Email sent.'' @ [LF] @ ''Message-ID: '' @ message_id) @ [LF])"
| "render_outcome tm (SubmitErr ec reason) from_address =
     (EXIT_DAEMON_ERR, [],
      (if ec = EEaccess then tm_error tm ''Error:'' @ '' not authorized: '' @ from_address
       else tm_error tm ''Error'' @ '' ['' @ err_code_as_str ec @ '']: '' @ reason) @ [LF])"
| "render_outcome tm (SubmitMalformed reason) from_address =
     (EXIT_MALFORMED, [], tm_error tm ''Error:'' @ '' malformed response from aimx daemon: '' @ reason @ [LF])"

definition handle_connect_error :: "terminal \<Rightarrow> client_env \<Rightarrow> io_error \<Rightarrow> string" where
  "handle_connect_error tm env e =
     tm_error tm ''Error:'' @
     (if fst e = NotFoundKind
      then '' aimx daemon not running. Check '' @ [CHR 0x27] @ ''systemctl status aimx'' @ [CHR 0x27]
      else '' '' @ connect_failed env e) @ [LF]"

text \<open>
  \<open>run_inner\<close>: \<open>Inl\<close> is the error \<open>main\<close> reports, before anything was submitted.
\<close>

definition run_send ::
  "terminal \<Rightarrow> client_env \<Rightarrow> compose_env \<Rightarrow> 's exchange \<Rightarrow> bool \<Rightarrow> send_args \<Rightarrow> 's \<Rightarrow> (string + console) \<times> 's" where
  "run_send tm env cenv exchange is_root args s =
     (if is_root then (Inr (render_root_refusal tm), s)
      else case build_request cenv args of
          Inl e \<Rightarrow> (Inl e, s)
        | Inr request \<Rightarrow>
            (case submit_request env exchange request s of
               (Inl e, s') \<Rightarrow> (Inr (EXIT_CONNECT, [], handle_connect_error tm env e), s')
             | (Inr outcome, s') \<Rightarrow> (Inr (render_outcome tm outcome (sa_from args)), s')))"

end
