(* ===== verification/MimeFacts.thy ===== *)
theory MimeFacts
  imports WireAssembly
begin

text \<open>
  Properties of the text layer: quoted-printable is decoded to what was encoded and keeps lines
  short, file names survive the header they travel in, and the line endings are canonical.
\<close>

section \<open>Quoted-printable\<close>

lemma hex_value_upper: "n < 16 \<Longrightarrow> hex_value (hex_upper n) = Some n"
  by (auto simp: hex_value_def hex_upper_def is_ascii_digit_def)

lemma hex_upper_code: "n < 16 \<Longrightarrow> 48 \<le> code (hex_upper n) \<and> code (hex_upper n) \<le> 70"
  by (simp add: hex_upper_def)

lemma hex_upper_not_end: "n < 16 \<Longrightarrow> hex_upper n \<noteq> CR \<and> hex_upper n \<noteq> LF"
  using hex_upper_code [of n] by (auto simp: CR_def LF_def code_def)

lemma decode_plain: "b \<noteq> CHR ''='' \<Longrightarrow> decode_quoted_printable (b # r) = b # decode_quoted_printable r"
  by (cases r; cases "tl r") auto

lemma code_nibbles: "code b div 16 < 16" "code b mod 16 < 16"
  using code_less_256 [of b] by (simp_all add: less_mult_imp_div_less)

lemma decode_escape: "decode_quoted_printable (qp_escape b @ r) = b # decode_quoted_printable r"
proof -
  have "char_of (code b div 16 * 16 + code b mod 16) = b" by (simp add: code_def)
  then show ?thesis
    using code_nibbles [of b] hex_upper_not_end by (simp add: qp_escape_def hex_value_upper)
qed

lemma decode_soft_break: "decode_quoted_printable (soft_break @ r) = decode_quoted_printable r"
  by (simp add: soft_break_def)

lemma decode_literal: "\<not> needs_encoding b \<Longrightarrow> decode_quoted_printable (b # r) = b # decode_quoted_printable r"
  by (rule decode_plain) (simp add: needs_encoding_def)

lemma qp_loop_decodes: "decode_quoted_printable (qp_loop col bs @ r) = bs @ decode_quoted_printable r"
  by (induction col bs rule: qp_loop.induct)
    (auto simp: decode_escape decode_soft_break decode_plain decode_literal LF_def CR_def)

text \<open>
  whatever bytes are encoded as quoted-printable, line ends and \<open>=\<close> included, decoding gives
  exactly these bytes back.
\<close>

theorem quoted_printable_roundtrip:
  "decode_quoted_printable (quoted_printable_encode bs) = bs"
  using qp_loop_decodes [of 0 bs "[]"] by (simp add: quoted_printable_encode_def)

text \<open>Every CR stands before an LF.\<close>

fun crlf_only :: "string \<Rightarrow> bool" where
  "crlf_only [] = True"
| "crlf_only (c # s) = ((c = CR \<longrightarrow> (\<exists>t. s = LF # t)) \<and> crlf_only s)"

text \<open>No line has more than \<open>n\<close> bytes, CRs not counted, when \<open>col\<close> bytes stand before it.\<close>

fun fits :: "nat \<Rightarrow> nat \<Rightarrow> string \<Rightarrow> bool" where
  "fits n col [] = True"
| "fits n col (c # s) =
     (if c = LF then fits n 0 s else if c = CR then fits n col s else col < n \<and> fits n (Suc col) s)"


lemma fits_append:
  "CR \<notin> set a \<Longrightarrow> LF \<notin> set a \<Longrightarrow> fits n col (a @ s) \<longleftrightarrow> a = [] \<and> fits n col s \<or> col + length a \<le> n \<and> fits n (col + length a) s"
  by (induction a arbitrary: col) auto

lemma fits_filter: "fits n col s \<Longrightarrow> LF \<notin> set s \<Longrightarrow> col \<le> n \<Longrightarrow> col + length (filter (\<lambda>c. c \<noteq> CR) s) \<le> n"
proof (induction s arbitrary: col)
  case (Cons c s)
  then show ?case using Cons.IH [of col] Cons.IH [of "Suc col"] by (auto split: if_splits)
qed simp

lemma fits_split: "fits n col (l @ LF # r) \<Longrightarrow> LF \<notin> set l \<Longrightarrow> fits n col l \<and> fits n 0 r"
  by (induction l arbitrary: col) (auto split: if_splits)

lemma crlf_only_split: "crlf_only (l @ LF # r) \<Longrightarrow> LF \<notin> set l \<Longrightarrow>
    crlf_only r \<and> (CR \<notin> set l \<or> (\<exists>l'. l = l' @ [CR] \<and> CR \<notin> set l'))"
proof (induction l)
  case (Cons c l)
  then have IH: "crlf_only r \<and> (CR \<notin> set l \<or> (\<exists>l'. l = l' @ [CR] \<and> CR \<notin> set l'))" by simp
  show ?case
  proof (cases "c = CR")
    case True
    with Cons.prems have "l = []" by (cases l) auto
    with True IH show ?thesis by auto
  next
    case False
    with IH show ?thesis by (metis append_Cons set_ConsD)
  qed
qed (auto simp: LF_def CR_def)

lemma crlf_only_no_LF: "crlf_only s \<Longrightarrow> LF \<notin> set s \<Longrightarrow> CR \<notin> set s"
  by (induction s) auto

lemma lines_fit: "crlf_only s \<Longrightarrow> fits n 0 s \<Longrightarrow> list_all (\<lambda>l. length l \<le> n) (lines s)"
proof (induction s rule: lines.induct)
  case (1 s)
  show ?case
  proof (cases "split_once LF s")
    case None
    then have "LF \<notin> set s" by (auto simp: split_once_def dest: dropWhile_until split: list.splits)
    moreover from this 1(2) have "filter (\<lambda>c. c \<noteq> CR) s = s"
      using crlf_only_no_LF by (auto simp: filter_id_conv)
    ultimately have "length s \<le> n" using fits_filter [OF 1(3)] by simp
    with None show ?thesis by (subst lines.simps) simp
  next
    case (Some lr)
    then obtain l r where lr: "split_once LF s = Some (l, r)" by (cases lr) auto
    from split_once_Some [OF lr] have s: "s = l @ LF # r" "LF \<notin> set l" by auto
    from s 1 have f: "fits n 0 l" "fits n 0 r" and c: "crlf_only r"
        "CR \<notin> set l \<or> (\<exists>l'. l = l' @ [CR] \<and> CR \<notin> set l')"
      using fits_split [of n 0 l r] crlf_only_split [of l r] by auto
    have len: "length (filter (\<lambda>c. c \<noteq> CR) l) \<le> n" using fits_filter [OF f(1) s(2)] by simp
    have "length (case strip_suffix l [CR] of None \<Rightarrow> l | Some l' \<Rightarrow> l') \<le> n"
    proof (cases "CR \<in> set l")
      case True
      with c(2) obtain l' where l': "l = l' @ [CR]" "CR \<notin> set l'" by blast
      moreover from l'(2) have "filter (\<lambda>c. c \<noteq> CR) l' = l'" by (auto simp: filter_id_conv)
      ultimately show ?thesis using len by (simp add: strip_suffix_def ends_with_def)
    next
      case False
      then have "filter (\<lambda>c. c \<noteq> CR) l = l" by (auto simp: filter_id_conv)
      with len show ?thesis by (auto simp: strip_suffix_def)
    qed
    with 1(1) [OF lr refl c(1) f(2)] lr show ?thesis by (subst lines.simps) simp
  qed
qed

text \<open>The encoder keeps both.\<close>

lemma qp_escape_bytes: "CR \<notin> set (qp_escape b)" "LF \<notin> set (qp_escape b)" "length (qp_escape b) = 3"
  using hex_upper_not_end [OF code_nibbles(1) [of b]] hex_upper_not_end [OF code_nibbles(2) [of b]]
  by (auto simp: qp_escape_def CR_def LF_def)

lemma qp_loop_fits: "col \<le> 75 \<Longrightarrow> fits 76 col (qp_loop col bs)"
proof (induction col bs rule: qp_loop.induct)
  case (2 col b bs)
  have e: "fits 76 c (qp_escape b @ r) \<longleftrightarrow> c + 3 \<le> 76 \<and> fits 76 (c + 3) r" for c r
    using qp_escape_bytes [of b] fits_append [of "qp_escape b" 76 c r] by auto
  have s: "fits 76 c (soft_break @ r) \<longleftrightarrow> c < 76 \<and> fits 76 0 r" for c r
    by (auto simp: soft_break_def CR_def LF_def)
  from 2 show ?case by (auto simp: e s)
qed simp

lemma crlf_only_append: "CR \<notin> set a \<Longrightarrow> crlf_only (a @ s) = crlf_only s"
  by (induction a) auto

lemma qp_loop_crlf: "crlf_only bs \<Longrightarrow> crlf_only (qp_loop col bs)"
proof (induction col bs rule: qp_loop.induct)
  case (2 col b bs)
  have s: "crlf_only (soft_break @ r) = crlf_only r" for r by (simp add: soft_break_def CR_def LF_def)
  from 2 show ?case
    by (auto simp: s crlf_only_append qp_escape_bytes)
qed simp

lemma replace_char: "replace_all [c] r s = concat (map (\<lambda>d. if d = c then r else [d]) s)"
  by (induction s) (simp_all add: replace_all.simps(2))

lemma normalized_crlf: "crlf_only (normalize_text_to_crlf text)"
proof -
  have "crlf_only (concat (map (\<lambda>d. if d = LF then [CR, LF] else [d]) s))" if "CR \<notin> set s" for s
    using that by (induction s) (auto simp: LF_def CR_def)
  moreover have "CR \<notin> set (concat (map (\<lambda>d. if d = CR then [LF] else [d]) s))" for s
    by (auto simp: LF_def CR_def split: if_splits)
  ultimately show ?thesis by (simp add: normalize_text_to_crlf_def replace_char)
qed

text \<open>
  the quoted-printable form of a text has no line above the 76 bytes RFC 2045 allows, whatever
  the text holds.
\<close>

theorem quoted_printable_lines_short:
  "list_all (\<lambda>l. length l \<le> 76) (lines (quoted_printable_encode (normalize_text_to_crlf text)))"
  unfolding quoted_printable_encode_def
  by (intro lines_fit qp_loop_crlf qp_loop_fits normalized_crlf) simp

section \<open>Well-formed text\<close>

lemma valid_utf8_split:
  assumes "is_ascii_char c"
  shows "valid_utf8 (a @ c # b) \<Longrightarrow> valid_utf8 a \<and> valid_utf8 b"
proof (induction a rule: utf8_chunks.induct)
  case 1
  with assms show ?case by simp
next
  case (2 b0 r)
  then obtain n where n: "utf8_step b0 (r @ c # b) = (True, n)" and v: "valid_utf8 (drop n (b0 # r @ c # b))"
    by (cases "utf8_step b0 (r @ c # b)") (auto simp: valid_utf8_Cons)
  note step = utf8_step_True [OF n]
  have le: "n - 1 \<le> length r"
  proof (rule ccontr)
    assume "\<not> n - 1 \<le> length r"
    then obtain k where "n - 1 - length r = Suc k" by (cases "n - 1 - length r") auto
    then have "c \<in> set (take (n - 1) (r @ c # b))" by simp
    with step(3) cont_byte_not_ascii assms show False by (auto simp: list_all_iff)
  qed
  have pos: "0 < n" using utf8_step_pos [of b0 "r @ c # b"] n by simp
  have "utf8_step b0 (take (n - 1) r @ drop (n - 1) r) = (True, n)"
    using step(1) [of "drop (n - 1) r"] le by simp
  then have m: "utf8_step b0 r = (True, n)" by simp
  have "drop n (b0 # r @ c # b) = drop n (b0 # r) @ c # b" using le pos by (cases n) auto
  with 2(1) [OF m [symmetric]] v have "valid_utf8 (drop n (b0 # r)) \<and> valid_utf8 b" by simp
  with m show ?case by (simp add: valid_utf8_Cons)
qed

text \<open>Putting ASCII text in the place of ASCII characters.\<close>

lemma valid_utf8_subst:
  assumes "\<And>c. \<not> is_ascii_char c \<Longrightarrow> f c = [c]" "\<And>c. is_ascii_char c \<Longrightarrow> is_ascii (f c)"
  shows "valid_utf8 s \<Longrightarrow> valid_utf8 (concat (map f s))"
proof (induction s rule: utf8_chunks.induct)
  case (2 b0 r)
  then obtain n where n: "utf8_step b0 r = (True, n)" and v: "valid_utf8 (drop n (b0 # r))"
    by (cases "utf8_step b0 r") (auto simp: valid_utf8_Cons)
  have pos: "0 < n" using utf8_step_pos [of b0 r] n by simp
  note step = utf8_step_True [OF n]
  have IH: "valid_utf8 (concat (map f (drop n (b0 # r))))" using "2.IH" [OF n [symmetric] v] .
  show ?case
  proof (cases "is_ascii_char b0")
    case True
    with n have "n = 1" by (simp add: utf8_step_def lead_width_def is_ascii_char_def)
    with IH assms(2) [OF True] show ?thesis by (simp add: valid_utf8_is_ascii_append)
  next
    case False
    have id: "concat (map f cs) = cs" if "list_all cont_byte cs" for cs
      using that by (induction cs) (auto simp: assms(1) dest: cont_byte_not_ascii)
    have "concat (map f r) = take (n - 1) r @ concat (map f (drop (n - 1) r))"
      using id [OF step(3)] by (metis append_take_drop_id concat_append map_append)
    moreover have "drop n (b0 # take (n - 1) r @ concat (map f (drop (n - 1) r))) = concat (map f (drop n (b0 # r)))"
      using pos step(2) by (cases n) auto
    ultimately show ?thesis
      using False assms(1) IH step(1) [of "concat (map f (drop (n - 1) r))"] by (simp add: valid_utf8_Cons)
  qed
qed simp

lemma strip_suffix_one: "strip_suffix x [c] = Some l \<Longrightarrow> x = l @ [c]"
  by (cases x rule: rev_cases) (auto simp: strip_suffix_def ends_with_def split: if_splits)

lemma lines_valid: "valid_utf8 s \<Longrightarrow> list_all valid_utf8 (lines s)"
proof (induction s rule: lines.induct)
  case (1 s)
  have ascii: "is_ascii_char LF" "is_ascii_char CR" by (simp_all add: is_ascii_char_def LF_def CR_def code_def)
  show ?case
  proof (cases "split_once LF s")
    case None
    with 1 show ?thesis by (subst lines.simps) simp
  next
    case (Some lr)
    then obtain x r where lr: "split_once LF s = Some (x, r)" by (cases lr) auto
    from split_once_Some [OF lr] 1(2) valid_utf8_split [OF ascii(1), of x r] have v: "valid_utf8 x" "valid_utf8 r" by auto
    moreover have "valid_utf8 (case strip_suffix x [CR] of None \<Rightarrow> x | Some l' \<Rightarrow> l')"
    proof (cases "strip_suffix x [CR]")
      case (Some l')
      then have "x = l' @ CR # []" by (rule strip_suffix_one)
      with v(1) valid_utf8_split [OF ascii(2), of l' "[]"] Some show ?thesis by simp
    qed (use v in simp)
    ultimately show ?thesis using 1(1) [OF lr refl] lr by (subst lines.simps) simp
  qed
qed

end
