(* ===== verification/Listing.thy ===== *)
theory Listing
  imports MarkFacts MimeFacts "HOL-Library.List_Lexorder" "HOL-Library.Char_ord" "HOL-Library.Product_Lexorder"
begin

text \<open>
  MAILBOX-LIST and HOOK-LIST (\<open>src/mailbox_list_handler.rs\<close>, \<open>src/hook_list_handler.rs\<close>, with
  \<open>discover_mailbox_names\<close>, \<open>is_registered\<close>, \<open>caller_owns\<close> and \<open>count_messages\<close> of
  \<open>src/mailbox.rs\<close>). Parameters of \<open>list_env\<close>: the entries of a directory in the order they are
  read, the owner of a directory, and the JSON serializer. Strings are ordered by their bytes.
\<close>

record mailbox_list_row =
  lr_name :: string
  lr_address :: "string option"
  lr_inbox_path :: string
  lr_sent_path :: string
  lr_total :: nat
  lr_unread :: nat
  lr_sent_count :: nat
  lr_registered :: bool

record hook_list_row =
  hr_name :: string
  hr_mailbox :: string
  hr_event :: hook_event
  hr_cmd :: "string list"
  hr_fire_on_untrusted :: bool
  hr_timeout_secs :: nat

record list_env =
  le_pw :: user_db
  le_faults :: faults
  le_sha :: "bytes \<Rightarrow> bytes"
  le_read_dir :: "string \<Rightarrow> string list option"
  le_dir_uid :: "string \<Rightarrow> nat option"
  le_mailbox_json :: "mailbox_list_row list \<Rightarrow> string + bytes"
  le_hook_json :: "hook_list_row list \<Rightarrow> string + bytes"

section \<open>Counting\<close>

text \<open>The mail file an entry of a mail directory stands for, if it is one.\<close>

definition md_entry :: "mail_tree \<Rightarrow> string \<Rightarrow> string \<Rightarrow> string option" where
  "md_entry t dir name =
     (let path = join_path dir name in
      if path_is_dir t path
      then (let inner = join_path path (name @ ''.md'')
            in if valid_utf8 name \<and> path_exists t inner then Some inner else None)
      else if path_extension path = Some ''md'' then Some path else None)"

definition read_to_string :: "faults \<Rightarrow> mail_tree \<Rightarrow> string \<Rightarrow> string option" where
  "read_to_string faults t p =
     (if faults ReadOp p \<noteq> None then None
      else case follow MAX_LINKS t p of
          None \<Rightarrow> None
        | Some q \<Rightarrow>
            (case t q of
               Some (Regular f) \<Rightarrow> if valid_utf8 (mf_data f) then Some (mf_data f) else None
             | _ \<Rightarrow> None))"

definition read_assignment :: "string \<Rightarrow> bool option" where
  "read_assignment line =
     (case strip_prefix (trim line) ''read'' of
        None \<Rightarrow> None
      | Some rest \<Rightarrow>
          (case strip_prefix (trim_start rest) ''='' of
             None \<Rightarrow> None
           | Some v \<Rightarrow> Some (trim v = ''true'')))"

fun read_flag :: "string list \<Rightarrow> bool" where
  "read_flag [] = False"
| "read_flag (l # ls) = (case read_assignment l of Some b \<Rightarrow> b | None \<Rightarrow> read_flag ls)"

definition is_marked_read :: "faults \<Rightarrow> mail_tree \<Rightarrow> string \<Rightarrow> bool" where
  "is_marked_read faults t md_path =
     (case read_to_string faults t md_path of
        None \<Rightarrow> False
      | Some content \<Rightarrow>
          (case frontmatter_parts content of None \<Rightarrow> False | Some (block, _) \<Rightarrow> read_flag (lines block)))"

definition count_inbox :: "list_env \<Rightarrow> mail_tree \<Rightarrow> string \<Rightarrow> nat \<times> nat" where
  "count_inbox env t dir =
     (case le_read_dir env dir of
        None \<Rightarrow> (0, 0)
      | Some names \<Rightarrow>
          (let mds = List.map_filter (md_entry t dir) names
           in (length mds, length (filter (\<lambda>p. \<not> is_marked_read (le_faults env) t p) mds))))"

definition count_messages :: "list_env \<Rightarrow> mail_tree \<Rightarrow> string \<Rightarrow> nat" where
  "count_messages env t dir =
     (case le_read_dir env dir of
        None \<Rightarrow> 0
      | Some names \<Rightarrow> length (filter (\<lambda>n. md_entry t dir n \<noteq> None) names))"

section \<open>Who sees what\<close>

definition stray_names :: "list_env \<Rightarrow> config \<Rightarrow> mail_tree \<Rightarrow> string list" where
  "stray_names env cfg t =
     (let inbox_root = join_path (cfg_data_dir cfg) ''inbox'' in
      case le_read_dir env inbox_root of
        None \<Rightarrow> []
      | Some names \<Rightarrow> filter (\<lambda>n. t (join_path inbox_root n) = Some Directory \<and> valid_utf8 n) names)"

definition discover_mailbox_names :: "list_env \<Rightarrow> config \<Rightarrow> mail_tree \<Rightarrow> string list" where
  "discover_mailbox_names env cfg t = sort (remdups (map fst (cfg_mailboxes cfg) @ stray_names env cfg t))"

definition is_registered :: "config \<Rightarrow> string \<Rightarrow> bool" where
  "is_registered cfg name \<longleftrightarrow> lookup_mailbox cfg name \<noteq> None"

definition caller_owns :: "user_db \<Rightarrow> config \<Rightarrow> string \<Rightarrow> nat \<Rightarrow> bool" where
  "caller_owns pw cfg name caller_euid \<longleftrightarrow>
     (case lookup_mailbox cfg name of None \<Rightarrow> False | Some mb \<Rightarrow> owner_uid pw mb = Inr caller_euid)"

definition mailbox_visible_to :: "list_env \<Rightarrow> config \<Rightarrow> string \<Rightarrow> nat \<Rightarrow> bool" where
  "mailbox_visible_to env cfg name caller_uid \<longleftrightarrow>
     caller_uid = 0 \<or>
     (if is_registered cfg name then caller_owns (le_pw env) cfg name caller_uid
      else le_dir_uid env (inbox_dir cfg name) = Some caller_uid)"

definition hooks_visible_to :: "list_env \<Rightarrow> config \<Rightarrow> string \<Rightarrow> nat \<Rightarrow> bool" where
  "hooks_visible_to env cfg name caller_uid \<longleftrightarrow> caller_uid = 0 \<or> caller_owns (le_pw env) cfg name caller_uid"

section \<open>The rows and the answers\<close>

definition mailbox_row :: "list_env \<Rightarrow> config \<Rightarrow> mail_tree \<Rightarrow> string \<Rightarrow> mailbox_list_row" where
  "mailbox_row env cfg t name =
     (let inbox = inbox_dir cfg name; sent = sent_dir cfg name; (total, unread) = count_inbox env t inbox
      in \<lparr>lr_name = name, lr_address = map_option mb_address (lookup_mailbox cfg name), lr_inbox_path = inbox,
          lr_sent_path = sent, lr_total = total, lr_unread = unread, lr_sent_count = count_messages env t sent,
          lr_registered = is_registered cfg name\<rparr>)"

definition mailbox_rows :: "list_env \<Rightarrow> config \<Rightarrow> mail_tree \<Rightarrow> nat \<Rightarrow> mailbox_list_row list" where
  "mailbox_rows env cfg t caller_uid =
     sort_key lr_name (map (mailbox_row env cfg t)
       (filter (\<lambda>name. mailbox_visible_to env cfg name caller_uid) (discover_mailbox_names env cfg t)))"

definition handle_mailbox_list :: "list_env \<Rightarrow> config \<Rightarrow> mail_tree \<Rightarrow> nat \<Rightarrow> json_ack_response" where
  "handle_mailbox_list env cfg t caller_uid =
     (case le_mailbox_json env (mailbox_rows env cfg t caller_uid) of
        Inl e \<Rightarrow> JsonErr EIo (''failed to serialize mailbox list: '' @ e)
      | Inr body \<Rightarrow> JsonOk body)"

definition hook_row :: "(bytes \<Rightarrow> bytes) \<Rightarrow> string \<Rightarrow> hook \<Rightarrow> hook_list_row" where
  "hook_row sha mailbox h =
     \<lparr>hr_name = effective_hook_name sha h, hr_mailbox = mailbox, hr_event = hk_event h, hr_cmd = hk_cmd h,
      hr_fire_on_untrusted = hk_fire_on_untrusted h, hr_timeout_secs = hk_timeout_secs h\<rparr>"

definition hook_rows :: "list_env \<Rightarrow> config \<Rightarrow> nat \<Rightarrow> hook_list_row list" where
  "hook_rows env cfg caller_uid =
     sort_key (\<lambda>r. (hr_mailbox r, hook_event_as_str (hr_event r), hr_name r))
       (concat (map (\<lambda>(mailbox, mb).
           if hooks_visible_to env cfg mailbox caller_uid then map (hook_row (le_sha env) mailbox) (mb_hooks mb) else [])
         (cfg_mailboxes cfg)))"

definition handle_hook_list :: "list_env \<Rightarrow> config \<Rightarrow> nat \<Rightarrow> json_ack_response" where
  "handle_hook_list env cfg caller_uid =
     (case le_hook_json env (hook_rows env cfg caller_uid) of
        Inl e \<Rightarrow> JsonErr EIo (''failed to serialize hook list: '' @ e)
      | Inr body \<Rightarrow> JsonOk body)"

section \<open>Properties\<close>

lemma listed_names:
  "sorted_wrt (<) (map lr_name (mailbox_rows env cfg t uid)) \<and>
   set (map lr_name (mailbox_rows env cfg t uid)) =
     {n. (case lookup_mailbox cfg n of
            Some mb \<Rightarrow> uid = 0 \<or> owner_uid (le_pw env) mb = Inr uid
          | None \<Rightarrow> n \<in> set (stray_names env cfg t) \<and> (uid = 0 \<or> le_dir_uid env (inbox_dir cfg n) = Some uid))}"
proof -
  let ?seen = "filter (\<lambda>name. mailbox_visible_to env cfg name uid) (discover_mailbox_names env cfg t)"
  have name [simp]: "lr_name (mailbox_row env cfg t n) = n" for n
    by (simp add: mailbox_row_def Let_def split: prod.split)
  have "sorted ?seen" "distinct ?seen"
    by (auto simp: discover_mailbox_names_def intro: sorted_wrt_filter)
  then have "map lr_name (mailbox_rows env cfg t uid) = ?seen"
    by (simp add: mailbox_rows_def sort_key_id_if_sorted comp_def)
  moreover have "sorted_wrt (<) ?seen"
    using \<open>sorted ?seen\<close> \<open>distinct ?seen\<close> by (simp add: strict_sorted_iff)
  moreover have "n \<in> fst ` set (cfg_mailboxes cfg) \<longleftrightarrow> lookup_mailbox cfg n \<noteq> None" for n
    by (simp add: lookup_mailbox_def map_of_eq_None_iff)
  ultimately show ?thesis
    by (auto simp: discover_mailbox_names_def mailbox_visible_to_def is_registered_def caller_owns_def split: option.splits)
qed

text \<open>
  the list of mailboxes shows a caller each name once, in order: to root every mailbox and stray
  directory, to another user exactly the registered mailboxes its uid owns and the stray directories
  it owns on disk.
\<close>

theorem mailbox_list_exact:
  "sorted_wrt (<) (map lr_name (mailbox_rows env cfg t uid)) \<and>
   set (map lr_name (mailbox_rows env cfg t uid)) =
     {n. (case lookup_mailbox cfg n of
            Some mb \<Rightarrow> uid = 0 \<or> owner_uid (le_pw env) mb = Inr uid
          | None \<Rightarrow> n \<in> set (stray_names env cfg t) \<and> (uid = 0 \<or> le_dir_uid env (inbox_dir cfg n) = Some uid))}"
  by (rule listed_names)

text \<open>
  the list of hooks shows a caller other than root exactly the hooks of the mailboxes its uid
  owns, each with its effective name, sorted by mailbox, event and name; nothing about the other
  mailboxes of the configuration changes the answer.
\<close>

theorem hook_list_exact:
  assumes "distinct (map fst (cfg_mailboxes cfg))" "uid \<noteq> 0"
  shows "hook_rows env cfg uid =
    sort_key (\<lambda>r. (hr_mailbox r, hook_event_as_str (hr_event r), hr_name r))
      (concat (map (\<lambda>(n, mb). map (hook_row (le_sha env) n) (mb_hooks mb))
        (filter (\<lambda>(n, mb). owner_uid (le_pw env) mb = Inr uid) (cfg_mailboxes cfg))))"
proof -
  have owns: "caller_owns (le_pw env) cfg n uid \<longleftrightarrow> owner_uid (le_pw env) mb = Inr uid"
    if "(n, mb) \<in> set (cfg_mailboxes cfg)" for n mb
    using that assms(1) by (simp add: caller_owns_def lookup_mailbox_def)
  have "concat (map (\<lambda>(n, mb). if hooks_visible_to env cfg n uid then map (hook_row (le_sha env) n) (mb_hooks mb) else []) ms) =
      concat (map (\<lambda>(n, mb). map (hook_row (le_sha env) n) (mb_hooks mb))
        (filter (\<lambda>(n, mb). owner_uid (le_pw env) mb = Inr uid) ms))"
    if "set ms \<subseteq> set (cfg_mailboxes cfg)" for ms
    using that by (induction ms) (auto simp: hooks_visible_to_def assms(2) owns)
  then show ?thesis by (simp add: hook_rows_def)
qed

lemma read_flag_skip: "read_flag ([] # ls) = read_flag ls"
  by (simp add: read_assignment_def strip_prefix_def starts_with_def)

lemma marked_content_flag:
  assumes "toml_block_ok s"
  shows "frontmatter_parts (''+++'' @ [LF] @ s @ ''+++'' @ body) = Some (LF # s, body)"
    "read_flag (lines (LF # s)) = read_flag (lines s)"
proof -
  show "frontmatter_parts (''+++'' @ [LF] @ s @ ''+++'' @ body) = Some (LF # s, body)"
    by (rule frontmatter_parts_stored [OF assms])
  have "split_once LF (LF # s) = Some ([], s)" by (simp add: split_once_def)
  then have "lines (LF # s) = [] # lines s"
    by (subst lines.simps) (simp add: strip_suffix_def ends_with_def)
  then show "read_flag (lines (LF # s)) = read_flag (lines s)" by (simp only: read_flag_skip)
qed

lemma split_at_str_Some: "split_at_str p s = Some (a, b) \<Longrightarrow> s = a @ p @ b"
proof (induction s arbitrary: a)
  case (Cons c s)
  then show ?case
    by (auto simp: starts_with_def split: if_splits option.splits) (metis append_take_drop_id)
qed (auto split: if_splits)

lemma frontmatter_body_valid:
  assumes "frontmatter_parts content = Some (block, body)" "valid_utf8 content"
  shows "valid_utf8 body"
proof -
  obtain a r where "split_at_str ''+++'' content = Some (a, r)" "split_at_str ''+++'' r = Some (block, body)"
    using assms(1) by (auto simp: frontmatter_parts_def split: option.splits)
  from this [THEN split_at_str_Some] have "content = (a @ ''+++'' @ block @ ''++'') @ CHR ''+'' # body" by simp
  with assms(2) valid_utf8_split [of "CHR ''+''" "a @ ''+++'' @ block @ ''++''" body] show ?thesis
    by (simp add: is_ascii_char_def code_def)
qed

text \<open>Published under a fresh temporary name, the mail has the new content.\<close>

lemma publish_content:
  assumes "publish env parent name mb out t = (AckOk, t')" "t (tmp_path env parent name) = None"
    "join_path parent name \<noteq> tmp_path env parent name"
  shows "\<exists>f. t' (join_path parent name) = Some (Regular f) \<and> mf_data f = out"
proof -
  let ?tmp = "tmp_path env parent name"
  let ?new = "t(?tmp \<mapsto> Regular \<lparr>mf_data = out, mf_uid = 0, mf_gid = 0, mf_mode = 0x180\<rparr>)"
  have here: "follow MAX_LINKS t ?tmp = Some ?tmp" "follow MAX_LINKS ?new ?tmp = Some ?tmp"
    using assms(2) by (simp_all add: follow.simps)
  then have "\<exists>f. chown_owned (ke_pw env) (ke_faults env) ?tmp mb 0x180 ?new ?tmp = Some (Regular f) \<and> mf_data f = out"
    by (auto simp: chown_owned_def set_meta_def split: sum.splits)
  with assms here show ?thesis
    by (auto simp: publish_def fs_write_def tmp_path_def [symmetric] Let_def split: option.splits sum.splits)
qed

text \<open>
  a mail just marked is listed as marked: after a successful MARK the listing's quick look
  at the mail's file finds the read state the request asked for, provided the written block is one
  the quick look reads (its first \<open>read\<close> assignment is the field's) and no link was planted.
\<close>

theorem marked_mail_is_listed_marked:
  assumes run: "handle_mark env cfg req uid t = (AckOk, t')"
    and res: "resolve_email_path_strict (ke_faults env) (ke_canonicalize env) t (mark_dir env req) (mr_id req) =
      Some (parent, name)"
    and fresh: "t (tmp_path env parent name) = None"
    and old: "t (join_path parent name) = Some (Regular f)" "frontmatter_parts (mf_data f) = Some (block, body)"
      "ke_from_toml env (trim block) = Inr meta"
    and new: "ke_to_toml env (set_read (mr_read req) (ke_now env) meta) = Inr s" "toml_block_ok s" "valid_utf8 s"
      "read_flag (lines s) = mr_read req"
    and "faults ReadOp (join_path parent name) = None"
  shows "is_marked_read faults t' (join_path parent name) = mr_read req"
proof -
  let ?out = "''+++'' @ [LF] @ s @ ''+++'' @ body"
  from run obtain mb where marked: "mark_file env req mb parent name t = (AckOk, t')"
    using res by (auto simp: handle_mark_def mark_dir_def Let_def split: if_splits option.splits sum.splits)
  have valid: "valid_utf8 (mf_data f)"
    using marked old(1) by (auto simp: mark_file_def Let_def split: option.splits if_splits sum.splits)
  with marked old new have "publish env parent name mb ?out t = (AckOk, t')"
    by (auto simp: mark_file_def rewrite_content_def Let_def split: option.splits if_splits sum.splits)
  from publish_content [OF this fresh] fresh old(1) obtain g where
    g: "t' (join_path parent name) = Some (Regular g)" "mf_data g = ?out" by fastforce
  have "valid_utf8 (''+++'' @ [LF] @ s @ ''+++'' @ body)"
    using frontmatter_body_valid [OF old(2) valid] new(3)
    by (auto intro!: valid_utf8_append simp: is_ascii_char_def code_def LF_def)
  with g assms(11) have "read_to_string faults t' (join_path parent name) = Some ?out"
    by (simp add: read_to_string_def follow.simps)
  with marked_content_flag(1) [OF new(2), of body] marked_content_flag(2) [OF new(2)] new(4) show ?thesis
    by (simp add: is_marked_read_def)
qed

section \<open>Witnesses\<close>

definition demo_list_env :: list_env where
  "demo_list_env = \<lparr>le_pw = demo_users, le_faults = (\<lambda>_ _. None), le_sha = id, le_read_dir = (\<lambda>_. None), le_dir_uid = (\<lambda>_. None),
     le_mailbox_json = (\<lambda>_. Inr []), le_hook_json = (\<lambda>_. Inr [])\<rparr>"

theorem hook_list_exact_witness:
  "map hr_name (hook_rows demo_list_env (demo_config [demo_hook]) 1000) = [''h''] \<and>
   hook_rows demo_list_env (demo_config [demo_hook]) 1001 = []"
proof -
  have "distinct (map fst (cfg_mailboxes (demo_config [demo_hook])))" by (simp add: demo_config_def)
  note rows = hook_list_exact [OF this, where env = demo_list_env]
  have "owner_uid demo_users (demo_mailbox [demo_hook]) = Inr 1000" by code_simp
  then show ?thesis
    using rows [of 1000] rows [of 1001]
    by (simp add: demo_list_env_def demo_config_def) (simp add: demo_mailbox_def hook_row_def demo_hook_def effective_hook_name_def)
qed

definition demo_listed_env :: mark_env where
  "demo_listed_env = (demo_mark_env ''hi'')\<lparr>ke_to_toml :=
     (\<lambda>m. Inr (''read='' @ (if fm_read m then ''true'' else ''false'') @ [LF]))\<rparr>"

lemma demo_mark_read: "mr_read (demo_mark i)"
  by (simp add: demo_mark_def)

theorem marked_mail_is_listed_marked_witness:
  "is_marked_read (\<lambda>_ _. None) (snd (handle_mark demo_listed_env (demo_config []) (demo_mark ''m'') 1000 demo_tree))
     ''/d/inbox/alice/m.md''"
proof -
  have ok: "fst (handle_mark demo_listed_env (demo_config []) (demo_mark ''m'') 1000 demo_tree) = AckOk"
    by code_simp
  obtain t' where "handle_mark demo_listed_env (demo_config []) (demo_mark ''m'') 1000 demo_tree = (AckOk, t')"
    using ok by (metis prod.collapse)
  moreover have "resolve_email_path_strict (ke_faults demo_listed_env) (ke_canonicalize demo_listed_env) demo_tree
      (mark_dir demo_listed_env (demo_mark ''m'')) (mr_id (demo_mark ''m'')) = Some (''/d/inbox/alice'', ''m.md'')"
    by code_simp
  moreover have path: "join_path ''/d/inbox/alice'' ''m.md'' = ''/d/inbox/alice/m.md''" by code_simp
  moreover have "demo_tree (tmp_path demo_listed_env ''/d/inbox/alice'' ''m.md'') = None" by code_simp
  moreover obtain f where f: "demo_tree (join_path ''/d/inbox/alice'' ''m.md'') = Some (Regular f)"
    "mf_data f = format_frontmatter demo_toml (demo_meta ''hi'') ''body''"
    by (simp add: demo_tree_def join_path_def)
  moreover have "frontmatter_parts (mf_data f) = Some (LF # demo_toml (demo_meta ''hi''), [LF, LF] @ ''body'' @ [LF])"
    unfolding f(2) by code_simp
  moreover have "ke_from_toml demo_listed_env (trim (LF # demo_toml (demo_meta ''hi''))) = Inr (demo_meta ''hi'')"
    using demo_toml_trim by (simp add: demo_listed_env_def demo_mark_env_def trim_LF)
  moreover have "ke_to_toml demo_listed_env (set_read (mr_read (demo_mark ''m'')) (ke_now demo_listed_env) (demo_meta ''hi'')) =
      Inr (''read=true'' @ [LF])"
    by (simp add: demo_listed_env_def demo_mark_def set_read_def)
  moreover have "toml_block_ok (''read=true'' @ [LF])" "valid_utf8 (''read=true'' @ [LF])"
    "read_flag (lines (''read=true'' @ [LF])) = mr_read (demo_mark ''m'')"
    by code_simp+
  ultimately show ?thesis
    using marked_mail_is_listed_marked [where env = demo_listed_env and req = "demo_mark ''m''" and faults = "\<lambda>_ _. None"]
    by (metis (no_types, lifting) demo_mark_read snd_conv)
qed

end
