(* ===== verification/McpTools.thy ===== *)
theory McpTools
  imports Client Listing
begin

text \<open>
  The tools of the MCP server (\<open>src/mcp.rs\<close>): each is a function of its parameters and of the
  state \<open>'s\<close> of everything outside the process, the daemon included, and yields the text or the
  error text an agent sees. The JSON and TOML crates, the directory order, \<open>canonicalize\<close> and what a
  device yields are parameters. Ids and paths the tools list are those of \<open>src/mcp.rs\<close>; the
  resolution of one id is \<open>resolve_email_path_strict\<close>. Strings are ordered by their bytes.
\<close>

record list_fm =
  ef_from :: string
  ef_to :: string
  ef_subject :: string
  ef_date :: string
  ef_read :: bool
  ef_delivery_status :: "string option"

record inbox_list_row =
  ir_id :: string
  ir_from :: string
  ir_to :: string
  ir_subject :: string
  ir_date :: string
  ir_read :: bool

record sent_list_row =
  st_id :: string
  st_from :: string
  st_to :: string
  st_subject :: string
  st_date :: string
  st_delivery_status :: string

record 's mcp_env =
  mp_client :: client_env
  mp_compose :: compose_env
  mp_exchange :: "'s exchange"
  mp_tree :: "'s \<Rightarrow> mail_tree"
  mp_faults :: faults
  mp_canonicalize :: "string \<Rightarrow> string option"
  mp_read_dir :: "'s \<Rightarrow> string \<Rightarrow> io_error + string list"
  mp_device :: "string \<Rightarrow> io_error + bytes"
  mp_mailbox_rows :: "string \<Rightarrow> string + mailbox_list_row list"
  mp_hook_rows :: "string \<Rightarrow> string + hook_list_row list"
  mp_hook_rows_json :: "hook_list_row list \<Rightarrow> string + string"
  mp_hook_body_json :: "string list \<Rightarrow> bool \<Rightarrow> nat option \<Rightarrow> string + bytes"
  mp_list_fm :: "string \<Rightarrow> string + list_fm"
  mp_frontmatter :: "string \<Rightarrow> inbound_frontmatter option"
  mp_inbox_json :: "inbox_list_row list \<Rightarrow> string + string"
  mp_sent_json :: "sent_list_row list \<Rightarrow> string + string"

definition apostrophes :: "string \<Rightarrow> string" where
  "apostrophes s = CHR 0x27 # s @ [CHR 0x27]"

section \<open>Rows of the mailbox list\<close>

definition find_row :: "string \<Rightarrow> mailbox_list_row list \<Rightarrow> mailbox_list_row option" where
  "find_row name rows = List.find (\<lambda>r. lr_name r = name) rows"

definition lookup_mailbox_row :: "'s mcp_env \<Rightarrow> string \<Rightarrow> 's \<Rightarrow> (string + mailbox_list_row) \<times> 's" where
  "lookup_mailbox_row env name s =
     (case submit_mailbox_list_via_daemon (mp_client env) (mp_exchange env) s of
        (Inl e, s') \<Rightarrow> (Inl e, s')
      | (Inr json, s') \<Rightarrow>
          ((case mp_mailbox_rows env json of
              Inl e \<Rightarrow> Inl (''Failed to parse mailbox list: '' @ e)
            | Inr rows \<Rightarrow>
                (case find_row name rows of
                   None \<Rightarrow> Inl (''Mailbox '' @ apostrophes name @ '' does not exist.'')
                 | Some r \<Rightarrow> Inr r)), s'))"

definition lookup_mailbox_address :: "'s mcp_env \<Rightarrow> string \<Rightarrow> 's \<Rightarrow> string option \<times> 's" where
  "lookup_mailbox_address env name s =
     (case submit_list_raw (mp_client env) (mp_exchange env) write_mailbox_list_request s of
        (Inl e, s') \<Rightarrow> (None, s')
      | (Inr json, s') \<Rightarrow>
          ((case mp_mailbox_rows env json of
              Inl e \<Rightarrow> None
            | Inr rows \<Rightarrow> (case find_row name rows of None \<Rightarrow> None | Some r \<Rightarrow> lr_address r)), s'))"

section \<open>Ids and folders\<close>

definition validate_email_id :: "string \<Rightarrow> string + unit" where
  "validate_email_id id' =
     (if id' = [] then Inl ''Email ID cannot be empty.''
      else if contains id' ''..'' \<or> CHR ''/'' \<in> set id' \<or> CHR 0x5C \<in> set id' \<or> CHR 0x00 \<in> set id'
      then Inl ''Email ID contains invalid characters.''
      else Inr ())"

datatype folder = Inbox | Sent

definition resolve_folder :: "string option \<Rightarrow> string + folder" where
  "resolve_folder raw =
     (case raw of
        None \<Rightarrow> Inr Inbox
      | Some f \<Rightarrow>
          if f = ''inbox'' then Inr Inbox
          else if f = ''sent'' then Inr Sent
          else Inl (''Invalid folder '' @ apostrophes f @ '': expected '' @ quote ''inbox'' @ '' or '' @ quote ''sent'' @ ''.''))"

fun folder_path_from_row :: "mailbox_list_row \<Rightarrow> folder \<Rightarrow> string" where
  "folder_path_from_row row Inbox = lr_inbox_path row"
| "folder_path_from_row row Sent = lr_sent_path row"

text \<open>\<open>fs::read_to_string\<close>, which follows links.\<close>

definition read_file :: "'s mcp_env \<Rightarrow> mail_tree \<Rightarrow> string \<Rightarrow> io_error + string" where
  "read_file env t p =
     (let text = (\<lambda>d. if valid_utf8 d then Inr d else Inl (OtherKind, ''stream did not contain valid UTF-8'')) in
      case mp_faults env ReadOp p of
        Some e \<Rightarrow> Inl (OtherKind, e)
      | None \<Rightarrow>
          (case follow MAX_LINKS t p of
             None \<Rightarrow> Inl (OtherKind, ''Too many levels of symbolic links'')
           | Some q \<Rightarrow>
               (case t q of
                  None \<Rightarrow> Inl (NotFoundKind, ''No such file or directory'')
                | Some (Regular f) \<Rightarrow> text (mf_data f)
                | Some Special \<Rightarrow> (case mp_device env q of Inl e \<Rightarrow> Inl e | Inr d \<Rightarrow> text d)
                | Some _ \<Rightarrow> Inl (OtherKind, ''Is a directory''))))"

section \<open>Listing mail\<close>

definition DEFAULT_LIMIT :: nat where "DEFAULT_LIMIT = 50"
definition MAX_LIMIT :: nat where "MAX_LIMIT = 200"

definition clamp_limit :: "nat option \<Rightarrow> nat" where
  "clamp_limit raw = min (case raw of None \<Rightarrow> DEFAULT_LIMIT | Some v \<Rightarrow> v) MAX_LIMIT"

text \<open>The id and the mail file of a directory entry; \<open>file_type\<close> does not follow a link.\<close>

definition email_entry :: "faults \<Rightarrow> mail_tree \<Rightarrow> string \<Rightarrow> string \<Rightarrow> (string \<times> string) option" where
  "email_entry faults t dir name =
     (let path = join_path dir name in
      case lstat faults t path of
        LstatOk Directory \<Rightarrow> (if valid_utf8 name then Some (name, join_path path (name @ ''.md'')) else None)
      | LstatOk (Regular _) \<Rightarrow>
          (if path_extension path = Some ''md'' \<and> valid_utf8 (file_stem path) then Some (file_stem path, path) else None)
      | _ \<Rightarrow> None)"

definition enumerate_email_ids :: "'s mcp_env \<Rightarrow> 's \<Rightarrow> string \<Rightarrow> io_error + (string \<times> string) list" where
  "enumerate_email_ids env s mailbox_dir =
     (case mp_read_dir env s mailbox_dir of
        Inl e \<Rightarrow> if fst e = NotFoundKind then Inr [] else Inl e
      | Inr names \<Rightarrow> Inr (List.map_filter (email_entry (mp_faults env) (mp_tree env s) mailbox_dir) names))"

definition read_email_frontmatter :: "'s mcp_env \<Rightarrow> mail_tree \<Rightarrow> string \<Rightarrow> string + list_fm option" where
  "read_email_frontmatter env t path =
     (case read_file env t path of
        Inl e \<Rightarrow> if fst e = NotFoundKind then Inr None else Inl (snd e)
      | Inr content \<Rightarrow>
          (case frontmatter_parts content of
             None \<Rightarrow> Inr None
           | Some (block, _) \<Rightarrow>
               (case mp_list_fm env (trim block) of Inl e \<Rightarrow> Inl e | Inr fm \<Rightarrow> Inr (Some fm))))"

text \<open>The mails of a page with what their frontmatter says; one that does not parse fails the page.\<close>

fun page_rows :: "'s mcp_env \<Rightarrow> mail_tree \<Rightarrow> (string \<times> string) list \<Rightarrow> string + (string \<times> list_fm) list" where
  "page_rows env t [] = Inr []"
| "page_rows env t ((id', fm_path) # page) =
     (case read_email_frontmatter env t fm_path of
        Inl e \<Rightarrow> Inl e
      | Inr fm \<Rightarrow>
          (case page_rows env t page of
             Inl e \<Rightarrow> Inl e
           | Inr rows \<Rightarrow> Inr (case fm of None \<Rightarrow> rows | Some m \<Rightarrow> (id', m) # rows)))"

definition inbox_row :: "string \<times> list_fm \<Rightarrow> inbox_list_row" where
  "inbox_row r = (case r of (id', fm) \<Rightarrow>
     \<lparr>ir_id = id', ir_from = ef_from fm, ir_to = ef_to fm, ir_subject = ef_subject fm, ir_date = ef_date fm, ir_read = ef_read fm\<rparr>)"

definition sent_row :: "string \<times> list_fm \<Rightarrow> sent_list_row" where
  "sent_row r = (case r of (id', fm) \<Rightarrow>
     \<lparr>st_id = id', st_from = ef_from fm, st_to = ef_to fm, st_subject = ef_subject fm, st_date = ef_date fm,
      st_delivery_status = (case ef_delivery_status fm of None \<Rightarrow> [] | Some d \<Rightarrow> d)\<rparr>)"

text \<open>Ids in descending order, equal ones as they were read.\<close>

definition sort_ids :: "(string \<times> string) list \<Rightarrow> (string \<times> string) list" where
  "sort_ids found = rev (sort_key fst (rev found))"

definition page_of :: "nat \<Rightarrow> nat \<Rightarrow> 'a list \<Rightarrow> 'a list" where
  "page_of offset limit found =
     (if offset \<ge> length found \<or> limit = 0 then [] else drop offset (take (min (offset + limit) (length found)) found))"

definition list_email_page_json :: "'s mcp_env \<Rightarrow> 's \<Rightarrow> string \<Rightarrow> folder \<Rightarrow> nat \<Rightarrow> nat \<Rightarrow> string + string" where
  "list_email_page_json env s mailbox_dir folder offset limit =
     (case enumerate_email_ids env s mailbox_dir of
        Inl e \<Rightarrow> Inl (snd e)
      | Inr found \<Rightarrow>
          if offset \<ge> length found \<or> limit = 0 then Inr ''[]''
          else case page_rows env (mp_tree env s) (page_of offset limit (sort_ids found)) of
              Inl e \<Rightarrow> Inl e
            | Inr rows \<Rightarrow>
                (case folder of
                   Inbox \<Rightarrow> mp_inbox_json env (map inbox_row rows)
                 | Sent \<Rightarrow> mp_sent_json env (map sent_row rows)))"

definition email_list ::
  "'s mcp_env \<Rightarrow> string \<Rightarrow> string option \<Rightarrow> nat option \<Rightarrow> nat option \<Rightarrow> 's \<Rightarrow> (string + string) \<times> 's" where
  "email_list env mailbox folder limit offset s =
     (case lookup_mailbox_row env mailbox s of
        (Inl e, s') \<Rightarrow> (Inl e, s')
      | (Inr row, s') \<Rightarrow>
          ((case resolve_folder folder of
              Inl e \<Rightarrow> Inl e
            | Inr f \<Rightarrow>
                list_email_page_json env s' (folder_path_from_row row f) f
                  (case offset of None \<Rightarrow> 0 | Some n \<Rightarrow> n) (clamp_limit limit)), s'))"

section \<open>Reading, marking\<close>

definition mail_not_found :: "string \<Rightarrow> string \<Rightarrow> string" where
  "mail_not_found id' mailbox = ''Email '' @ apostrophes id' @ '' not found in mailbox '' @ apostrophes mailbox @ ''.''"

definition read_mail :: "'s mcp_env \<Rightarrow> string \<Rightarrow> string \<Rightarrow> string \<Rightarrow> 's \<Rightarrow> string + string" where
  "read_mail env mailbox dir id' s =
     (case resolve_email_path_strict (mp_faults env) (mp_canonicalize env) (mp_tree env s) dir id' of
        None \<Rightarrow> Inl (mail_not_found id' mailbox)
      | Some (parent, name) \<Rightarrow>
          (case read_file env (mp_tree env s) (join_path parent name) of
             Inl e \<Rightarrow> Inl (''Failed to read email: '' @ snd e)
           | Inr content \<Rightarrow> Inr content))"

definition email_read :: "'s mcp_env \<Rightarrow> string \<Rightarrow> string \<Rightarrow> string option \<Rightarrow> 's \<Rightarrow> (string + string) \<times> 's" where
  "email_read env mailbox id' folder s =
     (case validate_email_id id' of
        Inl e \<Rightarrow> (Inl e, s)
      | Inr _ \<Rightarrow>
          (case lookup_mailbox_row env mailbox s of
             (Inl e, s') \<Rightarrow> (Inl e, s')
           | (Inr row, s') \<Rightarrow>
               ((case resolve_folder folder of
                   Inl e \<Rightarrow> Inl e
                 | Inr f \<Rightarrow> read_mail env mailbox (folder_path_from_row row f) id' s'), s')))"

definition email_mark :: "'s mcp_env \<Rightarrow> bool \<Rightarrow> string \<Rightarrow> string \<Rightarrow> 's \<Rightarrow> (string + string) \<times> 's" where
  "email_mark env read mailbox id' s =
     (case validate_email_id id' of
        Inl e \<Rightarrow> (Inl e, s)
      | Inr _ \<Rightarrow>
          (case lookup_mailbox_row env mailbox s of
             (Inl e, s1) \<Rightarrow> (Inl e, s1)
           | (Inr _, s1) \<Rightarrow>
               (case submit_mark_via_daemon (mp_client env) (mp_exchange env) mailbox id' read s1 of
                  (Inl e, s2) \<Rightarrow> (Inl e, s2)
                | (Inr _, s2) \<Rightarrow>
                    (Inr (''Email '' @ apostrophes id' @ (if read then '' marked as read.'' else '' marked as unread.'')), s2))))"

section \<open>Sending\<close>

definition validate_text_only_html_body_exclusion :: "bool \<Rightarrow> string option \<Rightarrow> string + unit" where
  "validate_text_only_html_body_exclusion text_only html_body =
     (if text_only \<and> html_body \<noteq> None
      then Inl ''AIMX/1 SEND: --text-only and --html-body are mutually exclusive'' else Inr ())"

definition submit_via_daemon :: "'s mcp_env \<Rightarrow> send_args \<Rightarrow> 's \<Rightarrow> (string + string) \<times> 's" where
  "submit_via_daemon env args s =
     (case build_request (mp_compose env) args of
        Inl e \<Rightarrow> (Inl e, s)
      | Inr request \<Rightarrow>
          (case submit_request (mp_client env) (mp_exchange env) request s of
             (Inl e, s') \<Rightarrow> (Inl (if is_socket_missing e then daemon_not_running else connect_failed (mp_client env) e), s')
           | (Inr (SubmitOk message_id), s') \<Rightarrow>
               (Inr (''Email sent to '' @ sa_to args @ ''. Message-ID: '' @ message_id), s')
           | (Inr (SubmitErr ec reason), s') \<Rightarrow> (Inl (bracketed ec reason), s')
           | (Inr (SubmitMalformed reason), s') \<Rightarrow> (Inl (''Malformed response from aimx daemon: '' @ reason), s')))"

text \<open>The address a row sends from.\<close>

definition sender_address :: "string \<Rightarrow> string \<Rightarrow> mailbox_list_row \<Rightarrow> string + string" where
  "sender_address verb mailbox row =
     (case lr_address row of
        None \<Rightarrow> Inl (''Mailbox '' @ apostrophes mailbox @ '' is not registered.'')
      | Some a \<Rightarrow>
          if starts_with a ''*''
          then Inl (''Cannot '' @ verb @ '' from '' @ apostrophes mailbox @
            '': catchall mailbox has no valid sender address. Use a named mailbox.'')
          else Inr a)"

text \<open>The parameters of \<open>email_send\<close> are those of \<open>send_args\<close> but for the sender.\<close>

definition email_send :: "'s mcp_env \<Rightarrow> string \<Rightarrow> send_args \<Rightarrow> 's \<Rightarrow> (string + string) \<times> 's" where
  "email_send env from_mailbox params s =
     (case validate_text_only_html_body_exclusion (sa_text_only params) (sa_html_body params) of
        Inl e \<Rightarrow> (Inl e, s)
      | Inr _ \<Rightarrow>
          (case lookup_mailbox_row env from_mailbox s of
             (Inl e, s') \<Rightarrow> (Inl e, s')
           | (Inr row, s') \<Rightarrow>
               (case sender_address ''send'' from_mailbox row of
                  Inl e \<Rightarrow> (Inl e, s')
                | Inr from_address \<Rightarrow> submit_via_daemon env (params\<lparr>sa_from := from_address\<rparr>) s')))"

text \<open>\<open>&addr[start + 1..end]\<close>: \<open>None\<close> is the panic of a range that ends before it starts.\<close>

definition extract_email_address :: "string \<Rightarrow> string option" where
  "extract_email_address addr =
     (case (find_char CHR ''<'' addr, find_char CHR ''>'' addr) of
        (Some start, Some e) \<Rightarrow> slice addr (start + 1) e
      | _ \<Rightarrow> Some addr)"

definition reply_subject :: "string \<Rightarrow> string" where
  "reply_subject subject = (if starts_with subject ''Re: '' then subject else ''Re: '' @ subject)"

definition reply_args :: "inbound_frontmatter \<Rightarrow> string \<Rightarrow> string \<Rightarrow> string \<Rightarrow> bool \<Rightarrow> string option \<Rightarrow> send_args" where
  "reply_args meta from_address to' body text_only html_body =
     \<lparr>sa_from = from_address, sa_to = to', sa_subject = reply_subject (fm_subject meta), sa_body = body,
      sa_reply_to = (if fm_message_id meta = [] then None else Some (fm_message_id meta)),
      sa_references = (if fm_message_id meta = [] then None
                       else Some (build_references (fm_references meta) (fm_message_id meta))),
      sa_attachments = [], sa_text_only = text_only, sa_html_body = html_body\<rparr>"

definition parse_frontmatter :: "'s mcp_env \<Rightarrow> string \<Rightarrow> inbound_frontmatter option" where
  "parse_frontmatter env content =
     (case frontmatter_parts content of None \<Rightarrow> None | Some (block, _) \<Rightarrow> mp_frontmatter env (trim block))"

text \<open>\<open>None\<close> is the panic of \<open>extract_email_address\<close>.\<close>

definition email_reply ::
  "'s mcp_env \<Rightarrow> string \<Rightarrow> string \<Rightarrow> string \<Rightarrow> bool \<Rightarrow> string option \<Rightarrow> 's \<Rightarrow> (string + string) option \<times> 's" where
  "email_reply env mailbox id' body text_only html_body s =
     (case validate_text_only_html_body_exclusion text_only html_body of
        Inl e \<Rightarrow> (Some (Inl e), s)
      | Inr _ \<Rightarrow>
     (case validate_email_id id' of
        Inl e \<Rightarrow> (Some (Inl e), s)
      | Inr _ \<Rightarrow>
     (case lookup_mailbox_row env mailbox s of
        (Inl e, s') \<Rightarrow> (Some (Inl e), s')
      | (Inr row, s') \<Rightarrow>
     (case read_mail env mailbox (folder_path_from_row row Inbox) id' s' of
        Inl e \<Rightarrow> (Some (Inl e), s')
      | Inr content \<Rightarrow>
     (case parse_frontmatter env content of
        None \<Rightarrow> (Some (Inl ''Failed to parse email frontmatter.''), s')
      | Some meta \<Rightarrow>
     (case sender_address ''reply'' mailbox row of
        Inl e \<Rightarrow> (Some (Inl e), s')
      | Inr from_address \<Rightarrow>
     (case extract_email_address (fm_from meta) of
        None \<Rightarrow> (None, s')
      | Some to' \<Rightarrow> apfst Some (submit_via_daemon env (reply_args meta from_address to' body text_only html_body) s'))))))))"

section \<open>Mailboxes and hooks\<close>

definition mailbox_list :: "'s mcp_env \<Rightarrow> 's \<Rightarrow> (string + string) \<times> 's" where
  "mailbox_list env s = submit_mailbox_list_via_daemon (mp_client env) (mp_exchange env) s"

definition mailbox_create_tool :: "'s mcp_env \<Rightarrow> string \<Rightarrow> 's \<Rightarrow> (string + string) \<times> 's" where
  "mailbox_create_tool env name s =
     (case submit_mailbox_crud_via_daemon (mp_client env) (mp_exchange env) name True None False s of
        (Inr _, s1) \<Rightarrow>
          (case lookup_mailbox_address env name s1 of
             (addr, s2) \<Rightarrow>
               (let address = (case addr of None \<Rightarrow> [] | Some a \<Rightarrow> a) in
                (Inr (if address = [] then ''Mailbox '' @ apostrophes name @ '' created.'' else address), s2)))
      | (Inl SocketMissing, s1) \<Rightarrow> (Inl daemon_not_running, s1)
      | (Inl (DaemonSaid msg), s1) \<Rightarrow> (Inl msg, s1))"

definition mailbox_delete_tool :: "'s mcp_env \<Rightarrow> string \<Rightarrow> bool \<Rightarrow> 's \<Rightarrow> (string + string) \<times> 's" where
  "mailbox_delete_tool env name force s =
     (if force \<and> name = ''catchall'' then (Inl ''Cannot delete the catchall mailbox'', s)
      else case submit_mailbox_crud_via_daemon (mp_client env) (mp_exchange env) name False None force s of
          (Inr _, s1) \<Rightarrow> (Inr (''Mailbox '' @ apostrophes name @ '' deleted.''), s1)
        | (Inl SocketMissing, s1) \<Rightarrow> (Inl daemon_not_running, s1)
        | (Inl (DaemonSaid msg), s1) \<Rightarrow> (Inl msg, s1))"

definition hook_create_tool ::
  "'s mcp_env \<Rightarrow> string \<Rightarrow> string \<Rightarrow> string list \<Rightarrow> string option \<Rightarrow> nat option \<Rightarrow> bool \<Rightarrow> 's \<Rightarrow> (string + string) \<times> 's" where
  "hook_create_tool env mailbox event cmd name timeout_secs fire_on_untrusted s =
     (case lookup_mailbox_row env mailbox s of
        (Inl e, s1) \<Rightarrow> (Inl e, s1)
      | (Inr _, s1) \<Rightarrow>
          if cmd = [] then (Inl ''cmd must not be empty'', s1)
          else case mp_hook_body_json env cmd fire_on_untrusted timeout_secs of
              Inl e \<Rightarrow> (Inl (''Failed to serialize hook body: '' @ e), s1)
            | Inr body \<Rightarrow>
                (case submit_hook_create_via_daemon (mp_client env) (mp_exchange env) mailbox event name body s1 of
                   (Inr _, s2) \<Rightarrow> (Inr (''Hook created on mailbox '' @ apostrophes mailbox @ ''.''), s2)
                 | (Inl SocketMissing, s2) \<Rightarrow> (Inl daemon_not_running, s2)
                 | (Inl (DaemonSaid msg), s2) \<Rightarrow> (Inl msg, s2)))"

definition hook_list_tool :: "'s mcp_env \<Rightarrow> string option \<Rightarrow> 's \<Rightarrow> (string + string) \<times> 's" where
  "hook_list_tool env mailbox s =
     (case submit_hook_list_via_daemon (mp_client env) (mp_exchange env) s of
        (Inl e, s1) \<Rightarrow> (Inl e, s1)
      | (Inr json, s1) \<Rightarrow>
          (case mailbox of
             None \<Rightarrow> (Inr json, s1)
           | Some name \<Rightarrow>
               (case lookup_mailbox_row env name s1 of
                  (Inl e, s2) \<Rightarrow> (Inl e, s2)
                | (Inr _, s2) \<Rightarrow>
                    ((case mp_hook_rows env json of
                        Inl e \<Rightarrow> Inl (''Failed to parse hook list: '' @ e)
                      | Inr rows \<Rightarrow>
                          (case mp_hook_rows_json env (filter (\<lambda>r. hr_mailbox r = name) rows) of
                             Inl e \<Rightarrow> Inl (''Failed to serialize: '' @ e)
                           | Inr out \<Rightarrow> Inr out)), s2))))"

definition hook_delete_tool :: "'s mcp_env \<Rightarrow> string \<Rightarrow> 's \<Rightarrow> (string + string) \<times> 's" where
  "hook_delete_tool env name s =
     (case submit_hook_delete_via_daemon (mp_client env) (mp_exchange env) name s of
        (Inr _, s1) \<Rightarrow> (Inr (''Hook '' @ apostrophes name @ '' deleted.''), s1)
      | (Inl SocketMissing, s1) \<Rightarrow> (Inl daemon_not_running, s1)
      | (Inl (DaemonSaid msg), s1) \<Rightarrow> (Inl msg, s1))"

end
