(* ===== verification/AssemblyFacts.thy ===== *)
theory AssemblyFacts
  imports MimeFacts
begin

text \<open>
  The message the daemon assembles reads back: its header block is found, its headers have the
  values written, the text and every attachment decode to what was put in.
\<close>

section \<open>Header blocks\<close>

text \<open>Lines joined by CRLF.\<close>

fun joined :: "string list \<Rightarrow> string" where
  "joined [] = []"
| "joined [l] = l"
| "joined (l # ls) = l @ [CR, LF] @ joined ls"

definition header_line_ok :: "string \<Rightarrow> bool" where
  "header_line_ok l \<longleftrightarrow> l \<noteq> [] \<and> LF \<notin> set l"

lemma joined_Cons: "ls \<noteq> [] \<Longrightarrow> joined (l # ls) = l @ [CR, LF] @ joined ls"
  by (cases ls) simp_all

lemma crlf_lines_joined: "ls \<noteq> [] \<Longrightarrow> concat (map crlf_line ls) = joined ls @ [CR, LF]"
  by (induction ls rule: joined.induct) (simp_all add: crlf_line_def)

lemma CR_LF [simp]: "CR \<noteq> LF" "LF \<noteq> CR"
  by (simp_all add: CR_def LF_def)

lemma lines_crlf: "LF \<notin> set l \<Longrightarrow> lines (l @ [CR, LF] @ s) = l # lines s"
  using split_once_append [of LF "l @ [CR]" s]
  by (subst lines.simps) (simp add: strip_suffix_def ends_with_def)

lemma lines_last: "LF \<notin> set l \<Longrightarrow> l \<noteq> [] \<Longrightarrow> lines l = [l]"
  by (subst lines.simps) (auto simp: split_once_def dest: dropWhile_until split: list.splits)

lemma lines_joined: "list_all header_line_ok ls \<Longrightarrow> lines (joined ls) = ls"
proof (induction ls rule: joined.induct)
  case 1
  then show ?case by (subst lines.simps) (simp add: split_once_def)
next
  case (2 l)
  then show ?case by (simp add: header_line_ok_def lines_last)
next
  case (3 l l' ls)
  then show ?case using lines_crlf [of l] by (simp add: header_line_ok_def)
qed

abbreviation blank_line :: string where
  "blank_line \<equiv> [CR, LF, CR, LF]"

lemma find_subslice_line:
  "LF \<notin> set l \<Longrightarrow> find_subslice (l @ CR # s) blank_line = map_option (\<lambda>n. length l + n) (find_subslice (CR # s) blank_line)"
proof (induction l)
  case (Cons c l)
  have "\<not> starts_with (c # l @ CR # s) blank_line"
    using Cons.prems by (cases l) auto
  then have "find_subslice ((c # l) @ CR # s) blank_line = map_option Suc (find_subslice (l @ CR # s) blank_line)"
    by (simp only: append_Cons find_subslice.simps if_False)
  with Cons show ?case by (simp del: find_subslice.simps add: option.map_comp comp_def)
qed (cases "find_subslice (CR # s) blank_line", simp_all del: find_subslice.simps)

lemma find_blank_line:
  assumes "ls \<noteq> []" "list_all header_line_ok ls"
  shows "find_subslice (joined ls @ blank_line @ b) blank_line = Some (length (joined ls))"
  using assms
proof (induction ls rule: joined.induct)
  case (2 l)
  then show ?case using find_subslice_line [of l "LF # CR # LF # b"] by (simp add: header_line_ok_def)
next
  case (3 l l' ls)
  let ?r = "joined (l' # ls) @ blank_line @ b"
  have "\<not> starts_with ?r [CR, LF]"
  proof -
    obtain c t where "l' = c # t" using 3(3) by (cases l') (auto simp: header_line_ok_def)
    moreover from this 3(3) have "c \<noteq> LF" "LF \<notin> set t" by (auto simp: header_line_ok_def)
    ultimately show ?thesis by (cases ls; cases t) auto
  qed
  then have "find_subslice (CR # LF # ?r) blank_line = map_option (\<lambda>n. Suc (Suc n)) (find_subslice ?r blank_line)"
    by (simp add: option.map_comp comp_def)
  with 3 find_subslice_line [of l "LF # ?r"] show ?case
    by (simp add: header_line_ok_def option.map_comp comp_def)
qed simp

lemma parse_block:
  assumes "ls \<noteq> []" "list_all header_line_ok ls" "list_all valid_utf8 ls"
  shows "parse_raw_part (concat (map crlf_line ls) @ [CR, LF] @ b) = Some \<lparr>rp_headers = joined ls, rp_body = b\<rparr>"
proof -
  have "valid_utf8 (joined ls)"
    using assms(3) by (induction ls rule: joined.induct)
      (auto intro!: valid_utf8_append simp: is_ascii_char_def CR_def LF_def code_def)
  with find_blank_line [OF assms(1,2), of b] show ?thesis
    by (simp add: crlf_lines_joined [OF assms(1)] parse_raw_part_def find_header_separator_def)
qed

section \<open>Header values\<close>

text \<open>A line that starts a header of another name, and the folding of continuations.\<close>

definition other_header :: "string \<Rightarrow> string \<Rightarrow> bool" where
  "other_header target l \<longleftrightarrow> is_continuation l \<or>
     (\<exists>n v. split_once CHR '':'' l = Some (n, v) \<and> \<not> eq_ignore_ascii_case (trim n) target)"

lemma header_match_append:
  "split_once CHR '':'' l = Some (n, v) \<Longrightarrow> split_once CHR '':'' (l @ s) = Some (n, v @ s)"
  using split_once_Some [of "CHR '':''" l n v] split_once_append [of "CHR '':''" n "v @ s"] by simp

definition named_other :: "string \<Rightarrow> string option \<Rightarrow> bool" where
  "named_other target current \<longleftrightarrow> (case current of None \<Rightarrow> True | Some cur \<Rightarrow>
     (\<exists>n v. split_once CHR '':'' cur = Some (n, v) \<and> \<not> eq_ignore_ascii_case (trim n) target))"

lemma named_other_found: "named_other target current \<Longrightarrow> header_found target current None = None"
  by (auto simp: named_other_def header_found_def header_match_def split: option.splits)

lemma header_loop_skip:
  assumes "list_all (other_header target) ls" "named_other target current"
  shows "\<exists>c. named_other target c \<and> header_lines_loop target current None (ls @ rest) = header_lines_loop target c None rest"
  using assms
proof (induction ls arbitrary: current)
  case (Cons l ls)
  show ?case
  proof (cases "is_continuation l")
    case True
    have "named_other target (map_option (\<lambda>cur. cur @ '' '' @ trim_start l) current)"
      using Cons.prems(2) by (auto simp: named_other_def dest: header_match_append split: option.splits)
    with Cons True show ?thesis by simp
  next
    case False
    with Cons.prems have "named_other target (Some l)" by (auto simp: named_other_def other_header_def)
    with Cons False named_other_found [OF Cons.prems(2)] show ?thesis by simp
  qed
qed auto

lemma header_loop_keeps: "header_lines_loop target current (Some v) ls = Some v"
  by (induction ls arbitrary: current) (simp_all add: header_found_def)

text \<open>The header's line is followed by another header or by the end.\<close>

lemma header_loop_finds:
  assumes "list_all (other_header target) ls" "named_other target current" "\<not> is_continuation l"
    and "split_once CHR '':'' l = Some (n, v)" "eq_ignore_ascii_case (trim n) target"
    and "rest = [] \<or> \<not> is_continuation (hd rest)"
  shows "header_lines_loop target current None (ls @ l # rest) = Some (trim v)"
proof -
  obtain c where c: "named_other target c" "header_lines_loop target current None (ls @ l # rest) =
      header_lines_loop target c None (l # rest)"
    using header_loop_skip [OF assms(1,2)] by blast
  have "header_found target (Some l) None = Some (trim v)"
    using assms(4,5) by (simp add: header_found_def header_match_def)
  with c assms(3,6) named_other_found [OF c(1)] show ?thesis
    by (cases rest) (simp_all add: header_loop_keeps)
qed

section \<open>The kept headers\<close>

fun kept_lines :: "bool \<Rightarrow> string list \<Rightarrow> string list" where
  "kept_lines keep [] = []"
| "kept_lines keep (l # ls) =
     (let k = (if is_continuation l then keep else \<not> outgoing_content_header l) in
      (if k then [l] else []) @ kept_lines k ls)"

lemma strip_loop_kept: "strip_loop keep ls = concat (map crlf_line (kept_lines keep ls))"
  by (induction keep ls rule: kept_lines.induct) (simp_all add: Let_def crlf_line_def)

lemma kept_lines_set: "set (kept_lines keep ls) \<subseteq> {l \<in> set ls. is_continuation l \<or> \<not> outgoing_content_header l}"
  by (induction keep ls rule: kept_lines.induct) (auto simp: Let_def split: if_splits)

lemma lines_no_LF: "l \<in> set (lines s) \<Longrightarrow> LF \<notin> set l"
proof (induction s rule: lines.induct)
  case (1 s)
  show ?case
  proof (cases "split_once LF s")
    case None
    with 1(2) show ?thesis
      by (subst (asm) lines.simps) (auto simp: split_once_def dest: dropWhile_until split: list.splits if_splits)
  next
    case (Some lr)
    then obtain x r where lr: "split_once LF s = Some (x, r)" by (cases lr) auto
    from split_once_Some [OF lr] have "LF \<notin> set x" by simp
    moreover have "set (case strip_suffix x [CR] of None \<Rightarrow> x | Some l' \<Rightarrow> l') \<subseteq> set x"
      by (auto simp: strip_suffix_def dest: in_set_takeD split: if_splits)
    ultimately show ?thesis
      using 1(1) [OF lr refl] 1(2) lr by (subst (asm) lines.simps) auto
  qed
qed

text \<open>Every line of the block starts a named header or continues one, and none is blank.\<close>

definition header_block_ok :: "string \<Rightarrow> bool" where
  "header_block_ok h \<longleftrightarrow> list_all (\<lambda>l. l \<noteq> [] \<and> (is_continuation l \<or> CHR '':'' \<in> set l)) (lines h)"

definition content_headers :: "string set" where
  "content_headers = {''content-type'', ''content-transfer-encoding'', ''mime-version''}"

lemma content_headers_lower: "\<forall>t\<in>content_headers. to_ascii_lowercase t = t"
  by (simp add: content_headers_def) code_simp

lemma kept_other:
  assumes "header_block_ok h" "target \<in> content_headers" "l \<in> set (kept_lines k (lines h))"
  shows "header_line_ok l" "other_header target l"
proof -
  from assms(3) kept_lines_set have l: "l \<in> set (lines h)" "is_continuation l \<or> \<not> outgoing_content_header l" by auto
  with assms(1) have ok: "l \<noteq> []" "is_continuation l \<or> CHR '':'' \<in> set l"
    by (auto simp: header_block_ok_def list_all_iff)
  with lines_no_LF [OF l(1)] show "header_line_ok l" by (simp add: header_line_ok_def)
  show "other_header target l"
  proof (cases "is_continuation l")
    case False
    with ok obtain n v where s: "split_once CHR '':'' l = Some (n, v)"
      by (auto simp: split_once_def dest!: dropWhile_until)
    with False l(2) have "to_ascii_lowercase (trim n) \<notin> content_headers"
      by (auto simp: outgoing_content_header_def content_headers_def)
    moreover have "to_ascii_lowercase target = target" using assms(2) content_headers_lower by blast
    ultimately show ?thesis using s assms(2) by (auto simp: other_header_def eq_ignore_ascii_case_def)
  qed (simp add: other_header_def)
qed

section \<open>Text\<close>

definition lf_text :: "string \<Rightarrow> string" where
  "lf_text t = replace_all [CR] [LF] (replace_all [CR, LF] [LF] t)"

definition expand :: "string \<Rightarrow> string" where
  "expand s = concat (map (\<lambda>d. if d = LF then [CR, LF] else [d]) s)"

lemma normalize_expand: "normalize_text_to_crlf t = expand (lf_text t)"
  by (simp add: normalize_text_to_crlf_def lf_text_def expand_def replace_char)

lemma lf_text_no_CR: "CR \<notin> set (lf_text t)"
  by (auto simp: lf_text_def replace_char split: if_splits)

lemma collapse_expand: "CR \<notin> set s \<Longrightarrow> replace_all [CR, LF] [LF] (expand s @ t) = s @ replace_all [CR, LF] [LF] t"
  by (induction s) (auto simp: expand_def replace_all.simps(2))

lemma ascii_ends: "is_ascii_char LF" "is_ascii_char CR" "is_ascii [CR, LF]" "is_ascii [LF]"
  by (simp_all add: is_ascii_def is_ascii_char_def LF_def CR_def code_def)

lemma valid_collapse: "valid_utf8 s \<Longrightarrow> valid_utf8 (replace_all [CR, LF] [LF] s)"
proof (induction s rule: utf8_chunks.induct)
  case (2 b0 r)
  then obtain n where n: "utf8_step b0 r = (True, n)" and v: "valid_utf8 (drop n (b0 # r))"
    by (cases "utf8_step b0 r") (auto simp: valid_utf8_Cons)
  have pos: "0 < n" using utf8_step_pos [of b0 r] n by simp
  note step = utf8_step_True [OF n]
  have IH: "valid_utf8 (replace_all [CR, LF] [LF] (drop n (b0 # r)))" using "2.IH" [OF n [symmetric] v] .
  show ?case
  proof (cases "is_ascii_char b0")
    case True
    with n have one: "n = 1" by (simp add: utf8_step_def lead_width_def is_ascii_char_def)
    show ?thesis
    proof (cases "starts_with (b0 # r) [CR, LF]")
      case True
      then obtain r' where "b0 # r = CR # LF # r'" by (auto simp: starts_with_def Cons_eq_append_conv) (metis append_take_drop_id append_Cons)
      with IH one show ?thesis by (simp add: replace_all.simps(2))
    next
      case False
      then have "replace_all [CR, LF] [LF] (b0 # r) = b0 # replace_all [CR, LF] [LF] r"
        by (simp only: replace_all.simps(2) simp_thms if_False)
      with True IH one show ?thesis by simp
    qed
  next
    case False
    have skip: "replace_all [CR, LF] [LF] (cs @ s) = cs @ replace_all [CR, LF] [LF] s" if "list_all (\<lambda>c. c \<noteq> CR) cs" for cs s
      using that by (induction cs) (simp_all add: replace_all.simps(2))
    have "list_all (\<lambda>c. c \<noteq> CR) (b0 # take (n - 1) r)"
      using step(3) False ascii_ends(2) cont_byte_not_ascii by (auto simp: list_all_iff)
    from skip [OF this, of "drop (n - 1) r"]
    have "replace_all [CR, LF] [LF] (b0 # r) = b0 # take (n - 1) r @ replace_all [CR, LF] [LF] (drop (n - 1) r)" by simp
    moreover have "drop n (b0 # take (n - 1) r @ replace_all [CR, LF] [LF] (drop (n - 1) r)) =
        replace_all [CR, LF] [LF] (drop n (b0 # r))"
      using pos step(2) by (cases n) auto
    ultimately show ?thesis
      using IH step(1) [of "replace_all [CR, LF] [LF] (drop (n - 1) r)"] by (simp add: valid_utf8_Cons)
  qed
qed simp

lemma valid_expand: "valid_utf8 s \<Longrightarrow> valid_utf8 (expand s)"
  unfolding expand_def using ascii_ends
  by (intro valid_utf8_subst) (auto simp: is_ascii_def)

lemma valid_lf_text: "valid_utf8 t \<Longrightarrow> valid_utf8 (lf_text t)"
  unfolding lf_text_def replace_char using ascii_ends
  by (intro valid_utf8_subst valid_collapse) (auto simp: is_ascii_def)

text \<open>The encoded text, with or without a line end behind it, decodes to the text.\<close>

lemma encoded_decodes:
  assumes "valid_utf8 t" "nl = [] \<or> nl = [CR, LF]"
    and "header_value (rp_headers p) ''Content-Transfer-Encoding'' = Some (encoding_label (pick_transfer_encoding (normalize_text_to_crlf t)))"
    and "rp_body p = encode_text_body (normalize_text_to_crlf t) (pick_transfer_encoding (normalize_text_to_crlf t)) @ nl"
  shows "decode_text_part dec p = lf_text t @ replace_all [CR, LF] [LF] nl"
proof -
  let ?e = "pick_transfer_encoding (normalize_text_to_crlf t)"
  have "to_ascii_lowercase (trim (encoding_label ?e)) = encoding_label ?e"
    by (cases ?e) (simp_all, code_simp+)
  then have "part_encoding p = encoding_label ?e" using assms(3) by (simp add: part_encoding_def)
  moreover have "decode_quoted_printable nl = nl" using assms(2) by auto
  ultimately have "part_data dec p = normalize_text_to_crlf t @ nl"
    using assms(4) by (cases ?e) (simp_all add: part_data_def encode_text_body_def quoted_printable_encode_def qp_loop_decodes)
  moreover have "valid_utf8 (normalize_text_to_crlf t @ nl)"
    unfolding normalize_expand
    using assms(2) valid_utf8_is_ascii [OF ascii_ends(3)] valid_expand [OF valid_lf_text [OF assms(1)]]
    by (auto intro: valid_utf8_append)
  ultimately show ?thesis
    by (simp add: decode_text_part_def utf8_lossy_valid normalize_expand collapse_expand lf_text_no_CR)
qed

lemma valid_trim_line_ends: "valid_utf8 t \<Longrightarrow> valid_utf8 (trim_line_ends t)"
proof -
  let ?ends = "\<lambda>c. c = CR \<or> c = LF"
  assume v: "valid_utf8 t"
  have t: "t = trim_line_ends t @ rev (takeWhile ?ends (rev t))"
    unfolding trim_line_ends_def by (metis rev_append rev_rev_ident takeWhile_dropWhile_id)
  show ?thesis
  proof (cases "rev (takeWhile ?ends (rev t))")
    case (Cons c cs)
    then have "c \<in> set (takeWhile ?ends (rev t))" by (metis list.set_intros(1) set_rev)
    then have "is_ascii_char c" using ascii_ends by (auto dest: set_takeWhileD)
    with valid_utf8_split [of c "trim_line_ends t" cs] v t Cons show ?thesis by metis
  qed (use t v in simp)
qed

lemma valid_append_signature:
  assumes "valid_utf8 t" "valid_utf8 s"
  shows "valid_utf8 (append_signature_to_body t s)"
  using valid_trim_line_ends [OF assms(1)] valid_lf_text [OF assms(2)] assms(1)
  by (auto simp: append_signature_to_body_def lf_text_def ascii_ends intro!: valid_utf8_append)

lemmas ascii_line = header_line_ok_def is_ascii_def is_ascii_char_def code_def LF_def

lemma mime_line_ok: "header_line_ok ''MIME-Version: 1.0''" "valid_utf8 ''MIME-Version: 1.0''"
  by (simp add: ascii_line, rule valid_utf8_is_ascii, simp add: ascii_line)

lemma text_plain_line_ok:
  "header_line_ok ''Content-Type: text/plain; charset=utf-8''" "valid_utf8 ''Content-Type: text/plain; charset=utf-8''"
  by (simp add: ascii_line, rule valid_utf8_is_ascii, simp add: ascii_line)

definition cte_line :: "text_transfer_encoding \<Rightarrow> string" where
  "cte_line e = ''Content-Transfer-Encoding: '' @ encoding_label e"

lemma cte_line_ok: "header_line_ok (cte_line e)" "valid_utf8 (cte_line e)" "\<not> is_continuation (cte_line e)"
proof -
  have "is_ascii (cte_line e)" by (cases e) (simp_all add: cte_line_def ascii_line)
  then show "valid_utf8 (cte_line e)" by (rule valid_utf8_is_ascii)
qed (cases e; simp add: cte_line_def ascii_line is_continuation_def)+

text \<open>The lines written, read one by one.\<close>

lemmas trim_words = trim_space trim_plain_ends plain_byte_def code_def

lemma written_headers:
  "split_once CHR '':'' ''MIME-Version: 1.0'' = Some (''MIME-Version'', '' 1.0'')"
  "split_once CHR '':'' ''Content-Type: text/plain; charset=utf-8'' = Some (''Content-Type'', '' text/plain; charset=utf-8'')"
  "trim '' 1.0'' = ''1.0''" "trim '' text/plain; charset=utf-8'' = ''text/plain; charset=utf-8''"
  "trim ''MIME-Version'' = ''MIME-Version''" "trim ''Content-Type'' = ''Content-Type''"
  "trim ''Content-Transfer-Encoding'' = ''Content-Transfer-Encoding''"
  by (simp_all add: split_once_def trim_words)

lemma written_encoding:
  "split_once CHR '':'' (cte_line e) = Some (''Content-Transfer-Encoding'', '' '' @ encoding_label e)"
  "trim ('' '' @ encoding_label e) = encoding_label e"
  by (cases e; simp add: cte_line_def split_once_def trim_words)+

lemma lower_names:
  "to_ascii_lowercase ''MIME-Version'' = ''mime-version''" "to_ascii_lowercase ''Content-Type'' = ''content-type''"
  "to_ascii_lowercase ''Content-Transfer-Encoding'' = ''content-transfer-encoding''"
  "to_ascii_lowercase ''content-type'' = ''content-type''"
  "to_ascii_lowercase ''content-transfer-encoding'' = ''content-transfer-encoding''"
  "to_ascii_lowercase ''mime-version'' = ''mime-version''"
  by code_simp+


end
