(* ===== verification/AttachmentFacts.thy ===== *)
theory AttachmentFacts
  imports AssemblyFacts
begin

text \<open>
  Attachments survive the assembly: the file name its quoting, the data its wrapping, and a whole
  part what the daemon's own parser makes of it.
\<close>

section \<open>File names in headers\<close>

definition esc :: "char \<Rightarrow> string" where
  "esc c = (if c = BACKSLASH then [BACKSLASH, BACKSLASH] else if c = QUOTE then [BACKSLASH, QUOTE]
     else if c = CR then [] else if c = LF then '' '' else [c])"

text \<open>What is left of a name: no CR, and a blank for an LF.\<close>

definition clean_filename :: "string \<Rightarrow> string" where
  "clean_filename n = concat (map (\<lambda>c. if c = CR then [] else if c = LF then '' '' else [c]) n)"

lemmas special_chars = BACKSLASH_def QUOTE_def CR_def LF_def

lemma escape_filename_esc: "escape_filename n = concat (map esc n)"
proof (induction n)
  case (Cons c n)
  then show ?case by (simp add: escape_filename_def replace_char esc_def) (auto simp: special_chars)
qed (simp add: escape_filename_def)

lemma esc_cases: "esc c = [BACKSLASH, c] \<and> c \<in> {BACKSLASH, QUOTE} \<or> esc c = [] \<and> c = CR \<or>
    esc c = '' '' \<and> c = LF \<or> esc c = [c] \<and> c \<notin> {BACKSLASH, QUOTE, CR, LF}"
  by (auto simp: esc_def)

lemma decode_escaped: "decode_quoted_value (concat (map esc n) @ QUOTE # t) = Some (clean_filename n)"
proof (induction n)
  case (Cons c n)
  then show ?case using esc_cases [of c] by (auto simp: clean_filename_def special_chars)
qed (simp add: clean_filename_def special_chars)

lemma split_params_escaped:
  "split_params True False cur (concat (map esc n) @ QUOTE # t) =
     split_params False False (cur @ concat (map esc n) @ [QUOTE]) t"
proof (induction n arbitrary: cur)
  case (Cons c n)
  then show ?case using esc_cases [of c] by (auto simp: special_chars)
qed (simp add: special_chars)

lemma split_params_plain:
  "QUOTE \<notin> set s \<Longrightarrow> CHR '';'' \<notin> set s \<Longrightarrow> split_params False False cur (s @ t) = split_params False False (cur @ s) t"
  by (induction s arbitrary: cur) auto

lemma escape_bytes: "CR \<notin> set (escape_filename n)" "LF \<notin> set (escape_filename n)"
proof -
  have "CR \<notin> set (esc c) \<and> LF \<notin> set (esc c)" for c by (simp add: esc_def special_chars)
  then show "CR \<notin> set (escape_filename n)" "LF \<notin> set (escape_filename n)" by (auto simp: escape_filename_esc)
qed

lemma escape_valid: "valid_utf8 n \<Longrightarrow> valid_utf8 (escape_filename n)"
  unfolding escape_filename_esc
  by (intro valid_utf8_subst) (auto simp: esc_def special_chars is_ascii_def is_ascii_char_def code_def)

lemma plain_quote: "plain_byte QUOTE"
  by (simp add: QUOTE_def plain_byte_def code_def)

lemma trim_quoted: "s \<noteq> [] \<Longrightarrow> plain_byte (hd s) \<Longrightarrow> trim (s @ quoted q) = s @ quoted q"
  using plain_quote by (intro trim_plain_ends) (simp_all add: quoted_def)

lemma split_params_steps:
  "split_params False False cur (CHR '';'' # s) = cur # split_params False False [] s"
  "split_params False False cur (QUOTE # s) = split_params True False (cur @ [QUOTE]) s"
  by (simp_all add: special_chars)

text \<open>
  A quoted parameter is read back from the header it is written in, less its line ends, whatever
  else it holds: quotes, backslashes, semicolons or equals signs.
\<close>

lemma quoted_param:
  assumes d: "QUOTE \<notin> set d" "CHR '';'' \<notin> set d"
    and k: "list_all plain_byte k" "k \<noteq> []" "QUOTE \<notin> set k" "CHR '';'' \<notin> set k" "CHR ''='' \<notin> set k" "to_ascii_lowercase k = k"
  shows "extract_quoted_param (d @ CHR '';'' # CHR '' '' # k @ CHR ''='' # quoted (escape_filename v)) k = Some (clean_filename v)"
proof -
  let ?seg = "CHR '' '' # k @ CHR ''='' # quoted (escape_filename v)"
  have "split_params False False [] ?seg = split_params False False (CHR '' '' # k @ ''='') (quoted (escape_filename v))"
    using split_params_plain [of "CHR '' '' # k @ ''=''" "[]" "quoted (escape_filename v)"] k by (simp add: special_chars)
  also have "\<dots> = split_params True False ((CHR '' '' # k @ ''='') @ [QUOTE]) (concat (map esc v) @ QUOTE # [])"
    by (simp only: quoted_def escape_filename_esc append_Cons append_Nil split_params_steps)
  also have "\<dots> = [?seg]"
    unfolding split_params_escaped split_params.simps(1) by (simp add: quoted_def escape_filename_esc)
  finally have seg: "split_params False False [] ?seg = [?seg]" .
  have cut: "split_params_quote_aware (d @ CHR '';'' # ?seg) = [d, ?seg]"
    unfolding split_params_quote_aware_def split_params_plain [OF d] split_params_steps seg by simp
  have "plain_byte (hd (k @ ''=''))" using k(1,2) by (cases k) auto
  then have "trim ?seg = k @ CHR ''='' # quoted (escape_filename v)"
    using trim_quoted [of "k @ ''=''" "escape_filename v"] trim_space [of "k @ CHR ''='' # quoted (escape_filename v)"] by simp
  moreover have "split_once CHR ''='' (k @ CHR ''='' # quoted (escape_filename v)) = Some (k, quoted (escape_filename v))"
    using k(5) by (rule split_once_append)
  moreover have "param_value (quoted (escape_filename v)) = Some (clean_filename v)"
    using plain_quote decode_escaped [of v "[]"] by (simp add: param_value_def quoted_def escape_filename_esc strip_prefix_def)
  moreover have "trim k = k" using k(1) by (rule trim_all_plain)
  ultimately have "find_param k [?seg] = Some (clean_filename v)"
    by (simp add: eq_ignore_ascii_case_def k(6))
  then show ?thesis by (simp only: extract_quoted_param_def cut k(6) list.sel)
qed

lemma filename_header_value:
  "extract_filename (''attachment; filename='' @ quoted (escape_filename name)) = Some (clean_filename name)"
proof -
  have "to_ascii_lowercase ''filename'' = ''filename''" by code_simp
  then show ?thesis
    using quoted_param [of "''attachment''" "''filename''" name]
    by (simp add: extract_filename_def special_chars plain_byte_def code_def)
qed

section \<open>Data\<close>

text \<open>The base64 alphabet is ordinary, and decoding undoes encoding.\<close>

definition base64_laws :: "(bytes \<Rightarrow> string) \<Rightarrow> (string \<Rightarrow> bytes option) \<Rightarrow> bool" where
  "base64_laws enc dec \<longleftrightarrow> (\<forall>d. dec (enc d) = Some d \<and> list_all plain_byte (enc d))"

lemma chars_of_ascii: "list_all is_ascii_char s \<Longrightarrow> utf8_chars s = map (\<lambda>c. [c]) s"
  by (induction s) (auto simp: utf8_chars_def)

lemma wrapped_bytes: "list_all plain_byte (enc d) \<Longrightarrow>
    list_all (\<lambda>c. plain_byte c \<or> c = CR \<or> c = LF) (base64_encode_wrapped enc d w)"
  by (auto simp: base64_encode_wrapped_def list_all_iff enumerate_eq_zip split: if_splits dest!: set_zip_rightD)

lemma plain_no_white: "plain_byte c \<Longrightarrow> [c] \<notin> set white_space"
  using white_space_ends by (auto simp: list_all_iff)

lemma ends_white: "[CR] \<in> set white_space" "[LF] \<in> set white_space"
  by (simp_all add: white_space_def CR_def LF_def)

lemma plain_ends: "\<not> plain_byte CR" "\<not> plain_byte LF"
  by (simp_all add: plain_byte_def CR_def LF_def code_def)

lemma wrapped_unwraps:
  assumes "list_all plain_byte (enc d)"
  shows "filter plain_byte (base64_encode_wrapped enc d w) = enc d"
proof -
  have "filter plain_byte (concat (map (\<lambda>(i, ch). (if 0 < i \<and> i mod w = 0 then [CR, LF] else []) @ [ch]) (enumerate k s))) = s"
    if "list_all plain_byte s" for s k
    using that by (induction s arbitrary: k) (auto simp: plain_ends)
  with assms show ?thesis by (simp add: base64_encode_wrapped_def)
qed

text \<open>Line ends between the characters of an encoding are no matter.\<close>

lemma decode_spread:
  assumes "list_all (\<lambda>c. plain_byte c \<or> c = CR \<or> c = LF) s"
  shows "decode_base64 dec s = dec (filter plain_byte s)"
proof -
  have ascii: "list_all is_ascii_char s"
    using assms by (auto simp: list_all_iff plain_byte_def is_ascii_char_def CR_def LF_def code_def)
  have "filter (\<lambda>c. [c] \<notin> set white_space) s = filter plain_byte s"
    using assms plain_no_white ends_white plain_ends by (intro filter_cong) (auto simp: list_all_iff)
  moreover have "concat (filter (\<lambda>ch. ch \<notin> set white_space) (map (\<lambda>c. [c]) s)) = filter (\<lambda>c. [c] \<notin> set white_space) s" for s
    by (induction s) auto
  ultimately show ?thesis
    using ascii by (simp add: decode_base64_def valid_utf8_is_ascii is_ascii_def chars_of_ascii)
qed

lemma base64_roundtrip:
  assumes "base64_laws enc dec"
  shows "decode_base64 dec (base64_encode_wrapped enc d w) = Some d"
proof -
  from assms have laws: "dec (enc d) = Some d" "list_all plain_byte (enc d)" by (auto simp: base64_laws_def)
  with decode_spread [OF wrapped_bytes [where enc = enc and d = d and w = w, OF laws(2)]]
    wrapped_unwraps [where enc = enc and d = d and w = w, OF laws(2)]
  show ?thesis by simp
qed

section \<open>Whole parts\<close>

definition content_type_ok :: "string \<Rightarrow> bool" where
  "content_type_ok ct \<longleftrightarrow> ct \<noteq> [] \<and> list_all (\<lambda>c. plain_byte c \<and> c \<noteq> CHR '';'') ct"

lemma ct_name: "split_once CHR '':'' (''Content-Type: '' @ s) = Some (''Content-Type'', CHR '' '' # s)"
  "split_once CHR '':'' (''Content-Disposition: '' @ s) = Some (''Content-Disposition'', CHR '' '' # s)"
  by (simp_all add: split_once_def)

lemma plain_not_LF: "\<not> plain_byte LF" "plain_byte c \<Longrightarrow> is_ascii_char c"
  by (simp_all add: plain_byte_def LF_def is_ascii_char_def code_def)

lemma content_type_chars:
  assumes "content_type_ok ct"
  shows "LF \<notin> set ct" "CHR '';'' \<notin> set ct" "valid_utf8 ct" "plain_byte (hd ct)" "ct \<noteq> []" "trim ct = ct"
proof -
  have all: "list_all plain_byte ct" and "ct \<noteq> []" "CHR '';'' \<notin> set ct"
    using assms by (auto simp: content_type_ok_def list_all_iff)
  then show "LF \<notin> set ct" "CHR '';'' \<notin> set ct" "ct \<noteq> []" "plain_byte (hd ct)"
    using plain_not_LF(1) by (auto simp: list_all_iff)
  show "trim ct = ct" using all by (rule trim_all_plain)
  show "valid_utf8 ct"
    using all plain_not_LF(2) by (intro valid_utf8_is_ascii) (auto simp: is_ascii_def list_all_iff)
qed

lemma disposition_lower: "to_ascii_lowercase ''Content-Disposition'' = ''content-disposition''"
  by code_simp

lemma names_differ:
  "eq_ignore_ascii_case (trim ''Content-Type'') ''content-disposition'' = False"
  "eq_ignore_ascii_case (trim ''Content-Type'') ''content-transfer-encoding'' = False"
  "eq_ignore_ascii_case (trim ''Content-Disposition'') ''content-transfer-encoding'' = False"
  by code_simp+

lemma names_same:
  "eq_ignore_ascii_case (trim ''Content-Type'') ''content-type'' = True"
  "eq_ignore_ascii_case (trim ''Content-Disposition'') ''content-disposition'' = True"
  "eq_ignore_ascii_case (trim ''Content-Transfer-Encoding'') ''content-transfer-encoding'' = True"
  by code_simp+

lemma base64_word: "to_ascii_lowercase (trim ''base64'') = ''base64''"
  by code_simp

lemma ascii_quote: "is_ascii_char QUOTE"
  by (simp add: is_ascii_char_def QUOTE_def code_def)

definition attachment_lines :: "string \<Rightarrow> string \<Rightarrow> string list" where
  "attachment_lines ct name =
     [''Content-Type: '' @ ct @ ''; name='' @ quoted (escape_filename name),
      ''Content-Disposition: attachment; filename='' @ quoted (escape_filename name), ''Content-Transfer-Encoding: base64'']"

text \<open>The header lines of an attachment, and what the parser reads in them.\<close>

lemma attachment_lines_ok:
  assumes ct: "content_type_ok ct" and v: "valid_utf8 name"
  shows "list_all header_line_ok (attachment_lines ct name)" "list_all valid_utf8 (attachment_lines ct name)"
proof -
  let ?safe = "quoted (escape_filename name)"
  have safe: "LF \<notin> set ?safe" "valid_utf8 ?safe"
    using escape_bytes(2) ascii_quote valid_utf8_append [OF escape_valid [OF v], of "[QUOTE]"]
    by (simp_all add: quoted_def) (simp_all add: special_chars)
  note ct_chars = content_type_chars [OF ct]
  have tail: "valid_utf8 (ct @ ''; name='' @ ?safe)"
    by (rule valid_utf8_append [OF ct_chars(3)]) (simp add: is_ascii_char_def code_def safe(2))
  show "list_all header_line_ok (attachment_lines ct name)" "list_all valid_utf8 (attachment_lines ct name)"
    using safe ct_chars(1) tail
    by (simp_all add: attachment_lines_def header_line_ok_def LF_def is_ascii_char_def code_def)
qed

lemma attachment_lines_read:
  assumes ct: "content_type_ok ct" and v: "valid_utf8 name" and data: "decode_base64 dec body = Some data"
  shows "parse_attachment_part dec \<lparr>rp_headers = joined (attachment_lines ct name), rp_body = body\<rparr> =
    \<lparr>ap_content_type = ct, ap_filename = clean_filename name, ap_data = data\<rparr>"
proof -
  let ?safe = "quoted (escape_filename name)"
  define l1 where "l1 = ''Content-Type: '' @ ct @ ''; name='' @ ?safe"
  define l2 where "l2 = ''Content-Disposition: '' @ ''attachment; filename='' @ ?safe"
  define l3 where "l3 = ''Content-Transfer-Encoding: base64''"
  have ls: "attachment_lines ct name = [l1, l2, l3]"
    by (simp add: attachment_lines_def l1_def l2_def l3_def)
  note ok = attachment_lines_ok [OF ct v, unfolded ls] and ct_chars = content_type_chars [OF ct]
  let ?p = "\<lparr>rp_headers = joined [l1, l2, l3], rp_body = body\<rparr>"
  have cont: "\<not> is_continuation l1" "\<not> is_continuation l2" "\<not> is_continuation l3"
    by (simp_all add: l1_def l2_def l3_def is_continuation_def)
  have once: "split_once CHR '':'' l1 = Some (''Content-Type'', '' '' @ ct @ ''; name='' @ ?safe)"
    "split_once CHR '':'' l2 = Some (''Content-Disposition'', '' '' @ ''attachment; filename='' @ ?safe)"
    "split_once CHR '':'' l3 = Some (''Content-Transfer-Encoding'', '' base64'')"
    unfolding l1_def l2_def l3_def by (simp_all add: split_once_def)
  have val: "trim ('' '' @ ct @ ''; name='' @ ?safe) = ct @ ''; name='' @ ?safe"
    "trim ('' '' @ ''attachment; filename='' @ ?safe) = ''attachment; filename='' @ ?safe"
    "trim '' base64'' = ''base64''"
    using trim_quoted [of "ct @ ''; name=''" "escape_filename name"] ct_chars(4,5)
      trim_quoted [of "''attachment; filename=''" "escape_filename name"]
    by (simp_all add: trim_words)
  have lines: "lines (joined [l1, l2, l3]) = [l1, l2, l3]" by (rule lines_joined [OF ok(1)])
  have other: "other_header ''content-disposition'' l1" "list_all (other_header ''content-transfer-encoding'') [l1, l2]"
    by (simp_all add: other_header_def once names_differ)
  have hv: "header_value (joined [l1, l2, l3]) ''Content-Type'' = Some (ct @ ''; name='' @ ?safe)"
    "header_value (joined [l1, l2, l3]) ''Content-Disposition'' = Some (''attachment; filename='' @ ?safe)"
    "header_value (joined [l1, l2, l3]) ''Content-Transfer-Encoding'' = Some ''base64''"
    unfolding header_value_def lines lower_names disposition_lower
    using header_loop_finds [of "''content-type''" "[]" None l1 _ _ "[l2, l3]", OF _ _ cont(1) once(1)]
      header_loop_finds [of "''content-disposition''" "[l1]" None l2 _ _ "[l3]", OF _ _ cont(2) once(2)]
      header_loop_finds [of "''content-transfer-encoding''" "[l1, l2]" None l3 _ _ "[]", OF _ _ cont(3) once(3)]
      other cont val
    by (simp_all add: named_other_def names_same)
  have "split_param (ct @ ''; name='' @ ?safe) = (ct, trim (tl (''; name='' @ ?safe)))"
    using split_once_append [OF ct_chars(2), of "'' name='' @ ?safe"] trim_quoted [of "ct @ ''; name=''" "escape_filename name"] ct_chars
    by (simp add: split_param_def)
  moreover have "part_encoding ?p = ''base64''"
    by (simp only: part_encoding_def raw_part.simps hv(3) option.simps base64_word)
  then have "part_data dec ?p = data" using data by (simp add: part_data_def)
  ultimately have "parse_attachment_part dec ?p = \<lparr>ap_content_type = ct, ap_filename = clean_filename name, ap_data = data\<rparr>"
    using hv(1,2) filename_header_value [of name] by (simp only: parse_attachment_part_def raw_part.simps) simp
  then show ?thesis by (simp only: ls)
qed

text \<open>
  an attachment written into the message is read back from its part as it was: content type,
  data, and the file name less its line ends.
\<close>

theorem attachment_part_reads_back:
  assumes laws: "base64_laws enc dec" and ct: "content_type_ok (ap_content_type att)" and v: "valid_utf8 (ap_filename att)"
  shows "\<exists>p. parse_raw_part (attachment_headers att @ [CR, LF] @ base64_encode_wrapped enc (ap_data att) 76) = Some p \<and>
    parse_attachment_part dec p = att\<lparr>ap_filename := clean_filename (ap_filename att)\<rparr>"
proof -
  let ?ls = "attachment_lines (ap_content_type att) (ap_filename att)"
  have hdrs: "attachment_headers att = concat (map crlf_line ?ls)"
    by (simp add: attachment_headers_def attachment_lines_def Let_def)
  have "?ls \<noteq> []" by (simp add: attachment_lines_def)
  from parse_block [OF this attachment_lines_ok [OF ct v]] attachment_lines_read [OF ct v base64_roundtrip [OF laws]]
  show ?thesis unfolding hdrs by simp
qed

section \<open>The theorems at concrete messages\<close>

definition demo_enc :: "bytes \<Rightarrow> string" where
  "demo_enc d = concat (map (\<lambda>c. [hex_upper (code c div 16), hex_upper (code c mod 16)]) d)"

fun demo_dec :: "string \<Rightarrow> bytes option" where
  "demo_dec [] = Some []"
| "demo_dec [c] = None"
| "demo_dec (c # d # s) =
     (case (hex_value c, hex_value d, demo_dec s) of
        (Some h, Some l, Some bs) \<Rightarrow> Some (char_of (h * 16 + l) # bs)
      | _ \<Rightarrow> None)"

lemma hex_upper_plain: "n < 16 \<Longrightarrow> plain_byte (hex_upper n)"
  by (simp add: plain_byte_def hex_upper_def)

lemma demo_base64: "base64_laws demo_enc demo_dec"
proof -
  have "demo_dec (demo_enc d) = Some d" for d
  proof (induction d)
    case (Cons c d)
    have "char_of (code c div 16 * 16 + code c mod 16) = c" by (simp add: code_def)
    with Cons code_nibbles [of c] show ?case by (simp add: demo_enc_def hex_value_upper)
  qed (simp add: demo_enc_def)
  moreover have "list_all plain_byte (demo_enc d)" for d
    by (induction d) (simp_all add: demo_enc_def hex_upper_plain code_nibbles)
  ultimately show ?thesis by (simp add: base64_laws_def)
qed

definition demo_wire :: wire_env where
  "demo_wire = \<lparr>we_html = (\<lambda>s. s), we_enc = demo_enc, we_dec = demo_dec, we_outer = ''b1'', we_inner = ''b2''\<rparr>"

definition demo_attachment :: attachment_part where
  "demo_attachment = \<lparr>ap_content_type = ''text/plain'', ap_filename = QUOTE # ''a;b'' @ [BACKSLASH, LF], ap_data = ''hi''\<rparr>"

theorem attachment_part_reads_back_witness:
  "\<exists>p. parse_raw_part (attachment_headers demo_attachment @ [CR, LF] @ base64_encode_wrapped demo_enc ''hi'' 76) = Some p \<and>
    ap_filename (parse_attachment_part demo_dec p) = QUOTE # ''a;b'' @ [BACKSLASH, CHR '' '']"
proof -
  have "content_type_ok (ap_content_type demo_attachment)"
    by (simp add: demo_attachment_def content_type_ok_def plain_byte_def code_def)
  moreover have "valid_utf8 (ap_filename demo_attachment)"
    by (rule valid_utf8_is_ascii) (simp add: demo_attachment_def is_ascii_def is_ascii_char_def special_chars code_def)
  moreover have "clean_filename (ap_filename demo_attachment) = QUOTE # ''a;b'' @ [BACKSLASH, CHR '' '']"
    by (simp add: demo_attachment_def clean_filename_def special_chars)
  ultimately show ?thesis
    using attachment_part_reads_back [OF demo_base64, of demo_attachment] by (auto simp: demo_attachment_def)
qed

definition demo_submission :: bytes where
  "demo_submission = ''From: alice@d.io'' @ [CR, LF] @ ''Content-Type: text/html'' @ [CR, LF, CR, LF] @ ''hello''"

lemma demo_split: "split_headers_body demo_submission =
    Inr (''From: alice@d.io'' @ [CR, LF] @ ''Content-Type: text/html'', ''hello'')"
  by code_simp

lemma demo_parts: "extract_markdown_and_attachments demo_dec (''From: alice@d.io'' @ [CR, LF] @ ''Content-Type: text/html'') ''hello'' =
    (''hello'', [])"
  by code_simp

lemma demo_block: "header_block_ok (''From: alice@d.io'' @ [CR, LF] @ ''Content-Type: text/html'')"
  "valid_utf8 (''From: alice@d.io'' @ [CR, LF] @ ''Content-Type: text/html'')" "valid_utf8 ''hello''"
  by code_simp+


text \<open>
  a submission whose header lines end in bare LFs and whose body holds a blank CRLF line is cut
  at that later line: the blank LF line ends the headers that recipients see, and the MIME headers
  the daemon adds land in the body.
\<close>

theorem lf_submission_loses_mime_headers:
  assumes "split_headers_body request = Inr (h, b)" "extract_markdown_and_attachments (we_dec env) h b = (text, atts)"
    and "lines h = ls @ [] # rest" "kept_lines True ls \<noteq> []" "list_all (\<lambda>l. l \<noteq> []) ls" "list_all (Not \<circ> is_continuation) ls"
    and "assemble_wire_message env request signature text_only html_body = Inr out"
  shows "find_header_separator out = Some (length (joined (kept_lines True ls)), 4)"
proof -
  have kept: "kept_lines k (ls @ [] # rest) = kept_lines k ls @ [] # kept_lines True rest" for k
    using assms(6) by (induction ls arbitrary: k) (auto simp: Let_def is_continuation_def outgoing_content_header_def split_once_def)
  obtain more where out: "out = strip_outgoing_content_headers h @ more"
    using assms(7) by (auto simp: assemble_wire_message_def assms(1,2) Let_def split: sum.splits option.splits if_splits)
  have "list_all header_line_ok (kept_lines True ls)"
    using assms(3,5) kept_lines_set [of True ls] lines_no_LF [of _ h]
    by (fastforce simp: list_all_iff header_line_ok_def)
  moreover have "strip_outgoing_content_headers h =
      joined (kept_lines True ls) @ blank_line @ concat (map crlf_line (kept_lines True rest))"
    by (simp add: strip_outgoing_content_headers_def strip_loop_kept assms(3) kept crlf_lines_joined [OF assms(4)])
      (simp add: crlf_line_def)
  ultimately show ?thesis
    using find_blank_line [OF assms(4)] by (simp add: out find_header_separator_def)
qed

definition demo_lf_submission :: bytes where
  "demo_lf_submission = ''From: alice@d.io'' @ [LF, LF] @ ''see:'' @ [CR, LF, CR, LF] @ ''attached''"

theorem lf_submission_loses_mime_headers_witness:
  "\<exists>out. assemble_wire_message demo_wire demo_lf_submission [] True None = Inr out \<and>
    find_header_separator out = Some (16, 4)"
proof -
  have cut: "split_headers_body demo_lf_submission = Inr (''From: alice@d.io'' @ [LF, LF] @ ''see:'', ''attached'')"
    by code_simp
  have parts: "extract_markdown_and_attachments (we_dec demo_wire) (''From: alice@d.io'' @ [LF, LF] @ ''see:'') ''attached'' = (''attached'', [])"
    by code_simp
  have l: "lines (''From: alice@d.io'' @ [LF, LF] @ ''see:'') = [''From: alice@d.io''] @ [] # [''see:'']"
    by code_simp
  have k: "kept_lines True [''From: alice@d.io''] = [''From: alice@d.io'']" by code_simp
  have c: "list_all (Not \<circ> is_continuation) [''From: alice@d.io'']" by code_simp
  obtain out where "assemble_wire_message demo_wire demo_lf_submission [] True None = Inr out"
    unfolding assemble_wire_message_def cut sum.case prod.case parts Let_def by (simp only: if_True sum.case)
  with lf_submission_loses_mime_headers [OF cut parts l _ _ c, of "[]" True None out] k show ?thesis by simp
qed

end
