(* ===== verification/MultipartFacts.thy ===== *)
theory MultipartFacts
  imports AttachmentFacts
begin

text \<open>
  Splitting a multipart body (\<open>split_multipart_body\<close> of \<open>src/wire_assembly.rs\<close>) at the boundary
  lines of a writer that keeps its boundary out of the parts: the parts come back one by one, less
  the line ends they close with, and a part left with no body by that is dropped.
\<close>

section \<open>Where the boundary is found\<close>

text \<open>A text that ends a line keeps a needle without line feeds from reaching beyond it.\<close>

definition closed_text :: "bytes \<Rightarrow> bytes \<Rightarrow> bool" where
  "closed_text n x \<longleftrightarrow> find_subslice x n = None \<and> (x = [] \<or> last x = LF)"

lemma find_first:
  assumes "closed_text n x" "LF \<notin> set n" "n \<noteq> []"
  shows "find_subslice (x @ n @ r) n = Some (length x)"
  using assms(1)
proof (induction x)
  case Nil
  then show ?case using assms(3) by (cases n) (simp_all add: starts_with_def)
next
  case (Cons c x)
  have none: "find_subslice x n = None" "\<not> starts_with (c # x) n"
    using Cons.prems by (auto simp: closed_text_def split: if_splits)
  have "\<not> starts_with ((c # x) @ n @ r) n"
  proof
    assume s: "starts_with ((c # x) @ n @ r) n"
    then have t: "take (length n) ((c # x) @ n @ r) = n" by (simp only: starts_with_def)
    show False
    proof (cases "length n \<le> length (c # x)")
      case True
      with t none(2) show False by (simp only: starts_with_def take_append) simp
    next
      case False
      then have "set (c # x) \<subseteq> set n"
        using t by (metis append_take_drop_id le_cases set_append subset_refl sup_ge1 take_all take_append Un_upper1)
      moreover have "LF \<in> set (c # x)" using Cons.prems last_in_set [of "c # x"] by (auto simp: closed_text_def)
      ultimately show False using assms(2) by blast
    qed
  qed
  moreover have "closed_text n x" using Cons.prems none by (cases x) (auto simp: closed_text_def)
  ultimately show ?case using Cons.IH by simp
qed

lemma find_none: "find_subslice x n = None \<Longrightarrow> find_line_starts (p @ x) n (length p) = []"
  by (subst find_line_starts.simps) simp

text \<open>The text after each of the boundaries, and the places of the boundaries.\<close>

fun bounded :: "bytes \<Rightarrow> bytes list \<Rightarrow> bytes" where
  "bounded n [] = []"
| "bounded n (x # xs) = n @ x @ bounded n xs"

fun starts :: "bytes \<Rightarrow> nat \<Rightarrow> bytes list \<Rightarrow> nat list" where
  "starts n p [] = []"
| "starts n p (x # xs) = p # starts n (p + length n + length x) xs"

lemma find_line_starts_bounded:
  assumes n: "LF \<notin> set n" "n \<noteq> []"
  shows "closed_text n x \<Longrightarrow> list_all (\<lambda>y. closed_text n y \<and> y \<noteq> []) xs \<Longrightarrow> x \<noteq> [] \<or> p = [] \<Longrightarrow>
    find_line_starts (p @ x @ bounded n xs) n (length p) = starts n (length p + length x) xs"
proof (induction xs arbitrary: p x)
  case Nil
  then show ?case using find_none [of x n p] by (simp add: closed_text_def)
next
  case (Cons y ys)
  let ?bs = "p @ x @ bounded n (y # ys)"
  have found: "find_subslice (x @ n @ y @ bounded n ys) n = Some (length x)"
    by (rule find_first [OF Cons.prems(1) n])
  have start: "length p + length x = 0 \<or> ?bs ! (length p + length x - 1) = LF"
  proof (cases x rule: rev_cases)
    case (snoc x' c)
    with Cons.prems(1) have "c = LF" by (simp add: closed_text_def)
    with snoc show ?thesis by (simp add: nth_append)
  qed (use Cons.prems(3) in simp)
  have "find_line_starts ?bs n (length p) =
      (length p + length x) # find_line_starts ?bs n (length p + length x + length n)"
    using n found start by (subst find_line_starts.simps) simp
  also have "find_line_starts ?bs n (length p + length x + length n) =
      find_line_starts ((p @ x @ n) @ y @ bounded n ys) n (length (p @ x @ n))" by (simp add: add.assoc)
  also have "\<dots> = starts n (length (p @ x @ n) + length y) ys"
    using Cons.prems(2) by (intro Cons.IH) auto
  finally show ?case by (simp add: add.assoc)
qed

section \<open>The parts\<close>

text \<open>What \<open>parts_loop\<close> makes of the texts after the boundaries: those up to the closing one, each parsed.\<close>

definition part_of :: "bytes \<Rightarrow> raw_part list" where
  "part_of s = (case parse_raw_part (trim_trailing_crlf s) of None \<Rightarrow> [] | Some p \<Rightarrow> [p])"

lemma find_LF_line: "LF \<notin> set n \<Longrightarrow> find_subslice (n @ CR # LF # s) [LF] = Some (Suc (length n))"
  by (induction n) (auto simp: CR_def LF_def)

lemma parts_loop_bounded:
  assumes n: "LF \<notin> set n" and c: "close = n @ ''--''" and last: "last_text = ''--'' @ t"
  shows "list_all (\<lambda>s. s \<noteq> []) ss \<Longrightarrow>
    parts_loop (p @ bounded n (map (\<lambda>s. CR # LF # s) ss @ [last_text])) close
      (starts n (length p) (map (\<lambda>s. CR # LF # s) ss @ [last_text])) = concat (map part_of ss)"
proof (induction ss arbitrary: p)
  case (Cons s ss)
  let ?rest = "map (\<lambda>s. CR # LF # s) ss @ [last_text]"
  let ?bs = "p @ bounded n ((CR # LF # s) # ?rest)" and ?q = "p @ n @ CR # LF # s"
  have bs: "?bs = ?q @ bounded n ?rest" by simp
  have st: "starts n (length p) ((CR # LF # s) # ?rest) = length p # starts n (length ?q) ?rest" by (simp add: add.assoc)
  obtain ys where ys: "starts n (length ?q) ?rest = length ?q # ys" by (cases ?rest) auto
  have window: "drop (length p) (take (length ?q) ?bs) = n @ CR # LF # s"
    unfolding bs by simp
  have part: "drop (length p + Suc (length n) + 1) (take (length ?q) ?bs) = s"
    unfolding bs by simp
  have closing: "starts_with (drop (length ?q) ?bs) close \<longleftrightarrow> ss = []"
    unfolding bs c by (cases ss) (simp_all add: last starts_with_def CR_def)
  have "parts_loop ?bs close (length p # length ?q # ys) =
      (if ss = [] then part_of s else part_of s @ parts_loop ?bs close (length ?q # ys))"
    using window part closing Cons.prems find_LF_line [OF n, of s]
    by (simp add: part_of_def Let_def)
  also have "parts_loop ?bs close (length ?q # ys) = concat (map part_of ss)"
    using Cons.IH [of ?q] Cons.prems unfolding bs ys [symmetric] by simp
  finally have "parts_loop ?bs close (starts n (length p) ((CR # LF # s) # ?rest)) = concat (map part_of (s # ss))"
    unfolding st ys by (cases ss) simp_all
  then show ?case by simp
qed (simp add: last)

section \<open>The whole body\<close>

lemma starts_length: "length (starts n p xs) = length xs"
  by (induction n p xs rule: starts.induct) simp_all

lemma split_parts:
  "find_line_starts body (''--'' @ boundary) 0 = qs \<Longrightarrow> length qs \<noteq> 1 \<Longrightarrow>
   split_multipart_body body boundary = parts_loop body (''--'' @ boundary @ ''--'') qs"
  unfolding split_multipart_body_def Let_def by (auto simp del: parts_loop.simps split: list.split)

text \<open>A body written with a boundary that is in none of the parts.\<close>

definition multipart_text :: "string \<Rightarrow> bytes list \<Rightarrow> bytes" where
  "multipart_text boundary ss =
     concat (map (\<lambda>s. crlf_line (''--'' @ boundary) @ s) ss) @ crlf_line (''--'' @ boundary @ ''--'')"

lemma multipart_bounded:
  "multipart_text boundary ss =
     bounded (''--'' @ boundary) (map (\<lambda>s. CR # LF # s) ss @ [''--'' @ [CR, LF]])"
  by (induction ss) (simp_all add: multipart_text_def crlf_line_def)

theorem split_multipart_text:
  assumes b: "boundary \<noteq> []" "LF \<notin> set boundary" "CR \<notin> set boundary"
    and ss: "list_all (\<lambda>s. s \<noteq> [] \<and> last s = LF \<and> find_subslice s (''--'' @ boundary) = None) ss" "ss \<noteq> []"
  shows "split_multipart_body (multipart_text boundary ss) boundary = concat (map part_of ss)"
proof -
  let ?n = "''--'' @ boundary" and ?last = "''--'' @ [CR, LF]"
  let ?xs = "map (\<lambda>s. CR # LF # s) ss @ [?last]"
  have n: "LF \<notin> set ?n" "?n \<noteq> []" using b(2) by (simp_all add: LF_def)
  have ends: "find_subslice ?last ?n = None"
    using b by (cases boundary) (auto simp: starts_with_def CR_def LF_def)
  have closed: "list_all (\<lambda>y. closed_text ?n y \<and> y \<noteq> []) ?xs"
    using ss(1) ends by (auto simp: closed_text_def list_all_iff CR_def LF_def starts_with_def)
  have starts: "find_line_starts (bounded ?n ?xs) ?n 0 = starts ?n 0 ?xs"
    using find_line_starts_bounded [OF n, of "[]" ?xs "[]"] closed by (simp add: closed_text_def)
  have parts: "parts_loop (bounded ?n ?xs) (?n @ ''--'') (starts ?n 0 ?xs) = concat (map part_of ss)"
    using parts_loop_bounded [OF n(1) refl refl, of ss "[]" "[CR, LF]"] ss(1) by (simp add: list_all_iff)
  have "length (starts ?n 0 ?xs) \<noteq> 1" using ss(2) by (simp add: starts_length)
  from split_parts [OF starts this] parts show ?thesis
    unfolding multipart_bounded append_assoc by simp
qed

section \<open>One part\<close>

lemma trim_line_ends_Nil_iff: "trim_line_ends t = [] \<longleftrightarrow> set t \<subseteq> {CR, LF}"
  by (auto simp: trim_line_ends_def)

lemma trim_line_ends_append:
  "trim_line_ends (a @ t) = (if trim_line_ends t = [] then trim_line_ends a else a @ trim_line_ends t)"
  by (auto simp: trim_line_ends_def dropWhile_append)

lemma trim_line_ends_id: "s \<noteq> [] \<Longrightarrow> last s \<notin> {CR, LF} \<Longrightarrow> trim_line_ends s = s"
  by (cases s rule: rev_cases) (auto simp: trim_line_ends_def)

lemma find_without_LF: "LF \<notin> set l \<Longrightarrow> LF \<in> set n \<Longrightarrow> find_subslice l n = None"
proof (induction l)
  case (Cons c l)
  have "\<not> starts_with (c # l) n"
  proof
    assume "starts_with (c # l) n"
    then have "set n \<subseteq> set (c # l)" unfolding starts_with_def by (metis set_take_subset)
    with Cons.prems show False by blast
  qed
  with Cons show ?case by simp
qed auto

lemma no_LF_LF_line: "LF \<notin> set l \<Longrightarrow> find_subslice (l @ CR # s) [LF, LF] = map_option (\<lambda>n. Suc (length l + n)) (find_subslice s [LF, LF])"
proof (induction l)
  case Nil
  then show ?case by (simp add: CR_def LF_def)
next
  case (Cons c l)
  then show ?case by (auto simp: option.map_comp comp_def)
qed

lemma joined_no_blank:
  "list_all header_line_ok ls \<Longrightarrow> find_subslice (joined ls) blank_line = None \<and> find_subslice (joined ls) [LF, LF] = None"
proof (induction ls rule: joined.induct)
  case (2 l)
  then show ?case by (simp add: header_line_ok_def find_without_LF)
next
  case (3 l l' ls)
  let ?r = "joined (l' # ls)"
  obtain c t where r: "?r = c # t" "c \<noteq> LF"
    using 3(2) by (cases l'; cases ls) (auto simp: header_line_ok_def)
  have "\<not> starts_with ?r [CR, LF]"
  proof -
    obtain d u where "l' = d # u" using 3(2) by (cases l') (auto simp: header_line_ok_def)
    moreover from this 3(2) have "d \<noteq> LF" "LF \<notin> set u" by (auto simp: header_line_ok_def)
    ultimately show ?thesis by (cases ls; cases u) auto
  qed
  then have a: "find_subslice (CR # LF # ?r) blank_line = None" using 3 by simp
  have b: "find_subslice (LF # ?r) [LF, LF] = None" using 3 r by simp
  have l: "LF \<notin> set l" using 3(2) by (simp add: header_line_ok_def)
  show ?case
    using find_subslice_line [OF l, of "LF # ?r"] no_LF_LF_line [OF l, of "LF # ?r"] a b by simp
qed simp

lemma part_of_body:
  assumes "hdrs \<noteq> []" "list_all header_line_ok hdrs" "list_all valid_utf8 hdrs" "trim_line_ends t \<noteq> []"
  shows "part_of (concat (map crlf_line hdrs) @ [CR, LF] @ t) =
    [\<lparr>rp_headers = joined hdrs, rp_body = trim_line_ends t\<rparr>]"
  using parse_block [OF assms(1-3), of "trim_line_ends t"] assms(4)
  by (simp add: part_of_def trim_trailing_crlf_def trim_line_ends_append [of "concat (map crlf_line hdrs) @ [CR, LF]", simplified])

lemma part_of_blank:
  assumes "hdrs \<noteq> []" "list_all header_line_ok hdrs" "last (last hdrs) \<noteq> CR" "trim_line_ends t = []"
  shows "part_of (concat (map crlf_line hdrs) @ [CR, LF] @ t) = []"
proof -
  have ends: "joined hdrs \<noteq> [] \<and> last (joined hdrs) = last (last hdrs)"
    using assms(1,2) by (induction hdrs rule: joined.induct) (auto simp: header_line_ok_def)
  have "last hdrs \<in> set hdrs" using assms(1) by simp
  then have "last hdrs \<noteq> [] \<and> LF \<notin> set (last hdrs)"
    using assms(2) by (auto simp: list_all_iff header_line_ok_def)
  then have "last (last hdrs) \<noteq> LF" by (metis last_in_set)
  with ends assms(3) have "trim_line_ends (joined hdrs) = joined hdrs" by (intro trim_line_ends_id) auto
  moreover have "set [CR, LF, CR, LF] \<subseteq> {CR, LF}" by simp
  ultimately have "trim_trailing_crlf (concat (map crlf_line hdrs) @ [CR, LF] @ t) = joined hdrs"
    using assms(4) unfolding crlf_lines_joined [OF assms(1)] trim_trailing_crlf_def append_assoc
    by (subst trim_line_ends_append) (auto simp: trim_line_ends_Nil_iff)
  with joined_no_blank [OF assms(2)] show ?thesis
    by (simp add: part_of_def parse_raw_part_def find_header_separator_def)
qed

end
