(* ===== verification/ComposeFacts.thy ===== *)
theory ComposeFacts
  imports Compose MultipartFacts
begin

text \<open>
  What the daemon makes of a composed submission: its header block holds one line per header and
  nothing of the values injects another, its parts are unpacked to the body and the attachments,
  and what is lost on the way.
\<close>

section \<open>The header block\<close>

text \<open>The date and the UUIDs.\<close>

definition compose_env_ok :: "compose_env \<Rightarrow> bool" where
  "compose_env_ok env \<longleftrightarrow> list_all (\<lambda>c. plain_byte c \<or> c = CHR '' '') (co_date env) \<and> list_all plain_byte (co_uuid env) \<and>
     list_all (\<lambda>c. is_ascii_lowercase c \<or> is_ascii_digit c) (co_boundary_uuid env)"

text \<open>The header lines of a submission.\<close>

definition header_lines :: "compose_env \<Rightarrow> send_args \<Rightarrow> string list" where
  "header_lines env args =
     common_headers args (co_date env) (message_id_of env args) @
     (if sa_attachments args = [] then []
      else [''Content-Type: multipart/mixed; boundary='' @ quoted (''aimx-'' @ co_boundary_uuid env)])"

text \<open>One name each, in the order of the message.\<close>

definition header_names :: "send_args \<Rightarrow> string list" where
  "header_names args =
     [''From'', ''To'', ''Subject'', ''Date'', ''Message-ID''] @
     (if sa_reply_to args = None then [] else [''In-Reply-To'', ''References'']) @
     [''MIME-Version''] @ (if sa_attachments args = [] then [] else [''Content-Type''])"

lemma sanitized_lines: "CR \<notin> set (sanitize_header_value v)" "LF \<notin> set (sanitize_header_value v)"
  by (simp_all add: sanitize_header_value_def)

lemma sanitized_id: "validate_header_value name v = Inr u \<Longrightarrow> sanitize_header_value v = v"
  by (auto simp: validate_header_value_def sanitize_header_value_def filter_id_conv split: if_splits)

lemma message_id_set: "set (normalize_message_id v) \<subseteq> set v \<union> {CHR ''<'', CHR ''>''}"
  using trim_subset [of v] by (auto simp: normalize_message_id_def Let_def)

lemma message_id_domain_set: "set (message_id_domain v) \<subseteq> set v \<union> set ''localhost''"
  by (auto simp: message_id_domain_def split: option.splits dest!: split_once_Some)

text \<open>Each line is a name, a colon and a value without line feeds.\<close>

definition named_line :: "string \<Rightarrow> string \<Rightarrow> bool" where
  "named_line l n \<longleftrightarrow> (\<exists>v. l = n @ CHR '':'' # CHR '' '' # v \<and> LF \<notin> set v)"

lemma header_lines_named:
  assumes "compose_env_ok env"
  shows "list_all2 named_line (header_lines env args) (header_names args)"
proof -
  have ch: "\<not> plain_byte LF" "LF \<noteq> CHR '' ''" "\<not> is_ascii_lowercase LF" "\<not> is_ascii_digit LF"
    by (simp_all add: plain_ends) (simp_all add: LF_def byte_defs)
  have date: "LF \<notin> set (co_date env)" "LF \<notin> set (co_uuid env)" "LF \<notin> set (co_boundary_uuid env)"
    using assms ch by (auto simp: compose_env_ok_def list_all_iff)
  have mid: "LF \<notin> set (message_id_of env args)"
    using date(2) message_id_domain_set [of "sanitize_header_value (sa_from args)"] sanitized_lines(2) [of "sa_from args"]
    by (auto simp: message_id_of_def LF_def)
  have rid: "LF \<notin> set (normalize_message_id (sanitize_header_value v))" for v
    using message_id_set [of "sanitize_header_value v"] sanitized_lines(2) [of v] by (auto simp: LF_def)
  have line: "named_line (n @ CHR '':'' # CHR '' '' # v) n" if "LF \<notin> set v" for n v
    using that by (auto simp: named_line_def)
  have "list_all2 named_line (common_headers args (co_date env) (message_id_of env args))
     ([''From'', ''To'', ''Subject'', ''Date'', ''Message-ID''] @
     (if sa_reply_to args = None then [] else [''In-Reply-To'', ''References'']) @ [''MIME-Version''])"
    using line [of "sanitize_header_value (sa_from args)" "''From''"] line [of "sanitize_header_value (sa_to args)" "''To''"]
      line [of "sanitize_header_value (sa_subject args)" "''Subject''"] line [OF date(1), of "''Date''"]
      line [OF mid, of "''Message-ID''"] line [OF rid, of "''In-Reply-To''"] line [OF rid, of "''References''"]
      line [of "sanitize_header_value v" "''References''" for v] line [of "''1.0''" "''MIME-Version''"] sanitized_lines
    by (auto simp: common_headers_def reply_headers_def Let_def LF_def split: option.split)
  moreover have "named_line (''Content-Type: multipart/mixed; boundary='' @ quoted (''aimx-'' @ co_boundary_uuid env)) ''Content-Type''"
    using line [of "''multipart/mixed; boundary='' @ quoted (''aimx-'' @ co_boundary_uuid env)" "''Content-Type''"] date(3)
    by (simp add: quoted_def LF_def QUOTE_def)
  then have "list_all2 named_line
      (if sa_attachments args = [] then [] else [''Content-Type: multipart/mixed; boundary='' @ quoted (''aimx-'' @ co_boundary_uuid env)])
      (if sa_attachments args = [] then [] else [''Content-Type''])" by simp
  ultimately have "list_all2 named_line (header_lines env args)
      (([''From'', ''To'', ''Subject'', ''Date'', ''Message-ID''] @
        (if sa_reply_to args = None then [] else [''In-Reply-To'', ''References'']) @ [''MIME-Version'']) @
       (if sa_attachments args = [] then [] else [''Content-Type'']))"
    unfolding header_lines_def by (rule list_all2_appendI)
  then show ?thesis by (simp only: header_names_def append_assoc)
qed

lemma named_lines_ok: "list_all2 named_line ls ns \<Longrightarrow> list_all (\<lambda>n. n \<noteq> [] \<and> LF \<notin> set n) ns \<Longrightarrow> list_all header_line_ok ls"
  by (induction rule: list_all2_induct) (auto simp: named_line_def header_line_ok_def LF_def)

lemma named_lines_split:
  "list_all2 named_line ls ns \<Longrightarrow> list_all (\<lambda>n. CHR '':'' \<notin> set n) ns \<Longrightarrow>
   map (\<lambda>l. map_option fst (split_once CHR '':'' l)) ls = map Some ns"
  by (induction rule: list_all2_induct) (auto simp: named_line_def split_once_append)

lemma header_lines_ok: "compose_env_ok env \<Longrightarrow> list_all header_line_ok (header_lines env args)" "header_lines env args \<noteq> []"
  using named_lines_ok [OF header_lines_named, of env args]
  by (auto simp: header_names_def header_lines_def common_headers_def LF_def)

section \<open>The message as the daemon cuts it\<close>

lemma split_block:
  assumes "ls \<noteq> []" "list_all header_line_ok ls" "list_all valid_utf8 ls" "length (joined ls) \<le> MAX_HEADER_BLOCK_BYTES"
  shows "split_headers_body (concat (map crlf_line ls) @ [CR, LF] @ b) = Inr (joined ls, b)"
  using parse_block [OF assms(1-3), of b] find_blank_line [OF assms(1,2), of b] assms(4)
  by (simp add: crlf_lines_joined [OF assms(1)] split_headers_body_def parse_raw_part_def find_header_separator_def
      split: if_splits)

text \<open>What follows the header block.\<close>

definition submission_body :: "compose_env \<Rightarrow> send_args \<Rightarrow> string \<Rightarrow> bytes" where
  "submission_body env args parts =
     (let boundary = ''aimx-'' @ co_boundary_uuid env in
      if sa_attachments args = [] then crlf_line (normalize_crlf (sa_body args))
      else text_plain_part boundary (normalize_crlf (sa_body args)) @ parts @ crlf_line (''--'' @ boundary @ ''--''))"

lemma compose_request_Inr:
  assumes "compose_request env args = Inr message"
  obtains parts where "write_attachments_loop env (''aimx-'' @ co_boundary_uuid env) (sa_attachments args) = Inr parts"
    "message = concat (map crlf_line (header_lines env args)) @ [CR, LF] @ submission_body env args parts"
    "sanitize_header_value (sa_from args) = sa_from args"
  using assms
  by (auto simp: compose_request_def write_common_headers_def header_lines_def submission_body_def Let_def
      sanitized_id crlf_line_def split: sum.splits if_splits intro: that)


section \<open>The parts of a submission\<close>

definition raw_name :: "string \<Rightarrow> string" where
  "raw_name path = (case file_name path of Some n \<Rightarrow> if valid_utf8 n then n else ''attachment'' | None \<Rightarrow> ''attachment'')"

definition file_data :: "compose_env \<Rightarrow> string \<Rightarrow> bytes" where
  "file_data env path = (case co_read env path of Inl _ \<Rightarrow> [] | Inr d \<Rightarrow> d)"

definition text_part_text :: "send_args \<Rightarrow> bytes" where
  "text_part_text args =
     concat (map crlf_line [''Content-Type: text/plain; charset=utf-8'']) @ [CR, LF] @ crlf_line (normalize_crlf (sa_body args))"

definition file_part_text :: "compose_env \<Rightarrow> string \<Rightarrow> bytes" where
  "file_part_text env path =
     concat (map crlf_line (attachment_lines (co_mime env path) (raw_name path))) @ [CR, LF] @
     encoded_block (co_enc env (file_data env path))"

definition part_texts :: "compose_env \<Rightarrow> send_args \<Rightarrow> bytes list" where
  "part_texts env args = text_part_text args # map (file_part_text env) (sa_attachments args)"

lemma write_attachments_parts:
  "write_attachments_loop env b paths = Inr parts \<Longrightarrow>
   parts = concat (map (\<lambda>s. crlf_line (''--'' @ b) @ s) (map (file_part_text env) paths))"
proof (induction paths arbitrary: parts)
  case (Cons path paths)
  then obtain d rest where d: "co_read env path = Inr d" and rest: "write_attachments_loop env b paths = Inr rest"
    and parts: "parts = write_attachment env b path d @ rest"
    by (auto split: sum.splits)
  have "write_attachment env b path d = crlf_line (''--'' @ b) @ file_part_text env path"
    using d by (simp add: write_attachment_def file_part_text_def file_data_def part_headers_def attachment_lines_def
        attachment_name_def raw_name_def crlf_line_def)
  with Cons.IH [OF rest] parts show ?case by simp
qed simp

lemma submission_body_parts:
  assumes "write_attachments_loop env (''aimx-'' @ co_boundary_uuid env) (sa_attachments args) = Inr parts" "sa_attachments args \<noteq> []"
  shows "submission_body env args parts = multipart_text (''aimx-'' @ co_boundary_uuid env) (part_texts env args)"
  using write_attachments_parts [OF assms(1)] assms(2)
  by (simp add: submission_body_def Let_def multipart_text_def part_texts_def text_plain_part_def text_part_text_def crlf_line_def)

section \<open>Encoded files\<close>

lemma encoded_lines_concat: "0 < n \<Longrightarrow> concat (encoded_lines n s) = s"
  by (induction n s rule: encoded_lines.induct) (subst encoded_lines.simps, simp)

lemma encoded_block_plain:
  assumes "list_all plain_byte e"
  shows "list_all (\<lambda>c. plain_byte c \<or> c = CR \<or> c = LF) (encoded_block e)" "filter plain_byte (encoded_block e) = e"
proof -
  have plain: "list_all plain_byte (concat (encoded_lines 76 e))" using assms by (simp add: encoded_lines_concat)
  have "list_all (\<lambda>c. plain_byte c \<or> c = CR \<or> c = LF) (concat (map (\<lambda>l. crlf_line (if valid_utf8 l then l else [])) ls)) \<and>
      filter plain_byte (concat (map (\<lambda>l. crlf_line (if valid_utf8 l then l else [])) ls)) = concat ls"
    if "list_all plain_byte (concat ls)" for ls
    using that
  proof (induction ls)
    case (Cons l ls)
    then have l: "list_all plain_byte l" by simp
    then have "valid_utf8 l"
      using plain_not_LF(2) by (intro valid_utf8_is_ascii) (auto simp: is_ascii_def list_all_iff)
    with Cons l show ?case by (auto simp: crlf_line_def plain_ends list_all_iff)
  qed simp
  from this [OF plain] show "list_all (\<lambda>c. plain_byte c \<or> c = CR \<or> c = LF) (encoded_block e)" "filter plain_byte (encoded_block e) = e"
    by (simp_all add: encoded_block_def encoded_lines_concat)
qed

lemma trim_line_ends_prefix: "\<exists>t. s = trim_line_ends s @ t \<and> set t \<subseteq> {CR, LF}"
proof -
  have "s = rev (dropWhile (\<lambda>c. c = CR \<or> c = LF) (rev s)) @ rev (takeWhile (\<lambda>c. c = CR \<or> c = LF) (rev s))"
    by (metis rev_append rev_rev_ident takeWhile_dropWhile_id)
  then show ?thesis
    unfolding trim_line_ends_def by (metis (mono_tags, lifting) insertCI set_rev set_takeWhileD subsetI)
qed

lemma trimmed_block:
  assumes "list_all plain_byte e"
  shows "list_all (\<lambda>c. plain_byte c \<or> c = CR \<or> c = LF) (trim_line_ends (encoded_block e))"
    "filter plain_byte (trim_line_ends (encoded_block e)) = e"
proof -
  obtain t where t: "encoded_block e = trim_line_ends (encoded_block e) @ t" "set t \<subseteq> {CR, LF}"
    using trim_line_ends_prefix by blast
  have "filter plain_byte t = []" using t(2) plain_ends by (auto simp: filter_empty_conv)
  with encoded_block_plain [OF assms] t(1)
  show "list_all (\<lambda>c. plain_byte c \<or> c = CR \<or> c = LF) (trim_line_ends (encoded_block e))"
    "filter plain_byte (trim_line_ends (encoded_block e)) = e"
    by (metis list_all_append, metis append_Nil2 filter_append)
qed

section \<open>What the daemon unpacks\<close>

text \<open>An attachment as it arrives.\<close>

definition attached :: "compose_env \<Rightarrow> string \<Rightarrow> attachment_part" where
  "attached env path = \<lparr>ap_content_type = co_mime env path, ap_filename = clean_filename (raw_name path), ap_data = file_data env path\<rparr>"

definition text_header :: string where
  "text_header = ''Content-Type: text/plain; charset=utf-8''"

lemma text_header_facts: "header_line_ok text_header" "valid_utf8 text_header" "last text_header \<noteq> CR"
  "part_encoding \<lparr>rp_headers = text_header, rp_body = b\<rparr> = []"
proof -
  show "header_line_ok text_header" "valid_utf8 text_header" "last text_header \<noteq> CR"
    by code_simp+
  have "header_value text_header ''Content-Transfer-Encoding'' = None" by code_simp
  then show "part_encoding \<lparr>rp_headers = text_header, rp_body = b\<rparr> = []" by (simp add: part_encoding_def)
qed

lemma trim_expand: "CR \<notin> set s \<Longrightarrow> trim_line_ends (expand s) = expand (trim_line_ends s)"
proof (induction s rule: rev_induct)
  case (snoc c s)
  then show ?case
    by (cases "c = LF") (auto simp: expand_def trim_line_ends_append trim_line_ends_Nil_iff trim_line_ends_id)
qed (simp add: expand_def trim_line_ends_def)

text \<open>The text of a body: line feeds for line ends, and none at its end.\<close>

definition text_of :: "string \<Rightarrow> string" where
  "text_of body = trim_line_ends (lf_text body)"

lemma trimmed_body: "trim_line_ends (normalize_crlf body) = expand (text_of body)"
  using trim_expand [OF lf_text_no_CR, of body]
  by (simp add: text_of_def normalize_crlf_def normalize_text_to_crlf_def [symmetric] normalize_expand)

lemma expand_Nil: "expand s = [] \<longleftrightarrow> s = []"
  by (cases s) (auto simp: expand_def)

lemma part_of_text:
  assumes v: "valid_utf8 (sa_body args)"
  shows "part_of (text_part_text args) =
    (if text_of (sa_body args) = [] then [] else [\<lparr>rp_headers = text_header, rp_body = expand (text_of (sa_body args))\<rparr>])"
    "decode_text_part dec \<lparr>rp_headers = text_header, rp_body = expand (text_of (sa_body args))\<rparr> = text_of (sa_body args)"
proof -
  have t: "trim_line_ends (crlf_line (normalize_crlf (sa_body args))) = expand (text_of (sa_body args))"
    by (simp add: crlf_line_def trim_line_ends_append trim_line_ends_Nil_iff trimmed_body)
  show "part_of (text_part_text args) =
    (if text_of (sa_body args) = [] then [] else [\<lparr>rp_headers = text_header, rp_body = expand (text_of (sa_body args))\<rparr>])"
    using part_of_blank [of "[text_header]" "crlf_line (normalize_crlf (sa_body args))"]
      part_of_body [of "[text_header]" "crlf_line (normalize_crlf (sa_body args))"] text_header_facts t
    by (simp add: text_part_text_def text_header_def [symmetric] expand_Nil)
  have "CR \<notin> set (text_of (sa_body args))"
    using lf_text_no_CR trim_line_ends_prefix [of "lf_text (sa_body args)"] unfolding text_of_def by (metis UnI1 set_append)
  moreover have "valid_utf8 (expand (text_of (sa_body args)))"
    by (simp add: text_of_def valid_expand valid_trim_line_ends valid_lf_text v)
  moreover have "part_data dec \<lparr>rp_headers = text_header, rp_body = b\<rparr> = b" for b
    by (simp add: part_data_def text_header_facts(4))
  moreover have "replace_all [CR, LF] [LF] [] = []" by simp
  ultimately show "decode_text_part dec \<lparr>rp_headers = text_header, rp_body = expand (text_of (sa_body args))\<rparr> = text_of (sa_body args)"
    using collapse_expand [of "text_of (sa_body args)" "[]"] by (simp only: decode_text_part_def utf8_lossy_valid append_Nil2 simp_thms True_implies_equals)
qed

lemma raw_name_valid: "valid_utf8 (raw_name path)"
proof -
  have "valid_utf8 ''attachment''" by code_simp
  then show ?thesis by (simp add: raw_name_def split: option.split)
qed

text \<open>What the parser makes of a part whose body is base64.\<close>

lemma part_of_file:
  assumes ct: "content_type_ok (co_mime env path)" and laws: "base64_laws (co_enc env) dec" "\<And>d. co_enc env d = [] \<longleftrightarrow> d = []"
  obtains (empty) "file_data env path = []" "part_of (file_part_text env path) = []"
  | (full) p where "file_data env path \<noteq> []" "part_of (file_part_text env path) = [p]" "parse_attachment_part dec p = attached env path"
      "decode_text_part dec p = replace_all [CR, LF] [LF] (utf8_lossy (file_data env path))"
proof -
  let ?ls = "attachment_lines (co_mime env path) (raw_name path)" and ?e = "co_enc env (file_data env path)"
  have ls: "?ls \<noteq> []" "last (last ?ls) \<noteq> CR" by (simp_all add: attachment_lines_def CR_def)
  note ok = attachment_lines_ok [OF ct raw_name_valid]
  have e: "list_all plain_byte ?e" "dec ?e = Some (file_data env path)" using laws(1) by (auto simp: base64_laws_def)
  show ?thesis
  proof (cases "file_data env path = []")
    case True
    then have "encoded_block ?e = []" using laws(2) by (subst encoded_block_def, subst encoded_lines.simps) simp
    then have "part_of (file_part_text env path) = []"
      using part_of_blank [OF ls(1) ok(1) ls(2), of "encoded_block ?e"] by (simp add: file_part_text_def trim_line_ends_Nil_iff)
    with True show ?thesis by (rule empty)
  next
    case False
    let ?b = "trim_line_ends (encoded_block ?e)"
    have dec: "decode_base64 dec ?b = Some (file_data env path)"
      using decode_spread [OF trimmed_block(1) [OF e(1)], of dec] trimmed_block(2) [OF e(1)] e(2) by simp
    have "?e \<noteq> []" using False laws(2) by blast
    then have "?b \<noteq> []" using trimmed_block(2) [OF e(1)] by (metis filter.simps(1))
    then have "part_of (file_part_text env path) = [\<lparr>rp_headers = joined ?ls, rp_body = ?b\<rparr>]"
      using part_of_body [OF ls(1) ok, of "encoded_block ?e"] by (simp add: file_part_text_def)
    moreover have "parse_attachment_part dec \<lparr>rp_headers = joined ?ls, rp_body = ?b\<rparr> = attached env path"
      using attachment_lines_read [OF ct raw_name_valid dec] by (simp add: attached_def)
    moreover from this have data: "part_data dec \<lparr>rp_headers = joined ?ls, rp_body = ?b\<rparr> = file_data env path"
      by (simp only: parse_attachment_part_def Let_def attached_def attachment_part.ext_inject)
    have "decode_text_part dec \<lparr>rp_headers = joined ?ls, rp_body = ?b\<rparr> = replace_all [CR, LF] [LF] (utf8_lossy (file_data env path))"
      by (simp only: decode_text_part_def data)
    ultimately show ?thesis using False by (intro full)
  qed
qed

lemma parts_of_files:
  assumes ct: "list_all (\<lambda>p. content_type_ok (co_mime env p)) paths"
    and laws: "base64_laws (co_enc env) dec" "\<And>d. co_enc env d = [] \<longleftrightarrow> d = []"
  shows "\<exists>ps. concat (map part_of (map (file_part_text env) paths)) = ps \<and>
    map (parse_attachment_part dec) ps = filter (\<lambda>a. ap_data a \<noteq> []) (map (attached env) paths) \<and>
    map (decode_text_part dec) ps = map (\<lambda>a. replace_all [CR, LF] [LF] (utf8_lossy (ap_data a)))
      (filter (\<lambda>a. ap_data a \<noteq> []) (map (attached env) paths))"
  using ct
proof (induction paths)
  case (Cons path paths)
  from Cons.prems have "content_type_ok (co_mime env path)" by simp
  from part_of_file [OF this laws] show ?case
    using Cons by cases (auto simp: attached_def)
qed simp

text \<open>The boundary is found again.\<close>

definition content_type_value :: "string \<Rightarrow> string" where
  "content_type_value b = ''multipart/mixed; boundary='' @ quoted b"

lemma plain_boundary:
  "set b \<inter> {CR, LF, QUOTE, BACKSLASH} = {} \<Longrightarrow> escape_filename b = b \<and> clean_filename b = b"
  unfolding escape_filename_esc by (induction b) (auto simp: esc_def clean_filename_def)

lemma content_type_boundary:
  assumes "set b \<inter> {CR, LF, QUOTE, BACKSLASH} = {}"
  shows "extract_quoted_param (content_type_value b) ''boundary'' = Some b"
    "contains (to_ascii_lowercase (content_type_value b)) ''multipart/''"
    "trim (CHR '' '' # content_type_value b) = content_type_value b"
proof -
  note b = plain_boundary [OF assms]
  have v: "content_type_value b = ''multipart/mixed'' @ CHR '';'' # CHR '' '' # ''boundary'' @ CHR ''='' # quoted (escape_filename b)"
    by (simp add: content_type_value_def b)
  have "to_ascii_lowercase ''boundary'' = ''boundary''" by code_simp
  then show "extract_quoted_param (content_type_value b) ''boundary'' = Some b"
    unfolding v using quoted_param [of "''multipart/mixed''" "''boundary''" b] b
    by (simp add: special_chars plain_byte_def code_def)
  have "to_ascii_lowercase ''multipart/mixed; boundary='' = ''multipart/mixed; boundary=''" by code_simp
  then show "contains (to_ascii_lowercase (content_type_value b)) ''multipart/''"
    by (simp add: content_type_value_def to_ascii_lowercase_def starts_with_def)
  have "plain_byte CHR ''m''" by code_simp
  then have "trim (content_type_value b) = content_type_value b"
    unfolding content_type_value_def by (intro trim_quoted) simp_all
  then show "trim (CHR '' '' # content_type_value b) = content_type_value b" by (simp only: trim_space)
qed

lemma other_names:
  assumes "named_line l n" "n \<in> {''From'', ''To'', ''Subject'', ''Date'', ''Message-ID'', ''In-Reply-To'', ''References'', ''MIME-Version''}"
  shows "other_header ''content-type'' l"
proof -
  have "\<forall>n\<in>set [''From'', ''To'', ''Subject'', ''Date'', ''Message-ID'', ''In-Reply-To'', ''References'', ''MIME-Version''].
      CHR '':'' \<notin> set n \<and> \<not> eq_ignore_ascii_case (trim n) ''content-type''" by code_simp
  with assms(2) have "CHR '':'' \<notin> set n" "\<not> eq_ignore_ascii_case (trim n) ''content-type''" by auto
  with assms(1) show ?thesis by (auto simp: named_line_def other_header_def split_once_append)
qed

lemma boundary_read:
  assumes "compose_env_ok env" "sa_attachments args \<noteq> []"
  shows "extract_multipart_boundary (joined (header_lines env args)) = Some (''aimx-'' @ co_boundary_uuid env)"
proof -
  let ?b = "''aimx-'' @ co_boundary_uuid env" and ?common = "common_headers args (co_date env) (message_id_of env args)"
  have u: "set ?b \<inter> {CR, LF, QUOTE, BACKSLASH} = {}"
    using assms(1) by (auto simp: compose_env_ok_def list_all_iff special_chars is_ascii_lowercase_def is_ascii_digit_def code_def)
  have hl: "header_lines env args = ?common @ [''Content-Type:'' @ CHR '' '' # content_type_value ?b]"
    using assms(2) by (simp add: header_lines_def content_type_value_def)
  obtain ns where ns: "header_names args = ns @ [''Content-Type'']"
    "set ns \<subseteq> {''From'', ''To'', ''Subject'', ''Date'', ''Message-ID'', ''In-Reply-To'', ''References'', ''MIME-Version''}"
    using assms(2) by (auto simp: header_names_def)
  have "list_all2 named_line ?common ns"
    using header_lines_named [OF assms(1), of args] unfolding hl ns(1)
    by (auto simp: list_all2_append2 append_eq_append_conv2 list_all2_Cons2 append_eq_Cons_conv)
  then have others: "list_all (other_header ''content-type'') ?common"
    using ns(2) by (induction rule: list_all2_induct) (simp_all add: other_names)
  let ?l = "''Content-Type:'' @ CHR '' '' # content_type_value ?b"
  have "\<not> is_continuation (''Content-Type:'' @ s)" for s by (simp add: is_continuation_def)
  moreover have "split_once CHR '':'' ?l = Some (''Content-Type'', CHR '' '' # content_type_value ?b)"
    using split_once_append [of "CHR '':''" "''Content-Type''" "CHR '' '' # content_type_value ?b"] by simp
  moreover have "eq_ignore_ascii_case (trim ''Content-Type'') ''content-type''" by code_simp
  ultimately have "header_lines_loop ''content-type'' None None (?common @ [?l]) = Some (trim (CHR '' '' # content_type_value ?b))"
    by (intro header_loop_finds [OF others]) (assumption | rule disjI1 refl | simp only: named_other_def option.case)+
  moreover have "to_ascii_lowercase ''Content-Type'' = ''content-type''" by code_simp
  moreover have "lines (joined (header_lines env args)) = ?common @ [?l]"
    unfolding hl [symmetric] by (rule lines_joined [OF header_lines_ok(1) [OF assms(1)]])
  ultimately have "header_value (joined (header_lines env args)) ''Content-Type'' = Some (content_type_value ?b)"
    by (simp only: header_value_def content_type_boundary(3) [OF u])
  then show ?thesis by (simp only: extract_multipart_boundary_def content_type_boundary(1,2) [OF u] option.case if_True)
qed

section \<open>What arrives\<close>

lemma part_text_ends: "list_all (\<lambda>s. s \<noteq> [] \<and> last s = LF) (part_texts env args)"
proof -
  have lines: "last (concat (map (\<lambda>l. crlf_line (f l)) ls)) = LF" if "ls \<noteq> []" for f and ls :: "string list"
    using that by (induction ls rule: rev_induct) (simp_all add: crlf_line_def)
  have block: "encoded_block e = [] \<or> last (encoded_block e) = LF" for e
    unfolding encoded_block_def using lines [of "encoded_lines 76 e"] by (cases "encoded_lines 76 e = []") auto
  have "last (file_part_text env path) = LF" for path
    using block [of "co_enc env (file_data env path)"] unfolding file_part_text_def
    by (cases "encoded_block (co_enc env (file_data env path)) = []") simp_all
  moreover have "last (text_part_text args) = LF" by (simp add: text_part_text_def crlf_line_def)
  ultimately show ?thesis by (simp add: part_texts_def list_all_iff) (simp add: text_part_text_def file_part_text_def)
qed

text \<open>The parts the daemon finds in a composed multipart submission.\<close>

lemma submission_parts:
  assumes composed: "compose_request env args = Inr message" and env: "compose_env_ok env"
    and small: "length (joined (header_lines env args)) \<le> MAX_HEADER_BLOCK_BYTES"
    and utf8: "list_all valid_utf8 (header_lines env args)"
    and some: "sa_attachments args \<noteq> []"
    and clear: "list_all (\<lambda>s. find_subslice s (''--aimx-'' @ co_boundary_uuid env) = None) (part_texts env args)"
  shows "\<exists>hdrs body. split_headers_body message = Inr (hdrs, body) \<and>
    extract_markdown_and_attachments dec hdrs body =
      (case concat (map part_of (part_texts env args)) of
         [] \<Rightarrow> (utf8_lossy body, [])
       | first # rest \<Rightarrow> (decode_text_part dec first, map (parse_attachment_part dec) rest))"
proof -
  let ?b = "''aimx-'' @ co_boundary_uuid env"
  from composed obtain parts where parts: "write_attachments_loop env ?b (sa_attachments args) = Inr parts"
    and message: "message = concat (map crlf_line (header_lines env args)) @ [CR, LF] @ submission_body env args parts"
    by (rule compose_request_Inr)
  have cut: "split_headers_body message = Inr (joined (header_lines env args), submission_body env args parts)"
    using split_block [OF header_lines_ok(2) header_lines_ok(1) [OF env] utf8 small] by (simp only: message)
  have b: "LF \<notin> set ?b" "CR \<notin> set ?b"
    using env by (auto simp: compose_env_ok_def list_all_iff special_chars is_ascii_lowercase_def is_ascii_digit_def code_def)
  have "split_multipart_body (submission_body env args parts) ?b = concat (map part_of (part_texts env args))"
    unfolding submission_body_parts [OF parts some]
    using clear part_text_ends [of env args]
    by (intro split_multipart_text b) (simp_all add: list_all_iff part_texts_def)
  with cut boundary_read [OF env some] show ?thesis
    by (simp add: extract_markdown_and_attachments_def)
qed

text \<open>Everything a submission needs to arrive.\<close>

definition submission_ok :: "compose_env \<Rightarrow> (string \<Rightarrow> bytes option) \<Rightarrow> send_args \<Rightarrow> bool" where
  "submission_ok env dec args \<longleftrightarrow> compose_env_ok env \<and>
     length (joined (header_lines env args)) \<le> MAX_HEADER_BLOCK_BYTES \<and> list_all valid_utf8 (header_lines env args) \<and>
     valid_utf8 (sa_body args) \<and> list_all (\<lambda>p. content_type_ok (co_mime env p)) (sa_attachments args) \<and>
     list_all (\<lambda>s. find_subslice s (''--aimx-'' @ co_boundary_uuid env) = None) (part_texts env args) \<and>
     base64_laws (co_enc env) dec \<and> co_enc env [] = []"

text \<open>The files that hold something.\<close>

definition sent_files :: "compose_env \<Rightarrow> send_args \<Rightarrow> attachment_part list" where
  "sent_files env args = filter (\<lambda>a. ap_data a \<noteq> []) (map (attached env) (sa_attachments args))"

lemma encodes_something: "base64_laws enc dec \<Longrightarrow> enc [] = [] \<Longrightarrow> enc d = [] \<longleftrightarrow> d = []"
  unfolding base64_laws_def by (metis option.inject)

lemma submission_arrives:
  assumes composed: "compose_request env args = Inr message" and ok: "submission_ok env dec args" and some: "sa_attachments args \<noteq> []"
  shows "\<exists>hdrs body. split_headers_body message = Inr (hdrs, body) \<and>
    (text_of (sa_body args) \<noteq> [] \<longrightarrow>
      extract_markdown_and_attachments dec hdrs body = (text_of (sa_body args), sent_files env args)) \<and>
    (text_of (sa_body args) = [] \<longrightarrow> (\<forall>a rest. sent_files env args = a # rest \<longrightarrow>
      extract_markdown_and_attachments dec hdrs body = (replace_all [CR, LF] [LF] (utf8_lossy (ap_data a)), rest)))"
proof -
  have laws: "base64_laws (co_enc env) dec" "\<And>d. co_enc env d = [] \<longleftrightarrow> d = []"
    using ok encodes_something by (auto simp: submission_ok_def)
  have v: "valid_utf8 (sa_body args)" and ct: "list_all (\<lambda>p. content_type_ok (co_mime env p)) (sa_attachments args)"
    using ok by (simp_all add: submission_ok_def)
  obtain ps where ps: "concat (map part_of (map (file_part_text env) (sa_attachments args))) = ps"
    "map (parse_attachment_part dec) ps = sent_files env args"
    "map (decode_text_part dec) ps = map (\<lambda>a. replace_all [CR, LF] [LF] (utf8_lossy (ap_data a))) (sent_files env args)"
    using parts_of_files [OF ct laws] unfolding sent_files_def by blast
  obtain hdrs body where cut: "split_headers_body message = Inr (hdrs, body)"
    and parts: "extract_markdown_and_attachments dec hdrs body =
      (case part_of (text_part_text args) @ ps of
         [] \<Rightarrow> (utf8_lossy body, []) | first # rest \<Rightarrow> (decode_text_part dec first, map (parse_attachment_part dec) rest))"
    using submission_parts [OF composed _ _ _ some, of dec] ok ps(1) unfolding submission_ok_def part_texts_def by auto
  show ?thesis
  proof (intro exI conjI impI allI)
    show "split_headers_body message = Inr (hdrs, body)" by (rule cut)
  next
    assume "text_of (sa_body args) \<noteq> []"
    then show "extract_markdown_and_attachments dec hdrs body = (text_of (sa_body args), sent_files env args)"
      by (simp add: parts part_of_text [OF v] ps(2))
  next
    fix a rest assume "text_of (sa_body args) = []" and files: "sent_files env args = a # rest"
    from files obtain q qs where "ps = q # qs" using ps(2) by (cases ps) auto
    with ps(2,3) files \<open>text_of (sa_body args) = []\<close>
    show "extract_markdown_and_attachments dec hdrs body = (replace_all [CR, LF] [LF] (utf8_lossy (ap_data a)), rest)"
      by (simp add: parts part_of_text [OF v])
  qed
qed

text \<open>
  C11: the daemon unpacks a composed submission to the body the caller wrote and to the attached
  files in order, each with its name, type and bytes; files that hold nothing do not arrive.
\<close>

theorem submission_unpacks:
  assumes "compose_request env args = Inr message" "submission_ok env dec args" "sa_attachments args \<noteq> []"
    and "text_of (sa_body args) \<noteq> []"
  shows "\<exists>hdrs body. split_headers_body message = Inr (hdrs, body) \<and>
    extract_markdown_and_attachments dec hdrs body = (text_of (sa_body args), sent_files env args)"
  using submission_arrives [OF assms(1-3)] assms(4) by blast

text \<open>
  with an empty body, the first file that holds something is sent as the text of the message and
  is no longer among the attachments.
\<close>

theorem first_file_becomes_the_text:
  assumes "compose_request env args = Inr message" "submission_ok env dec args" "sa_attachments args \<noteq> []"
    and "text_of (sa_body args) = []" "sent_files env args = a # rest"
  shows "\<exists>hdrs body. split_headers_body message = Inr (hdrs, body) \<and>
    extract_markdown_and_attachments dec hdrs body = (replace_all [CR, LF] [LF] (utf8_lossy (ap_data a)), rest)"
  using submission_arrives [OF assms(1-3)] assms(4,5) by blast

section \<open>A submission with a file\<close>

definition demo_compose :: compose_env where
  "demo_compose = \<lparr>co_exists = (\<lambda>p. True), co_is_file = (\<lambda>p. True), co_read = (\<lambda>p. Inr ''hi''), co_mime = (\<lambda>p. ''text/plain''),
     co_enc = demo_enc, co_uuid = ''u1'', co_boundary_uuid = ''u2'', co_date = ''today''\<rparr>"

definition demo_args :: "string \<Rightarrow> send_args" where
  "demo_args body = \<lparr>sa_from = ''a@d.io'', sa_to = ''b@e.io'', sa_subject = ''s'', sa_body = body, sa_reply_to = None,
     sa_references = None, sa_attachments = [''/t/f.txt''], sa_text_only = True, sa_html_body = None\<rparr>"

lemma demo_composed: "\<exists>m. compose_request demo_compose (demo_args body) = Inr m"
proof -
  have "validate_header_value n ''a@d.io'' = Inr ()" "validate_header_value n ''b@e.io'' = Inr ()" "validate_header_value n ''s'' = Inr ()" for n
    by (simp_all add: validate_header_value_def CR_def LF_def)
  then show ?thesis
    by (simp add: compose_request_def write_common_headers_def demo_args_def demo_compose_def Let_def)
qed

lemma short_block: "e \<noteq> [] \<Longrightarrow> length e \<le> 76 \<Longrightarrow> valid_utf8 e \<Longrightarrow> encoded_block e = crlf_line e"
  unfolding encoded_block_def by (subst encoded_lines.simps, subst encoded_lines.simps) simp

lemma demo_name: "raw_name ''/t/f.txt'' = ''f.txt''" "clean_filename ''f.txt'' = ''f.txt''"
  by code_simp+

lemma demo_parts_clear: "list_all (\<lambda>s. find_subslice s (''--aimx-'' @ co_boundary_uuid demo_compose) = None) (part_texts demo_compose (demo_args b))"
  if "b \<in> {''yo'', []}"
proof -
  have e: "demo_enc ''hi'' = ''6869''" "valid_utf8 ''6869''" by code_simp+
  have "file_part_text demo_compose ''/t/f.txt'' =
      concat (map crlf_line (attachment_lines ''text/plain'' ''f.txt'')) @ [CR, LF] @ crlf_line ''6869''"
    using e by (simp add: file_part_text_def demo_compose_def demo_name file_data_def short_block)
  moreover have "find_subslice (concat (map crlf_line (attachment_lines ''text/plain'' ''f.txt'')) @ [CR, LF] @ crlf_line ''6869'') ''--aimx-u2'' = None"
    "find_subslice (text_part_text (demo_args ''yo'')) ''--aimx-u2'' = None" "find_subslice (text_part_text (demo_args [])) ''--aimx-u2'' = None"
    by code_simp+
  moreover have "co_boundary_uuid demo_compose = ''u2''" "sa_attachments (demo_args b) = [''/t/f.txt'']"
    by (simp_all add: demo_compose_def demo_args_def)
  ultimately show ?thesis using that by (auto simp: part_texts_def)
qed

lemma demo_headers:
  "header_lines demo_compose (demo_args b) = header_lines demo_compose (demo_args [])"
  by (simp add: header_lines_def common_headers_def reply_headers_def message_id_of_def demo_args_def)

lemma demo_submission_ok:
  assumes "b \<in> {''yo'', []}"
  shows "submission_ok demo_compose demo_dec (demo_args b)"
proof -
  have "length (joined (header_lines demo_compose (demo_args []))) < 1000" "list_all valid_utf8 (header_lines demo_compose (demo_args []))"
    "valid_utf8 ''yo''" "valid_utf8 []" "content_type_ok ''text/plain''" "compose_env_ok demo_compose" "demo_enc [] = []"
    by code_simp+
  then show ?thesis
    using demo_base64 demo_parts_clear [OF assms] assms
    by (auto simp: submission_ok_def demo_headers [of b] MAX_HEADER_BLOCK_BYTES_def) (auto simp: demo_args_def demo_compose_def)
qed

lemma demo_sent: "sent_files demo_compose (demo_args b) = [\<lparr>ap_content_type = ''text/plain'', ap_filename = ''f.txt'', ap_data = ''hi''\<rparr>]"
  by (simp add: sent_files_def attached_def demo_name file_data_def demo_args_def demo_compose_def)


theorem submission_unpacks_witness:
  "\<exists>m hdrs body. compose_request demo_compose (demo_args ''yo'') = Inr m \<and> split_headers_body m = Inr (hdrs, body) \<and>
    extract_markdown_and_attachments demo_dec hdrs body =
      (''yo'', [\<lparr>ap_content_type = ''text/plain'', ap_filename = ''f.txt'', ap_data = ''hi''\<rparr>])"
proof -
  obtain m where m: "compose_request demo_compose (demo_args ''yo'') = Inr m" using demo_composed by blast
  have "text_of ''yo'' = ''yo''" by code_simp
  with submission_unpacks [OF m demo_submission_ok] m show ?thesis by (auto simp: demo_args_def demo_sent [unfolded demo_args_def])
qed

theorem first_file_becomes_the_text_witness:
  "\<exists>m hdrs body. compose_request demo_compose (demo_args []) = Inr m \<and> split_headers_body m = Inr (hdrs, body) \<and>
    extract_markdown_and_attachments demo_dec hdrs body = (''hi'', [])"
proof -
  obtain m where m: "compose_request demo_compose (demo_args []) = Inr m" using demo_composed by blast
  have "text_of [] = []" "replace_all [CR, LF] [LF] (utf8_lossy ''hi'') = ''hi''" by code_simp+
  with first_file_becomes_the_text [OF m demo_submission_ok _ _ demo_sent] m show ?thesis by (auto simp: demo_args_def)
qed

end
