(* ===== verification/ClientFacts.thy ===== *)
theory ClientFacts
  imports Client MultipartFacts
begin

text \<open>
  What a client makes of the daemon's answers: every frame the daemon writes reads back as the
  answer it stands for, and the interface \<open>ack_service\<close> carries that to the submissions.
\<close>

section \<open>Frames\<close>

lemma valid_sanitize: "valid_utf8 s \<Longrightarrow> valid_utf8 (sanitize_inline s)"
proof (induction s rule: length_induct)
  case (1 s)
  show ?case
  proof (cases "sanitize_inline s = s")
    case False
    then have "\<exists>c\<in>set s. c = LF \<or> c = CR" by (auto simp: sanitize_inline_def filter_id_conv)
    then obtain a c b where s: "s = a @ c # b" "c = LF \<or> c = CR" "\<forall>d\<in>set a. \<not> (d = LF \<or> d = CR)"
      using split_list_first_prop [of s "\<lambda>c. c = LF \<or> c = CR"] by blast
    have a: "sanitize_inline a = a" using s(3) by (simp add: sanitize_inline_def)
    have "is_ascii_char c" using s(2) by (auto simp: is_ascii_char_def code_def LF_def CR_def)
    with 1(2) s(1) valid_utf8_split [of c a b] have v: "valid_utf8 a" "valid_utf8 b" by blast+
    with 1(1) s(1) have "valid_utf8 (sanitize_inline b)" by simp
    moreover have "sanitize_inline s = sanitize_inline a @ sanitize_inline b" using s(1,2) by (auto simp: sanitize_inline_def)
    ultimately show ?thesis using v(1) a by (simp add: valid_utf8_append)
  qed (use 1(2) in simp)
qed

lemma sanitize_no_line_end: "LF \<notin> set (sanitize_inline s)" "CR \<notin> set (sanitize_inline s)"
  by (simp_all add: sanitize_inline_def)

lemma ends_with_set: "ends_with s p \<Longrightarrow> set p \<subseteq> set s"
  unfolding ends_with_def by (metis set_rev set_take_subset)

lemma lines_line: "LF \<notin> set l \<Longrightarrow> CR \<notin> set l \<Longrightarrow> lines (l @ LF # s) = l # lines s"
  using ends_with_set [of l "[CR]"] by (subst lines.simps) (auto simp: split_once_append strip_suffix_def)

lemma code_chars: "list_all (\<lambda>c. plain_byte c \<and> is_ascii_char c \<and> c \<noteq> LF \<and> c \<noteq> CR \<and> c \<noteq> CHR '' '') (err_code_as_str ec)"
  by (cases ec) (simp_all add: plain_byte_def is_ascii_char_def code_def LF_def CR_def)

lemma code_plain: "is_ascii (err_code_as_str ec)" "LF \<notin> set (err_code_as_str ec)" "CR \<notin> set (err_code_as_str ec)"
  "CHR '' '' \<notin> set (err_code_as_str ec)" "list_all plain_byte (err_code_as_str ec)"
  using code_chars [of ec] by (auto simp: is_ascii_def list_all_iff)

lemma code_reads_back: "trim (err_code_as_str ec) = err_code_as_str ec" "err_code_from_str (err_code_as_str ec) = Some ec"
  "err_code_as_str ec \<noteq> []"
  using trim_all_plain [OF code_plain(5) [of ec]] by (cases ec; simp add: err_code_from_str_def)+

text \<open>An error frame: its first line, then the code's line and a blank one.\<close>

definition err_line :: "err_code \<Rightarrow> string \<Rightarrow> string" where
  "err_line ec reason = ''AIMX/1 ERR '' @ err_code_as_str ec @ CHR '' '' # sanitize_inline reason"

lemma err_line_ends: "LF \<notin> set (err_line ec reason)" "CR \<notin> set (err_line ec reason)"
  using code_plain(2,3) [of ec] sanitize_no_line_end [of reason] by (simp_all add: err_line_def LF_def CR_def)

lemma err_frame_lines:
  "err_frame ec reason = err_line ec reason @ LF # (''Code: '' @ err_code_as_str ec) @ LF # LF # []"
  "lines (err_frame ec reason) = [err_line ec reason, ''Code: '' @ err_code_as_str ec, []]"
proof -
  show shape: "err_frame ec reason = err_line ec reason @ LF # (''Code: '' @ err_code_as_str ec) @ LF # LF # []"
    by (simp add: err_frame_def header_line_def err_line_def)
  have "LF \<notin> set (''Code: '' @ err_code_as_str ec)" "CR \<notin> set (''Code: '' @ err_code_as_str ec)"
    using code_plain(2,3) [of ec] by (simp_all add: LF_def CR_def)
  then have "lines ((''Code: '' @ err_code_as_str ec) @ LF # LF # []) = [''Code: '' @ err_code_as_str ec, []]"
    using lines_line [of "[]" "[]"] by (subst lines_line) (simp_all add: lines.simps [of "[]"] split_once_def)
  then show "lines (err_frame ec reason) = [err_line ec reason, ''Code: '' @ err_code_as_str ec, []]"
    unfolding shape by (subst lines_line [OF err_line_ends]) simp
qed

lemma err_frame_valid: "valid_utf8 reason \<Longrightarrow> valid_utf8 (err_frame ec reason)"
proof -
  assume "valid_utf8 reason"
  then have "valid_utf8 (sanitize_inline reason)" by (rule valid_sanitize)
  moreover have "is_ascii ''AIMX/1 ERR ''" "is_ascii [CHR '' '']" "is_ascii ''Code''" "is_ascii '': ''" "is_ascii [LF]"
    by (simp_all add: is_ascii_def is_ascii_char_def code_def LF_def)
  ultimately show ?thesis
    using code_plain(1) [of ec] unfolding err_frame_def header_line_def
    by (intro valid_utf8_append) (simp_all add: valid_utf8_is_ascii)
qed

section \<open>The answers\<close>

lemma err_words_code: "err_words (err_code_as_str ec @ CHR '' '' # r) = (err_code_as_str ec, r)"
  using code_plain(4) by (simp add: err_words_def split_once_append)

lemma parse_err_frame:
  "parse_err dbg (err_frame ec reason) (err_code_as_str ec @ CHR '' '' # r) = Inr (ec, trim r)"
proof -
  have "trim_end_matches CR (''Code: '' @ err_code_as_str ec) = ''Code: '' @ err_code_as_str ec"
    using code_plain(3) [of ec] by (intro trim_end_matches_no) (simp add: CR_def)
  then have "header_code (tl (lines (err_frame ec reason))) = Some ec"
    by (simp only: err_frame_lines(2) list.sel header_code.simps Let_def strip_prefix_append option.case) (simp add: code_reads_back)
  then show ?thesis by (simp add: parse_err_def err_words_code code_reads_back)
qed

lemma first_line_rest:
  assumes "valid_utf8 buf" "lines buf = l # ls" "CR \<notin> set l" "l = ''AIMX/1 '' @ rest"
  shows "response_rest dbg buf = Inr rest" "first_line buf = l"
proof -
  show f: "first_line buf = l" using assms(2,3) by (simp add: first_line_def trim_end_matches_no)
  have "strip_prefix l ''AIMX/1 '' = Some rest" by (simp only: assms(4) strip_prefix_append)
  then show "response_rest dbg buf = Inr rest"
    using assms(1,4) unfolding response_rest_def f by simp
qed

lemma err_frame_rest:
  assumes "valid_utf8 reason"
  shows "response_rest dbg (err_frame ec reason) = Inr (''ERR '' @ err_code_as_str ec @ CHR '' '' # sanitize_inline reason)"
  using first_line_rest(1) [OF err_frame_valid [OF assms] err_frame_lines(2) err_line_ends(2)] by (simp add: err_line_def)

lemma err_is_not_ok:
  "strip_prefix (''ERR '' @ s) ''OK '' = None" "\<not> starts_with (''ERR '' @ s) ''OK ''" "''ERR '' @ s \<noteq> ''OK''"
  "strip_prefix (''ERR '' @ s) ''ERR '' = Some s"
  by (simp_all add: strip_prefix_def starts_with_def)

text \<open>What a client is to see of an answer: line ends are dropped from a text, and blanks at its ends.\<close>

definition inline_text :: "string \<Rightarrow> string" where
  "inline_text s = trim (sanitize_inline s)"

fun ack_seen :: "ack_response \<Rightarrow> mark_outcome" where
  "ack_seen AckOk = MarkOk"
| "ack_seen (AckErr ec reason) = MarkErr ec (inline_text reason)"

fun send_seen :: "send_response \<Rightarrow> submit_outcome" where
  "send_seen (SendOk message_id) = SubmitOk (inline_text message_id)"
| "send_seen (SendErr ec reason) = SubmitErr ec (inline_text reason)"

fun json_seen :: "json_ack_response \<Rightarrow> string + string" where
  "json_seen (JsonOk body) = Inr body"
| "json_seen (JsonErr ec reason) = Inl (bracketed ec (inline_text reason))"

text \<open>Rust's texts are UTF-8, and a length is a \<open>usize\<close>.\<close>

fun ack_ok :: "ack_response \<Rightarrow> bool" where
  "ack_ok AckOk \<longleftrightarrow> True"
| "ack_ok (AckErr ec reason) \<longleftrightarrow> valid_utf8 reason"

fun send_response_ok :: "send_response \<Rightarrow> bool" where
  "send_response_ok (SendOk message_id) \<longleftrightarrow> valid_utf8 message_id"
| "send_response_ok (SendErr ec reason) \<longleftrightarrow> valid_utf8 reason"

fun json_ok :: "json_ack_response \<Rightarrow> bool" where
  "json_ok (JsonOk body) \<longleftrightarrow> valid_utf8 body \<and> length body < usize_limit"
| "json_ok (JsonErr ec reason) \<longleftrightarrow> valid_utf8 reason"

lemma ack_reads_back: "ack_ok r \<Longrightarrow> parse_ack_response dbg (write_ack_response r) = ack_seen r"
proof (cases r)
  case AckOk
  have "parse_ack_response dbg (''AIMX/1 OK'' @ LF # []) = MarkOk"
  proof -
    have l: "lines (''AIMX/1 OK'' @ LF # []) = ''AIMX/1 OK'' # lines []" by (rule lines_line) (simp_all add: LF_def CR_def)
    have "response_rest dbg (''AIMX/1 OK'' @ LF # []) = Inr ''OK''"
      by (rule first_line_rest(1) [OF _ l]) (simp_all add: CR_def LF_def valid_utf8_is_ascii is_ascii_def is_ascii_char_def code_def)
    then show ?thesis by (simp add: parse_ack_response_def)
  qed
  with AckOk show ?thesis by simp
next
  case (AckErr ec reason)
  assume "ack_ok r"
  with AckErr have "valid_utf8 reason" by simp
  with AckErr show ?thesis
    by (simp only: write_ack_response.simps parse_ack_response_def err_frame_rest sum.case err_is_not_ok if_False option.case
        parse_err_frame prod.case ack_seen.simps inline_text_def)
qed

lemma send_reads_back: "send_response_ok r \<Longrightarrow> parse_response_line dbg (write_response r) = send_seen r"
proof (cases r)
  case (SendOk message_id)
  assume "send_response_ok r"
  with SendOk have v: "valid_utf8 (sanitize_inline message_id)" by (simp add: valid_sanitize)
  let ?l = "''AIMX/1 '' @ ''OK '' @ sanitize_inline message_id"
  have ends: "LF \<notin> set ?l" "CR \<notin> set ?l" using sanitize_no_line_end [of message_id] by (simp_all add: LF_def CR_def)
  have frame: "write_response r = ?l @ LF # []" by (simp add: SendOk)
  have "is_ascii ''AIMX/1 ''" "is_ascii ''OK ''" "is_ascii [LF]" by (simp_all add: is_ascii_def is_ascii_char_def code_def LF_def)
  then have "valid_utf8 (write_response r)"
    unfolding frame append_assoc using v by (intro valid_utf8_append) (simp_all add: valid_utf8_is_ascii)
  moreover have "lines (write_response r) = ?l # lines []" unfolding frame by (rule lines_line [OF ends])
  ultimately have "response_rest dbg (write_response r) = Inr (''OK '' @ sanitize_inline message_id)"
    by (rule first_line_rest(1)) (rule ends(2), rule refl)
  then show ?thesis
    by (simp only: parse_response_line_def sum.case strip_prefix_append option.case) (simp add: SendOk inline_text_def)
next
  case (SendErr ec reason)
  assume "send_response_ok r"
  with SendErr have "valid_utf8 reason" by simp
  with SendErr show ?thesis
    by (simp only: write_response.simps parse_response_line_def err_frame_rest sum.case err_is_not_ok option.case
        parse_err_frame prod.case send_seen.simps inline_text_def)
qed

text \<open>A frame of lines, a blank one and a body is cut at the blank line.\<close>

lemma find_LF_LF: "LF \<notin> set l \<Longrightarrow> find_subslice (l @ LF # s) [LF, LF] =
    (if starts_with s [LF] then Some (length l) else map_option (\<lambda>n. Suc (length l + n)) (find_subslice s [LF, LF]))"
proof (induction l)
  case Nil
  have "starts_with (LF # s) [LF, LF] \<longleftrightarrow> starts_with s [LF]" by (cases s) (simp_all add: starts_with_def)
  then show ?case by simp
next
  case (Cons c l)
  have "\<not> starts_with (c # l @ LF # s) [LF, LF]" using Cons.prems by (auto simp: starts_with_def)
  with Cons show ?case by (auto simp: option.map_comp comp_def)
qed

lemma two_line_frame:
  assumes a: "LF \<notin> set a" "CR \<notin> set a" "a \<noteq> []" and b: "LF \<notin> set b" "CR \<notin> set b" "b \<noteq> []"
  shows "header_end (a @ LF # b @ LF # LF # body) = Some (length a + 1 + length b)"
    "take (length a + 1 + length b) (a @ LF # b @ LF # LF # body) = a @ LF # b"
    "drop (length a + 1 + length b + 2) (a @ LF # b @ LF # LF # body) = body"
    "\<not> starts_with (drop (length a + 1 + length b) (a @ LF # b @ LF # LF # body)) [CR, LF, CR, LF]"
    "lines (a @ LF # b) = [a, b]"
proof -
  have "\<not> starts_with (b @ LF # LF # body) [LF]" using b by (cases b) (auto simp: starts_with_def)
  then show "header_end (a @ LF # b @ LF # LF # body) = Some (length a + 1 + length b)"
    by (simp add: header_end_def find_LF_LF [OF a(1)] find_LF_LF [OF b(1)])
  show "take (length a + 1 + length b) (a @ LF # b @ LF # LF # body) = a @ LF # b"
    by simp_all
  show "drop (length a + 1 + length b + 2) (a @ LF # b @ LF # LF # body) = body"
  proof -
    have "a @ LF # b @ LF # LF # body = (a @ LF # b @ [LF, LF]) @ body" by simp
    moreover have "length a + 1 + length b + 2 = length (a @ LF # b @ [LF, LF])" by simp
    ultimately show ?thesis by (metis append_eq_conv_conj)
  qed
  show "\<not> starts_with (drop (length a + 1 + length b) (a @ LF # b @ LF # LF # body)) [CR, LF, CR, LF]"
    by (simp add: starts_with_def LF_def CR_def)
  show "lines (a @ LF # b) = [a, b]" using lines_line [OF a(1,2)] lines_last [OF b(1,3)] by simp
qed

lemma decode_two_lines:
  assumes a: "LF \<notin> set a" "CR \<notin> set a" "a \<noteq> []" and b: "LF \<notin> set b" "CR \<notin> set b" "b \<noteq> []"
    and v: "valid_utf8 (a @ LF # b @ LF # LF # body)" and status: "a = ''AIMX/1 '' @ rest"
  shows "decode_mailbox_list_response dbg (a @ LF # b @ LF # LF # body) =
    (if rest = ''OK'' then decode_ok_body dbg [b] body
     else case strip_prefix rest ''ERR '' of
         Some err_body \<Rightarrow> Inl (list_error err_body)
       | None \<Rightarrow> Inl (''unexpected response: '' @ dbg a))"
proof -
  note shape = two_line_frame [OF a b]
  have "trim_end_matches CR a = a" using a(2) by (rule trim_end_matches_no)
  moreover have "strip_prefix a ''AIMX/1 '' = Some rest" by (simp only: status strip_prefix_append)
  ultimately show ?thesis
    unfolding decode_mailbox_list_response_def Let_def shape(1) option.case shape(2,3,5) list.case
    using v shape(4) by (simp only: if_False if_True option.case not_True_eq_False shape(3))
qed

lemma json_reads_back: "json_ok r \<Longrightarrow> decode_mailbox_list_response dbg (write_json_ack_response r) = json_seen r"
proof (cases r)
  case (JsonOk body)
  assume ok: "json_ok r"
  let ?n = "show_nat (length body)" and ?a = "''AIMX/1 OK''" and ?b = "''Content-Length: '' @ show_nat (length body)"
  have d: "is_ascii ?n" "LF \<notin> set ?n" "CR \<notin> set ?n" "trim ?n = ?n"
    using is_ascii_show_nat show_nat_no_line_end by auto
  have frame: "write_json_ack_response r = ?a @ LF # ?b @ LF # LF # body" by (simp add: JsonOk header_line_def)
  have ends: "LF \<notin> set ?a" "CR \<notin> set ?a" "?a \<noteq> []" "LF \<notin> set ?b" "CR \<notin> set ?b" "?b \<noteq> []"
    using d by (simp_all add: LF_def CR_def)
  have "is_ascii (?a @ LF # ?b @ [LF, LF])" using d(1) by (simp add: is_ascii_def is_ascii_char_def code_def LF_def)
  then have v: "valid_utf8 (?a @ LF # ?b @ LF # LF # body)"
    using valid_utf8_is_ascii_append [of "?a @ LF # ?b @ [LF, LF]" body] ok JsonOk by simp
  have "trim_end_matches CR ?b = ?b" by (rule trim_end_matches_no [OF ends(5)])
  moreover have "strip_prefix ?b ''Content-Length:'' = Some (CHR '' '' # ?n)"
    using strip_prefix_append [of "''Content-Length:''" "CHR '' '' # ?n"] by simp
  ultimately have "content_length dbg None [?b] = Inr (Some (length body))"
    using d(4) ok JsonOk by (simp only: content_length.simps Let_def option.case) (simp add: trim_space)
  then have "decode_ok_body dbg [?b] body = Inr body" using ok JsonOk by (simp add: decode_ok_body_def)
  with decode_two_lines [OF ends v, of "''OK''"] frame JsonOk show ?thesis by simp
next
  case (JsonErr ec reason)
  assume "json_ok r"
  with JsonErr have v: "valid_utf8 (err_frame ec reason)" by (simp add: err_frame_valid)
  let ?b = "''Code: '' @ err_code_as_str ec" and ?e = "err_code_as_str ec @ CHR '' '' # sanitize_inline reason"
  have ends: "err_line ec reason \<noteq> []" "LF \<notin> set ?b" "CR \<notin> set ?b" "?b \<noteq> []"
    using code_plain(2,3) by (simp_all add: err_line_def LF_def CR_def)
  have status: "err_line ec reason = ''AIMX/1 '' @ ''ERR '' @ ?e" by (simp add: err_line_def)
  have "list_error ?e = bracketed ec (inline_text reason)"
    by (simp add: list_error_def err_words_code code_reads_back bracketed_def inline_text_def)
  with decode_two_lines [OF err_line_ends ends v [unfolded err_frame_lines(1)] status] show ?thesis
    by (simp only: JsonErr write_json_ack_response.simps err_frame_lines(1) err_is_not_ok if_False option.case json_seen.simps)
qed

text \<open>
  C13: every answer the daemon writes, to whichever verb, reads back at the client as the answer it
  stands for: success, the message id, the JSON text or the code with its reason; no text of the
  daemon's can turn one into another.
\<close>

theorem answers_read_back:
  assumes "ack_ok a" "send_response_ok b" "json_ok c"
  shows "parse_ack_response dbg (write_ack_response a) = ack_seen a \<and>
    parse_response_line dbg (write_response b) = send_seen b \<and>
    decode_mailbox_list_response dbg (write_json_ack_response c) = json_seen c"
  using assms ack_reads_back send_reads_back json_reads_back by blast

theorem answers_read_back_witness:
  "parse_ack_response id (write_ack_response (AckErr EIo (''a'' @ [LF] @ ''AIMX/1 OK''))) = MarkErr EIo ''aAIMX/1 OK'' \<and>
   parse_response_line id (write_response (SendOk ''<i@d>'')) = SubmitOk ''<i@d>'' \<and>
   decode_mailbox_list_response id (write_json_ack_response (JsonOk [LF, LF])) = Inr [LF, LF]"
proof -
  have "ack_ok (AckErr EIo (''a'' @ [LF] @ ''AIMX/1 OK''))" "send_response_ok (SendOk ''<i@d>'')" "json_ok (JsonOk [LF, LF])"
    by (simp_all add: usize_limit_def valid_utf8_is_ascii is_ascii_def is_ascii_char_def code_def LF_def)
  note read = answers_read_back [OF this, of id]
  have "inline_text (''a'' @ [LF] @ ''AIMX/1 OK'') = ''aAIMX/1 OK''" "inline_text ''<i@d>'' = ''<i@d>''" by code_simp+
  with read show ?thesis by simp
qed

section \<open>Submitting to a daemon that answers\<close>

text \<open>
  The link between a client and a service: the frame of a request \<open>ok\<close> to send is answered by what
  the service makes of the request. Clients rely on nothing else of the daemon.
\<close>

locale daemon_service =
  fixes exchange :: "'s exchange"
    and frame :: "'r \<Rightarrow> bytes"
    and serve :: "'r \<Rightarrow> 's \<Rightarrow> 'a \<times> 's"
    and written :: "'a \<Rightarrow> bytes"
    and ok :: "'r \<Rightarrow> bool"
  assumes answers: "ok r \<Longrightarrow> exchange (frame r) s = (Inr (written (fst (serve r s))), snd (serve r s))"

fun told :: "ack_response \<Rightarrow> fallback + unit" where
  "told AckOk = Inr ()"
| "told (AckErr ec reason) = Inl (DaemonSaid (bracketed ec (inline_text reason)))"

lemma told_seen: "map_hook_io_result env (Inr (ack_seen a)) = told a"
  by (cases a) simp_all

locale ack_service = daemon_service exchange frame serve write_ack_response ok
  for exchange :: "'s exchange" and frame :: "'r \<Rightarrow> bytes" and serve :: "'r \<Rightarrow> 's \<Rightarrow> ack_response \<times> 's" and ok
begin

text \<open>The client tells the caller what the service answered, and nothing else has happened.\<close>

lemma submitted:
  "ok r \<Longrightarrow> ack_ok (fst (serve r s)) \<Longrightarrow>
   submit_ack env exchange (frame r) s = (Inr (ack_seen (fst (serve r s))), snd (serve r s))"
  by (simp add: submit_ack_def answers ack_reads_back)

lemma reported:
  "ok r \<Longrightarrow> ack_ok (fst (serve r s)) \<Longrightarrow>
   apfst (map_hook_io_result env) (submit_ack env exchange (frame r) s) = (told (fst (serve r s)), snd (serve r s))"
  by (simp add: submitted told_seen)

end

locale json_service = daemon_service exchange frame serve write_json_ack_response ok
  for exchange :: "'s exchange" and frame :: "'r \<Rightarrow> bytes" and serve :: "'r \<Rightarrow> 's \<Rightarrow> json_ack_response \<times> 's" and ok
begin

lemma listed:
  "ok r \<Longrightarrow> json_ok (fst (serve r s)) \<Longrightarrow>
   submit_list_raw env exchange (frame r) s =
     ((case json_seen (fst (serve r s)) of Inl e \<Rightarrow> Inl (DaemonSaid e) | Inr json \<Rightarrow> Inr json), snd (serve r s))"
  by (simp add: submit_list_raw_def answers json_reads_back split: sum.split)

end

end
