(* ===== verification/HookHandler.thy ===== *)
theory HookHandler
  imports MailboxFacts
begin

text \<open>
  HOOK-CREATE and HOOK-DELETE in the daemon (\<open>src/hook_handler.rs\<close>), with the texts of
  \<open>validate_single_hook\<close> and \<open>validate_hooks\<close> (\<open>src/config.rs\<close>). A handler checks a snapshot of the
  configuration, waits for the mailbox's lock and the config lock, and acts on the configuration
  it then loads: \<open>snapshot\<close> is the first, the world the second, and requests of others may have run
  in between. The \<open>serde_json\<close> crate is a parameter: the keys of an object, and the fields of a
  request body.
\<close>

section \<open>The request's body\<close>

record raw_hook_body =
  rb_cmd :: "string list"
  rb_fire_on_untrusted :: "bool option"
  rb_type :: "string option"
  rb_timeout_secs :: "nat option"

record hook_env =
  he_mb :: mailbox_env
  he_sha :: "bytes \<Rightarrow> bytes"
  he_json_keys :: "bytes \<Rightarrow> string list option"
  he_json_body :: "bytes \<Rightarrow> string + raw_hook_body"

definition default_hook_type :: string where
  "default_hook_type = ''cmd''"

definition tick :: "string \<Rightarrow> string" where
  "tick s = [CHR 0x60] @ s @ [CHR 0x60]"

definition reject_legacy_body_fields :: "(bytes \<Rightarrow> string list option) \<Rightarrow> bytes \<Rightarrow> string + unit" where
  "reject_legacy_body_fields keys body =
     (case keys body of
        None \<Rightarrow> Inr ()
      | Some obj \<Rightarrow>
          if ''template'' \<in> set obj \<or> ''params'' \<in> set obj then
            Inl (''hook sets '' @ tick ''template'' @ ''/'' @ tick ''params'' @
              ''; template hooks were removed. See book/hooks.md for the supported raw-cmd schema'')
          else if ''run_as'' \<in> set obj then
            Inl (''hook sets '' @ tick ''run_as'' @ ''; the field was removed '' @
              [CHR 0xE2, CHR 0x80, CHR 0x94] @ '' hooks now run as the mailbox'' @ [CHR 0x27] @ ''s '' @ tick ''owner'')
          else if ''origin'' \<in> set obj then
            Inl (''hook sets '' @ tick ''origin'' @ ''; the field was removed'')
          else if ''dangerously_support_untrusted'' \<in> set obj then
            Inl (''hook sets '' @ tick ''dangerously_support_untrusted'' @
              ''; the field was renamed to '' @ tick ''fire_on_untrusted'')
          else if ''stdin'' \<in> set obj then
            Inl (''hook sets removed field '' @ quote ''stdin'' @ '' '' @ [CHR 0xE2, CHR 0x80, CHR 0x94] @
              '' the email is always piped to hooks; remove this key from the request'')
          else Inr ())"

definition parse_event :: "string \<Rightarrow> string + hook_event" where
  "parse_event s =
     (if s = ''on_receive'' then Inr OnReceive
      else if s = ''after_send'' then Inr AfterSend
      else Inl (''invalid event '' @ quote s @ '': expected '' @ quote ''on_receive'' @ '' or '' @ quote ''after_send''))"

section \<open>Texts of the hook checks\<close>

definition name_rule :: string where
  "name_rule = ''must match [a-zA-Z0-9_][a-zA-Z0-9_.-]{0,127}''"

definition dq :: "string \<Rightarrow> string" where
  "dq s = [CHR 0x22] @ s @ [CHR 0x22]"

text \<open>What \<open>validate_single_hook\<close> says; it gives no other error.\<close>

fun single_hook_message :: "load_error \<Rightarrow> string" where
  "single_hook_message (InvalidHookName n mb) = ''invalid hook name '' @ quote n @ '': '' @ name_rule"
| "single_hook_message (HookEmptyCmd l mb) =
     ''hook has empty '' @ tick ''cmd'' @ '': must be a non-empty argv array, e.g. '' @
     tick (''['' @ dq ''/bin/echo'' @ '', '' @ dq ''hi'' @ '']'')"
| "single_hook_message (HookBlankProgram l mb) = ''hook has blank '' @ tick ''cmd[0]''"
| "single_hook_message (HookNonAbsoluteProgram l mb prog) =
     ''hook has non-absolute '' @ tick ''cmd[0]'' @ '' '' @ quote prog @
     '': hooks fire from /var/lib/aimx/... so PATH lookup is brittle; use an absolute path''"
| "single_hook_message (HookUnsupportedType l mb ty) =
     ''hook has unsupported type '' @ quote ty @ '': only '' @ tick ''cmd'' @ '' is supported''"
| "single_hook_message (FireOnUntrustedNotOnReceive l mb e) =
     tick ''fire_on_untrusted = true'' @ '' is '' @ tick ''on_receive'' @ '' only''"
| "single_hook_message (HookTimeoutZero l mb) = tick ''timeout_secs = 0'' @ '': must be > 0''"
| "single_hook_message (HookTimeoutTooBig l mb n) =
     tick (''timeout_secs = '' @ show_nat n) @ '' exceeds the max of '' @ show_nat MAX_HOOK_TIMEOUT_SECS"
| "single_hook_message _ = []"

definition hook_on :: "string \<Rightarrow> string \<Rightarrow> string" where
  "hook_on label mailbox = ''hook '' @ quote label @ '' on mailbox '' @ quote mailbox"

text \<open>What \<open>validate_hooks\<close> says; it gives no other error.\<close>

fun hooks_message :: "load_error \<Rightarrow> string" where
  "hooks_message (InvalidHookName n mb) =
     ''invalid hook name '' @ quote n @ '' on mailbox '' @ quote mb @ '': '' @ name_rule"
| "hooks_message (HookEmptyCmd l mb) =
     hook_on l mb @ '' has empty '' @ tick ''cmd'' @ '': '' @ tick ''cmd'' @ '' must be a non-empty argv array, e.g. '' @
     tick (''cmd = ['' @ dq ''/bin/echo'' @ '', '' @ dq ''hi'' @ '']'')"
| "hooks_message (HookBlankProgram l mb) = hook_on l mb @ '' has blank '' @ tick ''cmd[0]''"
| "hooks_message (HookNonAbsoluteProgram l mb prog) =
     hook_on l mb @ '' has non-absolute '' @ tick ''cmd[0]'' @ '' '' @ quote prog @
     '': hooks fire from /var/lib/aimx/... so PATH lookup is brittle; use an absolute path (e.g. '' @
     tick ''/bin/echo'' @ '' instead of '' @ tick ''echo'' @ '')''"
| "hooks_message (HookUnsupportedType l mb ty) =
     hook_on l mb @ '' has unsupported type '' @ quote ty @ '': only '' @ tick ''cmd'' @ '' is supported''"
| "hooks_message (FireOnUntrustedNotOnReceive l mb e) =
     hook_on l mb @ '' sets '' @ tick ''fire_on_untrusted = true'' @ '' on event '' @ quote (hook_event_as_str e) @
     '': this flag is '' @ tick ''on_receive'' @ '' only''"
| "hooks_message (HookTimeoutZero l mb) = hook_on l mb @ '' has '' @ tick ''timeout_secs = 0'' @ '': must be > 0''"
| "hooks_message (HookTimeoutTooBig l mb n) =
     hook_on l mb @ '' has '' @ tick (''timeout_secs = '' @ show_nat n) @ '' which exceeds the max of '' @
     show_nat MAX_HOOK_TIMEOUT_SECS"
| "hooks_message (DuplicateHookName e p m) =
     ''duplicate hook name '' @ quote e @ '' on mailboxes '' @ quote p @ '' and '' @ quote m @
     '': hook names must be globally unique''"
| "hooks_message (DuplicateAnonymousHooks e p m) =
     ''anonymous hooks on mailboxes '' @ quote p @ '' and '' @ quote m @
     '' have identical event/cmd and derive the same name '' @ quote e @ '': set an explicit '' @ tick ''name'' @
     '' on at least one to disambiguate''"
| "hooks_message (ExplicitAnonymousClash e p m) =
     ''explicit hook name '' @ quote e @
     '' on one mailbox collides with the derived name of an anonymous hook on another (mailboxes '' @
     quote p @ '' and '' @ quote m @ ''): rename the explicit hook or set an explicit '' @ tick ''name'' @
     '' on the anonymous one''"
| "hooks_message _ = []"

section \<open>HOOK-CREATE\<close>

definition hook_of_body :: "hook_create_request \<Rightarrow> hook_event \<Rightarrow> raw_hook_body \<Rightarrow> hook" where
  "hook_of_body req event body =
     \<lparr>hk_name = hc_name req, hk_event = event, hk_type = unwrap_or default_hook_type (rb_type body),
      hk_cmd = rb_cmd body, hk_fire_on_untrusted = unwrap_or False (rb_fire_on_untrusted body),
      hk_timeout_secs = unwrap_or DEFAULT_HOOK_TIMEOUT_SECS (rb_timeout_secs body)\<rparr>"

text \<open>From the event to the single hook's check.\<close>

definition hook_of_request :: "hook_env \<Rightarrow> hook_create_request \<Rightarrow> ack_response + hook" where
  "hook_of_request env req =
     (case parse_event (hc_event req) of
        Inl reason \<Rightarrow> Inl (AckErr EValidation reason)
      | Inr event \<Rightarrow>
          if (\<exists>n\<in>set_option (hc_name req). \<not> is_valid_hook_name n) then
            Inl (AckErr EValidation (''invalid hook name '' @ quote (the (hc_name req)) @ '': '' @ name_rule))
          else
         (case reject_legacy_body_fields (he_json_keys env) (hc_body req) of
            Inl reason \<Rightarrow> Inl (AckErr EProtocol reason)
          | Inr _ \<Rightarrow>
         (case he_json_body env (hc_body req) of
            Inl e \<Rightarrow> Inl (AckErr EProtocol (''invalid HOOK-CREATE body: '' @ e))
          | Inr body \<Rightarrow>
             (let h = hook_of_body req event body in
              case validate_single_hook h of
                Inl e \<Rightarrow> Inl (AckErr EValidation (single_hook_message e))
              | Inr _ \<Rightarrow> Inr h))))"

text \<open>The part of \<open>handle_hook_create\<close> that runs before the locks.\<close>

definition hook_create_checks ::
  "hook_env \<Rightarrow> hook_create_request \<Rightarrow> nat \<Rightarrow> config \<Rightarrow> ack_response + hook" where
  "hook_create_checks env req uid snapshot =
     (case lookup_mailbox snapshot (hc_mailbox req) of
        None \<Rightarrow> Inl (AckErr EEnoent (''mailbox '' @ quote (hc_mailbox req) @ '' does not exist''))
      | Some mb \<Rightarrow>
         (case fst (enforce_mailbox_owner_or_root (me_getpwuid (he_mb env)) ''HOOK-CREATE'' uid
                      (hc_mailbox req) mb) of
            Inl reject \<Rightarrow> Inl (AckErr (ar_code reject) (ar_reason reject))
          | Inr _ \<Rightarrow>
              if is_catchall snapshot mb then
                Inl (AckErr EMailbox (''mailbox '' @ quote (hc_mailbox req) @
                  '' is the catchall; hooks on the catchall are forbidden''))
              else hook_of_request env req))"

definition add_hook :: "config \<Rightarrow> string \<Rightarrow> mailbox_config \<Rightarrow> hook \<Rightarrow> config" where
  "add_hook cfg name mb h = insert_mailbox cfg name (mb\<lparr>mb_hooks := mb_hooks mb @ [h]\<rparr>)"

text \<open>The write and the swap both handlers end with.\<close>

definition hook_store ::
  "hook_env \<Rightarrow> config \<Rightarrow> mailbox_world \<Rightarrow> ack_response \<times> mailbox_world" where
  "hook_store env new_config w =
     (case write_config_atomic (me_faults (he_mb env)) (me_config_path (he_mb env)) new_config w of
        (Inl e, w') \<Rightarrow> (AckErr EIo (''failed to write '' @ me_config_path (he_mb env) @ '': '' @ e), w')
      | (Inr _, w') \<Rightarrow> (AckOk, w'\<lparr>mw_handle := handle_store (mw_handle w') new_config\<rparr>))"

text \<open>The part that runs under the locks.\<close>

definition hook_create_commit ::
  "hook_env \<Rightarrow> string \<Rightarrow> hook \<Rightarrow> mailbox_world \<Rightarrow> ack_response \<times> mailbox_world" where
  "hook_create_commit env mailbox h w =
     (let current = handle_load (mw_handle w) in
      case lookup_mailbox current mailbox of
        None \<Rightarrow> (AckErr EEnoent (''mailbox '' @ quote mailbox @
                  '' does not exist (race with concurrent MAILBOX-DELETE)''), w)
      | Some mb \<Rightarrow>
         (let new_config = add_hook current mailbox mb h in
          case validate_hooks (he_sha env) new_config of
            Inl e \<Rightarrow> (AckErr EValidation (hooks_message e), w)
          | Inr _ \<Rightarrow> hook_store env new_config w))"

definition handle_hook_create ::
  "hook_env \<Rightarrow> hook_create_request \<Rightarrow> nat \<Rightarrow> config \<Rightarrow> mailbox_world \<Rightarrow> ack_response \<times> mailbox_world" where
  "handle_hook_create env req uid snapshot w =
     (case hook_create_checks env req uid snapshot of
        Inl err \<Rightarrow> (err, w)
      | Inr h \<Rightarrow> hook_create_commit env (hc_mailbox req) h w)"

section \<open>HOOK-DELETE\<close>

definition find_hook_owner :: "(bytes \<Rightarrow> bytes) \<Rightarrow> config \<Rightarrow> string \<Rightarrow> string option" where
  "find_hook_owner sha cfg name =
     map_option fst (find (\<lambda>mh. effective_hook_name sha (snd mh) = name) (all_hooks cfg))"

definition hook_not_found :: "string \<Rightarrow> ack_response" where
  "hook_not_found name = AckErr EEnoent (''hook '' @ quote name @ '' not found'')"

definition drop_hook :: "(bytes \<Rightarrow> bytes) \<Rightarrow> string \<Rightarrow> mailbox_config \<Rightarrow> mailbox_config" where
  "drop_hook sha name mb = mb\<lparr>mb_hooks := filter (\<lambda>h. effective_hook_name sha h \<noteq> name) (mb_hooks mb)\<rparr>"

definition hook_delete_commit ::
  "hook_env \<Rightarrow> string \<Rightarrow> string \<Rightarrow> mailbox_world \<Rightarrow> ack_response \<times> mailbox_world" where
  "hook_delete_commit env mailbox name w =
     (let current = handle_load (mw_handle w) in
      case lookup_mailbox current mailbox of
        None \<Rightarrow> (hook_not_found name, w)
      | Some mb \<Rightarrow>
         (let mb' = drop_hook (he_sha env) name mb in
          if length (mb_hooks mb') = length (mb_hooks mb) then (hook_not_found name, w)
          else hook_store env (insert_mailbox current mailbox mb') w))"

definition handle_hook_delete ::
  "hook_env \<Rightarrow> hook_delete_request \<Rightarrow> nat \<Rightarrow> config \<Rightarrow> mailbox_world \<Rightarrow> ack_response \<times> mailbox_world" where
  "handle_hook_delete env req uid snapshot w =
     (case find_hook_owner (he_sha env) snapshot (hd_name req) of
        None \<Rightarrow> (hook_not_found (hd_name req), w)
      | Some mailbox \<Rightarrow>
         (case lookup_mailbox snapshot mailbox of
            None \<Rightarrow> (hook_not_found (hd_name req), w)
          | Some mb \<Rightarrow>
             (case fst (enforce_mailbox_owner_or_root (me_getpwuid (he_mb env)) ''HOOK-DELETE'' uid mailbox mb) of
                Inl _ \<Rightarrow> (hook_not_found (hd_name req), w)
              | Inr _ \<Rightarrow> hook_delete_commit env mailbox (hd_name req) w)))"

end
