(* ===== verification/HookFacts.thy ===== *)
theory HookFacts
  imports HookHandler
begin

text \<open>
  Properties of HOOK-CREATE and HOOK-DELETE: who may send them, that they keep the configuration
  valid and memory and disk equal, that they refine updates of one registry of hooks, and what
  can happen between a handler's check and its commit.
\<close>

section \<open>Outcomes\<close>

lemma validate_single_hook_Inr: "validate_single_hook h = Inr u \<longleftrightarrow> hook_ok h"
  by (auto simp: validate_single_hook_def hook_check_None [of "[]", symmetric] split: option.splits)

lemma validate_single_hook_ok: "hook_ok h \<Longrightarrow> validate_single_hook h = Inr ()"
  using validate_single_hook_Inr [of h "()"] by simp

lemma hook_of_request_ok: "hook_of_request env req = Inr h \<Longrightarrow> hook_ok h \<and> hk_name h = hc_name req"
  by (auto simp: hook_of_request_def Let_def validate_single_hook_Inr hook_of_body_def
      split: sum.splits if_splits)

lemma hook_of_request_err: "hook_of_request env req = Inl r \<Longrightarrow> \<exists>c s. r = AckErr c s"
  by (auto simp: hook_of_request_def Let_def split: sum.splits if_splits)

lemma hook_create_checks_Inr:
  "hook_create_checks env req uid snapshot = Inr h \<longleftrightarrow>
     (\<exists>mb. lookup_mailbox snapshot (hc_mailbox req) = Some mb \<and>
        uds_authorized (me_getpwuid (he_mb env)) uid mb \<and> \<not> is_catchall snapshot mb) \<and>
     hook_of_request env req = Inr h"
  by (auto simp: hook_create_checks_def enforce_Inl split: option.splits)

lemma hook_create_checks_err: "hook_create_checks env req uid snapshot = Inl r \<Longrightarrow> \<exists>c s. r = AckErr c s"
  by (auto simp: hook_create_checks_def dest: hook_of_request_err split: option.splits sum.splits if_splits)

lemma hook_store_effect: "config_effect new w (hook_store env new w)"
  by (simp add: hook_store_def config_effect_def write_config_atomic_def handle.load_store
      split: option.splits)

lemma hook_store_fs: "mw_fs (snd (hook_store env new w)) = mw_fs w"
  by (simp add: hook_store_def write_config_atomic_def split: option.splits)

lemma create_commit_inv:
  assumes "hook_create_commit env mailbox h w = (AckOk, w')"
  obtains mb where "lookup_mailbox (handle_load (mw_handle w)) mailbox = Some mb"
    "validate_hooks (he_sha env) (add_hook (handle_load (mw_handle w)) mailbox mb h) = Inr ()"
    "handle_load (mw_handle w') = add_hook (handle_load (mw_handle w)) mailbox mb h"
    "mw_disk w' = handle_load (mw_handle w')"
proof -
  from assms obtain mb where mb: "lookup_mailbox (handle_load (mw_handle w)) mailbox = Some mb"
      "validate_hooks (he_sha env) (add_hook (handle_load (mw_handle w)) mailbox mb h) = Inr ()"
    and s: "hook_store env (add_hook (handle_load (mw_handle w)) mailbox mb h) w = (AckOk, w')"
    by (auto simp: hook_create_commit_def Let_def split: option.splits sum.splits)
  with hook_store_effect [of "add_hook (handle_load (mw_handle w)) mailbox mb h" w env] that
  show ?thesis by (simp add: config_effect_def)
qed

lemma delete_commit_inv:
  assumes "hook_delete_commit env mailbox name w = (AckOk, w')"
  obtains mb where "lookup_mailbox (handle_load (mw_handle w)) mailbox = Some mb"
    "\<exists>h\<in>set (mb_hooks mb). effective_hook_name (he_sha env) h = name"
    "handle_load (mw_handle w') =
       insert_mailbox (handle_load (mw_handle w)) mailbox (drop_hook (he_sha env) name mb)"
    "mw_disk w' = handle_load (mw_handle w')"
proof -
  from assms obtain mb where mb: "lookup_mailbox (handle_load (mw_handle w)) mailbox = Some mb"
      "length (mb_hooks (drop_hook (he_sha env) name mb)) \<noteq> length (mb_hooks mb)"
    and s: "hook_store env (insert_mailbox (handle_load (mw_handle w)) mailbox (drop_hook (he_sha env) name mb)) w =
      (AckOk, w')"
    by (auto simp: hook_delete_commit_def Let_def hook_not_found_def split: option.splits if_splits)
  have "\<exists>h\<in>set (mb_hooks mb). effective_hook_name (he_sha env) h = name"
  proof (rule ccontr)
    assume "\<not> ?thesis"
    then have "filter (\<lambda>h. effective_hook_name (he_sha env) h \<noteq> name) (mb_hooks mb) = mb_hooks mb"
      by (auto simp: filter_id_conv)
    with mb(2) show False by (simp add: drop_hook_def)
  qed
  with mb s hook_store_effect [of "insert_mailbox (handle_load (mw_handle w)) mailbox (drop_hook (he_sha env) name mb)" w env] that
  show ?thesis by (simp add: config_effect_def)
qed

lemma create_inv:
  assumes "handle_hook_create env req uid snapshot w = (AckOk, w')"
  obtains h where "hook_create_checks env req uid snapshot = Inr h"
    "hook_create_commit env (hc_mailbox req) h w = (AckOk, w')"
  using assms by (auto simp: handle_hook_create_def split: sum.splits dest: hook_create_checks_err)

lemma delete_inv:
  assumes "handle_hook_delete env req uid snapshot w = (AckOk, w')"
  obtains mailbox mb where "find_hook_owner (he_sha env) snapshot (hd_name req) = Some mailbox"
    "lookup_mailbox snapshot mailbox = Some mb" "uds_authorized (me_getpwuid (he_mb env)) uid mb"
    "hook_delete_commit env mailbox (hd_name req) w = (AckOk, w')"
  using assms by (auto simp: handle_hook_delete_def enforce_Inl hook_not_found_def
      split: option.splits sum.splits if_splits)

text \<open>An outcome other than \<open>AckOk\<close> leaves the configuration in memory and on disk as it was.\<close>

definition unchanged :: "mailbox_world \<Rightarrow> ack_response \<times> mailbox_world \<Rightarrow> bool" where
  "unchanged w res \<longleftrightarrow> fst res \<noteq> AckOk \<and> mw_disk (snd res) = mw_disk w \<and> mw_handle (snd res) = mw_handle w"

lemma hook_store_cases: "unchanged w (hook_store env new w) \<or> fst (hook_store env new w) = AckOk"
  using hook_store_effect [of new w env] by (auto simp: unchanged_def config_effect_def split: if_splits)

lemma create_cases:
  "unchanged w (handle_hook_create env req uid snapshot w) \<or> fst (handle_hook_create env req uid snapshot w) = AckOk"
proof (cases "hook_create_checks env req uid snapshot")
  case (Inl r)
  with hook_create_checks_err [OF Inl] show ?thesis by (auto simp: handle_hook_create_def unchanged_def)
next
  case (Inr h)
  then show ?thesis
    using hook_store_cases
    by (auto simp: handle_hook_create_def hook_create_commit_def unchanged_def Let_def split: option.splits sum.splits)
qed

lemma delete_cases:
  "unchanged w (handle_hook_delete env req uid snapshot w) \<or> fst (handle_hook_delete env req uid snapshot w) = AckOk"
  using hook_store_cases
  by (auto simp: handle_hook_delete_def hook_delete_commit_def unchanged_def hook_not_found_def Let_def
      split: option.splits sum.splits if_splits)

text \<open>Either nothing changed, or one mailbox's hooks, which the caller may change by the snapshot.\<close>

lemma hook_result_cases:
  assumes "res \<in> {handle_hook_create env creq uid snapshot w, handle_hook_delete env dreq uid snapshot w}"
  obtains (same) "unchanged w res"
  | (changed) m mb0 mb hs where "fst res = AckOk" "lookup_mailbox snapshot m = Some mb0"
      "uds_authorized (me_getpwuid (he_mb env)) uid mb0"
      "lookup_mailbox (handle_load (mw_handle w)) m = Some mb"
      "handle_load (mw_handle (snd res)) = insert_mailbox (handle_load (mw_handle w)) m (mb\<lparr>mb_hooks := hs\<rparr>)"
      "mw_disk (snd res) = handle_load (mw_handle (snd res))"
proof (cases "unchanged w res")
  case False
  then obtain w' where res: "res = (AckOk, w')"
    using assms create_cases [of w env creq uid snapshot] delete_cases [of w env dreq uid snapshot]
    by (cases res) (metis fst_conv insertE singletonD)
  from assms consider "handle_hook_create env creq uid snapshot w = (AckOk, w')"
    | "handle_hook_delete env dreq uid snapshot w = (AckOk, w')" using res by auto
  then show ?thesis
  proof cases
    case 1
    then show ?thesis
      by (rule create_inv, elim create_commit_inv, unfold hook_create_checks_Inr)
        (auto simp: res add_hook_def intro: changed)
  next
    case 2
    then show ?thesis
      by (rule delete_inv, elim delete_commit_inv) (auto simp: res drop_hook_def intro: changed)
  qed
qed (rule same)

text \<open>
  every HOOK request leaves memory and disk agreeing, if they did before, and changes neither
  when it is refused or fails.
\<close>

theorem hook_requests_keep_coherent:
  assumes "coherent w"
    and "res \<in> {handle_hook_create env creq uid snapshot w, handle_hook_delete env dreq uid snapshot w}"
  shows "coherent (snd res) \<and>
    (fst res \<noteq> AckOk \<longrightarrow> handle_load (mw_handle (snd res)) = handle_load (mw_handle w))"
  using assms(2) by (rule hook_result_cases) (use assms(1) in \<open>auto simp: unchanged_def coherent_def\<close>)

section \<open>Who may change a mailbox's hooks\<close>


lemma findSomeD: "find P xs = Some x \<Longrightarrow> x \<in> set xs \<and> P x"
  by (induction xs) (auto split: if_splits)

section \<open>The registry of hooks\<close>

text \<open>The abstract state: for each effective name the mailbox that has the hook, and the hook.\<close>

definition hook_registry :: "(bytes \<Rightarrow> bytes) \<Rightarrow> config \<Rightarrow> string \<rightharpoonup> string \<times> hook" where
  "hook_registry sha cfg = map_of (map (\<lambda>mh. (effective_hook_name sha (snd mh), mh)) (all_hooks cfg))"

definition unique_names :: "(bytes \<Rightarrow> bytes) \<Rightarrow> config \<Rightarrow> bool" where
  "unique_names sha cfg \<longleftrightarrow> distinct (map (\<lambda>mh. effective_hook_name sha (snd mh)) (all_hooks cfg)) \<and>
     distinct (map fst (cfg_mailboxes cfg))"

lemma config_ok_unique: "config_ok sha cfg \<Longrightarrow> distinct (map fst (cfg_mailboxes cfg)) \<Longrightarrow> unique_names sha cfg"
  by (simp add: config_ok_def unique_names_def)

lemma registry_Some:
  "unique_names sha cfg \<Longrightarrow>
   hook_registry sha cfg name = Some mh \<longleftrightarrow> mh \<in> set (all_hooks cfg) \<and> effective_hook_name sha (snd mh) = name"
  by (auto simp: hook_registry_def unique_names_def comp_def dest: map_of_SomeD)

lemma registry_None:
  "hook_registry sha cfg name = None \<longleftrightarrow> name \<notin> (\<lambda>mh. effective_hook_name sha (snd mh)) ` set (all_hooks cfg)"
  by (simp add: hook_registry_def map_of_eq_None_iff image_image)

lemma box_split:
  assumes "lookup_mailbox cfg n = Some mb"
  obtains A B where "cfg_mailboxes cfg = A @ (n, mb) # B"
    "\<And>mb'. cfg_mailboxes (insert_mailbox cfg n mb') = A @ (n, mb') # B"
proof -
  have "\<exists>A B. ms = A @ (n, mb) # B \<and> (\<forall>mb'. AList.update n mb' ms = A @ (n, mb') # B)"
    if "map_of ms n = Some mb" for ms
    using that
  proof (induction ms)
    case (Cons m ms)
    show ?case
    proof (cases "fst m = n")
      case True
      with Cons.prems show ?thesis by (cases m) (auto intro: exI [of _ "[]"])
    next
      case False
      with Cons.prems have "map_of ms n = Some mb" by (cases m) auto
      with Cons.IH obtain A B where "ms = A @ (n, mb) # B" "\<forall>mb'. AList.update n mb' ms = A @ (n, mb') # B"
        by blast
      with False show ?thesis by (cases m) (auto intro: exI [of _ "m # A"])
    qed
  qed simp
  with assms that show ?thesis by (fastforce simp: lookup_mailbox_def insert_mailbox_def)
qed

lemma insert_keys: "lookup_mailbox cfg n = Some mb \<Longrightarrow>
    map fst (cfg_mailboxes (insert_mailbox cfg n mb')) = map fst (cfg_mailboxes cfg)"
  by (erule box_split) simp

text \<open>The hooks of the other mailboxes, before and after the one.\<close>

lemma hooks_split:
  assumes "lookup_mailbox cfg n = Some mb"
  obtains X Y where "all_hooks cfg = X @ map (Pair n) (mb_hooks mb) @ Y"
    "\<And>mb'. all_hooks (insert_mailbox cfg n mb') = X @ map (Pair n) (mb_hooks mb') @ Y"
  using assms by (elim box_split) (auto simp: all_hooks_def)

lemma find_owner_unique:
  "find_hook_owner sha cfg name = Some m \<Longrightarrow>
   \<exists>h. (m, h) \<in> set (all_hooks cfg) \<and> effective_hook_name sha h = name"
  by (auto simp: find_hook_owner_def dest!: findSomeD)

lemma registry_eqI:
  assumes "unique_names sha cfg" "unique_names sha cfg'"
    and "\<And>mh. mh \<in> set (all_hooks cfg') \<longleftrightarrow> r (effective_hook_name sha (snd mh)) = Some mh"
    and "\<And>name mh. r name = Some mh \<Longrightarrow> effective_hook_name sha (snd mh) = name"
  shows "hook_registry sha cfg' = r"
proof
  fix name
  have "hook_registry sha cfg' name = Some mh \<longleftrightarrow> r name = Some mh" for mh
    unfolding registry_Some [OF assms(2)] using assms(3) [of mh] assms(4) [of name mh] by auto
  then show "hook_registry sha cfg' name = r name"
    by (cases "r name"; cases "hook_registry sha cfg' name") auto
qed

lemma add_hook_registry:
  assumes u: "unique_names sha cfg" and mb: "lookup_mailbox cfg m = Some mb"
    and v: "validate_hooks sha (add_hook cfg m mb h) = Inr ()"
  shows "unique_names sha (add_hook cfg m mb h)" "hook_registry sha cfg (effective_hook_name sha h) = None"
    "hook_registry sha (add_hook cfg m mb h) = (hook_registry sha cfg)(effective_hook_name sha h \<mapsto> (m, h))"
proof -
  let ?e = "\<lambda>mh. effective_hook_name sha (snd mh)"
  from mb obtain X Y where old: "all_hooks cfg = X @ map (Pair m) (mb_hooks mb) @ Y"
    and new: "all_hooks (add_hook cfg m mb h) = X @ map (Pair m) (mb_hooks mb) @ (m, h) # Y"
    unfolding add_hook_def by (rule hooks_split) simp
  show u': "unique_names sha (add_hook cfg m mb h)"
    using v u insert_keys [OF mb] by (simp add: validate_hooks_iff unique_names_def add_hook_def)
  then have d: "distinct (map ?e (X @ map (Pair m) (mb_hooks mb) @ (m, h) # Y))"
    by (simp add: unique_names_def new)
  then have fresh: "?e mh \<noteq> effective_hook_name sha h" if "mh \<in> set (all_hooks cfg)" for mh
    using that by (auto simp: old image_iff)
  show none: "hook_registry sha cfg (effective_hook_name sha h) = None"
    using fresh by (cases "hook_registry sha cfg (effective_hook_name sha h)") (auto simp: registry_Some [OF u])
  have in_new: "mh \<in> set (all_hooks (add_hook cfg m mb h)) \<longleftrightarrow> mh = (m, h) \<or> mh \<in> set (all_hooks cfg)" for mh
    by (auto simp: old new)
  show "hook_registry sha (add_hook cfg m mb h) = (hook_registry sha cfg)(effective_hook_name sha h \<mapsto> (m, h))"
    by (rule registry_eqI [OF u u'])
      (use fresh in \<open>auto simp: in_new registry_Some [OF u] split: if_splits\<close>)
qed

lemma drop_hook_set:
  assumes u: "unique_names sha cfg" and mb: "lookup_mailbox cfg m = Some mb"
    and h: "h \<in> set (mb_hooks mb)" "effective_hook_name sha h = name"
  shows "all_hooks (insert_mailbox cfg m (drop_hook sha name mb)) =
    filter (\<lambda>mh. effective_hook_name sha (snd mh) \<noteq> name) (all_hooks cfg)"
proof -
  from mb obtain X Y where old: "all_hooks cfg = X @ map (Pair m) (mb_hooks mb) @ Y"
    and new: "all_hooks (insert_mailbox cfg m (drop_hook sha name mb)) =
      X @ map (Pair m) (filter (\<lambda>h. effective_hook_name sha h \<noteq> name) (mb_hooks mb)) @ Y"
    by (rule hooks_split) (simp add: drop_hook_def)
  have "\<forall>mh\<in>set X \<union> set Y. effective_hook_name sha (snd mh) \<noteq> name"
    using u h by (auto simp: unique_names_def old image_iff)
  then have "filter (\<lambda>mh. effective_hook_name sha (snd mh) \<noteq> name) X = X"
    "filter (\<lambda>mh. effective_hook_name sha (snd mh) \<noteq> name) Y = Y"
    by (auto simp: filter_id_conv)
  then show ?thesis by (simp add: old new filter_map comp_def)
qed

lemma drop_hook_registry:
  assumes u: "unique_names sha cfg" and mb: "lookup_mailbox cfg m = Some mb"
    and h: "h \<in> set (mb_hooks mb)" "effective_hook_name sha h = name"
  shows "unique_names sha (insert_mailbox cfg m (drop_hook sha name mb))"
    "hook_registry sha cfg name = Some (m, h)"
    "hook_registry sha (insert_mailbox cfg m (drop_hook sha name mb)) = (hook_registry sha cfg)(name := None)"
proof -
  note new = drop_hook_set [OF assms]
  show u': "unique_names sha (insert_mailbox cfg m (drop_hook sha name mb))"
    using u insert_keys [OF mb] by (simp add: unique_names_def new distinct_map_filter)
  show "hook_registry sha cfg name = Some (m, h)"
    using h mb by (auto simp: registry_Some [OF u] elim!: hooks_split)
  show "hook_registry sha (insert_mailbox cfg m (drop_hook sha name mb)) = (hook_registry sha cfg)(name := None)"
    by (rule registry_eqI [OF u u']) (auto simp: new registry_Some [OF u] split: if_splits)
qed

text \<open>
  C34: HOOK requests refine the updates of one finite map from names to hooks: a successful create
  adds the requested hook under a name that was free in the whole configuration, a successful
  delete removes exactly the named hook, and names stay unique.
\<close>

theorem hook_requests_refine_registry:
  assumes u: "unique_names (he_sha env) (handle_load (mw_handle w))"
  shows "(handle_hook_create env creq uid snapshot w = (AckOk, w') \<longrightarrow>
      (\<exists>h. hook_of_request env creq = Inr h \<and>
        hook_registry (he_sha env) (handle_load (mw_handle w)) (effective_hook_name (he_sha env) h) = None \<and>
        hook_registry (he_sha env) (handle_load (mw_handle w')) =
          (hook_registry (he_sha env) (handle_load (mw_handle w)))
            (effective_hook_name (he_sha env) h \<mapsto> (hc_mailbox creq, h)) \<and>
        unique_names (he_sha env) (handle_load (mw_handle w')))) \<and>
    (handle_hook_delete env dreq uid snapshot w = (AckOk, w') \<longrightarrow>
      hook_registry (he_sha env) (handle_load (mw_handle w)) (hd_name dreq) \<noteq> None \<and>
      hook_registry (he_sha env) (handle_load (mw_handle w')) =
        (hook_registry (he_sha env) (handle_load (mw_handle w)))(hd_name dreq := None) \<and>
      unique_names (he_sha env) (handle_load (mw_handle w')))"
  (is "(?c \<longrightarrow> ?C) \<and> (?d \<longrightarrow> ?D)")
proof (intro conjI impI)
  assume ?c
  then show ?C
    using add_hook_registry [OF u] by (elim create_inv create_commit_inv) (auto simp: hook_create_checks_Inr)
next
  assume ?d
  then show "hook_registry (he_sha env) (handle_load (mw_handle w)) (hd_name dreq) \<noteq> None"
    "hook_registry (he_sha env) (handle_load (mw_handle w')) =
        (hook_registry (he_sha env) (handle_load (mw_handle w)))(hd_name dreq := None)"
    "unique_names (he_sha env) (handle_load (mw_handle w'))"
    using drop_hook_registry [OF u] by (auto elim!: delete_inv delete_commit_inv)
qed

section \<open>What a create and a delete leave\<close>

lemma insert_same: "lookup_mailbox cfg m = Some mb \<Longrightarrow> insert_mailbox (insert_mailbox cfg m mb') m mb = cfg"
  by (simp add: insert_mailbox_def update_triv lookup_mailbox_def)

lemma set_hooks_ok:
  assumes ok: "config_ok sha cfg" and mb: "lookup_mailbox cfg m = Some mb"
    and hs: "is_catchall cfg mb \<Longrightarrow> hs = []" "list_all hook_ok hs"
    and u: "distinct (map (\<lambda>mh. effective_hook_name sha (snd mh)) (all_hooks (insert_mailbox cfg m (mb\<lparr>mb_hooks := hs\<rparr>))))"
  shows "config_ok sha (insert_mailbox cfg m (mb\<lparr>mb_hooks := hs\<rparr>))"
proof -
  let ?new = "insert_mailbox cfg m (mb\<lparr>mb_hooks := hs\<rparr>)"
  have dom: "cfg_domain ?new = cfg_domain cfg" "cfg_trust ?new = cfg_trust cfg"
    by (simp_all add: insert_mailbox_def)
  from mb obtain A B where old: "cfg_mailboxes cfg = A @ (m, mb) # B"
    and new: "cfg_mailboxes ?new = A @ (m, mb\<lparr>mb_hooks := hs\<rparr>) # B" by (rule box_split) simp
  have "mailbox_ok cfg (mb\<lparr>mb_hooks := hs\<rparr>)"
    using ok hs(1) by (auto simp: config_ok_def old mailbox_ok_def is_catchall_def)
  moreover have "list_all (\<lambda>mh. hook_ok (snd mh)) (all_hooks ?new)"
    using ok hs(2) unfolding config_ok_def all_hooks_iff by (auto simp: old new)
  ultimately show ?thesis
    using ok u mailbox_ok_domain [OF dom(1)] by (auto simp: config_ok_def old new dom)
qed

text \<open>The names under which a configuration has a catchall.\<close>

definition catchalls :: "config \<Rightarrow> string set" where
  "catchalls cfg = {n. \<exists>mb. lookup_mailbox cfg n = Some mb \<and> is_catchall cfg mb}"

text \<open>
  HOOK requests keep a valid configuration valid, if the catchalls of today were already catchalls
  in the snapshot they were checked on.
\<close>

lemma hook_requests_keep_valid:
  assumes ok: "config_ok (he_sha env) (handle_load (mw_handle w))"
    and d: "distinct (map fst (cfg_mailboxes (handle_load (mw_handle w))))"
    and caught: "catchalls (handle_load (mw_handle w)) \<subseteq> catchalls snapshot"
    and res: "res \<in> {handle_hook_create env creq uid snapshot w, handle_hook_delete env dreq uid snapshot w}"
  shows "config_ok (he_sha env) (handle_load (mw_handle (snd res)))"
proof -
  let ?cfg = "handle_load (mw_handle w)"
  note u = config_ok_unique [OF ok d]
  have mb_ok: "(is_catchall ?cfg mb \<longrightarrow> mb_hooks mb = []) \<and> list_all hook_ok (mb_hooks mb)"
    if "lookup_mailbox ?cfg m = Some mb" for m mb
    using that by (rule box_split) (use ok in \<open>auto simp: config_ok_def all_hooks_iff mailbox_ok_def\<close>)
  from res consider "res = handle_hook_create env creq uid snapshot w" | "res = handle_hook_delete env dreq uid snapshot w"
    by auto
  then show ?thesis
  proof cases
    case 1
    then consider "unchanged w res" | w' where "handle_hook_create env creq uid snapshot w = (AckOk, w')" "res = (AckOk, w')"
      using create_cases [of w env creq uid snapshot] by (metis prod.collapse)
    then show ?thesis
    proof cases
      case (2 w')
      from 2(1) show ?thesis
      proof (elim create_inv create_commit_inv)
        fix h mb
        assume c: "hook_create_checks env creq uid snapshot = Inr h"
          and mb: "lookup_mailbox ?cfg (hc_mailbox creq) = Some mb"
          and v: "validate_hooks (he_sha env) (add_hook ?cfg (hc_mailbox creq) mb h) = Inr ()"
          and new: "handle_load (mw_handle w') = add_hook ?cfg (hc_mailbox creq) mb h"
        from c mb caught have "\<not> is_catchall ?cfg mb" "hook_ok h"
          by (auto simp: hook_create_checks_Inr catchalls_def dest: hook_of_request_ok)
        with mb_ok [OF mb] v show ?thesis
          by (auto simp: 2(2) new add_hook_def validate_hooks_iff intro!: set_hooks_ok [OF ok mb])
      qed
    qed (use ok in \<open>simp add: unchanged_def\<close>)
  next
    case 2
    then consider "unchanged w res" | w' where "handle_hook_delete env dreq uid snapshot w = (AckOk, w')" "res = (AckOk, w')"
      using delete_cases [of w env dreq uid snapshot] by (metis prod.collapse)
    then show ?thesis
    proof cases
      case (2 w')
      from 2(1) show ?thesis
      proof (elim delete_inv delete_commit_inv)
        fix m mb
        assume mb: "lookup_mailbox ?cfg m = Some mb"
          and h: "\<exists>h\<in>set (mb_hooks mb). effective_hook_name (he_sha env) h = hd_name dreq"
          and new: "handle_load (mw_handle w') = insert_mailbox ?cfg m (drop_hook (he_sha env) (hd_name dreq) mb)"
        from h drop_hook_registry(1) [OF u mb] mb_ok [OF mb] show ?thesis
          by (auto simp: 2(2) new drop_hook_def unique_names_def list_all_iff intro!: set_hooks_ok [OF ok mb])
      qed
    qed (use ok in \<open>simp add: unchanged_def\<close>)
  qed
qed

text \<open>
  a HOOK request whose check and commit see one configuration keeps a valid configuration
  valid, so the daemon can load what it wrote.
\<close>

theorem hook_requests_keep_config_loadable:
  assumes ok: "config_ok (he_sha env) (handle_load (mw_handle w))"
    and d: "distinct (map fst (cfg_mailboxes (handle_load (mw_handle w))))"
    and res: "res \<in> {handle_hook_create env creq uid (handle_load (mw_handle w)) w,
                     handle_hook_delete env dreq uid (handle_load (mw_handle w)) w}"
  shows "config_ok (he_sha env) (handle_load (mw_handle (snd res)))"
  using ok d order_refl res by (rule hook_requests_keep_valid)

text \<open>
  a created hook can be taken back: deleting it by its name, by the same caller and right
  after, succeeds and restores the configuration, in memory and on disk, that was there before.
\<close>

theorem hook_delete_undoes_create:
  assumes u: "unique_names (he_sha env) (handle_load (mw_handle w))"
    and made: "handle_hook_create env req uid (handle_load (mw_handle w)) w = (AckOk, w')"
  shows "\<exists>h w''. hook_of_request env req = Inr h \<and>
    handle_hook_delete env \<lparr>hd_name = effective_hook_name (he_sha env) h\<rparr> uid (handle_load (mw_handle w')) w' =
      (AckOk, w'') \<and>
    handle_load (mw_handle w'') = handle_load (mw_handle w) \<and> mw_disk w'' = handle_load (mw_handle w)"
proof -
  let ?cfg = "handle_load (mw_handle w)" and ?m = "hc_mailbox req"
  from made obtain h where c: "hook_create_checks env req uid ?cfg = Inr h"
    and k: "hook_create_commit env ?m h w = (AckOk, w')" by (rule create_inv)
  from k obtain mb where mb: "lookup_mailbox ?cfg ?m = Some mb"
    and v: "validate_hooks (he_sha env) (add_hook ?cfg ?m mb h) = Inr ()"
    and new: "handle_load (mw_handle w') = add_hook ?cfg ?m mb h" by (rule create_commit_inv)
  let ?n = "effective_hook_name (he_sha env) h" and ?mb = "mb\<lparr>mb_hooks := mb_hooks mb @ [h]\<rparr>"
  note reg = add_hook_registry [OF u mb v]
  have found: "find_hook_owner (he_sha env) (add_hook ?cfg ?m mb h) ?n = Some ?m"
  proof (cases "find_hook_owner (he_sha env) (add_hook ?cfg ?m mb h) ?n")
    case None
    have "(?m, h) \<in> set (all_hooks (add_hook ?cfg ?m mb h))"
      using registry_Some [OF reg(1), of ?n "(?m, h)"] reg(3) by simp
    with None show ?thesis by (auto simp: find_hook_owner_def find_None_iff)
  next
    case (Some m')
    with find_owner_unique [OF Some] obtain h' where
      "(m', h') \<in> set (all_hooks (add_hook ?cfg ?m mb h))" "effective_hook_name (he_sha env) h' = ?n" by blast
    then have "hook_registry (he_sha env) (add_hook ?cfg ?m mb h) ?n = Some (m', h')"
      by (simp add: registry_Some [OF reg(1)])
    with Some reg(3) show ?thesis by simp
  qed
  have fresh: "effective_hook_name (he_sha env) h' \<noteq> ?n" if "h' \<in> set (mb_hooks mb)" for h'
    using reg(2) unfolding registry_None
    by (rule contrapos_nn) (use that mb in \<open>auto elim!: hooks_split intro!: rev_image_eqI [of "(?m, h')"]\<close>)
  have drop: "drop_hook (he_sha env) ?n ?mb = mb"
    using fresh by (simp add: drop_hook_def filter_id_conv)
  have looked: "lookup_mailbox (add_hook ?cfg ?m mb h) ?m = Some ?mb"
    by (simp add: add_hook_def lookup_insert)
  have auth: "uds_authorized (me_getpwuid (he_mb env)) uid ?mb"
    using c mb by (auto simp: hook_create_checks_Inr uds_authorized_def)
  have restored: "insert_mailbox (add_hook ?cfg ?m mb h) ?m mb = ?cfg"
    using insert_same [OF mb] by (simp add: add_hook_def)
  have no_fault: "me_faults (he_mb env) WriteConfigOp (me_config_path (he_mb env)) = None"
    using k v mb by (auto simp: hook_create_commit_def hook_store_def write_config_atomic_def Let_def split: option.splits)
  have "\<exists>w''. handle_hook_delete env \<lparr>hd_name = ?n\<rparr> uid (handle_load (mw_handle w')) w' = (AckOk, w'') \<and>
      handle_load (mw_handle w'') = ?cfg \<and> mw_disk w'' = ?cfg"
    by (simp add: handle_hook_delete_def new found looked enforce_Inl auth hook_delete_commit_def drop Let_def
        hook_store_def write_config_atomic_def no_fault restored handle.load_store)
  then show ?thesis using c by (auto simp: hook_create_checks_Inr)
qed

section \<open>What a refusal tells\<close>

text \<open>
  to a user other than root, deleting a hook that does not exist and deleting one that only
  mailboxes of others have give the same bytes, and neither changes anything.
\<close>

theorem hook_delete_hides_existence:
  assumes "uid \<noteq> 0"
    and "\<And>m mb h. lookup_mailbox snapshot m = Some mb \<Longrightarrow> h \<in> set (mb_hooks mb) \<Longrightarrow>
      effective_hook_name (he_sha env) h = hd_name req \<Longrightarrow> me_getpwuid (he_mb env) uid \<noteq> Some (mb_owner mb)"
    and "distinct (map fst (cfg_mailboxes snapshot))"
  shows "handle_hook_delete env req uid snapshot w = (hook_not_found (hd_name req), w)"
proof (cases "find_hook_owner (he_sha env) snapshot (hd_name req)")
  case (Some m)
  from find_owner_unique [OF this] obtain h where h: "(m, h) \<in> set (all_hooks snapshot)"
    "effective_hook_name (he_sha env) h = hd_name req" by blast
  then obtain mb where "(m, mb) \<in> set (cfg_mailboxes snapshot)" "h \<in> set (mb_hooks mb)"
    by (auto simp: all_hooks_def)
  moreover from this assms(3) have "lookup_mailbox snapshot m = Some mb" by (simp add: lookup_mailbox_def)
  ultimately show ?thesis
    using assms(1) assms(2) [of m mb h] h(2) Some
    by (simp add: handle_hook_delete_def enforce_Inl uds_authorized_def)
qed (simp add: handle_hook_delete_def)

text \<open>
  a refused HOOK-CREATE does tell which mailboxes exist: a caller who is neither root nor the
  owner gets \<open>EACCES\<close> for a mailbox of another and \<open>ENOENT\<close> for a missing one.
\<close>

theorem hook_create_tells_mailboxes:
  assumes "uid \<noteq> 0"
    and "\<And>mb. lookup_mailbox snapshot (hc_mailbox req) = Some mb \<Longrightarrow> me_getpwuid (he_mb env) uid \<noteq> Some (mb_owner mb)"
  shows "\<exists>reason. handle_hook_create env req uid snapshot w =
    (AckErr (if lookup_mailbox snapshot (hc_mailbox req) = None then EEnoent else EEaccess) reason, w)"
  using assms
  by (cases "lookup_mailbox snapshot (hc_mailbox req)")
    (auto simp: handle_hook_create_def hook_create_checks_def enforce_Inl uds_authorized_def)

section \<open>Between the check and the commit\<close>

text \<open>
  the owner is checked on the snapshot alone: a create that passed, and then waited while
  root gave the mailbox's name to another user, puts the caller's program on that user's mailbox,
  where it runs as that user.
\<close>

theorem hook_create_after_handover:
  assumes checked: "hook_create_checks env req uid snapshot = Inr h"
    and mb: "lookup_mailbox (handle_load (mw_handle w)) (hc_mailbox req) = Some mb"
    and ok: "list_all (\<lambda>mh. hook_ok (snd mh)) (all_hooks (handle_load (mw_handle w)))"
    and u: "unique_names (he_sha env) (handle_load (mw_handle w))"
    and free: "hook_registry (he_sha env) (handle_load (mw_handle w)) (effective_hook_name (he_sha env) h) = None"
    and no_fault: "me_faults (he_mb env) WriteConfigOp (me_config_path (he_mb env)) = None"
  shows "\<exists>w'. handle_hook_create env req uid snapshot w = (AckOk, w') \<and>
    lookup_mailbox (handle_load (mw_handle w')) (hc_mailbox req) = Some (mb\<lparr>mb_hooks := mb_hooks mb @ [h]\<rparr>)"
proof -
  let ?cfg = "handle_load (mw_handle w)"
  have h: "hook_ok h" using checked by (auto simp: hook_create_checks_Inr dest: hook_of_request_ok)
  from mb obtain X Y where old: "all_hooks ?cfg = X @ map (Pair (hc_mailbox req)) (mb_hooks mb) @ Y"
    and new: "all_hooks (add_hook ?cfg (hc_mailbox req) mb h) =
      X @ map (Pair (hc_mailbox req)) (mb_hooks mb) @ (hc_mailbox req, h) # Y"
    unfolding add_hook_def by (rule hooks_split) simp
  have "effective_hook_name (he_sha env) h \<notin> (\<lambda>mh. effective_hook_name (he_sha env) (snd mh)) ` set (all_hooks ?cfg)"
    using free by (simp add: registry_None)
  then have "distinct (map (\<lambda>mh. effective_hook_name (he_sha env) (snd mh)) (all_hooks (add_hook ?cfg (hc_mailbox req) mb h)))"
    using u by (simp add: unique_names_def old new image_Un image_image comp_def)
  with ok h have "validate_hooks (he_sha env) (add_hook ?cfg (hc_mailbox req) mb h) = Inr ()"
    by (simp add: validate_hooks_iff old new)
  with checked mb no_fault show ?thesis
    by (simp add: handle_hook_create_def hook_create_commit_def hook_store_def write_config_atomic_def
        handle.load_store Let_def add_hook_def lookup_insert)
qed

section \<open>The theorems at concrete requests\<close>

definition demo_hook_env :: hook_env where
  "demo_hook_env = \<lparr>he_mb = demo_env, he_sha = id, he_json_keys = (\<lambda>_. Some [''cmd'']),
     he_json_body = (\<lambda>_. Inr \<lparr>rb_cmd = [''/bin/true''], rb_fire_on_untrusted = None, rb_type = None,
                            rb_timeout_secs = None\<rparr>)\<rparr>"

definition demo_hook_create :: hook_create_request where
  "demo_hook_create = \<lparr>hc_mailbox = ''alice'', hc_event = ''on_receive'', hc_name = Some ''h'', hc_body = []\<rparr>"

definition demo_hooked :: mailbox_world where
  "demo_hooked = snd (handle_hook_create demo_hook_env demo_hook_create 1000 (demo_config []) demo_world)"

text \<open>The world after root deleted alice's mailbox and created it again for bob.\<close>

definition demo_handed :: mailbox_world where
  "demo_handed = snd (handle_mailbox_crud demo_env
     (demo_request True ''alice''\<lparr>mq_owner := Some ''bob''\<rparr>) 0
     (snd (handle_mailbox_crud demo_env (demo_request False ''alice'') 0 demo_world)))"

lemma demo_hook_env_simps [simp]:
  "he_mb demo_hook_env = demo_env" "he_sha demo_hook_env = id" "me_getpwuid demo_env = demo_getpwuid"
  "me_faults demo_env = (\<lambda>_ _. None)"
  by (simp_all add: demo_hook_env_def demo_env_def)

lemma demo_hook_request: "hook_of_request demo_hook_env demo_hook_create = Inr demo_hook"
  by code_simp

lemma demo_hook_checks: "hook_create_checks demo_hook_env demo_hook_create 1000 (demo_config []) = Inr demo_hook"
  using demo_mailbox_ok [of "[]"]
  by (simp add: hook_create_checks_Inr demo_hook_request demo_lookup demo_hook_create_def) code_simp

lemma demo_unique: "unique_names id (demo_config [])"
  by (simp add: unique_names_def) (simp add: demo_config_def)

lemma demo_hook_name: "effective_hook_name sha demo_hook = ''h''"
  by (simp add: effective_hook_name_def demo_hook_def)

lemma demo_made: "handle_hook_create demo_hook_env demo_hook_create 1000 (demo_config []) demo_world = (AckOk, demo_hooked)"
proof -
  have "fst (handle_hook_create demo_hook_env demo_hook_create 1000 (demo_config []) demo_world) = AckOk"
    by code_simp
  then show ?thesis unfolding demo_hooked_def by (metis prod.collapse)
qed

lemma demo_handed_config:
  "cfg_mailboxes (handle_load (mw_handle demo_handed)) = [(''alice'', (demo_mailbox [])\<lparr>mb_owner := ''bob''\<rparr>)]"
  by code_simp

theorem hook_requests_keep_coherent_witness: "coherent demo_hooked"
  using hook_requests_keep_coherent [of demo_world "(AckOk, demo_hooked)" demo_hook_env demo_hook_create 1000 "demo_config []"]
  by (simp add: demo_made) (simp add: coherent_def)


theorem hook_requests_refine_registry_witness:
  "hook_registry id (handle_load (mw_handle demo_hooked)) = (hook_registry id (demo_config []))(''h'' \<mapsto> (''alice'', demo_hook))"
  using hook_requests_refine_registry [of demo_hook_env demo_world demo_hook_create 1000 "demo_config []" demo_hooked]
    demo_unique demo_made demo_hook_request
  by (simp add: demo_hook_name) (simp add: demo_hook_create_def)

theorem hook_requests_keep_config_loadable_witness:
  "config_ok id (handle_load (mw_handle demo_hooked))"
proof -
  have "config_ok id (demo_config [])"
    using demo_mailbox_ok [of "[]"] by (simp add: config_ok_def) (simp add: demo_config_def VALID_TRUST_VALUES_def)
  with hook_requests_keep_config_loadable [of demo_hook_env demo_world "(AckOk, demo_hooked)" demo_hook_create 1000]
  show ?thesis by (simp add: demo_made) (simp add: demo_config_def)
qed

theorem hook_delete_undoes_create_witness:
  "\<exists>w''. handle_hook_delete demo_hook_env \<lparr>hd_name = ''h''\<rparr> 1000 (handle_load (mw_handle demo_hooked)) demo_hooked =
     (AckOk, w'') \<and> handle_load (mw_handle w'') = demo_config []"
  using hook_delete_undoes_create [of demo_hook_env demo_world demo_hook_create 1000 demo_hooked]
    demo_unique demo_made demo_hook_request
  by (auto simp: demo_hook_name)

theorem hook_delete_hides_existence_witness:
  "handle_hook_delete demo_hook_env \<lparr>hd_name = ''h''\<rparr> 1001 (demo_config [demo_hook]) demo_world =
     handle_hook_delete demo_hook_env \<lparr>hd_name = ''h''\<rparr> 1001 (demo_config []) demo_world"
proof -
  have one: "lookup_mailbox (demo_config hs) m = Some mb \<Longrightarrow> mb = demo_mailbox hs" for hs m mb
    by (simp add: lookup_mailbox_def demo_config_def split: if_splits)
  have "handle_hook_delete demo_hook_env \<lparr>hd_name = ''h''\<rparr> 1001 (demo_config hs) demo_world = (hook_not_found ''h'', demo_world)" for hs
  proof -
    have b: "me_getpwuid (he_mb demo_hook_env) 1001 \<noteq> Some (mb_owner (demo_mailbox hs))"
      by (simp add: demo_getpwuid_def demo_mailbox_def)
    have d: "distinct (map fst (cfg_mailboxes (demo_config hs)))" by (simp add: demo_config_def)
    have "handle_hook_delete demo_hook_env \<lparr>hd_name = ''h''\<rparr> 1001 (demo_config hs) demo_world =
        (hook_not_found (hd_name \<lparr>hd_name = ''h''\<rparr>), demo_world)"
      by (rule hook_delete_hides_existence [OF _ _ d], simp) (use b in \<open>blast dest!: one\<close>)
    then show ?thesis by simp
  qed
  then show ?thesis by simp
qed

theorem hook_create_tells_mailboxes_witness:
  "(\<exists>r. handle_hook_create demo_hook_env demo_hook_create 1001 (demo_config []) demo_world = (AckErr EEaccess r, demo_world)) \<and>
   (\<exists>r. handle_hook_create demo_hook_env (demo_hook_create\<lparr>hc_mailbox := ''x''\<rparr>) 1001 (demo_config []) demo_world =
      (AckErr EEnoent r, demo_world))"
  using hook_create_tells_mailboxes [of 1001 "demo_config []" demo_hook_create demo_hook_env demo_world]
    hook_create_tells_mailboxes [of 1001 "demo_config []" "demo_hook_create\<lparr>hc_mailbox := ''x''\<rparr>" demo_hook_env demo_world]
  by (simp add: demo_lookup demo_hook_create_def demo_getpwuid_def demo_mailbox_def)

theorem hook_create_after_handover_witness:
  "\<exists>w' mb. handle_hook_create demo_hook_env demo_hook_create 1000 (demo_config []) demo_handed = (AckOk, w') \<and>
    lookup_mailbox (handle_load (mw_handle w')) ''alice'' = Some mb \<and> mb_owner mb = ''bob'' \<and> mb_hooks mb = [demo_hook]"
proof -
  have "all_hooks (handle_load (mw_handle demo_handed)) = []"
    by (simp add: all_hooks_def demo_handed_config demo_mailbox_def)
  with hook_create_after_handover [OF demo_hook_checks, of demo_handed "(demo_mailbox [])\<lparr>mb_owner := ''bob''\<rparr>"]
  show ?thesis
    by (auto simp: lookup_mailbox_def demo_handed_config unique_names_def hook_registry_def demo_hook_create_def demo_mailbox_def)
qed

end
