(* ===== verification/Daemon.thy ===== *)
theory Daemon
  imports HookFacts SendHandler Listing WireRoundtrip
begin

text \<open>
  The daemon behind its Unix socket (\<open>src/serve.rs\<close>: \<open>run_send_listener\<close>,
  \<open>handle_uds_connection_with_timeout\<close>, \<open>reload_config\<close>; \<open>src/version_handler.rs\<close>): one request per
  connection, parsed, dispatched to its handler and answered by one frame; and the transitions of
  the configuration, in memory and on disk, as connections are served next to each other.

  The disk is an abstract type with the two views the handlers have of it. A connection first
  takes its snapshot of the configuration and is served later, when others may have been.
\<close>

section \<open>State\<close>

record 'd daemon_env =
  de_hook :: hook_env
  de_mark :: mark_env
  de_send :: send_env
  de_list :: list_env
  de_version :: version_response
  de_version_json :: "version_response \<Rightarrow> bytes"
  de_dbg_str :: "string \<Rightarrow> string"
  de_tree :: "'d \<Rightarrow> mail_tree"
  de_put_tree :: "mail_tree \<Rightarrow> 'd \<Rightarrow> 'd"
  de_fs :: "'d \<Rightarrow> fsys"
  de_put_fs :: "fsys \<Rightarrow> 'd \<Rightarrow> 'd"
  de_read_file :: "'d \<Rightarrow> string \<Rightarrow> bytes option"
  de_spawn :: "spawn_request \<Rightarrow> 'd \<Rightarrow> 'd"
  de_clock :: "'d \<Rightarrow> string"

text \<open>What the reader of a connection yields within the time limit: a timeout, or the bytes and what ended them.\<close>

datatype uds_read = TimedOut | Received bytes "string option"

text \<open>A connection accepted: its peer, if the kernel names it, its bytes and its snapshot.\<close>

type_synonym connection = "(string + nat) \<times> uds_read \<times> config"

record 'd daemon =
  dm_disk :: 'd
  dm_handle :: config_handle
  dm_file :: config
  dm_pending :: "connection list"
  dm_reloading :: "config option"

abbreviation live_config :: "'d daemon \<Rightarrow> config" where
  "live_config s \<equiv> handle_load (dm_handle s)"

definition as_world :: "'d daemon_env \<Rightarrow> 'd daemon \<Rightarrow> mailbox_world" where
  "as_world env s = \<lparr>mw_fs = de_fs env (dm_disk s), mw_handle = dm_handle s, mw_disk = dm_file s\<rparr>"

definition put_world :: "'d daemon_env \<Rightarrow> mailbox_world \<Rightarrow> 'd daemon \<Rightarrow> 'd daemon" where
  "put_world env w s =
     s\<lparr>dm_disk := de_put_fs env (mw_fs w) (dm_disk s), dm_handle := mw_handle w, dm_file := mw_disk w\<rparr>"

definition put_tree :: "'d daemon_env \<Rightarrow> mail_tree \<Rightarrow> 'd daemon \<Rightarrow> 'd daemon" where
  "put_tree env t s = s\<lparr>dm_disk := de_put_tree env t (dm_disk s)\<rparr>"

section \<open>Error texts of the parser\<close>

fun malformed_message :: "(string \<Rightarrow> string) \<Rightarrow> malformed \<Rightarrow> string" where
  "malformed_message dbg (ExpectedVerb line) = ''expected '' @ quote ''AIMX/1 <verb>'' @ '', got '' @ dbg line"
| "malformed_message dbg UnexpectedEofInHeaders = ''unexpected EOF in headers''"
| "malformed_message dbg (InvalidHeaderLine line) = ''invalid header line: '' @ dbg line"
| "malformed_message dbg (NonAsciiHeaderName name) = ''non-ascii header name: '' @ dbg name"
| "malformed_message dbg (DuplicateHeader h) = ''duplicate '' @ h @ '' header''"
| "malformed_message dbg (EmptyHeader h) = ''empty '' @ h @ '' value''"
| "malformed_message dbg (MissingHeader h) = ''missing required header: '' @ h"
| "malformed_message dbg (NonIntegerLength h v) = ''non-integer '' @ h @ '': '' @ dbg v"
| "malformed_message dbg (LengthExceedsCap h n cap) =
     h @ '' '' @ show_nat n @ '' exceeds cap '' @ show_nat cap"
| "malformed_message dbg (LengthNotZero verb n) =
     verb @ (if verb = ''HOOK-DELETE'' then [] else '' verb'') @ '' must have Content-Length: 0, got '' @ show_nat n"
| "malformed_message dbg (InvalidBool h v) =
     ''invalid '' @ h @ '' value: '' @ dbg v @ '' (expected '' @ quote ''true'' @ '' or '' @ quote ''false'' @ '')''"
| "malformed_message dbg (InvalidOwnerValue v) =
     ''invalid Owner value: '' @ dbg v @ '' (must match [a-z_][a-z0-9_-]*[$]?)''"
| "malformed_message dbg FolderNotAllowed =
     ''Folder header is not allowed on MARK verbs (sent-mail mark removed; inbox is the only target)''"
| "malformed_message dbg ForceOnlyOnDelete = ''Force header is only valid on MAILBOX-DELETE''"
| "malformed_message dbg TextAndHtmlExclusive =
     ''AIMX/1 SEND: --text-only and --html-body are mutually exclusive''"
| "malformed_message dbg (TakesNoHeaders verb line) = verb @ '' takes no headers, got '' @ dbg line"
| "malformed_message dbg (BodyTruncated n) = ''body truncated: expected '' @ show_nat n @ '' bytes''"
| "malformed_message dbg (HtmlBodyTruncated n) =
     ''html body truncated: expected '' @ show_nat n @ '' bytes after main body''"
| "malformed_message dbg EofMidLine = ''unexpected EOF mid-line (no terminator)''"
| "malformed_message dbg HeaderLineTooLong = ''header line exceeds '' @ show_nat MAX_HEADER_LINE @ '' bytes''"
| "malformed_message dbg InvalidUtf8Line = ''header line contains invalid UTF-8''"
| "malformed_message dbg ResponseStatusEof = ''unexpected EOF on response status''"
| "malformed_message dbg (NotOkStatus line) = ''expected '' @ quote ''AIMX/1 OK'' @ '', got '' @ dbg line"
| "malformed_message dbg MissingVersionLength = ''missing Content-Length on VERSION response''"
| "malformed_message dbg (InvalidVersionJson e) = ''invalid VERSION JSON: '' @ e"

fun parse_error_message :: "(string \<Rightarrow> string) \<Rightarrow> parse_error \<Rightarrow> string" where
  "parse_error_message dbg ClosedBeforeRequest = ''connection closed before request''"
| "parse_error_message dbg (Malformed m) = ''malformed request: '' @ malformed_message dbg m"
| "parse_error_message dbg (UnknownVerb v) = ''unknown verb '' @ quote v"
| "parse_error_message dbg (Io e) = ''i/o error: '' @ e"

section \<open>One connection\<close>

datatype reply =
    ReplySend send_response | ReplyAck ack_response | ReplyJson json_ack_response | ReplyVersion version_response

text \<open>The answer to a request; \<open>None\<close> is a handler that does not return.\<close>

definition dispatch ::
  "'d daemon_env \<Rightarrow> request \<Rightarrow> nat \<Rightarrow> config \<Rightarrow> 'd daemon \<Rightarrow> reply option \<times> 'd daemon" where
  "dispatch env req uid snapshot s =
     (case req of
        Send r \<Rightarrow>
          (case handle_send (de_send env) snapshot r uid (de_tree env (dm_disk s)) of
             (SendHangs, t) \<Rightarrow> (None, put_tree env t s)
           | (SendRefused resp, t) \<Rightarrow> (Some (ReplySend resp), put_tree env t s)
           | (SendTried resp call ctx, t) \<Rightarrow>
               (Some (ReplySend resp),
                s\<lparr>dm_disk := snd (fire_after_send_hooks (de_read_file env) (de_spawn env) (de_clock env)
                     (he_sha (de_hook env)) snapshot (SendTried resp call ctx)
                     (de_put_tree env t (dm_disk s)))\<rparr>))
      | Mark r \<Rightarrow>
          (case handle_mark (de_mark env) snapshot r uid (de_tree env (dm_disk s)) of
             (resp, t) \<Rightarrow> (Some (ReplyAck resp), put_tree env t s))
      | MailboxLifecycle r \<Rightarrow>
          (case handle_mailbox_crud (he_mb (de_hook env)) r uid (as_world env s) of
             (resp, w) \<Rightarrow> (Some (ReplyAck resp), put_world env w s))
      | MailboxList \<Rightarrow>
          (Some (ReplyJson (handle_mailbox_list (de_list env) snapshot (de_tree env (dm_disk s)) uid)), s)
      | HookCreate r \<Rightarrow>
          (case handle_hook_create (de_hook env) r uid snapshot (as_world env s) of
             (resp, w) \<Rightarrow> (Some (ReplyAck resp), put_world env w s))
      | HookDelete r \<Rightarrow>
          (case handle_hook_delete (de_hook env) r uid snapshot (as_world env s) of
             (resp, w) \<Rightarrow> (Some (ReplyAck resp), put_world env w s))
      | HookList \<Rightarrow> (Some (ReplyJson (handle_hook_list (de_list env) snapshot uid)), s)
      | Version \<Rightarrow> (Some (ReplyVersion (de_version env)), s))"

fun reply_frame :: "(version_response \<Rightarrow> bytes) \<Rightarrow> reply \<Rightarrow> bytes" where
  "reply_frame to_json (ReplySend r) = write_response r"
| "reply_frame to_json (ReplyAck r) = write_ack_response r"
| "reply_frame to_json (ReplyJson r) = write_json_ack_response r"
| "reply_frame to_json (ReplyVersion r) = write_version_response to_json r"

text \<open>
  The frame written, if one is, and the daemon after it. A failed parse is drained before it is
  answered, which is nothing to the state.
\<close>

definition handle_uds_connection ::
  "'d daemon_env \<Rightarrow> nat \<Rightarrow> uds_read \<Rightarrow> config \<Rightarrow> 'd daemon \<Rightarrow> bytes option \<times> 'd daemon" where
  "handle_uds_connection env uid inp snapshot s =
     (case inp of
        TimedOut \<Rightarrow> (None, s)
      | Received bs fail \<Rightarrow>
          (case parse_request fail bs of
             Inr (req, _) \<Rightarrow>
               (case dispatch env req uid snapshot s of
                  (reply, s') \<Rightarrow> (map_option (reply_frame (de_version_json env)) reply, s'))
           | Inl ClosedBeforeRequest \<Rightarrow> (None, s)
           | Inl (UnknownVerb v) \<Rightarrow>
               (Some (write_ack_response (AckErr EProtocol (''unknown verb '' @ quote v))), s)
           | Inl e \<Rightarrow>
               (Some (write_ack_response (AckErr EMalformed (parse_error_message (de_dbg_str env) e))), s)))"

text \<open>The listener's part: a peer the kernel does not name is refused before a byte is read.\<close>

definition serve_connection ::
  "'d daemon_env \<Rightarrow> connection \<Rightarrow> 'd daemon \<Rightarrow> bytes option \<times> 'd daemon" where
  "serve_connection env conn s =
     (case conn of (caller, inp, snapshot) \<Rightarrow>
        (case caller of
           Inl e \<Rightarrow> (Some (write_ack_response (AckErr EEaccess (''peer cred unavailable: '' @ e))), s)
         | Inr uid \<Rightarrow> handle_uds_connection env uid inp snapshot s))"

section \<open>Reloading\<close>

record reload_summary =
  rs_mailboxes :: nat
  rs_hooks :: nat
  rs_templates :: nat

text \<open>
  The two halves of \<open>reload_config\<close>: it takes no lock, so requests run between them. The file holds
  the configuration its text parses to; a text that does not parse is refused like an invalid one.
\<close>

definition reload_read ::
  "'d daemon_env \<Rightarrow> config \<Rightarrow> load_error + config \<times> load_warning list" where
  "reload_read env disk = validate_config (he_sha (de_hook env)) (me_pw (he_mb (de_hook env))) disk"

definition reload_summary_of :: "config \<Rightarrow> reload_summary" where
  "reload_summary_of cfg =
     \<lparr>rs_mailboxes = length (cfg_mailboxes cfg),
      rs_hooks = sum_list (map (\<lambda>(_, mb). length (mb_hooks mb)) (cfg_mailboxes cfg)), rs_templates = 0\<rparr>"

definition reload_config :: "'d daemon_env \<Rightarrow> 'd daemon \<Rightarrow> (load_error + reload_summary) \<times> 'd daemon" where
  "reload_config env s =
     (case reload_read env (dm_file s) of
        Inl e \<Rightarrow> (Inl e, s)
      | Inr (cfg, _) \<Rightarrow> (Inr (reload_summary_of cfg), s\<lparr>dm_handle := handle_store (dm_handle s) cfg\<rparr>))"

section \<open>Transitions\<close>

datatype daemon_event =
    Arrives "string + nat" uds_read
  | Serves "string + nat" uds_read "bytes option"
  | Changes
  | Edits config
  | ReloadReads
  | ReloadStores

text \<open>
  The system with the environments \<open>envs\<close> (faults, clocks and parameters may differ from step to
  step): connections arrive and are served in any order, mail and other programs change the disk,
  the operator edits the configuration file, and a reload reads it and later stores it.
\<close>

inductive daemon_step :: "'d daemon_env set \<Rightarrow> 'd daemon \<Rightarrow> daemon_event \<Rightarrow> 'd daemon \<Rightarrow> bool" for envs where
  arrive: "daemon_step envs s (Arrives caller inp)
     (s\<lparr>dm_pending := dm_pending s @ [(caller, inp, live_config s)]\<rparr>)"
| serve: "dm_pending s = before @ (caller, inp, snapshot) # after \<Longrightarrow> env \<in> envs \<Longrightarrow>
     serve_connection env (caller, inp, snapshot) (s\<lparr>dm_pending := before @ after\<rparr>) = (frame, s') \<Longrightarrow>
     daemon_step envs s (Serves caller inp frame) s'"
| change: "daemon_step envs s Changes (s\<lparr>dm_disk := d\<rparr>)"
| edit: "daemon_step envs s (Edits cfg) (s\<lparr>dm_file := cfg\<rparr>)"
| reload_reads: "dm_reloading s = None \<Longrightarrow> env \<in> envs \<Longrightarrow> reload_read env (dm_file s) = Inr (cfg, warnings) \<Longrightarrow>
     daemon_step envs s ReloadReads (s\<lparr>dm_reloading := Some cfg\<rparr>)"
| reload_stores: "dm_reloading s = Some cfg \<Longrightarrow>
     daemon_step envs s ReloadStores (s\<lparr>dm_handle := handle_store (dm_handle s) cfg, dm_reloading := None\<rparr>)"

inductive daemon_run :: "'d daemon_env set \<Rightarrow> 'd daemon \<Rightarrow> daemon_event list \<Rightarrow> 'd daemon \<Rightarrow> bool" for envs where
  run_nil: "daemon_run envs s [] s"
| run_step: "daemon_step envs s e s1 \<Longrightarrow> daemon_run envs s1 es s2 \<Longrightarrow> daemon_run envs s (e # es) s2"

inductive_cases daemon_step_cases: "daemon_step envs s e s'"

end
