(* ===== verification/SendFacts.thy ===== *)
theory SendFacts
  imports SendHandler IngestFacts AttachmentFacts
begin

text \<open>
  Properties of SEND: mail goes out only in the name of a mailbox the caller owns, the answer is the
  transport's, every request is answered, no file is overwritten, and what the check of the sender
  does not look at.
\<close>

section \<open>The sender\<close>

lemma resolve_sender_Inr:
  assumes "resolve_sender env cfg uid headers = Inr (from_header, mailbox, mb)"
  shows "\<exists>bare local_part domain. headers ''From'' = Some from_header \<and> extract_bare_address from_header = Some bare \<and>
    rsplit_once CHR ''@'' bare = Some (local_part, domain) \<and> eq_ignore_ascii_case domain (cfg_domain cfg) \<and>
    resolve_concrete_mailbox cfg bare = Some mailbox \<and> lookup_mailbox cfg mailbox = Some mb \<and>
    uds_authorized (se_getpwuid env) uid mb"
  using assms by (auto simp: resolve_sender_def enforce_Inl split: option.splits if_splits)

lemma prepare_send_Inr:
  assumes "prepare_send env cfg req uid = Inr p"
  shows "resolve_sender env cfg uid (scan_headers (sr_body req) SEND_HEADERS) = Inr (ps_from p, ps_mailbox p, ps_config p)"
    "scan_headers (sr_body req) SEND_HEADERS ''To'' = Some (ps_to p)" "extract_bare_address (ps_to p) = Some (ps_recipient p)"
    "build_signed env cfg req (scan_headers (sr_body req) SEND_HEADERS) = Inr (ps_message_id p, ps_signed p)"
    "ps_headers p = scan_headers (sr_body req) SEND_HEADERS"
  using assms by (auto simp: prepare_send_def Let_def split: sum.splits option.splits prod.splits)

text \<open>The mailbox a bare address names: by its address, or by its local part; never a wildcard.\<close>

lemma resolve_concrete_Some:
  assumes "resolve_concrete_mailbox cfg bare = Some name" "distinct (map fst (cfg_mailboxes cfg))"
  shows "\<exists>mb. lookup_mailbox cfg name = Some mb \<and> \<not> starts_with (mb_address mb) ''*'' \<and>
    (eq_ignore_ascii_case (mb_address mb) bare \<or> (\<exists>d. bare = name @ ''@'' @ d) \<or> bare = name)"
proof (cases "find (\<lambda>(name, mb). \<not> starts_with (mb_address mb) ''*'' \<and> eq_ignore_ascii_case (mb_address mb) bare) (cfg_mailboxes cfg)")
  case None
  with assms(1) show ?thesis
    by (auto simp: resolve_concrete_mailbox_def Let_def split: option.splits if_splits dest!: rsplit_once_Some)
next
  case (Some nm)
  with assms show ?thesis
    by (cases nm) (auto simp: resolve_concrete_mailbox_def lookup_mailbox_def find_Some_iff in_set_conv_nth [symmetric]
      intro!: map_of_is_SomeI exI [of _ "snd nm"] nth_mem dest: nth_mem)
qed

lemma handle_send_tried:
  assumes "handle_send env cfg req uid t = (SendTried response sent ctx, t')"
  obtains p path where "prepare_send env cfg req uid = Inr p" "sent = (ps_from p, ps_recipient p, ps_signed p)"
    "transport_verdict env p (outbound_format req) t = (response, asc_send_status ctx, Some path, t')"
    "asc_mailbox ctx = ps_mailbox p" "asc_filepath ctx = unwrap_or [] path"
  using assms by (auto simp: handle_send_def split: sum.splits prod.splits option.splits)

text \<open>
  C35: mail of a user other than root is handed to the transport only when the address it is checked
  by, the first of the first \<open>From\<close> header, is in the configured domain and names a mailbox of that
  user, and never through a catchall.
\<close>

theorem send_only_as_owned_mailbox:
  assumes "handle_send env cfg req uid t = (SendTried response sent ctx, t')" "uid \<noteq> 0"
    and "distinct (map fst (cfg_mailboxes cfg))"
  shows "\<exists>from_header bare local_part domain mb.
    scan_headers (sr_body req) SEND_HEADERS ''From'' = Some from_header \<and> fst sent = from_header \<and>
    extract_bare_address from_header = Some bare \<and> bare = local_part @ ''@'' @ domain \<and>
    eq_ignore_ascii_case domain (cfg_domain cfg) \<and>
    lookup_mailbox cfg (asc_mailbox ctx) = Some mb \<and> se_getpwuid env uid = Some (mb_owner mb) \<and>
    \<not> starts_with (mb_address mb) ''*'' \<and>
    (eq_ignore_ascii_case (mb_address mb) bare \<or> (\<exists>d. bare = asc_mailbox ctx @ ''@'' @ d) \<or> bare = asc_mailbox ctx)"
proof -
  from assms(1) obtain p where p: "prepare_send env cfg req uid = Inr p"
    and sent: "sent = (ps_from p, ps_recipient p, ps_signed p)" and m: "asc_mailbox ctx = ps_mailbox p"
    by (rule handle_send_tried)
  from resolve_sender_Inr [OF prepare_send_Inr(1) [OF p]] obtain bare l d where
    r: "scan_headers (sr_body req) SEND_HEADERS ''From'' = Some (ps_from p)" "extract_bare_address (ps_from p) = Some bare"
      "rsplit_once CHR ''@'' bare = Some (l, d)" "eq_ignore_ascii_case d (cfg_domain cfg)"
      "resolve_concrete_mailbox cfg bare = Some (ps_mailbox p)" "lookup_mailbox cfg (ps_mailbox p) = Some (ps_config p)"
      "uds_authorized (se_getpwuid env) uid (ps_config p)" by blast
  from resolve_concrete_Some [OF r(5) assms(3)] r assms(2) rsplit_once_Some [OF r(3)] show ?thesis
    by (auto simp: sent m uds_authorized_def)
qed

section \<open>The answer\<close>

text \<open>
  the answer to a send is the transport's: \<open>OK\<close> with the Message-ID exactly when it took the mail,
  \<open>TEMP\<close> and no trace on disk when it may be retried, \<open>DELIVERY\<close> when it failed for good; hooks are
  told the same, and whether a copy could be kept changes none of it.
\<close>

theorem send_answer_is_the_transports:
  assumes "handle_send env cfg req uid t = (SendTried response (from_header, recipient, signed) ctx, t')"
  shows "case se_transport env from_header recipient signed of
      Inr _ \<Rightarrow> response = SendOk (asc_message_id ctx) \<and> asc_send_status ctx = SendDelivered
    | Inl (TempError msg) \<Rightarrow> response = SendErr ETemp msg \<and> asc_send_status ctx = SendDeferred \<and>
        asc_filepath ctx = [] \<and> t' = t
    | Inl (PermanentError msg) \<Rightarrow> response = SendErr EDelivery msg \<and> asc_send_status ctx = SendFailed"
  using assms
  by (auto simp: handle_send_def transport_verdict_def unwrap_or_def split: sum.splits prod.splits option.splits transport_error.splits)

section \<open>The copy\<close>

lemma mkdir_is_dir: "tree_mkdir faults p t = Inr t1 \<Longrightarrow> path_is_dir t1 p"
  by (auto simp: tree_mkdir_def path_is_dir_def follow.simps split: option.splits if_splits)

lemma chown_dir: "path_is_dir t p \<Longrightarrow> chown_owned pw faults p mb mode t = t"
  by (auto simp: chown_owned_def set_meta_def path_is_dir_def split: option.splits sum.splits)

lemma create_new_Inr: "create_new faults p t = Inr t' \<Longrightarrow> t p = None \<and> (\<exists>f. t' = t(p \<mapsto> Regular f))"
  by (auto simp: create_new_def split: option.splits if_splits)

lemma create_then_write_keeps:
  assumes "create_new faults p t = Inr t4" "fs_write faults p content t4 = Inr t5"
  shows "keeps t (chown_owned pw fl p mb mode t5)"
proof -
  from create_new_Inr [OF assms(1)] obtain f where t4: "t p = None" "t4 = t(p \<mapsto> Regular f)" by blast
  then have "follow MAX_LINKS t4 p = Some p" by (subst follow.simps) simp
  with written_owned [OF assms(2), of pw fl mb mode] have "\<forall>x. x \<noteq> p \<longrightarrow> chown_owned pw fl p mb mode t5 x = t4 x" by auto
  with t4 show ?thesis by (auto simp: keeps_def) (metis fun_upd_apply option.distinct(1))
qed

lemma tree_mkdir_finite: "tree_mkdir faults p t = Inr t' \<Longrightarrow> finite (dom t) \<Longrightarrow> finite (dom t')"
  by (auto simp: tree_mkdir_def split: option.splits if_splits)

lemma finite_taken:
  assumes "finite (dom t)"
  shows "finite {m. path_exists t (join_path dir m)}"
proof -
  have "{m. path_exists t (join_path dir m)} \<subseteq> {m. join_path dir m \<in> dom t}"
    by (auto simp: path_exists_def follow.simps split: option.splits)
  moreover have "m = join_path dir m \<or> m = drop (length dir) (join_path dir m) \<or> m = drop (Suc (length dir)) (join_path dir m)" for m
    by (auto simp: join_path_def)
  then have "join_path dir m \<in> dom t \<Longrightarrow> m \<in> dom t \<or> m \<in> drop (length dir) ` dom t \<or> m \<in> drop (Suc (length dir)) ` dom t" for m
    by (metis imageI)
  then have "{m. join_path dir m \<in> dom t} \<subseteq> dom t \<union> drop (length dir) ` dom t \<union> drop (Suc (length dir)) ` dom t" by blast
  ultimately show ?thesis using assms by (meson finite_Un finite_imageI finite_subset subset_trans)
qed

lemma allocate_returns:
  assumes "finite (dom t)"
  shows "allocate_filename (path_exists t) dir ts slug False \<noteq> None"
  using stems.returns [OF finite_with_md [OF finite_taken [OF assms, of dir]],
      of "\<lambda>n. path_exists t (join_path dir (stem_candidate (ts @ ''-'' @ slug) n @ ''.md'')) \<or>
        path_exists t (join_path dir (stem_candidate (ts @ ''-'' @ slug) n))" "ts @ ''-'' @ slug"]
  by (auto simp: allocate_filename_def Let_def)

lemma written_finite:
  assumes "fs_write faults p bs t = Inr t1" "finite (dom t)"
  shows "finite (dom (chown_owned pw fl p mb mode t1))"
proof -
  from written_owned [OF assms(1)] obtain q where "\<forall>x. x \<noteq> q \<longrightarrow> chown_owned pw fl p mb mode t1 x = t x" by blast
  then have "dom (chown_owned pw fl p mb mode t1) \<subseteq> insert q (dom t)" by (auto simp: dom_def)
  with assms(2) show ?thesis by (meson finite_insert finite_subset)
qed

lemma create_copy_tree:
  assumes "create_copy env p status at details fmt dir name t = (r, t')"
  shows "keeps t t' \<and> (finite (dom t) \<longrightarrow> finite (dom t') \<and> r \<noteq> None)"
proof (cases "tree_mkdir (se_faults env) dir t")
  case (Inl e)
  with assms show ?thesis by (auto simp: create_copy_def Let_def)
next
  case (Inr t1)
  note k1 = tree_mkdir_keeps [OF Inr] and f1 = tree_mkdir_finite [OF Inr]
  show ?thesis
  proof (cases "create_new (se_faults env) (join_path dir name) t1")
    case Inl': (Inl e)
    with assms Inr k1 f1 show ?thesis by (auto simp: create_copy_def Let_def)
  next
    case Inr': (Inr t2)
    note new = create_new_Inr [OF Inr']
    from new have k2: "keeps t1 t2" "finite (dom t1) \<Longrightarrow> finite (dom t2)" by (auto simp: keeps_new)
    show ?thesis
    proof (cases "\<exists>content t3. fs_write (se_faults env) (join_path dir name) content t2 = Inr t3 \<and>
        t' = chown_owned (se_pw env) (se_faults env) (join_path dir name) (ps_config p) 0x180 t3 \<and> r \<noteq> None")
      case False
      with assms Inr Inr' have "t' = t2 \<and> r \<noteq> None" by (auto simp: create_copy_def Let_def split: sum.splits)
      with k1 k2 f1 show ?thesis by (auto intro: keeps_trans)
    next
      case True
      then obtain content t3 where w: "fs_write (se_faults env) (join_path dir name) content t2 = Inr t3"
        "t' = chown_owned (se_pw env) (se_faults env) (join_path dir name) (ps_config p) 0x180 t3" "r \<noteq> None" by blast
      from create_then_write_keeps [OF Inr' w(1)] have "keeps t1 t'" by (simp add: w(2))
      moreover have "finite (dom t2) \<Longrightarrow> finite (dom t')"
        using written_finite [OF w(1)] by (simp add: w(2))
      ultimately show ?thesis using k1 k2 f1 w(3) by (auto intro: keeps_trans)
    qed
  qed
qed

lemma persist_tree:
  assumes "persist_sent_file env p status at details fmt t = (r, t')"
  shows "keeps t t'" "finite (dom t) \<Longrightarrow> finite (dom t') \<and> r \<noteq> None"
proof -
  let ?dir = "join_path (join_path (se_data_dir env) ''sent'') (ps_mailbox p)"
  let ?slug = "slugify (se_nfc env) (se_lower env) (se_alnum env) (unwrap_or [] (ps_headers p ''Subject''))"
  have "keeps t t' \<and> (finite (dom t) \<longrightarrow> finite (dom t') \<and> r \<noteq> None)"
  proof (cases "tree_mkdir (se_faults env) ?dir t")
    case (Inl e)
    with assms show ?thesis by (auto simp: persist_sent_file_def Let_def)
  next
    case (Inr t1)
    note k1 = tree_mkdir_keeps [OF Inr] and f1 = tree_mkdir_finite [OF Inr]
    have chown: "chown_owned (se_pw env) (se_faults env) ?dir (ps_config p) 0x1C0 t1 = t1"
      by (rule chown_dir [OF mkdir_is_dir [OF Inr]])
    show ?thesis
    proof (cases "allocate_filename (path_exists t1) ?dir (se_timestamp env) ?slug False")
      case None
      with assms Inr k1 chown allocate_returns [of t1 ?dir "se_timestamp env" ?slug] f1 show ?thesis
        by (auto simp: persist_sent_file_def Let_def)
    next
      case (Some loc)
      with assms Inr chown have "create_copy env p status at details fmt (fst loc) (snd loc) t1 = (r, t')"
        by (cases loc) (simp add: persist_sent_file_def Let_def)
      from create_copy_tree [OF this] k1 f1 show ?thesis by (auto intro: keeps_trans)
    qed
  qed
  then show "keeps t t'" "finite (dom t) \<Longrightarrow> finite (dom t') \<and> r \<noteq> None" by auto
qed

lemma handle_send_tree:
  assumes "handle_send env cfg req uid t = (out, t')"
  shows "keeps t t'" "finite (dom t) \<Longrightarrow> finite (dom t') \<and> out \<noteq> SendHangs"
proof -
  have "keeps t t' \<and> (finite (dom t) \<longrightarrow> finite (dom t') \<and> out \<noteq> SendHangs)"
  proof (cases "prepare_send env cfg req uid")
    case (Inl r)
    with assms show ?thesis by (auto simp: handle_send_def)
  next
    case (Inr p)
    obtain response status path u where v: "transport_verdict env p (outbound_format req) t = (response, status, path, u)"
      by (metis prod_cases4)
    then have "keeps t u \<and> (finite (dom t) \<longrightarrow> finite (dom u) \<and> path \<noteq> None)"
      using persist_tree [of env p _ _ _ "outbound_format req" t path u]
      by (auto simp: transport_verdict_def split: sum.splits transport_error.splits)
    with assms Inr v show ?thesis by (auto simp: handle_send_def split: option.splits)
  qed
  then show "keeps t t'" "finite (dom t) \<Longrightarrow> finite (dom t') \<and> out \<noteq> SendHangs" by auto
qed


text \<open>
  every send is answered: over a finite tree the search for a name ends, and the tree is
  finite again for the next.
\<close>

theorem send_always_answers:
  assumes "finite (dom t)"
  shows "\<exists>out t'. handle_send env cfg req uid t = (out, t') \<and> finite (dom t') \<and>
    ((\<exists>r. out = SendRefused r) \<or> (\<exists>r sent ctx. out = SendTried r sent ctx))"
proof -
  obtain out t' where run: "handle_send env cfg req uid t = (out, t')" by fastforce
  from handle_send_tree(2) [OF run assms] run show ?thesis by (cases out) auto
qed

lemma lower_star: "to_ascii_lower CHR ''*'' = CHR ''*''" "to_ascii_lower c = CHR ''*'' \<longleftrightarrow> c = CHR ''*''"
proof -
  have "of_char (char_of (code c + 32) :: char) = code c + 32" if "is_ascii_uppercase c"
    using that by (simp add: is_ascii_uppercase_def)
  then show "to_ascii_lower c = CHR ''*'' \<longleftrightarrow> c = CHR ''*''"
    by (auto simp: to_ascii_lower_def is_ascii_uppercase_def code_def dest!: arg_cong [where f = "of_char :: char \<Rightarrow> nat"])
qed (simp add: to_ascii_lower_def is_ascii_uppercase_def code_def)

section \<open>What starts after a send\<close>

text \<open>
  C37: a submission handed to the transport starts exactly the sender's \<open>after_send\<close> hooks whose
  program resolves, in order and as the mailbox's owner; a refused one starts none.
\<close>

theorem sent_mail_starts:
  assumes "distinct (map fst (cfg_mailboxes cfg))"
  shows "map request_key (fst (fire_after_send_hooks read_file spawn clock sha cfg (fst (handle_send env cfg req uid t)) w)) =
    (case fst (handle_send env cfg req uid t) of
       SendTried _ _ ctx \<Rightarrow>
         (case lookup_mailbox cfg (asc_mailbox ctx) of
            None \<Rightarrow> []
          | Some mb \<Rightarrow> map (hook_key mb) (filter (\<lambda>h. hk_event h = AfterSend \<and> hook_runnable h) (mb_hooks mb)))
     | _ \<Rightarrow> [])"
proof (cases "fst (handle_send env cfg req uid t)")
  case (SendTried response sent ctx)
  then obtain t' where run: "handle_send env cfg req uid t = (SendTried response sent ctx, t')"
    by (metis prod.collapse)
  then obtain p where p: "prepare_send env cfg req uid = Inr p" "asc_mailbox ctx = ps_mailbox p"
    by (rule handle_send_tried)
  from resolve_sender_Inr [OF prepare_send_Inr(1) [OF p(1)]] obtain bare where
    "resolve_concrete_mailbox cfg bare = Some (ps_mailbox p)" by blast
  from resolve_concrete_Some [OF this assms] obtain mb where mb: "lookup_mailbox cfg (asc_mailbox ctx) = Some mb"
    "\<not> starts_with (mb_address mb) ''*''" by (auto simp: p)
  then have "\<not> is_catchall cfg mb"
    by (cases "mb_address mb") (auto simp: is_catchall_def eq_ignore_ascii_case_def to_ascii_lowercase_def lower_star)
  moreover have "after_send_hooks mb = [] \<Longrightarrow> filter (\<lambda>h. hk_event h = AfterSend \<and> hook_runnable h) (mb_hooks mb) = []"
    by (auto simp: after_send_hooks_def filter_empty_conv)
  ultimately show ?thesis
    by (simp add: SendTried fire_after_send_hooks_def mb after_send_requests)
qed (simp_all add: fire_after_send_hooks_def)

lemma kept_line: "l \<in> set ls \<Longrightarrow> \<not> is_continuation l \<Longrightarrow> \<not> outgoing_content_header l \<Longrightarrow> l \<in> set (kept_lines keep ls)"
  by (induction keep ls rule: kept_lines.induct) (auto simp: Let_def)

section \<open>What the check of the sender misses\<close>

text \<open>
  a display name with a comma in it, as in \<open>"Doe, Jane" <jane@d>\<close>, is refused: the list of
  addresses is cut at the first comma, quoted or not.
\<close>

theorem quoted_comma_name_refused:
  assumes "scan_headers (sr_body req) SEND_HEADERS ''From'' = Some (name @ CHR '','' # rest)"
    and "CHR '','' \<notin> set name" "CHR ''@'' \<notin> set name"
  shows "handle_send env cfg req uid t =
    (SendRefused (SendErr EMalformed (''could not extract sender address from From: '' @ name @ CHR '','' # rest)), t)"
proof -
  have "takeWhile (\<lambda>c. c \<noteq> CHR '','') (name @ CHR '','' # rest) = name"
    using assms(2) by (simp add: takeWhile_tail) metis
  moreover have "CHR ''@'' \<notin> set (trim s)" if "CHR ''@'' \<notin> set s" for s
    using that trim_subset by fastforce
  ultimately have "extract_bare_address (name @ CHR '','' # rest) = None"
    using assms(3) by (auto simp: extract_bare_address_def Let_def dest!: set_takeWhileD in_set_dropD subsetD [OF trim_subset] split: option.splits)
  with assms(1) show ?thesis by (simp add: handle_send_def prepare_send_def resolve_sender_def)
qed

text \<open>
  only the first \<open>From\<close> header is checked. Any other header line of the submission, another
  \<open>From\<close> in the name of someone else among them, is a line of the message that is signed for the
  domain and handed over.
\<close>

theorem second_from_is_signed:
  assumes sent: "handle_send env cfg req uid t = (SendTried response (from_header, recipient, signed) ctx, t')"
    and cut: "split_headers_body (sr_body req) = Inr (h, b)"
    and given: "scan_headers (sr_body req) SEND_HEADERS ''Message-ID'' = Some v"
    and l: "l \<in> set (lines h)" "\<not> is_continuation l" "\<not> outgoing_content_header l"
  shows "\<exists>before rest. set before \<subseteq> set (lines h) \<and>
    se_sign env (concat (map crlf_line before) @ crlf_line l @ rest) (cfg_domain cfg) (se_selector env) = Inr signed"
proof -
  obtain p where p: "prepare_send env cfg req uid = Inr p" "signed = ps_signed p"
    using handle_send_tried [OF sent] by (metis prod.inject)
  obtain body atts where pieces: "extract_markdown_and_attachments (we_dec (se_wire env)) h b = (body, atts)" by fastforce
  from prepare_send_Inr(4) [OF p(1)] given obtain out where
    out: "assemble_wire_message (se_wire env) (sr_body req) (effective_signature cfg) (sr_text_only req) (sr_html_body req) = Inr out"
    "se_sign env out (cfg_domain cfg) (se_selector env) = Inr signed"
    by (auto simp: build_signed_def p(2) split: sum.splits)
  from out(1) obtain more where more: "out = strip_outgoing_content_headers h @ more"
    by (auto simp: assemble_wire_message_def cut pieces Let_def split: sum.splits option.splits if_splits)
  from kept_line [OF l] obtain before rest where "kept_lines True (lines h) = before @ l # rest" by (metis split_list)
  moreover from this have "set before \<subseteq> set (lines h)"
    using kept_lines_set [of True "lines h"] by auto
  ultimately show ?thesis using out(2)
    by (intro exI [of _ before] exI [of _ "concat (map crlf_line rest) @ more"])
      (simp add: more strip_outgoing_content_headers_def strip_loop_kept)
qed

section \<open>Witnesses\<close>

text \<open>Alice sends a message whose second \<open>From\<close> names Bob; the transport defers it.\<close>

definition demo_two_from :: bytes where
  "demo_two_from = ''From: alice@d.io'' @ [CR, LF] @ ''To: x@y.io'' @ [CR, LF] @ ''Message-ID: <1>'' @ [CR, LF] @
     ''From: bob@d.io'' @ [CR, LF, CR, LF] @ ''hi''"

definition demo_send_env :: send_env where
  "demo_send_env = \<lparr>se_pw = demo_users, se_getpwuid = demo_getpwuid, se_faults = (\<lambda>_ _. None), se_data_dir = ''/d'',
     se_wire = demo_wire, se_uuid = ''u'', se_selector = ''s'', se_sign = (\<lambda>b _ _. Inr b),
     se_transport = (\<lambda>_ _ _. Inl (TempError ''later'')), se_rfc3339 = ''now'', se_timestamp = ''t'',
     se_nfc = ascii_nfc, se_lower = to_ascii_lowercase, se_alnum = ascii_alnum, se_sha = id, se_to_toml = (\<lambda>_. [])\<rparr>"

definition demo_send :: send_request where
  "demo_send = \<lparr>sr_body = demo_two_from, sr_text_only = True, sr_html_body = None\<rparr>"

lemma demo_scan:
  "scan_headers demo_two_from SEND_HEADERS ''From'' = Some ''alice@d.io''"
  "scan_headers demo_two_from SEND_HEADERS ''To'' = Some ''x@y.io''"
  "scan_headers demo_two_from SEND_HEADERS ''Message-ID'' = Some ''<1>''"
  by code_simp+

lemma demo_cut: "split_headers_body demo_two_from = Inr (''From: alice@d.io'' @ [CR, LF] @ ''To: x@y.io'' @ [CR, LF] @
    ''Message-ID: <1>'' @ [CR, LF] @ ''From: bob@d.io'', ''hi'')"
  by code_simp

lemma demo_resolved:
  "extract_bare_address ''alice@d.io'' = Some ''alice@d.io''" "extract_bare_address ''x@y.io'' = Some ''x@y.io''"
  "resolve_sender demo_send_env (demo_config hs) 1000 (scan_headers demo_two_from SEND_HEADERS) =
     Inr (''alice@d.io'', ''alice'', demo_mailbox hs)"
proof -
  show bare: "extract_bare_address ''alice@d.io'' = Some ''alice@d.io''" "extract_bare_address ''x@y.io'' = Some ''x@y.io''"
    by code_simp+
  have "rsplit_once CHR ''@'' ''alice@d.io'' = Some (''alice'', ''d.io'')" by code_simp
  then show "resolve_sender demo_send_env (demo_config hs) 1000 (scan_headers demo_two_from SEND_HEADERS) =
     Inr (''alice@d.io'', ''alice'', demo_mailbox hs)"
    by (simp add: resolve_sender_def demo_scan bare resolve_concrete_mailbox_def demo_config_def lookup_mailbox_def
        eq_ignore_ascii_case_def demo_send_env_def demo_mailbox_def enforce_Inl uds_authorized_def demo_getpwuid_def)
qed

lemma demo_tried:
  obtains signed ctx where "handle_send demo_send_env (demo_config hs) demo_send 1000 t =
      (SendTried (SendErr ETemp ''later'') (''alice@d.io'', ''x@y.io'', signed) ctx, t)"
    "asc_mailbox ctx = ''alice''"
proof -
  have "\<exists>out. assemble_wire_message demo_wire demo_two_from (effective_signature (demo_config hs)) True None = Inr out"
    by (cases "extract_markdown_and_attachments (we_dec demo_wire) (''From: alice@d.io'' @ [CR, LF] @ ''To: x@y.io'' @ [CR, LF] @
        ''Message-ID: <1>'' @ [CR, LF] @ ''From: bob@d.io'') ''hi''") (simp add: assemble_wire_message_def demo_cut Let_def)
  then obtain out where
    "build_signed demo_send_env (demo_config hs) demo_send (scan_headers demo_two_from SEND_HEADERS) = Inr (''<1>'', out)"
    by (auto simp: build_signed_def demo_scan demo_send_def demo_send_env_def)
  then show ?thesis
    using that by (simp add: handle_send_def prepare_send_def demo_send_def demo_resolved demo_scan transport_verdict_def)
      (simp add: demo_send_env_def)
qed

theorem send_only_as_owned_mailbox_witness:
  "\<exists>mb. lookup_mailbox (demo_config []) ''alice'' = Some mb \<and> se_getpwuid demo_send_env 1000 = Some (mb_owner mb)"
proof -
  obtain signed ctx where run: "handle_send demo_send_env (demo_config []) demo_send 1000 Map.empty =
      (SendTried (SendErr ETemp ''later'') (''alice@d.io'', ''x@y.io'', signed) ctx, Map.empty)" "asc_mailbox ctx = ''alice''"
    by (rule demo_tried)
  from send_only_as_owned_mailbox [OF run(1)] show ?thesis by (auto simp: demo_config_def run(2))
qed

theorem send_answer_is_the_transports_witness:
  "\<exists>ctx sent. handle_send demo_send_env (demo_config []) demo_send 1000 Map.empty =
     (SendTried (SendErr ETemp ''later'') sent ctx, Map.empty) \<and> asc_send_status ctx = SendDeferred"
proof -
  obtain signed ctx where run: "handle_send demo_send_env (demo_config []) demo_send 1000 Map.empty =
      (SendTried (SendErr ETemp ''later'') (''alice@d.io'', ''x@y.io'', signed) ctx, Map.empty)"
    by (rule demo_tried)
  from send_answer_is_the_transports [OF run] run show ?thesis by (auto simp: demo_send_env_def)
qed


theorem send_always_answers_witness:
  "\<exists>out t'. handle_send demo_send_env (demo_config []) demo_send 1000 Map.empty = (out, t') \<and> out \<noteq> SendHangs"
  using send_always_answers [of Map.empty demo_send_env "demo_config []" demo_send 1000] by auto

definition demo_after_hook :: hook where
  "demo_after_hook = demo_hook\<lparr>hk_event := AfterSend\<rparr>"

theorem sent_mail_starts_witness:
  "map request_key (fst (fire_after_send_hooks (\<lambda>_ _. None) (\<lambda>_ w. w) (\<lambda>_. ''now'') id (demo_config [demo_hook, demo_after_hook])
     (fst (handle_send demo_send_env (demo_config [demo_hook, demo_after_hook]) demo_send 1000 Map.empty)) ())) =
   [([''/bin/true''], ''alice'', 60)]"
proof -
  let ?cfg = "demo_config [demo_hook, demo_after_hook]"
  obtain signed ctx where run: "handle_send demo_send_env ?cfg demo_send 1000 Map.empty =
      (SendTried (SendErr ETemp ''later'') (''alice@d.io'', ''x@y.io'', signed) ctx, Map.empty)" "asc_mailbox ctx = ''alice''"
    by (rule demo_tried)
  have "hook_runnable demo_after_hook"
    using hook_ok_runnable [OF demo_hook_ok] by (simp add: demo_after_hook_def hook_runnable_def resolve_argv_def)
  moreover have "distinct (map fst (cfg_mailboxes ?cfg))" by (simp add: demo_config_def)
  moreover have "lookup_mailbox ?cfg ''alice'' = Some (demo_mailbox [demo_hook, demo_after_hook])"
    by (simp add: demo_config_def lookup_mailbox_def)
  moreover have "hk_event demo_hook = OnReceive" "hk_event demo_after_hook = AfterSend"
    "hook_key mb demo_after_hook = ([''/bin/true''], mb_owner mb, 60)" for mb
    by (simp_all add: demo_after_hook_def demo_hook_def hook_key_def)
  ultimately show ?thesis
    by (subst sent_mail_starts) (simp_all add: run demo_mailbox_def)
qed

definition demo_comma :: send_request where
  "demo_comma = \<lparr>sr_body = ''From: '' @ CHR 0x22 # ''Doe, J'' @ CHR 0x22 # '' <alice@d.io>'' @ [LF, LF],
     sr_text_only = True, sr_html_body = None\<rparr>"

theorem quoted_comma_name_refused_witness:
  "\<exists>why. handle_send demo_send_env (demo_config []) demo_comma 1000 Map.empty = (SendRefused (SendErr EMalformed why), Map.empty)"
proof -
  have "scan_headers (sr_body demo_comma) SEND_HEADERS ''From'' =
      Some ((CHR 0x22 # ''Doe'') @ CHR '','' # '' J'' @ CHR 0x22 # '' <alice@d.io>'')"
    by code_simp
  from quoted_comma_name_refused [OF this] show ?thesis by simp
qed

theorem second_from_is_signed_witness:
  "\<exists>before rest signed ctx. handle_send demo_send_env (demo_config []) demo_send 1000 Map.empty =
      (SendTried (SendErr ETemp ''later'') (''alice@d.io'', ''x@y.io'', signed) ctx, Map.empty) \<and>
    signed = before @ crlf_line ''From: bob@d.io'' @ rest"
proof -
  obtain signed ctx where run: "handle_send demo_send_env (demo_config []) demo_send 1000 Map.empty =
      (SendTried (SendErr ETemp ''later'') (''alice@d.io'', ''x@y.io'', signed) ctx, Map.empty)"
    by (rule demo_tried)
  have cut: "split_headers_body (sr_body demo_send) = Inr (''From: alice@d.io'' @ [CR, LF] @ ''To: x@y.io'' @ [CR, LF] @
      ''Message-ID: <1>'' @ [CR, LF] @ ''From: bob@d.io'', ''hi'')"
    using demo_cut by (simp add: demo_send_def)
  have given: "scan_headers (sr_body demo_send) SEND_HEADERS ''Message-ID'' = Some ''<1>''"
    using demo_scan(3) by (simp add: demo_send_def)
  have "list_ex (\<lambda>l. l = ''From: bob@d.io'') (lines (''From: alice@d.io'' @ [CR, LF] @ ''To: x@y.io'' @ [CR, LF] @
      ''Message-ID: <1>'' @ [CR, LF] @ ''From: bob@d.io''))"
    "\<not> is_continuation ''From: bob@d.io''" "\<not> outgoing_content_header ''From: bob@d.io''"
    by code_simp+
  with second_from_is_signed [OF run cut given, of "''From: bob@d.io''"] run show ?thesis
    by (auto simp: list_ex_iff demo_send_env_def)
qed

end
