(* ===== verification/DaemonFacts.thy ===== *)
theory DaemonFacts
  imports Daemon SendFacts
begin

text \<open>
  Properties of the daemon over whole runs: memory and disk agree, what is on disk can be loaded
  again, a mailbox is changed by its owner and root alone, every well-formed request is answered,
  and what a reload may lose.
\<close>

section \<open>What serving a connection does to the configuration\<close>

definition same_config :: "'d daemon \<Rightarrow> 'd daemon \<Rightarrow> bool" where
  "same_config s s' \<longleftrightarrow> dm_handle s' = dm_handle s \<and> dm_file s' = dm_file s"

definition same_queues :: "'d daemon \<Rightarrow> 'd daemon \<Rightarrow> bool" where
  "same_queues s s' \<longleftrightarrow> dm_pending s' = dm_pending s \<and> dm_reloading s' = dm_reloading s"

lemma put_tree_same [simp]:
  "dm_handle (put_tree env t s) = dm_handle s" "dm_file (put_tree env t s) = dm_file s"
  "dm_pending (put_tree env t s) = dm_pending s" "dm_reloading (put_tree env t s) = dm_reloading s"
  by (simp_all add: put_tree_def)

lemma put_world_fields [simp]:
  "dm_handle (put_world env w s) = mw_handle w" "dm_file (put_world env w s) = mw_disk w"
  "dm_pending (put_world env w s) = dm_pending s" "dm_reloading (put_world env w s) = dm_reloading s"
  by (simp_all add: put_world_def)

lemma as_world_fields [simp]:
  "mw_handle (as_world env s) = dm_handle s" "mw_disk (as_world env s) = dm_file s"
  by (simp_all add: as_world_def)

lemma dispatch_queues: "same_queues s (snd (dispatch env req uid snapshot s))"
  by (simp add: dispatch_def same_queues_def split: request.split prod.split send_outcome.split)

text \<open>The requests that may change the configuration, and their results.\<close>

inductive config_request ::
  "'d daemon_env \<Rightarrow> nat \<Rightarrow> config \<Rightarrow> mailbox_world \<Rightarrow> request \<Rightarrow> ack_response \<times> mailbox_world \<Rightarrow> bool"
  for env uid snapshot w where
  crud: "config_request env uid snapshot w (MailboxLifecycle r) (handle_mailbox_crud (he_mb (de_hook env)) r uid w)"
| hook_create: "config_request env uid snapshot w (HookCreate c) (handle_hook_create (de_hook env) c uid snapshot w)"
| hook_delete: "config_request env uid snapshot w (HookDelete d) (handle_hook_delete (de_hook env) d uid snapshot w)"

lemma dispatch_config:
  assumes "dispatch env req uid snapshot s = (reply, s')"
  obtains (same) "same_config s s'"
  | (request) res where "config_request env uid snapshot (as_world env s) req res"
      "dm_handle s' = mw_handle (snd res)" "dm_file s' = mw_disk (snd res)" "reply = Some (ReplyAck (fst res))"
proof (cases req)
  case (MailboxLifecycle r)
  with assms crud [of env uid snapshot "as_world env s" r] show ?thesis
    by (intro request) (auto simp: dispatch_def split: prod.splits)
next
  case (HookCreate r)
  with assms hook_create [of env uid snapshot "as_world env s" r] show ?thesis
    by (intro request) (auto simp: dispatch_def split: prod.splits)
next
  case (HookDelete r)
  with assms hook_delete [of env uid snapshot "as_world env s" r] show ?thesis
    by (intro request) (auto simp: dispatch_def split: prod.splits)
qed (use assms in \<open>auto simp: dispatch_def same_config_def intro!: same split: prod.splits send_outcome.splits\<close>)

lemma serve_config:
  assumes "serve_connection env (caller, inp, snapshot) s = (frame, s')"
  obtains (same) "same_config s s'" "same_queues s s'"
  | (request) uid bs fail req rest res where "caller = Inr uid" "inp = Received bs fail"
      "parse_request fail bs = Inr (req, rest)" "config_request env uid snapshot (as_world env s) req res"
      "dm_handle s' = mw_handle (snd res)" "dm_file s' = mw_disk (snd res)" "same_queues s s'"
      "frame = Some (write_ack_response (fst res))"
proof (cases "\<exists>uid bs fail req rest. caller = Inr uid \<and> inp = Received bs fail \<and> parse_request fail bs = Inr (req, rest)")
  case True
  then obtain uid bs fail req rest where c: "caller = Inr uid" "inp = Received bs fail"
    "parse_request fail bs = Inr (req, rest)" by blast
  with assms obtain reply where d: "dispatch env req uid snapshot s = (reply, s')"
    and frame: "frame = map_option (reply_frame (de_version_json env)) reply"
    by (auto simp: serve_connection_def handle_uds_connection_def split: prod.splits)
  have q: "same_queues s s'" using dispatch_queues [of s env req uid snapshot] d by simp
  from d show ?thesis
    by (cases rule: dispatch_config) (use c q frame same request in auto)
next
  case False
  with assms have "s' = s"
    by (auto simp: serve_connection_def handle_uds_connection_def split: sum.splits uds_read.splits parse_error.splits)
  then show ?thesis by (auto simp: same_config_def same_queues_def intro: same)
qed

lemma hook_results:
  "config_request env uid snapshot w req res \<Longrightarrow> \<exists>creq dreq r.
    res = handle_mailbox_crud (he_mb (de_hook env)) r uid w \<or>
    res \<in> {handle_hook_create (de_hook env) creq uid snapshot w, handle_hook_delete (de_hook env) dreq uid snapshot w}"
  by (erule config_request.cases) auto

section \<open>Memory and disk\<close>

definition agree :: "'d daemon \<Rightarrow> bool" where
  "agree s \<longleftrightarrow> dm_file s = live_config s"

lemma config_request_agree:
  assumes "config_request env uid snapshot w req res" "coherent w"
  shows "coherent (snd res)"
  using hook_results [OF assms(1)]
proof (elim exE disjE)
  fix r assume "res = handle_mailbox_crud (he_mb (de_hook env)) r uid w"
  then show ?thesis
    using handle_mailbox_crud_effect [of "he_mb (de_hook env)" r uid w] assms(2)
    by (auto simp: config_effect_def coherent_def split: if_splits)
next
  fix creq dreq
  assume "res \<in> {handle_hook_create (de_hook env) creq uid snapshot w, handle_hook_delete (de_hook env) dreq uid snapshot w}"
  then show ?thesis
    by (rule hook_result_cases) (use assms(2) in \<open>auto simp: unchanged_def coherent_def\<close>)
qed

text \<open>Runs in which nothing but connections and the disk's other users act.\<close>

fun quiet :: "daemon_event \<Rightarrow> bool" where
  "quiet (Edits _) = False"
| "quiet ReloadReads = False"
| "quiet ReloadStores = False"
| "quiet _ = True"

lemma coherent_as_world: "coherent (as_world env s) \<longleftrightarrow> agree s"
  by (simp add: coherent_def agree_def)

lemma step_agree:
  assumes "daemon_step envs s e s'" "quiet e" "agree s"
  shows "agree s'"
  using assms(1)
proof cases
  case (serve before caller inp snapshot after env frame)
  let ?s = "s\<lparr>dm_pending := before @ after\<rparr>"
  from serve(4) show ?thesis
  proof (cases rule: serve_config)
    case same
    with assms(3) show ?thesis by (simp add: same_config_def agree_def)
  next
    case (request uid bs fail req rest res)
    moreover have "coherent (as_world env ?s)" using assms(3) by (simp add: coherent_def agree_def)
    ultimately have "coherent (snd res)" by (blast intro: config_request_agree)
    with request show ?thesis by (simp add: coherent_def agree_def)
  qed
qed (use assms in \<open>auto simp: agree_def\<close>)

lemma run_invariant:
  assumes "daemon_run envs s es s'" "I s" "list_all P es"
    and "\<And>s e s'. daemon_step envs s e s' \<Longrightarrow> P e \<Longrightarrow> I s \<Longrightarrow> I s'"
  shows "I s'"
  using assms(1-3) by (induction rule: daemon_run.induct) (auto intro: assms(4))

text \<open>
  C5: however connections overlap, whatever they send and whichever of their steps fail, the
  configuration in memory is the one on disk, as long as nobody edits the file.
\<close>

theorem memory_is_what_is_on_disk:
  assumes "daemon_run envs s es s'" "list_all quiet es" "dm_file s = live_config s"
  shows "dm_file s' = live_config s'"
  using run_invariant [OF assms(1), of agree quiet] step_agree assms(2,3)
  by (auto simp: agree_def)

section \<open>Strangers\<close>

text \<open>Whom no step of the system takes for root or for the owner, by name or by uid.\<close>

definition stranger :: "'d daemon_env set \<Rightarrow> mailbox_config \<Rightarrow> nat \<Rightarrow> bool" where
  "stranger envs mb uid \<longleftrightarrow> uid \<noteq> 0 \<and>
     (\<forall>env\<in>envs. me_getpwuid (he_mb (de_hook env)) uid \<noteq> Some (mb_owner mb) \<and>
        owner_uid (me_pw (he_mb (de_hook env))) mb \<noteq> Inr uid)"

fun caller_of :: "daemon_event \<Rightarrow> nat option" where
  "caller_of (Arrives (Inr uid) _) = Some uid"
| "caller_of _ = None"

lemma crud_stranger:
  assumes "lookup_mailbox (handle_load (mw_handle w)) n = Some mb" "uid \<noteq> 0" "owner_uid (me_pw env) mb \<noteq> Inr uid"
  shows "lookup_mailbox (handle_load (mw_handle (snd (handle_mailbox_crud env r uid w)))) n = Some mb"
proof -
  obtain resp w' where run: "handle_mailbox_crud env r uid w = (resp, w')" by fastforce
  show ?thesis
  proof (cases "resp = AckOk \<and> mq_name r = n")
    case True
    with run crud_authorized [of uid env r w w'] assms show ?thesis by (auto split: if_splits)
  next
    case False
    with handle_mailbox_crud_effect [of env r uid w] run assms(1) show ?thesis
      by (auto simp: config_effect_def requested_config_def created_config_def lookup_insert lookup_remove
          split: if_splits sum.splits)
  qed
qed

lemma config_request_stranger:
  assumes "config_request env uid snapshot w req res" "env \<in> envs" "stranger envs mb uid"
    and "lookup_mailbox (handle_load (mw_handle w)) n = Some mb" "lookup_mailbox snapshot n = Some mb"
  shows "lookup_mailbox (handle_load (mw_handle (snd res))) n = Some mb"
  using hook_results [OF assms(1)]
proof (elim exE disjE)
  fix r assume "res = handle_mailbox_crud (he_mb (de_hook env)) r uid w"
  with assms show ?thesis by (auto simp: stranger_def intro: crud_stranger)
next
  fix creq dreq
  assume "res \<in> {handle_hook_create (de_hook env) creq uid snapshot w, handle_hook_delete (de_hook env) dreq uid snapshot w}"
  then show ?thesis
  proof (rule hook_result_cases)
    fix m mb0 mb1 hs
    assume "lookup_mailbox snapshot m = Some mb0" "uds_authorized (me_getpwuid (he_mb (de_hook env))) uid mb0"
      "handle_load (mw_handle (snd res)) = insert_mailbox (handle_load (mw_handle w)) m (mb1\<lparr>mb_hooks := hs\<rparr>)"
    with assms(2-5) show ?thesis
      by (cases "m = n") (auto simp: lookup_insert stranger_def uds_authorized_def)
  qed (use assms(4) in \<open>simp add: unchanged_def\<close>)
qed

text \<open>The mailbox is as it was, and every connection that waits is a stranger's with that mailbox in its snapshot.\<close>

definition guarded :: "'d daemon_env set \<Rightarrow> string \<Rightarrow> mailbox_config \<Rightarrow> 'd daemon \<Rightarrow> bool" where
  "guarded envs n mb s \<longleftrightarrow> lookup_mailbox (live_config s) n = Some mb \<and>
     (\<forall>(caller, inp, snapshot)\<in>set (dm_pending s).
        lookup_mailbox snapshot n = Some mb \<and> (\<forall>uid. caller = Inr uid \<longrightarrow> stranger envs mb uid))"

lemma step_guarded:
  assumes "daemon_step envs s e s'" "quiet e" "\<forall>uid. caller_of e = Some uid \<longrightarrow> stranger envs mb uid"
    and "guarded envs n mb s"
  shows "guarded envs n mb s'"
  using assms(1)
proof cases
  case (arrive caller inp)
  with assms(3,4) show ?thesis by (cases caller) (auto simp: guarded_def)
next
  case (serve before caller inp snapshot after env frame)
  let ?s = "s\<lparr>dm_pending := before @ after\<rparr>"
  have g: "guarded envs n mb ?s" "lookup_mailbox snapshot n = Some mb" "\<forall>uid. caller = Inr uid \<longrightarrow> stranger envs mb uid"
    using assms(4) serve(2) by (auto simp: guarded_def)
  from serve(4) show ?thesis
  proof (cases rule: serve_config)
    case same
    with g(1) show ?thesis by (simp add: guarded_def same_config_def same_queues_def)
  next
    case (request uid bs fail req rest res)
    have "lookup_mailbox (handle_load (mw_handle (snd res))) n = Some mb"
      using request(4) serve(3) g request(1) by (intro config_request_stranger) (auto simp: guarded_def)
    with request g(1) show ?thesis by (simp add: guarded_def same_queues_def)
  qed
qed (use assms in \<open>auto simp: guarded_def\<close>)

text \<open>
  C4: nobody but its owner and root can change a mailbox: as long as only strangers to it connect,
  whatever they send and however their connections overlap, the mailbox keeps its owner, its hooks
  and everything else of its configuration.
\<close>

theorem strangers_change_nothing:
  assumes run: "daemon_run envs s es s'" and "list_all quiet es" "dm_pending s = []"
    and mb: "lookup_mailbox (live_config s) n = Some mb"
    and callers: "\<And>caller inp. Arrives (Inr caller) inp \<in> set es \<Longrightarrow> stranger envs mb caller"
  shows "lookup_mailbox (live_config s') n = Some mb"
proof -
  let ?P = "\<lambda>e. quiet e \<and> (\<forall>uid. caller_of e = Some uid \<longrightarrow> stranger envs mb uid)"
  have "?P e" if "e \<in> set es" for e
    using that assms(2) callers by (cases e rule: caller_of.cases) (auto simp: list_all_iff)
  then have "list_all ?P es" by (simp add: list_all_iff)
  moreover have "guarded envs n mb s" using assms(3) mb by (simp add: guarded_def)
  ultimately have "guarded envs n mb s'"
    using run_invariant [OF run, of "guarded envs n mb" ?P] step_guarded by blast
  then show ?thesis by (simp add: guarded_def)
qed

section \<open>Restarting\<close>

text \<open>The one request that spoils a configuration: root creating a mailbox for root.\<close>

definition plants_root :: "string + nat \<Rightarrow> uds_read \<Rightarrow> bool" where
  "plants_root caller inp \<longleftrightarrow> caller = Inr 0 \<and>
     (\<exists>bs fail r rest. inp = Received bs fail \<and> parse_request fail bs = Inr (MailboxLifecycle r, rest) \<and>
        mq_create r \<and> mq_owner r = Some RESERVED_RUN_AS_ROOT)"

text \<open>All environments hash alike, and only uid 0 is called root.\<close>

definition sane_envs :: "(bytes \<Rightarrow> bytes) \<Rightarrow> 'd daemon_env set \<Rightarrow> bool" where
  "sane_envs sha envs \<longleftrightarrow> (\<forall>env\<in>envs. he_sha (de_hook env) = sha \<and>
     (\<forall>uid. me_getpwuid (he_mb (de_hook env)) uid = Some RESERVED_RUN_AS_ROOT \<longrightarrow> uid = 0))"

definition keys_distinct :: "config \<Rightarrow> bool" where
  "keys_distinct cfg \<longleftrightarrow> distinct (map fst (cfg_mailboxes cfg))"

lemma mailbox_update_domain [simp]:
  "cfg_domain (insert_mailbox cfg n mb) = cfg_domain cfg" "cfg_domain (remove_mailbox cfg n) = cfg_domain cfg"
  by (simp_all add: insert_mailbox_def remove_mailbox_def)

lemma catchalls_insert:
  "\<not> is_catchall cfg mb \<Longrightarrow> catchalls (insert_mailbox cfg n mb) \<subseteq> catchalls cfg"
  "lookup_mailbox cfg n = Some mb \<Longrightarrow> catchalls (insert_mailbox cfg n (mb\<lparr>mb_hooks := hs\<rparr>)) = catchalls cfg"
  by (auto simp: catchalls_def lookup_insert is_catchall_def split: if_splits)

lemma catchalls_remove: "catchalls (remove_mailbox cfg n) \<subseteq> catchalls cfg"
  by (auto simp: catchalls_def lookup_remove is_catchall_def split: if_splits)

lemma keys_distinct_update:
  "keys_distinct cfg \<Longrightarrow> keys_distinct (insert_mailbox cfg n mb)"
  "keys_distinct cfg \<Longrightarrow> keys_distinct (remove_mailbox cfg n)"
  by (simp_all add: keys_distinct_def insert_mailbox_def remove_mailbox_def distinct_update distinct_delete)

text \<open>A valid configuration with one entry for each name, and no catchall that \<open>cs\<close> does not name.\<close>

definition sound :: "(bytes \<Rightarrow> bytes) \<Rightarrow> string set \<Rightarrow> config \<Rightarrow> bool" where
  "sound sha cs cfg \<longleftrightarrow> config_ok sha cfg \<and> keys_distinct cfg \<and> catchalls cfg \<subseteq> cs"

lemma crud_sound:
  assumes sound: "sound sha cs (handle_load (mw_handle w))"
    and owner: "mq_create r \<Longrightarrow> create_owner env uid (mq_owner r) \<noteq> Inr RESERVED_RUN_AS_ROOT"
  shows "sound sha cs (handle_load (mw_handle (snd (handle_mailbox_crud env r uid w))))"
proof (cases "fst (handle_mailbox_crud env r uid w) = AckOk")
  case False
  with handle_mailbox_crud_effect [of env r uid w] sound show ?thesis by (auto simp: config_effect_def)
next
  case True
  then obtain w' where run: "handle_mailbox_crud env r uid w = (AckOk, w')" by (metis prod.collapse)
  then consider (create) o' where "mq_create r" "create_owner env uid (mq_owner r) = Inr o'"
      "validate_mailbox_name (mq_name r) = Inr ()" "handle_create env (mq_name r) o' w = (AckOk, w')"
    | (delete) "handle_delete env (mq_name r) (mq_force r) w = (AckOk, w')"
    by (auto simp: handle_mailbox_crud_def split: sum.splits if_splits auth_error.splits)
  then show ?thesis
  proof cases
    case create
    have "\<not> is_catchall (handle_load (mw_handle w)) (new_mailbox (handle_load (mw_handle w)) (mq_name r) o')"
      using create(3) by (intro new_mailbox_not_catchall) (simp_all add: validate_mailbox_name_iff)
    from catchalls_insert(1) [OF this] create_keeps_config_loadable [OF _ create(3,4)] create owner sound
    show ?thesis
      using handle_create_ok [OF create(4)] by (auto simp: run sound_def created_config_def keys_distinct_update)
  next
    case delete
    from delete_keeps_config_loadable [OF _ delete] handle_delete_ok [OF delete] sound catchalls_remove
    show ?thesis by (fastforce simp: run sound_def keys_distinct_update)
  qed
qed

lemma hooks_sound:
  assumes sound: "sound (he_sha env) cs (handle_load (mw_handle w))"
    and caught: "catchalls (handle_load (mw_handle w)) \<subseteq> catchalls snapshot"
    and res: "res \<in> {handle_hook_create env creq uid snapshot w, handle_hook_delete env dreq uid snapshot w}"
  shows "sound (he_sha env) cs (handle_load (mw_handle (snd res)))"
proof -
  have ok: "config_ok (he_sha env) (handle_load (mw_handle (snd res)))"
    using sound by (intro hook_requests_keep_valid [OF _ _ caught res]) (simp_all add: sound_def keys_distinct_def)
  from res show ?thesis
    by (rule hook_result_cases) (use ok sound in \<open>auto simp: unchanged_def sound_def keys_distinct_update catchalls_insert\<close>)
qed

lemma config_request_sound:
  assumes req: "config_request env uid snapshot w req res" and env: "sane_envs sha envs" "env \<in> envs"
    and sound: "sound sha (catchalls snapshot) (handle_load (mw_handle w))" "sound sha cs (handle_load (mw_handle w))"
    and parsed: "parse_request fail bs = Inr (req, rest)" "\<not> plants_root (Inr uid) (Received bs fail)"
  shows "sound sha cs (handle_load (mw_handle (snd res)))"
proof -
  have sha: "he_sha (de_hook env) = sha" using env by (simp add: sane_envs_def)
  have hooks: "sound sha cs (handle_load (mw_handle (snd res)))"
    if "res \<in> {handle_hook_create (de_hook env) c uid snapshot w, handle_hook_delete (de_hook env) d uid snapshot w}" for c d
    using hooks_sound [OF _ _ that, of cs] sound by (simp add: sha sound_def)
  from req show ?thesis
  proof cases
    case (crud r)
    have "create_owner (he_mb (de_hook env)) uid (mq_owner r) \<noteq> Inr RESERVED_RUN_AS_ROOT" if "mq_create r"
      using that parsed env crud(1)
      by (auto simp: create_owner_def plants_root_def sane_envs_def peer_username_def lookup_username_def
          split: option.splits if_splits)
    with crud(2) sound(2) show ?thesis by (simp add: crud_sound)
  qed (use hooks in auto)
qed

text \<open>Sound, in memory and on disk, now and for every connection that waits.\<close>

definition restartable :: "(bytes \<Rightarrow> bytes) \<Rightarrow> 'd daemon \<Rightarrow> bool" where
  "restartable sha s \<longleftrightarrow> agree s \<and> sound sha UNIV (live_config s) \<and>
     (\<forall>(caller, inp, snapshot)\<in>set (dm_pending s).
        catchalls (live_config s) \<subseteq> catchalls snapshot \<and> \<not> plants_root caller inp)"

fun plants :: "daemon_event \<Rightarrow> bool" where
  "plants (Arrives caller inp) = plants_root caller inp"
| "plants _ = False"

lemma step_restartable:
  assumes step: "daemon_step envs s e s'" and e: "quiet e" "\<not> plants e" and envs: "sane_envs sha envs"
    and inv: "restartable sha s"
  shows "restartable sha s'"
proof -
  have agree: "agree s'" using step_agree [OF step e(1)] inv by (simp add: restartable_def)
  from step show ?thesis
  proof cases
    case (serve before caller inp snapshot after env frame)
    let ?s = "s\<lparr>dm_pending := before @ after\<rparr>"
    have pend: "catchalls (live_config s) \<subseteq> catchalls snapshot" "\<not> plants_root caller inp"
      and others: "restartable sha ?s"
      using inv serve(2) by (auto simp: restartable_def agree_def)
    from serve(4) show ?thesis
    proof (cases rule: serve_config)
      case same
      with others agree show ?thesis by (simp add: restartable_def same_config_def same_queues_def)
    next
      case (request uid bs fail req rest res)
      have "sound sha (catchalls (live_config s)) (live_config s')"
        using config_request_sound [OF request(4) envs serve(3)] inv pend request(1-3,5)
        by (auto simp: restartable_def sound_def)
      with others agree request(7) show ?thesis
        by (fastforce simp: restartable_def same_queues_def sound_def)
    qed
  qed (use agree inv e in \<open>auto simp: restartable_def\<close>)
qed

text \<open>
  C6: whatever requests are served, what is on disk is a configuration \<open>Config::load\<close> accepts, so the
  daemon can be restarted at any moment; unless root asks for a mailbox owned by root.
\<close>

theorem daemon_can_restart:
  assumes run: "daemon_run envs s es s'" and quiet: "list_all quiet es" "list_all (\<lambda>e. \<not> plants e) es"
    and envs: "sane_envs sha envs" "env \<in> envs"
    and start: "dm_pending s = []" "dm_file s = live_config s" "config_ok sha (live_config s)" "keys_distinct (live_config s)"
  shows "\<exists>warnings. reload_read env (dm_file s') = Inr (live_config s', warnings)"
proof -
  have "restartable sha s" using start by (simp add: restartable_def agree_def sound_def)
  moreover have "list_all (\<lambda>e. quiet e \<and> \<not> plants e) es" using quiet by (simp add: list_all_iff)
  ultimately have "restartable sha s'"
    using run_invariant [OF run, of "restartable sha" "\<lambda>e. quiet e \<and> \<not> plants e"] step_restartable envs(1) by blast
  then show ?thesis
    using envs by (auto simp: restartable_def agree_def sound_def reload_read_def validate_config_Inr sane_envs_def)
qed

section \<open>Every request is answered\<close>

lemma handle_send_returns:
  assumes "finite (dom t)"
  shows "fst (handle_send env cfg req uid t) \<noteq> SendHangs"
  using handle_send_tree(2) [of env cfg req uid t, OF _ assms] by (metis prod.collapse)

text \<open>
  C7: over a finite tree a well-formed request frame is answered, whatever follows it on the wire,
  and by the frame of what its handler returned.
\<close>

theorem every_request_is_answered:
  assumes "request_ok DEFAULT_MAX_BODY_SIZE req" "finite (dom (de_tree env (dm_disk s)))"
  shows "\<exists>reply s'. dispatch env req uid snapshot s = (Some reply, s') \<and>
    serve_connection env (Inr uid, Received (emit_request req @ rest) fail, snapshot) s =
      (Some (reply_frame (de_version_json env) reply), s')"
proof -
  have "fst (dispatch env req uid snapshot s) \<noteq> None"
    using handle_send_returns [OF assms(2), of "de_send env" snapshot _ uid]
    by (auto simp: dispatch_def split: request.split prod.split send_outcome.split) (metis fst_conv)
  then obtain reply s' where "dispatch env req uid snapshot s = (Some reply, s')"
    by (metis not_None_eq prod.collapse)
  then show ?thesis
    using request_roundtrip_all [OF assms(1), of fail rest]
    by (simp add: serve_connection_def handle_uds_connection_def parse_request_def)
qed

text \<open>
  bytes that are no request, and a peer nobody can name, change nothing, and are answered by an
  error or not at all.
\<close>

lemma refused_input_changes_nothing:
  assumes "(\<exists>e. caller = Inl e) \<or> inp = TimedOut \<or> (\<exists>bs fail e. inp = Received bs fail \<and> parse_request fail bs = Inl e)"
  shows "\<exists>frame. serve_connection env (caller, inp, snapshot) s = (frame, s) \<and>
    (frame = None \<or> (\<exists>code reason. code \<in> {EEaccess, EProtocol, EMalformed} \<and> frame = Some (err_frame code reason)))"
  using assms
  by (auto simp: serve_connection_def handle_uds_connection_def split: sum.split parse_error.split uds_read.split)

section \<open>A reload between a request's two writes\<close>

lemma serve_reloading:
  "serve_connection env conn (s\<lparr>dm_reloading := x\<rparr>) =
     (case serve_connection env conn s of (frame, s') \<Rightarrow> (frame, s'\<lparr>dm_reloading := x\<rparr>))"
  by (simp add: serve_connection_def handle_uds_connection_def dispatch_def as_world_def put_world_def put_tree_def
      split: prod.split sum.split uds_read.split parse_error.split request.split send_outcome.split)

text \<open>
  a reload takes no lock: one that read the file before a request was served and stores
  afterwards takes back, in memory, what the request did, although the client has its OK and the
  file on disk has the change.
\<close>

theorem reload_takes_back_a_request:
  assumes s: "dm_pending s = []" "dm_reloading s = None" "reload_read env (dm_file s) = Inr (live_config s, warnings)"
    and env: "env \<in> envs"
    and served: "serve_connection env (caller, inp, live_config s) s = (frame, s1)"
  shows "\<exists>s'. daemon_run envs s [Arrives caller inp, ReloadReads, Serves caller inp frame, ReloadStores] s' \<and>
    live_config s' = live_config s \<and> dm_file s' = dm_file s1"
proof -
  let ?a = "s\<lparr>dm_pending := [(caller, inp, live_config s)]\<rparr>"
  let ?b = "?a\<lparr>dm_reloading := Some (live_config s)\<rparr>"
  let ?c = "s1\<lparr>dm_reloading := Some (live_config s)\<rparr>"
  let ?d = "?c\<lparr>dm_handle := handle_store (dm_handle ?c) (live_config s), dm_reloading := None\<rparr>"
  have "daemon_step envs s (Arrives caller inp) ?a" using arrive [of envs s caller inp] s(1) by simp
  moreover have "daemon_step envs ?a ReloadReads ?b" using s(2,3) env by (intro reload_reads) auto
  moreover have "daemon_step envs ?b (Serves caller inp frame) ?c"
  proof (rule serve [where before = "[]" and after = "[]"])
    have "?b\<lparr>dm_pending := []\<rparr> = s\<lparr>dm_reloading := Some (live_config s)\<rparr>" using s(1) by simp
    then show "serve_connection env (caller, inp, live_config s) (?b\<lparr>dm_pending := [] @ []\<rparr>) = (frame, ?c)"
      using served by (simp add: serve_reloading)
  qed (use env in auto)
  moreover have "daemon_step envs ?c ReloadStores ?d" by (rule reload_stores) simp
  ultimately have "daemon_run envs s [Arrives caller inp, ReloadReads, Serves caller inp frame, ReloadStores] ?d"
    by (blast intro: run_nil run_step)
  then show ?thesis by (intro exI [of _ ?d]) (simp add: handle.load_store)
qed

section \<open>The theorems at concrete runs\<close>

definition demo_daemon_env :: "(fsys \<times> mail_tree) daemon_env" where
  "demo_daemon_env =
     \<lparr>de_hook = demo_hook_env, de_mark = demo_mark_env ''hi'', de_send = demo_send_env, de_list = demo_list_env,
      de_version = \<lparr>vr_tag = ''1'', vr_git_hash = ''2'', vr_target = ''3'', vr_build_date = ''4''\<rparr>,
      de_version_json = vr_tag, de_dbg_str = id, de_tree = snd, de_put_tree = (\<lambda>t d. (fst d, t)), de_fs = fst,
      de_put_fs = (\<lambda>fs d. (fs, snd d)), de_read_file = (\<lambda>_ _. None), de_spawn = (\<lambda>_ d. d), de_clock = (\<lambda>_. ''now'')\<rparr>"

definition demo_daemon :: "(fsys \<times> mail_tree) daemon" where
  "demo_daemon =
     \<lparr>dm_disk = (Map.empty, Map.empty), dm_handle = handle_new (demo_config []), dm_file = demo_config [],
      dm_pending = [], dm_reloading = None\<rparr>"

definition demo_frame :: "bytes" where
  "demo_frame = emit_request (HookCreate demo_hook_create)"

definition demo_after :: "(fsys \<times> mail_tree) daemon" where
  "demo_after = put_world demo_daemon_env demo_hooked demo_daemon"

lemma demo_daemon_env_simps [simp]: "de_hook demo_daemon_env = demo_hook_env" "he_mb demo_hook_env = demo_env"
  by (simp_all add: demo_daemon_env_def)

lemma demo_daemon_simps [simp]:
  "live_config demo_daemon = demo_config []" "dm_file demo_daemon = demo_config []" "dm_pending demo_daemon = []"
  "dm_reloading demo_daemon = None" "as_world demo_daemon_env demo_daemon = demo_world" "dm_disk demo_daemon = (Map.empty, Map.empty)"
  by (simp_all add: demo_daemon_def as_world_def demo_world_def demo_daemon_env_def handle_load_def handle_new_def)

lemma demo_frame_parses: "parse_request fail demo_frame = Inr (HookCreate demo_hook_create, [])"
proof -
  have "request_ok DEFAULT_MAX_BODY_SIZE (HookCreate demo_hook_create)"
    by (auto simp: hook_create_ok_def demo_hook_create_def usize_limit_def DEFAULT_MAX_BODY_SIZE_def plain_byte_def
        is_ascii_char_def code_def intro!: inline_ok_plain)
  from request_roundtrip_all [OF this, of fail "[]"] show ?thesis
    by (simp add: parse_request_def demo_frame_def del: emit_request.simps)
qed

lemma demo_served:
  "serve_connection demo_daemon_env (Inr 1000, Received demo_frame None, demo_config []) demo_daemon =
     (Some (write_ack_response AckOk), demo_after)"
  by (simp add: serve_connection_def handle_uds_connection_def demo_frame_parses dispatch_def demo_made demo_after_def)

lemma run_one:
  assumes "dm_pending s = []" "env \<in> envs" "serve_connection env (caller, inp, live_config s) s = (frame, s')"
  shows "daemon_run envs s [Arrives caller inp, Serves caller inp frame] s'"
proof -
  let ?a = "s\<lparr>dm_pending := [(caller, inp, live_config s)]\<rparr>"
  have e: "?a\<lparr>dm_pending := []\<rparr> = s" using assms(1) by simp
  have "daemon_step envs ?a (Serves caller inp frame) s'"
    by (rule serve [where before = "[]" and after = "[]", OF _ assms(2)], simp, unfold append_Nil e, rule assms(3))
  then show ?thesis
    using arrive [of envs s caller inp] assms(1) by (auto intro!: run_nil run_step)
qed

lemma demo_run:
  "daemon_run {demo_daemon_env} demo_daemon
     [Arrives (Inr 1000) (Received demo_frame None),
      Serves (Inr 1000) (Received demo_frame None) (Some (write_ack_response AckOk))] demo_after"
  using demo_served by (intro run_one) auto

theorem memory_is_what_is_on_disk_witness: "dm_file demo_after = live_config demo_after"
  by (rule memory_is_what_is_on_disk [OF demo_run]) simp_all

theorem strangers_change_nothing_witness:
  "lookup_mailbox (live_config (snd (serve_connection demo_daemon_env
     (Inr 1001, Received
       (emit_request (MailboxLifecycle (demo_request False ''alice''))) None, demo_config []) demo_daemon))) ''alice'' = Some (demo_mailbox [])"
proof -
  let ?bs = "emit_request (MailboxLifecycle (demo_request False ''alice''))"
  obtain frame s' where run: "serve_connection demo_daemon_env (Inr 1001, Received ?bs None, demo_config []) demo_daemon = (frame, s')"
    by fastforce
  have "stranger {demo_daemon_env} (demo_mailbox []) 1001"
    using demo_owner by (simp add: stranger_def demo_getpwuid_def demo_mailbox_def demo_env_def)
  then show ?thesis
    using strangers_change_nothing [OF run_one [of demo_daemon demo_daemon_env "{demo_daemon_env}" "Inr 1001" "Received ?bs None" frame s'],
        of "''alice''" "demo_mailbox []"] run
    by (auto simp: demo_lookup)
qed

theorem daemon_can_restart_witness:
  "\<exists>warnings. reload_read demo_daemon_env (dm_file demo_after) = Inr (live_config demo_after, warnings)"
proof (rule daemon_can_restart [OF demo_run, where sha = id])
  show "list_all (\<lambda>e. \<not> plants e) [Arrives (Inr 1000) (Received demo_frame None),
      Serves (Inr 1000) (Received demo_frame None) (Some (write_ack_response AckOk))]"
    by (simp add: plants_root_def)
  show "sane_envs id {demo_daemon_env}"
    by (auto simp: sane_envs_def demo_getpwuid_def RESERVED_RUN_AS_ROOT_def)
qed (use demo_config_ok in \<open>simp_all add: keys_distinct_def\<close>, simp add: demo_config_def)

theorem every_request_is_answered_witness:
  "\<exists>reply. fst (serve_connection demo_daemon_env (Inr 1000, Received (emit_request Version) None, demo_config []) demo_daemon) =
     Some (reply_frame vr_tag reply)"
proof -
  have "finite (dom (de_tree demo_daemon_env (dm_disk demo_daemon)))" by (simp add: demo_daemon_env_def)
  from every_request_is_answered [of Version, OF _ this, of 1000 "demo_config []" "[]" None] show ?thesis
    by (auto simp: demo_daemon_env_def)
qed

theorem reload_takes_back_a_request_witness:
  "\<exists>es s'. daemon_run {demo_daemon_env} demo_daemon es s' \<and>
     Serves (Inr 1000) (Received demo_frame None) (Some (write_ack_response AckOk)) \<in> set es \<and>
     live_config s' = demo_config [] \<and> dm_file s' = demo_config [demo_hook]"
proof -
  have w: "reload_read demo_daemon_env (demo_config []) = Inr (demo_config [], concat (map (mailbox_warnings demo_users)
      (cfg_mailboxes (demo_config []))))"
    using demo_config_ok by (simp add: reload_read_def validate_config_Inr) (simp add: demo_env_def)
  have "dm_file demo_after = demo_config [demo_hook]"
    by (simp add: demo_after_def) code_simp
  with reload_takes_back_a_request [of demo_daemon demo_daemon_env _ "{demo_daemon_env}" "Inr 1000" "Received demo_frame None",
      OF _ _ _ _ demo_served [folded demo_daemon_simps(1)]] w
  show ?thesis by (force simp del: demo_daemon_simps(6))
qed

end
