(* ===== verification/McpFacts.thy ===== *)
theory McpFacts
  imports McpTools ComposeFacts ClientFacts DaemonFacts "HOL-Library.Multiset"
begin

text \<open>
  The MCP tools in front of the daemon: what a tool tells its agent is what the daemon did, a read
  stays within the mailboxes the daemon lists for the caller, pages cover a folder, and replies keep
  their thread.
\<close>

section \<open>The daemon as the other end of the socket\<close>

text \<open>
  A connection of \<open>uid\<close> served as it is accepted. A handler that does not return would leave the
  client waiting; the requests below are those it answers.
\<close>

definition daemon_exchange :: "'d daemon_env \<Rightarrow> nat \<Rightarrow> 'd daemon exchange" where
  "daemon_exchange env uid bs s =
     (case serve_connection env (Inr uid, Received bs None, live_config s) s of
        (frame, s') \<Rightarrow> (Inr (case frame of Some f \<Rightarrow> f | None \<Rightarrow> []), s'))"

lemma exchange_dispatch:
  assumes "request_ok DEFAULT_MAX_BODY_SIZE req" "dispatch env req uid (live_config s) s = (Some reply, s')"
  shows "daemon_exchange env uid (emit_request req) s = (Inr (reply_frame (de_version_json env) reply), s')"
  using request_roundtrip_all [OF assms(1), of None "[]"] assms(2)
  by (simp add: daemon_exchange_def serve_connection_def handle_uds_connection_def parse_request_def)

text \<open>The requests as functions of the daemon.\<close>

definition serve_mark :: "'d daemon_env \<Rightarrow> nat \<Rightarrow> mark_request \<Rightarrow> 'd daemon \<Rightarrow> ack_response \<times> 'd daemon" where
  "serve_mark env uid r s =
     (case handle_mark (de_mark env) (live_config s) r uid (de_tree env (dm_disk s)) of (resp, t) \<Rightarrow> (resp, put_tree env t s))"

definition serve_mailbox :: "'d daemon_env \<Rightarrow> nat \<Rightarrow> mailbox_request \<Rightarrow> 'd daemon \<Rightarrow> ack_response \<times> 'd daemon" where
  "serve_mailbox env uid r s =
     (case handle_mailbox_crud (he_mb (de_hook env)) r uid (as_world env s) of (resp, w) \<Rightarrow> (resp, put_world env w s))"

definition serve_hook_create :: "'d daemon_env \<Rightarrow> nat \<Rightarrow> hook_create_request \<Rightarrow> 'd daemon \<Rightarrow> ack_response \<times> 'd daemon" where
  "serve_hook_create env uid r s =
     (case handle_hook_create (de_hook env) r uid (live_config s) (as_world env s) of (resp, w) \<Rightarrow> (resp, put_world env w s))"

definition serve_hook_delete :: "'d daemon_env \<Rightarrow> nat \<Rightarrow> hook_delete_request \<Rightarrow> 'd daemon \<Rightarrow> ack_response \<times> 'd daemon" where
  "serve_hook_delete env uid r s =
     (case handle_hook_delete (de_hook env) r uid (live_config s) (as_world env s) of (resp, w) \<Rightarrow> (resp, put_world env w s))"

definition serve_mailbox_list :: "'d daemon_env \<Rightarrow> nat \<Rightarrow> 'd daemon \<Rightarrow> json_ack_response" where
  "serve_mailbox_list env uid s = handle_mailbox_list (de_list env) (live_config s) (de_tree env (dm_disk s)) uid"

definition serve_hook_list :: "'d daemon_env \<Rightarrow> nat \<Rightarrow> 'd daemon \<Rightarrow> json_ack_response" where
  "serve_hook_list env uid s = handle_hook_list (de_list env) (live_config s) uid"

interpretation mark_link: ack_service "daemon_exchange env uid" write_mark_request "serve_mark env uid" mark_ok for env uid
proof unfold_locales
  fix r s assume "mark_ok r"
  then show "daemon_exchange env uid (write_mark_request r) s =
      (Inr (write_ack_response (fst (serve_mark env uid r s))), snd (serve_mark env uid r s))"
    using exchange_dispatch [of "Mark r" env uid s] by (auto simp: serve_mark_def dispatch_def split: prod.splits)
qed

interpretation mailbox_link: ack_service "daemon_exchange env uid" write_mailbox_crud_request "serve_mailbox env uid"
  mailbox_request_ok for env uid
proof unfold_locales
  fix r s assume "mailbox_request_ok r"
  then show "daemon_exchange env uid (write_mailbox_crud_request r) s =
      (Inr (write_ack_response (fst (serve_mailbox env uid r s))), snd (serve_mailbox env uid r s))"
    using exchange_dispatch [of "MailboxLifecycle r" env uid s] by (auto simp: serve_mailbox_def dispatch_def split: prod.splits)
qed

interpretation hook_create_link: ack_service "daemon_exchange env uid" write_hook_create_request "serve_hook_create env uid"
  "hook_create_ok DEFAULT_MAX_BODY_SIZE" for env uid
proof unfold_locales
  fix r s assume "hook_create_ok DEFAULT_MAX_BODY_SIZE r"
  then show "daemon_exchange env uid (write_hook_create_request r) s =
      (Inr (write_ack_response (fst (serve_hook_create env uid r s))), snd (serve_hook_create env uid r s))"
    using exchange_dispatch [of "HookCreate r" env uid s] by (auto simp: serve_hook_create_def dispatch_def split: prod.splits)
qed

interpretation hook_delete_link: ack_service "daemon_exchange env uid" write_hook_delete_request "serve_hook_delete env uid"
  hook_delete_ok for env uid
proof unfold_locales
  fix r s assume "hook_delete_ok r"
  then show "daemon_exchange env uid (write_hook_delete_request r) s =
      (Inr (write_ack_response (fst (serve_hook_delete env uid r s))), snd (serve_hook_delete env uid r s))"
    using exchange_dispatch [of "HookDelete r" env uid s] by (auto simp: serve_hook_delete_def dispatch_def split: prod.splits)
qed

interpretation mailbox_list_link: json_service "daemon_exchange env uid" "\<lambda>_::unit. write_mailbox_list_request"
  "\<lambda>_ s. (serve_mailbox_list env uid s, s)" "\<lambda>_. True" for env uid
proof unfold_locales
  fix s
  show "daemon_exchange env uid write_mailbox_list_request s =
      (Inr (write_json_ack_response (fst (serve_mailbox_list env uid s, s))), snd (serve_mailbox_list env uid s, s))"
    using exchange_dispatch [of MailboxList env uid s] by (simp add: serve_mailbox_list_def dispatch_def)
qed

interpretation hook_list_link: json_service "daemon_exchange env uid" "\<lambda>_::unit. write_hook_list_request"
  "\<lambda>_ s. (serve_hook_list env uid s, s)" "\<lambda>_. True" for env uid
proof unfold_locales
  fix s
  show "daemon_exchange env uid write_hook_list_request s =
      (Inr (write_json_ack_response (fst (serve_hook_list env uid s, s))), snd (serve_hook_list env uid s, s))"
    using exchange_dispatch [of HookList env uid s] by (simp add: serve_hook_list_def dispatch_def)
qed

section \<open>The rows a tool finds\<close>

text \<open>A tool of the user \<open>uid\<close> in front of the daemon of \<open>denv\<close>.\<close>

definition connected :: "'d daemon mcp_env \<Rightarrow> 'd daemon_env \<Rightarrow> nat \<Rightarrow> bool" where
  "connected env denv uid \<longleftrightarrow> mp_exchange env = daemon_exchange denv uid \<and> mp_tree env = (\<lambda>s. de_tree denv (dm_disk s))"

abbreviation rows_of :: "'d daemon_env \<Rightarrow> nat \<Rightarrow> 'd daemon \<Rightarrow> mailbox_list_row list" where
  "rows_of denv uid s \<equiv> mailbox_rows (de_list denv) (live_config s) (de_tree denv (dm_disk s)) uid"

text \<open>The JSON of the rows at hand reads back.\<close>

definition rows_readable :: "'d daemon mcp_env \<Rightarrow> 'd daemon_env \<Rightarrow> nat \<Rightarrow> 'd daemon \<Rightarrow> bool" where
  "rows_readable env denv uid s \<longleftrightarrow>
     (\<exists>json. le_mailbox_json (de_list denv) (rows_of denv uid s) = Inr json \<and> json_ok (JsonOk json) \<and>
        mp_mailbox_rows env json = Inr (rows_of denv uid s))"

lemma row_name: "r \<in> set (mailbox_rows lenv cfg t uid) \<Longrightarrow> r = mailbox_row lenv cfg t (lr_name r)"
  by (auto simp: mailbox_rows_def mailbox_row_def Let_def split: prod.splits)

lemma find_row_listed:
  "find_row name (mailbox_rows lenv cfg t uid) =
     (if name \<in> lr_name ` set (mailbox_rows lenv cfg t uid) then Some (mailbox_row lenv cfg t name) else None)"
proof (cases "find_row name (mailbox_rows lenv cfg t uid)")
  case (Some r)
  then have "r \<in> set (mailbox_rows lenv cfg t uid)" "lr_name r = name"
    by (auto simp: find_row_def find_Some_iff)
  with Some row_name [of r lenv cfg t uid] show ?thesis by (metis image_eqI)
qed (auto simp: find_row_def find_None_iff)

lemma list_connected:
  assumes "connected env denv uid" "rows_readable env denv uid s"
  shows "\<exists>json. submit_list_raw (mp_client env) (mp_exchange env) write_mailbox_list_request s = (Inr json, s) \<and>
    mp_mailbox_rows env json = Inr (rows_of denv uid s)"
proof -
  obtain json where json: "serve_mailbox_list denv uid s = JsonOk json" "json_ok (JsonOk json)"
    "mp_mailbox_rows env json = Inr (rows_of denv uid s)"
    using assms(2) by (auto simp: rows_readable_def serve_mailbox_list_def handle_mailbox_list_def)
  then show ?thesis
    using mailbox_list_link.listed [of denv uid s "mp_client env"] assms(1) by (simp add: connected_def)
qed

lemma lookup_listed:
  assumes "connected env denv uid" "rows_readable env denv uid s"
  shows "lookup_mailbox_row env name s =
    (if name \<in> lr_name ` set (rows_of denv uid s)
     then Inr (mailbox_row (de_list denv) (live_config s) (de_tree denv (dm_disk s)) name)
     else Inl (''Mailbox '' @ apostrophes name @ '' does not exist.''), s)"
  using list_connected [OF assms]
  by (auto simp: lookup_mailbox_row_def submit_mailbox_list_via_daemon_def shown_def find_row_listed)

lemma lookup_connected:
  assumes "connected env denv uid" "rows_readable env denv uid s" "lookup_mailbox_row env name s = (Inr row, s')"
  shows "s' = s \<and> name \<in> lr_name ` set (rows_of denv uid s) \<and>
    row = mailbox_row (de_list denv) (live_config s) (de_tree denv (dm_disk s)) name"
  using lookup_listed [OF assms(1,2), of name] assms(3) by (auto split: if_splits)

lemma address_connected:
  assumes "connected env denv uid" "rows_readable env denv uid s" "name \<in> lr_name ` set (rows_of denv uid s)"
  shows "lookup_mailbox_address env name s =
    (lr_address (mailbox_row (de_list denv) (live_config s) (de_tree denv (dm_disk s)) name), s)"
  using list_connected [OF assms(1,2)] assms(3) by (auto simp: lookup_mailbox_address_def find_row_listed)

section \<open>Properties\<close>

definition mark_of :: "bool \<Rightarrow> string \<Rightarrow> string \<Rightarrow> mark_request" where
  "mark_of read mailbox id' = \<lparr>mr_mailbox = mailbox, mr_id = id', mr_read = read\<rparr>"

lemma validate_email_id_eq: "validate_email_id id' = Inr () \<longleftrightarrow> validate_id id'"
  by (simp add: validate_email_id_def validate_id_def)

text \<open>
  C14: marking through the tool is marking at the daemon: for a mailbox of the caller's the tool says
  the mail is marked exactly when the daemon's handler marked it, shows the daemon's code and reason
  otherwise, and leaves the system as the handler did.
\<close>

theorem mark_tool_is_the_handler:
  assumes "connected env denv uid" "rows_readable env denv uid s" "lookup_mailbox_row env mailbox s = (Inr row, s')"
    and "validate_email_id id' = Inr ()" "mark_ok (mark_of read mailbox id')"
    and handler: "handle_mark (de_mark denv) (live_config s) (mark_of read mailbox id') uid (de_tree denv (dm_disk s)) = (resp, t)"
    and "ack_ok resp"
  shows "email_mark env read mailbox id' s =
    (case resp of
       AckOk \<Rightarrow> Inr (''Email '' @ apostrophes id' @ (if read then '' marked as read.'' else '' marked as unread.''))
     | AckErr ec reason \<Rightarrow> Inl (bracketed ec (inline_text reason)), put_tree denv t s)"
proof -
  have s': "s' = s" using lookup_connected [OF assms(1-3)] by simp
  have "apfst (map_hook_io_result (mp_client env)) (submit_ack (mp_client env) (mp_exchange env)
      (write_mark_request (mark_of read mailbox id')) s) = (told resp, put_tree denv t s)"
    using mark_link.reported [OF assms(5), of denv uid s "mp_client env"] assms(1,7) handler
    by (simp add: connected_def serve_mark_def)
  then have "submit_mark_via_daemon (mp_client env) (mp_exchange env) mailbox id' read s = (shown (told resp), put_tree denv t s)"
    by (auto simp: submit_mark_via_daemon_def mark_of_def apfst_def map_prod_def split: prod.splits)
  then show ?thesis
    using assms(3,4) by (cases resp) (simp_all add: email_mark_def s' shown_def)
qed

text \<open>
  C15: a user other than root reads through the tool only mail of a mailbox it owns, or of a stray
  directory it owns on disk: what \<open>email_read\<close> returns is the content of a regular file whose
  canonical path is below that mailbox's own folder, and the call changes nothing.
\<close>

theorem read_tool_reads_own_mail:
  assumes "connected env denv uid" "rows_readable env denv uid s" "uid \<noteq> 0"
    and run: "email_read env mailbox id' folder s = (Inr content, s')"
  shows "s' = s \<and>
    (case lookup_mailbox (live_config s) mailbox of
       Some mb \<Rightarrow> owner_uid (le_pw (de_list denv)) mb = Inr uid
     | None \<Rightarrow> le_dir_uid (de_list denv) (inbox_dir (live_config s) mailbox) = Some uid) \<and>
    (\<exists>dir \<in> {inbox_dir (live_config s) mailbox, sent_dir (live_config s) mailbox}. \<exists>dir_canon p f.
       mp_canonicalize env dir = Some dir_canon \<and> contained (mp_canonicalize env) dir_canon p \<and>
       de_tree denv (dm_disk s) p = Some (Regular f) \<and> content = mf_data f)"
proof -
  let ?t = "de_tree denv (dm_disk s)"
  from run obtain row s1 f where lookup: "lookup_mailbox_row env mailbox s = (Inr row, s1)"
    and s1: "s' = s1" and read: "read_mail env mailbox (folder_path_from_row row f) id' s1 = Inr content"
    by (auto simp: email_read_def split: sum.splits prod.splits)
  from lookup_connected [OF assms(1,2) lookup] have row: "s1 = s" "mailbox \<in> lr_name ` set (rows_of denv uid s)"
    "row = mailbox_row (de_list denv) (live_config s) ?t mailbox" by auto
  have dir: "folder_path_from_row row f \<in> {inbox_dir (live_config s) mailbox, sent_dir (live_config s) mailbox}"
    by (cases f) (simp_all add: row(3) mailbox_row_def Let_def split: prod.split)
  have tree: "mp_tree env s = ?t" using assms(1) by (simp add: connected_def)
  from read obtain parent name where res: "resolve_email_path_strict (mp_faults env) (mp_canonicalize env) ?t
      (folder_path_from_row row f) id' = Some (parent, name)" and content: "read_file env ?t (join_path parent name) = Inr content"
    by (auto simp: read_mail_def row(1) tree split: option.splits sum.splits)
  from resolve_contained [OF res] obtain dir_canon g where canon: "mp_canonicalize env (folder_path_from_row row f) = Some dir_canon"
    "contained (mp_canonicalize env) dir_canon (join_path parent name)" and g: "?t (join_path parent name) = Some (Regular g)"
    by (auto simp: is_regular_def lstat_def split: option.splits lstat_result.splits inode.splits)
  from content g have "content = mf_data g"
    by (auto simp: read_file_def follow.simps Let_def split: option.splits if_splits)
  moreover have "case lookup_mailbox (live_config s) mailbox of
       Some mb \<Rightarrow> owner_uid (le_pw (de_list denv)) mb = Inr uid
     | None \<Rightarrow> le_dir_uid (de_list denv) (inbox_dir (live_config s) mailbox) = Some uid"
    using listed_names [of "de_list denv" "live_config s" ?t uid] row(2) assms(3) by (auto split: option.splits)
  ultimately show ?thesis using s1 row(1) dir canon g by blast
qed

text \<open>
  creating a mailbox through the tool yields the address at which it then receives mail: when the
  daemon grants the request, the new mailbox is the caller's, is listed to it, and the tool answers
  with its address.
\<close>

theorem create_tool_returns_the_address:
  assumes "connected env denv uid" "uid \<noteq> 0" "inline_ok name"
    and granted: "serve_mailbox denv uid \<lparr>mq_name = name, mq_create = True, mq_owner = None, mq_force = False\<rparr> s = (AckOk, s1)"
    and "rows_readable env denv uid s1"
    and known: "\<And>owner. me_getpwuid (he_mb (de_hook denv)) uid = Some owner \<Longrightarrow>
      owner_uid (le_pw (de_list denv)) (new_mailbox (live_config s) name owner) = Inr uid"
  shows "mailbox_create_tool env name s = (Inr (name @ ''@'' @ cfg_domain (live_config s)), s1) \<and>
    (\<exists>mb. lookup_mailbox (live_config s1) name = Some mb \<and> mb_address mb = name @ ''@'' @ cfg_domain (live_config s))"
proof -
  let ?req = "\<lparr>mq_name = name, mq_create = True, mq_owner = None, mq_force = False\<rparr>"
  obtain w where crud: "handle_mailbox_crud (he_mb (de_hook denv)) ?req uid (as_world denv s) = (AckOk, w)"
    and s1: "s1 = put_world denv w s"
    using granted by (auto simp: serve_mailbox_def split: prod.splits)
  obtain owner where owner: "me_getpwuid (he_mb (de_hook denv)) uid = Some owner"
    and cfg: "live_config s1 = created_config (as_world denv s) name owner"
    using crud_creates [OF assms(2) crud] by (auto simp: s1)
  then have mb: "lookup_mailbox (live_config s1) name = Some (new_mailbox (live_config s) name owner)"
    by (simp add: created_config_def lookup_insert)
  have listed: "name \<in> lr_name ` set (rows_of denv uid s1)"
    using listed_names [of "de_list denv" "live_config s1" "de_tree denv (dm_disk s1)" uid] mb known [OF owner] by auto
  have "lr_address (mailbox_row (de_list denv) (live_config s1) (de_tree denv (dm_disk s1)) name) = Some (name @ ''@'' @ cfg_domain (live_config s))"
    by (simp add: mailbox_row_def Let_def mb new_mailbox_def split: prod.split)
  then have "lookup_mailbox_address env name s1 = (Some (name @ ''@'' @ cfg_domain (live_config s)), s1)"
    using address_connected [OF assms(1,5) listed] by simp
  moreover have "mailbox_request_ok ?req" using assms(3) by (simp add: mailbox_request_ok_def)
  then have "submit_mailbox_crud_via_daemon (mp_client env) (mp_exchange env) name True None False s = (Inr (), s1)"
    using mailbox_link.reported [of ?req denv uid s "mp_client env"] granted assms(1)
    by (simp add: submit_mailbox_crud_via_daemon_def connected_def)
  ultimately show ?thesis
    using mb by (simp add: mailbox_create_tool_def new_mailbox_def)
qed

section \<open>Pages\<close>

lemma page_of_chunk: "0 < l \<Longrightarrow> page_of (k * l) l xs = take l (drop (k * l) xs)"
  by (auto simp: page_of_def drop_take min_def)

lemma chunks_take: "concat (map (\<lambda>k. take l (drop (k * l) xs)) [0..<n]) = take (n * l) xs"
proof (induction n)
  case (Suc n)
  have "Suc n * l = n * l + l" by simp
  then have "take (Suc n * l) xs = take (n * l) xs @ take l (drop (n * l) xs)" by (simp only: take_add)
  with Suc show ?case by (simp del: mult_Suc)
qed simp

lemma sort_ids_descending: "sorted_wrt (\<lambda>a b. fst b \<le> fst a) (sort_ids found)"
  using sorted_sort_key [of fst "rev found"] by (simp add: sort_ids_def sorted_wrt_rev sorted_wrt_map)


text \<open>
  one mail fails the whole page it is on: if the block cut from its file does not parse, or the
  file cannot be read, \<open>email_list\<close> shows no mail of that page.
\<close>

theorem one_mail_fails_its_page:
  assumes "enumerate_email_ids env s dir = Inr found" "offset < length found" "0 < limit"
    and "(id', p) \<in> set (page_of offset limit (sort_ids found))" "read_email_frontmatter env (mp_tree env s) p = Inl e"
  shows "\<exists>e. list_email_page_json env s dir folder offset limit = Inl e"
proof -
  have "\<exists>e. page_rows env t page = Inl e" if "(id', p) \<in> set page" "read_email_frontmatter env t p = Inl e" for t page
    using that by (induction page) (auto split: sum.split)
  from this [OF assms(4,5)] assms(1-3) show ?thesis by (auto simp: list_email_page_json_def)
qed

section \<open>Replies\<close>

lemma find_char_prefix: "c \<notin> set a \<Longrightarrow> find_char c (a @ c # b) = Some (length a)"
  by (induction a) (auto simp: find_char_def)

lemma find_char_split: "find_char c s = Some n \<longleftrightarrow> (\<exists>a b. s = a @ c # b \<and> c \<notin> set a \<and> n = length a)"
proof
  assume n: "find_char c s = Some n"
  then have "c \<in> set s" by (auto simp: find_char_def split: if_splits)
  then obtain a b where "s = a @ c # b" "c \<notin> set a" using split_list_first by fastforce
  with n find_char_prefix [of c a b] show "\<exists>a b. s = a @ c # b \<and> c \<notin> set a \<and> n = length a" by auto
qed (auto simp: find_char_prefix)

text \<open>
  the address a reply goes to is cut from the sender's \<open>From\<close>, which is the sender's to choose; the
  cut panics exactly when its first closing angle bracket comes before its first opening one.
\<close>

theorem reply_address_panics_iff:
  "extract_email_address addr = None \<longleftrightarrow>
     (\<exists>a b. addr = a @ CHR ''>'' # b \<and> CHR ''<'' \<notin> set a \<and> CHR ''>'' \<notin> set a \<and> CHR ''<'' \<in> set b)"
proof
  assume "extract_email_address addr = None"
  then obtain st en where f: "find_char CHR ''<'' addr = Some st" "find_char CHR ''>'' addr = Some en"
    and none: "slice addr (st + 1) en = None"
    by (auto simp: extract_email_address_def split: option.splits)
  from f(2) obtain a b where ab: "addr = a @ CHR ''>'' # b" "CHR ''>'' \<notin> set a" "en = length a"
    by (auto simp: find_char_split)
  with none have le: "length a \<le> st" by (auto simp: slice_def split: if_splits)
  have "CHR ''<'' \<notin> set a"
  proof
    assume "CHR ''<'' \<in> set a"
    then obtain c d where "a = c @ CHR ''<'' # d" "CHR ''<'' \<notin> set c" by (metis split_list_first)
    with f(1) ab(1) le find_char_prefix [of "CHR ''<''" c "d @ CHR ''>'' # b"] show False by simp
  qed
  moreover have "CHR ''<'' \<in> set addr" using f(1) by (auto simp: find_char_def split: if_splits)
  ultimately show "\<exists>a b. addr = a @ CHR ''>'' # b \<and> CHR ''<'' \<notin> set a \<and> CHR ''>'' \<notin> set a \<and> CHR ''<'' \<in> set b"
    using ab by auto
next
  assume "\<exists>a b. addr = a @ CHR ''>'' # b \<and> CHR ''<'' \<notin> set a \<and> CHR ''>'' \<notin> set a \<and> CHR ''<'' \<in> set b"
  then obtain a b where ab: "addr = a @ CHR ''>'' # b" "CHR ''<'' \<notin> set a" "CHR ''>'' \<notin> set a" "CHR ''<'' \<in> set b" by blast
  then obtain c d where cd: "b = c @ CHR ''<'' # d" "CHR ''<'' \<notin> set c" by (metis split_list_first)
  have "find_char CHR ''<'' addr = Some (length (a @ CHR ''>'' # c))"
    using find_char_prefix [of "CHR ''<''" "a @ CHR ''>'' # c" d] ab cd by simp
  moreover have "find_char CHR ''>'' addr = Some (length a)" using find_char_prefix [of "CHR ''>''" a b] ab by simp
  ultimately show "extract_email_address addr = None"
    by (simp add: extract_email_address_def slice_def)
qed

lemma trim_keeps_plain:
  assumes "plain_byte c" "c \<in> set s"
  shows "trim s \<noteq> []"
proof -
  obtain a b where s: "s = a @ c # b" using assms(2) split_list by fast
  have "\<forall>p \<in> set white_space. c \<notin> set p"
    using white_space_no_plain assms(1) by (auto simp: list_all_iff)
  from strip_pats_keeps [OF this, of a b] obtain x where "trim_start s = x @ c # b"
    unfolding s trim_start_def by blast
  with trim_end_keeps_plain [OF assms(1), of x b] show ?thesis by (auto simp: trim_def)
qed


text \<open>
  the listing's pass over a folder takes a bundle directory without looking at the mail file in it;
  if that is a link, the frontmatter shown is that of the file it points to, wherever that is.
\<close>

theorem listing_follows_links_in_bundles:
  assumes "lstat (mp_faults env) t (join_path dir name) = LstatOk Directory" "valid_utf8 name"
    and "t (join_path (join_path dir name) (name @ ''.md'')) = Some (Symlink q)" "t q = Some (Regular f)"
    and "mp_faults env ReadOp (join_path (join_path dir name) (name @ ''.md'')) = None" "valid_utf8 (mf_data f)"
  shows "\<exists>p. email_entry (mp_faults env) t dir name = Some (name, p) \<and> read_file env t p = Inr (mf_data f)"
  using assms by (simp add: email_entry_def read_file_def follow.simps [of 40] follow.simps [of _ t q] MAX_LINKS_def Let_def)

section \<open>The theorems at concrete calls\<close>

definition demo_mailed :: "mail_tree \<Rightarrow> (fsys \<times> mail_tree) daemon" where
  "demo_mailed t = demo_daemon\<lparr>dm_disk := (Map.empty, t)\<rparr>"

definition demo_inbox :: mail_tree where
  "demo_inbox = [''/var/lib/aimx/inbox/alice/m.md'' \<mapsto>
     Regular \<lparr>mf_data = ''+++x+++body'', mf_uid = 1000, mf_gid = 1000, mf_mode = 0x180\<rparr>]"

definition demo_mcp :: "nat \<Rightarrow> (fsys \<times> mail_tree) daemon \<Rightarrow> (fsys \<times> mail_tree) daemon mcp_env" where
  "demo_mcp uid s =
     \<lparr>mp_client = \<lparr>cl_dbg = id, cl_socket = ''/run/aimx''\<rparr>, mp_compose = demo_compose,
      mp_exchange = daemon_exchange demo_daemon_env uid, mp_tree = (\<lambda>s. de_tree demo_daemon_env (dm_disk s)),
      mp_faults = (\<lambda>_ _. None), mp_canonicalize = Some, mp_read_dir = (\<lambda>_ _. Inr [''m.md'']), mp_device = (\<lambda>_. Inr []),
      mp_mailbox_rows = (\<lambda>_. Inr (rows_of demo_daemon_env uid s)), mp_hook_rows = (\<lambda>_. Inr []),
      mp_hook_rows_json = (\<lambda>_. Inr []), mp_hook_body_json = (\<lambda>_ _ _. Inr []), mp_list_fm = (\<lambda>_. Inl ''bad''),
      mp_frontmatter = (\<lambda>_. None), mp_inbox_json = (\<lambda>_. Inr []), mp_sent_json = (\<lambda>_. Inr [])\<rparr>"

lemma demo_connected: "connected (demo_mcp uid s) demo_daemon_env uid" "rows_readable (demo_mcp uid s) demo_daemon_env uid s"
  by (simp_all add: connected_def rows_readable_def demo_mcp_def demo_daemon_env_def demo_list_env_def usize_limit_def)

lemma demo_mailed_simps [simp]:
  "live_config (demo_mailed t) = demo_config []" "dm_disk (demo_mailed t) = (Map.empty, t)"
  "de_list demo_daemon_env = demo_list_env" "de_mark demo_daemon_env = demo_mark_env ''hi''" "le_pw demo_list_env = demo_users"
  "de_tree demo_daemon_env = snd"
  using demo_daemon_simps(1) by (simp_all add: demo_mailed_def demo_daemon_env_def demo_list_env_def)

lemma demo_found: "\<exists>row. lookup_mailbox_row (demo_mcp 1000 (demo_mailed t)) ''alice'' (demo_mailed t) = (Inr row, demo_mailed t) \<and>
    lr_inbox_path row = ''/var/lib/aimx/inbox/alice''"
proof -
  have "''alice'' \<in> set (map lr_name (mailbox_rows demo_list_env (demo_config []) t 1000))"
    unfolding listed_names [THEN conjunct2] by (simp add: demo_lookup demo_owner)
  then have "''alice'' \<in> lr_name ` set (rows_of demo_daemon_env 1000 (demo_mailed t))" by simp
  moreover have "inbox_dir (demo_config []) ''alice'' = ''/var/lib/aimx/inbox/alice''" by code_simp
  ultimately show ?thesis
    using lookup_listed [OF demo_connected, where name = "''alice''"]
    by (simp add: mailbox_row_def Let_def split: prod.split)
qed

theorem mark_tool_is_the_handler_witness:
  "fst (email_mark (demo_mcp 1000 (demo_mailed demo_tree)) True ''alice'' ''m'' (demo_mailed demo_tree)) =
     Inr (''Email '' @ apostrophes ''m'' @ '' marked as read.'')"
proof -
  have "mark_of True ''alice'' ''m'' = demo_mark ''m''" by (simp add: mark_of_def demo_mark_def)
  then obtain t where h: "handle_mark (de_mark demo_daemon_env) (live_config (demo_mailed demo_tree)) (mark_of True ''alice'' ''m'') 1000
      (de_tree demo_daemon_env (dm_disk (demo_mailed demo_tree))) = (AckOk, t)"
    using demo_mark_ok by (metis demo_mailed_simps(1,2,4,6) prod.collapse snd_conv)
  have m: "mark_ok (mark_of True ''alice'' ''m'')"
    by (auto simp: mark_ok_def mark_of_def plain_byte_def is_ascii_char_def code_def intro!: inline_ok_plain)
  have v: "validate_email_id ''m'' = Inr ()" by code_simp
  obtain row where row: "lookup_mailbox_row (demo_mcp 1000 (demo_mailed demo_tree)) ''alice'' (demo_mailed demo_tree) =
      (Inr row, demo_mailed demo_tree)" using demo_found by blast
  from mark_tool_is_the_handler [OF demo_connected row v m h] show ?thesis by simp
qed

theorem read_tool_reads_own_mail_witness:
  "fst (email_read (demo_mcp 1000 (demo_mailed demo_inbox)) ''alice'' ''m'' None (demo_mailed demo_inbox)) = Inr ''+++x+++body'' \<and>
     owner_uid demo_users (demo_mailbox []) = Inr 1000"
proof -
  let ?s = "demo_mailed demo_inbox"
  have "resolve_email_path_strict (\<lambda>_ _. None) Some demo_inbox ''/var/lib/aimx/inbox/alice'' ''m'' =
      Some (''/var/lib/aimx/inbox/alice'', ''m.md'')"
    by code_simp
  moreover have "join_path ''/var/lib/aimx/inbox/alice'' ''m.md'' = ''/var/lib/aimx/inbox/alice/m.md''" by code_simp
  moreover have "valid_utf8 ''+++x+++body''" by code_simp
  ultimately have "read_mail (demo_mcp 1000 ?s) ''alice'' ''/var/lib/aimx/inbox/alice'' ''m'' ?s = Inr ''+++x+++body''"
    by (simp add: read_mail_def demo_mcp_def read_file_def) (simp add: follow.simps demo_inbox_def Let_def)
  moreover have "validate_email_id ''m'' = Inr ()" by code_simp
  moreover obtain row where "lookup_mailbox_row (demo_mcp 1000 ?s) ''alice'' ?s = (Inr row, ?s)"
    "lr_inbox_path row = ''/var/lib/aimx/inbox/alice''" using demo_found by blast
  ultimately have run: "email_read (demo_mcp 1000 ?s) ''alice'' ''m'' None ?s = (Inr ''+++x+++body'', ?s)"
    by (simp add: email_read_def resolve_folder_def)
  have "case lookup_mailbox (live_config ?s) ''alice'' of
      Some mb \<Rightarrow> owner_uid (le_pw (de_list demo_daemon_env)) mb = Inr 1000
    | None \<Rightarrow> le_dir_uid (de_list demo_daemon_env) (inbox_dir (live_config ?s) ''alice'') = Some 1000"
    using read_tool_reads_own_mail [OF demo_connected _ run] by simp
  with run show ?thesis by (simp add: demo_lookup)
qed

lemma demo_bob_owner: "owner_uid demo_users (new_mailbox cfg n ''bob'') = Inr 1001"
  by (simp add: owner_uid_def owner_id_def validate_run_as_def new_mailbox_def demo_users_def
      RESERVED_RUN_AS_ROOT_def RESERVED_RUN_AS_CATCHALL_def is_valid_system_username_def USERNAME_MAX_LEN_def byte_defs)

theorem create_tool_returns_the_address_witness:
  "\<exists>s. fst (mailbox_create_tool (demo_mcp 1001 s) ''bob'' demo_daemon) = Inr ''bob@d.io''"
proof -
  let ?req = "\<lparr>mq_name = ''bob'', mq_create = True, mq_owner = None, mq_force = False\<rparr>"
  have "fst (handle_mailbox_crud demo_env ?req 1001 demo_world) = AckOk"
    using demo_create [of "''bob''"] by (simp add: handle_mailbox_crud_def demo_names create_owner_def peer_username_def lookup_username_def
        authorize_def demo_env_def demo_getpwuid_def)
  then have "fst (serve_mailbox demo_daemon_env 1001 ?req demo_daemon) = AckOk"
    by (cases "handle_mailbox_crud demo_env ?req 1001 demo_world") (simp add: serve_mailbox_def)
  then obtain s where s: "serve_mailbox demo_daemon_env 1001 ?req demo_daemon = (AckOk, s)"
    by (cases "serve_mailbox demo_daemon_env 1001 ?req demo_daemon") simp
  have i: "inline_ok ''bob''"
    by (auto simp: plain_byte_def is_ascii_char_def code_def intro!: inline_ok_plain)
  have k: "owner_uid (le_pw (de_list demo_daemon_env)) (new_mailbox (live_config demo_daemon) ''bob'' owner) = Inr 1001"
    if "me_getpwuid (he_mb (de_hook demo_daemon_env)) 1001 = Some owner" for owner
    using that demo_bob_owner by (simp add: demo_env_def demo_getpwuid_def)
  have "mailbox_create_tool (demo_mcp 1001 s) ''bob'' demo_daemon = (Inr (''bob'' @ ''@'' @ cfg_domain (live_config demo_daemon)), s)"
    using create_tool_returns_the_address [OF demo_connected(1) _ i s demo_connected(2) k] by simp
  then have "fst (mailbox_create_tool (demo_mcp 1001 s) ''bob'' demo_daemon) = Inr ''bob@d.io''" by (simp add: demo_config_def)
  then show ?thesis by blast
qed


theorem one_mail_fails_its_page_witness:
  "\<exists>e. list_email_page_json (demo_mcp 1000 (demo_mailed demo_inbox)) (demo_mailed demo_inbox) ''/var/lib/aimx/inbox/alice'' Inbox 0 50 = Inl e"
proof -
  let ?env = "demo_mcp 1000 (demo_mailed demo_inbox)" and ?s = "demo_mailed demo_inbox" and ?p = "''/var/lib/aimx/inbox/alice/m.md''"
  have "email_entry (\<lambda>_ _. None) demo_inbox ''/var/lib/aimx/inbox/alice'' ''m.md'' = Some (''m'', ?p)" by code_simp
  then have found: "enumerate_email_ids ?env ?s ''/var/lib/aimx/inbox/alice'' = Inr [(''m'', ?p)]"
    by (simp add: enumerate_email_ids_def demo_mcp_def)
  have "frontmatter_parts ''+++x+++body'' = Some (''x'', ''body'')" "valid_utf8 ''+++x+++body''" by code_simp+
  then have bad: "read_email_frontmatter ?env (mp_tree ?env ?s) ?p = Inl ''bad''"
    by (simp add: read_email_frontmatter_def read_file_def demo_mcp_def) (simp add: follow.simps demo_inbox_def Let_def)
  have "(''m'', ?p) \<in> set (page_of 0 50 (sort_ids [(''m'', ?p)]))" by code_simp
  from one_mail_fails_its_page [OF found _ _ this bad] show ?thesis by simp
qed


theorem listing_follows_links_in_bundles_witness:
  "\<exists>p. email_entry (\<lambda>_ _. None) [''/d/x'' \<mapsto> Directory, ''/d/x/x.md'' \<mapsto> Symlink ''/e'',
      ''/e'' \<mapsto> Regular \<lparr>mf_data = ''s'', mf_uid = 0, mf_gid = 0, mf_mode = 0\<rparr>] ''/d'' ''x'' = Some (''x'', p) \<and>
    read_file (demo_mcp 1000 demo_daemon) [''/d/x'' \<mapsto> Directory, ''/d/x/x.md'' \<mapsto> Symlink ''/e'',
      ''/e'' \<mapsto> Regular \<lparr>mf_data = ''s'', mf_uid = 0, mf_gid = 0, mf_mode = 0\<rparr>] p = Inr ''s''"
proof -
  let ?t = "[''/d/x'' \<mapsto> Directory, ''/d/x/x.md'' \<mapsto> Symlink ''/e'',
      ''/e'' \<mapsto> Regular \<lparr>mf_data = ''s'', mf_uid = 0, mf_gid = 0, mf_mode = 0\<rparr>]"
  have "join_path ''/d'' ''x'' = ''/d/x''" "join_path ''/d/x'' ''x.md'' = ''/d/x/x.md''" "valid_utf8 ''x''" "valid_utf8 ''s''"
    by code_simp+
  moreover have "mp_faults (demo_mcp 1000 demo_daemon) = (\<lambda>_ _. None)" by (simp add: demo_mcp_def)
  ultimately show ?thesis
    using listing_follows_links_in_bundles [of "demo_mcp 1000 demo_daemon" ?t "''/d''" "''x''" "''/e''"] by (simp add: lstat_def)
qed

end
