(* ===== verification/Release.thy ===== *)
theory Release
  imports Frontmatter
begin

text \<open>
  Where a release comes from (\<open>src/release.rs\<close>, and the tag of \<open>src/cli.rs\<close>): the addresses, the
  fetch over HTTPS or from a file, the manifest, the checksum file. The HTTPS request, the JSON
  parser, the file system and SHA-256 are parameters.
\<close>

record release_manifest =
  rm_tag :: string
  rm_published_at :: string
  rm_asset_urls :: "string \<rightharpoonup> string"

datatype release_error =
    NonHttpsUrl string
  | TransportFailed string
  | HttpStatus nat string
  | ParseFailed string
  | AssetNotFound string
  | ReadFailed string
  | ChecksumMismatch string string

record github_release =
  gr_tag_name :: string
  gr_published_at :: string
  gr_assets :: "(string \<times> string) list"

record release_env =
  re_env_url :: "string option"
  re_config_url :: "string option"
  re_read :: "string \<Rightarrow> string + bytes"
  re_get :: "string \<Rightarrow> string + nat \<times> bytes"
  re_parse_json :: "bytes \<Rightarrow> string + github_release"
  re_sha256 :: "bytes \<Rightarrow> bytes"
  re_dbg :: "string \<Rightarrow> string"

definition release_error_message :: "release_error \<Rightarrow> string" where
  "release_error_message e =
     (case e of
        NonHttpsUrl url \<Rightarrow> ''refusing non-HTTPS release URL: '' @ url
      | TransportFailed msg \<Rightarrow> ''transport error: '' @ msg
      | HttpStatus status body \<Rightarrow> ''HTTP '' @ show_nat status @ '': '' @ trim body
      | ParseFailed msg \<Rightarrow> ''failed to parse release manifest: '' @ msg
      | AssetNotFound name \<Rightarrow> ''release asset not found: '' @ name
      | ReadFailed msg \<Rightarrow> ''io error reading release manifest: '' @ msg
      | ChecksumMismatch wanted actual \<Rightarrow> ''SHA-256 mismatch: expected '' @ wanted @ '', got '' @ actual)"

section \<open>Tags and addresses\<close>

definition DEFAULT_RELEASE_MANIFEST_URL :: string where
  "DEFAULT_RELEASE_MANIFEST_URL = ''https://api.github.com/repos/uzyn/aimx/releases/latest''"

definition DEFAULT_RELEASE_TAGS_BASE_URL :: string where
  "DEFAULT_RELEASE_TAGS_BASE_URL = ''https://api.github.com/repos/uzyn/aimx/releases''"

definition canonical_version_tag :: "string \<Rightarrow> string" where
  "canonical_version_tag tag =
     (case strip_prefix tag ''v'' of
        Some (c # rest) \<Rightarrow> if is_ascii_digit c then c # rest else tag
      | _ \<Rightarrow> tag)"

definition url_override :: "release_env \<Rightarrow> string option" where
  "url_override env =
     (case re_env_url env of
        Some (c # v) \<Rightarrow> Some (c # v)
      | _ \<Rightarrow> (case re_config_url env of Some (c # v) \<Rightarrow> Some (c # v) | _ \<Rightarrow> None))"

definition latest_release_url :: "release_env \<Rightarrow> string" where
  "latest_release_url env = (case url_override env of Some v \<Rightarrow> v | None \<Rightarrow> DEFAULT_RELEASE_MANIFEST_URL)"

definition rewrite_to_tag :: "string \<Rightarrow> string \<Rightarrow> string" where
  "rewrite_to_tag url tag =
     (case strip_suffix url ''/latest'' of
        Some stripped \<Rightarrow> stripped @ ''/tags/'' @ tag
      | None \<Rightarrow>
     (case strip_suffix url ''/releases/latest/'' of
        Some stripped \<Rightarrow> stripped @ ''/releases/tags/'' @ tag
      | None \<Rightarrow>
          if ends_with url ''.json''
          then (case strip_suffix url ''latest.json'' of
                  Some stripped \<Rightarrow> stripped @ ''tag-'' @ tag @ ''.json''
                | None \<Rightarrow> url)
          else trim_end_matches CHR ''/'' url @ ''/tags/'' @ tag))"

definition release_by_tag_url :: "release_env \<Rightarrow> string \<Rightarrow> string" where
  "release_by_tag_url env tag =
     (case url_override env of
        Some v \<Rightarrow> rewrite_to_tag v tag
      | None \<Rightarrow> DEFAULT_RELEASE_TAGS_BASE_URL @ ''/tags/'' @ tag)"

section \<open>Fetching\<close>

definition fetch_bytes :: "release_env \<Rightarrow> string \<Rightarrow> release_error + bytes" where
  "fetch_bytes env url =
     (case strip_prefix url ''file://'' of
        Some path \<Rightarrow> (case re_read env path of Inl e \<Rightarrow> Inl (ReadFailed (path @ '': '' @ e)) | Inr bs \<Rightarrow> Inr bs)
      | None \<Rightarrow>
          if \<not> starts_with url ''https://'' then Inl (NonHttpsUrl url)
          else case re_get env url of
              Inl e \<Rightarrow> Inl (TransportFailed e)
            | Inr (status, body) \<Rightarrow>
                if 200 \<le> status \<and> status < 300 then Inr body
                else Inl (HttpStatus status (utf8_lossy (take 512 body))))"

text \<open>A name listed twice keeps its last address, as collecting into a map does.\<close>

definition manifest_of :: "github_release \<Rightarrow> release_manifest" where
  "manifest_of r =
     \<lparr>rm_tag = gr_tag_name r, rm_published_at = gr_published_at r, rm_asset_urls = map_of (rev (gr_assets r))\<rparr>"

definition parse_release_json :: "release_env \<Rightarrow> bytes \<Rightarrow> release_error + release_manifest" where
  "parse_release_json env bs =
     (case re_parse_json env bs of Inl e \<Rightarrow> Inl (ParseFailed e) | Inr r \<Rightarrow> Inr (manifest_of r))"

definition fetch_manifest :: "release_env \<Rightarrow> string \<Rightarrow> release_error + release_manifest" where
  "fetch_manifest env url = (case fetch_bytes env url of Inl e \<Rightarrow> Inl e | Inr bs \<Rightarrow> parse_release_json env bs)"

definition latest_release :: "release_env \<Rightarrow> release_error + release_manifest" where
  "latest_release env = fetch_manifest env (latest_release_url env)"

definition release_by_tag :: "release_env \<Rightarrow> string \<Rightarrow> release_error + release_manifest" where
  "release_by_tag env tag = fetch_manifest env (release_by_tag_url env tag)"

definition fetch_asset :: "release_env \<Rightarrow> string \<Rightarrow> release_error + bytes" where
  "fetch_asset env url = fetch_bytes env url"

definition asset_url :: "release_manifest \<Rightarrow> string \<Rightarrow> release_error + string" where
  "asset_url m name = (case rm_asset_urls m name of Some u \<Rightarrow> Inr u | None \<Rightarrow> Inl (AssetNotFound name))"

section \<open>Checksums\<close>

definition is_ascii_hexdigit :: "char \<Rightarrow> bool" where
  "is_ascii_hexdigit c \<longleftrightarrow> is_ascii_digit c \<or> (97 \<le> code c \<and> code c \<le> 102) \<or> (65 \<le> code c \<and> code c \<le> 70)"

definition verify_sha256 :: "release_env \<Rightarrow> bytes \<Rightarrow> string \<Rightarrow> release_error + unit" where
  "verify_sha256 env bs expected_hex =
     (let actual = hex_encode (re_sha256 env bs); wanted = to_ascii_lowercase (trim expected_hex) in
      if actual = wanted then Inr () else Inl (ChecksumMismatch wanted actual))"

text \<open>The first word of a text, as \<open>split_whitespace\<close> yields it.\<close>

definition first_word :: "string \<Rightarrow> string" where
  "first_word s = concat (takeWhile (\<lambda>ch. ch \<notin> set white_space) (dropWhile (\<lambda>ch. ch \<in> set white_space) (utf8_chars s)))"

definition parse_sha256_file :: "release_env \<Rightarrow> string \<Rightarrow> release_error + string" where
  "parse_sha256_file env contents =
     (let line = trim (case lines contents of [] \<Rightarrow> [] | l # _ \<Rightarrow> l); hex = first_word line in
      if hex = [] then Inl (ParseFailed ''empty .sha256 file'')
      else if length hex \<noteq> 64 \<or> \<not> list_all is_ascii_hexdigit hex
      then Inl (ParseFailed (''not a 64-char hex digest: '' @ re_dbg env hex))
      else Inr (to_ascii_lowercase hex))"

section \<open>Facts\<close>

lemma strip_prefix_SomeD: "strip_prefix s p = Some r \<Longrightarrow> s = p @ r"
  by (auto simp: strip_prefix_def starts_with_def split: if_splits) (metis append_take_drop_id)

text \<open>Nothing is fetched but from a file or over HTTPS.\<close>

lemma fetched_over_https:
  "fetch_bytes env url = Inr bs \<Longrightarrow>
   (\<exists>path. url = ''file://'' @ path \<and> re_read env path = Inr bs) \<or>
   (\<exists>status. starts_with url ''https://'' \<and> re_get env url = Inr (status, bs) \<and> 200 \<le> status \<and> status < 300)"
  by (auto simp: fetch_bytes_def dest: strip_prefix_SomeD split: option.splits sum.splits prod.splits if_splits)

lemma hex_digit_hexdigit: "n < 16 \<Longrightarrow> is_ascii_hexdigit (hex_digit n)"
  by (simp add: hex_digit_def is_ascii_hexdigit_def is_ascii_digit_def code_def)

lemma hex_digit_plain: "n < 16 \<Longrightarrow> plain_byte (hex_digit n) \<and> to_ascii_lower (hex_digit n) = hex_digit n"
  by (simp add: hex_digit_def plain_byte_def code_def to_ascii_lower_def is_ascii_uppercase_def)

lemma hex_encode_clean:
  "list_all (\<lambda>c. is_ascii_hexdigit c \<and> plain_byte c \<and> to_ascii_lower c = c) (hex_encode bs)"
  by (induction bs)
    (simp_all add: hex_encode_def hex_byte_def hex_digit_hexdigit hex_digit_plain less_mult_imp_div_less)

lemma plain_word:
  assumes w: "list_all plain_byte w" "w \<noteq> []"
  shows "first_word (w @ CHR '' '' # x) = w"
proof -
  have chars: "utf8_chars (w @ b) = map (\<lambda>c. [c]) w @ utf8_chars b" for b
    using w(1) by (induction w) (auto simp: utf8_chars_def plain_byte_def is_ascii_char_def)
  have no: "\<forall>c\<in>set w. [c] \<notin> set white_space"
    using w(1) white_space_ends by (auto simp: list_all_iff)
  have blank: "utf8_chars (CHR '' '' # x) = '' '' # utf8_chars x" "'' '' \<in> set white_space"
    by (simp_all add: utf8_chars_def is_ascii_char_def code_def white_space_def)
  show ?thesis
    using no w(2) unfolding first_word_def chars blank(1)
    by (cases w) (auto simp: takeWhile_append blank(2) comp_def)
qed

end
