(* ===== verification/Upgrade.thy ===== *)
theory Upgrade
  imports Release Config MimeText
begin

text \<open>
  The self-update (\<open>src/upgrade.rs\<close>) over a host: the regular files by path, with their
  permission bits, and the image the service runs. Every file operation and service call of the
  code is one operation of \<open>host_op\<close> that may fail; a failed copy may leave a piece. The archive
  reader, the init system's answer to a start of a running service and what answers on port 25
  are parameters.
\<close>

type_synonym file_image = "bytes \<times> nat"

record host =
  ho_files :: "string \<rightharpoonup> file_image"
  ho_running :: "bytes option"

datatype upgrade_step =
    ResolveManifest | CompareTag | FetchTarball | ExtractTarball | StopService
  | PreserveOldBinary | InstallNewBinary | StartService | WaitForReady

datatype host_op =
    StopCall | PreserveRename | StagedCopy | TmpChmod | InstallRename | TmpRemove
  | StartCall | DropNew | RestoreRename | RestartCall

datatype outcome = UpToDate | DryRun | Upgraded

record upgrade_report =
  ur_steps :: "upgrade_step list"
  ur_current_tag :: string
  ur_target_tag :: string
  ur_tarball_url :: "string option"
  ur_install_path :: "string option"
  ur_outcome :: "outcome option"

datatype upgrade_error =
    NotRoot
  | ReleaseFailed release_error
  | PreSwap upgrade_step string
  | RolledBack upgrade_step string string
  | RollbackFailed upgrade_step string upgrade_step string

datatype archived = ArchivedFile bytes nat | ArchivedDir

record upgrade_env =
  ue_release :: release_env
  ue_current_tag :: string
  ue_target :: string
  ue_is_root :: bool
  ue_exe :: "string + string"
  ue_canonicalize :: "string \<Rightarrow> string option"
  ue_tempdir :: "string + string"
  ue_unpack :: "bytes \<Rightarrow> string + (string \<rightharpoonup> archived)"
  ue_fault :: "host_op \<Rightarrow> string option"
  ue_torn :: "bytes option"
  ue_service_path :: string
  ue_start_running :: "string option"
  ue_ready :: "bytes option \<Rightarrow> bool"

record upgrade_args =
  ua_dry_run :: bool
  ua_version :: "string option"
  ua_force :: bool

section \<open>Names\<close>

definition arrow :: string where
  "arrow = '' '' @ [CHR 0xE2, CHR 0x86, CHR 0x92] @ '' ''"

definition replace_first :: "string \<Rightarrow> string \<Rightarrow> string \<Rightarrow> string" where
  "replace_first s pat by =
     (case find_subslice s pat of None \<Rightarrow> s | Some n \<Rightarrow> take n s @ by @ drop (n + length pat) s)"

definition artifact_target :: "string \<Rightarrow> string" where
  "artifact_target target = replace_first target ''-unknown-'' ''-''"

definition tarball_inner_dir :: "string \<Rightarrow> string \<Rightarrow> string" where
  "tarball_inner_dir tag target =
     ''aimx-'' @ (case strip_prefix tag ''v'' of Some v \<Rightarrow> v | None \<Rightarrow> tag) @ ''-'' @ artifact_target target"

definition tarball_filename :: "string \<Rightarrow> string \<Rightarrow> string" where
  "tarball_filename tag target =
     ''aimx-'' @ (case strip_prefix tag ''v'' of Some v \<Rightarrow> v | None \<Rightarrow> tag) @ ''-'' @ artifact_target target @ ''.tar.gz''"

definition prev_path :: "string \<Rightarrow> string" where
  "prev_path install_path = install_path @ ''.prev''"

text \<open>\<open>Path::parent\<close> of an absolute path of plain components; the root has none.\<close>

definition parent_dir :: "string \<Rightarrow> string option" where
  "parent_dir p =
     (if p = ''/'' then None
      else case rsplit_once CHR ''/'' p of
          None \<Rightarrow> Some []
        | Some (d, _) \<Rightarrow> Some (if d = [] then ''/'' else d))"

definition resolve_install_path :: "upgrade_env \<Rightarrow> upgrade_error + string" where
  "resolve_install_path env =
     (case ue_exe env of
        Inl e \<Rightarrow> Inl (PreSwap ResolveManifest (''resolve current executable: '' @ e))
      | Inr raw \<Rightarrow> Inr (case ue_canonicalize env raw of Some p \<Rightarrow> p | None \<Rightarrow> raw))"

section \<open>The archive\<close>

definition extract_tarball :: "upgrade_env \<Rightarrow> bytes \<Rightarrow> string \<Rightarrow> string \<Rightarrow> string \<Rightarrow> string + file_image" where
  "extract_tarball env bs dest_dir tag target =
     (case ue_unpack env bs of
        Inl e \<Rightarrow> Inl (''tar extract: '' @ e)
      | Inr tree \<Rightarrow>
          (case tree (tarball_inner_dir tag target @ ''/aimx'') of
             None \<Rightarrow> Inl (''tarball missing executable at '' @ dest_dir @ ''/'' @ tarball_inner_dir tag target @ ''/aimx'')
           | Some ArchivedDir \<Rightarrow> Inl ''staged binary is empty or not a regular file''
           | Some (ArchivedFile d mode) \<Rightarrow>
               if d = [] then Inl ''staged binary is empty or not a regular file'' else Inr (d, mode)))"

section \<open>The swap\<close>

definition put_file :: "string \<Rightarrow> file_image option \<Rightarrow> host \<Rightarrow> host" where
  "put_file p f h = h\<lparr>ho_files := (ho_files h)(p := f)\<rparr>"

definition rename_file :: "upgrade_env \<Rightarrow> host_op \<Rightarrow> string \<Rightarrow> string \<Rightarrow> host \<Rightarrow> (string + unit) \<times> host" where
  "rename_file env oper src dst h =
     (case ue_fault env oper of
        Some e \<Rightarrow> (Inl e, h)
      | None \<Rightarrow>
          (case ho_files h src of
             None \<Rightarrow> (Inl ''No such file or directory'', h)
           | Some f \<Rightarrow> (Inr (), put_file dst (Some f) (put_file src None h))))"

definition remove_host_file :: "upgrade_env \<Rightarrow> host_op \<Rightarrow> string \<Rightarrow> host \<Rightarrow> (string + unit) \<times> host" where
  "remove_host_file env oper p h =
     (case ue_fault env oper of Some e \<Rightarrow> (Inl e, h) | None \<Rightarrow> (Inr (), put_file p None h))"

definition preserve_previous_binary :: "upgrade_env \<Rightarrow> string \<Rightarrow> string \<Rightarrow> host \<Rightarrow> (string + unit) \<times> host" where
  "preserve_previous_binary env install prev h =
     (if ho_files h install = None then (Inr (), h)
      else case rename_file env PreserveRename install prev h of
          (Inl e, h') \<Rightarrow> (Inl (''rename '' @ install @ arrow @ prev @ '': '' @ e), h')
        | (Inr _, h') \<Rightarrow> (Inr (), h'))"

definition copy_staged :: "upgrade_env \<Rightarrow> file_image \<Rightarrow> string \<Rightarrow> host \<Rightarrow> (string + unit) \<times> host" where
  "copy_staged env staged tmp h =
     (case ue_fault env StagedCopy of
        Some e \<Rightarrow> (Inl e, (case ue_torn env of None \<Rightarrow> h | Some d \<Rightarrow> put_file tmp (Some (d, snd staged)) h))
      | None \<Rightarrow> (Inr (), put_file tmp (Some staged) h))"

definition set_executable :: "upgrade_env \<Rightarrow> string \<Rightarrow> host \<Rightarrow> (string + unit) \<times> host" where
  "set_executable env p h =
     (case ue_fault env TmpChmod of
        Some e \<Rightarrow> (Inl e, h)
      | None \<Rightarrow>
          (case ho_files h p of
             None \<Rightarrow> (Inl ''No such file or directory'', h)
           | Some (d, _) \<Rightarrow> (Inr (), put_file p (Some (d, 0x1ED)) h)))"

definition install_binary :: "upgrade_env \<Rightarrow> file_image \<Rightarrow> string \<Rightarrow> host \<Rightarrow> (string + unit) \<times> host" where
  "install_binary env staged install h =
     (case parent_dir install of
        None \<Rightarrow> (Inl (''install path '' @ install @ '' has no parent directory''), h)
      | Some parent \<Rightarrow>
     (let tmp = join_path parent ''.aimx.upgrade.tmp'' in
      case copy_staged env staged tmp h of
        (Inl e, h1) \<Rightarrow> (Inl (''copy staged'' @ arrow @ tmp @ '': '' @ e), h1)
      | (Inr _, h1) \<Rightarrow>
     (case set_executable env tmp h1 of
        (Inl e, h2) \<Rightarrow> (Inl (''chmod 0755 '' @ tmp @ '': '' @ e), snd (remove_host_file env TmpRemove tmp h2))
      | (Inr _, h2) \<Rightarrow>
     (case rename_file env InstallRename tmp install h2 of
        (Inl e, h3) \<Rightarrow> (Inl (''rename '' @ tmp @ arrow @ install @ '': '' @ e), snd (remove_host_file env TmpRemove tmp h3))
      | (Inr _, h3) \<Rightarrow> (Inr (), h3)))))"

section \<open>The service\<close>

definition stop_service :: "upgrade_env \<Rightarrow> host \<Rightarrow> (string + unit) \<times> host" where
  "stop_service env h =
     (case ue_fault env StopCall of Some e \<Rightarrow> (Inl e, h) | None \<Rightarrow> (Inr (), h\<lparr>ho_running := None\<rparr>))"

text \<open>A start leaves a service that runs as it is; otherwise it runs what is at the unit's path.\<close>

definition start_service :: "upgrade_env \<Rightarrow> host_op \<Rightarrow> host \<Rightarrow> (string + unit) \<times> host" where
  "start_service env oper h =
     (case ho_running h of
        Some _ \<Rightarrow> ((case ue_start_running env of Some e \<Rightarrow> Inl e | None \<Rightarrow> Inr ()), h)
      | None \<Rightarrow>
          (case ue_fault env oper of
             Some e \<Rightarrow> (Inl e, h)
           | None \<Rightarrow> (Inr (), h\<lparr>ho_running := map_option fst (ho_files h (ue_service_path env))\<rparr>)))"

section \<open>Rolling back\<close>

definition restore_previous :: "upgrade_env \<Rightarrow> string \<Rightarrow> string \<Rightarrow> host \<Rightarrow> (string + unit) \<times> host" where
  "restore_previous env install prev h =
     (if ho_files h prev = None then (Inr (), h)
      else case (if ho_files h install = None then (Inr (), h) else remove_host_file env DropNew install h) of
          (Inl e, h1) \<Rightarrow> (Inl (''remove '' @ install @ '': '' @ e), h1)
        | (Inr _, h1) \<Rightarrow>
            (case rename_file env RestoreRename prev install h1 of
               (Inl e, h2) \<Rightarrow> (Inl (''rename '' @ prev @ arrow @ install @ '': '' @ e), h2)
             | (Inr _, h2) \<Rightarrow> (Inr (), h2)))"

definition attempt_rollback ::
  "upgrade_env \<Rightarrow> string \<Rightarrow> string \<Rightarrow> upgrade_step \<Rightarrow> string \<Rightarrow> string \<Rightarrow> host \<Rightarrow> upgrade_error \<times> host" where
  "attempt_rollback env install prev failed_step cause previous_tag h =
     (case restore_previous env install prev h of
        (Inl e, h1) \<Rightarrow> (RollbackFailed failed_step cause PreserveOldBinary e, h1)
      | (Inr _, h1) \<Rightarrow>
          (case start_service env RestartCall h1 of
             (Inl e, h2) \<Rightarrow> (RollbackFailed failed_step cause StartService e, h2)
           | (Inr _, h2) \<Rightarrow> (RolledBack failed_step cause previous_tag, h2)))"

section \<open>The whole run\<close>

definition record_step :: "upgrade_step \<Rightarrow> upgrade_report \<Rightarrow> upgrade_report" where
  "record_step s r = r\<lparr>ur_steps := ur_steps r @ [s]\<rparr>"

text \<open>From the stopped service on: preserve, install, start, wait, rolling back at the first failure.\<close>

definition swap_binary ::
  "upgrade_env \<Rightarrow> string \<Rightarrow> file_image \<Rightarrow> upgrade_report \<Rightarrow> host \<Rightarrow> (upgrade_error + upgrade_report) \<times> host" where
  "swap_binary env install staged report h =
     (let prev = prev_path install;
          undo = (\<lambda>step cause h. apfst Inl (attempt_rollback env install prev step cause (ur_current_tag report) h)) in
      case preserve_previous_binary env install prev h of
        (Inl e, h1) \<Rightarrow> undo PreserveOldBinary e h1
      | (Inr _, h1) \<Rightarrow>
     (case install_binary env staged install h1 of
        (Inl e, h2) \<Rightarrow> undo InstallNewBinary e h2
      | (Inr _, h2) \<Rightarrow>
     (case start_service env StartCall h2 of
        (Inl e, h3) \<Rightarrow> undo StartService e h3
      | (Inr _, h3) \<Rightarrow>
          if \<not> ue_ready env (ho_running h3)
          then undo WaitForReady ''service did not reach ready state within timeout'' h3
          else (Inr ((fold record_step [PreserveOldBinary, InstallNewBinary, StartService, WaitForReady] report)
                       \<lparr>ur_outcome := Some Upgraded\<rparr>), h3))))"

definition upgrade_manifest :: "upgrade_env \<Rightarrow> upgrade_args \<Rightarrow> release_error + release_manifest" where
  "upgrade_manifest env args =
     (case map_option canonical_version_tag (ua_version args) of
        Some tag \<Rightarrow> release_by_tag (ue_release env) tag
      | None \<Rightarrow> latest_release (ue_release env))"

definition fresh_report :: "upgrade_env \<Rightarrow> upgrade_report" where
  "fresh_report env =
     \<lparr>ur_steps = [], ur_current_tag = ue_current_tag env, ur_target_tag = [], ur_tarball_url = None,
      ur_install_path = None, ur_outcome = None\<rparr>"

definition run_upgrade :: "upgrade_env \<Rightarrow> upgrade_args \<Rightarrow> host \<Rightarrow> (upgrade_error + upgrade_report) \<times> host" where
  "run_upgrade env args h =
     (if \<not> ue_is_root env then (Inl NotRoot, h)
      else case upgrade_manifest env args of
        Inl e \<Rightarrow> (Inl (ReleaseFailed e), h)
      | Inr manifest \<Rightarrow>
     (let report = (fold record_step [ResolveManifest, CompareTag] (fresh_report env))\<lparr>ur_target_tag := rm_tag manifest\<rparr> in
      if \<not> ua_force args \<and> rm_tag manifest = ur_current_tag report
      then (Inr (report\<lparr>ur_outcome := Some UpToDate\<rparr>), h)
      else case resolve_install_path env of
        Inl e \<Rightarrow> (Inl e, h)
      | Inr install \<Rightarrow>
     (case asset_url manifest (tarball_filename (rm_tag manifest) (ue_target env)) of
        Inl e \<Rightarrow> (Inl (ReleaseFailed e), h)
      | Inr url \<Rightarrow>
     (let report = record_step FetchTarball (report\<lparr>ur_install_path := Some install, ur_tarball_url := Some url\<rparr>) in
      case fetch_asset (ue_release env) url of
        Inl e \<Rightarrow> (Inl (ReleaseFailed e), h)
      | Inr tarball \<Rightarrow>
      if ua_dry_run args then (Inr (report\<lparr>ur_outcome := Some DryRun\<rparr>), h)
      else case ue_tempdir env of
        Inl e \<Rightarrow> (Inl (PreSwap ExtractTarball (''create tempdir: '' @ e)), h)
      | Inr dir \<Rightarrow>
     (case extract_tarball env tarball dir (rm_tag manifest) (ue_target env) of
        Inl e \<Rightarrow> (Inl (PreSwap ExtractTarball e), h)
      | Inr staged \<Rightarrow>
     (case stop_service env h of
        (Inl e, h1) \<Rightarrow> (Inl (PreSwap StopService e), h1)
      | (Inr _, h1) \<Rightarrow>
          swap_binary env install staged (fold record_step [ExtractTarball, StopService] report) h1))))))"

end
