(* ===== verification/UpgradeFacts.thy ===== *)
theory UpgradeFacts
  imports Upgrade ClientFacts
begin

text \<open>
  What a self-update leaves behind: the new binary in place with the old one kept, or the old one
  restored; and the two failures the rollback does not undo. Last the checksum file.
\<close>

section \<open>Each step\<close>

definition tmp_binary :: "string \<Rightarrow> string" where
  "tmp_binary install = join_path (case parent_dir install of None \<Rightarrow> [] | Some d \<Rightarrow> d) ''.aimx.upgrade.tmp''"

lemma prev_differs [simp]: "prev_path i \<noteq> i" "i \<noteq> prev_path i"
  by (simp_all add: prev_path_def)

lemma put_file_simps [simp]:
  "ho_files (put_file p f h) = (ho_files h)(p := f)" "ho_running (put_file p f h) = ho_running h"
  by (simp_all add: put_file_def)

lemma remove_keeps: "remove_host_file env oper p h = (r, h') \<Longrightarrow>
    ho_running h' = ho_running h \<and> (\<forall>q. q \<noteq> p \<longrightarrow> ho_files h' q = ho_files h q) \<and> (r = Inr () \<longrightarrow> ho_files h' p = None)"
  by (auto simp: remove_host_file_def split: option.splits)

lemma rename_keeps: "rename_file env oper a b h = (r, h') \<Longrightarrow>
    ho_running h' = ho_running h \<and> (\<forall>e. r = Inl e \<longrightarrow> h' = h) \<and>
    (r = Inr () \<longrightarrow> ho_files h' b = ho_files h a \<and> ho_files h a \<noteq> None \<and> (a \<noteq> b \<longrightarrow> ho_files h' a = None)) \<and>
    (\<forall>q. q \<notin> {a, b} \<longrightarrow> ho_files h' q = ho_files h q)"
  by (auto simp: rename_file_def split: option.splits)

lemma preserve_cases:
  assumes "preserve_previous_binary env i prev h = (r, h')"
  obtains "ho_files h i = None" "r = Inr ()" "h' = h"
  | f where "ho_files h i = Some f" "r = Inr ()" "h' = put_file prev (Some f) (put_file i None h)"
  | f e where "ho_files h i = Some f" "r = Inl e" "h' = h"
  using assms by (auto simp: preserve_previous_binary_def rename_file_def split: if_splits option.splits sum.splits prod.splits)

lemma copy_keeps: "copy_staged env staged tmp h = (r, h') \<Longrightarrow>
    ho_running h' = ho_running h \<and> (\<forall>q. q \<noteq> tmp \<longrightarrow> ho_files h' q = ho_files h q) \<and> (r = Inr () \<longrightarrow> ho_files h' tmp = Some staged)"
  by (auto simp: copy_staged_def split: option.splits)

lemma chmod_keeps: "set_executable env tmp h = (r, h') \<Longrightarrow>
    ho_running h' = ho_running h \<and> (\<forall>q. q \<noteq> tmp \<longrightarrow> ho_files h' q = ho_files h q) \<and>
    (r = Inr () \<longrightarrow> ho_files h' tmp = map_option (\<lambda>f. (fst f, 0x1ED)) (ho_files h tmp))"
  by (auto simp: set_executable_def split: option.splits)

lemma install_effect:
  assumes "install_binary env staged i h = (r, h')"
  shows "ho_running h' = ho_running h \<and> (\<forall>q. q \<notin> {i, tmp_binary i} \<longrightarrow> ho_files h' q = ho_files h q) \<and>
    (r = Inr () \<longrightarrow> ho_files h' i = Some (fst staged, 0x1ED))"
proof (cases "parent_dir i")
  case None
  with assms show ?thesis by (auto simp: install_binary_def)
next
  case (Some d)
  let ?t = "tmp_binary i"
  from Some have t: "join_path d ''.aimx.upgrade.tmp'' = ?t" by (simp add: tmp_binary_def)
  obtain r1 h1 where 1: "copy_staged env staged ?t h = (r1, h1)" by (cases "copy_staged env staged ?t h")
  obtain r2 h2 where 2: "set_executable env ?t h1 = (r2, h2)" by (cases "set_executable env ?t h1")
  obtain r3 h3 where 3: "rename_file env InstallRename ?t i h2 = (r3, h3)" by (cases "rename_file env InstallRename ?t i h2")
  obtain r4 h4 where 4: "remove_host_file env TmpRemove ?t h2 = (r4, h4)" by (cases "remove_host_file env TmpRemove ?t h2")
  obtain r5 h5 where 5: "remove_host_file env TmpRemove ?t h3 = (r5, h5)" by (cases "remove_host_file env TmpRemove ?t h3")
  note steps = copy_keeps [OF 1] chmod_keeps [OF 2] rename_keeps [OF 3] remove_keeps [OF 4] remove_keeps [OF 5]
  from assms Some t 1 2 3 4 5 show ?thesis
    by (cases r1; cases r2; cases r3) (use steps in \<open>auto simp: install_binary_def\<close>)
qed

lemma start_keeps: "start_service env oper h = (r, h') \<Longrightarrow> ho_files h' = ho_files h \<and> (ho_running h \<noteq> None \<longrightarrow> h' = h)"
  by (auto simp: start_service_def split: option.splits)

lemma start_runs:
  "start_service env oper h = (Inr (), h') \<Longrightarrow> ho_running h = None \<Longrightarrow>
   ho_running h' = map_option fst (ho_files h (ue_service_path env))"
  by (auto simp: start_service_def split: option.splits)

lemma restore_effect:
  assumes "restore_previous env i prev h = (r, h')" "i \<noteq> prev"
  shows "ho_running h' = ho_running h \<and> (\<forall>q. q \<notin> {i, prev} \<longrightarrow> ho_files h' q = ho_files h q) \<and>
    (ho_files h prev = None \<longrightarrow> r = Inr () \<and> h' = h) \<and>
    (\<forall>f. ho_files h prev = Some f \<longrightarrow>
       (if r = Inr () then ho_files h' i = Some f \<and> ho_files h' prev = None else ho_files h' prev = Some f))"
proof (cases "ho_files h prev")
  case None
  with assms show ?thesis by (simp add: restore_previous_def)
next
  case (Some f)
  obtain r1 h1 where 1: "remove_host_file env DropNew i h = (r1, h1)" by (cases "remove_host_file env DropNew i h")
  obtain r2 h2 where 2: "rename_file env RestoreRename prev i h1 = (r2, h2)" by (cases "rename_file env RestoreRename prev i h1")
  obtain r3 h3 where 3: "rename_file env RestoreRename prev i h = (r3, h3)" by (cases "rename_file env RestoreRename prev i h")
  note steps = remove_keeps [OF 1] rename_keeps [OF 2] rename_keeps [OF 3]
  show ?thesis
  proof (cases "ho_files h i = None")
    case True
    with assms Some 3 show ?thesis by (cases r3) (use steps(3) in \<open>auto simp: restore_previous_def\<close>)
  next
    case False
    with assms Some 1 2 show ?thesis by (cases r1; cases r2) (use steps(1,2) in \<open>auto simp: restore_previous_def\<close>)
  qed
qed

section \<open>The rollback and the swap\<close>

text \<open>A rollback restores what is at the kept path, and starts nothing while a process runs.\<close>

lemma rollback_effect:
  assumes "attempt_rollback env i prev step cause tag h = (r, h')" "i \<noteq> prev"
  shows "(r = RolledBack step cause tag \<or> (\<exists>s e. r = RollbackFailed step cause s e)) \<and>
    (\<forall>q. q \<notin> {i, prev} \<longrightarrow> ho_files h' q = ho_files h q) \<and>
    (ho_files h prev = None \<longrightarrow> ho_files h' = ho_files h) \<and>
    (\<forall>f. ho_files h prev = Some f \<longrightarrow>
       (if r = RolledBack step cause tag then ho_files h' i = Some f \<and> ho_files h' prev = None
        else Some f \<in> {ho_files h' i, ho_files h' prev})) \<and>
    (ho_running h \<noteq> None \<longrightarrow> ho_running h' = ho_running h) \<and>
    (r = RolledBack step cause tag \<longrightarrow> ho_running h = None \<longrightarrow>
       ho_running h' = map_option fst (ho_files h' (ue_service_path env)))"
proof -
  obtain r1 h1 where 1: "restore_previous env i prev h = (r1, h1)" by (cases "restore_previous env i prev h")
  obtain r2 h2 where 2: "start_service env RestartCall h1 = (r2, h2)" by (cases "start_service env RestartCall h1")
  note steps = restore_effect [OF 1 assms(2)] start_keeps [OF 2]
  have run: "r2 = Inr () \<Longrightarrow> ho_running h1 = None \<Longrightarrow> ho_running h2 = map_option fst (ho_files h1 (ue_service_path env))"
    using start_runs [of env RestartCall h1 h2] 2 by simp
  show ?thesis
  proof (cases r1)
    case (Inl e)
    with assms(1) 1 have "r = RollbackFailed step cause PreserveOldBinary e" "h' = h1"
      by (auto simp: attempt_rollback_def)
    with steps(1) Inl show ?thesis by (cases "ho_files h prev") auto
  next
    case (Inr u)
    with assms(1) 1 2 have r: "h' = h2" "r = (case r2 of Inl e \<Rightarrow> RollbackFailed step cause StartService e | Inr _ \<Rightarrow> RolledBack step cause tag)"
      by (auto simp: attempt_rollback_def split: sum.splits)
    with steps Inr run show ?thesis by (cases "ho_files h prev"; cases r2) auto
  qed
qed

lemma tmp_not_prev [simp]: "prev_path i \<noteq> tmp_binary i" "tmp_binary i \<noteq> prev_path i"
proof -
  have "last (tmp_binary i) = CHR ''p''" by (simp add: tmp_binary_def join_path_def starts_with_def)
  moreover have "last (prev_path i) = CHR ''v''" by (simp add: prev_path_def)
  ultimately show "prev_path i \<noteq> tmp_binary i" "tmp_binary i \<noteq> prev_path i" by auto
qed

definition swap_verdict ::
  "upgrade_env \<Rightarrow> string \<Rightarrow> file_image \<Rightarrow> host \<Rightarrow> upgrade_error + upgrade_report \<Rightarrow> host \<Rightarrow> bool" where
  "swap_verdict env i staged h r h' =
     (case r of
        Inr rep \<Rightarrow>
          ur_outcome rep = Some Upgraded \<and> ho_files h' i = Some (fst staged, 0x1ED) \<and>
          (ho_files h i \<noteq> None \<longrightarrow> ho_files h' (prev_path i) = ho_files h i) \<and>
          ue_ready env (ho_running h') \<and> ho_running h' = map_option fst (ho_files h' (ue_service_path env))
      | Inl (RolledBack step _ tag) \<Rightarrow>
          tag = ue_current_tag env \<and>
          (step \<noteq> PreserveOldBinary \<longrightarrow> ho_files h i \<noteq> None \<longrightarrow> ho_files h' i = ho_files h i) \<and>
          (step \<noteq> WaitForReady \<longrightarrow> ho_running h' = map_option fst (ho_files h' (ue_service_path env)))
      | Inl (RollbackFailed step _ _ _) \<Rightarrow>
          (step \<noteq> PreserveOldBinary \<longrightarrow> ho_files h i \<noteq> None \<longrightarrow> ho_files h i \<in> {ho_files h' i, ho_files h' (prev_path i)})
      | _ \<Rightarrow> False)"

text \<open>What each failing point leaves: the rollback starts from \<open>g\<close>, where the old binary is kept.\<close>

lemma rolled_back_verdict:
  assumes "attempt_rollback env i (prev_path i) step cause (ue_current_tag env) g = (e, h')"
    and "ho_files h i \<noteq> None \<Longrightarrow> step \<noteq> PreserveOldBinary \<Longrightarrow> ho_files g (prev_path i) = ho_files h i"
    and "step \<noteq> WaitForReady \<Longrightarrow> ho_running g = None"
  shows "swap_verdict env i staged h (Inl e) h'"
  using rollback_effect [OF assms(1)] assms(2,3) by (auto simp: swap_verdict_def)

lemma swap_effect:
  assumes swap: "swap_binary env i staged report h = (r, h')"
    and tag: "ur_current_tag report = ue_current_tag env" and stopped: "ho_running h = None"
  shows "swap_verdict env i staged h r h' \<and>
    (\<forall>q. q \<notin> {i, prev_path i, tmp_binary i} \<longrightarrow> ho_files h' q = ho_files h q) \<and>
    (\<forall>c t. r = Inl (RolledBack PreserveOldBinary c t) \<longrightarrow>
       (\<forall>f. ho_files h (prev_path i) = Some f \<longrightarrow> ho_files h' i = Some f \<and> ho_files h' (prev_path i) = None)) \<and>
    (\<forall>c t. r = Inl (RolledBack WaitForReady c t) \<longrightarrow> ue_service_path env = i \<longrightarrow> ho_running h' = Some (fst staged))"
proof -
  let ?p = "prev_path i"
  let ?undo = "\<lambda>step cause h. attempt_rollback env i ?p step cause (ue_current_tag env) h"
  obtain r1 h1 where 1: "preserve_previous_binary env i ?p h = (r1, h1)" by (cases "preserve_previous_binary env i ?p h")
  obtain r2 h2 where 2: "install_binary env staged i h1 = (r2, h2)" by (cases "install_binary env staged i h1")
  obtain r3 h3 where 3: "start_service env StartCall h2 = (r3, h3)" by (cases "start_service env StartCall h2")
  have kept: "ho_running h1 = None \<and> (\<forall>q. q \<notin> {i, ?p} \<longrightarrow> ho_files h1 q = ho_files h q) \<and>
      (r1 = Inr () \<longrightarrow> ho_files h i \<noteq> None \<longrightarrow> ho_files h1 ?p = ho_files h i) \<and> (\<forall>e. r1 = Inl e \<longrightarrow> h1 = h)"
    using 1 stopped by (elim preserve_cases) auto
  note inst = install_effect [OF 2] and same = start_keeps [OF 3]
  have swap': "(r, h') = (case r1 of Inl e \<Rightarrow> apfst Inl (?undo PreserveOldBinary e h1)
      | Inr _ \<Rightarrow> (case r2 of Inl e \<Rightarrow> apfst Inl (?undo InstallNewBinary e h2)
      | Inr _ \<Rightarrow> (case r3 of Inl e \<Rightarrow> apfst Inl (?undo StartService e h3)
      | Inr _ \<Rightarrow> if \<not> ue_ready env (ho_running h3)
          then apfst Inl (?undo WaitForReady ''service did not reach ready state within timeout'' h3)
          else (Inr ((fold record_step [PreserveOldBinary, InstallNewBinary, StartService, WaitForReady] report)
                       \<lparr>ur_outcome := Some Upgraded\<rparr>), h3))))"
    using swap [symmetric] tag 1 2 3 by (simp add: swap_binary_def Let_def split: sum.splits)
  consider (preserving) e where "r1 = Inl e"
    | (installing) e where "r1 = Inr ()" "r2 = Inl e"
    | (starting) e where "r1 = Inr ()" "r2 = Inr ()" "r3 = Inl e"
    | (waiting) "r1 = Inr ()" "r2 = Inr ()" "r3 = Inr ()" "\<not> ue_ready env (ho_running h3)"
    | (finished) "r1 = Inr ()" "r2 = Inr ()" "r3 = Inr ()" "ue_ready env (ho_running h3)"
    by (cases r1; cases r2; cases r3) auto
  then show ?thesis
  proof cases
    case (preserving e)
    then obtain e' where e': "?undo PreserveOldBinary e h = (e', h')" "r = Inl e'"
      using swap' kept by (cases "?undo PreserveOldBinary e h") auto
    with rollback_effect [OF e'(1)] show ?thesis
      using rolled_back_verdict [OF e'(1), of h staged] stopped by auto
  next
    case (installing e)
    then obtain e' where e': "?undo InstallNewBinary e h2 = (e', h')" "r = Inl e'"
      using swap' by (cases "?undo InstallNewBinary e h2") auto
    with rollback_effect [OF e'(1)] kept inst installing show ?thesis
      using rolled_back_verdict [OF e'(1), of h staged] by auto
  next
    case (starting e)
    then obtain e' where e': "?undo StartService e h3 = (e', h')" "r = Inl e'"
      using swap' by (cases "?undo StartService e h3") auto
    have "ho_running h3 = None" using 3 starting(3) inst kept by (auto simp: start_service_def split: option.splits)
    with rollback_effect [OF e'(1)] kept inst same starting show ?thesis
      using rolled_back_verdict [OF e'(1), of h staged] e'(2) by auto
  next
    case waiting
    let ?c = "''service did not reach ready state within timeout''"
    obtain e' where e': "?undo WaitForReady ?c h3 = (e', h')" "r = Inl e'"
      using swap' waiting by (cases "?undo WaitForReady ?c h3") auto
    have "ho_running h3 = map_option fst (ho_files h2 (ue_service_path env))"
      using start_runs [of env StartCall h2 h3] 3 waiting(3) inst kept by simp
    with rollback_effect [OF e'(1)] kept inst same waiting show ?thesis
      using rolled_back_verdict [OF e'(1), of h staged] e'(2) by auto
  next
    case finished
    have "ho_running h3 = map_option fst (ho_files h2 (ue_service_path env))"
      using start_runs [of env StartCall h2 h3] 3 finished(3) inst kept by simp
    with swap' finished kept inst same show ?thesis by (auto simp: swap_verdict_def)
  qed
qed

section \<open>The whole run\<close>

lemma resolve_error: "resolve_install_path env = Inl e \<Longrightarrow> \<exists>c. e = PreSwap ResolveManifest c"
  by (auto simp: resolve_install_path_def split: sum.splits)

lemma staged_not_empty: "extract_tarball env tarball dir tag target = Inr staged \<Longrightarrow> fst staged \<noteq> []"
  by (auto simp: extract_tarball_def split: sum.splits option.splits archived.splits if_splits)

lemma step_tag [simp]: "ur_current_tag (record_step s rep) = ur_current_tag rep" "ur_outcome (record_step s rep) = ur_outcome rep"
  by (simp_all add: record_step_def)

lemma stop_cases: "stop_service env h = (Inl e, h') \<Longrightarrow> h' = h" "stop_service env h = (Inr u, h') \<Longrightarrow> h' = h\<lparr>ho_running := None\<rparr>"
  by (auto simp: stop_service_def split: option.splits)

text \<open>A run either never stopped the service, and then changed nothing, or is a swap of a staged binary.\<close>

definition stopped_nothing :: "upgrade_error + upgrade_report \<Rightarrow> bool" where
  "stopped_nothing r =
     (case r of
        Inr rep \<Rightarrow> ur_outcome rep \<in> {Some UpToDate, Some DryRun}
      | Inl (RolledBack _ _ _) \<Rightarrow> False
      | Inl (RollbackFailed _ _ _ _) \<Rightarrow> False
      | Inl _ \<Rightarrow> True)"

definition swapped_by :: "upgrade_env \<Rightarrow> host \<Rightarrow> string \<Rightarrow> file_image \<Rightarrow> upgrade_error + upgrade_report \<Rightarrow> host \<Rightarrow> bool" where
  "swapped_by env h i staged r h' \<longleftrightarrow>
     (\<exists>report tarball dir tag. resolve_install_path env = Inr i \<and>
      extract_tarball env tarball dir tag (ue_target env) = Inr staged \<and> ur_current_tag report = ue_current_tag env \<and>
      swap_binary env i staged report (h\<lparr>ho_running := None\<rparr>) = (r, h'))"

lemma swapped_byI:
  assumes "swap_binary env i staged report h1 = (r, h')" "resolve_install_path env = Inr i"
    "extract_tarball env tarball dir tag (ue_target env) = Inr staged"
    "stop_service env h = (Inr u, h1)" "ur_current_tag report = ue_current_tag env"
  shows "swapped_by env h i staged r h'"
  using assms stop_cases(2) [OF assms(4)] by (auto simp: swapped_by_def)

lemma fresh_report_simps [simp]: "ur_current_tag (fresh_report env) = ue_current_tag env" "ur_outcome (fresh_report env) = None"
  by (simp_all add: fresh_report_def)

lemma run_cases:
  assumes "run_upgrade env args h = (r, h')"
  shows "h' = h \<and> stopped_nothing r \<or> (\<exists>i staged. swapped_by env h i staged r h')"
  using assms unfolding run_upgrade_def Let_def
  by (auto simp: stopped_nothing_def split: if_splits sum.splits prod.splits
      dest: resolve_error stop_cases(1);
      fastforce intro: swapped_byI)


text \<open>C28: A rollback from the first step, the renaming of the old binary, does not keep it: where an earlier
  upgrade left a previous binary, that older one is put in its place, and the report names the tag of the
  binary that was removed.\<close>

theorem rollback_installs_the_binary_before:
  assumes "run_upgrade env args h = (Inl (RolledBack PreserveOldBinary c tag), h')"
    and "resolve_install_path env = Inr i" "ho_files h (prev_path i) = Some older"
  shows "ho_files h' i = Some older \<and> ho_files h' (prev_path i) = None \<and> tag = ue_current_tag env"
  using run_cases [OF assms(1)] assms(2,3)
  by (auto simp: swapped_by_def stopped_nothing_def swap_verdict_def dest!: swap_effect)

text \<open>After a rollback because the new version did not become ready, the file is the old binary again, but
  the process that runs is the new one: nothing stops it before the old one is started.\<close>

theorem rolled_back_service_runs_the_new_binary:
  assumes "run_upgrade env args h = (Inl (RolledBack WaitForReady c tag), h')"
    and "resolve_install_path env = Inr i" "ue_service_path env = i" "ho_files h i = Some old"
  shows "ho_files h' i = Some old \<and> (\<exists>tarball dir tag staged.
    extract_tarball env tarball dir tag (ue_target env) = Inr staged \<and> ho_running h' = Some (fst staged))"
proof -
  from run_cases [OF assms(1)] obtain j staged where "swapped_by env h j staged (Inl (RolledBack WaitForReady c tag)) h'"
    by (auto simp: stopped_nothing_def)
  with assms(2) have "swapped_by env h i staged (Inl (RolledBack WaitForReady c tag)) h'" by (auto simp: swapped_by_def)
  then obtain report tarball dir tag' where 1: "extract_tarball env tarball dir tag' (ue_target env) = Inr staged"
    "ur_current_tag report = ue_current_tag env"
    "swap_binary env i staged report (h\<lparr>ho_running := None\<rparr>) = (Inl (RolledBack WaitForReady c tag), h')"
    by (auto simp: swapped_by_def)
  from swap_effect [OF 1(3,2)] assms(3,4) have "ho_files h' i = Some old" "ho_running h' = Some (fst staged)"
    by (simp_all add: swap_verdict_def)
  with 1(1) show ?thesis by blast
qed

section \<open>A host\<close>

definition demo_archive :: bytes where "demo_archive = ''archive''"

definition demo_manifest :: github_release where
  "demo_manifest = \<lparr>gr_tag_name = ''0.2.0'', gr_published_at = [],
     gr_assets = [(''aimx-0.2.0-x86_64-linux-gnu.tar.gz'', ''https://x/a'')]\<rparr>"

definition demo_release :: release_env where
  "demo_release = \<lparr>re_env_url = None, re_config_url = None, re_read = (\<lambda>p. Inl ''none''),
     re_get = (\<lambda>u. Inr (200, if u = ''https://x/a'' then demo_archive else ''manifest'')),
     re_parse_json = (\<lambda>d. Inr demo_manifest), re_sha256 = id, re_dbg = id\<rparr>"

definition demo_upgrade :: "(host_op \<Rightarrow> string option) \<Rightarrow> bool \<Rightarrow> upgrade_env" where
  "demo_upgrade fault ready =
     \<lparr>ue_release = demo_release, ue_current_tag = ''0.1.0'', ue_target = ''x86_64-unknown-linux-gnu'', ue_is_root = True,
      ue_exe = Inr ''/b/aimx'', ue_canonicalize = Some, ue_tempdir = Inr ''/tmp/x'',
      ue_unpack = (\<lambda>d. Inr [''aimx-0.2.0-x86_64-linux-gnu/aimx'' \<mapsto> ArchivedFile ''new'' 420]),
      ue_fault = fault, ue_torn = None, ue_service_path = ''/b/aimx'', ue_start_running = None,
      ue_ready = (\<lambda>d. ready)\<rparr>"

definition demo_host :: host where
  "demo_host = \<lparr>ho_files = [''/b/aimx'' \<mapsto> (''old'', 493), ''/b/aimx.prev'' \<mapsto> (''older'', 493)], ho_running = Some ''old''\<rparr>"

definition demo_flags :: upgrade_args where "demo_flags = \<lparr>ua_dry_run = False, ua_version = None, ua_force = False\<rparr>"

lemmas demo_upgrade_simps = demo_archive_def demo_manifest_def demo_release_def demo_upgrade_def demo_host_def demo_flags_def

definition fails_at :: "host_op set \<Rightarrow> host_op \<Rightarrow> string option" where
  "fails_at ops oper = (if oper \<in> ops then Some ''failed'' else None)"

lemma demo_upgraded: "case run_upgrade (demo_upgrade (fails_at {}) True) demo_flags demo_host of
    (Inr rep, h') \<Rightarrow> ur_outcome rep = Some Upgraded \<and> ho_running h' = Some ''new'' | _ \<Rightarrow> False"
  by code_simp

lemma demo_not_preserved: "case run_upgrade (demo_upgrade (fails_at {PreserveRename}) True) demo_flags demo_host of
    (Inl (RolledBack PreserveOldBinary _ tag), h') \<Rightarrow> tag = ''0.1.0'' \<and> ho_running h' = Some ''older'' | _ \<Rightarrow> False"
  by code_simp

lemma demo_not_ready: "case run_upgrade (demo_upgrade (fails_at {}) False) demo_flags demo_host of
    (Inl (RolledBack WaitForReady _ tag), h') \<Rightarrow> ho_running h' = Some ''new'' | _ \<Rightarrow> False"
  by code_simp

lemma demo_install [simp]: "resolve_install_path (demo_upgrade fault ready) = Inr ''/b/aimx''"
  "ue_service_path (demo_upgrade fault ready) = ''/b/aimx''" "prev_path ''/b/aimx'' = ''/b/aimx.prev''"
  "ho_files demo_host ''/b/aimx'' = Some (''old'', 493)" "ho_files demo_host ''/b/aimx.prev'' = Some (''older'', 493)"
  "ho_running demo_host = Some ''old''"
  by (simp_all add: resolve_install_path_def demo_upgrade_def prev_path_def demo_host_def)


theorem rollback_installs_the_binary_before_witness:
  "\<exists>c h'. run_upgrade (demo_upgrade (fails_at {PreserveRename}) True) demo_flags demo_host =
     (Inl (RolledBack PreserveOldBinary c ''0.1.0''), h') \<and> ho_files h' ''/b/aimx'' = Some (''older'', 493)"
proof -
  let ?env = "demo_upgrade (fails_at {PreserveRename}) True"
  obtain c h' where run: "run_upgrade ?env demo_flags demo_host = (Inl (RolledBack PreserveOldBinary c ''0.1.0''), h')"
    using demo_not_preserved by (auto split: prod.splits sum.splits upgrade_error.splits upgrade_step.splits)
  then show ?thesis using rollback_installs_the_binary_before [OF run, of "''/b/aimx''"] by simp
qed

theorem rolled_back_service_runs_the_new_binary_witness:
  "\<exists>c tag h' d. run_upgrade (demo_upgrade (fails_at {}) False) demo_flags demo_host = (Inl (RolledBack WaitForReady c tag), h') \<and>
     ho_files h' ''/b/aimx'' = Some (''old'', 493) \<and> ho_running h' = Some d \<and> d \<noteq> ''old''"
proof -
  let ?env = "demo_upgrade (fails_at {}) False"
  obtain c tag h' where run: "run_upgrade ?env demo_flags demo_host = (Inl (RolledBack WaitForReady c tag), h')"
      and new: "ho_running h' = Some ''new''"
    using demo_not_ready by (auto split: prod.splits sum.splits upgrade_error.splits upgrade_step.splits)
  then show ?thesis using rolled_back_service_runs_the_new_binary [OF run, of "''/b/aimx''"] by simp
qed

section \<open>The checksum file\<close>

text \<open>The checksum file \<open>sha256sum\<close> writes for an archive verifies exactly the archives of its digest.\<close>

lemma checksum_file_verifies:
  assumes "length (re_sha256 env archive) = 32" "list_all plain_byte name" "name \<noteq> []"
  shows "parse_sha256_file env (hex_encode (re_sha256 env archive) @ ''  '' @ name @ [LF]) =
      Inr (hex_encode (re_sha256 env archive))"
    and "verify_sha256 env other (hex_encode (re_sha256 env archive)) = Inr () \<longleftrightarrow> hex_encode (re_sha256 env other) = hex_encode (re_sha256 env archive)"
proof -
  let ?h = "hex_encode (re_sha256 env archive)"
  have h: "list_all is_ascii_hexdigit ?h" "list_all plain_byte ?h" "to_ascii_lowercase ?h = ?h" "length ?h = 64"
    using hex_encode_clean [of "re_sha256 env archive"] assms(1)
    by (auto simp: list_all_iff to_ascii_lowercase_def intro: map_idI)
  from h(4) have ne: "?h \<noteq> []" by (metis list.size(3) zero_neq_numeral)
  have no: "LF \<notin> set (?h @ ''  '' @ name)" "CR \<notin> set (?h @ ''  '' @ name)"
    using h(2) assms(2) by (auto simp: list_all_iff plain_byte_def code_def LF_def CR_def)
  have ends: "plain_byte (hd (?h @ ''  '' @ name))" "plain_byte (last (?h @ ''  '' @ name))"
    using h(2) ne assms(2,3) by (auto simp: list_all_iff hd_append)
  have line: "lines ((?h @ ''  '' @ name) @ [LF]) = [?h @ ''  '' @ name]"
    using lines_line [OF no, of "[]"] by (simp add: lines.simps [of "[]"] split_once_def)
  have "trim (?h @ ''  '' @ name) = ?h @ ''  '' @ name"
    using ends by (intro trim_plain_ends) auto
  with line h ne plain_word [OF h(2) ne, of "CHR '' '' # name"]
  show "parse_sha256_file env (?h @ ''  '' @ name @ [LF]) = Inr ?h"
    by (simp add: parse_sha256_file_def Let_def)
  show "verify_sha256 env other ?h = Inr () \<longleftrightarrow> hex_encode (re_sha256 env other) = ?h"
    using h by (simp add: verify_sha256_def Let_def trim_all_plain)
qed

end
