(* ===== verification/IpAddr.thy ===== *)
theory IpAddr
  imports Prelude "HOL-Library.Word"
begin

unbundle bit_operations_syntax

text \<open>
  The Internet addresses of \<open>std::net\<close> the program uses: 32 and 128 bit words with their octets
  and segments, their kinds, and the parser and the printer of their texts.
\<close>

type_synonym ipv4 = "32 word"
type_synonym ipv6 = "128 word"

datatype ip_addr = V4 ipv4 | V6 ipv6

definition octet :: "ipv4 \<Rightarrow> nat \<Rightarrow> 8 word" where
  "octet w i = ucast (drop_bit (24 - 8 * i) w)"

definition segment :: "ipv6 \<Rightarrow> nat \<Rightarrow> 16 word" where
  "segment w i = ucast (drop_bit (112 - 16 * i) w)"

definition octets :: "ipv4 \<Rightarrow> nat list" where
  "octets w = map (\<lambda>i. unat (octet w i)) [0, 1, 2, 3]"

definition segments :: "ipv6 \<Rightarrow> nat list" where
  "segments w = map (\<lambda>i. unat (segment w i)) [0, 1, 2, 3, 4, 5, 6, 7]"

definition of_octets :: "nat list \<Rightarrow> ipv4" where
  "of_octets os = foldl (\<lambda>a b. 256 * a + word_of_nat b) 0 os"

definition of_segments :: "nat list \<Rightarrow> ipv6" where
  "of_segments gs = foldl (\<lambda>a b. 65536 * a + word_of_nat b) 0 gs"

section \<open>Kinds\<close>

definition v4_loopback :: "ipv4 \<Rightarrow> bool" where "v4_loopback w \<longleftrightarrow> octet w 0 = 127"
definition v4_unspecified :: "ipv4 \<Rightarrow> bool" where "v4_unspecified w \<longleftrightarrow> w = 0"
definition v4_link_local :: "ipv4 \<Rightarrow> bool" where "v4_link_local w \<longleftrightarrow> octet w 0 = 169 \<and> octet w 1 = 254"
definition v4_broadcast :: "ipv4 \<Rightarrow> bool" where "v4_broadcast w \<longleftrightarrow> w = 0xFFFFFFFF"
definition v4_multicast :: "ipv4 \<Rightarrow> bool" where "v4_multicast w \<longleftrightarrow> 224 \<le> octet w 0 \<and> octet w 0 \<le> 239"
definition v6_loopback :: "ipv6 \<Rightarrow> bool" where "v6_loopback w \<longleftrightarrow> w = 1"
definition v6_unspecified :: "ipv6 \<Rightarrow> bool" where "v6_unspecified w \<longleftrightarrow> w = 0"
definition v6_multicast :: "ipv6 \<Rightarrow> bool" where "v6_multicast w \<longleftrightarrow> segment w 0 AND 0xFF00 = 0xFF00"

definition to_ipv4_mapped :: "ipv6 \<Rightarrow> ipv4 option" where
  "to_ipv4_mapped w = (if drop_bit 32 w = 0xFFFF then Some (ucast w) else None)"

fun is_loopback :: "ip_addr \<Rightarrow> bool" where
  "is_loopback (V4 w) = v4_loopback w"
| "is_loopback (V6 w) = v6_loopback w"

fun is_unspecified :: "ip_addr \<Rightarrow> bool" where
  "is_unspecified (V4 w) = v4_unspecified w"
| "is_unspecified (V6 w) = v6_unspecified w"

section \<open>Reading\<close>

definition to_digit :: "nat \<Rightarrow> char \<Rightarrow> nat option" where
  "to_digit radix c =
     (let d = (if is_ascii_digit c then code c - 48
               else if 97 \<le> code c \<and> code c \<le> 122 then code c - 87
               else if 65 \<le> code c \<and> code c \<le> 90 then code c - 55 else radix) in
      if d < radix then Some d else None)"

definition read_number :: "nat \<Rightarrow> nat \<Rightarrow> nat \<Rightarrow> bool \<Rightarrow> string \<Rightarrow> (nat \<times> string) option" where
  "read_number radix max_digits bound allow_zero_prefix s =
     (let ds = takeWhile (\<lambda>c. to_digit radix c \<noteq> None) s;
          v = foldl (\<lambda>a c. radix * a + the (to_digit radix c)) 0 ds in
      if ds = [] \<or> max_digits < length ds \<or> bound \<le> v \<or>
         (\<not> allow_zero_prefix \<and> hd ds = CHR ''0'' \<and> 1 < length ds) then None
      else Some (v, drop (length ds) s))"

definition read_separator :: "char \<Rightarrow> nat \<Rightarrow> (string \<Rightarrow> ('a \<times> string) option) \<Rightarrow> string \<Rightarrow> ('a \<times> string) option" where
  "read_separator sep index inner s =
     (if index = 0 then inner s
      else case s of [] \<Rightarrow> None | c # s' \<Rightarrow> if c = sep then inner s' else None)"

fun read_octets :: "nat \<Rightarrow> nat \<Rightarrow> string \<Rightarrow> (nat list \<times> string) option" where
  "read_octets i 0 s = Some ([], s)"
| "read_octets i (Suc n) s =
     (case read_separator CHR ''.'' i (read_number 10 3 256 False) s of
        None \<Rightarrow> None
      | Some (v, s') \<Rightarrow> (case read_octets (Suc i) n s' of None \<Rightarrow> None | Some (vs, s'') \<Rightarrow> Some (v # vs, s'')))"

definition read_ipv4_addr :: "string \<Rightarrow> (nat list \<times> string) option" where
  "read_ipv4_addr s = read_octets 0 4 s"

text \<open>The groups read, and whether the last two were an embedded dotted address.\<close>

fun read_groups :: "nat \<Rightarrow> nat \<Rightarrow> string \<Rightarrow> nat list \<times> bool \<times> string" where
  "read_groups i 0 s = ([], False, s)"
| "read_groups i (Suc n) s =
     (case (if n = 0 then None else read_separator CHR '':'' i read_ipv4_addr s) of
        Some (os, s') \<Rightarrow> ([256 * os ! 0 + os ! 1, 256 * os ! 2 + os ! 3], True, s')
      | None \<Rightarrow>
          (case read_separator CHR '':'' i (read_number 16 4 65536 True) s of
             Some (g, s') \<Rightarrow> (case read_groups (Suc i) n s' of (gs, b, s'') \<Rightarrow> (g # gs, b, s''))
           | None \<Rightarrow> ([], False, s)))"

definition read_ipv6_addr :: "string \<Rightarrow> (nat list \<times> string) option" where
  "read_ipv6_addr s =
     (case read_groups 0 8 s of
        (head, head_ipv4, s1) \<Rightarrow>
          if length head = 8 then Some (head, s1)
          else if head_ipv4 then None
          else case strip_prefix s1 ''::'' of
              None \<Rightarrow> None
            | Some s2 \<Rightarrow>
                (case read_groups 0 (8 - (length head + 1)) s2 of
                   (tail, _, s3) \<Rightarrow> Some (head @ replicate (8 - length head - length tail) 0 @ tail, s3)))"

definition parse_ip :: "string \<Rightarrow> ip_addr option" where
  "parse_ip s =
     (case read_ipv4_addr s of
        Some (os, rest) \<Rightarrow> if rest = [] then Some (V4 (of_octets os)) else None
      | None \<Rightarrow>
          (case read_ipv6_addr s of
             Some (gs, rest) \<Rightarrow> if rest = [] then Some (V6 (of_segments gs)) else None
           | None \<Rightarrow> None))"

section \<open>Printing\<close>

definition show_ipv4 :: "ipv4 \<Rightarrow> string" where
  "show_ipv4 w =
     (case map show_nat (octets w) of
        [a, b, c, d] \<Rightarrow> a @ ''.'' @ b @ ''.'' @ c @ ''.'' @ d
      | _ \<Rightarrow> [])"

fun show_hex :: "nat \<Rightarrow> string" where
  "show_hex n =
     (let d = (if n mod 16 < 10 then char_of (48 + n mod 16) else char_of (87 + n mod 16)) in
      if n < 16 then [d] else show_hex (n div 16) @ [d])"

declare show_hex.simps [simp del]

fun join_hex :: "nat list \<Rightarrow> string" where
  "join_hex [] = []"
| "join_hex [g] = show_hex g"
| "join_hex (g # gs) = show_hex g @ '':'' @ join_hex gs"

text \<open>The first of the longest runs of zero segments: its start and length.\<close>

fun longest_zeroes :: "nat \<Rightarrow> nat \<times> nat \<Rightarrow> nat \<times> nat \<Rightarrow> nat list \<Rightarrow> nat \<times> nat" where
  "longest_zeroes i longest current [] = longest"
| "longest_zeroes i longest current (g # gs) =
     (if g = 0
      then let current' = (if snd current = 0 then (i, 1) else (fst current, snd current + 1)) in
           longest_zeroes (Suc i) (if snd longest < snd current' then current' else longest) current' gs
      else longest_zeroes (Suc i) longest (0, 0) gs)"

definition show_ipv6 :: "ipv6 \<Rightarrow> string" where
  "show_ipv6 w =
     (case to_ipv4_mapped w of
        Some v4 \<Rightarrow> ''::ffff:'' @ show_ipv4 v4
      | None \<Rightarrow>
          (case longest_zeroes 0 (0, 0) (0, 0) (segments w) of
             (start, len) \<Rightarrow>
               if 1 < len then join_hex (take start (segments w)) @ ''::'' @ join_hex (drop (start + len) (segments w))
               else join_hex (segments w)))"

fun show_ip :: "ip_addr \<Rightarrow> string" where
  "show_ip (V4 w) = show_ipv4 w"
| "show_ip (V6 w) = show_ipv6 w"

end
