(* ===== verification/Verifier.thy ===== *)
theory Verifier
  imports IpAddr
begin

text \<open>
  The port check service (\<open>services/verifier/src/main.rs\<close>): whose address is probed, which
  addresses never are, the probe's SMTP dialogue, and the service's own SMTP responder with its
  connection gate. A stream is the bytes the peer sends and how it ends; the clock shows as a
  stream that falls silent. The HTTP layer is a crate: the client address header is its text
  where the crate yields one.
\<close>

datatype stream_end = Closed | Broken | Silent

type_synonym stream = "bytes \<times> stream_end"

section \<open>Whom to probe\<close>

fun canonicalize_ip :: "ip_addr \<Rightarrow> ip_addr" where
  "canonicalize_ip (V6 w) = (case to_ipv4_mapped w of Some v4 \<Rightarrow> V4 v4 | None \<Rightarrow> V6 w)"
| "canonicalize_ip (V4 w) = V4 w"

definition is_blocked_ipv4 :: "ipv4 \<Rightarrow> bool" where
  "is_blocked_ipv4 ip \<longleftrightarrow>
     (let a = octet ip 0; b = octet ip 1 in
      if v4_link_local ip \<or> v4_broadcast ip \<or> v4_multicast ip then True
      else if a = 10 then True
      else if a = 172 \<and> (16 \<le> b \<and> b \<le> 31) then True
      else if a = 192 \<and> b = 168 then True
      else if a = 100 \<and> (64 \<le> b \<and> b \<le> 127) then True
      else False)"

definition is_blocked_ipv6 :: "ipv6 \<Rightarrow> bool" where
  "is_blocked_ipv6 ip \<longleftrightarrow>
     (if v6_multicast ip then True
      else if segment ip 0 AND 0xFFC0 = 0xFE80 then True
      else if segment ip 0 AND 0xFE00 = 0xFC00 then True
      else False)"

definition is_blocked_target :: "ip_addr \<Rightarrow> bool" where
  "is_blocked_target addr \<longleftrightarrow>
     (let ip = canonicalize_ip addr in
      if is_loopback ip \<or> is_unspecified ip then True
      else case ip of V4 v4 \<Rightarrow> is_blocked_ipv4 v4 | V6 v6 \<Rightarrow> is_blocked_ipv6 v6)"

definition resolve_client_ip :: "ip_addr \<Rightarrow> string option \<Rightarrow> ip_addr option" where
  "resolve_client_ip peer client_ip_header =
     (let peer_ip = canonicalize_ip peer in
      if \<not> is_loopback peer_ip then Some peer_ip
      else case client_ip_header of
          None \<Rightarrow> None
        | Some value' \<Rightarrow>
            (case parse_ip (trim value') of
               None \<Rightarrow> None
             | Some parsed \<Rightarrow>
                 (let ip = canonicalize_ip parsed in if is_blocked_target ip then None else Some ip)))"

section \<open>The dialogue of a probe\<close>

text \<open>What a dialogue on a stream comes to, with what it wrote; \<open>accepts\<close> is whether a write is taken.\<close>

datatype 'a dialogue = Finished 'a | IoFailed | Waits

text \<open>\<open>read_line\<close>: up to and with the line feed, or what there is at the end; it must be UTF-8.\<close>

definition read_text_line :: "stream \<Rightarrow> string dialogue \<times> stream" where
  "read_text_line s =
     (case split_once LF (fst s) of
        Some (l, r) \<Rightarrow> (if valid_utf8 l then (Finished (l @ [LF]), (r, snd s)) else (IoFailed, (r, snd s)))
      | None \<Rightarrow>
          (case snd s of
             Closed \<Rightarrow> (if valid_utf8 (fst s) then (Finished (fst s), ([], Closed)) else (IoFailed, ([], Closed)))
           | Broken \<Rightarrow> (IoFailed, ([], Broken))
           | Silent \<Rightarrow> (Waits, ([], Silent))))"

lemma read_text_line_shrinks:
  "read_text_line s = (Finished l, s') \<Longrightarrow> l \<noteq> [] \<Longrightarrow> length (fst s') < length (fst s)"
  by (auto simp: read_text_line_def split: option.splits prod.splits if_splits stream_end.splits dest!: split_once_Some)

text \<open>The reply to EHLO: lines with a dash, then one with a space.\<close>

function ehlo_reply :: "stream \<Rightarrow> bool dialogue \<times> stream" where
  "ehlo_reply s =
     (case read_text_line s of
        (Finished line, s') \<Rightarrow>
          if line = [] then (Finished False, s')
          else if starts_with line ''250 '' then (Finished True, s')
          else if \<not> starts_with line ''250-'' then (Finished False, s')
          else ehlo_reply s'
      | (IoFailed, s') \<Rightarrow> (IoFailed, s')
      | (Waits, s') \<Rightarrow> (Waits, s'))"
  by pat_completeness auto
termination
  by (relation "measure (length \<circ> fst)") (auto dest!: sym [of "(_, _)" "read_text_line _"] read_text_line_shrinks)

declare ehlo_reply.simps [simp del]

definition probe_hello :: bytes where "probe_hello = ''EHLO check.aimx.email'' @ [CR, LF]"
definition probe_quit :: bytes where "probe_quit = ''QUIT'' @ [CR, LF]"

definition smtp_ehlo_handshake :: "(bytes \<Rightarrow> bool) \<Rightarrow> stream \<Rightarrow> bool dialogue \<times> bytes" where
  "smtp_ehlo_handshake accepts s =
     (case read_text_line s of
        (Finished greeting, s1) \<Rightarrow>
          if \<not> starts_with greeting ''220'' then (Finished False, [])
          else if \<not> accepts probe_hello then (IoFailed, [])
          else
            (case ehlo_reply s1 of
               (Finished True, s2) \<Rightarrow>
                 if \<not> accepts probe_quit then (IoFailed, probe_hello)
                 else (case read_text_line s2 of
                         (Waits, _) \<Rightarrow> (Waits, probe_hello @ probe_quit)
                       | _ \<Rightarrow> (Finished True, probe_hello @ probe_quit))
             | (r, _) \<Rightarrow> (r, probe_hello))
      | (IoFailed, _) \<Rightarrow> (IoFailed, [])
      | (Waits, _) \<Rightarrow> (Waits, []))"

text \<open>The world a probe sees: what answers at port 25 of an address, if anything connects.\<close>

type_synonym internet = "ip_addr \<Rightarrow> ((bytes \<Rightarrow> bool) \<times> stream) option"

definition check_port25_ehlo :: "internet \<Rightarrow> ip_addr \<Rightarrow> bool" where
  "check_port25_ehlo net ip =
     (case net ip of
        None \<Rightarrow> False
      | Some (accepts, s) \<Rightarrow> fst (smtp_ehlo_handshake accepts s) = Finished True)"

datatype probe_answer = BadRequest | ProbeResponse bool string

text \<open>The answer, and the addresses that were connected to.\<close>

definition probe :: "internet \<Rightarrow> ip_addr \<Rightarrow> string option \<Rightarrow> probe_answer \<times> ip_addr list" where
  "probe net addr client_ip_header =
     (case resolve_client_ip addr client_ip_header of
        None \<Rightarrow> (BadRequest, [])
      | Some caller_ip \<Rightarrow>
          if is_blocked_target caller_ip then (ProbeResponse False (show_ip caller_ip), [])
          else (ProbeResponse (check_port25_ehlo net caller_ip) (show_ip caller_ip), [caller_ip]))"

text \<open>The body of the answer: JSON of the two fields, in their order; an address has nothing to escape.\<close>

definition probe_body :: "probe_answer \<Rightarrow> bytes" where
  "probe_body ans =
     (case ans of
        BadRequest \<Rightarrow> []
      | ProbeResponse reachable ip \<Rightarrow>
          ''{'' @ [CHR 0x22] @ ''reachable'' @ [CHR 0x22] @ '':'' @ (if reachable then ''true'' else ''false'') @
          '','' @ [CHR 0x22] @ ''ip'' @ [CHR 0x22] @ '':'' @ [CHR 0x22] @ ip @ [CHR 0x22] @ ''}'')"

section \<open>The responder\<close>

definition SMTP_HOSTNAME :: string where "SMTP_HOSTNAME = ''check.aimx.email''"
definition SMTP_MAX_LINE_BYTES :: nat where "SMTP_MAX_LINE_BYTES = 1024"
definition SMTP_DEFAULT_MAX_CONCURRENT :: nat where "SMTP_DEFAULT_MAX_CONCURRENT = 128"

text \<open>
  One line of at most the cap, with its line feed; \<open>None\<close> where the peer fails or falls silent
  first. A longer line is cut there and read on as the next one.
\<close>

definition read_capped_line :: "stream \<Rightarrow> (bytes \<times> stream) option" where
  "read_capped_line s =
     (let w = take SMTP_MAX_LINE_BYTES (fst s) in
      case split_once LF w of
        Some (l, _) \<Rightarrow> Some (l @ [LF], (drop (length l + 1) (fst s), snd s))
      | None \<Rightarrow>
          if length w = SMTP_MAX_LINE_BYTES \<or> snd s = Closed
          then Some (w, (drop (length w) (fst s), snd s)) else None)"

lemma read_capped_line_shrinks:
  assumes "read_capped_line s = Some (l, s')" "l \<noteq> []"
  shows "length (fst s') < length (fst s)"
proof -
  have "a @ LF # b = take n x \<Longrightarrow> length a < length x" for a b n and x :: bytes
    by (metis length_append length_Cons length_take add_Suc_right less_add_Suc1 min.absorb3 min.cobounded1 order_less_le_trans)
  then show ?thesis using assms
    by (auto simp: read_capped_line_def Let_def split: option.splits if_splits dest!: split_once_Some)
qed

text \<open>The reply to a line, and whether it ends the session.\<close>

definition line_reply :: "bytes \<Rightarrow> bytes \<times> bool" where
  "line_reply line =
     (let text = (if valid_utf8 line then line else []);
          trimmed = rev (dropWhile (\<lambda>c. c \<in> {CR, LF}) (rev text));
          upper = map to_ascii_upper trimmed in
      if starts_with upper ''EHLO'' \<or> starts_with upper ''HELO'' then (''250 '' @ SMTP_HOSTNAME @ [CR, LF], False)
      else if starts_with upper ''QUIT'' then (''221 Bye'' @ [CR, LF], True)
      else (''500 Command not recognized'' @ [CR, LF], False))"

function answer_lines :: "(bytes \<Rightarrow> bool) \<Rightarrow> stream \<Rightarrow> bytes" where
  "answer_lines accepts s =
     (case read_capped_line s of
        None \<Rightarrow> []
      | Some (line, s') \<Rightarrow>
          if line = [] \<or> \<not> accepts (fst (line_reply line)) then []
          else fst (line_reply line) @ (if snd (line_reply line) then [] else answer_lines accepts s'))"
  by pat_completeness auto
termination
  by (relation "measure (length \<circ> fst \<circ> snd)") (auto dest: read_capped_line_shrinks)

declare answer_lines.simps [simp del]

definition smtp_banner :: bytes where "smtp_banner = ''220 '' @ SMTP_HOSTNAME @ '' SMTP aimx-verifier'' @ [CR, LF]"

definition smtp_session :: "(bytes \<Rightarrow> bool) \<Rightarrow> stream \<Rightarrow> bytes" where
  "smtp_session accepts s = (if accepts smtp_banner then smtp_banner @ answer_lines accepts s else [])"

section \<open>The connection gate\<close>

text \<open>\<open>SMTP_MAX_CONCURRENT\<close> where it is a positive number.\<close>

definition max_concurrent :: "string option \<Rightarrow> nat" where
  "max_concurrent env =
     (case env of
        Some v \<Rightarrow> (case parse_usize v of Some n \<Rightarrow> if 0 < n then n else SMTP_DEFAULT_MAX_CONCURRENT
                   | None \<Rightarrow> SMTP_DEFAULT_MAX_CONCURRENT)
      | None \<Rightarrow> SMTP_DEFAULT_MAX_CONCURRENT)"

datatype gate_event = Arrives | Leaves

text \<open>The sessions that hold a permit, and whether an arriving one was taken.\<close>

definition dispatch_smtp_connection :: "nat \<Rightarrow> nat \<Rightarrow> bool \<times> nat" where
  "dispatch_smtp_connection limit held = (if held < limit then (True, held + 1) else (False, held))"

fun gate_step :: "nat \<Rightarrow> nat \<Rightarrow> gate_event \<Rightarrow> nat" where
  "gate_step limit held Arrives = snd (dispatch_smtp_connection limit held)"
| "gate_step limit held Leaves = held - 1"

end
