(* ===== verification/IpFacts.thy ===== *)
theory IpFacts
  imports IpAddr
begin

text \<open>
  An address is its octets, a printed IPv4 address is read back as itself, and networks in the
  form of a prefix and its length.
\<close>

section \<open>Octets\<close>

lemma unat_drop: "unat (drop_bit k w) = unat w div 2 ^ k"
  by (simp only: unat_drop_bit_eq) (simp only: drop_bit_eq_div)

lemma unat_octet: "unat (octet w i) = unat w div 2 ^ (24 - 8 * i) mod 256"
  by (simp only: octet_def unsigned_ucast_eq take_bit_eq_mod unat_drop) simp

lemma octets_div:
  "octets w = [unat w div 16777216, unat w div 65536 mod 256, unat w div 256 mod 256, unat w mod 256]"
proof -
  have "unat w < 2 ^ 32" using unsigned_less [where ?'a = nat and ?'b = 32, of w] by simp
  then have "unat w div 16777216 mod 256 = unat w div 16777216" by simp
  then show ?thesis by (simp add: octets_def unat_octet)
qed

lemma bytes_of_nat:
  "256 * (256 * (256 * (n div 16777216) + n div 65536 mod 256) + n div 256 mod 256) + n mod 256 = (n::nat)"
proof -
  have eqs: "n div 65536 = n div 256 div 256" "n div 16777216 = n div 256 div 256 div 256"
    by (simp_all flip: div_mult2_eq)
  show ?thesis by (simp only: eqs mult_div_mod_eq)
qed

lemma of_octets_octets: "of_octets (octets w) = w"
proof -
  have "of_octets (octets w) = word_of_nat (256 * (256 * (256 * (unat w div 16777216) + unat w div 65536 mod 256) +
      unat w div 256 mod 256) + unat w mod 256)"
    by (simp add: of_octets_def octets_div algebra_simps)
  then show ?thesis by (simp only: bytes_of_nat) simp
qed

lemma octets_less: "list_all (\<lambda>b. b < 256) (octets w)"
  using unsigned_less [where ?'a = nat and ?'b = 8] by (simp add: octets_def)

section \<open>Reading what was printed\<close>

lemma to_digit_10: "is_ascii_digit c \<Longrightarrow> to_digit 10 c = Some (code c - 48)"
  by (auto simp: to_digit_def is_ascii_digit_def Let_def)

lemma to_digit_end: "\<not> is_ascii_digit c \<Longrightarrow> to_digit 10 c = None"
  by (auto simp: to_digit_def is_ascii_digit_def Let_def)

lemma show_nat_length: "n < 10 ^ Suc k \<Longrightarrow> length (show_nat n) \<le> Suc k"
proof (induction k arbitrary: n)
  case 0
  then show ?case by (simp add: show_nat.simps [of n])
next
  case (Suc k)
  then show ?case using Suc.IH [of "n div 10"] by (subst show_nat.simps) (simp add: less_mult_imp_div_less)
qed

lemma show_nat_no_zero: "hd (show_nat n) = CHR ''0'' \<Longrightarrow> length (show_nat n) \<le> 1"
proof (induction n rule: show_nat.induct)
  case (1 n)
  show ?case
  proof (cases "n < 10")
    case True
    then show ?thesis by (simp add: show_nat.simps [of n])
  next
    case False
    with 1 have "length (show_nat (n div 10)) \<le> 1" "hd (show_nat (n div 10)) = CHR ''0''"
      using show_nat.simps [of n] by auto
    then have "show_nat (n div 10) = ''0''" by (cases "show_nat (n div 10)") auto
    then have "digits_value (show_nat (n div 10)) = 0" by (simp add: digits_value_def code_def)
    with False show ?thesis by simp
  qed
qed

lemma read_number_show:
  assumes "n < 256" "s = [] \<or> \<not> is_ascii_digit (hd s)"
  shows "read_number 10 3 256 False (show_nat n @ s) = Some (n, s)"
proof -
  have digits: "\<forall>c\<in>set (show_nat n). is_ascii_digit c" using show_nat_digits [of n] by (simp add: list_all_iff)
  have "takeWhile (\<lambda>c. to_digit 10 c \<noteq> None) s = []" using assms(2) by (cases s) (auto simp: to_digit_end)
  then have ds: "takeWhile (\<lambda>c. to_digit 10 c \<noteq> None) (show_nat n @ s) = show_nat n"
    using digits by (subst takeWhile_append2) (auto simp: to_digit_10)
  have "foldl (\<lambda>a c. 10 * a + the (to_digit 10 c)) 0 (show_nat n) = digits_value (show_nat n)"
    unfolding digits_value_def by (rule foldl_cong) (use digits in \<open>auto simp: to_digit_10\<close>)
  moreover have "length (show_nat n) \<le> 3" using show_nat_length [of n 2] assms(1) by simp
  ultimately show ?thesis
    using assms(1) show_nat_no_zero [of n] by (simp only: read_number_def Let_def ds digits_value_show_nat) auto
qed

lemma read_ipv4_show:
  assumes "s = [] \<or> \<not> is_ascii_digit (hd s)"
  shows "read_ipv4_addr (show_ipv4 w @ s) = Some (octets w, s)"
proof -
  have dot: "\<not> is_ascii_digit CHR ''.''" by (simp add: is_ascii_digit_def code_def)
  have four: "(4::nat) = Suc (Suc (Suc (Suc 0)))" by simp
  show ?thesis
    using octets_less [of w] assms dot
    by (simp add: read_ipv4_addr_def show_ipv4_def octets_def four read_separator_def read_number_show)
qed

lemma printed_ipv4_parses: "parse_ip (show_ipv4 w) = Some (V4 w)"
  using read_ipv4_show [of "[]" w] by (simp add: parse_ip_def of_octets_octets)

section \<open>Networks\<close>

text \<open>The addresses that share their first \<open>n\<close> bits with \<open>p\<close>.\<close>

definition in_net :: "'a::len word \<Rightarrow> 'a word \<Rightarrow> nat \<Rightarrow> bool" where
  "in_net w p n \<longleftrightarrow> drop_bit (LENGTH('a) - n) w = drop_bit (LENGTH('a) - n) p"

lemma in_net_div: "in_net w p n \<longleftrightarrow> unat w div 2 ^ (LENGTH('a) - n) = unat p div 2 ^ (LENGTH('a) - n)"
  for w p :: "'a::len word"
  by (simp only: in_net_def word_unat_eq_iff unat_drop)

end
