(* ===== verification/VerifierFacts.thy ===== *)
theory VerifierFacts
  imports Verifier IpFacts
begin

text \<open>
  The blocked addresses as networks, what a probe may contact, and how its dialogue meets the
  responder.
\<close>

section \<open>The guard as networks\<close>

definition v4_networks :: "(ipv4 \<times> nat) list" where
  "v4_networks =
     [(0x7F000000, 8), (0, 32), (0xA9FE0000, 16), (0xFFFFFFFF, 32), (0xE0000000, 4), (0x0A000000, 8),
      (0xAC100000, 12), (0xC0A80000, 16), (0x64400000, 10)]"

definition v6_networks :: "(ipv6 \<times> nat) list" where
  "v6_networks =
     [(1, 128), (0, 128), (0xFF000000000000000000000000000000, 8), (0xFE800000000000000000000000000000, 10),
      (0xFC000000000000000000000000000000, 7)]"

definition in_some_net :: "('a::len word \<times> nat) list \<Rightarrow> 'a word \<Rightarrow> bool" where
  "in_some_net nets w \<longleftrightarrow> list_ex (\<lambda>(p, n). in_net w p n) nets"

lemma octet_eq: "octet w i = v \<longleftrightarrow> unat w div 2 ^ (24 - 8 * i) mod 256 = unat v"
  by (simp only: word_unat_eq_iff unat_octet)

lemma octet_le: "v \<le> octet w i \<longleftrightarrow> unat v \<le> unat w div 2 ^ (24 - 8 * i) mod 256"
  "octet w i \<le> v \<longleftrightarrow> unat w div 2 ^ (24 - 8 * i) mod 256 \<le> unat v"
  by (simp_all only: word_le_nat_alt unat_octet)

lemma unat_32: "unat (w :: ipv4) < 4294967296"
  using unsigned_less [where ?'a = nat and ?'b = 32, of w] by simp

lemma high_octet: "unat (w :: ipv4) div 16777216 mod 256 = unat w div 16777216"
  using unat_32 [of w] by simp

text \<open>Two octets as one number.\<close>

lemma two_octets: "unat (w :: ipv4) div 16777216 = unat w div 65536 div 256"
  by (simp flip: div_mult2_eq)

lemma div_eq_range: "0 < k \<Longrightarrow> m div k = c \<longleftrightarrow> k * c \<le> m \<and> m < k * c + k" for m k c :: nat
  using div_nat_eqI [of k c m] times_div_less_eq_dividend [of k m] dividend_less_times_div [of k m] by (auto simp: algebra_simps)

text \<open>A range of second octets whose length is a power of two is one prefix.\<close>

lemma octet_range:
  fixes m a b c k :: nat
  assumes "b + k \<le> 256" "0 < k" "256 * a + b = k * c" "h + 1 = b + k"
  shows "(m div 256 = a \<and> b \<le> m mod 256 \<and> m mod 256 \<le> h) \<longleftrightarrow> m div k = c"
proof -
  define q r where "q = m div 256" and "r = m mod 256"
  have "m = 256 * q + r" "r < 256" by (simp_all add: q_def r_def)
  have "m div k = c \<longleftrightarrow> 256 * a + b \<le> m \<and> m < 256 * a + b + k" using assms(2,3) by (simp add: div_eq_range)
  also have "\<dots> \<longleftrightarrow> q = a \<and> b \<le> r \<and> r \<le> h"
  proof
    assume "256 * a + b \<le> m \<and> m < 256 * a + b + k"
    moreover from this have "q = a" using \<open>m = 256 * q + r\<close> \<open>r < 256\<close> assms(1) by linarith
    ultimately show "q = a \<and> b \<le> r \<and> r \<le> h" using \<open>m = 256 * q + r\<close> assms(4) by simp
  qed (use \<open>m = 256 * q + r\<close> assms(4) in auto)
  finally show ?thesis by (simp add: q_def r_def)
qed

lemma octet_pair: "b < 256 \<Longrightarrow> (m div 256 = a \<and> m mod 256 = b) \<longleftrightarrow> m = 256 * a + b" for m a b :: nat
  using mult_div_mod_eq [of 256 m] by auto

lemma net_ranges:
  fixes n :: nat
  shows "(n div 65536 div 256 = 172 \<and> 16 \<le> n div 65536 mod 256 \<and> n div 65536 mod 256 \<le> 31) \<longleftrightarrow> n div 1048576 = 2753"
    "(n div 65536 div 256 = 100 \<and> 64 \<le> n div 65536 mod 256 \<and> n div 65536 mod 256 \<le> 127) \<longleftrightarrow> n div 4194304 = 401"
    "(n div 65536 div 256 = 192 \<and> n div 65536 mod 256 = 168) \<longleftrightarrow> n div 65536 = 49320"
    "(n div 65536 div 256 = 169 \<and> n div 65536 mod 256 = 254) \<longleftrightarrow> n div 65536 = 43518"
    "(224 \<le> n div 65536 div 256 \<and> n div 65536 div 256 \<le> 239) \<longleftrightarrow> n div 268435456 = 14"
proof -
  have dd: "n div 1048576 = n div 65536 div 16" "n div 4194304 = n div 65536 div 64" "n div 268435456 = n div 65536 div 256 div 16"
    by (simp_all flip: div_mult2_eq)
  show "(n div 65536 div 256 = 172 \<and> 16 \<le> n div 65536 mod 256 \<and> n div 65536 mod 256 \<le> 31) \<longleftrightarrow> n div 1048576 = 2753"
    unfolding dd by (rule octet_range) simp_all
  show "(n div 65536 div 256 = 100 \<and> 64 \<le> n div 65536 mod 256 \<and> n div 65536 mod 256 \<le> 127) \<longleftrightarrow> n div 4194304 = 401"
    unfolding dd by (rule octet_range) simp_all
  show "(n div 65536 div 256 = 192 \<and> n div 65536 mod 256 = 168) \<longleftrightarrow> n div 65536 = 49320"
    using octet_pair [of 168 "n div 65536" 192] by simp
  show "(n div 65536 div 256 = 169 \<and> n div 65536 mod 256 = 254) \<longleftrightarrow> n div 65536 = 43518"
    using octet_pair [of 254 "n div 65536" 169] by simp
  show "(224 \<le> n div 65536 div 256 \<and> n div 65536 div 256 \<le> 239) \<longleftrightarrow> n div 268435456 = 14"
    unfolding dd by (subst div_eq_range) auto
qed

lemma unat_octets: "unat (octet w 0) = unat w div 65536 div 256" "unat (octet w 1) = unat w div 65536 mod 256"
  using high_octet [of w] two_octets [of w] by (simp_all add: unat_octet)

lemma blocked_v4_octets: "is_blocked_target (V4 w) \<longleftrightarrow> octet w 0 = 127 \<or> w = 0 \<or> (octet w 0 = 169 \<and> octet w 1 = 254) \<or>
    w = 0xFFFFFFFF \<or> (224 \<le> octet w 0 \<and> octet w 0 \<le> 239) \<or> octet w 0 = 10 \<or>
    (octet w 0 = 172 \<and> 16 \<le> octet w 1 \<and> octet w 1 \<le> 31) \<or> (octet w 0 = 192 \<and> octet w 1 = 168) \<or>
    (octet w 0 = 100 \<and> 64 \<le> octet w 1 \<and> octet w 1 \<le> 127)"
  by (auto simp: is_blocked_target_def is_blocked_ipv4_def v4_link_local_def v4_multicast_def
      v4_broadcast_def v4_loopback_def v4_unspecified_def Let_def)

lemma blocked_v4: "is_blocked_target (V4 w) \<longleftrightarrow> in_some_net v4_networks w"
proof -
  let ?n = "unat w"
  have "is_blocked_target (V4 w) \<longleftrightarrow> ?n div 65536 div 256 = 127 \<or> ?n = 0 \<or>
      (?n div 65536 div 256 = 169 \<and> ?n div 65536 mod 256 = 254) \<or> ?n = 4294967295 \<or>
      (224 \<le> ?n div 65536 div 256 \<and> ?n div 65536 div 256 \<le> 239) \<or> ?n div 65536 div 256 = 10 \<or>
      (?n div 65536 div 256 = 172 \<and> 16 \<le> ?n div 65536 mod 256 \<and> ?n div 65536 mod 256 \<le> 31) \<or>
      (?n div 65536 div 256 = 192 \<and> ?n div 65536 mod 256 = 168) \<or>
      (?n div 65536 div 256 = 100 \<and> 64 \<le> ?n div 65536 mod 256 \<and> ?n div 65536 mod 256 \<le> 127)"
    unfolding blocked_v4_octets word_unat_eq_iff word_le_nat_alt unat_octets by simp
  moreover have "in_some_net v4_networks w \<longleftrightarrow> ?n div 16777216 = 127 \<or> ?n = 0 \<or> ?n div 65536 = 43518 \<or> ?n = 4294967295 \<or>
      ?n div 268435456 = 14 \<or> ?n div 16777216 = 10 \<or> ?n div 1048576 = 2753 \<or> ?n div 65536 = 49320 \<or> ?n div 4194304 = 401"
    by (simp add: in_some_net_def v4_networks_def in_net_div)
  ultimately show ?thesis by (simp only: net_ranges two_octets)
qed

text \<open>A mask of the high bits compares a prefix.\<close>

lemma high_bits: "x AND NOT (mask k) = push_bit k y \<longleftrightarrow> drop_bit k x = y"
  if "drop_bit k (push_bit k y) = y" for x y :: "'a::len word"
proof
  assume "x AND NOT (mask k) = push_bit k y"
  then have "drop_bit k (x AND NOT (mask k)) = y" using that by simp
  then show "drop_bit k x = y" by (auto simp: bit_eq_iff bit_simps dest: bit_imp_le_length)
next
  assume "drop_bit k x = y"
  then have y: "y = drop_bit k x" by simp
  show "x AND NOT (mask k) = push_bit k y" unfolding y by (rule bit_word_eqI) (auto simp: bit_simps)
qed

lemma segment_prefix: "drop_bit k (segment w 0) = y \<longleftrightarrow> unat w div 2 ^ (112 + k) = unat y"
proof -
  have "unat w < 2 ^ 128" using unsigned_less [where ?'a = nat and ?'b = 128, of w] by simp
  then have "unat w div 2 ^ 112 < 65536" by (simp add: less_mult_imp_div_less)
  then have "unat (segment w 0) = unat w div 2 ^ 112"
    by (simp only: segment_def unsigned_ucast_eq take_bit_eq_mod unat_drop) simp
  then show ?thesis by (simp only: word_unat_eq_iff unat_drop power_add div_mult2_eq)
qed

lemma v6_masks:
  "segment w 0 AND 0xFF00 = 0xFF00 \<longleftrightarrow> drop_bit 8 (segment w 0) = 0xFF"
  "segment w 0 AND 0xFFC0 = 0xFE80 \<longleftrightarrow> drop_bit 6 (segment w 0) = 0x3FA"
  "segment w 0 AND 0xFE00 = 0xFC00 \<longleftrightarrow> drop_bit 9 (segment w 0) = 0x7E"
proof -
  have neg: "(- 256 :: 16 word) = 65280" "(- 64 :: 16 word) = 65472" "(- 512 :: 16 word) = 65024" by simp_all
  show "segment w 0 AND 0xFF00 = 0xFF00 \<longleftrightarrow> drop_bit 8 (segment w 0) = 0xFF"
    "segment w 0 AND 0xFFC0 = 0xFE80 \<longleftrightarrow> drop_bit 6 (segment w 0) = 0x3FA"
    "segment w 0 AND 0xFE00 = 0xFC00 \<longleftrightarrow> drop_bit 9 (segment w 0) = 0x7E"
  using high_bits [of 8 "0xFF" "segment w 0"] high_bits [of 6 "0x3FA" "segment w 0"] high_bits [of 9 "0x7E" "segment w 0"]
    by (simp_all add: mask_eq_exp_minus_1 neg)
qed

lemma blocked_v6: "is_blocked_target (V6 w) \<longleftrightarrow> in_some_net v6_networks w" if "to_ipv4_mapped w = None"
proof -
  have "is_blocked_target (V6 w) \<longleftrightarrow> w = 1 \<or> w = 0 \<or> drop_bit 8 (segment w 0) = 0xFF \<or> drop_bit 6 (segment w 0) = 0x3FA \<or>
      drop_bit 9 (segment w 0) = 0x7E"
    using that by (auto simp: is_blocked_target_def is_blocked_ipv6_def v6_multicast_def v6_loopback_def
      v6_unspecified_def v6_masks Let_def)
  then show ?thesis
    unfolding segment_prefix by (simp add: in_some_net_def v6_networks_def in_net_div word_unat_eq_iff)
qed

text \<open>C25: The guard blocks exactly the addresses of fourteen networks: loopback, unspecified, link-local,
  broadcast, multicast, the private ranges and the shared address space of IPv4; loopback, unspecified,
  multicast, link-local and unique-local of IPv6; an address mapped into IPv6 as the one it maps.\<close>

theorem blocked_is_the_networks:
  "is_blocked_target ip \<longleftrightarrow>
     (case canonicalize_ip ip of V4 w \<Rightarrow> in_some_net v4_networks w | V6 w \<Rightarrow> in_some_net v6_networks w)"
proof -
  have again: "canonicalize_ip (canonicalize_ip ip) = canonicalize_ip ip"
    by (cases ip) (auto split: option.splits)
  then have "is_blocked_target ip \<longleftrightarrow> is_blocked_target (canonicalize_ip ip)"
    by (simp add: is_blocked_target_def)
  also have "\<dots> \<longleftrightarrow> (case canonicalize_ip ip of V4 w \<Rightarrow> in_some_net v4_networks w | V6 w \<Rightarrow> in_some_net v6_networks w)"
    using again by (cases "canonicalize_ip ip") (auto simp: blocked_v4 blocked_v6 split: option.splits)
  finally show ?thesis .
qed

section \<open>What a probe contacts\<close>

text \<open>C26: A probe connects to one address at most, and it is one the guard lets through: the caller's own, in
  the form that the guard looked at, or, where the caller is the proxy on this host, the one its header names.
  Otherwise nothing is contacted.\<close>

theorem probe_contacts_no_blocked_address:
  assumes "probe net peer header = (answer, contacted)" "ip \<in> set contacted"
  shows "contacted = [ip] \<and> \<not> is_blocked_target ip \<and> canonicalize_ip ip = ip \<and>
    (if is_loopback (canonicalize_ip peer)
     then \<exists>h. header = Some h \<and> map_option canonicalize_ip (parse_ip (trim h)) = Some ip
     else ip = canonicalize_ip peer)"
proof -
  have again: "canonicalize_ip (canonicalize_ip a) = canonicalize_ip a" for a
    by (cases a) (auto split: option.splits)
  from assms show ?thesis
    by (auto simp: probe_def resolve_client_ip_def Let_def again split: option.splits if_splits)
qed

theorem probe_contacts_no_blocked_address_witness:
  "probe (\<lambda>_. None) (V4 0x7F000001) (Some '' 8.8.8.8'') = (ProbeResponse False ''8.8.8.8'', [V4 0x08080808]) \<and>
   \<not> is_blocked_target (V4 0x08080808)"
proof -
  have run: "probe (\<lambda>_. None) (V4 0x7F000001) (Some '' 8.8.8.8'') = (ProbeResponse False ''8.8.8.8'', [V4 0x08080808])"
    by code_simp
  from probe_contacts_no_blocked_address [OF this, of "V4 0x08080808"] run show ?thesis by simp
qed

section \<open>The gate\<close>

text \<open>However connections come and go, no more sessions run at once than the gate's limit.\<close>

lemma gate_holds: "held \<le> limit \<Longrightarrow> foldl (gate_step limit) held evs \<le> limit"
proof (induction evs arbitrary: held)
  case (Cons ev evs)
  have "gate_step limit held ev \<le> limit" using Cons.prems by (cases ev) (simp_all add: dispatch_smtp_connection_def)
  from Cons.IH [OF this] show ?case by simp
qed simp

lemma gate_limit_positive: "0 < max_concurrent env"
  by (simp add: max_concurrent_def SMTP_DEFAULT_MAX_CONCURRENT_def split: option.splits)

end
