(* ===== verification/Preflight.thy ===== *)
theory Preflight
  imports Verifier Release MimeText
begin

text \<open>
  The port checks of \<open>src/setup.rs\<close> and \<open>src/portcheck.rs\<close>: who holds port 25, which service is
  asked, the outbound dialogue with it, the temporary responder that answers its probe, and the
  verdict. What \<open>ss\<close>, \<open>curl\<close> and \<open>hostname\<close> print, sockets and colors are parameters.
\<close>

section \<open>Who holds the port\<close>

datatype port25_status = Free | Aimx | OtherProcess string

definition users_mark :: string where "users_mark = ''users:(('' @ [CHR 0x22]"

text \<open>The first line that names a process decides.\<close>

fun named_process :: "string list \<Rightarrow> port25_status" where
  "named_process [] = OtherProcess ''unknown''"
| "named_process (line # ls) =
     (case find_subslice line users_mark of
        None \<Rightarrow> named_process ls
      | Some start \<Rightarrow>
          (case split_once CHR 0x22 (drop (start + 9) line) of
             None \<Rightarrow> named_process ls
           | Some (process_name, _) \<Rightarrow> if process_name = ''aimx'' then Aimx else OtherProcess process_name))"

definition parse_port25_status :: "string \<Rightarrow> port25_status" where
  "parse_port25_status ss_output =
     (let data_lines = filter (\<lambda>l. trim l \<noteq> []) (drop 1 (lines ss_output)) in
      if data_lines = [] then Free else named_process data_lines)"

section \<open>Which service is asked\<close>

definition DEFAULT_VERIFY_HOST :: string where "DEFAULT_VERIFY_HOST = ''https://check.aimx.email''"

definition resolve_verify_host :: "string option \<Rightarrow> string option \<Rightarrow> string \<Rightarrow> string" where
  "resolve_verify_host cli_override config_host dflt =
     (case cli_override of Some h \<Rightarrow> h | None \<Rightarrow> (case config_host of Some h \<Rightarrow> h | None \<Rightarrow> dflt))"

definition validate_verify_host :: "string \<Rightarrow> string + unit" where
  "validate_verify_host verify_host =
     (if verify_host = [] then Inl ''verify-host cannot be empty''
      else if \<not> starts_with verify_host ''http://'' \<and> \<not> starts_with verify_host ''https://''
      then Inl (''verify-host must start with http:// or https:// (got: '' @ verify_host @ '')'')
      else Inr ())"

definition derive_smtp_addr_from_verify_host :: "string \<Rightarrow> string" where
  "derive_smtp_addr_from_verify_host verify_host =
     (let without_scheme =
            (case strip_prefix verify_host ''https://'' of Some r \<Rightarrow> r
             | None \<Rightarrow> (case strip_prefix verify_host ''http://'' of Some r \<Rightarrow> r | None \<Rightarrow> verify_host));
          authority = takeWhile (\<lambda>c. c \<noteq> CHR ''/'') without_scheme;
          plain = (case rsplit_once CHR '':'' authority of Some (h, _) \<Rightarrow> h | None \<Rightarrow> authority) @ '':25'' in
      case strip_prefix authority ''['' of
        Some rest \<Rightarrow>
          (case split_once CHR '']'' rest of
             Some (ipv6, _) \<Rightarrow> ''['' @ ipv6 @ '']:25''
           | None \<Rightarrow> plain)
      | None \<Rightarrow> plain)"

record network_target =
  nt_verify_host :: string
  nt_check_service_smtp_addr :: string

definition from_verify_host :: "string \<Rightarrow> string + network_target" where
  "from_verify_host verify_host =
     (let trimmed = trim_end_matches CHR ''/'' verify_host in
      case validate_verify_host trimmed of
        Inl e \<Rightarrow> Inl e
      | Inr _ \<Rightarrow>
          Inr \<lparr>nt_verify_host = trimmed, nt_check_service_smtp_addr = derive_smtp_addr_from_verify_host trimmed\<rparr>)"

section \<open>Addresses of this host\<close>

definition is_global_ipv6 :: "ipv6 \<Rightarrow> bool" where
  "is_global_ipv6 ip \<longleftrightarrow>
     segment ip 0 AND 0xFFC0 \<noteq> 0xFE80 \<and> segment ip 0 AND 0xFE00 \<noteq> 0xFC00 \<and>
     \<not> v6_loopback ip \<and> \<not> v6_unspecified ip"

text \<open>\<open>split_whitespace\<close>: the words of a text, \<open>w\<close> being what was read of the current one.\<close>

fun words_loop :: "string \<Rightarrow> string list \<Rightarrow> string list" where
  "words_loop w [] = (if w = [] then [] else [w])"
| "words_loop w (ch # cs) =
     (if ch \<in> set white_space then (if w = [] then [] else [w]) @ words_loop [] cs
      else words_loop (w @ ch) cs)"

definition split_whitespace :: "string \<Rightarrow> string list" where
  "split_whitespace s = words_loop [] (utf8_chars s)"

fun hostname_loop :: "ipv4 option \<Rightarrow> ipv6 option \<Rightarrow> string list \<Rightarrow> ipv4 option \<times> ipv6 option" where
  "hostname_loop v4 v6 [] = (v4, v6)"
| "hostname_loop v4 v6 (token # tokens) =
     (let (v4', v6') =
        (case parse_ip token of
           Some (V4 w) \<Rightarrow> (if v4 = None then (Some w, v6) else (v4, v6))
         | Some (V6 w) \<Rightarrow> (if v6 = None \<and> is_global_ipv6 w then (v4, Some w) else (v4, v6))
         | None \<Rightarrow> (v4, v6)) in
      if v4' \<noteq> None \<and> v6' \<noteq> None then (v4', v6') else hostname_loop v4' v6' tokens)"

definition parse_hostname_i_output :: "string \<Rightarrow> ipv4 option \<times> ipv6 option" where
  "parse_hostname_i_output stdout = hostname_loop None None (split_whitespace stdout)"

definition detect_server_ipv6 :: "bool \<Rightarrow> ipv6 option \<Rightarrow> ipv6 option" where
  "detect_server_ipv6 enable_ipv6 ipv6 = (if enable_ipv6 then ipv6 else None)"

section \<open>The outbound check\<close>

text \<open>
  A read that fails or takes too long is a port that does not answer; \<open>Inl\<close> is the error of a
  write. The texts written are those of the dialogue.
\<close>

function outbound_reply :: "stream \<Rightarrow> bool" where
  "outbound_reply s =
     (case read_text_line s of
        (Finished line, s') \<Rightarrow>
          if starts_with line ''250 '' then True
          else if \<not> starts_with line ''250-'' then False
          else outbound_reply s'
      | _ \<Rightarrow> False)"
  by pat_completeness auto
termination
  by (relation "measure (length \<circ> fst)")
    (auto simp: starts_with_def dest!: sym [of "(_, _)" "read_text_line _"] read_text_line_shrinks)

declare outbound_reply.simps [simp del]

definition check_hello :: bytes where "check_hello = ''EHLO aimx'' @ [CR, LF]"

definition outbound_dialogue :: "(bytes \<Rightarrow> bool) \<Rightarrow> stream \<Rightarrow> (string + bool) \<times> bytes" where
  "outbound_dialogue accepts s =
     (case read_text_line s of
        (Finished greeting, s1) \<Rightarrow>
          if \<not> starts_with greeting ''220'' then (Inr False, [])
          else if \<not> accepts check_hello then (Inl ''write'', [])
          else if outbound_reply s1 then (Inr True, check_hello @ (if accepts probe_quit then probe_quit else []))
          else (Inr False, check_hello)
      | _ \<Rightarrow> (Inr False, []))"

text \<open>The addresses of the service: the error of their lookup, or the first one is connected to.\<close>

definition check_outbound_port25 :: "(string + ip_addr list) \<Rightarrow> internet \<Rightarrow> string + bool" where
  "check_outbound_port25 addrs net =
     (case addrs of
        Inl e \<Rightarrow> Inl e
      | Inr [] \<Rightarrow> Inr False
      | Inr (a # _) \<Rightarrow> (case net a of None \<Rightarrow> Inr False | Some (accepts, s) \<Rightarrow> fst (outbound_dialogue accepts s)))"

section \<open>The inbound check\<close>

text \<open>What \<open>curl\<close> prints of the service's answer; \<open>None\<close> where it fails.\<close>

definition curl_probe :: "bytes option \<Rightarrow> bool" where
  "curl_probe output =
     (case output of
        Some stdout \<Rightarrow>
          (let body = utf8_lossy stdout in
           contains body ([CHR 0x22] @ ''reachable'' @ [CHR 0x22] @ '':true'') \<or> contains body ([CHR 0x22] @ ''reachable'' @ [CHR 0x22] @ '': true''))
      | None \<Rightarrow> False)"

text \<open>The responder bound to port 25 while it is asked for.\<close>

definition temp_reply :: "string \<Rightarrow> bytes \<times> bool" where
  "temp_reply line =
     (let upper = map to_ascii_upper (trim line) in
      if starts_with upper ''EHLO'' \<or> starts_with upper ''HELO'' then (''250 localhost'' @ [CR, LF], False)
      else if starts_with upper ''QUIT'' then (''221 Bye'' @ [CR, LF], True)
      else (''502 Not implemented'' @ [CR, LF], False))"

function temp_lines :: "(bytes \<Rightarrow> bool) \<Rightarrow> stream \<Rightarrow> bytes" where
  "temp_lines accepts s =
     (case read_text_line s of
        (Finished line, s') \<Rightarrow>
          if line = [] \<or> \<not> accepts (fst (temp_reply line)) then []
          else fst (temp_reply line) @ (if snd (temp_reply line) then [] else temp_lines accepts s')
      | _ \<Rightarrow> [])"
  by pat_completeness auto
termination
  by (relation "measure (length \<circ> fst \<circ> snd)") (auto dest!: sym [of "(_, _)" "read_text_line _"] read_text_line_shrinks)

declare temp_lines.simps [simp del]

definition temp_banner :: bytes where "temp_banner = ''220 localhost ESMTP aimx'' @ [CR, LF]"

definition handle_temp_smtp_connection :: "(bytes \<Rightarrow> bool) \<Rightarrow> stream \<Rightarrow> bytes" where
  "handle_temp_smtp_connection accepts s = (if accepts temp_banner then temp_banner @ temp_lines accepts s else [])"

section \<open>The verdict\<close>

datatype preflight_result = PreflightPass "string option" | PreflightFail string

definition check_outbound :: "string + bool \<Rightarrow> preflight_result" where
  "check_outbound res =
     (case res of
        Inr True \<Rightarrow> PreflightPass None
      | Inr False \<Rightarrow> PreflightFail ''Outbound port 25 is blocked. Your VPS provider may restrict SMTP traffic.''
      | Inl e \<Rightarrow> PreflightFail (''Outbound port 25 check failed: '' @ e))"

definition inbound_result :: "string + bool \<Rightarrow> preflight_result" where
  "inbound_result res =
     (case res of
        Inr True \<Rightarrow> PreflightPass None
      | Inr False \<Rightarrow> PreflightFail ''Inbound port 25 is not reachable. Check your firewall and VPS provider settings.''
      | Inl e \<Rightarrow> PreflightFail (''Inbound port 25 check failed: '' @ e))"

fun passed :: "preflight_result \<Rightarrow> bool" where
  "passed (PreflightPass _) = True"
| "passed (PreflightFail _) = False"

text \<open>Both legs are tried; the error of either ends the command.\<close>

definition run_port25_preflight :: "string + bool \<Rightarrow> string + bool \<Rightarrow> string + unit" where
  "run_port25_preflight outbound inbound =
     (if passed (check_outbound outbound) \<and> passed (inbound_result inbound) then Inr ()
      else Inl (''Port 25 checks failed. Your VPS provider may block SMTP traffic.'' @ [LF] @
        ''Fix the issues above and run '' @ [CHR 0x60] @ ''sudo aimx setup'' @ [CHR 0x60] @ '' again.''))"

definition run_with_net :: "string + bool \<Rightarrow> string + bool \<Rightarrow> port25_status \<Rightarrow> string + unit" where
  "run_with_net outbound inbound port25 =
     (case port25 of
        OtherProcess name \<Rightarrow>
          Inl (''Port 25 is occupied by '' @ [CHR 0x60] @ name @ [CHR 0x60] @ ''.'' @ [LF] @
            ''Stop or uninstall the process and run '' @ [CHR 0x60] @ ''sudo aimx portcheck'' @ [CHR 0x60] @ '' again to check.'')
      | _ \<Rightarrow>
          if passed (check_outbound outbound) \<and> passed (inbound_result inbound) then Inr ()
          else Inl ''Some checks failed. See details above.'')"

end
