(* ===== verification/Dns.thy ===== *)
theory Dns
  imports Preflight
begin

text \<open>
  The DNS side of the setup: the lookups through \<open>dig\<close>, the records a domain needs and their
  checks (\<open>src/setup.rs\<close>), the published DKIM key (\<open>src/dkim.rs\<close>) and the daemon's check of it at
  startup (\<open>src/serve.rs\<close>). A run of \<open>dig\<close> is what the \<open>n\<close>-th run with its arguments prints. The
  Unicode lower case and the debug form of lists in messages are parameters.
\<close>

section \<open>Lookups\<close>

datatype dig_outcome =
    DigOk bytes
  | DigFailed string bytes
  | DigSpawnError string

type_synonym dig_runner = "nat \<Rightarrow> string list \<Rightarrow> dig_outcome"

definition DIG_TIMEOUT_SECS :: nat where "DIG_TIMEOUT_SECS = 2"
definition DIG_TRIES :: nat where "DIG_TRIES = 1"
definition DIG_RETRY_ATTEMPTS :: nat where "DIG_RETRY_ATTEMPTS = 3"
definition DIG_RESOLVERS :: "string list" where "DIG_RESOLVERS = [''1.1.1.1'', ''8.8.8.8'', ''9.9.9.9'']"

definition dig_short_args :: "string \<Rightarrow> string \<Rightarrow> string \<Rightarrow> string list" where
  "dig_short_args resolver record_type domain =
     [''@'' @ resolver, ''+time='' @ show_nat DIG_TIMEOUT_SECS, ''+tries='' @ show_nat DIG_TRIES, ''+short'',
      record_type, domain]"

definition answer_records :: "bytes \<Rightarrow> string list" where
  "answer_records stdout = map trim (filter (\<lambda>l. trim l \<noteq> []) (lines (utf8_lossy stdout)))"

text \<open>The attempts that are left, each with its resolver; \<open>n\<close> counts the runs so far.\<close>

fun dig_attempts :: "dig_runner \<Rightarrow> string \<Rightarrow> string \<Rightarrow> nat \<Rightarrow> string \<Rightarrow> string list \<Rightarrow> (string + string list) \<times> nat" where
  "dig_attempts run record_type domain n last_err_detail [] =
     (Inl (''dig '' @ record_type @ '' '' @ domain @ '' failed across all '' @ show_nat (length DIG_RESOLVERS) @
        '' resolvers ('' @ show_nat DIG_RETRY_ATTEMPTS @ '' attempts each); last error: '' @ last_err_detail), n)"
| "dig_attempts run record_type domain n last_err_detail (resolver # rest) =
     (case run n (dig_short_args resolver record_type domain) of
        DigOk stdout \<Rightarrow> (Inr (answer_records stdout), n + 1)
      | DigFailed status stderr \<Rightarrow>
          dig_attempts run record_type domain (n + 1)
            (''@'' @ resolver @ '' exit='' @ status @ '' stderr='' @ trim (utf8_lossy stderr)) rest
      | DigSpawnError e \<Rightarrow>
          dig_attempts run record_type domain (n + 1) (''@'' @ resolver @ '' spawn error: '' @ e) rest)"

definition dig_schedule :: "string list" where
  "dig_schedule = concat (map (replicate DIG_RETRY_ATTEMPTS) DIG_RESOLVERS)"

definition dig_with_cascade :: "dig_runner \<Rightarrow> string \<Rightarrow> string \<Rightarrow> (string + string list) \<times> nat" where
  "dig_with_cascade run record_type domain = dig_attempts run record_type domain 0 [] dig_schedule"

definition resolve_mx :: "dig_runner \<Rightarrow> string \<Rightarrow> string + string list" where
  "resolve_mx run domain = fst (dig_with_cascade run ''MX'' domain)"

definition resolve_ips :: "dig_runner \<Rightarrow> string \<Rightarrow> string \<Rightarrow> string + ip_addr list" where
  "resolve_ips run record_type domain =
     (case fst (dig_with_cascade run record_type domain) of
        Inl e \<Rightarrow> Inl e
      | Inr records \<Rightarrow> Inr (List.map_filter parse_ip records))"

definition resolve_a :: "dig_runner \<Rightarrow> string \<Rightarrow> string + ip_addr list" where
  "resolve_a run domain = resolve_ips run ''A'' domain"

definition resolve_aaaa :: "dig_runner \<Rightarrow> string \<Rightarrow> string + ip_addr list" where
  "resolve_aaaa run domain = resolve_ips run ''AAAA'' domain"

definition unquote_txt :: "string \<Rightarrow> string" where
  "unquote_txt l = trim_matches CHR 0x22 (replace_all [CHR 0x22, CHR '' '', CHR 0x22] [] l)"

definition resolve_txt :: "dig_runner \<Rightarrow> string \<Rightarrow> string + string list" where
  "resolve_txt run domain =
     (case fst (dig_with_cascade run ''TXT'' domain) of
        Inl e \<Rightarrow> Inl e
      | Inr records \<Rightarrow> Inr (map unquote_txt records))"

section \<open>The records of a domain\<close>

record dns_record =
  dr_type :: string
  dr_name :: string
  dr_value :: string

definition mk_dns_record :: "string \<Rightarrow> string \<Rightarrow> string \<Rightarrow> dns_record" where
  "mk_dns_record t n v = \<lparr>dr_type = t, dr_name = n, dr_value = v\<rparr>"

definition generate_dns_records :: "string \<Rightarrow> string \<Rightarrow> string option \<Rightarrow> string \<Rightarrow> string \<Rightarrow> dns_record list" where
  "generate_dns_records domain server_ip server_ipv6 dkim_value dkim_selector =
     (let spf_value =
            (case server_ipv6 of
               Some ipv6 \<Rightarrow> ''v=spf1 ip4:'' @ server_ip @ '' ip6:'' @ ipv6 @ '' -all''
             | None \<Rightarrow> ''v=spf1 ip4:'' @ server_ip @ '' -all'') in
      [mk_dns_record ''A'' domain server_ip] @
      (case server_ipv6 of Some ipv6 \<Rightarrow> [mk_dns_record ''AAAA'' domain ipv6] | None \<Rightarrow> []) @
      [mk_dns_record ''MX'' domain (''10 '' @ domain @ ''.''),
       mk_dns_record ''TXT'' domain spf_value,
       mk_dns_record ''TXT'' (dkim_selector @ ''._domainkey.'' @ domain) dkim_value,
       mk_dns_record ''TXT'' (''_dmarc.'' @ domain) (''v=DMARC1; p=reject; rua=mailto:postmaster@'' @ domain)])"

text \<open>The value that publishes a key, and the key of a record.\<close>

definition dns_record_value :: "string \<Rightarrow> string" where
  "dns_record_value b64 = ''v=DKIM1; k=rsa; p='' @ b64"

fun split_char :: "char \<Rightarrow> string \<Rightarrow> string list" where
  "split_char c [] = [[]]"
| "split_char c (x # s) =
     (if x = c then [] # split_char c s
      else case split_char c s of [] \<Rightarrow> [[x]] | p # ps \<Rightarrow> (x # p) # ps)"

definition remove_white :: "string \<Rightarrow> string" where
  "remove_white s = concat (filter (\<lambda>ch. ch \<notin> set white_space) (utf8_chars s))"

fun p_value :: "string list \<Rightarrow> string option" where
  "p_value [] = None"
| "p_value (part # parts) =
     (case strip_prefix (trim part) ''p='' of
        None \<Rightarrow> p_value parts
      | Some v \<Rightarrow> (let key = remove_white v in if key \<noteq> [] then Some key else p_value parts))"

definition extract_dkim_p_value :: "string \<Rightarrow> string option" where
  "extract_dkim_p_value record = p_value (split_char CHR '';'' record)"

section \<open>The checks\<close>

datatype dns_verify_result = DnsPass | DnsFail string | DnsMissing string | DnsWarn string

text \<open>What the checks see: the lookups, and the library's lower case and debug texts.\<close>

record network_ops =
  no_mx :: "string \<Rightarrow> string + string list"
  no_a :: "string \<Rightarrow> string + ip_addr list"
  no_aaaa :: "string \<Rightarrow> string + ip_addr list"
  no_txt :: "string \<Rightarrow> string + string list"
  no_lower :: "string \<Rightarrow> string"
  no_debug :: "string list \<Rightarrow> string"
  no_debug_ips :: "ip_addr list \<Rightarrow> string"

definition verify_mx :: "network_ops \<Rightarrow> string \<Rightarrow> dns_verify_result" where
  "verify_mx net domain =
     (case no_mx net domain of
        Inl e \<Rightarrow> DnsFail (''MX lookup failed: '' @ e)
      | Inr records \<Rightarrow>
          if records = [] then DnsMissing ''No MX record found''
          else if list_ex (\<lambda>r. contains (no_lower net r) (no_lower net domain)) records then DnsPass
          else DnsFail (''MX record found but does not point to '' @ domain @ '': '' @ no_debug net records))"

definition address_check :: "network_ops \<Rightarrow> string \<Rightarrow> string + ip_addr list \<Rightarrow> ip_addr \<Rightarrow> dns_verify_result" where
  "address_check net kind res expected_ip =
     (case res of
        Inl e \<Rightarrow> DnsFail (kind @ '' record lookup failed: '' @ e)
      | Inr addrs \<Rightarrow>
          if expected_ip \<in> set addrs then DnsPass
          else if addrs \<noteq> []
          then DnsFail (kind @ '' record points to '' @ no_debug_ips net addrs @ '', expected '' @ show_ip expected_ip)
          else DnsMissing (''No '' @ kind @ '' record found''))"

definition verify_a :: "network_ops \<Rightarrow> string \<Rightarrow> ip_addr \<Rightarrow> dns_verify_result" where
  "verify_a net domain expected_ip = address_check net ''A'' (no_a net domain) expected_ip"

definition verify_aaaa :: "network_ops \<Rightarrow> string \<Rightarrow> ip_addr \<Rightarrow> dns_verify_result" where
  "verify_aaaa net domain expected_ip = address_check net ''AAAA'' (no_aaaa net domain) expected_ip"

definition spf_mechanism :: "string \<Rightarrow> string option" where
  "spf_mechanism token =
     (case strip_prefix token ''ip4:'' of Some m \<Rightarrow> Some m | None \<Rightarrow>
     (case strip_prefix token ''+ip4:'' of Some m \<Rightarrow> Some m | None \<Rightarrow>
     (case strip_prefix token ''ip6:'' of Some m \<Rightarrow> Some m | None \<Rightarrow> strip_prefix token ''+ip6:'')))"

definition spf_contains_ip :: "string \<Rightarrow> string \<Rightarrow> bool" where
  "spf_contains_ip record expected_ip \<longleftrightarrow>
     list_ex (\<lambda>token. case spf_mechanism token of
        Some mechanism \<Rightarrow> takeWhile (\<lambda>c. c \<noteq> CHR ''/'') mechanism = expected_ip
      | None \<Rightarrow> False) (split_whitespace record)"

definition verify_spf :: "network_ops \<Rightarrow> string \<Rightarrow> string \<Rightarrow> dns_verify_result" where
  "verify_spf net domain expected_ip =
     (case no_txt net domain of
        Inl e \<Rightarrow> DnsFail (''SPF lookup failed: '' @ e)
      | Inr records \<Rightarrow>
          (let spf = filter (\<lambda>r. starts_with r ''v=spf1'') records in
           if spf = [] then DnsMissing ''No SPF record found''
           else if list_ex (\<lambda>r. spf_contains_ip r expected_ip) spf then DnsPass
           else DnsFail (''SPF record found but does not include '' @ expected_ip @ '': '' @ no_debug net spf)))"

definition verify_dkim :: "network_ops \<Rightarrow> string \<Rightarrow> string \<Rightarrow> string option \<Rightarrow> dns_verify_result" where
  "verify_dkim net domain selector local_public_key =
     (case no_txt net (selector @ ''._domainkey.'' @ domain) of
        Inl e \<Rightarrow> DnsFail (''DKIM lookup failed: '' @ e)
      | Inr records \<Rightarrow>
          (let dkim = filter (\<lambda>r. contains r ''v=DKIM1'') records in
           if dkim = [] then DnsMissing ''No DKIM record found''
           else case local_public_key of
               Some local_key \<Rightarrow>
                 (let local_clean = filter (\<lambda>c. c \<noteq> CHR '' '') local_key in
                  if list_ex (\<lambda>r. extract_dkim_p_value r = Some local_clean) dkim then DnsPass
                  else DnsFail ''DKIM record found but public key does not match local key'')
             | None \<Rightarrow> DnsPass))"

definition verify_dmarc :: "network_ops \<Rightarrow> string \<Rightarrow> dns_verify_result" where
  "verify_dmarc net domain =
     (case no_txt net (''_dmarc.'' @ domain) of
        Inl e \<Rightarrow> DnsFail (''DMARC lookup failed: '' @ e)
      | Inr records \<Rightarrow>
          (let dmarc = filter (\<lambda>r. contains r ''v=DMARC1'') records in
           if dmarc = [] then DnsMissing ''No DMARC record found''
           else if list_ex (\<lambda>r. list_ex (\<lambda>part. eq_ignore_ascii_case (trim part) ''p=none'') (split_char CHR '';'' r)) dmarc
           then DnsWarn (''DMARC record uses p=none (no enforcement). Consider p=quarantine or p=reject for production.'')
           else DnsPass))"

definition verify_all_dns ::
  "network_ops \<Rightarrow> string \<Rightarrow> ip_addr \<Rightarrow> ip_addr option \<Rightarrow> string \<Rightarrow> string option \<Rightarrow> (string \<times> dns_verify_result) list" where
  "verify_all_dns net domain server_ip server_ipv6 dkim_selector local_dkim_pubkey =
     [(''A'', verify_a net domain server_ip)] @
     (case server_ipv6 of Some ipv6 \<Rightarrow> [(''AAAA'', verify_aaaa net domain ipv6)] | None \<Rightarrow> []) @
     [(''MX'', verify_mx net domain), (''SPF'', verify_spf net domain (show_ip server_ip))] @
     (case server_ipv6 of Some ipv6 \<Rightarrow> [(''SPF (IPv6)'', verify_spf net domain (show_ip ipv6))] | None \<Rightarrow> []) @
     [(''DKIM'', verify_dkim net domain dkim_selector local_dkim_pubkey), (''DMARC'', verify_dmarc net domain)]"

text \<open>Which advised record a failed check is about, and whether all checks let the setup go on.\<close>

definition dns_record_for_check :: "string \<Rightarrow> dns_record list \<Rightarrow> dns_record option" where
  "dns_record_for_check check records =
     (if check = ''A'' then find (\<lambda>r. dr_type r = ''A'') records
      else if check = ''AAAA'' then find (\<lambda>r. dr_type r = ''AAAA'') records
      else if check = ''MX'' then find (\<lambda>r. dr_type r = ''MX'') records
      else if check = ''SPF'' \<or> check = ''SPF (IPv6)''
      then find (\<lambda>r. dr_type r = ''TXT'' \<and> starts_with (dr_value r) ''v=spf1'') records
      else if check = ''DKIM'' then find (\<lambda>r. dr_type r = ''TXT'' \<and> contains (dr_name r) ''._domainkey.'') records
      else if check = ''DMARC'' then find (\<lambda>r. dr_type r = ''TXT'' \<and> starts_with (dr_name r) ''_dmarc.'') records
      else None)"

fun keeps_all_pass :: "dns_verify_result \<Rightarrow> bool" where
  "keeps_all_pass DnsPass = True"
| "keeps_all_pass (DnsFail m) = False"
| "keeps_all_pass (DnsMissing m) = False"
| "keeps_all_pass (DnsWarn m) = True"

definition all_pass :: "(string \<times> dns_verify_result) list \<Rightarrow> bool" where
  "all_pass results \<longleftrightarrow> list_all (\<lambda>(n, r). keeps_all_pass r) results"

section \<open>The daemon's startup check\<close>

datatype dkim_startup_check =
    Match
  | Mismatch string string
  | NoRecord
  | NoPTag
  | ResolveError string

fun startup_loop :: "string \<Rightarrow> string option \<Rightarrow> string list \<Rightarrow> dkim_startup_check" where
  "startup_loop local_spki_b64 seen_dns [] =
     (case seen_dns of Some dns \<Rightarrow> Mismatch dns local_spki_b64 | None \<Rightarrow> NoPTag)"
| "startup_loop local_spki_b64 seen_dns (r # rs) =
     (case extract_dkim_p_value r of
        Some dns_p \<Rightarrow> if dns_p = local_spki_b64 then Match else startup_loop local_spki_b64 (Some dns_p) rs
      | None \<Rightarrow> startup_loop local_spki_b64 seen_dns rs)"

definition evaluate_dkim_startup :: "string \<Rightarrow> string list \<Rightarrow> dkim_startup_check" where
  "evaluate_dkim_startup local_spki_b64 txt_records =
     (let dkim_records = filter (\<lambda>r. contains r ''v=DKIM1'') txt_records in
      if dkim_records = [] then NoRecord else startup_loop local_spki_b64 None dkim_records)"

text \<open>The key file's base64 or its error, and the resolver.\<close>

definition run_dkim_startup_check ::
  "(string \<Rightarrow> string + string list) \<Rightarrow> string \<Rightarrow> string \<Rightarrow> string + string \<Rightarrow> dkim_startup_check" where
  "run_dkim_startup_check resolve_dkim_txt domain selector public_key =
     (case public_key of
        Inl e \<Rightarrow> ResolveError (''local key error: '' @ e)
      | Inr local_b64 \<Rightarrow>
          (case resolve_dkim_txt (selector @ ''._domainkey.'' @ domain) of
             Inl e \<Rightarrow> ResolveError e
           | Inr records \<Rightarrow> evaluate_dkim_startup local_b64 records))"

end
