(* ===== verification/Setup.thy ===== *)
theory Setup
  imports Dns ConfigLoad
begin

text \<open>
  The setup wizard (\<open>run_setup\<close> of \<open>src/setup.rs\<close>): its prompts and their validators, the steps in
  their order and what they leave on the host. The host is a record: the user database, the
  configuration file (its load error or its value), the keys, the certificate, the service, the
  directories with owner and mode. Standard input is the lines left of it. What other programs and
  the network do is the environment; \<open>se_io\<close> is the error of a file operation, by its path.
\<close>

section \<open>Validators\<close>

definition sq :: "string \<Rightarrow> string" where "sq s = [CHR 0x27] @ s @ [CHR 0x27]"

definition bq :: "string \<Rightarrow> string" where "bq s = [CHR 0x60] @ s @ [CHR 0x60]"

definition domain_label_error :: "string \<Rightarrow> string option" where
  "domain_label_error label =
     (if label = [] \<or> 63 < length label then Some (''Invalid domain label: '' @ sq label)
      else if starts_with label ''-'' \<or> ends_with label ''-''
      then Some (''Domain label must not start or end with a hyphen: '' @ sq label)
      else if \<not> list_all (\<lambda>c. is_ascii_alphanumeric c \<or> c = CHR ''-'') label
      then Some (''Domain label contains invalid characters: '' @ sq label)
      else None)"

definition validate_domain :: "string \<Rightarrow> string + unit" where
  "validate_domain domain =
     (if domain = [] then Inl ''Domain must not be empty''
      else if 253 < length domain then Inl ''Domain exceeds maximum length of 253 characters''
      else case first_some domain_label_error (split_char CHR ''.'' domain) of
          Some e \<Rightarrow> Inl e
        | None \<Rightarrow>
            if length (split_char CHR ''.'' domain) < 2
            then Inl ''Domain must have at least two labels (e.g. example.com)'' else Inr ())"

definition sender_char_ok :: "string \<Rightarrow> bool" where
  "sender_char_ok ch \<longleftrightarrow>
     (case ch of [c] \<Rightarrow> is_ascii_alphanumeric c \<or> c \<in> set ''.-_+*?'' \<or> c = CHR ''@'' | _ \<Rightarrow> False)"

definition validate_trusted_sender :: "string \<Rightarrow> string + unit" where
  "validate_trusted_sender entry =
     (let at_count = length (filter (\<lambda>c. c = CHR ''@'') entry) in
      if entry = [] then Inl ''empty entry''
      else if at_count \<noteq> 1
      then Inl (''expected exactly one '' @ sq ''@'' @ '', got '' @ show_nat at_count)
      else case split_once CHR ''@'' entry of
          None \<Rightarrow> Inl []
        | Some (local, domain) \<Rightarrow>
            if local = [] then Inl (''empty local part before '' @ sq ''@'')
            else if domain = [] then Inl (''empty domain after '' @ sq ''@'')
            else (case find (\<lambda>ch. \<not> sender_char_ok ch) (utf8_chars entry) of
                    Some ch \<Rightarrow> Inl (''invalid character '' @ sq ch)
                  | None \<Rightarrow> Inr ()))"

text \<open>The pieces between commas and white space, \<open>w\<close> being what was read of the current one.\<close>

fun sender_pieces :: "string \<Rightarrow> string list \<Rightarrow> string list" where
  "sender_pieces w [] = [w]"
| "sender_pieces w (ch # cs) =
     (if ch = '','' \<or> ch \<in> set white_space then w # sender_pieces [] cs else sender_pieces (w @ ch) cs)"

fun sender_entries :: "string list \<Rightarrow> (string \<times> string) + string list" where
  "sender_entries [] = Inr []"
| "sender_entries (raw # rest) =
     (let s = trim raw in
      if s = [] then sender_entries rest
      else case validate_trusted_sender s of
          Inl reason \<Rightarrow> Inl (s, reason)
        | Inr _ \<Rightarrow> (case sender_entries rest of Inl e \<Rightarrow> Inl e | Inr es \<Rightarrow> Inr (s # es)))"

definition parse_trusted_senders_line :: "string \<Rightarrow> (string \<times> string) + string list" where
  "parse_trusted_senders_line line = sender_entries (sender_pieces [] (utf8_chars line))"

definition parse_yn :: "string \<Rightarrow> bool" where
  "parse_yn input = (case trim input of [] \<Rightarrow> True | c # _ \<Rightarrow> \<not> (c = CHR ''n'' \<or> c = CHR ''N''))"

section \<open>Prompts\<close>

type_synonym input = "string list"

text \<open>One line; at the end of the input an empty one.\<close>

fun read_input :: "input \<Rightarrow> string \<times> input" where
  "read_input [] = ([], [])"
| "read_input (l # ls) = (l, ls)"

definition MAX_TRUSTED_SENDERS_ATTEMPTS :: nat where "MAX_TRUSTED_SENDERS_ATTEMPTS = 5"

text \<open>The lines of the line editor, whose end is its error, and those of standard input.\<close>

fun prompt_trusted_senders :: "nat \<Rightarrow> string list \<Rightarrow> input \<Rightarrow> string + (string \<times> string list)" where
  "prompt_trusted_senders attempt [] yn = Inl ''read''"
| "prompt_trusted_senders attempt (line # rest) yn =
     (case parse_trusted_senders_line line of
        Inr senders \<Rightarrow>
          (case read_input yn of
             (answer, yn') \<Rightarrow>
               if parse_yn answer then (if senders = [] then Inr (''none'', []) else Inr (''verified'', senders))
               else prompt_trusted_senders 0 rest yn')
      | Inl (entry, reason) \<Rightarrow>
          if attempt + 1 = MAX_TRUSTED_SENDERS_ATTEMPTS
          then Inl (''trusted-senders prompt aborted after '' @ show_nat MAX_TRUSTED_SENDERS_ATTEMPTS @
            '' attempts; last error: invalid sender '' @ sq entry @ '': '' @ reason)
          else prompt_trusted_senders (attempt + 1) rest yn)"

lemma read_input_less: "read_input inp = (l, inp') \<Longrightarrow> length inp' \<le> length inp \<and> (l \<noteq> [] \<longrightarrow> length inp' < length inp)"
  by (cases inp) auto

function prompt_domain :: "input \<Rightarrow> (string + string) \<times> input" where
  "prompt_domain inp =
     (case read_input inp of
        (line, inp1) \<Rightarrow>
          (let domain = trim line in
           if domain = [] then (Inl ''No domain entered. Setup cancelled.'', inp1)
           else if validate_domain domain \<noteq> Inr () then prompt_domain inp1
           else (case read_input inp1 of
                   (answer, inp2) \<Rightarrow>
                     if \<not> parse_yn answer then prompt_domain inp2
                     else (case read_input inp2 of
                             (control, inp3) \<Rightarrow>
                               if \<not> parse_yn control
                               then (Inl ''Setup cancelled. You need DNS access to proceed.'', inp3)
                               else (Inr domain, inp3)))))"
  by pat_completeness auto
termination
  by (relation "measure length") (auto dest!: sym [of "(_, _)" "read_input _"] dest: read_input_less
      intro: le_less_trans simp: Let_def; fastforce dest: read_input_less)+

declare prompt_domain.simps [simp del]

definition is_noninteractive_env :: "string option \<Rightarrow> bool" where
  "is_noninteractive_env v \<longleftrightarrow> v \<in> {Some ''1'', Some ''true'', Some ''yes''}"

definition MAX_OWNER_PROMPT_ATTEMPTS :: nat where "MAX_OWNER_PROMPT_ATTEMPTS = 5"

text \<open>The attempts left of the owner prompt; \<open>user_exists\<close> is what \<open>id\<close> says of a name.\<close>

fun owner_loop :: "(string \<Rightarrow> bool) \<Rightarrow> string option \<Rightarrow> nat \<Rightarrow> input \<Rightarrow> string option" where
  "owner_loop user_exists default_candidate 0 inp = None"
| "owner_loop user_exists default_candidate (Suc n) inp =
     (case read_input inp of
        (line, inp') \<Rightarrow>
          (let entered = trim line in
           case (if entered = [] then default_candidate else Some entered) of
             None \<Rightarrow> owner_loop user_exists default_candidate n inp'
           | Some candidate \<Rightarrow>
               if user_exists candidate then Some candidate else owner_loop user_exists default_candidate n inp'))"

definition prompt_mailbox_owner ::
  "(string \<Rightarrow> bool) \<Rightarrow> user_db \<Rightarrow> string option \<Rightarrow> string \<Rightarrow> input \<Rightarrow> string + string" where
  "prompt_mailbox_owner user_exists pw noninteractive address inp =
     (let local_part = trim (takeWhile (\<lambda>c. c \<noteq> CHR ''@'') address);
          default_candidate = (if local_part = [] then None else if pw local_part \<noteq> None then Some local_part else None) in
      if is_noninteractive_env noninteractive then
        (case default_candidate of
           Some d \<Rightarrow> Inr d
         | None \<Rightarrow> Inl (''AIMX_NONINTERACTIVE=1 requires a resolvable default owner for mailbox '' @ sq address @
             ''; local part '' @ sq local_part @ '' does not resolve via getpwnam. Create the user with '' @
             bq (''useradd --system '' @ local_part) @ '' or unset AIMX_NONINTERACTIVE and re-run setup.''))
      else case owner_loop user_exists default_candidate MAX_OWNER_PROMPT_ATTEMPTS inp of
          Some owner \<Rightarrow> Inr owner
        | None \<Rightarrow> Inl (''could not resolve an owner for mailbox '' @ sq address @ '' after '' @
            show_nat MAX_OWNER_PROMPT_ATTEMPTS @ '' attempts; create the intended Linux user with '' @
            bq ''useradd <name>'' @ '' and re-run setup''))"

section \<open>The host and its environment\<close>

record setup_host =
  sh_users :: user_db
  sh_config :: "(string + config) option"
  sh_config_mode :: nat
  sh_dkim :: bool
  sh_cert :: bool
  sh_running :: bool
  sh_dirs :: "string \<rightharpoonup> nat \<times> nat \<times> nat"

record setup_env =
  se_root :: bool
  se_noninteractive :: "string option"
  se_port25 :: "string + port25_status"
  se_temp_bind :: "string + unit"
  se_outbound :: "string + bool"
  se_inbound :: "string + bool"
  se_ips :: "string + ipv4 option \<times> ipv6 option"
  se_io :: "string \<Rightarrow> string option"
  se_umask_mode :: nat
  se_self :: "nat \<times> nat"
  se_keygen :: "string + unit"
  se_public_key :: "string + string"
  se_dns :: "nat \<Rightarrow> network_ops"
  se_tls :: "string + unit"
  se_useradd :: "string + resolved_user"
  se_service :: "string + unit"
  se_ready :: bool
  se_config_path :: string
  se_sha :: "bytes \<Rightarrow> bytes"
  se_show :: "load_error \<Rightarrow> string"
  se_show_user :: "config_error \<Rightarrow> string"
  se_senders :: "string list"

text \<open>A step on the host: its error or its value, and the host after it; \<open>None\<close> never returns.\<close>

type_synonym 'a act = "setup_host \<Rightarrow> ((string + 'a) \<times> setup_host) option"

definition ret :: "'a \<Rightarrow> 'a act" where "ret x h = Some (Inr x, h)"

definition fail :: "string \<Rightarrow> 'a act" where "fail e h = Some (Inl e, h)"

definition seq :: "'a act \<Rightarrow> ('a \<Rightarrow> 'b act) \<Rightarrow> 'b act" where
  "seq m f h =
     (case m h of
        None \<Rightarrow> None
      | Some (Inl e, h') \<Rightarrow> Some (Inl e, h')
      | Some (Inr x, h') \<Rightarrow> f x h')"

definition of_result :: "string + 'a \<Rightarrow> 'a act" where
  "of_result r = (case r of Inl e \<Rightarrow> fail e | Inr x \<Rightarrow> ret x)"

definition look :: "(setup_host \<Rightarrow> 'a) \<Rightarrow> 'a act" where "look f h = Some (Inr (f h), h)"

definition update :: "(setup_host \<Rightarrow> setup_host) \<Rightarrow> unit act" where "update f h = Some (Inr (), f h)"

definition file_op :: "setup_env \<Rightarrow> string \<Rightarrow> unit act" where
  "file_op env p = (case se_io env p of Some e \<Rightarrow> fail e | None \<Rightarrow> ret ())"

section \<open>Finalizing\<close>

definition load_config :: "setup_env \<Rightarrow> config act" where
  "load_config env =
     seq (look (\<lambda>h. (sh_users h, sh_config h))) (\<lambda>(users, c).
       case c of
         None \<Rightarrow> fail ''not found''
       | Some (Inl e) \<Rightarrow> fail e
       | Some (Inr cfg) \<Rightarrow>
           (case validate_config (se_sha env) users cfg of
              Inl e \<Rightarrow> fail (se_show env e)
            | Inr (cfg', warnings) \<Rightarrow> ret cfg'))"

text \<open>A new file of root's has mode 0640 from the start, an old one is given it.\<close>

definition install_config_file :: "setup_env \<Rightarrow> config \<Rightarrow> unit act" where
  "install_config_file env cfg =
     seq (file_op env (se_config_path env)) (\<lambda>_.
       update (\<lambda>h. h\<lparr>sh_config := Some (Inr cfg),
         sh_config_mode := (if se_root env then 0x1A0
           else if sh_config h = None then se_umask_mode env else sh_config_mode h)\<rparr>))"

definition catchall_mailbox :: "string \<Rightarrow> mailbox_config" where
  "catchall_mailbox domain =
     \<lparr>mb_address = ''*@'' @ domain, mb_owner = RESERVED_RUN_AS_CATCHALL, mb_hooks = [], mb_trust = None,
      mb_trusted_senders = None, mb_allow_root_catchall = False\<rparr>"

definition move_address :: "string \<Rightarrow> string \<Rightarrow> mailbox_config \<Rightarrow> mailbox_config" where
  "move_address old_domain domain mb =
     (case strip_suffix (mb_address mb) (''@'' @ old_domain) of
        Some local_part \<Rightarrow> mb\<lparr>mb_address := local_part @ ''@'' @ domain\<rparr>
      | None \<Rightarrow> mb)"

definition move_domain :: "string \<Rightarrow> config \<Rightarrow> config" where
  "move_domain domain cfg =
     cfg\<lparr>cfg_domain := domain, cfg_mailboxes := map (apsnd (move_address (cfg_domain cfg) domain)) (cfg_mailboxes cfg)\<rparr>"

definition add_catchall :: "string \<Rightarrow> config \<Rightarrow> config" where
  "add_catchall domain cfg = cfg\<lparr>cfg_mailboxes := cfg_mailboxes cfg @ [(''catchall'', catchall_mailbox domain)]\<rparr>"

definition fresh_config :: "string \<Rightarrow> string \<Rightarrow> string \<Rightarrow> string \<times> string list \<Rightarrow> config" where
  "fresh_config data_dir domain dkim_selector trust_defaults =
     \<lparr>cfg_domain = domain, cfg_data_dir = data_dir, cfg_dkim_selector = dkim_selector, cfg_trust = fst trust_defaults,
      cfg_trusted_senders = snd trust_defaults, cfg_mailboxes = [(''catchall'', catchall_mailbox domain)],
      cfg_verify_host = None, cfg_enable_ipv6 = False, cfg_signature = None, cfg_release_manifest_url = None\<rparr>"

definition change_domain :: "setup_env \<Rightarrow> string \<Rightarrow> config \<Rightarrow> config act" where
  "change_domain env domain cfg =
     (if cfg_domain cfg \<noteq> domain
      then seq (install_config_file env (move_domain domain cfg)) (\<lambda>_. ret (move_domain domain cfg))
      else ret cfg)"

definition with_catchall :: "setup_env \<Rightarrow> string \<Rightarrow> config \<Rightarrow> config act" where
  "with_catchall env domain cfg =
     (if lookup_mailbox cfg ''catchall'' = None
      then seq (install_config_file env (add_catchall domain cfg)) (\<lambda>_. ret (add_catchall domain cfg))
      else ret cfg)"

definition config_for_setup ::
  "setup_env \<Rightarrow> string \<Rightarrow> string \<Rightarrow> string \<Rightarrow> (string \<times> string list) option \<Rightarrow> config act" where
  "config_for_setup env data_dir domain dkim_selector trust_defaults =
     seq (look sh_config) (\<lambda>c.
       if c \<noteq> None then
         seq (load_config env) (\<lambda>cfg. seq (change_domain env domain cfg) (with_catchall env domain))
       else
         (let cfg = fresh_config data_dir domain dkim_selector
                (case trust_defaults of Some t \<Rightarrow> t | None \<Rightarrow> (''none'', [])) in
          seq (install_config_file env cfg) (\<lambda>_. ret cfg)))"

definition mailbox_dir :: "setup_env \<Rightarrow> (nat \<times> nat) option \<Rightarrow> string \<Rightarrow> unit act" where
  "mailbox_dir env owner d =
     seq (file_op env d) (\<lambda>_. update (\<lambda>h. h\<lparr>sh_dirs := (sh_dirs h)(d \<mapsto>
       (case owner of
          Some (uid, gid) \<Rightarrow> (uid, gid, 0x1C0)
        | None \<Rightarrow> (case sh_dirs h d of Some (uid, gid, m) \<Rightarrow> (uid, gid, 0x1C0) | None \<Rightarrow> (fst (se_self env), snd (se_self env), 0x1C0))))\<rparr>))"

text \<open>The owner to give a mailbox's directories to; none where the caller is not root.\<close>

definition mailbox_owner_ids :: "setup_env \<Rightarrow> user_db \<Rightarrow> string \<Rightarrow> mailbox_config \<Rightarrow> (nat \<times> nat) option act" where
  "mailbox_owner_ids env users name mb =
     (if \<not> se_root env then ret None
      else case owner_uid users mb of
          Inl e \<Rightarrow> fail (''error: mailbox owner '' @ sq (mb_owner mb) @ '' for mailbox '' @ sq name @
            '' does not exist on this system (resolver: '' @ se_show_user env e @ ''); create it with '' @
            bq (''useradd --system --no-create-home --shell /usr/sbin/nologin '' @ mb_owner mb) @
            '' or edit '' @ bq (se_config_path env) @ '' and re-run setup'')
        | Inr uid \<Rightarrow>
            (case owner_gid users mb of
               Inl e \<Rightarrow> fail (''error: primary group for mailbox owner '' @ sq (mb_owner mb) @ '' (mailbox '' @ sq name @
                 '') does not exist on this system (resolver: '' @ se_show_user env e @
                 ''); ensure both the user and its primary group are present and re-run setup'')
             | Inr gid \<Rightarrow> ret (Some (uid, gid))))"

fun ensure_mailbox_dirs :: "setup_env \<Rightarrow> string \<Rightarrow> (string \<times> mailbox_config) list \<Rightarrow> unit act" where
  "ensure_mailbox_dirs env data_dir [] = ret ()"
| "ensure_mailbox_dirs env data_dir ((name, mb) # rest) =
     seq (look sh_users) (\<lambda>users.
     seq (mailbox_owner_ids env users name mb) (\<lambda>owner.
     seq (mailbox_dir env owner (join_path (join_path data_dir ''inbox'') name)) (\<lambda>_.
     seq (mailbox_dir env owner (join_path (join_path data_dir ''sent'') name)) (\<lambda>_.
     ensure_mailbox_dirs env data_dir rest))))"

definition generate_keypair :: "setup_env \<Rightarrow> unit act" where
  "generate_keypair env = seq (of_result (se_keygen env)) (\<lambda>_. update (\<lambda>h. h\<lparr>sh_dkim := True\<rparr>))"

definition finalize_setup ::
  "setup_env \<Rightarrow> string \<Rightarrow> string \<Rightarrow> string \<Rightarrow> (string \<times> string list) option \<Rightarrow> unit act" where
  "finalize_setup env data_dir domain dkim_selector trust_defaults =
     seq (file_op env data_dir) (\<lambda>_.
     seq (file_op env ''config dir'') (\<lambda>_.
     seq (config_for_setup env data_dir domain dkim_selector trust_defaults) (\<lambda>cfg.
     seq (ensure_mailbox_dirs env data_dir (cfg_mailboxes cfg)) (\<lambda>_.
     seq (look sh_dkim) (\<lambda>k. if k then ret () else generate_keypair env)))))"

section \<open>The catchall's user\<close>

definition CATCHALL_SERVICE_USER :: string where "CATCHALL_SERVICE_USER = ''aimx-catchall''"
definition CATCHALL_HOME_DIR :: string where "CATCHALL_HOME_DIR = ''/var/lib/aimx-catchall''"

definition create_system_user :: "setup_env \<Rightarrow> string \<Rightarrow> unit act" where
  "create_system_user env user =
     seq (look sh_users) (\<lambda>users.
       if users user \<noteq> None then ret ()
       else seq (of_result (se_useradd env)) (\<lambda>u. update (\<lambda>h. h\<lparr>sh_users := (sh_users h)(user \<mapsto> u)\<rparr>)))"

definition ensure_owned_directory :: "setup_env \<Rightarrow> string \<Rightarrow> string \<Rightarrow> nat \<Rightarrow> unit act" where
  "ensure_owned_directory env path owner mode =
     seq (file_op env path) (\<lambda>_.
     seq (look sh_users) (\<lambda>users.
       case users owner of
         None \<Rightarrow> fail (''Failed to chown '' @ path @ '' to '' @ owner @ '':'' @ owner)
       | Some u \<Rightarrow> update (\<lambda>h. h\<lparr>sh_dirs := (sh_dirs h)(path \<mapsto> (ru_uid u, ru_gid u, mode))\<rparr>)))"

definition ensure_catchall_user :: "setup_env \<Rightarrow> unit act" where
  "ensure_catchall_user env =
     seq (create_system_user env CATCHALL_SERVICE_USER) (\<lambda>_.
       ensure_owned_directory env CATCHALL_HOME_DIR CATCHALL_SERVICE_USER 0x1C0)"

definition config_has_catchall :: "setup_env \<Rightarrow> bool act" where
  "config_has_catchall env =
     look (\<lambda>h. case load_config env h of
       Some (Inr cfg, _) \<Rightarrow> list_ex (\<lambda>(name, mb). is_catchall cfg mb) (cfg_mailboxes cfg)
     | _ \<Rightarrow> False)"

section \<open>The wizard\<close>

text \<open>
  The loop over the DNS checks, of which the \<open>k\<close>-th comes out as \<open>pass k\<close>; the lines left when it
  ends. An empty line asks for the checks, and so does the end of the input.
\<close>

partial_function (option) dns_loop :: "(nat \<Rightarrow> bool) \<Rightarrow> nat \<Rightarrow> input \<Rightarrow> input option" where
  [code]: "dns_loop pass k inp =
     (case read_input inp of
        (line, inp') \<Rightarrow>
          if eq_ignore_ascii_case (trim line) ''q'' then Some inp'
          else if pass k then Some inp' else dns_loop pass (k + 1) inp')"

definition install_and_verify_service :: "setup_env \<Rightarrow> unit act" where
  "install_and_verify_service env =
     seq (of_result (se_service env)) (\<lambda>_.
     seq (update (\<lambda>h. h\<lparr>sh_running := True\<rparr>)) (\<lambda>_.
       if se_ready env then ret ()
       else fail (''aimx.service did not bind port 25 within the readiness window.'' @ [LF] @ ''Check '' @
         bq ''sudo journalctl -u aimx'' @ '' for errors, then run '' @ bq ''sudo aimx setup'' @ '' again.'')))"

definition setup_port_step :: "setup_env \<Rightarrow> unit act" where
  "setup_port_step env =
     seq (of_result (se_port25 env)) (\<lambda>status.
       let preflight = run_port25_preflight (se_outbound env) (se_inbound env) in
       case status of
         OtherProcess name \<Rightarrow>
           fail (''Port 25 is occupied by '' @ name @ ''. Stop the process and run '' @ bq ''aimx setup'' @ '' again.'')
       | Aimx \<Rightarrow> of_result preflight
       | Free \<Rightarrow> seq (of_result (se_temp_bind env)) (\<lambda>_. of_result preflight))"

definition setup_domain :: "string option \<Rightarrow> input \<Rightarrow> (string \<times> input) act" where
  "setup_domain domain inp =
     (case domain of
        Some d \<Rightarrow> seq (of_result (validate_domain d)) (\<lambda>_. ret (d, inp))
      | None \<Rightarrow> (case prompt_domain inp of (r, inp') \<Rightarrow> seq (of_result r) (\<lambda>d. ret (d, inp'))))"

definition ensure_dkim_key :: "setup_env \<Rightarrow> unit act" where
  "ensure_dkim_key env =
     seq (look sh_dkim) (\<lambda>k. if k then ret () else seq (file_op env ''dkim dir'') (\<lambda>_. generate_keypair env))"

text \<open>Whether the host is configured, the selector, and the lines left after the DNS step.\<close>

definition setup_dns_step :: "setup_env \<Rightarrow> string \<Rightarrow> string \<Rightarrow> input \<Rightarrow> (bool \<times> string \<times> input) act" where
  "setup_dns_step env data_dir domain inp =
     seq (file_op env data_dir) (\<lambda>_.
     seq (file_op env ''config dir'') (\<lambda>_.
     seq (look (\<lambda>h. case load_config env h of
            Some (Inr cfg, _) \<Rightarrow> (cfg_dkim_selector cfg, cfg_enable_ipv6 cfg)
          | _ \<Rightarrow> (''aimx'', False))) (\<lambda>(dkim_selector, enable_ipv6).
     seq (look (\<lambda>h. sh_running h \<and> sh_cert h \<and> sh_dkim h)) (\<lambda>already_configured.
     seq (of_result (se_ips env)) (\<lambda>(ipv4_detected, ipv6_detected).
     case ipv4_detected of
       None \<Rightarrow> fail ''Could not determine server IPv4 address''
     | Some server_ipv4 \<Rightarrow>
         seq (ensure_dkim_key env) (\<lambda>_.
         seq (of_result (se_public_key env)) (\<lambda>b64.
         (let results = (\<lambda>k. verify_all_dns (se_dns env k) domain (V4 server_ipv4)
                (map_option V6 (detect_server_ipv6 enable_ipv6 ipv6_detected)) dkim_selector
                (strip_prefix (dns_record_value b64) ''v=DKIM1; k=rsa; p='')) in
          (\<lambda>h. case dns_loop (\<lambda>k. all_pass (results k)) 0 inp of
                None \<Rightarrow> None
              | Some inp' \<Rightarrow> Some (Inr (already_configured, dkim_selector, inp'), h))))))))))"

definition setup_tls_step :: "setup_env \<Rightarrow> bool \<Rightarrow> unit act" where
  "setup_tls_step env already_configured =
     (if already_configured then ret ()
      else seq (look sh_cert) (\<lambda>c. if c then ret ()
        else seq (of_result (se_tls env)) (\<lambda>_. update (\<lambda>h. h\<lparr>sh_cert := True\<rparr>))))"

definition setup_trust_step :: "setup_env \<Rightarrow> input \<Rightarrow> (string \<times> string list) option act" where
  "setup_trust_step env inp =
     seq (look sh_config) (\<lambda>c.
       if c \<noteq> None then ret None
       else if is_noninteractive_env (se_noninteractive env) then ret (Some (''none'', []))
       else seq (of_result (prompt_trusted_senders 0 (se_senders env) inp)) (\<lambda>t. ret (Some t)))"

definition setup_install_step ::
  "setup_env \<Rightarrow> string \<Rightarrow> string \<Rightarrow> string \<Rightarrow> (string \<times> string list) option \<Rightarrow> bool \<Rightarrow> unit act" where
  "setup_install_step env data_dir domain dkim_selector trust_defaults already_configured =
     seq (finalize_setup env data_dir domain dkim_selector trust_defaults) (\<lambda>_.
     seq (config_has_catchall env) (\<lambda>b.
     seq (if b then ensure_catchall_user env else ret ()) (\<lambda>_.
     seq (file_op env ''README.md'') (\<lambda>_.
       if already_configured then ret () else install_and_verify_service env))))"

definition run_setup :: "setup_env \<Rightarrow> string option \<Rightarrow> string option \<Rightarrow> input \<Rightarrow> unit act" where
  "run_setup env domain data_dir inp =
     (if \<not> se_root env
      then fail (bq ''aimx setup'' @ '' requires root. To set up the AIMX server, run with: '' @ bq ''sudo aimx setup'' @
        ''.'' @ [LF, LF] @ ''If you already have aimx running and you'' @ [CHR 0x27] @ ''re trying to wire it into an AI agent, you want '' @
        bq ''aimx agents setup'' @ '' (no root needed).'')
      else
        seq (setup_port_step env) (\<lambda>_.
        seq (setup_domain domain inp) (\<lambda>(domain, inp).
        (let data_dir = (case data_dir of Some d \<Rightarrow> d | None \<Rightarrow> ''/var/lib/aimx'') in
        seq (setup_dns_step env data_dir domain inp) (\<lambda>(already_configured, dkim_selector, inp).
        seq (setup_tls_step env already_configured) (\<lambda>_.
        seq (setup_trust_step env inp) (\<lambda>trust_defaults.
        setup_install_step env data_dir domain dkim_selector trust_defaults already_configured)))))))"

end
