(* ===== verification/Ip6Facts.thy ===== *)
theory Ip6Facts
  imports IpFacts
begin

text \<open>A printed IPv6 address, compressed or not, is read back as itself.\<close>

section \<open>Segments\<close>

lemma unat_segment: "unat (segment w i) = unat w div 2 ^ (112 - 16 * i) mod 65536"
  by (simp only: segment_def unsigned_ucast_eq take_bit_eq_mod unat_drop) simp

lemma segments_less: "list_all (\<lambda>g. g < 65536) (segments w)"
  using unsigned_less [where ?'a = nat and ?'b = 16] by (simp add: segments_def)

lemma length_segments [simp]: "length (segments w) = 8"
  by (simp add: segments_def)

lemma of_segments_nat: "of_segments gs = word_of_nat (foldl (\<lambda>a g. 65536 * a + g) 0 gs)"
proof -
  have "foldl (\<lambda>a b. 65536 * a + word_of_nat b) (word_of_nat k) gs = (word_of_nat (foldl (\<lambda>a g. 65536 * a + g) k gs) :: ipv6)" for k
  proof (induction gs arbitrary: k)
    case (Cons g gs)
    have "65536 * word_of_nat k + word_of_nat g = (word_of_nat (65536 * k + g) :: ipv6)" by simp
    then show ?case using Cons.IH [of "65536 * k + g"] by (simp only: foldl.simps)
  qed simp
  from this [of 0] show ?thesis by (simp add: of_segments_def)
qed

lemma base_step: "65536 * (n div (65536 * b)) + n div b mod 65536 = n div (b::nat)"
  by (metis div_mult2_eq mult.commute mult_div_mod_eq)

lemma of_segments_segments: "of_segments (segments w) = w"
proof -
  let ?n = "unat w"
  have "?n < 2 ^ 128" using unsigned_less [where ?'a = nat and ?'b = 128, of w] by simp
  then have top: "?n div 2 ^ 112 mod 65536 = ?n div 2 ^ 112" by (intro mod_less less_mult_imp_div_less) simp
  have step: "65536 * (?n div 2 ^ (k + 16)) + ?n div 2 ^ k mod 65536 = ?n div 2 ^ k" for k
    using base_step [of ?n "2 ^ k"] by (simp add: power_add mult.commute)
  have "foldl (\<lambda>a g. 65536 * a + g) 0 (segments w) = ?n"
    using step [of 96] step [of 80] step [of 64] step [of 48] step [of 32] step [of 16] step [of 0]
    by (simp add: segments_def unat_segment top del: power_numeral)
  then show ?thesis by (simp add: of_segments_nat)
qed

section \<open>Hexadecimal groups\<close>

lemma hex_digit:
  fixes d :: nat
  defines "ch \<equiv> (if d < 10 then char_of (48 + d) else char_of (87 + d))"
  assumes "d < 16"
  shows "to_digit 16 ch = Some d" "ch \<noteq> CHR ''.''" "ch \<noteq> CHR '':''"
proof -
  have code: "code ch = (if d < 10 then 48 + d else 87 + d)" using assms(2) by (simp add: ch_def code_def)
  then have "code ch \<noteq> code CHR ''.''" "code ch \<noteq> code CHR '':''" by (simp_all add: code_def)
  then show "ch \<noteq> CHR ''.''" "ch \<noteq> CHR '':''" by auto
  show "to_digit 16 ch = Some d" using assms(2) by (simp add: to_digit_def is_ascii_digit_def code)
qed

definition hex_char :: "char \<Rightarrow> bool" where
  "hex_char c \<longleftrightarrow> to_digit 16 c \<noteq> None \<and> c \<noteq> CHR ''.'' \<and> c \<noteq> CHR '':''"

lemma show_hex_chars: "list_all hex_char (show_hex n)"
proof (induction n rule: show_hex.induct)
  case (1 n)
  have "hex_char (if n mod 16 < 10 then char_of (48 + n mod 16) else char_of (87 + n mod 16))"
    using hex_digit [of "n mod 16"] unfolding hex_char_def by simp
  with 1 show ?case by (cases "n < 16"; subst show_hex.simps) (simp_all add: Let_def)
qed

lemma show_hex_value: "foldl (\<lambda>a c. 16 * a + the (to_digit 16 c)) 0 (show_hex n) = n"
proof (induction n rule: show_hex.induct)
  case (1 n)
  have "the (to_digit 16 (if n mod 16 < 10 then char_of (48 + n mod 16) else char_of (87 + n mod 16))) = n mod 16"
    using hex_digit(1) [of "n mod 16"] by simp
  with 1 show ?case by (cases "n < 16"; subst show_hex.simps) (simp_all add: Let_def del: if_split)
qed

lemma show_hex_length: "n < 16 ^ Suc k \<Longrightarrow> length (show_hex n) \<le> Suc k"
proof (induction k arbitrary: n)
  case 0
  then show ?case by (simp add: show_hex.simps [of n] Let_def)
next
  case (Suc k)
  then show ?case using Suc.IH [of "n div 16"] by (subst show_hex.simps) (simp add: less_mult_imp_div_less Let_def)
qed

lemma show_hex_nonempty: "show_hex n \<noteq> []"
  by (subst show_hex.simps) (simp add: Let_def)

lemma colon_no_digit: "to_digit 16 CHR '':'' = None" "to_digit 10 CHR '':'' = None"
  by (simp_all add: to_digit_def is_ascii_digit_def code_def)

lemma read_number_hex:
  assumes "n < 65536" "s = [] \<or> hd s = CHR '':''"
  shows "read_number 16 4 65536 True (show_hex n @ s) = Some (n, s)"
proof -
  have "\<forall>c\<in>set (show_hex n). to_digit 16 c \<noteq> None" using show_hex_chars [of n] by (auto simp: list_all_iff hex_char_def)
  moreover have "takeWhile (\<lambda>c. to_digit 16 c \<noteq> None) s = []" using assms(2) by (cases s) (auto simp: colon_no_digit)
  ultimately have ds: "takeWhile (\<lambda>c. to_digit 16 c \<noteq> None) (show_hex n @ s) = show_hex n"
    by (subst takeWhile_append2) auto
  have "length (show_hex n) \<le> 4" using show_hex_length [of n 3] assms(1) by simp
  then show ?thesis
    using assms(1) show_hex_nonempty [of n] by (simp only: read_number_def Let_def ds show_hex_value) simp
qed

lemma no_ipv4:
  assumes "dropWhile (\<lambda>c. to_digit 10 c \<noteq> None) t = [] \<or> hd (dropWhile (\<lambda>c. to_digit 10 c \<noteq> None) t) \<noteq> CHR ''.''"
  shows "read_ipv4_addr t = None"
proof -
  have four: "(4::nat) = Suc (Suc 2)" by simp
  have rest: "drop (length (takeWhile (\<lambda>c. to_digit 10 c \<noteq> None) t)) t = dropWhile (\<lambda>c. to_digit 10 c \<noteq> None) t"
    by (simp add: dropWhile_eq_drop)
  have octets: "read_octets (Suc 0) (Suc 2) (dropWhile (\<lambda>c. to_digit 10 c \<noteq> None) t) = None"
    unfolding read_octets.simps(2) using assms
    by (auto simp: read_separator_def simp del: dropWhile_eq_Nil_conv split: list.splits)
  have "read_number 10 3 256 False t = Some (v, s') \<Longrightarrow> s' = dropWhile (\<lambda>c. to_digit 10 c \<noteq> None) t" for v s'
    unfolding read_number_def Let_def rest by (auto split: if_splits)
  then have "read_octets (Suc 0) (Suc 2) s' = None" if "read_number 10 3 256 False t = Some (v, s')" for v s'
    using that octets by metis
  then show ?thesis
    unfolding read_ipv4_addr_def four read_octets.simps(2) [of 0]
    by (auto simp: read_separator_def simp del: read_octets.simps split: option.splits)
qed

lemma no_ipv4_hex:
  assumes "list_all hex_char a" "s = [] \<or> hd s = CHR '':''"
  shows "read_ipv4_addr (a @ s) = None"
proof (rule no_ipv4)
  let ?d = "\<lambda>c. to_digit 10 c \<noteq> None"
  show "dropWhile ?d (a @ s) = [] \<or> hd (dropWhile ?d (a @ s)) \<noteq> CHR ''.''"
  proof (cases "\<forall>c\<in>set a. ?d c")
    case True
    then have "dropWhile ?d (a @ s) = dropWhile ?d s" by (simp add: dropWhile_append2)
    with assms(2) show ?thesis by (cases s) (auto simp: colon_no_digit)
  next
    case False
    then have "dropWhile ?d (a @ s) = dropWhile ?d a @ s" "dropWhile ?d a \<noteq> []"
      by (auto simp: dropWhile_append1 dropWhile_eq_Nil_conv)
    moreover from this have "hd (dropWhile ?d a) \<in> set a" by (metis hd_in_set set_dropWhileD)
    ultimately show ?thesis using assms(1) by (auto simp: list_all_iff hex_char_def)
  qed
qed

section \<open>Groups\<close>

text \<open>The text of groups from the \<open>i\<close>-th on, and where the reader of groups stops.\<close>

definition group_text :: "nat \<Rightarrow> nat list \<Rightarrow> string" where
  "group_text i gs = (if gs = [] then [] else (if i = 0 then [] else '':'') @ join_hex gs)"

definition stops :: "string \<Rightarrow> bool" where
  "stops s \<longleftrightarrow> s = [] \<or> (\<exists>t. s = ''::'' @ t)"

lemma join_hex_Cons: "join_hex (g # gs) = show_hex g @ group_text (Suc i) gs"
  by (cases gs) (simp_all add: group_text_def)

lemma group_text_Cons: "group_text i (g # gs) = (if i = 0 then [] else '':'') @ show_hex g @ group_text (Suc i) gs"
  by (simp add: group_text_def [of i] join_hex_Cons [of g gs i])

lemma group_text_colon: "stops s \<Longrightarrow> group_text (Suc i) gs @ s = [] \<or> hd (group_text (Suc i) gs @ s) = CHR '':''"
  by (auto simp: group_text_def stops_def)

lemma read_nothing: "read_number 16 4 65536 True [] = None" "read_number 16 4 65536 True (CHR '':'' # t) = None"
  "read_ipv4_addr [] = None" "read_ipv4_addr (CHR '':'' # t) = None"
  using no_ipv4_hex [of "[]" "[]"] no_ipv4_hex [of "[]" "CHR '':'' # t"] by (simp_all add: read_number_def colon_no_digit)

lemma read_groups_stops: "stops s \<Longrightarrow> read_groups i n s = ([], False, s)"
  by (cases n) (auto simp: stops_def read_separator_def read_nothing)

lemma read_group:
  assumes "g < 65536" "s = [] \<or> hd s = CHR '':''" "read_groups (Suc i) n s = (gs, b, s')"
  shows "read_groups i (Suc n) ((if i = 0 then [] else '':'') @ show_hex g @ s) = (g # gs, b, s')"
  using assms(3) read_number_hex [OF assms(1,2)] no_ipv4_hex [OF show_hex_chars assms(2), of g]
  by (cases "n = 0"; cases "i = 0") (simp_all add: read_separator_def)

lemma read_groups_text:
  assumes "list_all (\<lambda>g. g < 65536) gs" "length gs \<le> n" "stops s"
  shows "read_groups i n (group_text i gs @ s) = (gs, False, s)"
  using assms
proof (induction gs arbitrary: i n)
  case Nil
  then show ?case by (simp add: group_text_def read_groups_stops)
next
  case (Cons g gs)
  then obtain m where n: "n = Suc m" by (cases n) auto
  have "read_groups (Suc i) m (group_text (Suc i) gs @ s) = (gs, False, s)" using Cons n by simp
  from read_group [OF _ group_text_colon [OF Cons.prems(3)] this, of g] Cons.prems(1)
  show ?case by (simp add: n group_text_Cons)
qed

section \<open>The longest run of zeroes\<close>

definition zero_run :: "nat list \<Rightarrow> nat \<times> nat \<Rightarrow> bool" where
  "zero_run gs r \<longleftrightarrow> (\<forall>j. j < snd r \<longrightarrow> fst r + j < length gs \<and> gs ! (fst r + j) = 0)"

lemma longest_zeroes_run:
  "zero_run (pre @ gs) longest \<Longrightarrow> zero_run (pre @ gs) current \<Longrightarrow> snd current = 0 \<or> fst current + snd current = length pre \<Longrightarrow>
   zero_run (pre @ gs) (longest_zeroes (length pre) longest current gs)"
proof (induction gs arbitrary: pre longest current)
  case (Cons g gs)
  let ?cur = "if snd current = 0 then (length pre, 1) else (fst current, snd current + 1)"
  show ?case
  proof (cases "g = 0")
    case True
    have run: "zero_run ((pre @ [g]) @ gs) ?cur"
      using Cons.prems(2,3) True by (auto simp: zero_run_def less_Suc_eq nth_append)
    have at: "fst ?cur + snd ?cur = length (pre @ [g])" using Cons.prems(3) by auto
    have "zero_run ((pre @ [g]) @ gs) (if snd longest < snd ?cur then ?cur else longest)"
      using run Cons.prems(1) by simp
    from Cons.IH [OF this run] at show ?thesis using True by (simp add: Let_def)
  next
    case False
    have "zero_run ((pre @ [g]) @ gs) (0, 0)" by (simp add: zero_run_def)
    from Cons.IH [OF _ this] Cons.prems(1) False show ?thesis by simp
  qed
qed simp

lemma zero_run_replicate:
  assumes "zero_run gs (st, k)" "0 < k"
  shows "take st gs @ replicate k 0 @ drop (st + k) gs = gs" "st + k \<le> length gs"
proof -
  have "st + (k - 1) < length gs" using assms(1) [unfolded zero_run_def, rule_format, of "k - 1"] assms(2) by simp
  then show le: "st + k \<le> length gs" using assms(2) by simp
  have "take k (drop st gs) = replicate k 0"
    using assms(1) le by (intro nth_equalityI) (auto simp: zero_run_def)
  then show "take st gs @ replicate k 0 @ drop (st + k) gs = gs"
    by (metis append_take_drop_id drop_drop add.commute)
qed

section \<open>Round trip\<close>

lemma parse_colon: "read_ipv6_addr s = Some (gs, []) \<Longrightarrow> read_ipv4_addr s = None \<Longrightarrow> parse_ip s = Some (V6 (of_segments gs))"
  by (simp add: parse_ip_def)

lemma join_no_ipv4: "stops s \<Longrightarrow> read_ipv4_addr (join_hex gs @ s) = None"
proof (cases gs)
  case Nil
  then show "stops s \<Longrightarrow> ?thesis" by (auto simp: stops_def read_nothing)
next
  case (Cons g gs')
  then show "stops s \<Longrightarrow> ?thesis"
    using no_ipv4_hex [OF show_hex_chars [of g], of "group_text 1 gs' @ s"] group_text_colon [of s 0 gs']
    by (simp add: join_hex_Cons [of g gs' 0])
qed

lemma read_joined:
  assumes "list_all (\<lambda>g. g < 65536) gs" "length gs \<le> n" "stops s"
  shows "read_groups 0 n (join_hex gs @ s) = (gs, False, s)"
  using read_groups_text [OF assms, of 0] by (cases "gs = []") (simp_all add: group_text_def)

lemma read_compressed:
  assumes "list_all (\<lambda>g. g < 65536) gs" "zero_run gs (st, k)" "1 < k" "length gs = 8"
  shows "read_ipv6_addr (join_hex (take st gs) @ ''::'' @ join_hex (drop (st + k) gs)) = Some (gs, [])"
proof -
  have "0 < k" using assms(3) by simp
  note run = zero_run_replicate [OF assms(2) this]
  let ?tail = "join_hex (drop (st + k) gs)"
  have small: "list_all (\<lambda>g. g < 65536) (take st gs)" "list_all (\<lambda>g. g < 65536) (drop (st + k) gs)"
    using assms(1) by (auto simp: list_all_iff dest: in_set_takeD in_set_dropD)
  have len: "length (take st gs) = st" "st < 8" "length (drop (st + k) gs) = 8 - st - k"
    using run(2) assms(3,4) by auto
  have "stops (''::'' @ ?tail)" by (simp add: stops_def)
  from read_joined [OF small(1) _ this, of 8] len
  have head: "read_groups 0 8 (join_hex (take st gs) @ ''::'' @ ?tail) = (take st gs, False, ''::'' @ ?tail)" by simp
  have tail: "read_groups 0 (8 - (st + 1)) ?tail = (drop (st + k) gs, False, [])"
    using read_joined [OF small(2), of "8 - (st + 1)" "[]"] len assms(3) by (simp add: stops_def)
  have "8 - st - length (drop (st + k) gs) = k" using run(2) assms(4) len by simp
  then show ?thesis
    unfolding read_ipv6_addr_def head using len(1,2) run(1) tail by (simp add: strip_prefix_def starts_with_def del: One_nat_def)
qed

lemma read_plain:
  assumes "list_all (\<lambda>g. g < 65536) gs" "length gs = 8"
  shows "read_ipv6_addr (join_hex gs) = Some (gs, [])"
  using read_joined [OF assms(1), of 8 "[]"] assms(2) by (simp add: read_ipv6_addr_def stops_def)

lemma mapped_value:
  assumes "to_ipv4_mapped w = Some v"
  shows "of_segments [0, 0, 0, 0, 0, 65535, 256 * (octets v ! 0) + octets v ! 1, 256 * (octets v ! 2) + octets v ! 3] = w"
proof -
  from assms have hi: "drop_bit 32 w = 0xFFFF" and v: "v = ucast w" by (simp_all add: to_ipv4_mapped_def split: if_splits)
  have "unat w div 2 ^ 32 = unat (0xFFFF :: ipv6)" using hi unat_drop [of 32 w] by simp
  then have top: "unat w div 2 ^ 32 = 65535" by simp
  have low: "unat v = unat w mod 2 ^ 32" unfolding v by (simp only: unsigned_ucast_eq take_bit_eq_mod) simp
  let ?v = "unat v"
  have "foldl (\<lambda>a g. 65536 * a + g) 0 [0, 0, 0, 0, 0, 65535, 256 * (octets v ! 0) + octets v ! 1, 256 * (octets v ! 2) + octets v ! 3] =
      65535 * 2 ^ 32 + (256 * (256 * (256 * (?v div 16777216) + ?v div 65536 mod 256) + ?v div 256 mod 256) + ?v mod 256)"
    by (simp add: octets_div algebra_simps)
  also have "\<dots> = unat w" using div_mult_mod_eq [of "unat w" "2 ^ 32"] by (simp only: bytes_of_nat top low)
  finally show ?thesis by (simp only: of_segments_nat) simp
qed

lemma show_hex_ffff: "show_hex 65535 = ''ffff''"
proof -
  have "of_char CHR ''f'' = (102::nat)" by simp
  then have "char_of (102::nat) = CHR ''f''" by (metis char_of_char)
  then show ?thesis by (simp add: show_hex.simps Let_def)
qed

lemma read_mapped:
  "read_ipv6_addr (''::ffff:'' @ show_ipv4 v) =
    Some ([0, 0, 0, 0, 0, 65535, 256 * (octets v ! 0) + octets v ! 1, 256 * (octets v ! 2) + octets v ! 3], [])"
proof -
  have "stops (''::'' @ ''ffff:'' @ show_ipv4 v)" by (simp add: stops_def)
  from read_groups_stops [OF this, of 0 8]
  have head: "read_groups 0 8 (''::ffff:'' @ show_ipv4 v) = ([], False, ''::ffff:'' @ show_ipv4 v)" by simp
  have "read_ipv4_addr (show_ipv4 v) = Some (octets v, [])" using read_ipv4_show [of "[]" v] by simp
  then have "read_groups (Suc 0) (Suc 5) (CHR '':'' # show_ipv4 v) =
      ([256 * (octets v ! 0) + octets v ! 1, 256 * (octets v ! 2) + octets v ! 3], True, [])"
    unfolding read_groups.simps(2) by (simp add: read_separator_def)
  from read_group [OF _ _ this, of 65535]
  have "read_groups 0 7 (''ffff:'' @ show_ipv4 v) =
      ([65535, 256 * (octets v ! 0) + octets v ! 1, 256 * (octets v ! 2) + octets v ! 3], True, [])"
    by (simp add: show_hex_ffff)
  moreover have "replicate 5 (0::nat) = [0, 0, 0, 0, 0]" by (simp add: eval_nat_numeral)
  ultimately show ?thesis
    unfolding read_ipv6_addr_def head by (simp add: strip_prefix_def starts_with_def)
qed

lemma printed_ipv6_parses: "parse_ip (show_ipv6 w) = Some (V6 w)"
proof (cases "to_ipv4_mapped w")
  case (Some v)
  have "read_ipv4_addr (''::ffff:'' @ show_ipv4 v) = None" by (simp add: read_nothing)
  from parse_colon [OF read_mapped this] mapped_value [OF Some] show ?thesis by (simp add: show_ipv6_def Some)
next
  case None
  obtain st k where run: "longest_zeroes 0 (0, 0) (0, 0) (segments w) = (st, k)" by fastforce
  have zr: "zero_run (segments w) (st, k)"
    using longest_zeroes_run [of "[]" "segments w" "(0, 0)" "(0, 0)"] run by (simp add: zero_run_def)
  have st: "stops []" "stops (''::'' @ t)" for t by (simp_all add: stops_def)
  show ?thesis
  proof (cases "1 < k")
    case True
    from parse_colon [OF read_compressed [OF segments_less zr True length_segments] join_no_ipv4 [OF st(2)]] True
    show ?thesis by (simp add: show_ipv6_def None run of_segments_segments)
  next
    case False
    from parse_colon [OF read_plain [OF segments_less length_segments]] join_no_ipv4 [OF st(1)] False
    show ?thesis by (simp add: show_ipv6_def None run of_segments_segments)
  qed
qed

lemma printed_ip_parses: "parse_ip (show_ip ip) = Some ip"
  by (cases ip) (simp_all add: printed_ipv4_parses printed_ipv6_parses)

end
