(* ===== verification/PreflightFacts.thy ===== *)
theory PreflightFacts
  imports Preflight SmtpData
begin

text \<open>
  The two clients of the port checks meet the three servers: the probe of the service and the
  outbound check of the command line, against the daemon's SMTP session, the temporary responder
  and the service's own responder. What the clients need of a server is the locale
  \<open>ehlo_server\<close>; each server is an interpretation.
\<close>

section \<open>Lines of a reply\<close>

definition reply_line_ok :: "string \<Rightarrow> bool" where
  "reply_line_ok l \<longleftrightarrow> valid_utf8 l \<and> LF \<notin> set l"

lemma CR_facts [simp]: "CR \<noteq> LF" "LF \<noteq> CR" "valid_utf8 [CR]" "is_ascii_char CR"
  by (simp_all add: CR_def LF_def is_ascii_char_def code_def valid_utf8_is_ascii is_ascii_def)

lemma read_reply_line:
  assumes "reply_line_ok l"
  shows "read_text_line (crlf l @ s, e) = (Finished (crlf l), (s, e))"
  using assms split_once_append [of LF "l @ [CR]" s] valid_utf8_append [of l "[CR]"]
  by (simp add: crlf_def reply_line_ok_def read_text_line_def)

lemma starts_with_crlf [simp]: "starts_with (crlf (p @ x) @ s) p" "starts_with (crlf (p @ x)) p"
  by (simp_all add: crlf_def)

lemma crlf_Nil [simp]: "crlf l \<noteq> []"
  by (simp add: crlf_def)

lemma crlf_Cons: "crlf (c # l) = c # crlf l"
  by (simp add: crlf_def)

lemma ehlo_reply_dashes:
  "list_all (\<lambda>l. reply_line_ok (''250-'' @ l)) ds \<Longrightarrow> reply_line_ok (''250 '' @ f) \<Longrightarrow>
   ehlo_reply (concat (map (\<lambda>l. crlf (''250-'' @ l)) ds) @ crlf (''250 '' @ f) @ s, e) = (Finished True, (s, e))"
proof (induction ds)
  case Nil
  then show ?case using read_reply_line [of "''250 '' @ f" s e] by (subst ehlo_reply.simps) (simp add: crlf_Cons)
next
  case (Cons l ds)
  then show ?case
    using read_reply_line [of "''250-'' @ l" "concat (map (\<lambda>l. crlf (''250-'' @ l)) ds) @ crlf (''250 '' @ f) @ s" e]
    by (subst ehlo_reply.simps) (simp add: crlf_Cons)
qed

lemma outbound_reply_dashes:
  "list_all (\<lambda>l. reply_line_ok (''250-'' @ l)) ds \<Longrightarrow> reply_line_ok (''250 '' @ f) \<Longrightarrow>
   outbound_reply (concat (map (\<lambda>l. crlf (''250-'' @ l)) ds) @ crlf (''250 '' @ f) @ s, e)"
proof (induction ds)
  case Nil
  then show ?case using read_reply_line [of "''250 '' @ f" s e] by (subst outbound_reply.simps) (simp add: crlf_Cons)
next
  case (Cons l ds)
  then show ?case
    using read_reply_line [of "''250-'' @ l" "concat (map (\<lambda>l. crlf (''250-'' @ l)) ds) @ crlf (''250 '' @ f) @ s" e]
    by (subst outbound_reply.simps) (simp add: crlf_Cons)
qed

section \<open>The contract of a server\<close>

text \<open>The commands of either client, whose name is \<open>n\<close>.\<close>

definition greetings :: "string \<Rightarrow> bytes" where
  "greetings n = crlf (''EHLO '' @ n) @ crlf ''QUIT''"

definition client_name :: "string \<Rightarrow> bool" where
  "client_name n \<longleftrightarrow> n \<noteq> [] \<and> list_all plain_byte n \<and> length n < 900"

definition ehlo_answer :: "bytes \<Rightarrow> bool" where
  "ehlo_answer out \<longleftrightarrow>
     (\<exists>g ds f b. out = crlf (''220'' @ g) @ concat (map (\<lambda>l. crlf (''250-'' @ l)) ds) @ crlf (''250 '' @ f) @ crlf b \<and>
        reply_line_ok (''220'' @ g) \<and> list_all (\<lambda>l. reply_line_ok (''250-'' @ l)) ds \<and> reply_line_ok (''250 '' @ f) \<and>
        reply_line_ok b)"

locale ehlo_server =
  fixes serves :: bool
    and answers :: "bytes \<Rightarrow> bytes"
  assumes greets: "serves \<Longrightarrow> client_name n \<Longrightarrow> ehlo_answer (answers (greetings n))"
begin

lemma answer_shape:
  assumes "serves" "client_name n"
  obtains g ds f b where
    "answers (greetings n) = crlf (''220'' @ g) @ concat (map (\<lambda>l. crlf (''250-'' @ l)) ds) @ crlf (''250 '' @ f) @ crlf b"
    "reply_line_ok (''220'' @ g)" "list_all (\<lambda>l. reply_line_ok (''250-'' @ l)) ds" "reply_line_ok (''250 '' @ f)" "reply_line_ok b"
  using greets [OF assms] by (auto simp: ehlo_answer_def)

text \<open>Both clients take the server for reachable, and said what the server heard.\<close>

lemma probe_reaches:
  assumes "serves"
  shows "smtp_ehlo_handshake (\<lambda>_. True) (answers (greetings ''check.aimx.email''), Closed) =
    (Finished True, greetings ''check.aimx.email'')"
proof -
  have "client_name ''check.aimx.email''" by (simp add: client_name_def plain_byte_def code_def)
  then obtain g ds f b where
    out: "answers (greetings ''check.aimx.email'') = crlf (''220'' @ g) @ concat (map (\<lambda>l. crlf (''250-'' @ l)) ds) @ crlf (''250 '' @ f) @ crlf b"
    and ok: "reply_line_ok (''220'' @ g)" "list_all (\<lambda>l. reply_line_ok (''250-'' @ l)) ds" "reply_line_ok (''250 '' @ f)" "reply_line_ok b"
    by (rule answer_shape [OF assms])
  have said: "probe_hello @ probe_quit = greetings ''check.aimx.email''"
    by (simp add: probe_hello_def probe_quit_def greetings_def crlf_def)
  show ?thesis
    unfolding smtp_ehlo_handshake_def out said
    using read_reply_line [OF ok(1), of "concat (map (\<lambda>l. crlf (''250-'' @ l)) ds) @ crlf (''250 '' @ f) @ crlf b" Closed]
      ehlo_reply_dashes [OF ok(2,3), of "crlf b" Closed] read_reply_line [OF ok(4), of "[]" Closed]
    by (simp add: crlf_Cons)
qed

lemma check_passes:
  assumes "serves"
  shows "outbound_dialogue (\<lambda>_. True) (answers (greetings ''aimx''), Closed) = (Inr True, greetings ''aimx'')"
proof -
  have "client_name ''aimx''" by (simp add: client_name_def plain_byte_def code_def)
  then obtain g ds f b where
    out: "answers (greetings ''aimx'') = crlf (''220'' @ g) @ concat (map (\<lambda>l. crlf (''250-'' @ l)) ds) @ crlf (''250 '' @ f) @ crlf b"
    and ok: "reply_line_ok (''220'' @ g)" "list_all (\<lambda>l. reply_line_ok (''250-'' @ l)) ds" "reply_line_ok (''250 '' @ f)" "reply_line_ok b"
    by (rule answer_shape [OF assms])
  have said: "check_hello @ probe_quit = greetings ''aimx''"
    by (simp add: check_hello_def probe_quit_def greetings_def crlf_def)
  show ?thesis
    unfolding outbound_dialogue_def out
    using read_reply_line [OF ok(1), of "concat (map (\<lambda>l. crlf (''250-'' @ l)) ds) @ crlf (''250 '' @ f) @ crlf b" Closed]
      outbound_reply_dashes [OF ok(2,3), of "crlf b" Closed] said
    by (simp add: crlf_Cons)
qed

end

section \<open>Commands as the servers read them\<close>

lemma plain_char [simp]: "plain_byte c \<Longrightarrow> c \<noteq> LF" "plain_byte c \<Longrightarrow> c \<noteq> CR" "plain_byte c \<Longrightarrow> is_ascii_char c"
  by (auto simp: plain_byte_def LF_def CR_def is_ascii_char_def code_def)

lemma client_name_chars:
  assumes "client_name n"
  shows "LF \<notin> set (''EHLO '' @ n)" "CR \<notin> set (''EHLO '' @ n)" "is_ascii (''EHLO '' @ n)" "n \<noteq> []" "plain_byte (last n)" "plain_byte (hd n)"
  using assms by (auto simp: client_name_def is_ascii_def list_all_iff is_ascii_char_def code_def LF_def CR_def plain_byte_def)

lemma quit_chars: "LF \<notin> set ''QUIT''" "is_ascii ''QUIT''"
  by (simp_all add: LF_def is_ascii_def is_ascii_char_def code_def)

lemma crlf_as_LF: "crlf l = (l @ [CR]) @ [LF]"
  by (simp add: crlf_def)

lemma trim_end_crlf: "trim_end (crlf l) = trim_end l"
  using trim_end_blank [of LF "l @ [CR]"] trim_end_blank [of CR l] by (simp add: crlf_def)

lemma trim_command:
  assumes "l \<noteq> []" "plain_byte (hd l)" "plain_byte (last l)"
  shows "trim_end (crlf l) = l" "trim (crlf l) = l"
proof -
  obtain l' c where l: "l = l' @ [c]" using assms(1) by (cases l rule: rev_cases) auto
  then show one: "trim_end (crlf l) = l" using assms(3) trim_end_plain [of c l'] by (simp add: trim_end_crlf)
  have "trim_start (crlf l) = crlf l" using assms by (cases l) (simp_all add: crlf_def)
  then show "trim (crlf l) = l" using one by (simp add: trim_def)
qed

lemma reply_line_ascii: "is_ascii l \<Longrightarrow> LF \<notin> set l \<Longrightarrow> reply_line_ok l"
  by (simp add: reply_line_ok_def valid_utf8_is_ascii)

lemma two_line_answer:
  assumes "reply_line_ok (''220'' @ g)" "reply_line_ok (''250 '' @ f)" "reply_line_ok b"
  shows "ehlo_answer (crlf (''220'' @ g) @ crlf (''250 '' @ f) @ crlf b)"
  unfolding ehlo_answer_def using assms by (intro exI [of _ g] exI [of _ "[]"] exI [of _ f] exI [of _ b]) simp

section \<open>The service's responder\<close>

lemma capped_line:
  assumes "LF \<notin> set l" "length (crlf l @ s) < 1024"
  shows "read_capped_line (crlf l @ s, e) = Some (crlf l, (s, e))"
proof -
  have "LF \<notin> set (l @ [CR])" using assms(1) by simp
  from split_once_append [OF this, of s] have "split_once LF (crlf l @ s) = Some (l @ [CR], s)" by (simp add: crlf_def)
  with assms(2) show ?thesis by (simp add: read_capped_line_def SMTP_MAX_LINE_BYTES_def crlf_def)
qed

lemma line_reply_text:
  assumes "is_ascii l" "l \<noteq> []" "last l \<notin> {CR, LF}"
  shows "line_reply (crlf l) =
    (let upper = map to_ascii_upper l in
     if starts_with upper ''EHLO'' \<or> starts_with upper ''HELO'' then (crlf (''250 '' @ SMTP_HOSTNAME), False)
     else if starts_with upper ''QUIT'' then (crlf ''221 Bye'', True) else (crlf ''500 Command not recognized'', False))"
proof -
  obtain l' c where l: "l = l' @ [c]" "c \<noteq> CR" "c \<noteq> LF" using assms(2,3) by (cases l rule: rev_cases) auto
  have "valid_utf8 (crlf l)"
    using valid_utf8_append [of l "[CR, LF]"] assms(1)
    by (simp add: crlf_def valid_utf8_is_ascii is_ascii_def is_ascii_char_def CR_def LF_def code_def)
  moreover have "rev (dropWhile (\<lambda>c. c \<in> {CR, LF}) (rev (crlf l))) = l" using l by (simp add: crlf_def)
  ultimately show ?thesis by (simp add: line_reply_def Let_def crlf_def)
qed

lemma responder_answers:
  assumes "client_name n"
  shows "smtp_session (\<lambda>_. True) (greetings n, Closed) =
    crlf (''220 '' @ SMTP_HOSTNAME @ '' SMTP aimx-verifier'') @ crlf (''250 '' @ SMTP_HOSTNAME) @ crlf ''221 Bye''"
proof -
  note ch = client_name_chars [OF assms]
  have len: "length (crlf (''EHLO '' @ n) @ crlf ''QUIT'') < 1024" using assms by (simp add: client_name_def crlf_def)
  have first: "read_capped_line (greetings n, Closed) = Some (crlf (''EHLO '' @ n), (crlf ''QUIT'', Closed))"
    using capped_line [OF ch(1) len] by (simp add: greetings_def)
  have second: "read_capped_line (crlf ''QUIT'', Closed) = Some (crlf ''QUIT'', ([], Closed))"
    using capped_line [OF quit_chars(1), of "[]" Closed] by (simp add: crlf_def)
  have ehlo: "line_reply (crlf (''EHLO '' @ n)) = (crlf (''250 '' @ SMTP_HOSTNAME), False)"
    using ch by (subst line_reply_text) (simp_all add: to_ascii_upper_def is_ascii_lowercase_def code_def)
  have quit: "line_reply (crlf ''QUIT'') = (crlf ''221 Bye'', True)"
    by (subst line_reply_text) (simp_all add: quit_chars(2) to_ascii_upper_def is_ascii_lowercase_def code_def CR_def LF_def)
  have "answer_lines (\<lambda>_. True) (crlf ''QUIT'', Closed) = crlf ''221 Bye''"
    by (subst answer_lines.simps) (simp add: second quit)
  then have "answer_lines (\<lambda>_. True) (greetings n, Closed) = crlf (''250 '' @ SMTP_HOSTNAME) @ crlf ''221 Bye''"
    by (subst answer_lines.simps) (simp add: first ehlo [simplified])
  then show ?thesis by (simp add: smtp_session_def smtp_banner_def crlf_def)
qed

interpretation verifier: ehlo_server True "\<lambda>inp. smtp_session (\<lambda>_. True) (inp, Closed)"
proof
  fix n assume n: "client_name n"
  show "ehlo_answer (smtp_session (\<lambda>_. True) (greetings n, Closed))"
    unfolding responder_answers [OF n]
    using two_line_answer [of "'' '' @ SMTP_HOSTNAME @ '' SMTP aimx-verifier''" SMTP_HOSTNAME "''221 Bye''"]
    by (simp add: reply_line_ascii SMTP_HOSTNAME_def is_ascii_def is_ascii_char_def code_def LF_def)
qed

section \<open>The temporary responder\<close>

lemma temporary_answers:
  assumes "client_name n"
  shows "handle_temp_smtp_connection (\<lambda>_. True) (greetings n, Closed) =
    crlf ''220 localhost ESMTP aimx'' @ crlf ''250 localhost'' @ crlf ''221 Bye''"
proof -
  note ch = client_name_chars [OF assms]
  have first: "read_text_line (greetings n, Closed) = (Finished (crlf (''EHLO '' @ n)), (crlf ''QUIT'', Closed))"
    using read_reply_line [OF reply_line_ascii [OF ch(3,1)], of "crlf ''QUIT''" Closed] by (simp add: greetings_def)
  have second: "read_text_line (crlf ''QUIT'', Closed) = (Finished (crlf ''QUIT''), ([], Closed))"
    using read_reply_line [OF reply_line_ascii [OF quit_chars(2,1)], of "[]" Closed] by simp
  have "trim (crlf (''EHLO '' @ n)) = ''EHLO '' @ n"
    using ch by (intro trim_command) (simp_all add: plain_byte_def code_def)
  then have ehlo: "temp_reply (crlf (''EHLO '' @ n)) = (crlf ''250 localhost'', False)"
    by (simp add: temp_reply_def crlf_def to_ascii_upper_def is_ascii_lowercase_def code_def)
  have "trim (crlf ''QUIT'') = ''QUIT''" by (intro trim_command) (simp_all add: plain_byte_def code_def)
  then have quit: "temp_reply (crlf ''QUIT'') = (crlf ''221 Bye'', True)"
    by (simp add: temp_reply_def crlf_def to_ascii_upper_def is_ascii_lowercase_def code_def)
  have "temp_lines (\<lambda>_. True) (crlf ''QUIT'', Closed) = crlf ''221 Bye''"
    by (subst temp_lines.simps) (simp add: second quit)
  then have "temp_lines (\<lambda>_. True) (greetings n, Closed) = crlf ''250 localhost'' @ crlf ''221 Bye''"
    by (subst temp_lines.simps) (simp add: first ehlo [simplified])
  then show ?thesis by (simp add: handle_temp_smtp_connection_def temp_banner_def crlf_def)
qed

interpretation temporary: ehlo_server True "\<lambda>inp. handle_temp_smtp_connection (\<lambda>_. True) (inp, Closed)"
proof
  fix n assume n: "client_name n"
  show "ehlo_answer (handle_temp_smtp_connection (\<lambda>_. True) (greetings n, Closed))"
    unfolding temporary_answers [OF n]
    using two_line_answer [of "'' localhost ESMTP aimx''" "''localhost''" "''221 Bye''"]
    by (simp add: reply_line_ascii is_ascii_def is_ascii_char_def code_def LF_def)
qed

section \<open>The daemon\<close>

text \<open>
  What the daemon writes to a client whose commands arrive as \<open>chunk\<close> cuts them. It serves where
  the clients' commands are within its bounds, its hostname is a line of text and the upper case
  of a command already in capitals is itself.
\<close>

definition daemon_answers :: "'w session_params \<Rightarrow> (bytes \<Rightarrow> rd_event list) \<Rightarrow> 'w \<Rightarrow> bytes \<Rightarrow> bytes" where
  "daemon_answers pa chunk w inp = concat (cn_out (snd (run_session pa (new_conn (chunk inp) None w))))"

definition daemon_serves :: "'w session_params \<Rightarrow> (bytes \<Rightarrow> rd_event list) \<Rightarrow> bool" where
  "daemon_serves pa chunk \<longleftrightarrow>
     pa_upper pa ''EHLO'' = ''EHLO'' \<and> pa_upper pa ''QUIT'' = ''QUIT'' \<and> 2 \<le> pa_max_commands pa \<and>
     reply_line_ok (pa_hostname pa) \<and>
     (\<forall>inp. inp \<noteq> [] \<longrightarrow> all_chunks (chunk inp) \<and> concat (map chunk_bytes (chunk inp)) = inp)"

lemma reply_line_ascii_pre: "is_ascii p \<Longrightarrow> LF \<notin> set p \<Longrightarrow> reply_line_ok (p @ l) \<longleftrightarrow> reply_line_ok l"
  by (simp add: reply_line_ok_def valid_utf8_is_ascii_append)

lemma reply_line_ascii_post: "is_ascii q \<Longrightarrow> LF \<notin> set q \<Longrightarrow> reply_line_ok l \<Longrightarrow> reply_line_ok (l @ q)"
  by (simp add: reply_line_ok_def valid_utf8_append valid_utf8_is_ascii)

lemma greeting_command:
  assumes "client_name n"
  shows "parse_command up (''EHLO '' @ n) = (up ''EHLO'', n)"
proof -
  note ch = client_name_chars [OF assms]
  have "trim n = n" using ch by (intro trim_plain_ends) auto
  moreover have "trim (''EHLO '' @ n) = ''EHLO '' @ n"
    using ch by (intro trim_plain_ends) (simp_all add: plain_byte_def code_def)
  ultimately show ?thesis by (simp add: parse_command_def find_char_def)
qed

lemma quit_command: "parse_command up ''QUIT'' = (up ''QUIT'', [])"
  by (simp add: parse_command_def find_char_def trim_plain_ends plain_byte_def code_def)

lemma daemon_reply:
  assumes "client_name n" "reply_line_ok (pa_hostname pa)" "ss_tls_active ss = False"
  shows "\<exists>ds f. fst (handle_ehlo pa n ss) = concat (map (\<lambda>l. crlf (''250-'' @ l)) ds) @ crlf (''250 '' @ f) \<and>
    list_all (\<lambda>l. reply_line_ok (''250-'' @ l)) ds \<and> reply_line_ok (''250 '' @ f)"
proof -
  note ch = client_name_chars [OF assms(1)]
  have chars: "is_ascii ''250-''" "LF \<notin> set ''250-''" "is_ascii '' Hello ''" "LF \<notin> set '' Hello ''"
    by (simp_all add: is_ascii_def is_ascii_char_def code_def LF_def)
  have "is_ascii n" "LF \<notin> set n" using ch by (auto simp: is_ascii_def)
  then have "reply_line_ok ('' Hello '' @ n)" using chars by (subst reply_line_ascii_pre) (simp_all add: reply_line_ascii)
  then have hello: "reply_line_ok (''250-'' @ pa_hostname pa @ '' Hello '' @ n)"
    using chars assms(2) by (subst reply_line_ascii_pre) (simp_all add: reply_line_ok_def valid_utf8_append)
  have size: "reply_line_ok (''250-SIZE '' @ show_nat k)" for k
    using is_ascii_show_nat [of k] show_nat_no_line_end [of k]
    by (subst reply_line_ascii_pre) (simp_all add: reply_line_ascii is_ascii_def is_ascii_char_def code_def LF_def)
  have fixed: "reply_line_ok ''250-8BITMIME''" "reply_line_ok ''250-PIPELINING''" "reply_line_ok ''250-STARTTLS''" "reply_line_ok ''250 SMTPUTF8''"
    by (auto intro!: reply_line_ascii simp: is_ascii_def is_ascii_char_def code_def LF_def)
  have "ss_tls_active (reset_transaction (ss\<lparr>ss_ehlo_hostname := n, ss_state := Greeted\<rparr>)) = False"
    using assms(3) by (simp add: reset_transaction_def)
  then show ?thesis using ch(4) hello size [of "pa_max_message_size pa"] fixed
    by (intro exI [of _ "[pa_hostname pa @ '' Hello '' @ n, ''SIZE '' @ show_nat (pa_max_message_size pa), ''8BITMIME'', ''PIPELINING''] @
          (if pa_tls pa then [''STARTTLS''] else [])"] exI [of _ "''SMTPUTF8''"])
      (simp add: handle_ehlo_def Let_def)
qed

lemma line_step:
  assumes "all_chunks (rd_events (cn_rd c))" "rd_bytes (cn_rd c) = crlf l @ rest" "LF \<notin> set l" "is_ascii l"
    "length l < 1000" "l \<noteq> []" "plain_byte (last l)" "ss_state (cn_ss c) \<noteq> Data" "ss_command_count (cn_ss c) < pa_max_commands pa"
  shows "\<exists>r. all_chunks (rd_events r) \<and> rd_bytes r = rest \<and>
    command_step pa c = (case parse_command (pa_upper pa) l of (cmd, args) \<Rightarrow>
      run_command pa cmd args (c\<lparr>cn_rd := r, cn_ss := (cn_ss c)\<lparr>ss_command_count := ss_command_count (cn_ss c) + 1\<rparr>\<rparr>))"
proof -
  obtain l' ch where l: "l = l' @ [ch]" using assms(6) by (cases l rule: rev_cases) auto
  then have "trim_end (crlf l) = l" using assms(7) trim_end_plain [of ch l'] by (simp add: trim_end_crlf)
  moreover have "length l + 1 < MAX_COMMAND_LINE_LENGTH" using assms(5) by (simp add: MAX_COMMAND_LINE_LENGTH_def)
  ultimately show ?thesis
    using read_crlf_line [OF assms(1-4), of MAX_COMMAND_LINE_LENGTH] assms(6,8,9)
    by (auto simp: command_step_def handle_line_def)
qed

lemma daemon_session:
  assumes "daemon_serves pa chunk" "client_name n"
  shows "\<exists>ds f. daemon_answers pa chunk w (greetings n) =
      crlf (''220'' @ '' '' @ pa_hostname pa @ '' ESMTP aimx'') @
      concat (map (\<lambda>l. crlf (''250-'' @ l)) ds) @ crlf (''250 '' @ f) @ crlf ''221 Bye'' \<and>
    list_all (\<lambda>l. reply_line_ok (''250-'' @ l)) ds \<and> reply_line_ok (''250 '' @ f)"
proof -
  note ch = client_name_chars [OF assms(2)]
  note ok = assms(1) [unfolded daemon_serves_def]
  define c where "c = (new_conn (chunk (greetings n)) None w)\<lparr>cn_out := [banner pa]\<rparr>"
  have "greetings n \<noteq> []" by (simp add: greetings_def)
  with ok have rd: "all_chunks (rd_events (cn_rd c))" "rd_bytes (cn_rd c) = crlf (''EHLO '' @ n) @ crlf ''QUIT''"
    by (simp_all add: c_def new_conn_def rd_bytes_def greetings_def)
  have len: "length (''EHLO '' @ n) < 1000" using assms(2) by (simp add: client_name_def)
  have fresh: "ss_state (cn_ss c) = Connected" "ss_command_count (cn_ss c) = 0" "ss_tls_active (cn_ss c) = False"
    "cn_budget c = None" "cn_out c = [banner pa]"
    by (simp_all add: c_def new_conn_def new_session_state_def)
  obtain r where r: "all_chunks (rd_events r)" "rd_bytes r = crlf ''QUIT''"
    and step: "command_step pa c = run_command pa ''EHLO'' n (c\<lparr>cn_rd := r, cn_ss := (cn_ss c)\<lparr>ss_command_count := 1\<rparr>\<rparr>)"
    using line_step [OF rd ch(1,3) len, of pa] ch fresh ok by (auto simp: greeting_command [OF assms(2), simplified])
  obtain c1 where c1: "command_step pa c = (None, c1)" "cn_rd c1 = r" "ss_state (cn_ss c1) = Greeted" "ss_command_count (cn_ss c1) = 1"
    "cn_budget c1 = None" "cn_out c1 = [banner pa, fst (handle_ehlo pa n ((cn_ss c)\<lparr>ss_command_count := 1\<rparr>))]"
    using fresh ch(4)
    by (auto simp: step run_command_def respond_ss_def respond_def write_all_def handle_ehlo_def reset_transaction_def Let_def)
  obtain r2 where step2: "command_step pa c1 = run_command pa ''QUIT'' [] (c1\<lparr>cn_rd := r2, cn_ss := (cn_ss c1)\<lparr>ss_command_count := 2\<rparr>\<rparr>)"
    using line_step [of c1 "''QUIT''" "[]" pa] c1 r quit_chars ok by (auto simp: quit_command plain_byte_def code_def numeral_2_eq_2)
  have "command_loop pa c1 = (Done, snd (command_step pa c1))"
    by (subst command_loop.simps) (simp add: step2 run_command_def respond_exit_def)
  moreover have "cn_out (snd (command_step pa c1)) = cn_out c1 @ [crlf ''221 Bye'']"
    using c1(5) by (simp add: step2 run_command_def respond_exit_def write_all_def)
  ultimately have out: "command_loop pa c = (Done, snd (command_step pa c1))"
    "cn_out (snd (command_step pa c1)) = [banner pa, fst (handle_ehlo pa n ((cn_ss c)\<lparr>ss_command_count := 1\<rparr>)), crlf ''221 Bye'']"
    using c1 by (simp_all add: command_loop.simps [of pa c])
  have "write_all (banner pa) (new_conn (chunk (greetings n)) None w) = (True, c)"
    by (simp add: write_all_def c_def new_conn_def)
  then have ans: "daemon_answers pa chunk w (greetings n) =
      banner pa @ fst (handle_ehlo pa n ((cn_ss c)\<lparr>ss_command_count := 1\<rparr>)) @ crlf ''221 Bye''"
    by (simp add: daemon_answers_def run_session_def out)
  have "ss_tls_active ((cn_ss c)\<lparr>ss_command_count := 1\<rparr>) = False" using fresh by simp
  from daemon_reply [OF assms(2) _ this, of pa] ok obtain ds f where
    "fst (handle_ehlo pa n ((cn_ss c)\<lparr>ss_command_count := 1\<rparr>)) = concat (map (\<lambda>l. crlf (''250-'' @ l)) ds) @ crlf (''250 '' @ f)"
    "list_all (\<lambda>l. reply_line_ok (''250-'' @ l)) ds" "reply_line_ok (''250 '' @ f)" by blast
  with ans show ?thesis by (intro exI [of _ ds] exI [of _ f]) (simp add: banner_def)
qed

interpretation daemon: ehlo_server "daemon_serves pa chunk" "daemon_answers pa chunk w"
proof
  fix n assume serves: "daemon_serves pa chunk" and n: "client_name n"
  have chars: "is_ascii ''220 ''" "LF \<notin> set ''220 ''" "is_ascii '' ESMTP aimx''" "LF \<notin> set '' ESMTP aimx''"
    by (simp_all add: is_ascii_def is_ascii_char_def code_def LF_def)
  have "reply_line_ok (pa_hostname pa)" using serves by (simp add: daemon_serves_def)
  then have "reply_line_ok (pa_hostname pa @ '' ESMTP aimx'')" using chars by (intro reply_line_ascii_post)
  then have "reply_line_ok (''220'' @ '' '' @ pa_hostname pa @ '' ESMTP aimx'')"
    using chars reply_line_ascii_pre [of "''220 ''" "pa_hostname pa @ '' ESMTP aimx''"] by simp
  moreover have "reply_line_ok ''221 Bye''" by (simp add: reply_line_ascii is_ascii_def is_ascii_char_def code_def LF_def)
  ultimately show "ehlo_answer (daemon_answers pa chunk w (greetings n))"
    using daemon_session [OF serves n, of w] unfolding ehlo_answer_def by blast
qed

section \<open>What the checks find\<close>

lemma contains_infix: "contains (a @ p @ b) p"
proof (induction a)
  case Nil
  have "starts_with (p @ b) p" by simp
  then show ?case by (cases "p @ b") auto
qed simp

lemma is_ascii_show_hex: "is_ascii (show_hex n)"
proof (induction n rule: show_hex.induct)
  case (1 n)
  have "n mod 16 < 16" by simp
  then have "is_ascii [if n mod 16 < 10 then char_of (48 + n mod 16) else char_of (87 + n mod 16)]"
    by (auto simp: is_ascii_def is_ascii_char_def code_def)
  with 1 show ?case by (cases "n < 16"; subst show_hex.simps) (simp_all add: Let_def)
qed

lemma is_ascii_join_hex: "is_ascii (join_hex gs)"
  by (induction gs rule: join_hex.induct)
    (simp_all add: is_ascii_show_hex, simp_all add: is_ascii_def is_ascii_char_def code_def)

lemma is_ascii_show_ip: "is_ascii (show_ip ip)"
proof -
  have v4: "is_ascii (show_ipv4 w)" for w
    using is_ascii_show_nat by (simp add: show_ipv4_def octets_def is_ascii_def is_ascii_char_def code_def)
  have "is_ascii (show_ipv6 w)" for w
    using v4 is_ascii_join_hex
    by (auto simp: show_ipv6_def is_ascii_def is_ascii_char_def code_def split: option.splits prod.splits)
  with v4 show ?thesis by (cases ip) simp_all
qed

lemma curl_reads_the_answer: "curl_probe (Some (probe_body (ProbeResponse True (show_ip ip))))"
proof -
  have "is_ascii (probe_body (ProbeResponse True (show_ip ip)))"
    using is_ascii_show_ip [of ip] by (simp add: probe_body_def is_ascii_def is_ascii_char_def code_def)
  then show ?thesis
    using contains_infix [of "''{''" "[CHR 0x22] @ ''reachable'' @ [CHR 0x22] @ '':true''"
      "'','' @ [CHR 0x22] @ ''ip'' @ [CHR 0x22] @ '':'' @ [CHR 0x22] @ show_ip ip @ [CHR 0x22] @ ''}''"]
    by (simp add: curl_probe_def probe_body_def is_ascii_lossy)
qed

text \<open>
  C24: The preflight of a setup passes on a host whose port 25 is open both ways. The service, asked
  from a public address, talks to the daemon, or to the temporary responder while there is no daemon,
  over whatever chunks the network makes of its commands, and answers that the port is reachable;
  the outbound check talks to the service's own responder; and the command reads both as a pass.
\<close>

theorem preflight_passes:
  assumes "daemon_serves pa chunk" "resolve_client_ip peer hdr = Some ip" "\<not> is_blocked_target ip"
    "net ip \<in> {Some (\<lambda>_. True, daemon_answers pa chunk w (greetings ''check.aimx.email''), Closed),
              Some (\<lambda>_. True, handle_temp_smtp_connection (\<lambda>_. True) (greetings ''check.aimx.email'', Closed), Closed)}"
    "out a = Some (\<lambda>_. True, smtp_session (\<lambda>_. True) (greetings ''aimx'', Closed), Closed)"
  shows "fst (probe net peer hdr) = ProbeResponse True (show_ip ip) \<and>
    run_port25_preflight (check_outbound_port25 (Inr (a # as)) out)
      (Inr (curl_probe (Some (probe_body (fst (probe net peer hdr)))))) = Inr ()"
proof -
  have ans: "fst (probe net peer hdr) = ProbeResponse True (show_ip ip)"
    using assms(2-4) daemon.probe_reaches [OF assms(1), of w] temporary.probe_reaches
    by (auto simp: probe_def check_port25_ehlo_def)
  have "check_outbound_port25 (Inr (a # as)) out = Inr True"
    using assms(5) verifier.check_passes by (simp add: check_outbound_port25_def)
  then show ?thesis unfolding ans by (simp add: run_port25_preflight_def check_outbound_def inbound_result_def curl_reads_the_answer)
qed

lemma demo_serves: "daemon_serves demo_params (\<lambda>inp. [Chunk inp])"
  by (simp add: daemon_serves_def demo_params_def all_chunks_def reply_line_ok_def to_ascii_upper_def is_ascii_lowercase_def
      code_def LF_def valid_utf8_is_ascii is_ascii_def is_ascii_char_def)

definition demo_peer :: ip_addr where "demo_peer = V4 0x08080808"

lemma demo_peer_public: "resolve_client_ip demo_peer None = Some demo_peer" "\<not> is_blocked_target demo_peer"
  by code_simp+

theorem preflight_passes_witness:
  "fst (probe (\<lambda>_. Some (\<lambda>_. True, daemon_answers demo_params (\<lambda>inp. [Chunk inp]) [] (greetings ''check.aimx.email''), Closed)) demo_peer None) =
     ProbeResponse True (show_ip demo_peer)"
  using preflight_passes [OF demo_serves demo_peer_public, of
      "\<lambda>_. Some (\<lambda>_. True, daemon_answers demo_params (\<lambda>inp. [Chunk inp]) [] (greetings ''check.aimx.email''), Closed)" "[]"
      "\<lambda>_. Some (\<lambda>_. True, smtp_session (\<lambda>_. True) (greetings ''aimx'', Closed), Closed)" demo_peer "[]"] by simp

text \<open>
  The probe waits for the reply to its QUIT as for any other line: a server that answered the EHLO
  and then keeps the connection open without a word is, when the time is up, not reachable.
\<close>

lemma silence_after_quit:
  assumes "reply_line_ok (''220'' @ g)" "reply_line_ok (''250 '' @ f)"
  shows "\<not> check_port25_ehlo (\<lambda>_. Some (\<lambda>_. True, crlf (''220'' @ g) @ crlf (''250 '' @ f), Silent)) ip"
proof -
  have "ehlo_reply (crlf (''250 '' @ f), Silent) = (Finished True, ([], Silent))"
    using ehlo_reply_dashes [of "[]" f "[]" Silent] assms(2) by simp
  then show ?thesis
    using read_reply_line [OF assms(1), of "crlf (''250 '' @ f)" Silent]
    by (simp add: check_port25_ehlo_def smtp_ehlo_handshake_def crlf_Cons read_text_line_def [of "([], Silent)"] split_once_def)
qed

end
