(* ===== verification/DnsText.thy ===== *)
theory DnsText
  imports Dns Ip6Facts PreflightFacts ClientFacts MailboxFacts
begin

text \<open>
  The texts of DNS records: what \<open>dig\<close> prints of them, the strings a long text is cut into, the
  words of an SPF record and the tags of a DKIM or DMARC record.
\<close>

section \<open>Characters\<close>

definition QT :: char where "QT = CHR 0x22"

text \<open>A character of a host name, of an address or of a key; and one of a record's text.\<close>

definition value_char :: "char \<Rightarrow> bool" where
  "value_char c \<longleftrightarrow> plain_byte c \<and> c \<noteq> QT \<and> c \<noteq> CHR '';'' \<and> c \<noteq> CHR ''/''"

definition text_char :: "char \<Rightarrow> bool" where
  "text_char c \<longleftrightarrow> (plain_byte c \<or> c = CHR '' '') \<and> c \<noteq> QT"

lemma text_char_facts: "\<not> text_char LF" "\<not> text_char CR" "\<not> text_char QT" "text_char c \<Longrightarrow> is_ascii_char c" "value_char c \<Longrightarrow> text_char c"
  by (auto simp: text_char_def value_char_def plain_byte_def LF_def CR_def is_ascii_char_def code_def)

lemma text_ascii: "list_all text_char s \<Longrightarrow> is_ascii s"
  by (auto simp: is_ascii_def list_all_iff text_char_facts)

lemma hex_value_char: "hex_char c \<Longrightarrow> value_char c"
  by (auto simp: hex_char_def to_digit_def is_ascii_digit_def value_char_def plain_byte_def QT_def code_def Let_def split: if_splits)

lemma nat_value_chars: "list_all value_char (show_nat n)"
  using show_nat_digits [of n]
  by (auto simp: list_all_iff is_ascii_digit_def value_char_def plain_byte_def QT_def code_def)

lemma hex_value_chars: "list_all value_char (show_hex n)"
  using show_hex_chars [of n] by (auto simp: list_all_iff hex_value_char)

lemma sep_value_char: "value_char CHR ''.''" "value_char CHR '':''" "value_char CHR ''f''"
  by (simp_all add: value_char_def plain_byte_def QT_def code_def)

lemma ip_value_chars: "list_all value_char (show_ip ip)"
proof -
  have v4: "list_all value_char (show_ipv4 w)" for w
    by (simp add: show_ipv4_def octets_def nat_value_chars sep_value_char)
  have "list_all value_char (join_hex gs)" for gs
    by (induction gs rule: join_hex.induct) (simp_all add: hex_value_chars sep_value_char)
  then have "list_all value_char (show_ipv6 w)" for w
    by (simp add: show_ipv6_def v4 sep_value_char split: option.splits prod.splits)
  with v4 show ?thesis by (cases ip) simp_all
qed

lemma ip_nonempty: "show_ip ip \<noteq> []"
proof -
  have v4: "show_ipv4 w \<noteq> []" for w by (simp add: show_ipv4_def octets_def)
  have "show_ipv6 w \<noteq> []" for w
    using printed_ipv6_parses [of w] by (auto simp: parse_ip_def read_nothing read_ipv6_addr_def read_groups_stops stops_def strip_prefix_def)
  with v4 show ?thesis by (cases ip) simp_all
qed

section \<open>What \<open>dig\<close> prints\<close>

lemma answer_lines_read:
  assumes "list_all (\<lambda>l. l \<noteq> [] \<and> list_all (\<lambda>c. is_ascii_char c \<and> c \<noteq> LF \<and> c \<noteq> CR) l \<and> plain_byte (hd l) \<and> plain_byte (last l)) ls"
  shows "answer_records (concat (map (\<lambda>l. l @ [LF]) ls)) = ls"
proof -
  have "is_ascii (concat (map (\<lambda>l. l @ [LF]) ls))"
    using assms by (induction ls) (auto simp: is_ascii_def list_all_iff is_ascii_LF)
  then have "utf8_lossy (concat (map (\<lambda>l. l @ [LF]) ls)) = concat (map (\<lambda>l. l @ [LF]) ls)" by (rule is_ascii_lossy)
  moreover have "lines (concat (map (\<lambda>l. l @ [LF]) ls)) = ls" using assms
  proof (induction ls)
    case Nil
    then show ?case by (subst lines.simps) (simp add: split_once_def)
  next
    case (Cons l ls)
    then have "LF \<notin> set l" "CR \<notin> set l" by (auto simp: list_all_iff)
    with Cons show ?case using lines_line [of l "concat (map (\<lambda>l. l @ [LF]) ls)"] by simp
  qed
  moreover have "map trim ls = ls" "filter (\<lambda>l. trim l \<noteq> []) ls = ls"
    using assms by (induction ls) (simp_all add: trim_plain_ends)
  ultimately show ?thesis by (simp add: answer_records_def)
qed

fun quoted_strings :: "string list \<Rightarrow> string" where
  "quoted_strings [] = []"
| "quoted_strings [q] = [QT] @ q @ [QT]"
| "quoted_strings (q # qs) = [QT] @ q @ [QT] @ '' '' @ quoted_strings qs"

lemma replace_skip: "QT \<notin> set q \<Longrightarrow> replace_all (QT # p) r (q @ s) = q @ replace_all (QT # p) r s"
  by (induction q) (auto simp: replace_all.simps(2))

fun string_tail :: "string list \<Rightarrow> string" where
  "string_tail [] = [QT]"
| "string_tail (q # qs) = [QT] @ '' '' @ [QT] @ q @ string_tail qs"

lemma quoted_as_tail: "quoted_strings (q # qs) = QT # q @ string_tail qs"
  by (induction qs arbitrary: q) simp_all

lemma replace_tail:
  "list_all (\<lambda>q. QT \<notin> set q) qs \<Longrightarrow> replace_all [QT, CHR '' '', QT] [] (string_tail qs) = concat qs @ [QT]"
proof (induction qs)
  case Nil
  then show ?case by (simp add: replace_all.simps(2))
next
  case (Cons q qs)
  then show ?case by (simp add: replace_all.simps(2) [of _ _ QT] replace_skip)
qed

lemma unquote_strings:
  assumes "concat cs = v" "cs \<noteq> []" "list_all text_char v" "v \<noteq> []" "plain_byte (hd v)" "last v \<noteq> QT"
  shows "unquote_txt (quoted_strings cs) = v"
proof -
  obtain q qs where cs: "cs = q # qs" using assms(2) by (cases cs) auto
  have "QT \<notin> set v" using assms(3) text_char_facts(3) by (auto simp: list_all_iff)
  then have noqt: "list_all (\<lambda>q. QT \<notin> set q) (q # qs)" using assms(1) by (auto simp: cs list_all_iff)
  have "hd q \<noteq> CHR '' ''" if "q \<noteq> []" using assms(1,5) that by (cases q) (auto simp: cs plain_byte_def code_def)
  then have "\<not> starts_with (QT # q @ string_tail qs) [QT, CHR '' '', QT]"
    by (cases q; cases qs) (auto simp: QT_def)
  then have "replace_all [QT, CHR '' '', QT] [] (quoted_strings cs) = QT # v @ [QT]"
    using noqt assms(1) by (simp add: cs quoted_as_tail replace_all.simps(2) [of _ _ QT] replace_skip replace_tail)
  moreover have "hd v \<noteq> QT" using assms(3,4) by (cases v) (auto simp: text_char_facts)
  moreover from this have "dropWhile (\<lambda>d. d = QT) (QT # v @ [QT]) = v @ [QT]" using assms(4) by (cases v) simp_all
  moreover have "dropWhile (\<lambda>d. d = QT) (rev v) = rev v" using assms(4,6) by (cases v rule: rev_cases) simp_all
  ultimately show ?thesis by (simp add: unquote_txt_def trim_matches_def trim_end_matches_def flip: QT_def)
qed

section \<open>Words and tags\<close>

lemma plain_no_blank: "plain_byte c \<Longrightarrow> [c] \<notin> set white_space"
  using white_space_ends by (auto simp: list_all_iff)

lemma words_loop_word:
  "list_all plain_byte x \<Longrightarrow> words_loop w (map (\<lambda>c. [c]) x @ cs) = words_loop (w @ x) cs"
  by (induction x arbitrary: w) (simp_all add: plain_no_blank)

lemma blank_is_white: "'' '' \<in> set white_space"
  by (simp add: white_space_def)

fun spaced :: "string list \<Rightarrow> string" where
  "spaced [] = []"
| "spaced [w] = w"
| "spaced (w # ws) = w @ '' '' @ spaced ws"

lemma words_of_spaced:
  "list_all (\<lambda>w. w \<noteq> [] \<and> list_all plain_byte w) ws \<Longrightarrow> words_loop [] (map (\<lambda>c. [c]) (spaced ws)) = ws"
proof (induction ws rule: spaced.induct)
  case (2 w)
  then show ?case using words_loop_word [of w "[]" "[]"] by simp
next
  case (3 w w' ws)
  then show ?case using words_loop_word [of w "[]" "'' '' # map (\<lambda>c. [c]) (spaced (w' # ws))"]
    by (simp add: blank_is_white)
qed simp

lemma split_whitespace_spaced:
  assumes "list_all (\<lambda>w. w \<noteq> [] \<and> list_all plain_byte w) ws"
  shows "split_whitespace (spaced ws) = ws"
proof -
  have "is_ascii (spaced ws)" using assms
    by (induction ws rule: spaced.induct) (auto simp: is_ascii_def list_all_iff is_ascii_char_def plain_byte_def code_def)
  then show ?thesis by (simp add: split_whitespace_def utf8_chars_ascii words_of_spaced [OF assms])
qed

lemma remove_white_plain: "list_all plain_byte s \<Longrightarrow> remove_white s = s"
proof -
  assume s: "list_all plain_byte s"
  then have "is_ascii s" by (auto simp: is_ascii_def list_all_iff)
  moreover have "filter (\<lambda>ch. ch \<notin> set white_space) (map (\<lambda>c. [c]) s) = map (\<lambda>c. [c]) s"
    using s by (induction s) (simp_all add: plain_no_blank)
  moreover have "concat (map (\<lambda>c. [c]) s) = s" by (induction s) simp_all
  ultimately show ?thesis by (simp add: remove_white_def utf8_chars_ascii)
qed

lemma split_char_none: "c \<notin> set s \<Longrightarrow> split_char c s = [s]"
  by (induction s) auto

lemma split_char_append: "c \<notin> set a \<Longrightarrow> split_char c (a @ c # s) = a # split_char c s"
  by (induction a) auto

text \<open>The value that publishes a key gives the key back.\<close>

definition key_text :: "string \<Rightarrow> bool" where
  "key_text k \<longleftrightarrow> k \<noteq> [] \<and> list_all (\<lambda>c. is_ascii_alphanumeric c \<or> c = CHR ''+'' \<or> c = CHR ''/'' \<or> c = CHR ''='') k"

lemma key_chars:
  assumes "key_text k"
  shows "list_all plain_byte k" "list_all text_char k" "CHR '';'' \<notin> set k" "CHR '' '' \<notin> set k" "k \<noteq> []"
proof -
  have "plain_byte c \<and> text_char c \<and> c \<noteq> CHR '';'' \<and> c \<noteq> CHR '' ''"
    if "is_ascii_alphanumeric c \<or> c = CHR ''+'' \<or> c = CHR ''/'' \<or> c = CHR ''=''" for c
    using that by (auto simp: is_ascii_alphanumeric_def is_ascii_digit_def is_ascii_lowercase_def is_ascii_uppercase_def
      plain_byte_def text_char_def QT_def code_def)
  with assms show "list_all plain_byte k" "list_all text_char k" "CHR '';'' \<notin> set k" "CHR '' '' \<notin> set k" "k \<noteq> []"
    by (auto simp: key_text_def list_all_iff)
qed

lemma published_key_reads_back:
  assumes "key_text k"
  shows "extract_dkim_p_value (dns_record_value k) = Some k"
proof -
  note ch = key_chars [OF assms]
  have parts: "split_char CHR '';'' (dns_record_value k) = [''v=DKIM1'', '' k=rsa'', '' p='' @ k]"
    using split_char_append [of "CHR '';''" "''v=DKIM1''" "'' k=rsa; p='' @ k"]
      split_char_append [of "CHR '';''" "'' k=rsa''" "'' p='' @ k"] split_char_none [of "CHR '';''" "'' p='' @ k"] ch(3)
    by (simp add: dns_record_value_def)
  have "trim (''p='' @ k) = ''p='' @ k"
    using ch(1,5) by (intro trim_plain_ends) (auto simp: plain_byte_def code_def list_all_iff)
  then have "trim '' k=rsa'' = ''k=rsa''" "trim ''v=DKIM1'' = ''v=DKIM1''" "trim ('' p='' @ k) = ''p='' @ k"
    by (simp_all add: trim_space trim_plain_ends plain_byte_def code_def)
  then show ?thesis
    using ch(1,5) by (simp add: extract_dkim_p_value_def parts strip_prefix_def starts_with_def remove_white_plain)
qed

end
