(* ===== verification/DnsFacts.thy ===== *)
theory DnsFacts
  imports DnsText
begin

text \<open>
  A lookup stops at the first answer; the records the setup advises, once published, pass every
  check, whatever strings their texts are cut into; and the setup's DKIM check and the daemon's
  agree.
\<close>

section \<open>The cascade\<close>

text \<open>The runs of the schedule in order, up to the first that answers.\<close>

definition dig_runs :: "dig_runner \<Rightarrow> string \<Rightarrow> string \<Rightarrow> dig_outcome list" where
  "dig_runs run record_type domain =
     map (\<lambda>(n, resolver). run n (dig_short_args resolver record_type domain)) (enumerate 0 dig_schedule)"

definition answered :: "dig_outcome \<Rightarrow> bool" where
  "answered out \<longleftrightarrow> (case out of DigOk _ \<Rightarrow> True | _ \<Rightarrow> False)"

text \<open>What a lookup over these runs comes to, and how many of them it makes.\<close>

definition lookup_result :: "dig_outcome list \<Rightarrow> string + string list \<Rightarrow> nat \<Rightarrow> bool" where
  "lookup_result outs res k \<longleftrightarrow>
     (case find answered outs of
        Some (DigOk out) \<Rightarrow> res = Inr (answer_records out) \<and> k = length (takeWhile (\<lambda>x. \<not> answered x) outs) + 1
      | _ \<Rightarrow> res \<notin> range Inr \<and> k = length outs)"

lemma dig_attempts_result:
  assumes "dig_attempts run t d n e rs = (res, n + k)"
  shows "lookup_result (map (\<lambda>(i, r). run i (dig_short_args r t d)) (enumerate n rs)) res k"
  using assms
proof (induction rs arbitrary: n e k)
  case Nil
  then show ?case by (auto simp: lookup_result_def)
next
  case (Cons r rs)
  have later: "lookup_result (map (\<lambda>(i, r). run i (dig_short_args r t d)) (enumerate n (r # rs))) res k"
    if un: "\<not> answered (run n (dig_short_args r t d))" and go: "dig_attempts run t d (Suc n) e' rs = (res, n + k)" for e'
  proof -
    have "Suc n \<le> m" if "dig_attempts run t d (Suc n) e' rs = (res, m)" for m e'
      using that by (induction rs arbitrary: n e') (fastforce split: dig_outcome.splits)+
    from this [OF go] have "dig_attempts run t d (Suc n) e' rs = (res, Suc n + (k - 1))" "0 < k" using go by auto
    from Cons.IH [OF this(1)] un \<open>0 < k\<close> show ?thesis
      by (auto simp: lookup_result_def split: option.splits dig_outcome.splits)
  qed
  show ?case
  proof (cases "run n (dig_short_args r t d)")
    case (DigOk out)
    with Cons.prems show ?thesis by (simp add: lookup_result_def answered_def)
  next
    case (DigFailed st err)
    with Cons.prems show ?thesis by (intro later) (simp_all add: answered_def)
  next
    case (DigSpawnError err)
    with Cons.prems show ?thesis by (intro later) (simp_all add: answered_def)
  qed
qed

lemma takeWhile_bound: "find P xs = Some y \<Longrightarrow> length (takeWhile (\<lambda>x. \<not> P x) xs) < length xs"
  by (induction xs) (auto split: if_splits)

lemma cascade_result:
  "lookup_result (dig_runs run t d) (fst (dig_with_cascade run t d)) (snd (dig_with_cascade run t d))"
  using dig_attempts_result [of run t d 0 "[]" dig_schedule "fst (dig_with_cascade run t d)" "snd (dig_with_cascade run t d)"]
  by (simp add: dig_with_cascade_def dig_runs_def)

lemma length_dig_runs [simp]: "length (dig_runs run t d) = 9"
  by (simp add: dig_runs_def dig_schedule_def DIG_RESOLVERS_def DIG_RETRY_ATTEMPTS_def)

text \<open>
  A DNS lookup makes at most nine runs of \<open>dig\<close>, three at each of the three resolvers in turn,
  stops at the first that succeeds and gives its records, an empty answer included; it fails only
  when all nine have failed.
\<close>

theorem lookup_takes_the_first_answer:
  "lookup_result (dig_runs run t d) (fst (dig_with_cascade run t d)) (snd (dig_with_cascade run t d)) \<and>
   snd (dig_with_cascade run t d) \<le> 9"
  using cascade_result [of run t d] takeWhile_bound [of answered "dig_runs run t d"]
  by (auto simp: lookup_result_def split: option.splits dig_outcome.splits)

lemma cascade_at_once:
  "run 0 (dig_short_args ''1.1.1.1'' t d) = DigOk out \<Longrightarrow> fst (dig_with_cascade run t d) = Inr (answer_records out)"
  by (simp add: dig_with_cascade_def dig_schedule_def DIG_RESOLVERS_def DIG_RETRY_ATTEMPTS_def numeral_3_eq_3)

section \<open>Records that were published\<close>

text \<open>
  What \<open>dig\<close> prints of the records a zone holds at a name: the texts are cut into strings by
  \<open>pieces\<close>, each string in quotes.
\<close>

definition dig_line :: "(string \<Rightarrow> string list) \<Rightarrow> dns_record \<Rightarrow> string" where
  "dig_line pieces r = (if dr_type r = ''TXT'' then quoted_strings (pieces (dr_value r)) else dr_value r)"

definition zone_answer :: "(string \<Rightarrow> string list) \<Rightarrow> dns_record list \<Rightarrow> string \<Rightarrow> string \<Rightarrow> bytes" where
  "zone_answer pieces zone t n =
     concat (map (\<lambda>l. l @ [LF]) (map (dig_line pieces) (filter (\<lambda>r. dr_type r = t \<and> dr_name r = n) zone)))"

definition serves_zone :: "dig_runner \<Rightarrow> (string \<Rightarrow> string list) \<Rightarrow> dns_record list \<Rightarrow> bool" where
  "serves_zone run pieces zone \<longleftrightarrow>
     (\<forall>v. concat (pieces v) = v \<and> pieces v \<noteq> []) \<and>
     (\<forall>n resolver t name. run n (dig_short_args resolver t name) = DigOk (zone_answer pieces zone t name))"

definition real_network_ops :: "dig_runner \<Rightarrow> (string \<Rightarrow> string) \<Rightarrow> (string list \<Rightarrow> string) \<Rightarrow> (ip_addr list \<Rightarrow> string) \<Rightarrow> network_ops" where
  "real_network_ops run lower debug debug_ips =
     \<lparr>no_mx = resolve_mx run, no_a = resolve_a run, no_aaaa = resolve_aaaa run, no_txt = resolve_txt run,
      no_lower = lower, no_debug = debug, no_debug_ips = debug_ips\<rparr>"

definition host_name :: "string \<Rightarrow> bool" where
  "host_name d \<longleftrightarrow> d \<noteq> [] \<and> list_all (\<lambda>c. is_ascii_alphanumeric c \<or> c = CHR ''-'' \<or> c = CHR ''.'' \<or> c = CHR ''_'') d"

lemma host_name_chars:
  assumes "host_name d"
  shows "list_all value_char d" "d \<noteq> []"
proof -
  have "value_char c" if "is_ascii_alphanumeric c \<or> c = CHR ''-'' \<or> c = CHR ''.'' \<or> c = CHR ''_''" for c
    using that by (auto simp: is_ascii_alphanumeric_def is_ascii_digit_def is_ascii_lowercase_def is_ascii_uppercase_def
      plain_byte_def value_char_def QT_def code_def)
  with assms show "list_all value_char d" "d \<noteq> []" by (auto simp: host_name_def list_all_iff)
qed

lemma value_chars:
  assumes "list_all value_char s"
  shows "list_all text_char s" "list_all plain_byte s" "CHR '';'' \<notin> set s" "CHR ''/'' \<notin> set s" "QT \<notin> set s" "is_ascii s"
  using assms by (auto simp: list_all_iff value_char_def text_char_def is_ascii_def)

text \<open>A line that is not a text is read as it is, a text is put together again.\<close>

definition plain_line :: "string \<Rightarrow> bool" where
  "plain_line v \<longleftrightarrow> v \<noteq> [] \<and> list_all text_char v \<and> plain_byte (hd v) \<and> plain_byte (last v)"

lemma plain_line_read: "plain_line v \<Longrightarrow> v \<noteq> [] \<and> list_all (\<lambda>c. is_ascii_char c \<and> c \<noteq> LF \<and> c \<noteq> CR) v \<and> plain_byte (hd v) \<and> plain_byte (last v)"
  using text_char_facts by (auto simp: plain_line_def list_all_iff)

lemma quoted_line_read:
  assumes "concat cs = v" "cs \<noteq> []" "list_all text_char v"
  shows "quoted_strings cs \<noteq> [] \<and> list_all (\<lambda>c. is_ascii_char c \<and> c \<noteq> LF \<and> c \<noteq> CR) (quoted_strings cs) \<and>
    plain_byte (hd (quoted_strings cs)) \<and> plain_byte (last (quoted_strings cs))"
proof -
  have qt: "plain_byte QT" "is_ascii_char QT" "QT \<noteq> LF" "QT \<noteq> CR" "is_ascii_char CHR '' ''" "CHR '' '' \<noteq> LF" "CHR '' '' \<noteq> CR"
    by (simp_all add: QT_def plain_byte_def is_ascii_char_def LF_def CR_def code_def)
  have "list_all (\<lambda>c. is_ascii_char c \<and> c \<noteq> LF \<and> c \<noteq> CR) (concat cs)"
    using assms(1,3) text_char_facts by (auto simp: list_all_iff)
  then have "list_all (\<lambda>c. is_ascii_char c \<and> c \<noteq> LF \<and> c \<noteq> CR) (quoted_strings cs) \<and> (cs \<noteq> [] \<longrightarrow> quoted_strings cs \<noteq> [] \<and>
      hd (quoted_strings cs) = QT \<and> last (quoted_strings cs) = QT)"
    by (induction cs rule: quoted_strings.induct) (use qt in auto)
  with assms(2) qt show ?thesis by auto
qed

lemma zone_lookup:
  assumes "serves_zone run pieces zone"
    "filter (\<lambda>r. dr_type r = t \<and> dr_name r = n) zone = [mk_dns_record t n v]" "plain_line v"
  shows "fst (dig_with_cascade run t n) = Inr [if t = ''TXT'' then quoted_strings (pieces v) else v]"
proof -
  have pieces: "concat (pieces v) = v" "pieces v \<noteq> []" using assms(1) by (simp_all add: serves_zone_def)
  have "run 0 (dig_short_args ''1.1.1.1'' t n) = DigOk (concat (map (\<lambda>l. l @ [LF]) [if t = ''TXT'' then quoted_strings (pieces v) else v]))"
    using assms(1,2) by (simp add: serves_zone_def zone_answer_def dig_line_def mk_dns_record_def)
  from cascade_at_once [of run t n, OF this]
  have res: "fst (dig_with_cascade run t n) = Inr (answer_records (concat (map (\<lambda>l. l @ [LF]) [if t = ''TXT'' then quoted_strings (pieces v) else v])))" .
  have "list_all (\<lambda>l. l \<noteq> [] \<and> list_all (\<lambda>c. is_ascii_char c \<and> c \<noteq> LF \<and> c \<noteq> CR) l \<and> plain_byte (hd l) \<and> plain_byte (last l))
      [if t = ''TXT'' then quoted_strings (pieces v) else v]"
    using plain_line_read [OF assms(3)] quoted_line_read [OF pieces] assms(3) by (simp add: plain_line_def)
  from answer_lines_read [OF this] res show ?thesis by simp
qed

lemma txt_lookup:
  assumes "serves_zone run pieces zone"
    "filter (\<lambda>r. dr_type r = ''TXT'' \<and> dr_name r = n) zone = [mk_dns_record ''TXT'' n v]" "plain_line v"
  shows "resolve_txt run n = Inr [v]"
proof -
  have pieces: "concat (pieces v) = v" "pieces v \<noteq> []" using assms(1) by (simp_all add: serves_zone_def)
  have "last v \<in> set v" "list_all text_char v" using assms(3) by (simp_all add: plain_line_def)
  then have "last v \<noteq> QT" using text_char_facts(3) by (auto simp: list_all_iff)
  then have "unquote_txt (quoted_strings (pieces v)) = v"
    using unquote_strings [OF pieces] assms(3) by (simp add: plain_line_def)
  then show ?thesis using zone_lookup [OF assms] by (simp add: resolve_txt_def)
qed

section \<open>The advised records pass\<close>

text \<open>The zone that holds what the setup advises, for a domain, addresses and a key.\<close>

definition advised_zone :: "string \<Rightarrow> ip_addr \<Rightarrow> ip_addr option \<Rightarrow> string \<Rightarrow> string \<Rightarrow> dns_record list" where
  "advised_zone domain ip ip6 key selector =
     generate_dns_records domain (show_ip ip) (map_option show_ip ip6) (dns_record_value key) selector"

definition spf_text :: "ip_addr \<Rightarrow> ip_addr option \<Rightarrow> string" where
  "spf_text ip ip6 = spaced ([''v=spf1'', ''ip4:'' @ show_ip ip] @ (case ip6 of Some i \<Rightarrow> [''ip6:'' @ show_ip i] | None \<Rightarrow> []) @ [''-all''])"

lemma advised_zone_records:
  "advised_zone domain ip ip6 key selector =
     [mk_dns_record ''A'' domain (show_ip ip)] @
     (case ip6 of Some i \<Rightarrow> [mk_dns_record ''AAAA'' domain (show_ip i)] | None \<Rightarrow> []) @
     [mk_dns_record ''MX'' domain (''10 '' @ domain @ ''.''),
      mk_dns_record ''TXT'' domain (spf_text ip ip6),
      mk_dns_record ''TXT'' (selector @ ''._domainkey.'' @ domain) (dns_record_value key),
      mk_dns_record ''TXT'' (''_dmarc.'' @ domain) (''v=DMARC1; p=reject; rua=mailto:postmaster@'' @ domain)]"
  by (cases ip6) (simp_all add: advised_zone_def generate_dns_records_def spf_text_def)

lemma advised_names:
  "selector @ ''._domainkey.'' @ domain \<noteq> domain" "''_dmarc.'' @ domain \<noteq> domain"
  "selector @ ''._domainkey.'' @ domain \<noteq> ''_dmarc.'' @ domain"
  by (auto dest: arg_cong [of _ _ length])

lemma advised_filters:
  "filter (\<lambda>r. dr_type r = ''A'' \<and> dr_name r = domain) (advised_zone domain ip ip6 key selector) = [mk_dns_record ''A'' domain (show_ip ip)]"
  "filter (\<lambda>r. dr_type r = ''AAAA'' \<and> dr_name r = domain) (advised_zone domain ip (Some i) key selector) = [mk_dns_record ''AAAA'' domain (show_ip i)]"
  "filter (\<lambda>r. dr_type r = ''MX'' \<and> dr_name r = domain) (advised_zone domain ip ip6 key selector) = [mk_dns_record ''MX'' domain (''10 '' @ domain @ ''.'')]"
  "filter (\<lambda>r. dr_type r = ''TXT'' \<and> dr_name r = domain) (advised_zone domain ip ip6 key selector) = [mk_dns_record ''TXT'' domain (spf_text ip ip6)]"
  "filter (\<lambda>r. dr_type r = ''TXT'' \<and> dr_name r = selector @ ''._domainkey.'' @ domain) (advised_zone domain ip ip6 key selector) =
    [mk_dns_record ''TXT'' (selector @ ''._domainkey.'' @ domain) (dns_record_value key)]"
  "filter (\<lambda>r. dr_type r = ''TXT'' \<and> dr_name r = ''_dmarc.'' @ domain) (advised_zone domain ip ip6 key selector) =
    [mk_dns_record ''TXT'' (''_dmarc.'' @ domain) (''v=DMARC1; p=reject; rua=mailto:postmaster@'' @ domain)]"
  using advised_names(1,3) [of selector domain] advised_names(2) [of domain] advised_names(1) [of selector domain, THEN not_sym] advised_names(2) [of domain, THEN not_sym] advised_names(3) [of selector domain, THEN not_sym]
  by (cases ip6; simp add: advised_zone_records mk_dns_record_def)+

lemma spf_contains:
  "spf_contains_ip (spf_text ip ip6) (show_ip ip)" "spf_contains_ip (spf_text ip (Some i)) (show_ip i)"
proof -
  have ch: "plain_byte CHR ''v''" by (simp add: plain_byte_def code_def)
  note ips = value_chars(2) [OF ip_value_chars]
  have words: "split_whitespace (spf_text ip ip6) =
      [''v=spf1'', ''ip4:'' @ show_ip ip] @ (case ip6 of Some i \<Rightarrow> [''ip6:'' @ show_ip i] | None \<Rightarrow> []) @ [''-all'']" for ip6
    unfolding spf_text_def by (rule split_whitespace_spaced) (auto simp: ips plain_byte_def code_def split: option.split)
  have slash: "takeWhile (\<lambda>c. c \<noteq> CHR ''/'') (show_ip a) = show_ip a" for a
    using value_chars(4) [OF ip_value_chars, of a] by (auto simp: takeWhile_eq_all_conv)
  have "spf_mechanism (''ip4:'' @ show_ip a) = Some (show_ip a)" "spf_mechanism (''ip6:'' @ show_ip a) = Some (show_ip a)" for a
    by (simp_all add: spf_mechanism_def strip_prefix_def starts_with_def)
  then show "spf_contains_ip (spf_text ip ip6) (show_ip ip)" "spf_contains_ip (spf_text ip (Some i)) (show_ip i)"
    by (simp_all add: spf_contains_ip_def words slash)
qed

lemma plain_lineI: "v \<noteq> [] \<Longrightarrow> list_all text_char v \<Longrightarrow> plain_byte (hd v) \<Longrightarrow> plain_byte (last v) \<Longrightarrow> plain_line v"
  by (simp add: plain_line_def)

lemma plain_value: "v \<noteq> [] \<Longrightarrow> list_all value_char v \<Longrightarrow> plain_line v"
  by (rule plain_lineI) (auto simp: value_chars list_all_iff value_char_def text_char_def)

lemma fixed_chars: "plain_byte CHR ''v''" "plain_byte CHR ''1''" "plain_byte CHR ''.''" "plain_byte CHR ''l''"
  by (simp_all add: plain_byte_def code_def)

lemma record_lines:
  assumes "host_name domain" "key_text key"
  shows "plain_line (show_ip ip)" "plain_line (''10 '' @ domain @ ''.'')" "plain_line (spf_text ip ip6)"
    "plain_line (dns_record_value key)" "plain_line (''v=DMARC1; p=reject; rua=mailto:postmaster@'' @ domain)"
proof -
  note d = host_name_chars [OF assms(1)]
  note dt = value_chars [OF d(1)]
  note k = key_chars [OF assms(2)]
  have fixed: "list_all text_char ''10 ''" "list_all text_char ''.''" "list_all text_char ''v=spf1 ip4:''" "list_all text_char '' ip6:''"
    "list_all text_char '' -all''" "list_all text_char ''v=DKIM1; k=rsa; p=''" "list_all text_char ''v=DMARC1; p=reject; rua=mailto:postmaster@''"
    by (simp_all add: text_char_def plain_byte_def QT_def code_def)
  show "plain_line (show_ip ip)" by (intro plain_value ip_nonempty ip_value_chars)
  show "plain_line (''10 '' @ domain @ ''.'')" using fixed dt by (intro plain_lineI) (simp_all add: fixed_chars)
  have spf: "spf_text ip ip6 = ''v=spf1 ip4:'' @ show_ip ip @ (case ip6 of Some i \<Rightarrow> '' ip6:'' @ show_ip i | None \<Rightarrow> []) @ '' -all''"
    by (cases ip6) (simp_all add: spf_text_def)
  show "plain_line (spf_text ip ip6)"
    unfolding spf using fixed value_chars(1) [OF ip_value_chars]
    by (intro plain_lineI) (cases ip6; simp add: fixed_chars)+
  have "plain_byte (last key)" "plain_byte (last domain)"
    using k(1,5) dt(2) d(2) by (auto simp: list_all_iff)
  then show "plain_line (dns_record_value key)" "plain_line (''v=DMARC1; p=reject; rua=mailto:postmaster@'' @ domain)"
    unfolding dns_record_value_def using fixed dt k d by (auto intro!: plain_lineI simp: fixed_chars)
qed

lemma contains_prefix: "contains (p @ s) p"
  using contains_infix [of "[]" p s] by simp

lemma contains_at: "s = a @ p @ b \<Longrightarrow> contains s p"
  by (simp add: contains_infix)

lemma dmarc_parts:
  assumes "host_name domain"
  shows "\<not> list_ex (\<lambda>part. eq_ignore_ascii_case (trim part) ''p=none'')
    (split_char CHR '';'' (''v=DMARC1; p=reject; rua=mailto:postmaster@'' @ domain))"
proof -
  note d = host_name_chars [OF assms]
  note dt = value_chars [OF d(1)]
  have parts: "split_char CHR '';'' (''v=DMARC1; p=reject; rua=mailto:postmaster@'' @ domain) =
      [''v=DMARC1'', '' p=reject'', '' rua=mailto:postmaster@'' @ domain]"
    using split_char_none [of "CHR '';''" "'' rua=mailto:postmaster@'' @ domain"] dt(3) by simp
  have "plain_byte (last domain)" using dt(2) d(2) by (auto simp: list_all_iff)
  then have "trim ('' rua=mailto:postmaster@'' @ domain) = ''rua=mailto:postmaster@'' @ domain"
    using d(2) by (simp add: trim_space trim_plain_ends plain_byte_def code_def)
  moreover have "trim ''v=DMARC1'' = ''v=DMARC1''" "trim '' p=reject'' = ''p=reject''"
    by (simp_all add: trim_space trim_plain_ends plain_byte_def code_def)
  ultimately show ?thesis
    unfolding parts
    by (simp add: eq_ignore_ascii_case_def to_ascii_lowercase_def to_ascii_lower_def is_ascii_uppercase_def code_def)
qed

text \<open>
  C21: The records the setup advises for a domain pass every check of the setup once a zone serves
  them: address, mail exchanger, SPF for both addresses, the DKIM key and DMARC, whatever strings
  the zone cuts the texts into (a key is longer than one string can be).
\<close>

theorem advised_records_pass:
  assumes "serves_zone run pieces (advised_zone domain ip ip6 key selector)"
    "host_name domain" "key_text key" "\<And>s. is_ascii s \<Longrightarrow> lower s = to_ascii_lowercase s"
  shows "list_all (\<lambda>(check, result). result = DnsPass)
    (verify_all_dns (real_network_ops run lower debug debug_ips) domain ip ip6 selector
      (strip_prefix (dns_record_value key) ''v=DKIM1; k=rsa; p=''))"
proof -
  let ?net = "real_network_ops run lower debug debug_ips"
  note lines = record_lines [OF assms(2,3)]
  note d = host_name_chars [OF assms(2)]
  have a: "verify_a ?net domain ip = DnsPass"
    using zone_lookup [OF assms(1) advised_filters(1) lines(1)]
    by (simp add: verify_a_def address_check_def real_network_ops_def resolve_a_def resolve_ips_def printed_ip_parses)
  have aaaa: "verify_aaaa ?net domain i = DnsPass" if "ip6 = Some i" for i
    using zone_lookup [OF assms(1) [unfolded that] advised_filters(2) lines(1)]
    by (simp add: verify_aaaa_def address_check_def real_network_ops_def resolve_aaaa_def resolve_ips_def printed_ip_parses)
  have "is_ascii (''10 '' @ domain @ ''.'')" "is_ascii domain"
    using value_chars(6) [OF d(1)] by (auto simp: is_ascii_def is_ascii_char_def code_def)
  then have low: "lower (''10 '' @ domain @ ''.'') = to_ascii_lowercase (''10 '' @ domain @ ''.'')" "lower domain = to_ascii_lowercase domain"
    by (auto intro: assms(4))
  have "contains (lower (''10 '' @ domain @ ''.'')) (lower domain)"
    unfolding low by (simp only: to_ascii_lowercase_def map_append contains_infix)
  then have mx: "verify_mx ?net domain = DnsPass"
    using zone_lookup [OF assms(1) advised_filters(3) lines(2)]
    by (simp add: verify_mx_def real_network_ops_def resolve_mx_def)
  have texts: "no_txt ?net = resolve_txt run" by (simp add: real_network_ops_def)
  have starts: "starts_with (spf_text ip ip6) ''v=spf1''" by (cases ip6) (simp_all add: spf_text_def)
  have spf: "verify_spf ?net domain (show_ip ip) = DnsPass"
    using txt_lookup [OF assms(1) advised_filters(4) lines(3)] starts
    by (simp add: verify_spf_def texts spf_contains)
  have spf6: "verify_spf ?net domain (show_ip i) = DnsPass" if "ip6 = Some i" for i
    using txt_lookup [OF assms(1) advised_filters(4) lines(3)] starts that
    by (simp add: verify_spf_def texts spf_contains)
  have "contains (dns_record_value key) ''v=DKIM1''" by (simp add: dns_record_value_def)
  moreover have "filter (\<lambda>c. c \<noteq> CHR '' '') key = key"
    using key_chars(4) [OF assms(3)] by (auto simp: filter_id_conv)
  moreover have "strip_prefix (dns_record_value key) ''v=DKIM1; k=rsa; p='' = Some key"
    by (simp add: dns_record_value_def strip_prefix_def starts_with_def)
  ultimately have dkim: "verify_dkim ?net domain selector (strip_prefix (dns_record_value key) ''v=DKIM1; k=rsa; p='') = DnsPass"
    using txt_lookup [OF assms(1) advised_filters(5) lines(4)] published_key_reads_back [OF assms(3)]
    by (simp add: verify_dkim_def texts)
  have "verify_dmarc ?net domain = DnsPass"
    using txt_lookup [OF assms(1) advised_filters(6) lines(5)] dmarc_parts [OF assms(2)]
    by (simp add: verify_dmarc_def texts)
  with a aaaa mx spf spf6 dkim show ?thesis by (cases ip6) (simp_all add: verify_all_dns_def)
qed

definition demo_zone :: "dns_record list" where
  "demo_zone = advised_zone ''a.io'' (V4 0x08080808) (Some (V6 0x20010DB8000000000000000000000001)) ''QUJD'' ''aimx''"

definition demo_pieces :: "string \<Rightarrow> string list" where
  "demo_pieces v = [take 5 v, drop 5 v]"

definition demo_dig :: dig_runner where
  "demo_dig n args = DigOk (zone_answer demo_pieces demo_zone (args ! 4) (args ! 5))"

lemma demo_dig_serves: "serves_zone demo_dig demo_pieces demo_zone"
  by (simp add: serves_zone_def demo_dig_def demo_pieces_def dig_short_args_def)

theorem advised_records_pass_witness:
  "list_all (\<lambda>(check, result). result = DnsPass)
    (verify_all_dns (real_network_ops demo_dig to_ascii_lowercase concat (\<lambda>_. [])) ''a.io'' (V4 0x08080808)
      (Some (V6 0x20010DB8000000000000000000000001)) ''aimx'' (Some ''QUJD''))"
proof -
  have "host_name ''a.io''" "key_text ''QUJD''"
    by (simp_all add: host_name_def key_text_def is_ascii_alphanumeric_def is_ascii_lowercase_def is_ascii_uppercase_def
        is_ascii_digit_def code_def)
  from advised_records_pass [OF demo_dig_serves [unfolded demo_zone_def] this, of to_ascii_lowercase concat "\<lambda>_. []"]
  show ?thesis by (simp add: dns_record_value_def strip_prefix_def starts_with_def)
qed

section \<open>Two checks of one key\<close>

lemma startup_loop_match:
  "startup_loop k seen rs = Match \<longleftrightarrow> list_ex (\<lambda>r. extract_dkim_p_value r = Some k) rs" "startup_loop k seen rs \<noteq> NoRecord"
  by (induction rs arbitrary: seen) (auto split: option.splits)

text \<open>
  C22: The setup's DKIM check and the daemon's startup check never contradict each other: on the same
  records and key, the setup passes exactly when the daemon finds a match, both exactly when some
  record of version DKIM1 carries the key, and one misses a record exactly when the other does.
\<close>

theorem dkim_checks_agree:
  assumes "no_txt net (selector @ ''._domainkey.'' @ domain) = Inr records" "CHR '' '' \<notin> set key"
  shows "(verify_dkim net domain selector (Some key) = DnsPass \<longleftrightarrow>
      run_dkim_startup_check (no_txt net) domain selector (Inr key) = Match) \<and>
    (verify_dkim net domain selector (Some key) = DnsPass \<longleftrightarrow>
      (\<exists>r. r \<in> set records \<and> contains r ''v=DKIM1'' \<and> extract_dkim_p_value r = Some key)) \<and>
    (verify_dkim net domain selector (Some key) = DnsMissing ''No DKIM record found'' \<longleftrightarrow>
      run_dkim_startup_check (no_txt net) domain selector (Inr key) = NoRecord)"
proof -
  have "filter (\<lambda>c. c \<noteq> CHR '' '') key = key" using assms(2) by (auto simp: filter_id_conv)
  then show ?thesis
    using assms(1)
    by (auto simp: verify_dkim_def run_dkim_startup_check_def evaluate_dkim_startup_def startup_loop_match Let_def
        list_ex_iff filter_empty_conv split: if_splits)
qed

theorem dkim_checks_agree_witness:
  "run_dkim_startup_check (\<lambda>_. Inr [''v=DKIM1; k=rsa; p=QU JD'']) ''a.io'' ''aimx'' (Inr ''QUJD'') = Match"
proof -
  let ?net = "\<lparr>no_mx = (\<lambda>_. Inr []), no_a = (\<lambda>_. Inr []), no_aaaa = (\<lambda>_. Inr []), no_txt = (\<lambda>_. Inr [''v=DKIM1; k=rsa; p=QU JD'']),
    no_lower = (\<lambda>s. s), no_debug = concat, no_debug_ips = (\<lambda>_. [])\<rparr>"
  have one: "no_txt ?net (''aimx'' @ ''._domainkey.'' @ ''a.io'') = Inr [''v=DKIM1; k=rsa; p=QU JD'']" by simp
  have "verify_dkim ?net ''a.io'' ''aimx'' (Some ''QUJD'') = DnsPass" by code_simp
  then show ?thesis using dkim_checks_agree [OF one, of "''QUJD''"] by simp
qed

section \<open>What the checks let through\<close>

text \<open>An exchanger whose name merely contains the domain's passes as the domain's own.\<close>

lemma foreign_exchanger_passes:
  assumes "no_mx net domain = Inr [a @ domain @ b]" "\<And>s. no_lower net s = to_ascii_lowercase s"
  shows "verify_mx net domain = DnsPass"
  using assms by (simp add: verify_mx_def to_ascii_lowercase_def contains_infix)

text \<open>A mechanism behind \<open>-all\<close> counts, though receivers never get to it; a network that holds the address does not.\<close>

lemma spf_reading:
  "spf_contains_ip ''v=spf1 -all ip4:203.0.113.7'' ''203.0.113.7''"
  "\<not> spf_contains_ip ''v=spf1 ip4:203.0.113.0/24 -all'' ''203.0.113.7''"
  by code_simp+

end
