(* ===== verification/SetupFacts.thy ===== *)
theory SetupFacts
  imports Setup DnsFacts ConfigFacts
begin

text \<open>
  What the wizard accepts, what it leaves of a configuration that is there, when it hangs, and that
  on a host without the catchall's user it never gets through.
\<close>

section \<open>Steps\<close>

lemma seq_Some:
  "seq m f h = Some (r, h') \<longleftrightarrow>
     (\<exists>e. m h = Some (Inl e, h') \<and> r = Inl e) \<or> (\<exists>x h1. m h = Some (Inr x, h1) \<and> f x h1 = Some (r, h'))"
  by (auto simp: seq_def split: option.splits sum.splits prod.splits)

lemma act_simps [simp]:
  "ret x h = Some (r, h') \<longleftrightarrow> r = Inr x \<and> h' = h" "fail e h = Some (r, h') \<longleftrightarrow> r = Inl e \<and> h' = h"
  "look g h = Some (p, h') \<longleftrightarrow> p = Inr (g h) \<and> h' = h" "update u h = Some (q, h') \<longleftrightarrow> q = Inr () \<and> h' = u h"
  "of_result res h = Some (r, h') \<longleftrightarrow> r = res \<and> h' = h"
  by (auto simp: ret_def fail_def look_def update_def of_result_def split: sum.splits)

lemma file_op_Some [simp]:
  "file_op env p h = Some (r, h') \<longleftrightarrow> h' = h \<and> r = (case se_io env p of Some e \<Rightarrow> Inl e | None \<Rightarrow> Inr ())"
  by (auto simp: file_op_def split: option.splits)

text \<open>A step that leaves a part of the host as it is.\<close>

definition stays :: "(setup_host \<Rightarrow> 'b) \<Rightarrow> 'a act \<Rightarrow> bool" where
  "stays f m \<longleftrightarrow> (\<forall>h r h'. m h = Some (r, h') \<longrightarrow> f h' = f h)"

named_theorems stays_intros

lemma stays_seq [stays_intros]: "stays f m \<Longrightarrow> (\<And>x. stays f (g x)) \<Longrightarrow> stays f (seq m g)"
  unfolding stays_def seq_Some by metis

lemma stays_steps [stays_intros]:
  "stays f (ret x)" "stays f (fail e)" "stays f (look g)" "stays f (of_result r)" "stays f (file_op env p)"
  by (simp_all add: stays_def)

lemma stays_update [stays_intros]: "(\<And>h. f (u h) = f h) \<Longrightarrow> stays f (update u)"
  by (simp add: stays_def)

lemma stays_if [stays_intros]: "(b \<Longrightarrow> stays f m) \<Longrightarrow> (\<not> b \<Longrightarrow> stays f n) \<Longrightarrow> stays f (if b then m else n)"
  by simp

lemma stays_sum [stays_intros]: "(\<And>x. stays f (m x)) \<Longrightarrow> (\<And>y. stays f (n y)) \<Longrightarrow> stays f (case s of Inl x \<Rightarrow> m x | Inr y \<Rightarrow> n y)"
  by (cases s) simp_all

lemma stays_option [stays_intros]: "stays f m \<Longrightarrow> (\<And>y. stays f (n y)) \<Longrightarrow> stays f (case s of None \<Rightarrow> m | Some y \<Rightarrow> n y)"
  by (cases s) simp_all

lemma stays_prod [stays_intros]: "(\<And>x y. stays f (m x y)) \<Longrightarrow> stays f (case s of (x, y) \<Rightarrow> m x y)"
  by (cases s) simp_all

lemma stays_status [stays_intros]:
  "stays f m \<Longrightarrow> stays f n \<Longrightarrow> (\<And>y. stays f (k y)) \<Longrightarrow> stays f (case s of Free \<Rightarrow> m | Aimx \<Rightarrow> n | OtherProcess y \<Rightarrow> k y)"
  by (cases s) simp_all

lemma staysD: "stays f m \<Longrightarrow> m h = Some (r, h') \<Longrightarrow> f h' = f h"
  by (simp add: stays_def)

abbreviation users_and_config :: "setup_host \<Rightarrow> user_db \<times> (string + config) option" where
  "users_and_config h \<equiv> (sh_users h, sh_config h)"

lemma stays_load [stays_intros]: "stays f (load_config env)"
  unfolding load_config_def by (intro stays_intros)

lemma steps_stay [stays_intros]:
  "stays users_and_config (setup_port_step env)" "stays users_and_config (setup_domain domain inp)"
  "stays users_and_config (setup_tls_step env b)" "stays users_and_config (setup_trust_step env inp)"
  "stays users_and_config (generate_keypair env)"
  "stays users_and_config (ensure_dkim_key env)"
  unfolding ensure_dkim_key_def setup_port_step_def setup_domain_def setup_tls_step_def setup_trust_step_def generate_keypair_def Let_def
  by (intro stays_intros; simp)+

lemma dns_step_stays [stays_intros]: "stays users_and_config (setup_dns_step env data_dir domain inp)"
proof -
  have loop: "stays f (\<lambda>h. case d of None \<Rightarrow> None | Some i \<Rightarrow> Some (Inr (x i), h))" for f d x
    by (auto simp: stays_def split: option.splits)
  show ?thesis unfolding setup_dns_step_def Let_def by (intro stays_intros loop)
qed

lemma mailbox_dir_stays [stays_intros]: "stays users_and_config (mailbox_dir env owner d)"
  unfolding mailbox_dir_def by (intro stays_intros) simp

lemma owner_ids_stay [stays_intros]: "stays f (mailbox_owner_ids env users name mb)"
  unfolding mailbox_owner_ids_def by (intro stays_intros)

lemma dirs_stay [stays_intros]: "stays users_and_config (ensure_mailbox_dirs env data_dir mbs)"
  by (induction mbs rule: ensure_mailbox_dirs.induct) (simp_all only: ensure_mailbox_dirs.simps, (intro stays_intros; assumption?)+)

section \<open>The catchall's user\<close>

text \<open>
  The mailboxes hold one of the catchall's reserved owner, or will when the setup is through with
  them; a file that does not load is no better.
\<close>

definition catchall_owned :: "config \<Rightarrow> bool" where
  "catchall_owned cfg \<longleftrightarrow> (case lookup_mailbox cfg ''catchall'' of None \<Rightarrow> True | Some mb \<Rightarrow> mb_owner mb = RESERVED_RUN_AS_CATCHALL)"

definition lacks_catchall_user :: "setup_host \<Rightarrow> bool" where
  "lacks_catchall_user h \<longleftrightarrow>
     sh_users h RESERVED_RUN_AS_CATCHALL = None \<and>
     (case sh_config h of Some (Inr cfg) \<Rightarrow> catchall_owned cfg | _ \<Rightarrow> True)"

lemma lacks_cong: "users_and_config h' = users_and_config h \<Longrightarrow> lacks_catchall_user h' = lacks_catchall_user h"
  by (simp add: lacks_catchall_user_def)

lemma catchall_unresolved:
  "users RESERVED_RUN_AS_CATCHALL = None \<Longrightarrow> mb_owner mb = RESERVED_RUN_AS_CATCHALL \<Longrightarrow> owner_uid users mb = Inl (OrphanUser (mb_owner mb))"
  by (simp add: owner_uid_def owner_id_def validate_run_as_def is_reserved_run_as_def RESERVED_RUN_AS_CATCHALL_def RESERVED_RUN_AS_ROOT_def)

lemma ensure_dirs_fail:
  assumes "ensure_mailbox_dirs env d mbs h = Some (r, h')" "se_root env" "sh_users h RESERVED_RUN_AS_CATCHALL = None"
    "\<exists>nm\<in>set mbs. mb_owner (snd nm) = RESERVED_RUN_AS_CATCHALL"
  shows "\<exists>e. r = Inl e"
  using assms
proof (induction mbs arbitrary: h)
  case (Cons nm mbs)
  obtain n mb where nm: "nm = (n, mb)" by (cases nm)
  show ?case
  proof (cases "mb_owner mb = RESERVED_RUN_AS_CATCHALL")
    case True
    with Cons.prems show ?thesis by (auto simp: nm seq_Some mailbox_owner_ids_def catchall_unresolved)
  next
    case False
    then have later: "\<exists>nm\<in>set mbs. mb_owner (snd nm) = RESERVED_RUN_AS_CATCHALL" using Cons.prems(4) by (auto simp: nm)
    from Cons.prems(1) have "(\<exists>e. r = Inl e) \<or> (\<exists>h1. ensure_mailbox_dirs env d mbs h1 = Some (r, h') \<and> sh_users h1 = sh_users h)"
      by (auto simp: nm seq_Some dest!: staysD [OF mailbox_dir_stays] staysD [OF owner_ids_stay, of _ _ _ _ _ _ _ users_and_config])
    with Cons.IH [OF _ Cons.prems(2) _ later] Cons.prems(3) show ?thesis by metis
  qed
qed simp

lemma lookup_move: "lookup_mailbox (move_domain d cfg) n = map_option (move_address (cfg_domain cfg) d) (lookup_mailbox cfg n)"
proof -
  have "map_of (map (apsnd f) xs) n = map_option f (map_of xs n)" for f and xs :: "(string \<times> mailbox_config) list"
    by (induction xs) auto
  then show ?thesis by (simp add: lookup_mailbox_def move_domain_def)
qed

lemma move_address_keeps [simp]:
  "mb_owner (move_address a b mb) = mb_owner mb" "mb_hooks (move_address a b mb) = mb_hooks mb" "mb_trust (move_address a b mb) = mb_trust mb"
  "mb_trusted_senders (move_address a b mb) = mb_trusted_senders mb" "mb_allow_root_catchall (move_address a b mb) = mb_allow_root_catchall mb"
  by (simp_all add: move_address_def split: option.split)

lemma catchall_owned_move: "catchall_owned (move_domain d cfg) = catchall_owned cfg"
  by (simp add: catchall_owned_def lookup_move split: option.split)

lemma catchall_owned_add: "lookup_mailbox cfg ''catchall'' = None \<Longrightarrow> lookup_mailbox (add_catchall d cfg) ''catchall'' = Some (catchall_mailbox d)"
  by (simp add: lookup_mailbox_def add_catchall_def map_add_def)

lemma load_config_Some:
  "load_config env h = Some (r, h') \<Longrightarrow> h' = h \<and> (\<forall>cfg. r = Inr cfg \<longrightarrow> sh_config h = Some (Inr cfg))"
  by (auto simp: load_config_def seq_Some validate_config_def split: option.splits sum.splits prod.splits)

lemma install_config_Some:
  "install_config_file env cfg h = Some (r, h') \<Longrightarrow>
    (h' = h \<and> (\<exists>e. r = Inl e)) \<or> (r = Inr () \<and> sh_users h' = sh_users h \<and> sh_config h' = Some (Inr cfg))"
  by (auto simp: install_config_file_def seq_Some split: option.splits)

lemma fresh_catchall [simp]:
  "lookup_mailbox (fresh_config dd d sel x) ''catchall'' = Some (catchall_mailbox d)" "catchall_owned (fresh_config dd d sel x)"
  by (simp_all add: catchall_owned_def lookup_mailbox_def fresh_config_def catchall_mailbox_def)

lemma lacksI: "sh_users h' = sh_users h \<Longrightarrow> sh_config h' = Some (Inr cfg) \<Longrightarrow> catchall_owned cfg \<Longrightarrow> lacks_catchall_user h \<Longrightarrow> lacks_catchall_user h'"
  by (simp add: lacks_catchall_user_def)

lemma change_domain_lacks:
  assumes "change_domain env d cfg h = Some (r, h')" "lacks_catchall_user h" "catchall_owned cfg"
  shows "lacks_catchall_user h' \<and> (\<forall>c. r = Inr c \<longrightarrow> catchall_owned c)"
  using assms
  by (auto simp: change_domain_def seq_Some catchall_owned_move dest!: install_config_Some intro: lacksI split: if_splits)

lemma with_catchall_lacks:
  assumes "with_catchall env d cfg h = Some (r, h')" "lacks_catchall_user h" "catchall_owned cfg"
  shows "lacks_catchall_user h' \<and> (\<forall>c. r = Inr c \<longrightarrow> (\<exists>mb. lookup_mailbox c ''catchall'' = Some mb \<and> mb_owner mb = RESERVED_RUN_AS_CATCHALL))"
proof (cases "lookup_mailbox cfg ''catchall''")
  case None
  have own: "catchall_owned (add_catchall d cfg)"
    by (simp add: catchall_owned_def catchall_owned_add [OF None] catchall_mailbox_def)
  have "mb_owner (catchall_mailbox d) = RESERVED_RUN_AS_CATCHALL" by (simp add: catchall_mailbox_def)
  with assms(1,2) None catchall_owned_add [OF None, of d] show ?thesis
    by (auto simp: with_catchall_def seq_Some dest!: install_config_Some intro: lacksI [OF _ _ own])
next
  case (Some mb)
  with assms show ?thesis by (simp add: with_catchall_def catchall_owned_def)
qed

text \<open>Every way through the choice keeps the lack, and ends with an owner that is not there.\<close>

lemma config_for_setup_lacks:
  assumes "config_for_setup env dd d sel t h = Some (r, h')" "lacks_catchall_user h"
  shows "lacks_catchall_user h' \<and> (\<forall>cfg. r = Inr cfg \<longrightarrow> (\<exists>mb. lookup_mailbox cfg ''catchall'' = Some mb \<and> mb_owner mb = RESERVED_RUN_AS_CATCHALL))"
proof (cases "sh_config h = None")
  case True
  from True obtain x where "config_for_setup env dd d sel t h =
      seq (install_config_file env (fresh_config dd d sel x)) (\<lambda>_. ret (fresh_config dd d sel x)) h"
    by (simp add: config_for_setup_def seq_def look_def Let_def)
  then have "seq (install_config_file env (fresh_config dd d sel x)) (\<lambda>_. ret (fresh_config dd d sel x)) h = Some (r, h')"
    using assms(1) by simp
  moreover have "mb_owner (catchall_mailbox d) = RESERVED_RUN_AS_CATCHALL" by (simp add: catchall_mailbox_def)
  ultimately show ?thesis using assms(2)
    by (auto simp: seq_Some dest!: install_config_Some intro: lacksI [OF _ _ fresh_catchall(2)])
next
  case False
  with assms(1) have "seq (load_config env) (\<lambda>cfg. seq (change_domain env d cfg) (with_catchall env d)) h = Some (r, h')"
    by (auto simp: config_for_setup_def seq_Some)
  then consider e where "load_config env h = Some (Inl e, h')" "r = Inl e"
    | cfg h1 where "load_config env h = Some (Inr cfg, h1)" "seq (change_domain env d cfg) (with_catchall env d) h1 = Some (r, h')"
    by (auto simp: seq_Some [of "load_config env"])
  then show ?thesis
  proof cases
    case 1
    with load_config_Some [OF 1(1)] assms(2) show ?thesis by simp
  next
    case 2
    from load_config_Some [OF 2(1)] assms(2) have own: "catchall_owned cfg" and h: "h1 = h"
      by (simp_all add: lacks_catchall_user_def)
    from 2(2) h consider e where "change_domain env d cfg h = Some (Inl e, h')" "r = Inl e"
      | c h2 where "change_domain env d cfg h = Some (Inr c, h2)" "with_catchall env d c h2 = Some (r, h')"
      by (auto simp: seq_Some)
    then show ?thesis
    proof cases
      case 1
      with change_domain_lacks [OF 1(1) assms(2) own] show ?thesis by simp
    next
      case 2
      with change_domain_lacks [OF 2(1) assms(2) own] with_catchall_lacks [OF 2(2)] show ?thesis by blast
    qed
  qed
qed

lemma finalize_lacks:
  assumes "finalize_setup env dd d sel t h = Some (r, h')" "lacks_catchall_user h" "se_root env"
  shows "lacks_catchall_user h' \<and> (\<exists>e. r = Inl e)"
proof -
  from assms(1) consider e where "r = Inl e" "h' = h" | e where "config_for_setup env dd d sel t h = Some (Inl e, h')" "r = Inl e"
    | cfg h1 where "config_for_setup env dd d sel t h = Some (Inr cfg, h1)"
        "seq (ensure_mailbox_dirs env dd (cfg_mailboxes cfg)) (\<lambda>_. seq (look sh_dkim) (\<lambda>k. if k then ret () else generate_keypair env)) h1 = Some (r, h')"
    by (auto simp: finalize_setup_def seq_Some [of "file_op env dd"] seq_Some [of "file_op env ''config dir''"] seq_Some [of "config_for_setup env dd d sel t"])
  then show ?thesis
  proof cases
    case 1
    with assms(2) show ?thesis by simp
  next
    case 2
    with config_for_setup_lacks [OF 2(1) assms(2)] show ?thesis by simp
  next
    case 3
    from config_for_setup_lacks [OF 3(1) assms(2)] obtain mb where lacks: "lacks_catchall_user h1"
      and mb: "lookup_mailbox cfg ''catchall'' = Some mb" "mb_owner mb = RESERVED_RUN_AS_CATCHALL" by auto
    have "(''catchall'', mb) \<in> set (cfg_mailboxes cfg)" using mb(1) by (simp add: lookup_mailbox_def map_of_SomeD)
    then have some: "\<exists>nm\<in>set (cfg_mailboxes cfg). mb_owner (snd nm) = RESERVED_RUN_AS_CATCHALL" using mb(2) by force
    have none: "sh_users h1 RESERVED_RUN_AS_CATCHALL = None" using lacks by (simp add: lacks_catchall_user_def)
    from 3(2) ensure_dirs_fail [OF _ assms(3) none some] obtain e where
      "ensure_mailbox_dirs env dd (cfg_mailboxes cfg) h1 = Some (Inl e, h')" "r = Inl e"
      by (fastforce simp: seq_Some [of "ensure_mailbox_dirs env dd (cfg_mailboxes cfg)"])
    with lacks lacks_cong [OF staysD [OF dirs_stay]] show ?thesis by blast
  qed
qed

text \<open>A step that on such a host only ever fails, and leaves it such a host.\<close>

definition hopeless :: "'a act \<Rightarrow> bool" where
  "hopeless m \<longleftrightarrow> (\<forall>h r h'. lacks_catchall_user h \<longrightarrow> m h = Some (r, h') \<longrightarrow> (\<exists>e. r = Inl e) \<and> lacks_catchall_user h')"

lemma hopeless_first: "hopeless m \<Longrightarrow> hopeless (seq m f)"
  unfolding hopeless_def seq_Some by blast

lemma hopeless_then:
  assumes "stays users_and_config m" "\<And>x. hopeless (f x)"
  shows "hopeless (seq m f)"
  unfolding hopeless_def
proof (intro allI impI)
  fix h r h' assume h: "lacks_catchall_user h" and run: "seq m f h = Some (r, h')"
  from run consider e where "m h = Some (Inl e, h')" "r = Inl e" | x h1 where "m h = Some (Inr x, h1)" "f x h1 = Some (r, h')"
    by (auto simp: seq_Some)
  then show "(\<exists>e. r = Inl e) \<and> lacks_catchall_user h'"
  proof cases
    case 1
    with h lacks_cong [OF staysD [OF assms(1) 1(1)]] show ?thesis by simp
  next
    case 2
    with h lacks_cong [OF staysD [OF assms(1) 2(1)]] assms(2) show ?thesis unfolding hopeless_def by blast
  qed
qed

lemma hopeless_install: "se_root env \<Longrightarrow> hopeless (setup_install_step env dd d sel t b)"
  unfolding setup_install_step_def by (rule hopeless_first) (auto simp: hopeless_def dest: finalize_lacks)

lemma hopeless_setup: "hopeless (run_setup env domain data_dir inp)"
proof (cases "se_root env")
  case False
  then show ?thesis by (auto simp: run_setup_def hopeless_def)
next
  case True
  have pair: "(\<And>x y. hopeless (f x y)) \<Longrightarrow> hopeless (case p of (x, y) \<Rightarrow> f x y)" for f :: "'x \<Rightarrow> 'y \<Rightarrow> unit act" and p
    by (cases p) simp
  show ?thesis
    unfolding run_setup_def Let_def using True
    by (simp, intro hopeless_then pair steps_stay dns_step_stays hopeless_install)
qed


section \<open>A setup that gets through\<close>

lemma seq_Inr: "m h = Some (Inr x, h1) \<Longrightarrow> seq m f h = f x h1"
  by (simp add: seq_def)

lemma seq_values:
  "seq (look g) f h = f (g h) h" "seq (of_result (Inr y)) k h = k y h" "seq (update u) q h = q () (u h)"
  by (simp_all add: seq_def look_def of_result_def ret_def update_def)

text \<open>A host with the catchall's user and no configuration, on which everything else works out.\<close>

definition setup_ready :: "setup_env \<Rightarrow> setup_host \<Rightarrow> bool" where
  "setup_ready env h \<longleftrightarrow>
     se_root env \<and> se_port25 env = Inr Free \<and> se_temp_bind env = Inr () \<and> se_outbound env = Inr True \<and> se_inbound env = Inr True \<and>
     (\<forall>p. se_io env p = None) \<and> se_keygen env = Inr () \<and> se_tls env = Inr () \<and> se_service env = Inr () \<and> se_ready env \<and>
     sh_users h RESERVED_RUN_AS_CATCHALL \<noteq> None \<and> sh_config h = None"

lemma fresh_config_loads:
  assumes "users RESERVED_RUN_AS_CATCHALL \<noteq> None" "fst t \<in> {''none'', ''verified''}"
  shows "validate_config sha users (fresh_config dd d sel t) = Inr (fresh_config dd d sel t, [])"
proof -
  have "trim RESERVED_RUN_AS_CATCHALL \<noteq> []"
    by (simp add: RESERVED_RUN_AS_CATCHALL_def trim_all_plain plain_byte_def code_def)
  moreover have "validate_run_as users RESERVED_RUN_AS_CATCHALL = Inr (Reserved RESERVED_RUN_AS_CATCHALL)" "RESERVED_RUN_AS_CATCHALL \<noteq> RESERVED_RUN_AS_ROOT"
    by (simp_all add: validate_run_as_def RESERVED_RUN_AS_CATCHALL_def RESERVED_RUN_AS_ROOT_def)
  ultimately show ?thesis using assms(2)
    by (auto simp: validate_config_def fresh_config_def catchall_mailbox_def first_some_def map_filter_def missing_owner_check_def
      validate_trust_values_def VALID_TRUST_VALUES_def mailbox_trust_check_def reject_post_parse_legacy_def mailbox_legacy_check_def
      validate_mailbox_owners_def mailbox_owner_check_def validate_hooks_def all_hooks_def)
qed

lemma fresh_has_catchall: "list_ex (\<lambda>(name, mb). is_catchall (fresh_config dd d sel t) mb) (cfg_mailboxes (fresh_config dd d sel t))"
  by (simp add: fresh_config_def catchall_mailbox_def is_catchall_def eq_ignore_ascii_case_def)

lemma catchall_ids:
  "users RESERVED_RUN_AS_CATCHALL = Some u \<Longrightarrow> mb_owner mb = RESERVED_RUN_AS_CATCHALL \<Longrightarrow>
   owner_uid users mb = Inr (ru_uid u) \<and> owner_gid users mb = Inr (ru_gid u)"
  by (simp add: owner_uid_def owner_gid_def owner_id_def validate_run_as_def RESERVED_RUN_AS_CATCHALL_def RESERVED_RUN_AS_ROOT_def)

text \<open>The choice of the configuration and of the trust policy of a fresh host.\<close>

lemma fresh_finalize:
  assumes "setup_ready env h" "sh_users h RESERVED_RUN_AS_CATCHALL = Some u"
  shows "\<exists>h'. finalize_setup env dd d sel (Some t) h = Some (Inr (), h') \<and> sh_users h' = sh_users h \<and>
    sh_config h' = Some (Inr (fresh_config dd d sel t)) \<and> sh_dkim h' \<and> sh_cert h' = sh_cert h \<and> sh_running h' = sh_running h \<and>
    sh_dirs h' (join_path (join_path dd ''inbox'') ''catchall'') = Some (ru_uid u, ru_gid u, 0x1C0)"
proof -
  note ok = assms(1) [unfolded setup_ready_def]
  let ?cfg = "fresh_config dd d sel t"
  let ?inbox = "join_path (join_path dd ''inbox'') ''catchall''"
  let ?sent = "join_path (join_path dd ''sent'') ''catchall''"
  have io: "file_op env p h1 = Some (Inr (), h1)" for p h1 using ok by simp
  have "mb_owner (catchall_mailbox d) = RESERVED_RUN_AS_CATCHALL" by (simp add: catchall_mailbox_def)
  note ids = catchall_ids [of "sh_users h" u "catchall_mailbox d", OF assms(2) this]
  define h1 where "h1 = h\<lparr>sh_config := Some (Inr ?cfg), sh_config_mode := 0x1A0\<rparr>"
  have cfg: "config_for_setup env dd d sel (Some t) h = Some (Inr ?cfg, h1)"
    using ok by (simp add: config_for_setup_def install_config_file_def seq_def look_def io ret_def update_def Let_def h1_def)
  define h2 where "h2 = h1\<lparr>sh_dirs := (sh_dirs h1)(?inbox \<mapsto> (ru_uid u, ru_gid u, 0x1C0), ?sent \<mapsto> (ru_uid u, ru_gid u, 0x1C0))\<rparr>"
  have "sh_users h1 = sh_users h" by (simp add: h1_def)
  then have dirs: "ensure_mailbox_dirs env dd (cfg_mailboxes ?cfg) h1 = Some (Inr (), h2)"
    using ok ids by (simp add: fresh_config_def seq_def look_def mailbox_owner_ids_def mailbox_dir_def io ret_def update_def h2_def)
  define h3 where "h3 = h2\<lparr>sh_dkim := True\<rparr>"
  have "seq (look sh_dkim) (\<lambda>k. if k then ret () else generate_keypair env) h2 = Some (Inr (), h3)"
    using ok by (auto simp: seq_def look_def ret_def generate_keypair_def of_result_def update_def h3_def)
  then have "finalize_setup env dd d sel (Some t) h = Some (Inr (), h3)"
    using cfg dirs by (simp add: finalize_setup_def seq_def io)
  then show ?thesis by (intro exI [of _ h3]) (simp add: h3_def h2_def h1_def)
qed

lemma catchall_user_there:
  assumes "setup_ready env h" "sh_users h1 RESERVED_RUN_AS_CATCHALL = Some u"
  shows "\<exists>h2. ensure_catchall_user env h1 = Some (Inr (), h2) \<and> h2 = h1\<lparr>sh_dirs := (sh_dirs h1)(CATCHALL_HOME_DIR \<mapsto> (ru_uid u, ru_gid u, 0x1C0))\<rparr>"
proof -
  have "CATCHALL_SERVICE_USER = RESERVED_RUN_AS_CATCHALL" by (simp add: CATCHALL_SERVICE_USER_def RESERVED_RUN_AS_CATCHALL_def)
  have io: "file_op env p h1 = Some (Inr (), h1)" for p h1 using assms(1) by (simp add: setup_ready_def)
  with \<open>CATCHALL_SERVICE_USER = RESERVED_RUN_AS_CATCHALL\<close> show ?thesis using assms(2)
    by (simp add: io ensure_catchall_user_def create_system_user_def ensure_owned_directory_def seq_def look_def ret_def update_def)
qed

definition trust_answer :: "setup_env \<Rightarrow> input \<Rightarrow> string \<times> string list \<Rightarrow> bool" where
  "trust_answer env inp t \<longleftrightarrow>
     (if is_noninteractive_env (se_noninteractive env) then t = (''none'', [])
      else prompt_trusted_senders 0 (se_senders env) inp = Inr t)"

lemma dns_loop_skip: "dns_loop pass k (''q'' # inp) = Some inp"
  by (subst dns_loop.simps) (simp add: trim_all_plain plain_byte_def code_def eq_ignore_ascii_case_def)


section \<open>A setup of a host that has a configuration\<close>

text \<open>What becomes of a configuration: the domain is moved, the catchall added where it is missing.\<close>

definition resettled :: "string \<Rightarrow> config \<Rightarrow> config" where
  "resettled d cfg =
     (let cfg1 = (if cfg_domain cfg \<noteq> d then move_domain d cfg else cfg) in
      if lookup_mailbox cfg1 ''catchall'' = None then add_catchall d cfg1 else cfg1)"

lemma install_config_Inr: "install_config_file env cfg h = Some (Inr x, h') \<Longrightarrow> sh_config h' = Some (Inr cfg)"
  by (auto dest: install_config_Some)

lemma change_domain_config:
  "change_domain env d cfg h = Some (Inr c, h') \<Longrightarrow> sh_config h = Some (Inr cfg) \<Longrightarrow>
   c = (if cfg_domain cfg \<noteq> d then move_domain d cfg else cfg) \<and> sh_config h' = Some (Inr c)"
  by (auto simp: change_domain_def seq_Some dest: install_config_Inr split: if_splits)

lemma with_catchall_config:
  "with_catchall env d cfg h = Some (Inr c, h') \<Longrightarrow> sh_config h = Some (Inr cfg) \<Longrightarrow>
   c = (if lookup_mailbox cfg ''catchall'' = None then add_catchall d cfg else cfg) \<and> sh_config h' = Some (Inr c)"
  by (auto simp: with_catchall_def seq_Some dest: install_config_Inr split: if_splits)

lemma config_for_setup_resettled:
  assumes "config_for_setup env dd d sel t h = Some (Inr c, h')" "sh_config h = Some (Inr cfg)"
  shows "sh_config h' = Some (Inr (resettled d cfg))"
proof -
  have "seq (load_config env) (\<lambda>x. seq (change_domain env d x) (with_catchall env d)) h = Some (Inr c, h')"
    using assms by (simp add: config_for_setup_def seq_values)
  then obtain x h1 c1 h2 where l: "load_config env h = Some (Inr x, h1)"
    and ch: "change_domain env d x h1 = Some (Inr c1, h2)" and wi: "with_catchall env d c1 h2 = Some (Inr c, h')"
    by (auto simp: seq_Some)
  from load_config_Some [OF l] assms(2) have x: "h1 = h" "x = cfg" by auto
  from change_domain_config [OF ch] x assms(2) have c1: "c1 = (if cfg_domain cfg \<noteq> d then move_domain d cfg else cfg)" "sh_config h2 = Some (Inr c1)"
    by simp_all
  from with_catchall_config [OF wi c1(2)] show ?thesis by (simp add: resettled_def c1(1) Let_def)
qed

lemma later_steps_stay [stays_intros]:
  "stays sh_config (ensure_mailbox_dirs env dd mbs)" "stays sh_config (generate_keypair env)" "stays sh_config (ensure_catchall_user env)"
  "stays sh_config (config_has_catchall env)" "stays sh_config (install_and_verify_service env)"
proof -
  show "stays sh_config (ensure_mailbox_dirs env dd mbs)" using dirs_stay [of env dd mbs] by (simp add: stays_def)
  show "stays sh_config (generate_keypair env)" using steps_stay(5) [of env] by (simp add: stays_def)
  show "stays sh_config (ensure_catchall_user env)" "stays sh_config (config_has_catchall env)" "stays sh_config (install_and_verify_service env)"
    unfolding ensure_catchall_user_def create_system_user_def ensure_owned_directory_def config_has_catchall_def install_and_verify_service_def
    by (intro stays_intros; simp)+
qed

lemma install_step_config:
  assumes "setup_install_step env dd d sel t b h = Some (Inr (), h')" "sh_config h = Some (Inr cfg)"
  shows "sh_config h' = Some (Inr (resettled d cfg))"
proof -
  from assms(1) obtain h1 where fin: "finalize_setup env dd d sel t h = Some (Inr (), h1)"
    and rest: "seq (config_has_catchall env) (\<lambda>b'. seq (if b' then ensure_catchall_user env else ret ()) (\<lambda>_. seq (file_op env ''README.md'') (\<lambda>_.
       if b then ret () else install_and_verify_service env))) h1 = Some (Inr (), h')"
    by (auto simp: setup_install_step_def seq_Some [of "finalize_setup env dd d sel t"])
  have "stays sh_config (seq (config_has_catchall env) (\<lambda>b'. seq (if b' then ensure_catchall_user env else ret ()) (\<lambda>_. seq (file_op env ''README.md'') (\<lambda>_.
       if b then ret () else install_and_verify_service env))))"
    by (intro stays_intros)
  from staysD [OF this rest] have "sh_config h' = sh_config h1" .
  moreover from fin obtain c h2 where c: "config_for_setup env dd d sel t h = Some (Inr c, h2)"
    and more: "seq (ensure_mailbox_dirs env dd (cfg_mailboxes c)) (\<lambda>_. seq (look sh_dkim) (\<lambda>k. if k then ret () else generate_keypair env)) h2 = Some (Inr (), h1)"
    by (auto simp: finalize_setup_def seq_Some [of "file_op env dd"] seq_Some [of "file_op env ''config dir''"] seq_Some [of "config_for_setup env dd d sel t"]
        split: option.splits)
  moreover have "stays sh_config (seq (ensure_mailbox_dirs env dd (cfg_mailboxes c)) (\<lambda>_. seq (look sh_dkim) (\<lambda>k. if k then ret () else generate_keypair env)))"
    by (intro stays_intros)
  from staysD [OF this more] have "sh_config h1 = sh_config h2" .
  ultimately show ?thesis using config_for_setup_resettled [OF c assms(2)] by simp
qed

lemma rerun_config:
  assumes "run_setup env (Some d) dd inp h = Some (Inr (), h')" "sh_config h = Some (Inr cfg)"
  shows "sh_config h' = Some (Inr (resettled d cfg)) \<and> validate_domain d = Inr ()"
proof -
  let ?dd = "case dd of Some d \<Rightarrow> d | None \<Rightarrow> ''/var/lib/aimx''"
  from assms(1) have "seq (setup_port_step env) (\<lambda>_. seq (setup_domain (Some d) inp) (\<lambda>(d, i). seq (setup_dns_step env ?dd d i)
      (\<lambda>(b, sel, i). seq (setup_tls_step env b) (\<lambda>_. seq (setup_trust_step env i) (\<lambda>t. setup_install_step env ?dd d sel t b))))) h = Some (Inr (), h')"
    by (simp add: run_setup_def Let_def split: if_splits)
  then obtain u1 h1 d' i h2 b sel i2 h3 u2 h4 t h5 where
    s1: "setup_port_step env h = Some (Inr u1, h1)" and s2: "setup_domain (Some d) inp h1 = Some (Inr (d', i), h2)"
    and s3: "setup_dns_step env ?dd d' i h2 = Some (Inr (b, sel, i2), h3)" and s4: "setup_tls_step env b h3 = Some (Inr u2, h4)"
    and s5: "setup_trust_step env i2 h4 = Some (Inr t, h5)" and s6: "setup_install_step env ?dd d' sel t b h5 = Some (Inr (), h')"
    by (auto simp: seq_Some [of "setup_port_step env"] seq_Some [of "setup_domain (Some d) inp"] seq_Some [of "setup_dns_step env _ _ _"]
        seq_Some [of "setup_tls_step env _"] seq_Some [of "setup_trust_step env _"])
  have d: "d' = d" "validate_domain d = Inr ()" using s2 by (auto simp: setup_domain_def seq_Some)
  have "sh_config h5 = sh_config h"
    using staysD [OF steps_stay(1) s1] staysD [OF steps_stay(2) s2] staysD [OF dns_step_stays s3] staysD [OF steps_stay(3) s4] staysD [OF steps_stay(4) s5]
    by simp
  with install_step_config [OF s6] assms(2) d show ?thesis by simp
qed

lemma resettled_lookup:
  "lookup_mailbox (resettled d cfg) n =
     (case lookup_mailbox cfg n of
        Some mb \<Rightarrow> Some (if cfg_domain cfg \<noteq> d then move_address (cfg_domain cfg) d mb else mb)
      | None \<Rightarrow> if n = ''catchall'' then Some (catchall_mailbox d) else None)"
proof -
  have add: "lookup_mailbox (add_catchall d c) m = (case lookup_mailbox c m of Some mb \<Rightarrow> Some mb | None \<Rightarrow> if m = ''catchall'' then Some (catchall_mailbox d) else None)" for c m
    by (simp add: lookup_mailbox_def add_catchall_def map_add_def split: option.split)
  show ?thesis by (auto simp: resettled_def Let_def add lookup_move split: option.splits)
qed

text \<open>
  C20: Setting up a host again, for its domain or another, keeps what the operator configured: the trust
  policy and every mailbox with its owner, hooks and trust; only the domain and the addresses on the old
  one change, and a recipient that was delivered to a mailbox is delivered to the same one. What is new
  at most is the catchall.
\<close>

theorem rerun_keeps_the_configuration:
  assumes "run_setup env (Some d) dd inp h = Some (Inr (), h')" "sh_config h = Some (Inr cfg)"
  shows "\<exists>cfg'. sh_config h' = Some (Inr cfg') \<and> cfg_domain cfg' = d \<and> cfg_trust cfg' = cfg_trust cfg \<and>
    cfg_trusted_senders cfg' = cfg_trusted_senders cfg \<and> cfg_data_dir cfg' = cfg_data_dir cfg \<and>
    (\<forall>n mb. lookup_mailbox cfg n = Some mb \<longrightarrow> (\<exists>mb'. lookup_mailbox cfg' n = Some mb' \<and> mb_owner mb' = mb_owner mb \<and>
       mb_hooks mb' = mb_hooks mb \<and> mb_trust mb' = mb_trust mb \<and> mb_trusted_senders mb' = mb_trusted_senders mb \<and>
       (\<forall>l. mb_address mb = l @ ''@'' @ cfg_domain cfg \<longrightarrow> mb_address mb' = l @ ''@'' @ d))) \<and>
    (\<forall>n. lookup_mailbox cfg n = None \<longrightarrow> n \<noteq> ''catchall'' \<longrightarrow> lookup_mailbox cfg' n = None) \<and>
    (\<forall>rcpt n. resolve_recipient_mailbox cfg rcpt = Some n \<longrightarrow> resolve_recipient_mailbox cfg' rcpt = Some n)"
proof -
  let ?cfg' = "resettled d cfg"
  have moved: "mb_address (move_address a b mb) = l @ ''@'' @ b" if "mb_address mb = l @ ''@'' @ a" for a b l mb
    using that by (simp add: move_address_def strip_suffix_def ends_with_def)
  have parts: "cfg_domain ?cfg' = d" "cfg_trust ?cfg' = cfg_trust cfg" "cfg_trusted_senders ?cfg' = cfg_trusted_senders cfg" "cfg_data_dir ?cfg' = cfg_data_dir cfg"
    by (simp_all add: resettled_def Let_def move_domain_def add_catchall_def)
  have mailbox: "\<exists>mb'. lookup_mailbox ?cfg' n = Some mb' \<and> mb_owner mb' = mb_owner mb \<and> mb_hooks mb' = mb_hooks mb \<and> mb_trust mb' = mb_trust mb \<and>
      mb_trusted_senders mb' = mb_trusted_senders mb \<and> (\<forall>l. mb_address mb = l @ ''@'' @ cfg_domain cfg \<longrightarrow> mb_address mb' = l @ ''@'' @ d)"
    if "lookup_mailbox cfg n = Some mb" for n mb
    using that moved by (auto simp: resettled_lookup)
  have "resolve_recipient_mailbox ?cfg' rcpt = Some n" if "resolve_recipient_mailbox cfg rcpt = Some n" for rcpt n
    using that by (auto simp: resolve_recipient_mailbox_def Let_def resettled_lookup split: option.splits if_splits)
  with parts mailbox rerun_config [OF assms] show ?thesis
    by (intro exI [of _ ?cfg']) (auto simp: resettled_lookup)
qed

section \<open>Validators and prompts\<close>

lemma split_char_nonempty [simp]: "split_char c s \<noteq> []"
  by (induction s) (auto split: list.splits)

lemma split_char_set: "x \<in> set s \<Longrightarrow> x \<noteq> c \<Longrightarrow> \<exists>p\<in>set (split_char c s). x \<in> set p"
proof (induction s)
  case (Cons y s)
  then show ?case by (cases "split_char c s") auto
qed simp

text \<open>
  C23: A domain the setup takes is a host name within the limits of DNS: at most 253 characters, two
  labels or more, each of one to 63 letters, digits and hyphens with no hyphen at either end; so it
  is one for which the advised records pass.
\<close>

theorem validated_domain:
  assumes "validate_domain d = Inr ()"
  shows "host_name d \<and> length d \<le> 253 \<and> 2 \<le> length (split_char CHR ''.'' d) \<and>
    list_all (\<lambda>l. 1 \<le> length l \<and> length l \<le> 63 \<and> hd l \<noteq> CHR ''-'' \<and> last l \<noteq> CHR ''-'') (split_char CHR ''.'' d)"
proof -
  from assms have ne: "d \<noteq> []" and len: "length d \<le> 253" and two: "2 \<le> length (split_char CHR ''.'' d)"
    and labels: "\<forall>l\<in>set (split_char CHR ''.'' d). domain_label_error l = None"
    by (auto simp: validate_domain_def first_some_None [symmetric] split: if_splits option.splits)
  have chars: "is_ascii_alphanumeric c \<or> c = CHR ''-'' \<or> c = CHR ''.''" if "c \<in> set d" for c
  proof (cases "c = CHR ''.''")
    case False
    with split_char_set [OF that] obtain l where "l \<in> set (split_char CHR ''.'' d)" "c \<in> set l" by auto
    with labels show ?thesis by (auto simp: domain_label_error_def list_all_iff split: if_splits)
  qed simp
  have "1 \<le> length l \<and> length l \<le> 63 \<and> hd l \<noteq> CHR ''-'' \<and> last l \<noteq> CHR ''-''" if "l \<in> set (split_char CHR ''.'' d)" for l
  proof -
    have no: "domain_label_error l = None" using labels that by blast
    then have l: "l \<noteq> []" "length l \<le> 63" "\<not> starts_with l ''-''" "\<not> ends_with l ''-''"
      by (auto simp: domain_label_error_def split: if_splits)
    then have "hd l \<noteq> CHR ''-''" by (cases l) auto
    moreover have "last l \<noteq> CHR ''-''" using l(1,4) by (cases l rule: rev_cases) (auto simp: ends_with_def)
    ultimately show ?thesis using l(1,2) by (cases l) auto
  qed
  then show ?thesis using ne len two chars by (auto simp: host_name_def list_all_iff)
qed

theorem validated_domain_witness:
  "host_name ''mail.example.com'' \<and> length (split_char CHR ''.'' ''mail.example.com'') = 3"
proof -
  have "validate_domain ''mail.example.com'' = Inr ()" by code_simp
  from validated_domain [OF this] show ?thesis by simp
qed

lemma sender_entries_ok: "sender_entries raws = Inr es \<Longrightarrow> list_all (\<lambda>e. validate_trusted_sender e = Inr ()) es"
  by (induction raws arbitrary: es) (auto simp: Let_def split: if_splits sum.splits)

text \<open>
  The policy and the senders of the prompt belong together: none at all disables, and any that are
  there are addresses or patterns of the form the validator wants.
\<close>

lemma prompt_answers:
  "prompt_trusted_senders a ls yn = Inr (policy, senders) \<Longrightarrow>
   (policy = ''none'' \<and> senders = []) \<or>
   (policy = ''verified'' \<and> senders \<noteq> [] \<and> list_all (\<lambda>e. validate_trusted_sender e = Inr ()) senders)"
proof (induction a ls yn rule: prompt_trusted_senders.induct)
  case (2 a line rest yn)
  then show ?case
    using sender_entries_ok
    by (fastforce simp: parse_trusted_senders_line_def split: sum.splits prod.splits if_splits)
qed simp

lemma dns_loop_result:
  assumes "dns_loop pass k inp = Some inp'"
  shows "inp = [] \<longrightarrow> (\<exists>n. k \<le> n \<and> pass n)"
proof (rule dns_loop.raw_induct [where P = "\<lambda>pass k inp r. inp = [] \<longrightarrow> (\<exists>n. k \<le> n \<and> pass n)", OF _ assms])
  fix loop :: "(nat \<Rightarrow> bool) \<Rightarrow> nat \<Rightarrow> input \<Rightarrow> input option" and pass k inp r
  assume IH: "\<And>pass k inp r. loop pass k inp = Some r \<Longrightarrow> inp = [] \<longrightarrow> (\<exists>n. k \<le> n \<and> pass n)"
    and body: "(case read_input inp of (line, inp') \<Rightarrow>
      if eq_ignore_ascii_case (trim line) ''q'' then Some inp' else if pass k then Some inp' else loop pass (k + 1) inp') = Some r"
  show "inp = [] \<longrightarrow> (\<exists>n. k \<le> n \<and> pass n)"
  proof
    assume inp: "inp = []"
    show "\<exists>n. k \<le> n \<and> pass n"
    proof (cases "pass k")
      case True
      then show ?thesis by blast
    next
      case False
      with body inp have "loop pass (k + 1) [] = Some r" by (simp add: eq_ignore_ascii_case_def to_ascii_lowercase_def)
      from IH [OF this] obtain n where "k + 1 \<le> n" "pass n" by blast
      then show ?thesis by (intro exI [of _ n]) simp
    qed
  qed
qed

text \<open>
  Once the input has ended, the loop over the DNS checks ends only if the checks come to pass:
  the end of the input reads as an empty line, which asks for the checks again, so a setup without a
  terminal never returns while a record is missing.
\<close>

theorem dns_loop_at_end_of_input:
  "(\<exists>inp'. dns_loop pass k [] = Some inp') \<longleftrightarrow> (\<exists>n. k \<le> n \<and> pass n)"
proof
  assume "\<exists>inp'. dns_loop pass k [] = Some inp'"
  then show "\<exists>n. k \<le> n \<and> pass n" using dns_loop_result by blast
next
  have step: "dns_loop pass k [] = (if pass k then Some [] else dns_loop pass (k + 1) [])" for k
    by (subst dns_loop.simps) (simp add: eq_ignore_ascii_case_def to_ascii_lowercase_def)
  have "\<exists>inp'. dns_loop pass k [] = Some inp'" if "pass n" "n = k + j" for n j k
    using that
  proof (induction j arbitrary: k)
    case 0
    then show ?case by (simp add: step [of k])
  next
    case (Suc j)
    then show ?case using Suc.IH [of "k + 1"] by (simp add: step [of k])
  qed
  then show "\<exists>n. k \<le> n \<and> pass n \<Longrightarrow> \<exists>inp'. dns_loop pass k [] = Some inp'" by (metis le_Suc_ex)
qed

section \<open>Where a run may hang\<close>

text \<open>Every step but the DNS loop returns; so does a run whose operator quits the loop.\<close>

definition returns :: "'a act \<Rightarrow> bool" where
  "returns m \<longleftrightarrow> (\<forall>h. m h \<noteq> None)"

named_theorems returns_intros

lemma returns_seq [returns_intros]: "returns m \<Longrightarrow> (\<And>x. returns (g x)) \<Longrightarrow> returns (seq m g)"
  unfolding returns_def seq_def by (fastforce split: option.split sum.split)

lemma returns_steps [returns_intros]:
  "returns (ret x)" "returns (fail e)" "returns (look g)" "returns (of_result r)" "returns (file_op env p)" "returns (update u)"
  by (simp_all add: returns_def ret_def fail_def look_def of_result_def file_op_def update_def split: sum.split option.split)

lemma returns_if [returns_intros]: "(b \<Longrightarrow> returns m) \<Longrightarrow> (\<not> b \<Longrightarrow> returns n) \<Longrightarrow> returns (if b then m else n)"
  by simp

lemma returns_sum [returns_intros]: "(\<And>x. returns (m x)) \<Longrightarrow> (\<And>y. returns (n y)) \<Longrightarrow> returns (case s of Inl x \<Rightarrow> m x | Inr y \<Rightarrow> n y)"
  by (cases s) simp_all

lemma returns_option [returns_intros]: "returns m \<Longrightarrow> (\<And>y. returns (n y)) \<Longrightarrow> returns (case s of None \<Rightarrow> m | Some y \<Rightarrow> n y)"
  by (cases s) simp_all

lemma returns_prod [returns_intros]: "(\<And>x y. returns (m x y)) \<Longrightarrow> returns (case s of (x, y) \<Rightarrow> m x y)"
  by (cases s) simp_all

lemma returns_status [returns_intros]:
  "returns m \<Longrightarrow> returns n \<Longrightarrow> (\<And>y. returns (k y)) \<Longrightarrow> returns (case s of Free \<Rightarrow> m | Aimx \<Rightarrow> n | OtherProcess y \<Rightarrow> k y)"
  by (cases s) simp_all

lemma returns_dirs [returns_intros]: "returns (ensure_mailbox_dirs env dd mbs)"
  by (induction mbs rule: ensure_mailbox_dirs.induct)
    (simp_all only: ensure_mailbox_dirs.simps mailbox_owner_ids_def mailbox_dir_def, (intro returns_intros; assumption?)+)

lemma returns_components [returns_intros]:
  "returns (load_config env)" "returns (generate_keypair env)" "returns (config_has_catchall env)" "returns (ensure_catchall_user env)"
  "returns (install_and_verify_service env)" "returns (install_config_file env cfg)"
  unfolding load_config_def generate_keypair_def config_has_catchall_def ensure_catchall_user_def create_system_user_def
    ensure_owned_directory_def install_and_verify_service_def install_config_file_def
  by (intro returns_intros)+

lemma returns_install [returns_intros]: "returns (setup_install_step env dd d sel t b)"
  unfolding setup_install_step_def finalize_setup_def config_for_setup_def change_domain_def with_catchall_def Let_def
  by (intro returns_intros)

lemma returns_front [returns_intros]:
  "returns (setup_port_step env)" "returns (setup_tls_step env b)" "returns (setup_trust_step env inp)" "returns (ensure_dkim_key env)"
  unfolding setup_port_step_def setup_tls_step_def setup_trust_step_def ensure_dkim_key_def Let_def by (intro returns_intros)+

lemma returns_dns [returns_intros]: "returns (setup_dns_step env dd d (''q'' # inp))"
  unfolding setup_dns_step_def Let_def dns_loop_skip
  by (intro returns_intros) (simp add: returns_def)

lemma returns_domain:
  "returns (f (d, inp)) \<Longrightarrow> returns (seq (setup_domain (Some d) inp) f)"
  using returns_steps(4) [of "validate_domain d"]
  by (cases "validate_domain d") (simp_all add: setup_domain_def returns_def seq_def of_result_def fail_def ret_def)

lemma quitting_run_returns: "returns (run_setup env (Some d) dd (''q'' # inp))"
proof (cases "se_root env")
  case True
  have "returns (seq (setup_port_step env) (\<lambda>_. seq (setup_domain (Some d) (''q'' # inp)) f))" if "returns (f (d, ''q'' # inp))" for f :: "string \<times> input \<Rightarrow> unit act"
    using that by (intro returns_seq returns_front(1) returns_domain)
  from this [of "\<lambda>(domain, inp). seq (setup_dns_step env (case dd of Some d \<Rightarrow> d | None \<Rightarrow> ''/var/lib/aimx'') domain inp)
      (\<lambda>(b, sel, inp). seq (setup_tls_step env b) (\<lambda>_. seq (setup_trust_step env inp)
      (\<lambda>t. setup_install_step env (case dd of Some d \<Rightarrow> d | None \<Rightarrow> ''/var/lib/aimx'') domain sel t b)))"]
  have "returns (seq (setup_dns_step env (case dd of Some d \<Rightarrow> d | None \<Rightarrow> ''/var/lib/aimx'') d (''q'' # inp))
      (\<lambda>(b, sel, inp). seq (setup_tls_step env b) (\<lambda>_. seq (setup_trust_step env inp)
      (\<lambda>t. setup_install_step env (case dd of Some d \<Rightarrow> d | None \<Rightarrow> ''/var/lib/aimx'') d sel t b)))) \<Longrightarrow> ?thesis"
    using True by (simp add: run_setup_def Let_def)
  then show ?thesis by (elim meta_mp) (intro returns_intros)
qed (simp add: run_setup_def returns_steps)

section \<open>A host to try them on\<close>

definition setup_demo_env :: setup_env where
  "setup_demo_env =
     \<lparr>se_root = True, se_noninteractive = Some ''1'', se_port25 = Inr Free, se_temp_bind = Inr (), se_outbound = Inr True,
      se_inbound = Inr True, se_ips = Inr (Some 0x08080808, None), se_io = (\<lambda>_. None), se_umask_mode = 0, se_self = (0, 0),
      se_keygen = Inr (), se_public_key = Inr ''QUJD'',
      se_dns = (\<lambda>_. \<lparr>no_mx = (\<lambda>_. Inl []), no_a = (\<lambda>_. Inl []), no_aaaa = (\<lambda>_. Inl []), no_txt = (\<lambda>_. Inl []),
        no_lower = (\<lambda>s. s), no_debug = concat, no_debug_ips = (\<lambda>_. [])\<rparr>), se_tls = Inr (), se_useradd = Inl ''useradd'',
      se_service = Inr (), se_ready = True, se_config_path = ''/etc/aimx/config.toml'', se_sha = (\<lambda>b. b), se_show = (\<lambda>_. []),
      se_show_user = (\<lambda>_. []), se_senders = []\<rparr>"

definition fresh_host :: "resolved_user option \<Rightarrow> setup_host" where
  "fresh_host u =
     \<lparr>sh_users = (\<lambda>n. if n = ''aimx-catchall'' then u else None), sh_config = None, sh_config_mode = 0, sh_dkim = False,
      sh_cert = False, sh_running = False, sh_dirs = (\<lambda>_. None)\<rparr>"

definition catchall_user :: resolved_user where
  "catchall_user = \<lparr>ru_name = ''aimx-catchall'', ru_uid = 999, ru_gid = 998\<rparr>"

lemma fresh_host_lacks: "lacks_catchall_user (fresh_host None)"
  by (simp add: lacks_catchall_user_def fresh_host_def)

lemma fresh_run_ends: "run_setup setup_demo_env (Some ''a.io'') (Some ''/d'') [''q''] (fresh_host None) \<noteq> None"
  using quitting_run_returns [of setup_demo_env "''a.io''" "Some ''/d''" "[]"] by (simp add: returns_def)



definition configured_host :: setup_host where
  "configured_host = (fresh_host (Some catchall_user))\<lparr>sh_config := Some (Inr (fresh_config ''/d'' ''a.io'' ''aimx'' (''none'', [])))\<rparr>"

lemma rerun_works: "case run_setup setup_demo_env (Some ''b.io'') (Some ''/d'') [''q''] configured_host of Some (Inr _, _) \<Rightarrow> True | _ \<Rightarrow> False"
  by code_simp

theorem rerun_keeps_the_configuration_witness:
  "\<exists>h' cfg'. run_setup setup_demo_env (Some ''b.io'') (Some ''/d'') [''q''] configured_host = Some (Inr (), h') \<and>
     sh_config h' = Some (Inr cfg') \<and> cfg_domain cfg' = ''b.io''"
proof -
  obtain h' where run: "run_setup setup_demo_env (Some ''b.io'') (Some ''/d'') [''q''] configured_host = Some (Inr (), h')"
    using rerun_works by (auto split: option.splits sum.splits prod.splits)
  have "sh_config configured_host = Some (Inr (fresh_config ''/d'' ''a.io'' ''aimx'' (''none'', [])))" by (simp add: configured_host_def)
  from rerun_keeps_the_configuration [OF run this] run show ?thesis by blast
qed

end
