(* ===== verification/Spec2Isabelle.thy ===== *)
theory Spec2Isabelle
  imports WireSafety SmtpData IngestHooks Transport McpFacts UpgradeFacts VerifierFacts SetupFacts
begin

text \<open>
  AIMX is a mail server for AI agents: one root daemon (\<open>aimx serve\<close>) that receives mail over SMTP,
  stores every mail as a Markdown file with a TOML block in front, starts the hooks of a mailbox,
  and signs and delivers outgoing mail; clients that talk to it over a Unix socket (\<open>aimx send\<close>,
  \<open>aimx mcp\<close>); and the commands that install, check and upgrade it. This development models that
  code of \<open>src/\<close> and \<open>services/verifier/\<close> as functions of HOL and proves what makes each part correct.

  How the model is written. A \<open>String\<close>, a \<open>&str\<close> and a \<open>Vec<u8>\<close> are lists of bytes (\<open>Prelude\<close>, with the
  UTF-8 functions the code uses); an integer is a natural number with its bound written where the
  code has one, an Internet address a 32 or 128 bit word (\<open>IpAddr\<close>). A \<open>Result\<close> is a sum whose left
  side is the error, a panic is a value of its own (\<open>None\<close> of a slice that would panic). State is
  passed explicitly. Files are seen as each part sees them: a finite map of nodes for mailbox
  requests (\<open>MailboxCrud\<close>), a tree with symbolic links and owners for mail (\<open>MailTree\<close>), a map of
  binaries for the upgrade (\<open>Upgrade\<close>), the facts a setup looks at (\<open>Setup\<close>). Each operation that may
  fail does so by a fault of the environment, so that a theorem holds for every failure at every
  point. What is not under \<open>src/\<close> is a parameter: fields of the records whose names end in \<open>env\<close>, and
  \<open>wire_env\<close>, \<open>verifiers\<close>, \<open>kv_ops\<close>, \<open>user_db\<close>, \<open>dig_runner\<close>, \<open>network_ops\<close>, \<open>internet\<close>.

  The parts, in the order of the imports.

  Receiving mail. \<open>SmtpRead\<close>, \<open>SmtpSession\<close>, \<open>SmtpLoop\<close> model \<open>src/smtp/session.rs\<close>: the bounded line
  reader over a stream of network events, the DATA reader, the command handlers, the loop, the TLS
  upgrade. \<open>SmtpFacts\<close> has the invariant of the session and what is ingested, \<open>SmtpData\<close> the
  transparency of DATA for any chunks. A message goes to \<open>Ingest\<close> (\<open>ingest_email\<close> of \<open>src/ingest.rs\<close>),
  with the authentication inputs and summary in \<open>IngestAuth\<close>, the cache of Message-Ids in \<open>IngestDedup\<close>,
  \<open>Trust\<close> (\<open>src/trust.rs\<close>), \<open>Names\<close> (\<open>src/slug.rs\<close>) and \<open>Frontmatter\<close> (\<open>src/frontmatter.rs\<close>). \<open>Hook\<close> and
  \<open>HookFire\<close> are \<open>src/hook.rs\<close>. \<open>IngestFacts\<close>, \<open>IngestHooks\<close> and \<open>NamesFacts\<close> show what an ingest writes, when
  it drops a retry, which processes it starts and that its search for a name ends.

  Configuration. \<open>Config\<close>, \<open>ConfigLoad\<close>, \<open>ConfigHandle\<close> are \<open>src/config.rs\<close> from the parsed TOML value on;
  \<open>ConfigFacts\<close> characterises what \<open>Config::load\<close> takes, and states the locale of the shared handle.

  Who may do what. \<open>Auth\<close> is \<open>src/auth.rs\<close>, \<open>UdsAuthz\<close> is \<open>src/uds_authz.rs\<close>; the locales \<open>owner_gate\<close> and
  \<open>exclusive_gate\<close> state what both promise and are interpreted on each.

  The socket. \<open>WireCodec\<close> is \<open>src/send_protocol.rs\<close>; \<open>WireFacts\<close>, \<open>WireRoundtrip\<close> and \<open>WireSafety\<close> prove over
  the locale \<open>frame_codec\<close> that sequences of frames parse back and that no text escapes its frame. The
  handlers are \<open>MailboxCrud\<close> and \<open>MailboxHandler\<close> (\<open>src/mailbox_handler.rs\<close>), \<open>MarkHandler\<close>
  (\<open>src/state_handler.rs\<close>), \<open>HookHandler\<close> (\<open>src/hook_handler.rs\<close>), \<open>SendHandler\<close> (\<open>src/send_handler.rs\<close>) and
  \<open>Listing\<close> (the two list handlers), each with its theory of facts. \<open>Daemon\<close> puts them together: the
  dispatcher of \<open>src/serve.rs\<close>, reloads, and a run as a list of connections, faults and changes of the
  disk in any order; \<open>DaemonFacts\<close> has the invariants of such runs and the answer to every request.

  Sending mail. \<open>MimeText\<close> and \<open>WireAssembly\<close> are \<open>src/wire_assembly.rs\<close>, with \<open>MimeFacts\<close>, \<open>AssemblyFacts\<close>,
  \<open>AttachmentFacts\<close> and \<open>MultipartFacts\<close> on its round trips; \<open>Transport\<close> is \<open>src/transport.rs\<close>.

  Clients. \<open>Compose\<close> and \<open>Client\<close> are \<open>src/send.rs\<close> and the socket side of \<open>src/mcp.rs\<close>, \<open>McpTools\<close> its
  tools. \<open>ClientFacts\<close> states what a client needs of a daemon as the locales \<open>daemon_service\<close>,
  \<open>ack_service\<close> and \<open>json_service\<close>; \<open>McpFacts\<close> interprets them on the modelled daemon, so that a tool is
  shown to do what the handler does.

  Installing and checking. \<open>Verifier\<close> is the port check service (\<open>services/verifier/src/main.rs\<close>);
  \<open>Preflight\<close> the checks of \<open>src/setup.rs\<close> and \<open>src/portcheck.rs\<close> that talk to it; \<open>PreflightFacts\<close> states
  what a client of either check needs of a server as the locale \<open>ehlo_server\<close>, interpreted on the
  service's responder, the temporary one and the daemon's SMTP session. \<open>Dns\<close> has the lookups through
  \<open>dig\<close>, the advised records and their checks, with the keys of \<open>src/dkim.rs\<close> and the startup check of
  \<open>src/serve.rs\<close>; \<open>DnsText\<close> the texts a zone serves; \<open>DnsFacts\<close> that published records pass. \<open>Setup\<close> is the
  wizard of \<open>src/setup.rs\<close> as one function over a host, \<open>SetupFacts\<close> what it leaves behind. \<open>Release\<close> and
  \<open>Upgrade\<close> are \<open>src/release.rs\<close> and \<open>src/upgrade.rs\<close>, \<open>UpgradeFacts\<close> every outcome of an upgrade.

  Bounds and loops. Every loop of the code is a terminating function: readers consume their stream,
  searches descend on what is left. Two may run forever and are partial functions whose value \<open>None\<close>
  is not returning: the search for a free file name (\<open>first_free\<close>, which ends on every finite
  directory) and the loop over the DNS checks (\<open>dns_loop\<close>, which ends with the input or with a check
  that passes, and not otherwise). Links are followed 40 times (\<open>MAX_LINKS\<close>), Linux's own limit. The
  caps of the code (lines, messages, bodies, attachments, commands) are constants of the model.

  Assumptions on parameters are premises of the theorems that need them: laws of the cache crate, a
  finite tree, a base64 decoder that inverts the encoder, a consistent user database, a lower case
  function that agrees with ASCII. Each such theorem has a witness at a concrete input.

  What modelling showed to be wrong is proved as well: the setup that never creates the user it
  needs and the loop that spins at the end of the input (\<open>SetupFacts\<close>), the rollbacks that restore the
  wrong binary or leave the new one running (\<open>UpgradeFacts\<close>), the reload that takes back a request
  (\<open>DaemonFacts\<close>), the planted link (\<open>MarkFacts\<close>), signatures of foreign domains and mail that makes
  ingest panic (\<open>IngestHooks\<close>), the second From header (\<open>SendFacts\<close>), the first attachment taken for the
  text (\<open>ComposeFacts\<close>), text after a rejected message run as commands (\<open>SmtpData\<close>).

  Not modelled. TLS, DNS, DKIM, SPF and DMARC themselves, MIME parsing, HTML and Markdown rendering,
  TOML and JSON, base64: crates the sources call. Process set-up, signals, logging, service units and
  the spawning of a hook's process (\<open>src/main.rs\<close>, \<open>src/platform.rs\<close>, \<open>src/logging.rs\<close>, parts of
  \<open>src/serve.rs\<close>): the operating system's. The terminal side of the commands: pickers, prompts' texts
  and colors, the wiring of agents' configuration files (\<open>src/agents_*.rs\<close>), \<open>src/hooks.rs\<close>,
  \<open>src/uninstall.rs\<close>, the report of \<open>src/doctor.rs\<close> and the mailbox commands of \<open>src/mailbox.rs\<close>. Time is
  not modelled but as a value that is read and as a peer that falls silent; locks are, as the order
  of whole steps.
\<close>

end
